(* ===== verification/Prelude.thy ===== *)
theory Prelude
  imports Main "HOL-Library.AList" "HOL-Library.Product_Lexorder" "HOL-Library.Word"
begin

text \<open>
  Shared vocabulary of the development: the types every component uses (identifiers,
  money in cents, days and instants), Python dictionaries as association lists in
  insertion order, and the generic facts on lists and sums that the component proofs
  share.
\<close>

section \<open>Base types\<close>

text \<open>
  A UUID is its 128-bit value; ordering UUIDs, or their canonical texts, is ordering
  these values. Amounts that live in the database are \<open>DecimalField(18, 2)\<close> values,
  which are whole numbers of cents. A date is its proleptic day number
  (\<open>date.toordinal\<close>), an instant the microseconds since the epoch in UTC.
\<close>

type_synonym uuid = "128 word"
type_synonym money = int
type_synonym date = int
type_synonym instant = int

section \<open>Facts collections\<close>

text \<open>
  \<open>wp\<close> holds the rules that compute the weakest precondition of an effectful step,
  \<open>frame\<close> the facts that an operation leaves a field of the state alone.
\<close>

named_theorems wp \<open>weakest-precondition rules\<close>
named_theorems frame \<open>fields an operation does not touch\<close>

section \<open>Dictionaries in insertion order\<close>

text \<open>
  A Python dictionary iterates over its keys in insertion order, and overwriting a key
  keeps its place: \<open>AList.update\<close> does the same. \<open>dict_get0\<close> and \<open>dict_add\<close> are the
  reads and the \<open>+=\<close> of a \<open>defaultdict(lambda: Decimal("0.00"))\<close>.
\<close>

definition dict_get0 :: "('k \<times> money) list \<Rightarrow> 'k \<Rightarrow> money" where
  "dict_get0 d k = (case map_of d k of None \<Rightarrow> 0 | Some v \<Rightarrow> v)"

definition dict_add :: "'k \<Rightarrow> money \<Rightarrow> ('k \<times> money) list \<Rightarrow> ('k \<times> money) list" where
  "dict_add k x d = AList.update k (dict_get0 d k + x) d"

lemma dict_get0_Nil [simp]: "dict_get0 [] k = 0"
  by (simp add: dict_get0_def)

lemma dict_get0_add: "dict_get0 (dict_add k x d) j = dict_get0 d j + (if j = k then x else 0)"
  by (simp add: dict_get0_def dict_add_def update_conv' split: option.splits)

lemma keys_dict_add [simp]: "fst ` set (dict_add k x d) = insert k (fst ` set d)"
  by (simp add: dict_add_def dom_update)

lemma distinct_dict_add [simp]:
  "distinct (map fst d) \<Longrightarrow> distinct (map fst (dict_add k x d))"
  by (simp add: dict_add_def distinct_update)

lemma dict_get0_item:
  "distinct (map fst d) \<Longrightarrow> (k, v) \<in> set d \<Longrightarrow> dict_get0 d k = v"
  by (simp add: dict_get0_def)

section \<open>Sums over filtered lists\<close>

lemma sum_list_filter_le:
  fixes f :: "'a \<Rightarrow> int"
  assumes "\<And>x. x \<in> set xs \<Longrightarrow> 0 \<le> f x"
  shows "sum_list (map f (filter P xs)) \<le> sum_list (map f xs)"
  using assms by (induction xs) (auto intro: add_increasing)

lemma sum_list_nonneg_int:
  fixes f :: "'a \<Rightarrow> int"
  assumes "\<And>x. x \<in> set xs \<Longrightarrow> 0 \<le> f x"
  shows "0 \<le> sum_list (map f xs)"
  using assms by (induction xs) auto

lemma sum_list_zero_int:
  fixes f :: "'a \<Rightarrow> int"
  assumes "\<And>x. x \<in> set xs \<Longrightarrow> f x = 0"
  shows "sum_list (map f xs) = 0"
  using assms by (induction xs) auto

lemma sum_list_pos_int:
  fixes f :: "'a \<Rightarrow> int"
  assumes "xs \<noteq> []" "\<And>x. x \<in> set xs \<Longrightarrow> 0 < f x"
  shows "0 < sum_list (map f xs)"
proof (cases xs)
  case (Cons y ys)
  then have "0 < f y" and "0 \<le> sum_list (map f ys)"
    using assms(2) by (simp_all add: less_imp_le sum_list_nonneg_int)
  with Cons show ?thesis by simp
qed (use assms(1) in simp)

lemma filter_False_conv: "(\<And>x. x \<in> set xs \<Longrightarrow> \<not> P x) \<Longrightarrow> filter P xs = []"
  by (induction xs) auto

section \<open>Row lookup by identifier\<close>

text \<open>\<open>find_row\<close> is \<open>Model.objects.get(pk=...)\<close> without the exception.\<close>

definition find_row :: "('r \<Rightarrow> 'k) \<Rightarrow> 'r list \<Rightarrow> 'k \<Rightarrow> 'r option" where
  "find_row idf rows k = List.find (\<lambda>r. idf r = k) rows"

lemma find_row_Some: "find_row idf rows k = Some r \<Longrightarrow> r \<in> set rows \<and> idf r = k"
  unfolding find_row_def by (induction rows) (auto split: if_splits)

lemma find_row_None: "find_row idf rows k = None \<longleftrightarrow> k \<notin> idf ` set rows"
  unfolding find_row_def by (induction rows) auto

lemma find_row_unique:
  "distinct (map idf rows) \<Longrightarrow> r \<in> set rows \<Longrightarrow> find_row idf rows (idf r) = Some r"
  unfolding find_row_def by (induction rows) auto

end
