(* ===== verification/Py_Text.thy ===== *)
theory Py_Text
  imports Prelude "HOL-Library.Char_ord"
begin

text \<open>
  Python strings as lists of code points, the string methods the program calls, and the
  JSON values it stores and exchanges. \<open>lit\<close> writes an ASCII literal; the Chinese texts
  of the program are written as their code points.
\<close>

section \<open>Strings\<close>

type_synonym pystr = "nat list"

definition lit :: "string \<Rightarrow> pystr" where
  "lit s = map of_char s"

lemma lit_inject [simp]: "lit s = lit t \<longleftrightarrow> s = t"
  by (simp add: lit_def inj_map_eq_map inj_on_def)

lemma lit_eq_Nil [simp]: "lit s = [] \<longleftrightarrow> s = []" "[] = lit s \<longleftrightarrow> s = []"
  by (simp_all add: lit_def)

lemma length_lit [simp]: "length (lit s) = length s"
  by (simp add: lit_def)

lemma lit_append [simp]: "lit (s @ t) = lit s @ lit t"
  by (simp add: lit_def)

text \<open>The code points that \<open>str.isspace\<close>, \<open>strip\<close> and \<open>split\<close> treat as white space.\<close>

definition py_space :: "nat \<Rightarrow> bool" where
  "py_space c \<longleftrightarrow> (9 \<le> c \<and> c \<le> 13) \<or> (28 \<le> c \<and> c \<le> 32) \<or> c = 133 \<or> c = 160 \<or> c = 5760 \<or>
     (8192 \<le> c \<and> c \<le> 8202) \<or> c = 8232 \<or> c = 8233 \<or> c = 8239 \<or> c = 8287 \<or> c = 12288"

definition lstrip :: "pystr \<Rightarrow> pystr" where
  "lstrip s = dropWhile py_space s"

definition rstrip :: "pystr \<Rightarrow> pystr" where
  "rstrip s = rev (dropWhile py_space (rev s))"

definition strip :: "pystr \<Rightarrow> pystr" where
  "strip s = rstrip (lstrip s)"

definition startswith :: "pystr \<Rightarrow> pystr \<Rightarrow> bool" where
  "startswith s p \<longleftrightarrow> take (length p) s = p"

definition endswith :: "pystr \<Rightarrow> pystr \<Rightarrow> bool" where
  "endswith s p \<longleftrightarrow> length p \<le> length s \<and> drop (length s - length p) s = p"

text \<open>\<open>p in s\<close>, the substring test.\<close>

fun substring :: "pystr \<Rightarrow> pystr \<Rightarrow> bool" where
  "substring p [] = (p = [])"
| "substring p (c # cs) = (startswith (c # cs) p \<or> substring p cs)"

text \<open>\<open>sep.join(parts)\<close>.\<close>

fun join :: "pystr \<Rightarrow> pystr list \<Rightarrow> pystr" where
  "join sep [] = []"
| "join sep [s] = s"
| "join sep (s # ss) = s @ sep @ join sep ss"

text \<open>\<open>s.split()\<close>: the maximal runs of non-space characters.\<close>

function split_ws :: "pystr \<Rightarrow> pystr list" where
  "split_ws s =
     (case dropWhile py_space s of
        [] \<Rightarrow> []
      | c # cs \<Rightarrow> (c # takeWhile (\<lambda>x. \<not> py_space x) cs)
                   # split_ws (dropWhile (\<lambda>x. \<not> py_space x) cs))"
  by pat_completeness auto
termination
proof (relation "measure length", goal_cases)
  case (2 s c cs)
  have "length (dropWhile (\<lambda>x. \<not> py_space x) cs) \<le> length cs"
    by (rule length_dropWhile_le)
  also have "\<dots> < length (c # cs)" by simp
  also have "\<dots> \<le> length s"
    using length_dropWhile_le [of py_space s] 2 by simp
  finally show ?case by simp
qed simp

declare split_ws.simps [simp del]

text \<open>\<open>s.split(sep)\<close> for a one-character separator.\<close>

fun split_on :: "nat \<Rightarrow> pystr \<Rightarrow> pystr list" where
  "split_on sep [] = [[]]"
| "split_on sep (c # cs) =
     (if c = sep then [] # split_on sep cs
      else (case split_on sep cs of [] \<Rightarrow> [[c]] | p # ps \<Rightarrow> (c # p) # ps))"

text \<open>Decimal digits of a natural number, \<open>str(n)\<close>.\<close>

fun nat_digits :: "nat \<Rightarrow> nat list" where
  "nat_digits n = (if n < 10 then [n] else nat_digits (n div 10) @ [n mod 10])"

declare nat_digits.simps [simp del]

definition str_nat :: "nat \<Rightarrow> pystr" where
  "str_nat n = map (\<lambda>d. 48 + d) (nat_digits n)"

definition str_int :: "int \<Rightarrow> pystr" where
  "str_int i = (if i < 0 then 45 # str_nat (nat (- i)) else str_nat (nat i))"

text \<open>Hexadecimal digits, which are written in lower case and read in both.\<close>

definition hex_digit :: "nat \<Rightarrow> nat" where
  "hex_digit d = (if d < 10 then 48 + d else 87 + d)"

definition hex_val :: "nat \<Rightarrow> nat option" where
  "hex_val c =
     (if 48 \<le> c \<and> c \<le> 57 then Some (c - 48)
      else if 97 \<le> c \<and> c \<le> 102 then Some (c - 87)
      else if 65 \<le> c \<and> c \<le> 70 then Some (c - 55) else None)"

subsection \<open>Facts\<close>

lemma hex_val_digit: "d < 16 \<Longrightarrow> hex_val (hex_digit d) = Some d"
  by (auto simp: hex_val_def hex_digit_def)

lemma lstrip_Nil_iff: "lstrip s = [] \<longleftrightarrow> (\<forall>c\<in>set s. py_space c)"
  by (simp add: lstrip_def)

lemma strip_Nil_iff: "strip s = [] \<longleftrightarrow> (\<forall>c\<in>set s. py_space c)"
proof
  assume "strip s = []"
  then have sp: "\<forall>c\<in>set (lstrip s). py_space c"
    by (simp add: strip_def rstrip_def)
  show "\<forall>c\<in>set s. py_space c"
  proof (cases "lstrip s")
    case Nil
    then show ?thesis by (simp add: lstrip_Nil_iff)
  next
    case (Cons c cs)
    then have "\<not> py_space c"
      unfolding lstrip_def by (metis dropWhile_eq_Cons_conv)
    with sp Cons show ?thesis by simp
  qed
next
  assume "\<forall>c\<in>set s. py_space c"
  then have "lstrip s = []" by (simp add: lstrip_Nil_iff)
  then show "strip s = []" by (simp add: strip_def rstrip_def)
qed

lemma nat_digits_nonempty: "nat_digits n \<noteq> []"
  by (subst nat_digits.simps) simp

lemma nat_digits_less: "d \<in> set (nat_digits n) \<Longrightarrow> d < 10"
proof (induction n rule: nat_digits.induct)
  case (1 n)
  then show ?case
    by (subst (asm) nat_digits.simps) (auto split: if_splits)
qed

section \<open>JSON values\<close>

text \<open>
  The values \<open>json.loads\<close> returns and \<open>json.dumps\<close> and the \<open>JSONField\<close>s accept. An object
  is its list of members in order; \<open>json_get\<close> reads a member. A number with a fraction or
  an exponent is its text, \<open>JNum\<close>.
\<close>

datatype json =
    JNull
  | JBool bool
  | JInt int
  | JNum pystr
  | JStr pystr
  | JList "json list"
  | JObj "(pystr \<times> json) list"

fun json_get :: "json \<Rightarrow> pystr \<Rightarrow> json option" where
  "json_get (JObj ms) k = map_of ms k"
| "json_get _ k = None"

chapter \<open>Lines\<close>

text \<open>
  \<open>str.splitlines\<close>: the lines of a text with the separator that ends each. Python breaks a
  line at more characters than the line feed.
\<close>

definition line_break :: "nat \<Rightarrow> bool" where
  "line_break c \<longleftrightarrow> (10 \<le> c \<and> c \<le> 13) \<or> (28 \<le> c \<and> c \<le> 30) \<or> c = 133 \<or> c = 8232 \<or> c = 8233"

fun line_pairs :: "pystr \<Rightarrow> pystr \<Rightarrow> (pystr \<times> pystr) list" where
  "line_pairs acc [] = (if acc = [] then [] else [(rev acc, [])])"
| "line_pairs acc (c # cs) =
     (if c = 13 \<and> take 1 cs = [10] then (rev acc, [13, 10]) # line_pairs [] (tl cs)
      else if line_break c then (rev acc, [c]) # line_pairs [] cs
      else line_pairs (c # acc) cs)"

definition splitlines :: "pystr \<Rightarrow> pystr list" where
  "splitlines s = map fst (line_pairs [] s)"

definition splitlines_keepends :: "pystr \<Rightarrow> pystr list" where
  "splitlines_keepends s = map (\<lambda>(line, brk). line @ brk) (line_pairs [] s)"

section \<open>Facts\<close>

text \<open>The lines with their separators are the text, and a line has no separator in it.\<close>

lemma concat_line_pairs: "concat (map (\<lambda>(line, brk). line @ brk) (line_pairs acc s)) = rev acc @ s"
proof (induction acc s rule: line_pairs.induct)
  case (2 acc c cs)
  then show ?case by (cases cs) auto
qed simp

lemma concat_keepends: "concat (splitlines_keepends s) = s"
  using concat_line_pairs [of "[]" s] by (simp add: splitlines_keepends_def)

lemma line_pairs_line:
  "(line, brk) \<in> set (line_pairs acc s) \<Longrightarrow> (\<And>c. c \<in> set acc \<Longrightarrow> \<not> line_break c) \<Longrightarrow>
   c \<in> set line \<Longrightarrow> \<not> line_break c"
  by (induction acc s rule: line_pairs.induct) (auto split: if_splits)

text \<open>
  The separators: only the last line can lack one, and a carriage return is not followed by
  a line feed that belongs to it.
\<close>

definition line_feed_next :: "(pystr \<times> pystr) list \<Rightarrow> bool" where
  "line_feed_next ps \<longleftrightarrow> ps \<noteq> [] \<and> fst (hd ps) = [] \<and> take 1 (snd (hd ps)) = [10]"

fun well_ended :: "(pystr \<times> pystr) list \<Rightarrow> bool" where
  "well_ended [] = True"
| "well_ended ((line, brk) # ps) =
     ((brk = [] \<longrightarrow> ps = [] \<and> line \<noteq> []) \<and> (brk = [13] \<longrightarrow> \<not> line_feed_next ps) \<and> well_ended ps)"

definition line_end :: "pystr \<Rightarrow> bool" where
  "line_end e \<longleftrightarrow> e = [] \<or> e = [13, 10] \<or> (\<exists>c. e = [c] \<and> line_break c)"

lemma line_pairs_end: "(line, brk) \<in> set (line_pairs acc s) \<Longrightarrow> line_end brk"
  by (induction acc s rule: line_pairs.induct) (auto simp: line_end_def line_break_def split: if_splits)

lemma line_feed_next_pairs: "line_feed_next (line_pairs acc s) \<Longrightarrow> take 1 s = [10]"
proof (induction acc s rule: line_pairs.induct)
  case (2 acc c cs)
  have "rev (c # acc) \<noteq> []" by simp
  moreover have "line_pairs (c # acc) cs = [] \<or> fst (hd (line_pairs (c # acc) cs)) \<noteq> []"
  proof (induction cs arbitrary: c acc)
    case (Cons d ds)
    show ?case using Cons [of d "c # acc"] by simp
  qed simp
  ultimately show ?case
    using 2(4) by (auto simp: line_feed_next_def split: if_splits)
qed (auto simp: line_feed_next_def split: if_splits)

lemma line_pairs_well_ended: "well_ended (line_pairs acc s)"
proof (induction acc s rule: line_pairs.induct)
  case (2 acc c cs)
  then show ?case using line_feed_next_pairs [of "[]" cs] by auto
qed simp

text \<open>Reading the lines of lines put together again.\<close>

definition join_pairs :: "(pystr \<times> pystr) list \<Rightarrow> pystr" where
  "join_pairs ps = concat (map (\<lambda>(line, brk). line @ brk) ps)"

lemma line_pairs_line_append:
  assumes "\<And>c. c \<in> set line \<Longrightarrow> \<not> line_break c"
  shows "line_pairs acc (line @ s) = line_pairs (rev line @ acc) s"
  using assms
proof (induction line arbitrary: acc)
  case (Cons c line)
  have "c \<noteq> 13" using Cons.prems [of c] by (auto simp: line_break_def)
  with Cons show ?case by simp
qed simp

lemma line_pairs_join:
  assumes "well_ended ps"
    and "\<And>line brk. (line, brk) \<in> set ps \<Longrightarrow> line_end brk \<and> (\<forall>c\<in>set line. \<not> line_break c)"
  shows "line_pairs [] (join_pairs ps) = ps"
  using assms
proof (induction ps)
  case (Cons p ps)
  obtain line e where p: "p = (line, e)" by (cases p)
  have e: "line_end e" "\<And>c. c \<in> set line \<Longrightarrow> \<not> line_break c"
    using Cons.prems(2) [of line e] by (auto simp: p)
  have IH: "line_pairs [] (join_pairs ps) = ps"
    by (rule Cons.IH) (use Cons.prems in \<open>auto simp: p\<close>)
  have join: "join_pairs (p # ps) = line @ e @ join_pairs ps"
    by (simp add: join_pairs_def p)
  show ?case
  proof (cases "e = []")
    case True
    then show ?thesis
      using Cons.prems(1) e(2) line_pairs_line_append [of line "[]" "[]"]
      by (simp add: p join_pairs_def)
  next
    case False
    have cr: "e = [13] \<Longrightarrow> take 1 (join_pairs ps) \<noteq> [10]"
    proof (cases ps)
      case (Cons q qs)
      obtain l b where q: "q = (l, b)" by (cases q)
      assume "e = [13]"
      then have n: "\<not> line_feed_next ps" using Cons.prems(1) by (simp add: p)
      have b: "line_end b" "\<And>c. c \<in> set l \<Longrightarrow> \<not> line_break c" "b = [] \<longrightarrow> l \<noteq> []"
        using Cons.prems \<open>ps = q # qs\<close> by (auto simp: p q)
      show ?thesis
        using n b(1,3) b(2) [of 10] \<open>ps = q # qs\<close>
        by (cases l; cases b) (auto simp: q join_pairs_def line_feed_next_def line_break_def)
    qed (simp add: join_pairs_def)
    from False consider "e = [13, 10]" | c where "e = [c]" "line_break c"
      using e(1) by (auto simp: line_end_def)
    then show ?thesis
      unfolding join
    proof cases
      case 2
      then show "line_pairs [] (line @ e @ join_pairs ps) = p # ps"
        using cr by (simp add: p line_pairs_line_append e(2) IH)
    qed (simp add: p line_pairs_line_append e(2) IH)
  qed
qed (simp add: join_pairs_def)

end
