(* ===== verification/Py_Decimal.thy ===== *)
theory Py_Decimal
  imports Py_Text
begin

text \<open>
  Python's \<open>decimal.Decimal\<close> as far as the program uses it: a finite number is its integer
  coefficient and its exponent, so \<open>Fin 1050 (-2)\<close> is \<open>Decimal("10.50")\<close>; the infinities
  and the not-a-number value are kept because user input can hold them. The sign of a
  zero is not kept: no comparison or sum of the program can see it.
\<close>

datatype pydec = Fin int int | Infinite bool | NaN

text \<open>The exceptions of the \<open>decimal\<close> module that the program does or does not catch.\<close>

datatype dec_error = InvalidOperation

fun dec_finite :: "pydec \<Rightarrow> bool" where
  "dec_finite (Fin c e) = True"
| "dec_finite _ = False"

text \<open>The largest amount a \<open>DecimalField(max_digits=18, decimal_places=2)\<close> holds, in cents.\<close>

definition max_cents :: money where
  "max_cents = 999999999999999999"

section \<open>Comparison with an amount in cents\<close>

text \<open>
  \<open>cents_le c e k\<close> is \<open>c * 10 ** e <= k / 100\<close>, computed on integers. Comparing a
  not-a-number value with an ordering operator raises \<open>InvalidOperation\<close>.
\<close>

definition cents_le :: "int \<Rightarrow> int \<Rightarrow> money \<Rightarrow> bool" where
  "cents_le c e k \<longleftrightarrow>
     (if -2 \<le> e then c * 10 ^ nat (e + 2) \<le> k else c \<le> k * 10 ^ nat (- 2 - e))"

fun dec_le :: "pydec \<Rightarrow> money \<Rightarrow> dec_error + bool" where
  "dec_le (Fin c e) k = Inr (cents_le c e k)"
| "dec_le (Infinite neg) k = Inr neg"
| "dec_le NaN k = Inl InvalidOperation"

section \<open>Quantizing to cents\<close>

text \<open>
  \<open>amount.quantize(Decimal("0.01"))\<close> in the default context: round half to even, and
  \<open>InvalidOperation\<close> when the result needs more than 28 digits or the amount is infinite.
\<close>

definition round_half_even :: "int \<Rightarrow> int \<Rightarrow> int" where
  "round_half_even n d =
     (let q = n div d; r = n mod d
      in if 2 * r < d \<or> (2 * r = d \<and> even q) then q else q + 1)"

definition cents_round :: "int \<Rightarrow> int \<Rightarrow> money" where
  "cents_round c e =
     (if -2 \<le> e then c * 10 ^ nat (e + 2) else round_half_even c (10 ^ nat (- 2 - e)))"

fun quantize_cents :: "pydec \<Rightarrow> dec_error + money option" where
  "quantize_cents (Fin c e) =
     (let v = cents_round c e
      in if 10 ^ 28 \<le> \<bar>v\<bar> then Inl InvalidOperation else Inr (Some v))"
| "quantize_cents (Infinite neg) = Inl InvalidOperation"
| "quantize_cents NaN = Inr None"

text \<open>\<open>amount == v / 100\<close>, exactly.\<close>

definition cents_eq :: "int \<Rightarrow> int \<Rightarrow> money \<Rightarrow> bool" where
  "cents_eq c e v \<longleftrightarrow>
     (if -2 \<le> e then c * 10 ^ nat (e + 2) = v else c = v * 10 ^ nat (- 2 - e))"

lemma cents_eq_round: "-2 \<le> e \<Longrightarrow> cents_eq c e v \<longleftrightarrow> cents_round c e = v"
  by (auto simp: cents_eq_def cents_round_def)

lemma round_half_even_exact: "0 < d \<Longrightarrow> round_half_even (v * d) d = v"
  by (simp add: round_half_even_def Let_def)

lemma cents_eq_imp_round: "cents_eq c e v \<Longrightarrow> cents_round c e = v"
  by (auto simp: cents_eq_def cents_round_def round_half_even_exact split: if_splits)

text \<open>An amount is a whole number of cents exactly when it equals its own rounding.\<close>

definition whole_cents :: "pydec \<Rightarrow> money option" where
  "whole_cents x =
     (case x of Fin c e \<Rightarrow> (if cents_eq c e (cents_round c e) then Some (cents_round c e) else None)
      | _ \<Rightarrow> None)"

lemma whole_cents_unique: "cents_eq c e v \<Longrightarrow> whole_cents (Fin c e) = Some v"
  using cents_eq_imp_round [of c e v] by (auto simp: whole_cents_def)

lemma whole_cents_of_cents [simp]: "whole_cents (Fin v (- 2)) = Some v"
  by (simp add: whole_cents_def cents_eq_def cents_round_def)

lemma cents_le_whole:
  assumes "cents_eq c e v"
  shows "cents_le c e k \<longleftrightarrow> v \<le> k"
  using assms by (auto simp: cents_eq_def cents_le_def split: if_splits)

section \<open>Adding\<close>

text \<open>
  \<open>a + b\<close> in the default context: the exact sum, rounded half to even to 28 digits. The
  limits of the exponent are not modelled.
\<close>

definition round_precision :: "int \<Rightarrow> int \<Rightarrow> pydec" where
  "round_precision c e =
     (if \<bar>c\<bar> < 10 ^ 28 then Fin c e
      else (let n = length (nat_digits (nat \<bar>c\<bar>)) - 28; q = round_half_even c (10 ^ n)
            in if \<bar>q\<bar> = 10 ^ 28 then Fin (q div 10) (e + int n + 1) else Fin q (e + int n)))"

fun dec_add :: "pydec \<Rightarrow> pydec \<Rightarrow> dec_error + pydec" where
  "dec_add (Fin c e) (Fin c' e') =
     (let m = min e e' in Inr (round_precision (c * 10 ^ nat (e - m) + c' * 10 ^ nat (e' - m)) m))"
| "dec_add (Infinite neg) (Infinite neg') =
     (if neg = neg' then Inr (Infinite neg) else Inl InvalidOperation)"
| "dec_add NaN _ = Inr NaN"
| "dec_add _ NaN = Inr NaN"
| "dec_add (Infinite neg) (Fin c e) = Inr (Infinite neg)"
| "dec_add (Fin c e) (Infinite neg) = Inr (Infinite neg)"

section \<open>Formatting an amount in cents\<close>

text \<open>
  \<open>money_fixed\<close> is \<open>f"{amount:.2f}"\<close> and \<open>money_grouped\<close> is \<open>f"{amount:,.2f}"\<close>: the
  second puts a comma between groups of three digits of the integer part.
\<close>

definition two_digits :: "nat \<Rightarrow> pystr" where
  "two_digits n = [48 + n div 10 mod 10, 48 + n mod 10]"

definition sign_text :: "int \<Rightarrow> pystr" where
  "sign_text v = (if v < 0 then [45] else [])"

definition money_fixed :: "money \<Rightarrow> pystr" where
  "money_fixed v =
     sign_text v @ str_nat (nat (\<bar>v\<bar> div 100)) @ [46] @ two_digits (nat (\<bar>v\<bar> mod 100))"

fun group3 :: "pystr \<Rightarrow> pystr" where
  "group3 (a # b # c # d # xs) = a # b # c # 44 # group3 (d # xs)"
| "group3 xs = xs"

definition money_grouped :: "money \<Rightarrow> pystr" where
  "money_grouped v =
     sign_text v @ rev (group3 (rev (str_nat (nat (\<bar>v\<bar> div 100))))) @ [46]
     @ two_digits (nat (\<bar>v\<bar> mod 100))"

text \<open>Removing the commas of the grouped form gives the plain form back.\<close>

lemma group3_no_comma:
  "44 \<notin> set xs \<Longrightarrow> filter (\<lambda>c. c \<noteq> 44) (group3 xs) = xs"
  by (induction xs rule: group3.induct) (auto simp: filter_id_conv)

lemma str_nat_chars: "c \<in> set (str_nat n) \<Longrightarrow> 48 \<le> c \<and> c \<le> 57"
  by (auto simp: str_nat_def dest: nat_digits_less)

lemma money_grouped_plain: "filter (\<lambda>c. c \<noteq> 44) (money_grouped v) = money_fixed v"
proof -
  let ?s = "str_nat (nat (\<bar>v\<bar> div 100))"
  have no: "44 \<notin> set ?s"
    by (auto dest: str_nat_chars)
  have "filter (\<lambda>c. c \<noteq> 44) (rev (group3 (rev ?s))) = ?s"
    using group3_no_comma [of "rev ?s"] no by (simp flip: rev_filter)
  moreover have "filter (\<lambda>c. c \<noteq> 44) (two_digits n) = two_digits n" for n
    by (simp add: two_digits_def)
  moreover have "filter (\<lambda>c. c \<noteq> 44) (sign_text v) = sign_text v"
    by (simp add: sign_text_def)
  ultimately show ?thesis
    by (simp add: money_grouped_def money_fixed_def)
qed

chapter \<open>Exact sums\<close>

text \<open>
  Sums of decimals that are whole numbers of cents: as long as the sum stays below
  \<open>10 ** 26\<close>, the 28 digits of the context hold it exactly.
\<close>

section \<open>The number of digits\<close>

lemma nat_digits_length:
  "n < 10 ^ length (nat_digits n)" "0 < n \<Longrightarrow> 10 ^ (length (nat_digits n) - 1) \<le> n"
proof (induction n rule: nat_digits.induct)
  case (1 n)
  have step: "length (nat_digits n) = (if n < 10 then 1 else length (nat_digits (n div 10)) + 1)"
    by (subst nat_digits.simps) simp
  have pos: "0 < length (nat_digits (n div 10))"
    using nat_digits_nonempty by simp
  {
    case 1
    show ?case
    proof (cases "n < 10")
      case False
      then have "n div 10 < 10 ^ length (nat_digits (n div 10))" using "1.IH"(1) by simp
      then have "n < 10 ^ length (nat_digits (n div 10)) * 10"
        by (simp only: div_less_iff_less_mult zero_less_numeral)
      then show ?thesis unfolding step using False by simp
    qed (simp add: step)
  next
    case 2
    show ?case
    proof (cases "n < 10")
      case False
      then have "10 ^ (length (nat_digits (n div 10)) - 1) \<le> n div 10" using "1.IH"(2) by simp
      then have "10 * 10 ^ (length (nat_digits (n div 10)) - 1) \<le> n" by simp
      also have "10 * 10 ^ (length (nat_digits (n div 10)) - 1) =
          (10::nat) ^ length (nat_digits (n div 10))"
        using pos by (cases "length (nat_digits (n div 10))") simp_all
      finally show ?thesis unfolding step using False by simp
    next
      case True
      then show ?thesis unfolding step using 2 by simp
    qed
  }
qed

section \<open>Whole cents under scaling, addition and rounding\<close>

lemma cents_eq_scale:
  assumes "cents_eq c e v" "m \<le> e"
  shows "cents_eq (c * 10 ^ nat (e - m)) m v"
proof -
  consider "-2 \<le> m" | "m < -2" "-2 \<le> e" | "m < -2" "e < -2" by linarith
  then show ?thesis
  proof cases
    case 1
    then have "nat (e + 2) = nat (e - m) + nat (m + 2)" using assms(2) by simp
    with assms 1 show ?thesis by (auto simp: cents_eq_def power_add)
  next
    case 2
    then have "nat (e - m) = nat (e + 2) + nat (- 2 - m)" by simp
    with assms 2 show ?thesis by (auto simp: cents_eq_def power_add)
  next
    case 3
    then have "nat (- 2 - m) = nat (- 2 - e) + nat (e - m)" using assms(2) by simp
    with assms 3 show ?thesis by (auto simp: cents_eq_def power_add)
  qed
qed

lemma cents_eq_add: "cents_eq c m v \<Longrightarrow> cents_eq c' m v' \<Longrightarrow> cents_eq (c + c') m (v + v')"
  by (auto simp: cents_eq_def distrib_right split: if_splits)

lemma digits_abs: "0 < \<bar>c\<bar> \<Longrightarrow> 10 ^ (length (nat_digits (nat \<bar>c\<bar>)) - 1) \<le> \<bar>c\<bar>"
  "\<bar>c\<bar> < 10 ^ length (nat_digits (nat \<bar>c\<bar>))" for c :: int
proof -
  show "10 ^ (length (nat_digits (nat \<bar>c\<bar>)) - 1) \<le> \<bar>c\<bar>" if "0 < \<bar>c\<bar>"
  proof -
    have "int (10 ^ (length (nat_digits (nat \<bar>c\<bar>)) - 1)) \<le> int (nat \<bar>c\<bar>)"
      using nat_digits_length(2) [of "nat \<bar>c\<bar>"] that by (simp only: of_nat_le_iff zero_less_nat_eq)
    then show ?thesis by simp
  qed
  have "int (nat \<bar>c\<bar>) < int (10 ^ length (nat_digits (nat \<bar>c\<bar>)))"
    using nat_digits_length(1) [of "nat \<bar>c\<bar>"] by (simp only: of_nat_less_iff)
  then show "\<bar>c\<bar> < 10 ^ length (nat_digits (nat \<bar>c\<bar>))" by simp
qed

lemma round_precision_cents:
  assumes eq: "cents_eq c m v" and small: "\<bar>v\<bar> < 10 ^ 28"
  shows "\<exists>c' e'. round_precision c m = Fin c' e' \<and> cents_eq c' e' v"
proof (cases "\<bar>c\<bar> < 10 ^ 28")
  case True
  with eq show ?thesis by (simp add: round_precision_def)
next
  case False
  let ?l = "length (nat_digits (nat \<bar>c\<bar>))" and ?n = "length (nat_digits (nat \<bar>c\<bar>)) - 28"
  have m: "m < -2"
  proof (rule ccontr)
    assume "\<not> m < -2"
    then have "\<bar>c\<bar> * 10 ^ nat (m + 2) = \<bar>v\<bar>"
      using eq by (simp add: cents_eq_def abs_mult flip: abs_power_minus split: if_splits)
        (auto simp: abs_mult)
    moreover have "\<bar>c\<bar> * 1 \<le> \<bar>c\<bar> * 10 ^ nat (m + 2)" by (intro mult_left_mono) simp_all
    ultimately show False using False small by simp
  qed
  define k where "k = nat (- 2 - m)"
  have c: "c = v * 10 ^ k" using eq m by (simp add: cents_eq_def k_def)
  have lo: "10 ^ (?l - 1) \<le> \<bar>c\<bar>" using digits_abs(1) [of c] False by simp
  have "\<bar>c\<bar> < 10 ^ (28 + k)"
    using small by (simp add: c abs_mult power_add)
  with lo have "(10::int) ^ (?l - 1) < 10 ^ (28 + k)" by (rule le_less_trans)
  then have "?l - 1 < 28 + k" by (rule power_less_imp_less_exp [rotated]) simp
  then have n: "?n \<le> k" by simp
  have l: "28 < ?l"
  proof (rule ccontr)
    assume "\<not> 28 < ?l"
    then have "(10::int) ^ ?l \<le> 10 ^ 28" by (intro power_increasing) simp_all
    then show False using digits_abs(2) [of c] False by simp
  qed
  have cn: "c = v * 10 ^ (k - ?n) * 10 ^ ?n"
    using n by (simp add: c flip: power_add)
  then have q: "round_half_even c (10 ^ ?n) = v * 10 ^ (k - ?n)"
    by (metis round_half_even_exact zero_less_numeral zero_less_power)
  have "\<bar>v * 10 ^ (k - ?n)\<bar> * 10 ^ ?n < 10 ^ 28 * 10 ^ ?n"
  proof -
    have "\<bar>v * 10 ^ (k - ?n)\<bar> * 10 ^ ?n = \<bar>c\<bar>" by (subst cn) (simp add: abs_mult)
    also have "\<dots> < 10 ^ ?l" by (rule digits_abs(2))
    also have "(10::int) ^ ?l = 10 ^ (28 + ?n)" using l by simp
    also have "\<dots> = 10 ^ 28 * 10 ^ ?n" by (rule power_add)
    finally show ?thesis .
  qed
  then have "\<bar>v * 10 ^ (k - ?n)\<bar> < 10 ^ 28" by simp
  then have "round_precision c m = Fin (v * 10 ^ (k - ?n)) (m + int ?n)"
    using False by (simp add: round_precision_def q Let_def)
  moreover have "cents_eq (v * 10 ^ (k - ?n)) (m + int ?n) v"
  proof (cases "k = ?n")
    case True
    then have "m + int ?n = -2" using m by (simp add: k_def)
    with True show ?thesis by (simp add: cents_eq_def)
  next
    case False
    have "int k = - 2 - m" using m by (simp add: k_def)
    with n False have "m + int ?n < -2" "nat (- 2 - (m + int ?n)) = k - ?n"
      by linarith+
    then show ?thesis by (simp add: cents_eq_def)
  qed
  ultimately show ?thesis by blast
qed

lemma dec_add_cents:
  assumes "cents_eq c e v" "cents_eq c' e' v'" "\<bar>v + v'\<bar> < 10 ^ 28"
  shows "\<exists>c'' e''. dec_add (Fin c e) (Fin c' e') = Inr (Fin c'' e'') \<and> cents_eq c'' e'' (v + v')"
proof -
  let ?m = "min e e'"
  have "cents_eq (c * 10 ^ nat (e - ?m) + c' * 10 ^ nat (e' - ?m)) ?m (v + v')"
    using cents_eq_scale [OF assms(1), of ?m] cents_eq_scale [OF assms(2), of ?m]
    by (simp add: cents_eq_add)
  from round_precision_cents [OF this assms(3)] show ?thesis by (simp add: Let_def)
qed

end
