(* ===== verification/Ledger_Tables.thy ===== *)
theory Ledger_Tables
  imports Py_Decimal
begin

text \<open>
  The data model: one record per Django model (\<open>apps/*/models.py\<close>), the choices the
  columns hold, and the database as the record of its tables. A table is the list of its
  rows in the order they were inserted. A foreign key is the identifier it stores.
  A choice column stores its text value, as \<open>TextChoices\<close> does.
\<close>

section \<open>Choices\<close>

abbreviation InvoiceDirection_INPUT :: pystr where "InvoiceDirection_INPUT \<equiv> lit ''input''"
abbreviation InvoiceDirection_OUTPUT :: pystr where "InvoiceDirection_OUTPUT \<equiv> lit ''output''"

abbreviation InvoiceStatus_NORMAL :: pystr where "InvoiceStatus_NORMAL \<equiv> lit ''normal''"
abbreviation InvoiceStatus_VOID :: pystr where "InvoiceStatus_VOID \<equiv> lit ''void''"
abbreviation InvoiceStatus_RED :: pystr where "InvoiceStatus_RED \<equiv> lit ''red''"

abbreviation MoneyChannel_BANK :: pystr where "MoneyChannel_BANK \<equiv> lit ''bank''"
abbreviation MoneyChannel_WECHAT :: pystr where "MoneyChannel_WECHAT \<equiv> lit ''wechat''"

abbreviation MoneyDirection_INFLOW :: pystr where "MoneyDirection_INFLOW \<equiv> lit ''inflow''"
abbreviation MoneyDirection_OUTFLOW :: pystr where "MoneyDirection_OUTFLOW \<equiv> lit ''outflow''"

definition InvoiceStatus_values :: "pystr list" where
  "InvoiceStatus_values = [InvoiceStatus_NORMAL, InvoiceStatus_VOID, InvoiceStatus_RED]"

definition MoneyChannel_values :: "pystr list" where
  "MoneyChannel_values = [MoneyChannel_BANK, MoneyChannel_WECHAT]"

definition MoneyDirection_values :: "pystr list" where
  "MoneyDirection_values = [MoneyDirection_INFLOW, MoneyDirection_OUTFLOW]"

abbreviation PURCHASE_PAYMENT :: pystr where "PURCHASE_PAYMENT \<equiv> lit ''purchase_payment''"
abbreviation SALES_RECEIPT :: pystr where "SALES_RECEIPT \<equiv> lit ''sales_receipt''"

definition ReconciliationDirection_values :: "pystr list" where
  "ReconciliationDirection_values = [PURCHASE_PAYMENT, SALES_RECEIPT]"

abbreviation Mode_DIRECT :: pystr where "Mode_DIRECT \<equiv> lit ''direct''"
abbreviation Mode_BATCH :: pystr where "Mode_BATCH \<equiv> lit ''batch''"

definition ReconciliationMode_values :: "pystr list" where
  "ReconciliationMode_values = [Mode_DIRECT, Mode_BATCH]"

abbreviation SettlementStatus_DRAFT :: pystr where "SettlementStatus_DRAFT \<equiv> lit ''draft''"
abbreviation SettlementStatus_CONFIRMED :: pystr
  where "SettlementStatus_CONFIRMED \<equiv> lit ''confirmed''"

abbreviation BatchStatus_UPLOADED :: pystr where "BatchStatus_UPLOADED \<equiv> lit ''uploaded''"
abbreviation BatchStatus_PREVIEWED :: pystr where "BatchStatus_PREVIEWED \<equiv> lit ''previewed''"
abbreviation BatchStatus_PARTIAL :: pystr where "BatchStatus_PARTIAL \<equiv> lit ''partial''"
abbreviation BatchStatus_COMPLETED :: pystr where "BatchStatus_COMPLETED \<equiv> lit ''completed''"

abbreviation SourceKind_INPUT_INVOICE :: pystr
  where "SourceKind_INPUT_INVOICE \<equiv> lit ''input_invoice''"
abbreviation SourceKind_OUTPUT_INVOICE :: pystr
  where "SourceKind_OUTPUT_INVOICE \<equiv> lit ''output_invoice''"
abbreviation SourceKind_BANK :: pystr where "SourceKind_BANK \<equiv> lit ''bank''"
abbreviation SourceKind_WECHAT :: pystr where "SourceKind_WECHAT \<equiv> lit ''wechat''"

definition SourceKind_values :: "pystr list" where
  "SourceKind_values =
     [SourceKind_INPUT_INVOICE, SourceKind_OUTPUT_INVOICE, SourceKind_BANK, SourceKind_WECHAT]"

abbreviation AliasKind_BANK_ACCOUNT :: pystr where "AliasKind_BANK_ACCOUNT \<equiv> lit ''bank_account''"
abbreviation AliasKind_WECHAT_NAME :: pystr where "AliasKind_WECHAT_NAME \<equiv> lit ''wechat_name''"

section \<open>Rows\<close>

text \<open>A Django user with the names of its groups.\<close>

record user_row =
  user_pk :: nat
  user_groups :: "pystr list"

record counterparty =
  cp_id :: uuid
  cp_name :: pystr
  cp_normalized_name :: pystr
  cp_tax_id :: pystr
  cp_is_customer :: bool
  cp_is_supplier :: bool
  cp_active :: bool

record counterparty_alias =
  al_id :: uuid
  al_counterparty :: uuid
  al_kind :: pystr
  al_value :: pystr
  al_normalized_value :: pystr
  al_confirmed_by :: nat

record funding_account =
  fa_id :: uuid
  fa_channel :: pystr
  fa_name :: pystr
  fa_identifier :: pystr
  fa_masked_identifier :: pystr
  fa_active :: bool

record invoice =
  inv_id :: uuid
  inv_direction :: pystr
  inv_number :: pystr
  inv_seller_tax_id :: pystr
  inv_buyer_tax_id :: pystr
  inv_issue_date :: date
  inv_due_date :: "date option"
  inv_total_amount :: money
  inv_status :: pystr
  inv_counterparty :: uuid
  inv_import_batch :: uuid
  inv_source_row :: int
  inv_source_payload :: json

record money_transaction =
  mt_id :: uuid
  mt_account :: uuid
  mt_channel :: pystr
  mt_direction :: pystr
  mt_occurred_at :: instant
  mt_amount :: money
  mt_balance_after :: "money option"
  mt_transaction_id :: pystr
  mt_fingerprint :: pystr
  mt_counterparty :: "uuid option"
  mt_counterparty_raw_name :: pystr
  mt_counterparty_account :: pystr
  mt_import_batch :: uuid
  mt_source_row :: int
  mt_source_payload :: json

record balance_snapshot =
  bs_id :: uuid
  bs_account :: uuid
  bs_as_of :: instant
  bs_balance :: money
  bs_source_batch :: uuid

record import_batch =
  ib_id :: uuid
  ib_source_kind :: pystr
  ib_status :: pystr
  ib_total_rows :: int
  ib_valid_rows :: int
  ib_duplicate_rows :: int
  ib_error_rows :: int
  ib_period_start :: "date option"
  ib_period_end :: "date option"
  ib_created_by :: nat
  ib_created_at :: instant
  ib_confirmed_at :: "instant option"

record source_file =
  sf_id :: uuid
  sf_batch :: uuid
  sf_original_name :: pystr
  sf_sha256 :: pystr
  sf_size :: int

record staged_row =
  sr_id :: uuid
  sr_batch :: uuid
  sr_row_number :: int
  sr_raw_data :: json
  sr_normalized_data :: json
  sr_issues :: json
  sr_is_duplicate :: bool
  sr_posted_at :: "instant option"

record settlement_batch =
  sb_id :: uuid
  sb_counterparty :: uuid
  sb_direction :: pystr
  sb_period_start :: date
  sb_period_end :: date
  sb_status :: pystr
  sb_version :: int
  sb_created_by :: nat

record settlement_invoice =
  si_id :: uuid
  si_batch :: uuid
  si_invoice :: uuid

record settlement_money =
  sm_id :: uuid
  sm_batch :: uuid
  sm_transaction :: uuid

record reconciliation =
  rc_id :: uuid
  rc_direction :: pystr
  rc_mode :: pystr
  rc_created_by :: nat
  rc_settlement_batch :: "uuid option"
  rc_note :: pystr
  rc_created_at :: instant

record allocation =
  ra_id :: uuid
  ra_reconciliation :: uuid
  ra_invoice :: uuid
  ra_transaction :: uuid
  ra_amount :: money

record reversal =
  rv_id :: uuid
  rv_original :: uuid
  rv_reversed_by :: nat
  rv_reason :: pystr
  rv_created_at :: instant

record audit_log =
  au_actor :: nat
  au_action :: pystr
  au_target_type :: pystr
  au_target_id :: pystr
  au_changes :: json
  au_created_at :: instant

section \<open>The database\<close>

record db =
  users :: "user_row list"
  parties :: "counterparty list"
  party_aliases :: "counterparty_alias list"
  accounts :: "funding_account list"
  invoices :: "invoice list"
  moneys :: "money_transaction list"
  snapshots :: "balance_snapshot list"
  import_batches :: "import_batch list"
  source_files :: "source_file list"
  staged_rows :: "staged_row list"
  settlements :: "settlement_batch list"
  settlement_invoices :: "settlement_invoice list"
  settlement_moneys :: "settlement_money list"
  recons :: "reconciliation list"
  allocs :: "allocation list"
  reversals :: "reversal list"
  audits :: "audit_log list"

definition empty_db :: db where
  "empty_db = \<lparr>users = [], parties = [], party_aliases = [], accounts = [], invoices = [],
     moneys = [], snapshots = [], import_batches = [], source_files = [], staged_rows = [],
     settlements = [], settlement_invoices = [], settlement_moneys = [], recons = [],
     allocs = [], reversals = [], audits = []\<rparr>"

section \<open>Exceptions\<close>

text \<open>
  The exceptions that leave the functions of the Django applications, with the text they
  carry. An atomic function that raises leaves the database as it was, so its model
  returns the exception without a new database.
\<close>

datatype exn =
    PermissionDenied pystr
  | ValidationError pystr
  | ValueError pystr
  | OverflowError
  | TypeError pystr
  | RowValidationError pystr
  | DuplicateSourceFileError pystr
  | UnsupportedTemplateError pystr
  | ObjectDoesNotExist
  | IntegrityError
  | DataError
  | CsvError
  | KeyError pystr
  | DecimalInvalidOperation
  | CommandError pystr

text \<open>
  \<open>bindE m f\<close> runs \<open>f\<close> on the result of \<open>m\<close> unless \<open>m\<close> raised, \<open>raise_if b e\<close> is
  \<open>if b: raise e\<close>, and \<open>traverse f xs\<close> evaluates \<open>[f(x) for x in xs]\<close>.
\<close>

definition bindE :: "'e + 'a \<Rightarrow> ('a \<Rightarrow> 'e + 'b) \<Rightarrow> 'e + 'b" where
  "bindE m f = (case m of Inl e \<Rightarrow> Inl e | Inr x \<Rightarrow> f x)"

definition raise_if :: "bool \<Rightarrow> 'e \<Rightarrow> 'e + unit" where
  "raise_if b e = (if b then Inl e else Inr ())"

fun traverse :: "('a \<Rightarrow> 'e + 'b) \<Rightarrow> 'a list \<Rightarrow> 'e + 'b list" where
  "traverse f [] = Inr []"
| "traverse f (x # xs) = bindE (f x) (\<lambda>y. bindE (traverse f xs) (\<lambda>ys. Inr (y # ys)))"

lemma bindE_simps [simp]: "bindE (Inl e) f = Inl e" "bindE (Inr x) f = f x"
  by (simp_all add: bindE_def)

lemma bindE_Inl_iff: "bindE m f = Inl e \<longleftrightarrow> m = Inl e \<or> (\<exists>x. m = Inr x \<and> f x = Inl e)"
  by (cases m) auto

lemma bindE_Inr_iff: "bindE m f = Inr y \<longleftrightarrow> (\<exists>x. m = Inr x \<and> f x = Inr y)"
  by (cases m) simp_all

lemma raise_if_Inr_iff [simp]: "raise_if b e = Inr u \<longleftrightarrow> \<not> b"
  by (simp add: raise_if_def)

lemma raise_if_simps [simp]: "raise_if True e = Inl e" "raise_if False e = Inr ()"
  by (simp_all add: raise_if_def)

lemma traverse_Inr_iff:
  "traverse f xs = Inr ys \<longleftrightarrow> list_all2 (\<lambda>x y. f x = Inr y) xs ys"
  by (induction xs arbitrary: ys) (auto simp: bindE_Inr_iff list_all2_Cons1)

lemma traverse_map: "(\<And>x. x \<in> set xs \<Longrightarrow> f x = Inr (g x)) \<Longrightarrow> traverse f xs = Inr (map g xs)"
  by (induction xs) auto

section \<open>Canonical text of a UUID\<close>

definition uuid_digits :: "uuid \<Rightarrow> nat list" where
  "uuid_digits x = map (\<lambda>i. unat x div 16 ^ (31 - i) mod 16) [0..<32]"

definition uuid_str :: "uuid \<Rightarrow> pystr" where
  "uuid_str x =
     (let h = map hex_digit (uuid_digits x)
      in take 8 h @ [45] @ take 4 (drop 8 h) @ [45] @ take 4 (drop 12 h) @ [45]
         @ take 4 (drop 16 h) @ [45] @ drop 20 h)"

end
