(* ===== verification/Accounts.thy ===== *)
theory Accounts
  imports Ledger_Tables
begin

text \<open>
  Roles and audit (\<open>apps/accounts/roles.py\<close>, \<open>apps/core/audit.py\<close>): who may act, and the
  audit row every action writes. The caller of a service is an \<open>actor\<close>: what the code
  inspects of the Python object it is handed.
\<close>

section \<open>Roles\<close>

datatype role = FINANCE | OWNER

fun role_value :: "role \<Rightarrow> pystr" where
  "role_value FINANCE = [36130, 21153]"
| "role_value OWNER = [32769, 26495]"

definition all_roles :: "role list" where
  "all_roles = [FINANCE, OWNER]"

record actor =
  actor_is_user :: bool
  actor_pk :: "nat option"
  actor_adding :: bool
  actor_authenticated :: bool

text \<open>\<open>user.groups.values_list("name")\<close> of the user with this key.\<close>

definition groups_of :: "db \<Rightarrow> nat \<Rightarrow> pystr list" where
  "groups_of d pk =
     (case find_row user_pk (users d) pk of None \<Rightarrow> [] | Some u \<Rightarrow> user_groups u)"

definition assigned_roles :: "db \<Rightarrow> actor \<Rightarrow> pystr list" where
  "assigned_roles d a =
     (case actor_pk a of None \<Rightarrow> []
      | Some pk \<Rightarrow> filter (\<lambda>g. g \<in> role_value ` set all_roles) (groups_of d pk))"

definition user_has_role :: "db \<Rightarrow> actor \<Rightarrow> role \<Rightarrow> bool" where
  "user_has_role d a r =
     (if \<not> actor_authenticated a then False
      else if r = FINANCE \<and> role_value OWNER \<in> set (assigned_roles d a) then False
      else role_value r \<in> set (assigned_roles d a))"

definition user_exists :: "db \<Rightarrow> actor \<Rightarrow> bool" where
  "user_exists d a =
     (case actor_pk a of None \<Rightarrow> False | Some pk \<Rightarrow> find_row user_pk (users d) pk \<noteq> None)"

definition require_finance_actor :: "db \<Rightarrow> actor \<Rightarrow> pystr \<Rightarrow> exn + unit" where
  "require_finance_actor d a message =
     (if \<not> actor_is_user a \<or> actor_pk a = None \<or> actor_adding a \<or> \<not> user_exists d a
         \<or> \<not> user_has_role d a FINANCE
      then Inl (PermissionDenied message)
      else Inr ())"

text \<open>
  \<open>assign_role\<close>: the other business roles are removed and the group is added; groups
  that are not business roles stay.
\<close>

definition set_role_groups :: "role \<Rightarrow> pystr list \<Rightarrow> pystr list" where
  "set_role_groups r gs =
     (let others = map role_value (filter (\<lambda>x. x \<noteq> r) all_roles);
          kept = filter (\<lambda>g. g \<notin> set others) gs
      in if role_value r \<in> set kept then kept else kept @ [role_value r])"

definition assign_role :: "db \<Rightarrow> nat \<Rightarrow> role \<Rightarrow> exn + db" where
  "assign_role d pk r =
     (if find_row user_pk (users d) pk = None then Inl ObjectDoesNotExist
      else Inr (d\<lparr>users := map (\<lambda>u. if user_pk u = pk
                                  then u\<lparr>user_groups := set_role_groups r (user_groups u)\<rparr>
                                  else u) (users d)\<rparr>))"

section \<open>Audit\<close>

text \<open>The model instance an audit row points to: its class, key and whether it is saved.\<close>

record audit_target =
  tgt_is_model :: bool
  tgt_type :: pystr
  tgt_pk :: "pystr option"
  tgt_adding :: bool

definition saved_target :: "pystr \<Rightarrow> uuid \<Rightarrow> audit_target" where
  "saved_target ty i =
     \<lparr>tgt_is_model = True, tgt_type = ty, tgt_pk = Some (uuid_str i), tgt_adding = False\<rparr>"

definition msg_audit_actor :: pystr where
  "msg_audit_actor = [23457, 35745, 25805, 20316, 20154, 24517, 39035, 26159, 24050, 20445,
     23384, 30340, 29992, 25143]"

definition msg_audit_target :: pystr where
  "msg_audit_target = [23457, 35745, 30446, 26631, 24517, 39035, 26377, 25345, 20037, 21270,
     20027, 38190]"

definition record_audit ::
    "instant \<Rightarrow> actor \<Rightarrow> pystr \<Rightarrow> audit_target \<Rightarrow> json \<Rightarrow> db \<Rightarrow> exn + db" where
  "record_audit now a action target changes d =
     (if \<not> actor_is_user a \<or> actor_pk a = None \<or> actor_adding a \<or> \<not> user_exists d a
      then Inl (ValueError msg_audit_actor)
      else if \<not> tgt_is_model target \<or> tgt_pk target = None \<or> tgt_adding target
      then Inl (ValueError msg_audit_target)
      else Inr (d\<lparr>audits := audits d @
             [\<lparr>au_actor = the (actor_pk a), au_action = action, au_target_type = tgt_type target,
               au_target_id = the (tgt_pk target), au_changes = changes,
               au_created_at = now\<rparr>]\<rparr>))"

section \<open>Facts\<close>

text \<open>A finance actor passes the audit's own check, so a service never fails there.\<close>

lemma require_finance_actorD:
  assumes "require_finance_actor d a m = Inr ()"
  shows "actor_is_user a" "actor_pk a \<noteq> None" "\<not> actor_adding a" "user_exists d a"
    "user_has_role d a FINANCE"
  using assms by (auto simp: require_finance_actor_def split: if_splits)

lemma record_audit_finance:
  assumes "require_finance_actor d a m = Inr ()" and "users d' = users d"
  shows "record_audit now a action (saved_target ty i) changes d' =
     Inr (d'\<lparr>audits := audits d' @
             [\<lparr>au_actor = the (actor_pk a), au_action = action, au_target_type = ty,
               au_target_id = uuid_str i, au_changes = changes, au_created_at = now\<rparr>]\<rparr>)"
proof -
  have "user_exists d' a"
    using require_finance_actorD(4) [OF assms(1)] assms(2)
    by (simp add: user_exists_def split: option.splits)
  with require_finance_actorD(1-3) [OF assms(1)] show ?thesis
    by (auto simp: record_audit_def saved_target_def)
qed

lemma user_has_role_cong:
  assumes "users d' = users d"
  shows "user_has_role d' a r = user_has_role d a r"
  unfolding user_has_role_def assigned_roles_def groups_of_def assms ..

lemma require_finance_actor_cong:
  assumes "users d' = users d"
  shows "require_finance_actor d' a m = require_finance_actor d a m"
  unfolding require_finance_actor_def user_exists_def user_has_role_cong [OF assms] assms ..

lemma finance_not_owner:
  "user_has_role d a FINANCE \<Longrightarrow> \<not> user_has_role d a OWNER"
  by (auto simp: user_has_role_def split: if_splits)

lemma set_role_groups_roles:
  "g \<in> role_value ` set all_roles \<Longrightarrow> g \<in> set (set_role_groups r gs) \<longleftrightarrow> g = role_value r"
  by (cases r) (auto simp: set_role_groups_def all_roles_def Let_def)

lemma set_role_groups_others:
  "g \<notin> role_value ` set all_roles \<Longrightarrow> g \<in> set (set_role_groups r gs) \<longleftrightarrow> g \<in> set gs"
  by (cases r) (auto simp: set_role_groups_def all_roles_def Let_def)

end
