(* ===== verification/Open_Amounts.thy ===== *)
theory Open_Amounts
  imports Accounts
begin

text \<open>
  Open amounts (\<open>apps/reconciliation/queries.py\<close>): the total of an invoice or a money
  transaction less its active allocations. Invoices and transactions are the two sides of
  one notion; the locale \<open>alloc_side\<close> states what the proofs need of a side, and both
  sides are interpretations of it.
\<close>

section \<open>Allocated and open amounts\<close>

text \<open>\<open>reconciliation__reversal__isnull=True\<close>.\<close>

definition active :: "db \<Rightarrow> allocation \<Rightarrow> bool" where
  "active d a \<longleftrightarrow> ra_reconciliation a \<notin> rv_original ` set (reversals d)"

lemma active_frame [simp]:
  "active (d\<lparr>allocs := x\<rparr>) = active d" "active (d\<lparr>recons := y\<rparr>) = active d"
  "active (d\<lparr>audits := w\<rparr>) = active d" "active (d\<lparr>settlements := v\<rparr>) = active d"
  by (simp_all add: active_def fun_eq_iff)

definition allocated_by :: "(allocation \<Rightarrow> uuid) \<Rightarrow> db \<Rightarrow> uuid \<Rightarrow> money" where
  "allocated_by key d k =
     sum_list (map ra_amount (filter (\<lambda>a. key a = k \<and> active d a) (allocs d)))"

definition invoice_open_amount :: "db \<Rightarrow> uuid \<Rightarrow> exn + money" where
  "invoice_open_amount d i =
     (case find_row inv_id (invoices d) i of
        None \<Rightarrow> Inl ObjectDoesNotExist
      | Some bill \<Rightarrow> Inr (inv_total_amount bill - allocated_by ra_invoice d i))"

definition transaction_open_amount :: "db \<Rightarrow> uuid \<Rightarrow> exn + money" where
  "transaction_open_amount d i =
     (case find_row mt_id (moneys d) i of
        None \<Rightarrow> Inl ObjectDoesNotExist
      | Some money \<Rightarrow> Inr (mt_amount money - allocated_by ra_transaction d i))"

section \<open>Facts that hold for any key\<close>

lemma allocated_by_append:
  assumes "\<And>a. a \<in> set news \<Longrightarrow> active d a"
  shows "allocated_by key (d\<lparr>allocs := allocs d @ news\<rparr>) k =
     allocated_by key d k + sum_list (map ra_amount (filter (\<lambda>a. key a = k) news))"
proof -
  have "filter (\<lambda>a. key a = k \<and> active d a) news = filter (\<lambda>a. key a = k) news"
    using assms by (auto intro: filter_cong)
  then show ?thesis
    by (simp add: allocated_by_def)
qed

lemma allocated_by_cong:
  assumes "allocs d' = allocs d" "reversals d' = reversals d"
  shows "allocated_by key d' k = allocated_by key d k"
  using assms by (simp add: allocated_by_def active_def)

lemma allocated_by_nonneg:
  assumes "\<And>a. a \<in> set (allocs d) \<Longrightarrow> 0 < ra_amount a"
  shows "0 \<le> allocated_by key d k"
  unfolding allocated_by_def
  by (rule sum_list_nonneg_int) (auto dest: assms intro: less_imp_le)

text \<open>Reversing a reconciliation takes exactly its own allocations away.\<close>

lemma sum_list_filter_split:
  fixes f :: "'a \<Rightarrow> int"
  shows "sum_list (map f (filter P xs)) =
     sum_list (map f (filter (\<lambda>x. P x \<and> Q x) xs)) + sum_list (map f (filter (\<lambda>x. P x \<and> \<not> Q x) xs))"
  by (induction xs) auto

lemma allocated_by_reverse:
  assumes "rv_original rv \<notin> rv_original ` set (reversals d)"
  shows "allocated_by key (d\<lparr>reversals := reversals d @ [rv]\<rparr>) k =
     allocated_by key d k
     - sum_list (map ra_amount
         (filter (\<lambda>a. key a = k \<and> ra_reconciliation a = rv_original rv) (allocs d)))"
proof -
  have "filter (\<lambda>a. (key a = k \<and> active d a) \<and> ra_reconciliation a = rv_original rv) (allocs d)
      = filter (\<lambda>a. key a = k \<and> ra_reconciliation a = rv_original rv) (allocs d)"
    using assms by (auto simp: active_def image_iff intro!: filter_cong)
  moreover have "filter (\<lambda>a. (key a = k \<and> active d a) \<and> ra_reconciliation a \<noteq> rv_original rv) (allocs d)
      = filter (\<lambda>a. key a = k \<and> active (d\<lparr>reversals := reversals d @ [rv]\<rparr>) a) (allocs d)"
    by (auto simp: active_def intro!: filter_cong)
  ultimately show ?thesis
    using sum_list_filter_split [of ra_amount "\<lambda>a. key a = k \<and> active d a" "allocs d"
        "\<lambda>a. ra_reconciliation a = rv_original rv"]
    by (simp add: allocated_by_def)
qed

section \<open>One side of the ledger\<close>

definition side_within ::
    "(allocation \<Rightarrow> uuid) \<Rightarrow> (db \<Rightarrow> 'r list) \<Rightarrow> ('r \<Rightarrow> uuid) \<Rightarrow> ('r \<Rightarrow> money) \<Rightarrow> db \<Rightarrow> bool" where
  "side_within key rows rid cap d \<longleftrightarrow>
     (\<forall>r\<in>set (rows d). allocated_by key d (rid r) \<le> cap r)"

definition side_open ::
    "(allocation \<Rightarrow> uuid) \<Rightarrow> ('r \<Rightarrow> uuid) \<Rightarrow> ('r \<Rightarrow> money) \<Rightarrow> db \<Rightarrow> 'r \<Rightarrow> money" where
  "side_open key rid cap d r = cap r - allocated_by key d (rid r)"

text \<open>
  A side is a table with a key into it from the allocations and a capacity per row; the
  only law is that writing the reconciliation tables does not write the side's own table.
\<close>

locale alloc_side =
  fixes key :: "allocation \<Rightarrow> uuid"
    and rows :: "db \<Rightarrow> 'r list"
    and rid :: "'r \<Rightarrow> uuid"
    and cap :: "'r \<Rightarrow> money"
  assumes rows_allocs: "rows (d\<lparr>allocs := x\<rparr>) = rows d"
    and rows_recons: "rows (d\<lparr>recons := y\<rparr>) = rows d"
    and rows_reversals: "rows (d\<lparr>reversals := z\<rparr>) = rows d"
    and rows_audits: "rows (d\<lparr>audits := w\<rparr>) = rows d"
    and rows_settlements: "rows (d\<lparr>settlements := v\<rparr>) = rows d"
begin

lemmas rows_frame = rows_allocs rows_recons rows_reversals rows_audits rows_settlements

lemma within_cong:
  assumes "side_within key rows rid cap d" "rows d' = rows d" "allocs d' = allocs d"
    "reversals d' = reversals d"
  shows "side_within key rows rid cap d'"
  using assms allocated_by_cong [of d' d key] by (simp add: side_within_def)

text \<open>New allocations that ask at most the open amount of every row keep the side.\<close>

lemma within_append:
  assumes ok: "side_within key rows rid cap d"
    and act: "\<And>a. a \<in> set news \<Longrightarrow> active d a"
    and fits: "\<And>r. r \<in> set (rows d) \<Longrightarrow> rid r \<in> key ` set news \<Longrightarrow>
        sum_list (map ra_amount (filter (\<lambda>a. key a = rid r) news)) \<le> side_open key rid cap d r"
  shows "side_within key rows rid cap (d\<lparr>allocs := allocs d @ news\<rparr>)"
  unfolding side_within_def
proof
  fix r assume "r \<in> set (rows (d\<lparr>allocs := allocs d @ news\<rparr>))"
  then have r: "r \<in> set (rows d)" by (simp add: rows_allocs)
  show "allocated_by key (d\<lparr>allocs := allocs d @ news\<rparr>) (rid r) \<le> cap r"
  proof (cases "rid r \<in> key ` set news")
    case True
    from fits [OF r True] show ?thesis
      by (simp add: allocated_by_append [OF act] side_open_def)
  next
    case False
    then have "filter (\<lambda>a. key a = rid r) news = []"
      by (force simp: filter_empty_conv)
    with ok r show ?thesis
      by (simp add: allocated_by_append [OF act] side_within_def)
  qed
qed

text \<open>A reversal only gives amounts back.\<close>

lemma within_reverse:
  assumes ok: "side_within key rows rid cap d"
    and new: "rv_original rv \<notin> rv_original ` set (reversals d)"
    and pos: "\<And>a. a \<in> set (allocs d) \<Longrightarrow> 0 < ra_amount a"
  shows "side_within key rows rid cap (d\<lparr>reversals := reversals d @ [rv]\<rparr>)"
  unfolding side_within_def
proof
  fix r assume "r \<in> set (rows (d\<lparr>reversals := reversals d @ [rv]\<rparr>))"
  then have "allocated_by key d (rid r) \<le> cap r"
    using ok by (simp add: rows_reversals side_within_def)
  moreover have "0 \<le> sum_list (map ra_amount
      (filter (\<lambda>a. key a = rid r \<and> ra_reconciliation a = rv_original rv) (allocs d)))"
    by (rule sum_list_nonneg_int) (auto dest: pos intro: less_imp_le)
  ultimately show "allocated_by key (d\<lparr>reversals := reversals d @ [rv]\<rparr>) (rid r) \<le> cap r"
    by (simp add: allocated_by_reverse [OF new])
qed

lemma open_append:
  assumes "\<And>a. a \<in> set news \<Longrightarrow> active d a"
  shows "side_open key rid cap (d\<lparr>allocs := allocs d @ news\<rparr>) r =
     side_open key rid cap d r - sum_list (map ra_amount (filter (\<lambda>a. key a = rid r) news))"
  by (simp add: side_open_def allocated_by_append [OF assms])

end

interpretation inv_side: alloc_side ra_invoice invoices inv_id inv_total_amount
  by unfold_locales simp_all

interpretation mon_side: alloc_side ra_transaction moneys mt_id mt_amount
  by unfold_locales simp_all

section \<open>The ledger invariant\<close>

text \<open>
  What the tables promise: identifiers are keys, the foreign keys resolve, allocations
  are positive, a reconciliation is reversed at most once, and no invoice or transaction
  is allocated beyond its total.
\<close>

definition ledger_keys :: "db \<Rightarrow> bool" where
  "ledger_keys d \<longleftrightarrow> distinct (map inv_id (invoices d)) \<and> distinct (map mt_id (moneys d))
     \<and> distinct (map rc_id (recons d)) \<and> distinct (map rv_original (reversals d))"

definition ledger_refs :: "db \<Rightarrow> bool" where
  "ledger_refs d \<longleftrightarrow>
     (\<forall>a\<in>set (allocs d). 0 < ra_amount a \<and> ra_reconciliation a \<in> rc_id ` set (recons d)
        \<and> ra_invoice a \<in> inv_id ` set (invoices d) \<and> ra_transaction a \<in> mt_id ` set (moneys d))
     \<and> rv_original ` set (reversals d) \<subseteq> rc_id ` set (recons d)"

definition within_totals :: "db \<Rightarrow> bool" where
  "within_totals d \<longleftrightarrow> side_within ra_invoice invoices inv_id inv_total_amount d
     \<and> side_within ra_transaction moneys mt_id mt_amount d"

text \<open>The column types and check constraints of the two amount columns.\<close>

definition ledger_caps :: "db \<Rightarrow> bool" where
  "ledger_caps d \<longleftrightarrow>
     (\<forall>b\<in>set (invoices d). 0 < inv_total_amount b \<and> inv_total_amount b \<le> max_cents)
     \<and> (\<forall>m\<in>set (moneys d). 0 < mt_amount m \<and> mt_amount m \<le> max_cents)"

definition ledger_ok :: "db \<Rightarrow> bool" where
  "ledger_ok d \<longleftrightarrow> ledger_keys d \<and> ledger_refs d \<and> within_totals d \<and> ledger_caps d"

lemma ledger_ok_empty: "ledger_ok empty_db"
  by (simp add: ledger_ok_def ledger_keys_def ledger_refs_def within_totals_def side_within_def
      ledger_caps_def empty_db_def)

lemma ledger_ok_pos: "ledger_ok d \<Longrightarrow> a \<in> set (allocs d) \<Longrightarrow> 0 < ra_amount a"
  by (simp add: ledger_ok_def ledger_refs_def)

lemma ledger_ok_money_cap:
  assumes "ledger_ok d" "m \<in> set (moneys d)"
  shows "side_open ra_transaction mt_id mt_amount d m \<le> max_cents"
proof -
  have "0 \<le> allocated_by ra_transaction d (mt_id m)"
    using ledger_ok_pos [OF assms(1)] by (rule allocated_by_nonneg)
  then show ?thesis
    using assms by (force simp: ledger_ok_def ledger_caps_def side_open_def)
qed

lemma ledger_ok_bill_cap:
  assumes "ledger_ok d" "b \<in> set (invoices d)"
  shows "side_open ra_invoice inv_id inv_total_amount d b \<le> max_cents"
proof -
  have "0 \<le> allocated_by ra_invoice d (inv_id b)"
    using ledger_ok_pos [OF assms(1)] by (rule allocated_by_nonneg)
  then show ?thesis
    using assms by (force simp: ledger_ok_def ledger_caps_def side_open_def)
qed

lemma invoice_open_side:
  assumes "ledger_ok d" "bill \<in> set (invoices d)"
  shows "invoice_open_amount d (inv_id bill) = Inr (side_open ra_invoice inv_id inv_total_amount d bill)"
  using assms
  by (simp add: invoice_open_amount_def side_open_def ledger_ok_def ledger_keys_def find_row_unique)

lemma transaction_open_side:
  assumes "ledger_ok d" "m \<in> set (moneys d)"
  shows "transaction_open_amount d (mt_id m) = Inr (side_open ra_transaction mt_id mt_amount d m)"
  using assms
  by (simp add: transaction_open_amount_def side_open_def ledger_ok_def ledger_keys_def
      find_row_unique)

lemma ledger_ok_open_nonneg:
  assumes "ledger_ok d"
  shows "bill \<in> set (invoices d) \<Longrightarrow> 0 \<le> side_open ra_invoice inv_id inv_total_amount d bill"
    and "m \<in> set (moneys d) \<Longrightarrow> 0 \<le> side_open ra_transaction mt_id mt_amount d m"
  using assms
  by (auto simp: ledger_ok_def within_totals_def side_within_def side_open_def)

lemma invoice_open_cong:
  assumes "invoices d' = invoices d" "allocs d' = allocs d" "reversals d' = reversals d"
  shows "invoice_open_amount d' i = invoice_open_amount d i"
  using assms(1)
  by (simp add: invoice_open_amount_def allocated_by_cong [OF assms(2,3)] split: option.splits)

lemma transaction_open_cong:
  assumes "moneys d' = moneys d" "allocs d' = allocs d" "reversals d' = reversals d"
  shows "transaction_open_amount d' i = transaction_open_amount d i"
  using assms(1)
  by (simp add: transaction_open_amount_def allocated_by_cong [OF assms(2,3)] split: option.splits)

lemma ledger_ok_cong:
  assumes "ledger_ok d" "invoices d' = invoices d" "moneys d' = moneys d" "recons d' = recons d"
    "allocs d' = allocs d" "reversals d' = reversals d"
  shows "ledger_ok d'"
  using assms
  by (auto simp: ledger_ok_def ledger_keys_def ledger_refs_def within_totals_def
      ledger_caps_def intro: inv_side.within_cong mon_side.within_cong)

end
