(* ===== verification/Recon_Services.thy ===== *)
theory Recon_Services
  imports Open_Amounts
begin

text \<open>
  Creating and reversing reconciliations (\<open>apps/reconciliation/services.py\<close>). Both
  functions are \<open>@transaction.atomic\<close>: an exception leaves the database as it was.
  The clock and \<open>uuid4\<close> are arguments: \<open>now\<close>, and \<open>ids\<close>, the sequence of identifiers
  that the call draws.
\<close>

section \<open>Messages\<close>

definition msg_finance_only :: pystr where
  "msg_finance_only = [21482, 26377, 36130, 21153, 20154, 21592, 21487, 20197, 25191, 34892,
     26680, 38144]"
definition msg_empty :: pystr where "msg_empty = [26680, 38144, 26126, 32454, 19981, 33021,
     20026, 31354]"
definition msg_direction :: pystr where "msg_direction = [26680, 38144, 26041, 21521, 19981,
     21512, 27861]"
definition msg_mode :: pystr where "msg_mode = [26680, 38144, 26041, 24335, 19981, 21512, 27861]"
definition msg_batch_only :: pystr where "msg_batch_only = [32467, 31639, 25209, 27425, 21482,
     33021, 29992, 20110, 25209, 27425, 26680, 38144]"
definition msg_needs_batch :: pystr where "msg_needs_batch = [25209, 27425, 26680, 38144, 24517,
     39035, 20851, 32852, 32467, 31639, 25209, 27425]"
definition msg_decimal :: pystr where "msg_decimal = [26680, 38144, 37329, 39069, 24517, 39035,
     20351, 29992, 32, 68, 101, 99, 105, 109, 97, 108]"
definition msg_positive :: pystr where "msg_positive = [26680, 38144, 37329, 39069, 24517,
     39035, 22823, 20110, 38646]"
definition msg_two_places :: pystr where "msg_two_places = [26680, 38144, 37329, 39069, 26368,
     22810, 20445, 30041, 20004, 20301, 23567, 25968]"
definition msg_no_invoice :: pystr where "msg_no_invoice = [21457, 31080, 19981, 23384, 22312]"
definition msg_no_money :: pystr where "msg_no_money = [36164, 37329, 19981, 23384, 22312]"
definition msg_void :: pystr where "msg_void = [20316, 24223, 25110, 32418, 20914, 21457, 31080,
     19981, 33021, 26680, 38144]"
definition msg_side :: pystr where "msg_side = [26680, 38144, 26041, 21521, 19982, 21457, 31080,
     25110, 36164, 37329, 26041, 21521, 19981, 21305, 37197]"
definition msg_party :: pystr where "msg_party = [21457, 31080, 21644, 36164, 37329, 20132,
     26131, 23545, 26041, 19981, 19968, 33268]"
definition msg_stale :: pystr where "msg_stale = [39029, 38754, 25968, 25454, 24050, 36807,
     26399, 65292, 35831, 21047, 26032, 21518, 37325, 35797]"
definition msg_money_short :: pystr where "msg_money_short = [36164, 37329, 21487, 26680, 38144,
     37329, 39069, 19981, 36275]"
definition msg_invoice_short :: pystr where "msg_invoice_short = [21457, 31080, 21487, 26680,
     38144, 37329, 39069, 19981, 36275]"
definition msg_reason :: pystr where "msg_reason = [25764, 38144, 21407, 22240, 19981, 33021,
     20026, 31354]"
definition msg_reversed :: pystr where "msg_reversed = [35813, 26680, 38144, 24050, 32463,
     25764, 38144]"

definition msg_remaining :: "money \<Rightarrow> pystr" where
  "msg_remaining v = [26412, 27425, 26680, 38144, 21518, 20173, 21097, 20313,
     32] @ money_grouped v @ [32, 20803, 65292, 35831, 26126, 30830, 30830, 35748, 37096, 20998,
     26680, 38144, 12290]"

section \<open>Inputs\<close>

text \<open>
  \<open>AllocationInput\<close>: the amount is \<open>None\<close> when the caller passed something that is not a
  \<open>Decimal\<close>. \<open>recon_args\<close> are the keyword arguments of \<open>create_reconciliation\<close>.
\<close>

record alloc_input =
  ai_invoice :: uuid
  ai_transaction :: uuid
  ai_amount :: "pydec option"

record recon_args =
  cr_actor :: actor
  cr_direction :: pystr
  cr_allocations :: "alloc_input list"
  cr_note :: pystr
  cr_mode :: pystr
  cr_settlement :: "settlement_batch option"
  cr_expected_invoice_open :: "(uuid \<times> pydec) list option"
  cr_expected_transaction_open :: "(uuid \<times> pydec) list option"
  cr_allow_partial :: bool

definition directions_for :: "pystr \<Rightarrow> pystr \<times> pystr" where
  "directions_for direction =
     (if direction = PURCHASE_PAYMENT then (InvoiceDirection_INPUT, MoneyDirection_OUTFLOW)
      else (InvoiceDirection_OUTPUT, MoneyDirection_INFLOW))"

section \<open>Validation\<close>

text \<open>The checks of one item, in the code's order; the result is its amount in cents.\<close>

definition check_amount :: "pydec option \<Rightarrow> exn + money" where
  "check_amount a =
     (case a of None \<Rightarrow> Inl (ValidationError msg_decimal)
      | Some x \<Rightarrow>
         (case dec_le x 0 of
            Inl _ \<Rightarrow> Inl DecimalInvalidOperation
          | Inr True \<Rightarrow> Inl (ValidationError msg_positive)
          | Inr False \<Rightarrow>
             (case quantize_cents x of
                Inl _ \<Rightarrow> Inl DecimalInvalidOperation
              | Inr _ \<Rightarrow>
                 (case whole_cents x of
                    None \<Rightarrow> Inl (ValidationError msg_two_places)
                  | Some v \<Rightarrow> Inr v))))"

definition check_item ::
    "pystr \<Rightarrow> (uuid \<Rightarrow> invoice option) \<Rightarrow> (uuid \<Rightarrow> money_transaction option) \<Rightarrow> alloc_input
     \<Rightarrow> exn + money" where
  "check_item direction bills funds item =
     (case check_amount (ai_amount item) of
        Inl e \<Rightarrow> Inl e
      | Inr v \<Rightarrow>
         (case bills (ai_invoice item) of
            None \<Rightarrow> Inl (ValidationError msg_no_invoice)
          | Some bill \<Rightarrow>
             (case funds (ai_transaction item) of
                None \<Rightarrow> Inl (ValidationError msg_no_money)
              | Some money \<Rightarrow>
                  if inv_status bill = InvoiceStatus_VOID \<or> inv_status bill = InvoiceStatus_RED
                  then Inl (ValidationError msg_void)
                  else if inv_direction bill \<noteq> fst (directions_for direction)
                       \<or> mt_direction money \<noteq> snd (directions_for direction)
                  then Inl (ValidationError msg_side)
                  else if mt_counterparty money \<noteq> Some (inv_counterparty bill)
                  then Inl (ValidationError msg_party)
                  else Inr v)))"

text \<open>The loop over the items with the two dictionaries of requested amounts.\<close>

fun check_items ::
    "pystr \<Rightarrow> (uuid \<Rightarrow> invoice option) \<Rightarrow> (uuid \<Rightarrow> money_transaction option)
     \<Rightarrow> alloc_input list \<Rightarrow> (uuid \<times> money) list \<Rightarrow> (uuid \<times> money) list
     \<Rightarrow> exn + (uuid \<times> money) list \<times> (uuid \<times> money) list" where
  "check_items direction bills funds [] ri rt = Inr (ri, rt)"
| "check_items direction bills funds (item # items) ri rt =
     (case check_item direction bills funds item of
        Inl e \<Rightarrow> Inl e
      | Inr v \<Rightarrow> check_items direction bills funds items
                  (dict_add (ai_invoice item) v ri) (dict_add (ai_transaction item) v rt))"

fun dec_eq :: "pydec \<Rightarrow> money \<Rightarrow> bool" where
  "dec_eq (Fin c e) v = cents_eq c e v"
| "dec_eq _ v = False"

definition check_expected ::
    "(uuid \<times> pydec) list option \<Rightarrow> (uuid \<times> money) list \<Rightarrow> exn + unit" where
  "check_expected expected current =
     (case expected of None \<Rightarrow> Inr ()
      | Some ex \<Rightarrow>
          if fst ` set ex \<noteq> fst ` set current
             \<or> list_ex (\<lambda>(i, amount). \<not> (case map_of ex i of None \<Rightarrow> False
                                       | Some x \<Rightarrow> dec_eq x amount)) current
          then Inl (ValidationError msg_stale) else Inr ())"

text \<open>The open amounts of the requested rows, in the order of the request.\<close>

definition open_amounts ::
    "(uuid \<Rightarrow> 'r option) \<Rightarrow> ('r \<Rightarrow> money) \<Rightarrow> (uuid \<Rightarrow> money) \<Rightarrow> (uuid \<times> money) list
     \<Rightarrow> (uuid \<times> money) list" where
  "open_amounts found cap allocated requested =
     map (\<lambda>(i, _). (i, (case found i of None \<Rightarrow> 0 | Some r \<Rightarrow> cap r) - allocated i)) requested"

fun check_remaining :: "(uuid \<times> money) list \<Rightarrow> (uuid \<times> money) list \<Rightarrow> exn + unit" where
  "check_remaining open_by [] = Inr ()"
| "check_remaining open_by ((i, requested) # rest) =
     (let remaining = dict_get0 open_by i - requested
      in if 0 < remaining then Inl (ValidationError (msg_remaining remaining))
         else check_remaining open_by rest)"

fun check_enough :: "pystr \<Rightarrow> (uuid \<times> money) list \<Rightarrow> (uuid \<times> money) list \<Rightarrow> exn + unit" where
  "check_enough message open_by [] = Inr ()"
| "check_enough message open_by ((i, requested) # rest) =
     (if dict_get0 open_by i < requested then Inl (ValidationError message)
      else check_enough message open_by rest)"

definition validate_allocations ::
    "db \<Rightarrow> pystr \<Rightarrow> alloc_input list \<Rightarrow> (uuid \<Rightarrow> invoice option)
     \<Rightarrow> (uuid \<Rightarrow> money_transaction option) \<Rightarrow> (uuid \<times> pydec) list option
     \<Rightarrow> (uuid \<times> pydec) list option \<Rightarrow> bool \<Rightarrow> exn + unit" where
  "validate_allocations d direction items bills funds expected_i expected_t allow_partial =
     (case check_items direction bills funds items [] [] of
        Inl e \<Rightarrow> Inl e
      | Inr (ri, rt) \<Rightarrow>
          (let oi = open_amounts bills inv_total_amount (allocated_by ra_invoice d) ri;
               ot = open_amounts funds mt_amount (allocated_by ra_transaction d) rt
           in case check_expected expected_i oi of
                Inl e \<Rightarrow> Inl e
              | Inr _ \<Rightarrow>
                 (case check_expected expected_t ot of
                    Inl e \<Rightarrow> Inl e
                  | Inr _ \<Rightarrow>
                     (case (if allow_partial then Inr () else check_remaining oi ri) of
                        Inl e \<Rightarrow> Inl e
                      | Inr _ \<Rightarrow>
                         (case check_enough msg_money_short ot rt of
                            Inl e \<Rightarrow> Inl e
                          | Inr _ \<Rightarrow> check_enough msg_invoice_short oi ri)))))"

section \<open>Creating a reconciliation\<close>

text \<open>\<open>{obj.id: obj for obj in Model.objects.filter(id__in=ids)}\<close>.\<close>

definition in_bulk :: "('r \<Rightarrow> uuid) \<Rightarrow> 'r list \<Rightarrow> uuid list \<Rightarrow> uuid \<Rightarrow> 'r option" where
  "in_bulk idf rows ids k = (if k \<in> set ids then find_row idf rows k else None)"

definition item_cents :: "alloc_input \<Rightarrow> money" where
  "item_cents item =
     (case ai_amount item of None \<Rightarrow> 0
      | Some x \<Rightarrow> (case whole_cents x of None \<Rightarrow> 0 | Some v \<Rightarrow> v))"

definition new_allocations ::
    "(nat \<Rightarrow> uuid) \<Rightarrow> uuid \<Rightarrow> alloc_input list \<Rightarrow> allocation list" where
  "new_allocations ids rid items =
     map (\<lambda>(k, item). \<lparr>ra_id = ids (Suc k), ra_reconciliation = rid,
                       ra_invoice = ai_invoice item, ra_transaction = ai_transaction item,
                       ra_amount = item_cents item\<rparr>)
       (zip [0..<length items] items)"

definition create_reconciliation ::
    "instant \<Rightarrow> (nat \<Rightarrow> uuid) \<Rightarrow> recon_args \<Rightarrow> db \<Rightarrow> exn + reconciliation \<times> db" where
  "create_reconciliation now ids args d =
     (case require_finance_actor d (cr_actor args) msg_finance_only of
        Inl e \<Rightarrow> Inl e
      | Inr _ \<Rightarrow>
        if cr_allocations args = [] then Inl (ValidationError msg_empty)
        else if cr_direction args \<notin> set ReconciliationDirection_values
        then Inl (ValidationError msg_direction)
        else if cr_mode args \<notin> set ReconciliationMode_values
        then Inl (ValidationError msg_mode)
        else if cr_settlement args \<noteq> None \<and> cr_mode args \<noteq> Mode_BATCH
        then Inl (ValidationError msg_batch_only)
        else if cr_settlement args = None \<and> cr_mode args = Mode_BATCH
        then Inl (ValidationError msg_needs_batch)
        else
          (let items = cr_allocations args;
               bills = in_bulk inv_id (invoices d) (map ai_invoice items);
               funds = in_bulk mt_id (moneys d) (map ai_transaction items)
           in case validate_allocations d (cr_direction args) items bills funds
                     (cr_expected_invoice_open args) (cr_expected_transaction_open args)
                     (cr_allow_partial args) of
                Inl e \<Rightarrow> Inl e
              | Inr _ \<Rightarrow>
                 (let rc = \<lparr>rc_id = ids 0, rc_direction = cr_direction args,
                            rc_mode = cr_mode args,
                            rc_created_by = the (actor_pk (cr_actor args)),
                            rc_settlement_batch = map_option sb_id (cr_settlement args),
                            rc_note = cr_note args, rc_created_at = now\<rparr>;
                      d1 = d\<lparr>recons := recons d @ [rc],
                             allocs := allocs d @ new_allocations ids (ids 0) items\<rparr>
                  in case record_audit now (cr_actor args) (lit ''reconciliation.created'')
                            (saved_target (lit ''Reconciliation'') (ids 0))
                            (JObj [(lit ''allocation_count'', JInt (int (length items)))]) d1 of
                       Inl e \<Rightarrow> Inl e
                     | Inr d2 \<Rightarrow> Inr (rc, d2))))"

section \<open>Reversing a reconciliation\<close>

definition reverse_reconciliation ::
    "instant \<Rightarrow> (nat \<Rightarrow> uuid) \<Rightarrow> actor \<Rightarrow> uuid \<Rightarrow> pystr option \<Rightarrow> db \<Rightarrow> exn + reversal \<times> db" where
  "reverse_reconciliation now ids a rid reason d =
     (case require_finance_actor d a msg_finance_only of
        Inl e \<Rightarrow> Inl e
      | Inr _ \<Rightarrow>
         (case reason of
            None \<Rightarrow> Inl (ValidationError msg_reason)
          | Some text \<Rightarrow>
              if strip text = [] then Inl (ValidationError msg_reason)
              else
                (case find_row rc_id (recons d) rid of
                   None \<Rightarrow> Inl ObjectDoesNotExist
                 | Some original \<Rightarrow>
                     if rid \<in> rv_original ` set (reversals d)
                     then Inl (ValidationError msg_reversed)
                     else
                       (let rv = \<lparr>rv_id = ids 0, rv_original = rid,
                                  rv_reversed_by = the (actor_pk a), rv_reason = strip text,
                                  rv_created_at = now\<rparr>;
                            d1 = d\<lparr>reversals := reversals d @ [rv]\<rparr>
                        in case record_audit now a (lit ''reconciliation.reversed'')
                                  (saved_target (lit ''Reconciliation'') rid)
                                  (JObj [(lit ''reason'', JStr (strip text))]) d1 of
                             Inl e \<Rightarrow> Inl e
                           | Inr d2 \<Rightarrow> Inr (rv, d2)))))"

end
