(* ===== verification/Recon_Proofs.thy ===== *)
theory Recon_Proofs
  imports Recon_Services
begin

text \<open>
  What the reconciliation services guarantee: the validation accepts exactly the requests
  that fit, a creation takes the requested amounts and nothing else, a reversal gives them
  back, and both keep the ledger invariant.
\<close>

section \<open>Amounts of a request\<close>

text \<open>The amount a request asks of one row; \<open>side\<close> is \<open>ai_invoice\<close> or \<open>ai_transaction\<close>.\<close>

definition requested :: "(alloc_input \<Rightarrow> uuid) \<Rightarrow> alloc_input list \<Rightarrow> uuid \<Rightarrow> money" where
  "requested side items k = sum_list (map item_cents (filter (\<lambda>i. side i = k) items))"

lemma requested_Nil [simp]: "requested side [] k = 0"
  by (simp add: requested_def)

lemma requested_Cons:
  "requested side (i # items) k = (if side i = k then item_cents i else 0) + requested side items k"
  by (simp add: requested_def)

lemma requested_other: "k \<notin> side ` set items \<Longrightarrow> requested side items k = 0"
  by (induction items) (auto simp: requested_Cons)

section \<open>The checks\<close>

lemma whole_cents_Some: "whole_cents x = Some v \<Longrightarrow> \<exists>c e. x = Fin c e \<and> cents_eq c e v"
  by (auto simp: whole_cents_def split: pydec.splits if_splits)

lemma whole_cents_dec_le:
  "whole_cents x = Some v \<Longrightarrow> dec_le x k = Inr (v \<le> k)"
  by (auto dest!: whole_cents_Some simp: cents_le_whole)

lemma check_amount_Inr:
  assumes "check_amount a = Inr v"
  shows "\<exists>x. a = Some x \<and> whole_cents x = Some v" "0 < v"
  using assms
  by (auto simp: check_amount_def whole_cents_dec_le
      split: option.splits sum.splits bool.splits)

text \<open>An amount the validation accepts: a positive whole number of cents below \<open>10 ** 26\<close>.\<close>

lemma check_amount_iff:
  "check_amount a = Inr v \<longleftrightarrow>
     (\<exists>x. a = Some x \<and> whole_cents x = Some v \<and> 0 < v \<and> v < 10 ^ 28)" (is "?l = ?r")
proof
  assume l: ?l
  then obtain x where x: "a = Some x" "whole_cents x = Some v" and pos: "0 < v"
    using check_amount_Inr by blast
  obtain c e where ce: "x = Fin c e" "cents_eq c e v"
    using whole_cents_Some [OF x(2)] by blast
  have "cents_round c e = v" by (rule cents_eq_imp_round [OF ce(2)])
  with l x ce pos have "v < 10 ^ 28"
    by (auto simp: check_amount_def Let_def split: sum.splits bool.splits if_splits)
  with x pos show ?r by blast
next
  assume ?r
  then obtain x where x: "a = Some x" "whole_cents x = Some v" "0 < v" "v < 10 ^ 28" by blast
  obtain c e where ce: "x = Fin c e" "cents_eq c e v"
    using whole_cents_Some [OF x(2)] by blast
  have "cents_round c e = v" by (rule cents_eq_imp_round [OF ce(2)])
  with x ce show ?l
    by (simp add: check_amount_def cents_le_whole Let_def)
qed

text \<open>An item the validation accepts, with the rows it names.\<close>

definition item_ok ::
    "pystr \<Rightarrow> (uuid \<Rightarrow> invoice option) \<Rightarrow> (uuid \<Rightarrow> money_transaction option) \<Rightarrow> alloc_input \<Rightarrow> bool" where
  "item_ok direction bills funds item \<longleftrightarrow>
     (\<exists>x bill money. ai_amount item = Some x \<and> whole_cents x = Some (item_cents item)
        \<and> 0 < item_cents item \<and> item_cents item < 10 ^ 28
        \<and> bills (ai_invoice item) = Some bill \<and> funds (ai_transaction item) = Some money
        \<and> inv_status bill \<noteq> InvoiceStatus_VOID \<and> inv_status bill \<noteq> InvoiceStatus_RED
        \<and> inv_direction bill = fst (directions_for direction)
        \<and> mt_direction money = snd (directions_for direction)
        \<and> mt_counterparty money = Some (inv_counterparty bill))"

lemma item_cents_eq: "ai_amount i = Some x \<Longrightarrow> whole_cents x = Some v \<Longrightarrow> item_cents i = v"
  by (simp add: item_cents_def)

lemma check_item_iff:
  "check_item direction bills funds item = Inr v \<longleftrightarrow>
     item_ok direction bills funds item \<and> v = item_cents item"
proof -
  have "check_amount (ai_amount item) = Inr v \<longleftrightarrow>
      (\<exists>x. ai_amount item = Some x \<and> whole_cents x = Some v \<and> 0 < v \<and> v < 10 ^ 28
        \<and> v = item_cents item)"
    unfolding check_amount_iff by (auto simp: item_cents_eq)
  then show ?thesis
    by (auto simp: check_item_def item_ok_def split: sum.splits option.splits)
qed

lemma check_items_iff:
  "check_items direction bills funds items ri rt = Inr (ri', rt') \<longleftrightarrow>
     (\<forall>i\<in>set items. item_ok direction bills funds i)
     \<and> ri' = fold (\<lambda>i. dict_add (ai_invoice i) (item_cents i)) items ri
     \<and> rt' = fold (\<lambda>i. dict_add (ai_transaction i) (item_cents i)) items rt"
proof (induction items arbitrary: ri rt)
  case Nil
  then show ?case by auto
next
  case (Cons i items)
  show ?case
  proof (cases "check_item direction bills funds i")
    case (Inl e)
    then have "\<not> item_ok direction bills funds i"
      using check_item_iff [of direction bills funds i "item_cents i"] by auto
    with Inl show ?thesis by auto
  next
    case (Inr v)
    then have "item_ok direction bills funds i" "v = item_cents i"
      by (simp_all add: check_item_iff)
    with Inr Cons.IH show ?thesis by auto
  qed
qed

lemma fold_dict_add:
  "dict_get0 (fold (\<lambda>i. dict_add (side i) (item_cents i)) items r) k = dict_get0 r k + requested side items k"
  by (induction items arbitrary: r) (auto simp: dict_get0_add requested_Cons)

lemma fold_dict_add_keys:
  "fst ` set (fold (\<lambda>i. dict_add (side i) (item_cents i)) items r) = fst ` set r \<union> side ` set items"
  by (induction items arbitrary: r) auto

lemma fold_dict_add_distinct:
  "distinct (map fst r) \<Longrightarrow>
   distinct (map fst (fold (\<lambda>i. dict_add (side i) (item_cents i)) items r))"
  by (induction items arbitrary: r) auto

text \<open>The dictionary of requested amounts that the loop leaves.\<close>

definition request_dict :: "(alloc_input \<Rightarrow> uuid) \<Rightarrow> alloc_input list \<Rightarrow> (uuid \<times> money) list" where
  "request_dict side items = fold (\<lambda>i. dict_add (side i) (item_cents i)) items []"

lemma request_dict_keys: "fst ` set (request_dict side items) = side ` set items"
  by (simp add: request_dict_def fold_dict_add_keys)

lemma request_dict_distinct: "distinct (map fst (request_dict side items))"
  by (simp add: request_dict_def fold_dict_add_distinct)

lemma request_dict_get: "dict_get0 (request_dict side items) k = requested side items k"
  by (simp add: request_dict_def fold_dict_add)

lemma request_dict_item:
  "(k, v) \<in> set (request_dict side items) \<longleftrightarrow> k \<in> side ` set items \<and> v = requested side items k"
proof -
  have "(k, v) \<in> set (request_dict side items) \<Longrightarrow> v = requested side items k" for v
    using dict_get0_item [OF request_dict_distinct] by (auto simp: request_dict_get)
  then show ?thesis
    unfolding request_dict_keys [of side items, symmetric] by force
qed

lemma request_dict_all:
  "(\<forall>(k, v)\<in>set (request_dict side items). P k v) \<longleftrightarrow>
     (\<forall>k\<in>side ` set items. P k (requested side items k))"
  by (auto simp: request_dict_item)

lemma open_amounts_get:
  "dict_get0 (open_amounts found cap allocated (request_dict side items)) k =
     (if k \<in> side ` set items
      then (case found k of None \<Rightarrow> 0 | Some r \<Rightarrow> cap r) - allocated k else 0)"
proof -
  have "map_of (map (\<lambda>(i, _). (i, f i)) r) k = (if k \<in> fst ` set r then Some (f k) else None)"
    for f :: "uuid \<Rightarrow> money" and r :: "(uuid \<times> money) list"
    by (induction r) auto
  then show ?thesis
    by (simp add: dict_get0_def open_amounts_def request_dict_keys)
qed

lemma check_enough_iff:
  "check_enough message ob r = Inr () \<longleftrightarrow> (\<forall>(i, v)\<in>set r. v \<le> dict_get0 ob i)"
  by (induction message ob r rule: check_enough.induct) auto

lemma check_remaining_iff:
  "check_remaining ob r = Inr () \<longleftrightarrow> (\<forall>(i, v)\<in>set r. dict_get0 ob i \<le> v)"
  by (induction ob r rule: check_remaining.induct) (auto simp: Let_def)

section \<open>The validation as a whole\<close>

text \<open>The open amount of the row a request names, 0 when it names none.\<close>

definition bill_open :: "db \<Rightarrow> uuid \<Rightarrow> money" where
  "bill_open d i = (case invoice_open_amount d i of Inl _ \<Rightarrow> 0 | Inr v \<Rightarrow> v)"

definition fund_open :: "db \<Rightarrow> uuid \<Rightarrow> money" where
  "fund_open d i = (case transaction_open_amount d i of Inl _ \<Rightarrow> 0 | Inr v \<Rightarrow> v)"

definition expected_matches ::
    "(uuid \<times> pydec) list option \<Rightarrow> uuid set \<Rightarrow> (uuid \<Rightarrow> money) \<Rightarrow> bool" where
  "expected_matches expected ks amount \<longleftrightarrow>
     (\<forall>ex. expected = Some ex \<longrightarrow> fst ` set ex = ks
        \<and> (\<forall>k\<in>ks. \<exists>x. map_of ex k = Some x \<and> dec_eq x (amount k)))"

lemma check_expected_iff:
  assumes "\<And>i v. (i, v) \<in> set current \<longleftrightarrow> i \<in> ks \<and> v = amount i"
  shows "check_expected expected current = Inr () \<longleftrightarrow> expected_matches expected ks amount"
proof -
  have keys: "fst ` set current = ks" using assms by force
  show ?thesis
  proof (cases expected)
    case None
    then show ?thesis by (simp add: check_expected_def expected_matches_def)
  next
    case (Some ex)
    have "list_ex (\<lambda>(i, amount). \<not> (case map_of ex i of None \<Rightarrow> False
            | Some x \<Rightarrow> dec_eq x amount)) current
        \<longleftrightarrow> (\<exists>k\<in>ks. \<not> (\<exists>x. map_of ex k = Some x \<and> dec_eq x (amount k)))"
      unfolding list_ex_iff using assms by (force split: option.splits)
    then show ?thesis
      using Some by (auto simp: check_expected_def expected_matches_def keys)
  qed
qed

lemma open_amounts_item:
  "(k, v) \<in> set (open_amounts found cap allocated (request_dict side items)) \<longleftrightarrow>
     k \<in> side ` set items \<and> v = (case found k of None \<Rightarrow> 0 | Some r \<Rightarrow> cap r) - allocated k"
  unfolding request_dict_keys [of side items, symmetric]
  by (force simp: open_amounts_def)

text \<open>A request the validation accepts; the counterpart of \<open>validate_allocations\<close>.\<close>

definition request_ok ::
    "db \<Rightarrow> pystr \<Rightarrow> alloc_input list \<Rightarrow> (uuid \<times> pydec) list option \<Rightarrow> (uuid \<times> pydec) list option
     \<Rightarrow> bool \<Rightarrow> bool" where
  "request_ok d direction items expected_i expected_t allow_partial \<longleftrightarrow>
     (\<forall>i\<in>set items. item_ok direction (find_row inv_id (invoices d)) (find_row mt_id (moneys d)) i)
     \<and> expected_matches expected_i (ai_invoice ` set items) (bill_open d)
     \<and> expected_matches expected_t (ai_transaction ` set items) (fund_open d)
     \<and> (\<forall>k\<in>ai_invoice ` set items. requested ai_invoice items k \<le> bill_open d k
          \<and> (allow_partial \<or> requested ai_invoice items k = bill_open d k))
     \<and> (\<forall>k\<in>ai_transaction ` set items. requested ai_transaction items k \<le> fund_open d k)"

lemma expected_matches_cong:
  "(\<And>k. k \<in> ks \<Longrightarrow> f k = g k) \<Longrightarrow> expected_matches ex ks f = expected_matches ex ks g"
  by (auto simp: expected_matches_def)

lemma validate_allocations_iff:
  fixes d items
  defines "bills \<equiv> in_bulk inv_id (invoices d) (map ai_invoice items)"
    and "funds \<equiv> in_bulk mt_id (moneys d) (map ai_transaction items)"
  shows "validate_allocations d direction items bills funds ei et ap = Inr () \<longleftrightarrow>
     request_ok d direction items ei et ap"
proof -
  let ?b = "find_row inv_id (invoices d)" and ?f = "find_row mt_id (moneys d)"
  let ?oi = "open_amounts bills inv_total_amount (allocated_by ra_invoice d) (request_dict ai_invoice items)"
  let ?ot = "open_amounts funds mt_amount (allocated_by ra_transaction d) (request_dict ai_transaction items)"
  have bills: "k \<in> ai_invoice ` set items \<Longrightarrow> bills k = ?b k" for k
    by (simp add: bills_def in_bulk_def)
  have funds: "k \<in> ai_transaction ` set items \<Longrightarrow> funds k = ?f k" for k
    by (simp add: funds_def in_bulk_def)
  have items: "(\<forall>i\<in>set items. item_ok direction bills funds i) \<longleftrightarrow>
      (\<forall>i\<in>set items. item_ok direction ?b ?f i)" (is "?A \<longleftrightarrow> ?B")
    by (simp add: item_ok_def bills funds)
  have oi: "(case bills k of None \<Rightarrow> 0 | Some r \<Rightarrow> inv_total_amount r) - allocated_by ra_invoice d k
      = bill_open d k" if "?B" "k \<in> ai_invoice ` set items" for k
    using that bills [OF that(2)]
    by (auto simp: bill_open_def invoice_open_amount_def item_ok_def split: option.splits)
  have ot: "(case funds k of None \<Rightarrow> 0 | Some r \<Rightarrow> mt_amount r) - allocated_by ra_transaction d k
      = fund_open d k" if "?B" "k \<in> ai_transaction ` set items" for k
    using that funds [OF that(2)]
    by (auto simp: fund_open_def transaction_open_amount_def item_ok_def split: option.splits)
  have ei: "check_expected ei ?oi = Inr () \<longleftrightarrow>
      expected_matches ei (ai_invoice ` set items) (bill_open d)" if "?B"
    using oi [OF that] by (subst check_expected_iff [OF open_amounts_item]) (simp cong: expected_matches_cong)
  have et: "check_expected et ?ot = Inr () \<longleftrightarrow>
      expected_matches et (ai_transaction ` set items) (fund_open d)" if "?B"
    using ot [OF that] by (subst check_expected_iff [OF open_amounts_item]) (simp cong: expected_matches_cong)
  have enough_i: "check_enough m ?oi (request_dict ai_invoice items) = Inr () \<longleftrightarrow>
      (\<forall>k\<in>ai_invoice ` set items. requested ai_invoice items k \<le> bill_open d k)" if "?B" for m
    using oi [OF that] by (simp add: check_enough_iff request_dict_all open_amounts_get)
  have enough_t: "check_enough m ?ot (request_dict ai_transaction items) = Inr () \<longleftrightarrow>
      (\<forall>k\<in>ai_transaction ` set items. requested ai_transaction items k \<le> fund_open d k)" if "?B" for m
    using ot [OF that] by (simp add: check_enough_iff request_dict_all open_amounts_get)
  have remaining: "check_remaining ?oi (request_dict ai_invoice items) = Inr () \<longleftrightarrow>
      (\<forall>k\<in>ai_invoice ` set items. bill_open d k \<le> requested ai_invoice items k)" if "?B"
    using oi [OF that] by (simp add: check_remaining_iff request_dict_all open_amounts_get)
  show ?thesis
  proof (cases "check_items direction bills funds items [] []")
    case (Inl e)
    then have "\<not> ?A"
      using check_items_iff [of direction bills funds items "[]" "[]"] by auto
    with Inl items show ?thesis
      by (simp add: validate_allocations_def request_ok_def)
  next
    case (Inr r)
    then have B: "?B" and r: "r = (request_dict ai_invoice items, request_dict ai_transaction items)"
      using check_items_iff [of direction bills funds items "[]" "[]" "fst r" "snd r"] items
      by (auto simp: request_dict_def prod_eq_iff)
    have both: "(\<forall>k\<in>K. f k \<le> g k \<and> (ap \<or> f k = g k)) \<longleftrightarrow>
        (\<forall>k\<in>K. f k \<le> g k) \<and> (ap \<or> (\<forall>k\<in>K. g k \<le> f k))" for f g :: "uuid \<Rightarrow> money" and K
      by (auto simp: order_eq_iff)
    have "request_ok d direction items ei et ap \<longleftrightarrow>
        check_expected ei ?oi = Inr () \<and> check_expected et ?ot = Inr ()
        \<and> (ap \<or> check_remaining ?oi (request_dict ai_invoice items) = Inr ())
        \<and> check_enough msg_money_short ?ot (request_dict ai_transaction items) = Inr ()
        \<and> check_enough msg_invoice_short ?oi (request_dict ai_invoice items) = Inr ()"
      unfolding request_ok_def both ei [OF B] et [OF B] enough_i [OF B] enough_t [OF B]
        remaining [OF B]
      using B by blast
    then show ?thesis
      by (simp add: validate_allocations_def Inr r Let_def split: sum.splits)
  qed
qed

end
