(* ===== verification/Recon_Ledger.thy ===== *)
theory Recon_Ledger
  imports Recon_Proofs
begin

text \<open>
  The reconciliation services on the whole ledger: what a successful creation or reversal
  writes, and that both keep the ledger invariant of \<open>Open_Amounts\<close>.
\<close>

section \<open>What a creation writes\<close>

definition create_args_ok :: "recon_args \<Rightarrow> bool" where
  "create_args_ok args \<longleftrightarrow> cr_allocations args \<noteq> []
     \<and> cr_direction args \<in> set ReconciliationDirection_values
     \<and> cr_mode args \<in> set ReconciliationMode_values
     \<and> (cr_settlement args \<noteq> None \<longleftrightarrow> cr_mode args = Mode_BATCH)"

definition new_recon :: "instant \<Rightarrow> (nat \<Rightarrow> uuid) \<Rightarrow> recon_args \<Rightarrow> reconciliation" where
  "new_recon now ids args =
     \<lparr>rc_id = ids 0, rc_direction = cr_direction args, rc_mode = cr_mode args,
      rc_created_by = the (actor_pk (cr_actor args)),
      rc_settlement_batch = map_option sb_id (cr_settlement args),
      rc_note = cr_note args, rc_created_at = now\<rparr>"

definition audit_row ::
    "instant \<Rightarrow> actor \<Rightarrow> pystr \<Rightarrow> pystr \<Rightarrow> uuid \<Rightarrow> json \<Rightarrow> audit_log" where
  "audit_row now a action ty i changes =
     \<lparr>au_actor = the (actor_pk a), au_action = action, au_target_type = ty,
      au_target_id = uuid_str i, au_changes = changes, au_created_at = now\<rparr>"

definition created_db :: "instant \<Rightarrow> (nat \<Rightarrow> uuid) \<Rightarrow> recon_args \<Rightarrow> db \<Rightarrow> db" where
  "created_db now ids args d =
     d\<lparr>recons := recons d @ [new_recon now ids args],
       allocs := allocs d @ new_allocations ids (ids 0) (cr_allocations args),
       audits := audits d @ [audit_row now (cr_actor args) (lit ''reconciliation.created'')
         (lit ''Reconciliation'') (ids 0)
         (JObj [(lit ''allocation_count'', JInt (int (length (cr_allocations args))))])]\<rparr>"

definition create_ok :: "recon_args \<Rightarrow> db \<Rightarrow> bool" where
  "create_ok args d \<longleftrightarrow>
     require_finance_actor d (cr_actor args) msg_finance_only = Inr () \<and> create_args_ok args
     \<and> request_ok d (cr_direction args) (cr_allocations args)
         (cr_expected_invoice_open args) (cr_expected_transaction_open args)
         (cr_allow_partial args)"

lemma create_reconciliation_eq:
  assumes "create_ok args d"
  shows "create_reconciliation now ids args d =
     Inr (new_recon now ids args, created_db now ids args d)"
proof -
  have fin: "require_finance_actor d (cr_actor args) msg_finance_only = Inr ()"
    and args: "create_args_ok args"
    and val: "validate_allocations d (cr_direction args) (cr_allocations args)
      (in_bulk inv_id (invoices d) (map ai_invoice (cr_allocations args)))
      (in_bulk mt_id (moneys d) (map ai_transaction (cr_allocations args)))
      (cr_expected_invoice_open args) (cr_expected_transaction_open args)
      (cr_allow_partial args) = Inr ()"
    using assms by (simp_all add: create_ok_def validate_allocations_iff)
  show ?thesis
    using args
    by (simp add: create_reconciliation_def fin val Let_def create_args_ok_def
        record_audit_finance [OF fin] created_db_def new_recon_def audit_row_def)
qed

lemma create_reconciliation_Inr:
  assumes "create_reconciliation now ids args d = Inr r"
  shows "create_ok args d"
  using assms
  by (auto simp: create_reconciliation_def create_ok_def create_args_ok_def Let_def
      simp flip: validate_allocations_iff split: sum.splits if_splits)

lemma create_reconciliation_iff:
  "create_reconciliation now ids args d = Inr (rc, d') \<longleftrightarrow>
     create_ok args d \<and> rc = new_recon now ids args \<and> d' = created_db now ids args d"
  using create_reconciliation_Inr create_reconciliation_eq by fastforce

section \<open>The amounts a creation takes\<close>

lemma new_allocations_pairs:
  "map (\<lambda>a. (ra_invoice a, ra_transaction a, ra_amount a)) (new_allocations ids rid items) =
     map (\<lambda>i. (ai_invoice i, ai_transaction i, item_cents i)) items"
proof -
  have "map (\<lambda>a. (ra_invoice a, ra_transaction a, ra_amount a)) (new_allocations ids rid items) =
      map (\<lambda>i. (ai_invoice i, ai_transaction i, item_cents i))
        (map snd (zip [0..<length items] items))"
    unfolding new_allocations_def map_map by (rule map_cong) auto
  then show ?thesis by simp
qed

lemma sum_filter_map_eq:
  fixes g :: "'a \<Rightarrow> int" and j :: "'b \<Rightarrow> int"
  assumes "map (\<lambda>a. (f a, g a)) xs = map (\<lambda>i. (h i, j i)) ys"
  shows "sum_list (map g (filter (\<lambda>a. f a = k) xs)) = sum_list (map j (filter (\<lambda>i. h i = k) ys))"
  using assms
proof (induction xs arbitrary: ys)
  case (Cons x xs)
  then show ?case by (cases ys) auto
qed simp

lemma new_allocations_invoice:
  "sum_list (map ra_amount (filter (\<lambda>a. ra_invoice a = k) (new_allocations ids rid items))) =
     requested ai_invoice items k"
  unfolding requested_def
  by (rule sum_filter_map_eq)
     (use arg_cong [OF new_allocations_pairs, of "map (\<lambda>(i, t, v). (i, v))"] in \<open>simp add: comp_def\<close>)

lemma new_allocations_transaction:
  "sum_list (map ra_amount (filter (\<lambda>a. ra_transaction a = k) (new_allocations ids rid items))) =
     requested ai_transaction items k"
  unfolding requested_def
  by (rule sum_filter_map_eq)
     (use arg_cong [OF new_allocations_pairs, of "map (\<lambda>(i, t, v). (t, v))"] in \<open>simp add: comp_def\<close>)

lemma new_allocations_mem:
  assumes "a \<in> set (new_allocations ids rid items)"
  shows "ra_reconciliation a = rid \<and> (\<exists>i\<in>set items. ra_invoice a = ai_invoice i
     \<and> ra_transaction a = ai_transaction i \<and> ra_amount a = item_cents i)"
  using assms by (force simp: new_allocations_def dest: set_zip_rightD)

lemma new_allocations_keys:
  "ra_invoice ` set (new_allocations ids rid items) = ai_invoice ` set items"
  "ra_transaction ` set (new_allocations ids rid items) = ai_transaction ` set items"
proof -
  have "map ra_invoice (new_allocations ids rid items) = map ai_invoice items"
    "map ra_transaction (new_allocations ids rid items) = map ai_transaction items"
    using arg_cong [OF new_allocations_pairs, of "map fst"]
      arg_cong [OF new_allocations_pairs, of "map (fst \<circ> snd)"]
    by (simp_all add: comp_def)
  then show "ra_invoice ` set (new_allocations ids rid items) = ai_invoice ` set items"
    "ra_transaction ` set (new_allocations ids rid items) = ai_transaction ` set items"
    by (metis set_map)+
qed

lemma request_ok_found:
  assumes "request_ok d direction items ei et ap" "i \<in> set items"
  shows "ai_invoice i \<in> inv_id ` set (invoices d)" "ai_transaction i \<in> mt_id ` set (moneys d)"
    "0 < item_cents i"
  using assms by (force simp: request_ok_def item_ok_def dest!: bspec find_row_Some)+

section \<open>Creation keeps the ledger\<close>

text \<open>The identifier \<open>uuid4\<close> draws for the new reconciliation is not in use.\<close>

definition fresh_recon :: "(nat \<Rightarrow> uuid) \<Rightarrow> db \<Rightarrow> bool" where
  "fresh_recon ids d \<longleftrightarrow> ids 0 \<notin> rc_id ` set (recons d)"

lemma created_active:
  assumes "fresh_recon ids d" "ledger_ok d"
    "a \<in> set (new_allocations ids (ids 0) items)"
  shows "active d a"
  using assms new_allocations_mem [OF assms(3)]
  by (auto simp: active_def ledger_ok_def ledger_refs_def fresh_recon_def)

lemma created_within:
  assumes ok: "create_ok args d" and led: "ledger_ok d"
    and fresh: "fresh_recon ids d"
  defines "news \<equiv> new_allocations ids (ids 0) (cr_allocations args)"
  shows "within_totals (d\<lparr>allocs := allocs d @ news\<rparr>)"
proof -
  have act: "\<And>a. a \<in> set news \<Longrightarrow> active d a"
    unfolding news_def by (rule created_active [OF fresh led])
  have req: "request_ok d (cr_direction args) (cr_allocations args)
      (cr_expected_invoice_open args) (cr_expected_transaction_open args) (cr_allow_partial args)"
    using ok by (simp add: create_ok_def)
  have bill: "bill_open d (inv_id r) = side_open ra_invoice inv_id inv_total_amount d r"
    if "r \<in> set (invoices d)" for r
    using invoice_open_side [OF led that] by (simp add: bill_open_def)
  have fund: "fund_open d (mt_id r) = side_open ra_transaction mt_id mt_amount d r"
    if "r \<in> set (moneys d)" for r
    using transaction_open_side [OF led that] by (simp add: fund_open_def)
  have "side_within ra_invoice invoices inv_id inv_total_amount (d\<lparr>allocs := allocs d @ news\<rparr>)"
  proof (rule inv_side.within_append)
    show "side_within ra_invoice invoices inv_id inv_total_amount d"
      using led by (simp add: ledger_ok_def within_totals_def)
    show "sum_list (map ra_amount (filter (\<lambda>a. ra_invoice a = inv_id r) news))
        \<le> side_open ra_invoice inv_id inv_total_amount d r"
      if "r \<in> set (invoices d)" "inv_id r \<in> ra_invoice ` set news" for r
      using req that bill [OF that(1)]
      by (auto simp: news_def new_allocations_invoice new_allocations_keys request_ok_def)
  qed (use act in blast)
  moreover
  have "side_within ra_transaction moneys mt_id mt_amount (d\<lparr>allocs := allocs d @ news\<rparr>)"
  proof (rule mon_side.within_append)
    show "side_within ra_transaction moneys mt_id mt_amount d"
      using led by (simp add: ledger_ok_def within_totals_def)
    show "sum_list (map ra_amount (filter (\<lambda>a. ra_transaction a = mt_id r) news))
        \<le> side_open ra_transaction mt_id mt_amount d r"
      if "r \<in> set (moneys d)" "mt_id r \<in> ra_transaction ` set news" for r
      using req that fund [OF that(1)]
      by (auto simp: news_def new_allocations_transaction new_allocations_keys request_ok_def)
  qed (use act in blast)
  ultimately show ?thesis by (simp add: within_totals_def)
qed

lemma created_ledger:
  assumes ok: "create_ok args d" and led: "ledger_ok d"
    and fresh: "fresh_recon ids d"
  shows "ledger_ok (created_db now ids args d)"
proof -
  let ?items = "cr_allocations args"
  let ?a = "d\<lparr>allocs := allocs d @ new_allocations ids (ids 0) ?items\<rparr>"
  have rid: "rc_id (new_recon now ids args) = ids 0" by (simp add: new_recon_def)
  have within: "within_totals (created_db now ids args d)"
    using created_within [OF ok led fresh]
    by (auto simp: within_totals_def created_db_def
        intro: inv_side.within_cong [of ?a] mon_side.within_cong [of ?a])
  have "0 < ra_amount a
      \<and> ra_reconciliation a \<in> rc_id ` set (recons (created_db now ids args d))
      \<and> ra_invoice a \<in> inv_id ` set (invoices (created_db now ids args d))
      \<and> ra_transaction a \<in> mt_id ` set (moneys (created_db now ids args d))"
    if "a \<in> set (allocs (created_db now ids args d))" for a
  proof (cases "a \<in> set (allocs d)")
    case True
    with led show ?thesis by (simp add: ledger_ok_def ledger_refs_def created_db_def)
  next
    case False
    with that have "a \<in> set (new_allocations ids (ids 0) ?items)" by (simp add: created_db_def)
    then obtain i where "i \<in> set ?items" "ra_invoice a = ai_invoice i"
      "ra_transaction a = ai_transaction i" "ra_amount a = item_cents i"
      "ra_reconciliation a = ids 0"
      using new_allocations_mem by blast
    with ok request_ok_found show ?thesis by (auto simp: create_ok_def created_db_def rid)
  qed
  moreover have "rv_original ` set (reversals d) \<subseteq> insert (ids 0) (rc_id ` set (recons d))"
    using led by (auto simp: ledger_ok_def ledger_refs_def)
  ultimately have refs: "ledger_refs (created_db now ids args d)"
    by (simp add: ledger_refs_def created_db_def rid)
  have "ledger_keys (created_db now ids args d)"
    using led fresh by (simp add: ledger_ok_def ledger_keys_def created_db_def rid fresh_recon_def)
  moreover have "ledger_caps (created_db now ids args d)"
    using led by (simp add: ledger_ok_def ledger_caps_def created_db_def)
  ultimately show ?thesis using within refs by (simp add: ledger_ok_def)
qed

section \<open>What a reversal writes\<close>

definition reversed_db ::
    "instant \<Rightarrow> (nat \<Rightarrow> uuid) \<Rightarrow> actor \<Rightarrow> uuid \<Rightarrow> pystr \<Rightarrow> db \<Rightarrow> db" where
  "reversed_db now ids a rid text d =
     d\<lparr>reversals := reversals d @ [\<lparr>rv_id = ids 0, rv_original = rid,
         rv_reversed_by = the (actor_pk a), rv_reason = strip text, rv_created_at = now\<rparr>],
       audits := audits d @ [audit_row now a (lit ''reconciliation.reversed'')
         (lit ''Reconciliation'') rid (JObj [(lit ''reason'', JStr (strip text))])]\<rparr>"

definition reverse_ok :: "actor \<Rightarrow> uuid \<Rightarrow> pystr option \<Rightarrow> db \<Rightarrow> bool" where
  "reverse_ok a rid reason d \<longleftrightarrow>
     require_finance_actor d a msg_finance_only = Inr ()
     \<and> (\<exists>text. reason = Some text \<and> \<not> (\<forall>c\<in>set text. py_space c))
     \<and> rid \<in> rc_id ` set (recons d) \<and> rid \<notin> rv_original ` set (reversals d)"

lemma reverse_reconciliation_iff:
  "reverse_reconciliation now ids a rid reason d = Inr (rv, d') \<longleftrightarrow>
     reverse_ok a rid reason d \<and> d' = reversed_db now ids a rid (the reason) d
     \<and> rv = last (reversals d')"
proof (cases "require_finance_actor d a msg_finance_only")
  case (Inl e)
  then show ?thesis by (simp add: reverse_reconciliation_def reverse_ok_def)
next
  case (Inr u)
  then have fin: "require_finance_actor d a msg_finance_only = Inr ()" by simp
  show ?thesis
    by (cases reason)
       (auto simp: reverse_reconciliation_def reverse_ok_def fin strip_Nil_iff Let_def
         record_audit_finance [OF fin] reversed_db_def audit_row_def find_row_None
         split: option.splits dest: find_row_Some)
qed

lemma reversed_keys: "reversals (reversed_db now ids a rid text d) =
    reversals d @ [\<lparr>rv_id = ids 0, rv_original = rid,
         rv_reversed_by = the (actor_pk a), rv_reason = strip text, rv_created_at = now\<rparr>]"
  by (simp add: reversed_db_def)

lemma reversed_ledger:
  assumes ok: "reverse_ok a rid reason d" and led: "ledger_ok d"
  shows "ledger_ok (reversed_db now ids a rid text d)"
proof -
  let ?rv = "\<lparr>rv_id = ids 0, rv_original = rid, rv_reversed_by = the (actor_pk a),
    rv_reason = strip text, rv_created_at = now\<rparr>"
  let ?r = "d\<lparr>reversals := reversals d @ [?rv]\<rparr>"
  have new: "rid \<in> rc_id ` set (recons d)" "rv_original ?rv \<notin> rv_original ` set (reversals d)"
    using ok by (simp_all add: reverse_ok_def)
  have pos: "\<And>x. x \<in> set (allocs d) \<Longrightarrow> 0 < ra_amount x"
    by (rule ledger_ok_pos [OF led])
  have "within_totals ?r"
    using led inv_side.within_reverse [OF _ new(2) pos] mon_side.within_reverse [OF _ new(2) pos]
    by (simp add: ledger_ok_def within_totals_def)
  moreover have "ledger_keys ?r" "ledger_refs ?r" "ledger_caps ?r"
    using led new by (auto simp: ledger_ok_def ledger_keys_def ledger_refs_def ledger_caps_def)
  ultimately have "ledger_ok ?r" by (simp add: ledger_ok_def)
  then show ?thesis
    by (rule ledger_ok_cong) (simp_all add: reversed_db_def)
qed

text \<open>What one reconciliation holds of a row.\<close>

definition held_by :: "(allocation \<Rightarrow> uuid) \<Rightarrow> db \<Rightarrow> uuid \<Rightarrow> uuid \<Rightarrow> money" where
  "held_by key d rid k =
     sum_list (map ra_amount (filter (\<lambda>a. key a = k \<and> ra_reconciliation a = rid) (allocs d)))"

lemma allocated_by_reversed:
  assumes "rid \<notin> rv_original ` set (reversals d)"
  shows "allocated_by key (reversed_db now ids a rid text d) k =
     allocated_by key d k - held_by key d rid k"
proof -
  let ?rv = "\<lparr>rv_id = ids 0, rv_original = rid, rv_reversed_by = the (actor_pk a),
    rv_reason = strip text, rv_created_at = now\<rparr>"
  have "allocated_by key (reversed_db now ids a rid text d) k =
      allocated_by key (d\<lparr>reversals := reversals d @ [?rv]\<rparr>) k"
    by (rule allocated_by_cong) (simp_all add: reversed_db_def)
  also have "\<dots> = allocated_by key d k - held_by key d rid k"
    using assms by (subst allocated_by_reverse) (simp_all add: held_by_def)
  finally show ?thesis .
qed

lemma allocated_by_created:
  assumes "fresh_recon ids d" "ledger_ok d"
  shows "allocated_by key (created_db now ids args d) k = allocated_by key d k
     + sum_list (map ra_amount (filter (\<lambda>a. key a = k)
         (new_allocations ids (ids 0) (cr_allocations args))))"
proof -
  let ?news = "new_allocations ids (ids 0) (cr_allocations args)"
  have "allocated_by key (created_db now ids args d) k =
      allocated_by key (d\<lparr>allocs := allocs d @ ?news\<rparr>) k"
    by (rule allocated_by_cong) (simp_all add: created_db_def)
  then show ?thesis
    using created_active [OF assms] by (simp add: allocated_by_append)
qed

lemma held_by_created:
  assumes "fresh_recon ids d" "ledger_ok d"
  shows "held_by key (created_db now ids args d) (ids 0) k =
     sum_list (map ra_amount (filter (\<lambda>a. key a = k)
         (new_allocations ids (ids 0) (cr_allocations args))))"
proof -
  have "filter (\<lambda>a. key a = k \<and> ra_reconciliation a = ids 0) (allocs d) = []"
    using assms by (force simp: filter_empty_conv ledger_ok_def ledger_refs_def fresh_recon_def)
  moreover have "filter (\<lambda>a. key a = k \<and> ra_reconciliation a = ids 0)
      (new_allocations ids (ids 0) (cr_allocations args)) =
      filter (\<lambda>a. key a = k) (new_allocations ids (ids 0) (cr_allocations args))"
    by (rule filter_cong) (auto dest: new_allocations_mem)
  ultimately show ?thesis by (simp add: held_by_def created_db_def)
qed

end
