(* ===== verification/Samples.thy ===== *)
theory Samples
  imports Recon_Ledger
begin

text \<open>
  A small concrete ledger on which the witnesses evaluate the services: one finance user,
  one counterparty, three purchase invoices of 100.00, 50.00 and 150.00 and two payments of
  120.00 and 30.00.
\<close>

definition finance_actor :: actor where
  "finance_actor = \<lparr>actor_is_user = True, actor_pk = Some 1, actor_adding = False,
     actor_authenticated = True\<rparr>"

definition sample_invoice :: "uuid \<Rightarrow> date \<Rightarrow> money \<Rightarrow> invoice" where
  "sample_invoice i day amount =
     \<lparr>inv_id = i, inv_direction = InvoiceDirection_INPUT, inv_number = lit ''n'',
      inv_seller_tax_id = lit ''s'', inv_buyer_tax_id = lit ''b'', inv_issue_date = day,
      inv_due_date = None, inv_total_amount = amount, inv_status = InvoiceStatus_NORMAL,
      inv_counterparty = 7, inv_import_batch = 9, inv_source_row = 1,
      inv_source_payload = JNull\<rparr>"

definition sample_money :: "uuid \<Rightarrow> instant \<Rightarrow> money \<Rightarrow> money_transaction" where
  "sample_money i at amount =
     \<lparr>mt_id = i, mt_account = 8, mt_channel = MoneyChannel_BANK,
      mt_direction = MoneyDirection_OUTFLOW, mt_occurred_at = at, mt_amount = amount,
      mt_balance_after = None, mt_transaction_id = lit ''t'', mt_fingerprint = lit ''f'',
      mt_counterparty = Some 7, mt_counterparty_raw_name = [], mt_counterparty_account = [],
      mt_import_batch = 9, mt_source_row = 1, mt_source_payload = JNull\<rparr>"

definition sample_db :: db where
  "sample_db = empty_db\<lparr>
     users := [\<lparr>user_pk = 1, user_groups = [role_value FINANCE]\<rparr>],
     parties := [\<lparr>cp_id = 7, cp_name = lit ''p'', cp_normalized_name = lit ''p'',
       cp_tax_id = [], cp_is_customer = True, cp_is_supplier = True, cp_active = True\<rparr>],
     invoices := [sample_invoice 1 10 10000, sample_invoice 2 12 5000,
       sample_invoice 5 14 15000],
     moneys := [sample_money 3 (11 * 86400000000) 12000, sample_money 4 (13 * 86400000000) 3000]\<rparr>"

definition sample_items :: "alloc_input list" where
  "sample_items =
     [\<lparr>ai_invoice = 1, ai_transaction = 3, ai_amount = Some (Fin 10000 (- 2))\<rparr>,
      \<lparr>ai_invoice = 2, ai_transaction = 3, ai_amount = Some (Fin 20 0)\<rparr>,
      \<lparr>ai_invoice = 2, ai_transaction = 4, ai_amount = Some (Fin 300 (- 1))\<rparr>]"

definition sample_args :: recon_args where
  "sample_args =
     \<lparr>cr_actor = finance_actor, cr_direction = PURCHASE_PAYMENT,
      cr_allocations = sample_items, cr_note = [], cr_mode = Mode_DIRECT, cr_settlement = None,
      cr_expected_invoice_open = Some [(1, Fin 10000 (- 2)), (2, Fin 50 0)],
      cr_expected_transaction_open = None, cr_allow_partial = False\<rparr>"

definition sample_ids :: "nat \<Rightarrow> uuid" where
  "sample_ids n = of_nat (100 + n)"

lemmas sample_defs = sample_db_def sample_invoice_def sample_money_def empty_db_def
  sample_items_def sample_args_def finance_actor_def sample_ids_def

text \<open>The initial ledger is well formed.\<close>

lemma sample_ledger_ok: "ledger_ok sample_db"
  by (simp add: ledger_ok_def ledger_keys_def ledger_refs_def within_totals_def side_within_def
      ledger_caps_def max_cents_def allocated_by_def sample_defs)

lemma sample_finance: "require_finance_actor sample_db finance_actor m = Inr ()"
  by (simp add: require_finance_actor_def user_exists_def user_has_role_def assigned_roles_def
      groups_of_def find_row_def all_roles_def sample_defs)

lemma sample_open:
  "bill_open sample_db 1 = 10000" "bill_open sample_db 2 = 5000"
  "fund_open sample_db 3 = 12000" "fund_open sample_db 4 = 3000"
  by (simp_all add: bill_open_def fund_open_def invoice_open_amount_def
      transaction_open_amount_def allocated_by_def find_row_def sample_defs)

lemma sample_items_ok: "i \<in> set sample_items \<Longrightarrow>
    item_ok PURCHASE_PAYMENT (find_row inv_id (invoices sample_db))
      (find_row mt_id (moneys sample_db)) i"
  by (auto simp: item_ok_def item_cents_def whole_cents_def cents_eq_def cents_round_def
      find_row_def directions_for_def sample_defs)

lemma sample_create_ok: "create_ok sample_args sample_db"
proof -
  have keys: "ai_invoice ` set sample_items = {1, 2}" "ai_transaction ` set sample_items = {3, 4}"
    by (auto simp: sample_items_def)
  have sums: "requested ai_invoice sample_items 1 = 10000"
    "requested ai_invoice sample_items 2 = 5000"
    "requested ai_transaction sample_items 3 = 12000"
    "requested ai_transaction sample_items 4 = 3000"
    by (simp_all add: requested_def item_cents_def whole_cents_def cents_eq_def cents_round_def
        sample_items_def)
  have "request_ok sample_db PURCHASE_PAYMENT sample_items
      (Some [(1, Fin 10000 (- 2)), (2, Fin 50 0)]) None False"
    using sample_items_ok sample_open sums
    by (simp add: request_ok_def keys expected_matches_def cents_eq_def)
  moreover have "create_args_ok sample_args"
    by (simp add: create_args_ok_def sample_args_def sample_items_def
        ReconciliationDirection_values_def ReconciliationMode_values_def)
  ultimately show ?thesis
    using sample_finance [of msg_finance_only] by (simp add: create_ok_def sample_args_def)
qed

lemma sample_fresh: "fresh_recon sample_ids sample_db"
  by (simp add: fresh_recon_def sample_db_def empty_db_def)

end
