(* ===== verification/Recon_Candidates.thy ===== *)
theory Recon_Candidates
  imports Samples "HOL-Library.Sublist"
begin

text \<open>
  Candidate search (\<open>apps/reconciliation/candidates.py\<close>): the runs of consecutive
  transactions (or invoices) whose open amounts add up to the open amount of the row that
  is being reconciled. The calendar day of an instant in the configured time zone is the
  parameter \<open>ld\<close>: it comes from the time zone database.
\<close>

section \<open>Candidates\<close>

record candidate =
  cand_kind :: pystr
  cand_transaction_ids :: "uuid list"
  cand_invoice_ids :: "uuid list"
  cand_total :: money
  cand_difference :: money
  cand_start_at :: instant
  cand_end_at :: instant

record avail_tx =
  av_id :: uuid
  av_at :: instant
  av_open :: money

definition msg_window :: pystr where "msg_window = [26085, 26399, 21306, 38388, 19981, 21512,
     27861]"

text \<open>\<open>None\<close> stands for an argument that is not a date.\<close>

definition validate_date_window :: "date option \<Rightarrow> date option \<Rightarrow> exn + unit" where
  "validate_date_window start stop =
     (case (start, stop) of
        (Some s, Some e) \<Rightarrow> if e < s then Inl (ValueError msg_window) else Inr ()
      | _ \<Rightarrow> Inl (ValueError msg_window))"

section \<open>Contiguous windows\<close>

text \<open>
  The inner loop of \<open>_contiguous_windows\<close>: \<open>acc\<close> is the window so far and \<open>tot\<close> its running sum.
  The outer loop starts it at every index.
\<close>

fun windows_from ::
    "('a \<Rightarrow> money) \<Rightarrow> money \<Rightarrow> money \<Rightarrow> 'a list \<Rightarrow> 'a list \<Rightarrow> ('a list \<times> money) list" where
  "windows_from amount target tot acc [] = []"
| "windows_from amount target tot acc (x # xs) =
     (let t = tot + amount x; w = acc @ [x]
      in (if t = target then [(w, t)] else [])
         @ (if target < t then [] else windows_from amount target t w xs))"

fun contiguous_windows :: "('a \<Rightarrow> money) \<Rightarrow> money \<Rightarrow> 'a list \<Rightarrow> ('a list \<times> money) list" where
  "contiguous_windows amount target [] = []"
| "contiguous_windows amount target (x # xs) =
     windows_from amount target 0 [] (x # xs) @ contiguous_windows amount target xs"

section \<open>Open rows\<close>

text \<open>The rows of a query whose open amount is positive, with that amount.\<close>

fun collect_open :: "('r \<Rightarrow> exn + money) \<Rightarrow> 'r list \<Rightarrow> exn + ('r \<times> money) list" where
  "collect_open opn [] = Inr []"
| "collect_open opn (r # rs) =
     (case opn r of
        Inl e \<Rightarrow> Inl e
      | Inr v \<Rightarrow> (case collect_open opn rs of
                    Inl e \<Rightarrow> Inl e
                  | Inr xs \<Rightarrow> Inr (if 0 < v then (r, v) # xs else xs)))"

definition money_for_invoice ::
    "(instant \<Rightarrow> date) \<Rightarrow> db \<Rightarrow> invoice \<Rightarrow> date \<Rightarrow> date \<Rightarrow> money_transaction list" where
  "money_for_invoice ld d bill start stop =
     sort_key (\<lambda>m. (mt_occurred_at m, mt_id m))
       (filter (\<lambda>m. mt_counterparty m = Some (inv_counterparty bill)
            \<and> mt_direction m = (if inv_direction bill = InvoiceDirection_INPUT
                                then MoneyDirection_OUTFLOW else MoneyDirection_INFLOW)
            \<and> start \<le> ld (mt_occurred_at m) \<and> ld (mt_occurred_at m) \<le> stop)
          (moneys d))"

definition available_transactions_for_invoice ::
    "(instant \<Rightarrow> date) \<Rightarrow> db \<Rightarrow> invoice \<Rightarrow> date \<Rightarrow> date \<Rightarrow> exn + avail_tx list" where
  "available_transactions_for_invoice ld d bill start stop =
     map_sum id (map (\<lambda>(m, v). \<lparr>av_id = mt_id m, av_at = mt_occurred_at m, av_open = v\<rparr>))
       (collect_open (\<lambda>m. transaction_open_amount d (mt_id m))
          (money_for_invoice ld d bill start stop))"

section \<open>Searching\<close>

definition exact_candidate :: "uuid \<Rightarrow> avail_tx list \<times> money \<Rightarrow> candidate" where
  "exact_candidate i w =
     \<lparr>cand_kind = lit ''CONTIGUOUS_EXACT'', cand_transaction_ids = map av_id (fst w),
      cand_invoice_ids = [i], cand_total = snd w, cand_difference = 0,
      cand_start_at = av_at (hd (fst w)), cand_end_at = av_at (last (fst w))\<rparr>"

definition partial_candidate :: "uuid \<Rightarrow> money \<Rightarrow> avail_tx list \<Rightarrow> candidate" where
  "partial_candidate i target items =
     (let available = sum_list (map av_open items)
      in \<lparr>cand_kind = lit ''PARTIAL'', cand_transaction_ids = map av_id items,
          cand_invoice_ids = [i], cand_total = min target available,
          cand_difference = max (target - available) 0,
          cand_start_at = av_at (hd items), cand_end_at = av_at (last items)\<rparr>)"

definition transaction_candidates ::
    "(instant \<Rightarrow> date) \<Rightarrow> db \<Rightarrow> uuid \<Rightarrow> date option \<Rightarrow> date option \<Rightarrow> exn + candidate list" where
  "transaction_candidates ld d i start stop =
     (case validate_date_window start stop of
        Inl e \<Rightarrow> Inl e
      | Inr _ \<Rightarrow>
         (case find_row inv_id (invoices d) i of
            None \<Rightarrow> Inl ObjectDoesNotExist
          | Some bill \<Rightarrow>
             (case invoice_open_amount d i of
                Inl e \<Rightarrow> Inl e
              | Inr target \<Rightarrow>
                  if target \<le> 0 then Inr []
                  else
                    (case available_transactions_for_invoice ld d bill (the start) (the stop) of
                       Inl e \<Rightarrow> Inl e
                     | Inr items \<Rightarrow>
                        (let exact = map (exact_candidate i)
                                       (contiguous_windows av_open target items)
                         in if exact \<noteq> [] then Inr exact
                            else if items = [] then Inr []
                            else Inr [partial_candidate i target items])))))"

text \<open>\<open>datetime.combine(day, time.min, UTC)\<close> and \<open>datetime.combine(day, time.max, UTC)\<close>.\<close>

definition day_start :: "date \<Rightarrow> instant" where
  "day_start day = (day - 719163) * 86400000000"

definition day_end :: "date \<Rightarrow> instant" where
  "day_end day = day_start day + 86399999999"

definition invoices_for_money ::
    "db \<Rightarrow> money_transaction \<Rightarrow> uuid \<Rightarrow> date \<Rightarrow> date \<Rightarrow> invoice list" where
  "invoices_for_money d m party start stop =
     sort_key (\<lambda>b. (inv_issue_date b, inv_id b))
       (filter (\<lambda>b. inv_counterparty b = party
            \<and> inv_direction b = (if mt_direction m = MoneyDirection_OUTFLOW
                                 then InvoiceDirection_INPUT else InvoiceDirection_OUTPUT)
            \<and> start \<le> inv_issue_date b \<and> inv_issue_date b \<le> stop
            \<and> inv_status b = InvoiceStatus_NORMAL) (invoices d))"

definition multi_candidate :: "uuid \<Rightarrow> (invoice \<times> money) list \<times> money \<Rightarrow> candidate" where
  "multi_candidate i w =
     \<lparr>cand_kind = lit ''MULTI_INVOICE_EXACT'', cand_transaction_ids = [i],
      cand_invoice_ids = map (inv_id \<circ> fst) (fst w), cand_total = snd w, cand_difference = 0,
      cand_start_at = day_start (inv_issue_date (fst (hd (fst w)))),
      cand_end_at = day_end (inv_issue_date (fst (last (fst w))))\<rparr>"

definition invoice_candidates ::
    "db \<Rightarrow> uuid \<Rightarrow> date option \<Rightarrow> date option \<Rightarrow> exn + candidate list" where
  "invoice_candidates d i start stop =
     (case validate_date_window start stop of
        Inl e \<Rightarrow> Inl e
      | Inr _ \<Rightarrow>
         (case find_row mt_id (moneys d) i of
            None \<Rightarrow> Inl ObjectDoesNotExist
          | Some m \<Rightarrow>
             (case transaction_open_amount d i of
                Inl e \<Rightarrow> Inl e
              | Inr target \<Rightarrow>
                  if target \<le> 0 \<or> mt_counterparty m = None then Inr []
                  else
                    map_sum id (\<lambda>available. map (multi_candidate i)
                                   (contiguous_windows snd target available))
                      (collect_open (\<lambda>b. invoice_open_amount d (inv_id b))
                         (invoices_for_money d m (the (mt_counterparty m))
                            (the start) (the stop))))))"

section \<open>Windows\<close>

lemma windows_from_sound:
  assumes "(w, t) \<in> set (windows_from amount target tot acc xs)"
  shows "\<exists>w'. w = acc @ w' \<and> w' \<noteq> [] \<and> prefix w' xs
     \<and> tot + sum_list (map amount w') = target \<and> t = target"
  using assms
proof (induction amount target tot acc xs rule: windows_from.induct)
  case (2 amount target tot acc x xs)
  consider (here) "tot + amount x = target" "w = acc @ [x]" "t = target"
    | (later) "\<not> target < tot + amount x"
        "(w, t) \<in> set (windows_from amount target (tot + amount x) (acc @ [x]) xs)"
    using "2.prems" by (auto simp: Let_def split: if_splits)
  then show ?case
  proof cases
    case here
    then show ?thesis by (intro exI [of _ "[x]"]) auto
  next
    case later
    from "2.IH" [OF refl refl later] obtain w' where "w = (acc @ [x]) @ w'" "w' \<noteq> []"
      "prefix w' xs" "tot + amount x + sum_list (map amount w') = target" "t = target"
      by blast
    then show ?thesis by (intro exI [of _ "x # w'"]) (auto simp: add.assoc)
  qed
qed simp

lemma windows_from_complete:
  assumes "w' \<noteq> []" "prefix w' xs" "\<And>x. x \<in> set xs \<Longrightarrow> 0 \<le> amount x"
    "tot + sum_list (map amount w') = target"
  shows "(acc @ w', target) \<in> set (windows_from amount target tot acc xs)"
  using assms
proof (induction amount target tot acc xs arbitrary: w' rule: windows_from.induct)
  case (2 amount target tot acc x xs)
  then obtain v where w': "w' = x # v" and v: "prefix v xs"
    by (cases w') auto
  have nonneg: "0 \<le> sum_list (map amount v)"
    using "2.prems"(3) v by (intro sum_list_nonneg_int) (auto dest: set_mono_prefix)
  show ?case
  proof (cases "v = []")
    case True
    with "2.prems" w' show ?thesis by (simp add: Let_def)
  next
    case False
    have "\<not> target < tot + amount x"
      using "2.prems"(4) nonneg w' by simp
    moreover from this have "((acc @ [x]) @ v, target)
        \<in> set (windows_from amount target (tot + amount x) (acc @ [x]) xs)"
      by (rule "2.IH" [OF refl refl _ False v]) (use "2.prems" w' in \<open>auto simp: add.assoc\<close>)
    ultimately show ?thesis by (simp add: Let_def w')
  qed
qed simp

text \<open>
  The generator finds exactly the non-empty runs of consecutive items that add up to the
  target, provided no amount is negative.
\<close>

lemma contiguous_windows_iff:
  assumes "\<And>x. x \<in> set xs \<Longrightarrow> 0 \<le> amount x"
  shows "(w, t) \<in> set (contiguous_windows amount target xs) \<longleftrightarrow>
     w \<noteq> [] \<and> sublist w xs \<and> sum_list (map amount w) = target \<and> t = target"
  using assms
proof (induction xs)
  case (Cons x xs)
  have "(w, t) \<in> set (windows_from amount target 0 [] (x # xs)) \<longleftrightarrow>
      w \<noteq> [] \<and> prefix w (x # xs) \<and> sum_list (map amount w) = target \<and> t = target"
    using windows_from_sound [of w t amount target 0 "[]" "x # xs"]
      windows_from_complete [of w "x # xs" amount 0 target "[]"] Cons.prems by auto
  with Cons show ?case
    by (auto simp: sublist_Cons_right)
qed auto

end
