(* ===== verification/Recon_Properties.thy ===== *)
theory Recon_Properties
  imports Samples
begin

text \<open>
  The properties of creating and reversing reconciliations, each with a witness on the
  sample ledger.
\<close>

section \<open>Open amounts after the services\<close>

lemma invoice_open_allocated:
  assumes "invoices d' = invoices d"
    and "allocated_by ra_invoice d' i = allocated_by ra_invoice d i + x"
  shows "invoice_open_amount d' i = map_sum id (\<lambda>v. v - x) (invoice_open_amount d i)"
  using assms by (simp add: invoice_open_amount_def split: option.splits)

lemma transaction_open_allocated:
  assumes "moneys d' = moneys d"
    and "allocated_by ra_transaction d' i = allocated_by ra_transaction d i + x"
  shows "transaction_open_amount d' i = map_sum id (\<lambda>v. v - x) (transaction_open_amount d i)"
  using assms by (simp add: transaction_open_amount_def split: option.splits)

lemma created_frame:
  "invoices (created_db now ids args d) = invoices d" "moneys (created_db now ids args d) = moneys d"
  "users (created_db now ids args d) = users d"
  "reversals (created_db now ids args d) = reversals d"
  "settlements (created_db now ids args d) = settlements d"
  by (simp_all add: created_db_def)

lemma reversed_frame:
  "invoices (reversed_db now ids a rid t d) = invoices d"
  "moneys (reversed_db now ids a rid t d) = moneys d"
  "users (reversed_db now ids a rid t d) = users d"
  "allocs (reversed_db now ids a rid t d) = allocs d"
  "recons (reversed_db now ids a rid t d) = recons d"
  by (simp_all add: reversed_db_def)

lemma created_open:
  assumes "fresh_recon ids d" "ledger_ok d"
  shows "invoice_open_amount (created_db now ids args d) i =
      map_sum id (\<lambda>v. v - requested ai_invoice (cr_allocations args) i) (invoice_open_amount d i)"
    and "transaction_open_amount (created_db now ids args d) i =
      map_sum id (\<lambda>v. v - requested ai_transaction (cr_allocations args) i)
        (transaction_open_amount d i)"
  by (rule invoice_open_allocated transaction_open_allocated;
      simp add: created_frame allocated_by_created [OF assms]
        new_allocations_invoice new_allocations_transaction)+

section \<open>Properties\<close>

text \<open>
  C1. A creation goes through exactly when the caller is a saved finance user, the request
  names rows of the right direction, status and counterparty with positive whole-cent
  amounts, the expected open amounts are still current, no row is asked for more than its
  open amount and, unless partial amounts are allowed, every named invoice is covered.
\<close>

theorem create_succeeds_iff:
  "(\<exists>r. create_reconciliation now ids args d = Inr r) \<longleftrightarrow> create_ok args d"
  using create_reconciliation_Inr create_reconciliation_eq by blast

text \<open>
  C2. A successful creation lowers the open amount of every invoice and every transaction
  by exactly the amount the request asks of it, and of no other row.
\<close>

theorem create_takes_requested:
  assumes "ledger_ok d" "fresh_recon ids d"
    and "create_reconciliation now ids args d = Inr (rc, d')"
  shows "invoice_open_amount d' i =
      map_sum id (\<lambda>v. v - requested ai_invoice (cr_allocations args) i) (invoice_open_amount d i)
    \<and> transaction_open_amount d' i =
      map_sum id (\<lambda>v. v - requested ai_transaction (cr_allocations args) i)
        (transaction_open_amount d i)"
  using assms(3) created_open [OF assms(2,1)] by (simp add: create_reconciliation_iff)

lemma create_takes_requested_witness:
  "ledger_ok sample_db \<and> fresh_recon sample_ids sample_db
   \<and> (\<exists>rc d'. create_reconciliation 5 sample_ids sample_args sample_db = Inr (rc, d')
        \<and> invoice_open_amount d' 1 = map_sum id (\<lambda>v. v - requested ai_invoice sample_items 1)
            (invoice_open_amount sample_db 1))"
  using create_takes_requested [OF sample_ledger_ok sample_fresh
      create_reconciliation_eq [OF sample_create_ok], of 5 1]
    create_reconciliation_eq [OF sample_create_ok, of 5 sample_ids] sample_ledger_ok sample_fresh
  by (simp add: sample_args_def)

text \<open>
  C3. A successful creation keeps the ledger invariant: keys stay unique, references
  resolve, allocations are positive, and no invoice or transaction is allocated beyond its
  total.
\<close>

theorem create_keeps_ledger:
  assumes "ledger_ok d" "fresh_recon ids d"
    and "create_reconciliation now ids args d = Inr (rc, d')"
  shows "ledger_ok d'"
  using assms created_ledger by (simp add: create_reconciliation_iff)

lemma create_keeps_ledger_witness:
  "ledger_ok (created_db 5 sample_ids sample_args sample_db)"
  by (rule create_keeps_ledger [OF sample_ledger_ok sample_fresh
        create_reconciliation_eq [OF sample_create_ok]])

text \<open>
  When partial amounts are not allowed, every invoice the request names is fully
  reconciled afterwards: its open amount is zero.
\<close>

theorem create_full_closes:
  assumes "ledger_ok d" "fresh_recon ids d" "\<not> cr_allow_partial args"
    and "create_reconciliation now ids args d = Inr (rc, d')" "i \<in> set (cr_allocations args)"
  shows "invoice_open_amount d' (ai_invoice i) = Inr 0"
proof -
  have req: "requested ai_invoice (cr_allocations args) (ai_invoice i) = bill_open d (ai_invoice i)"
    and item: "item_ok (cr_direction args) (find_row inv_id (invoices d))
      (find_row mt_id (moneys d)) i"
    using assms(3-5) by (auto simp: create_reconciliation_iff create_ok_def request_ok_def)
  then obtain v where "invoice_open_amount d (ai_invoice i) = Inr v" "bill_open d (ai_invoice i) = v"
    by (auto simp: item_ok_def invoice_open_amount_def bill_open_def)
  with req assms(4) created_open(1) [OF assms(2,1)] show ?thesis
    by (simp add: create_reconciliation_iff)
qed

lemma create_full_closes_example:
  "\<exists>d'. invoice_open_amount d' 1 = Inr 0"
proof -
  have "\<not> cr_allow_partial sample_args" "hd sample_items \<in> set (cr_allocations sample_args)"
    by (simp_all add: sample_args_def sample_items_def)
  from create_full_closes [OF sample_ledger_ok sample_fresh this(1)
      create_reconciliation_eq [OF sample_create_ok, of 5] this(2)]
  show ?thesis by (auto simp: sample_items_def)
qed

text \<open>
  C4. Reversing a reconciliation right after it was made puts the open amount of every
  invoice and every transaction back to what it was before.
\<close>

theorem reverse_restores:
  assumes "ledger_ok d" "fresh_recon ids d"
    and "create_reconciliation now ids args d = Inr (rc, d1)"
    and "reverse_reconciliation now2 ids2 a (rc_id rc) reason d1 = Inr (rv, d2)"
  shows "invoice_open_amount d2 i = invoice_open_amount d i
    \<and> transaction_open_amount d2 i = transaction_open_amount d i"
proof -
  have d1: "d1 = created_db now ids args d" and rid: "rc_id rc = ids 0"
    using assms(3) by (simp_all add: create_reconciliation_iff new_recon_def)
  have new: "ids 0 \<notin> rv_original ` set (reversals d1)"
    and d2: "d2 = reversed_db now2 ids2 a (ids 0) (the reason) d1"
    using assms(4) by (simp_all add: rid reverse_reconciliation_iff reverse_ok_def)
  have "allocated_by key d2 k = allocated_by key d k" for key k
    unfolding d2 allocated_by_reversed [OF new]
    unfolding d1 held_by_created [OF assms(2,1)]
      allocated_by_created [OF assms(2,1)] by simp
  then show ?thesis
    by (simp add: invoice_open_amount_def transaction_open_amount_def d2 d1 reversed_frame
        created_frame split: option.splits)
qed

text \<open>The sample reversal of the sample creation.\<close>

lemma sample_reverse:
  "reverse_reconciliation 6 sample_ids finance_actor (sample_ids 0) (Some (lit ''x''))
     (created_db 5 sample_ids sample_args sample_db) =
   Inr (last (reversals (reversed_db 6 sample_ids finance_actor (sample_ids 0) (lit ''x'')
          (created_db 5 sample_ids sample_args sample_db))),
        reversed_db 6 sample_ids finance_actor (sample_ids 0) (lit ''x'')
          (created_db 5 sample_ids sample_args sample_db))"
proof -
  have "require_finance_actor (created_db 5 sample_ids sample_args sample_db) finance_actor
      msg_finance_only = Inr ()"
    by (simp add: require_finance_actor_def user_exists_def user_has_role_def assigned_roles_def
        groups_of_def find_row_def all_roles_def sample_defs created_db_def)
  then have "reverse_ok finance_actor (sample_ids 0) (Some (lit ''x''))
      (created_db 5 sample_ids sample_args sample_db)"
    by (simp add: reverse_ok_def created_db_def new_recon_def sample_db_def empty_db_def lit_def
        py_space_def)
  then show ?thesis
    by (subst reverse_reconciliation_iff) simp
qed

lemma reverse_restores_witness:
  "invoice_open_amount (reversed_db 6 sample_ids finance_actor (sample_ids 0) (lit ''x'')
     (created_db 5 sample_ids sample_args sample_db)) 1 = Inr 10000"
proof -
  have rid: "sample_ids 0 = rc_id (new_recon 5 sample_ids sample_args)"
    by (simp add: new_recon_def)
  have "invoice_open_amount sample_db 1 = Inr 10000"
    by (simp add: invoice_open_amount_def allocated_by_def find_row_def sample_defs)
  then show ?thesis
    using reverse_restores [OF sample_ledger_ok sample_fresh
        create_reconciliation_eq [OF sample_create_ok, of 5] sample_reverse [unfolded rid], of 1]
    by (simp add: rid)
qed

text \<open>A successful reversal keeps the ledger invariant.\<close>

lemma reverse_keeps_ledger:
  assumes "ledger_ok d" "reverse_reconciliation now ids a rid reason d = Inr (rv, d')"
  shows "ledger_ok d'"
  using reversed_ledger [OF _ assms(1)] assms(2) by (auto simp: reverse_reconciliation_iff)

lemma reverse_keeps_ledger_example:
  "ledger_ok (reversed_db 6 sample_ids finance_actor (sample_ids 0) (lit ''x'')
     (created_db 5 sample_ids sample_args sample_db))"
  by (rule reverse_keeps_ledger [OF _ sample_reverse])
     (rule created_ledger [OF sample_create_ok sample_ledger_ok sample_fresh])

text \<open>
  A reconciliation is reversed at most once: after a reversal, every further attempt
  fails, and the same caller is told that the reconciliation was already reversed.
\<close>

theorem reverse_once:
  assumes "reverse_reconciliation now ids a rid reason d = Inr (rv, d')"
  shows "reverse_reconciliation now2 ids2 a rid reason d' = Inl (ValidationError msg_reversed)
    \<and> (\<forall>b reason2. \<exists>e. reverse_reconciliation now2 ids2 b rid reason2 d' = Inl e)"
proof -
  have ok: "reverse_ok a rid reason d" and d': "d' = reversed_db now ids a rid (the reason) d"
    using assms by (simp_all add: reverse_reconciliation_iff)
  have again: "rid \<in> rv_original ` set (reversals d')"
    by (simp add: d' reversed_keys)
  have "\<exists>e. reverse_reconciliation now2 ids2 b rid reason2 d' = Inl e" for b reason2
    using again reverse_reconciliation_iff [of now2 ids2 b rid reason2 d']
    by (cases "reverse_reconciliation now2 ids2 b rid reason2 d'") (auto simp: reverse_ok_def)
  moreover
  have "require_finance_actor d' a msg_finance_only = Inr ()"
    using ok require_finance_actor_cong [of d' d a] by (simp add: reverse_ok_def d' reversed_frame)
  then have "reverse_reconciliation now2 ids2 a rid reason d' = Inl (ValidationError msg_reversed)"
    using ok again
    by (auto simp: reverse_reconciliation_def reverse_ok_def strip_Nil_iff find_row_None
        d' reversed_frame split: option.splits)
  ultimately show ?thesis by blast
qed

lemma reverse_once_example:
  "\<exists>d'. reverse_reconciliation 7 sample_ids finance_actor (sample_ids 0) (Some (lit ''x'')) d' =
     Inl (ValidationError msg_reversed)"
  using reverse_once [OF sample_reverse] by blast

end
