(* ===== verification/Recon_Settlements.thy ===== *)
theory Recon_Settlements
  imports Recon_Candidates Recon_Properties Py_Decimal
begin

text \<open>
  Settlement batches (\<open>apps/reconciliation/settlements.py\<close>): a batch fixes the open
  invoices and transactions of a counterparty in a period; confirming it creates one
  reconciliation that covers all of them exactly. The calendar day of an instant in the
  configured time zone is the parameter \<open>ld\<close>.
\<close>

section \<open>Messages\<close>

definition msg_period :: pystr where "msg_period = [24320, 22987, 26085, 26399, 19981, 33021,
     26202, 20110, 32467, 26463, 26085, 26399]"
definition msg_batch_direction :: pystr where "msg_batch_direction = [32467, 31639, 25209,
     27425, 26041, 21521, 19981, 21512, 27861]"
definition msg_no_party :: pystr where "msg_no_party = [24448, 26469, 21333, 20301, 19981,
     23384, 22312]"
definition msg_no_open_invoice :: pystr where "msg_no_open_invoice = [32467, 31639, 26399,
     38388, 20869, 27809, 26377, 21487, 26680, 38144, 30340, 21457, 31080]"
definition msg_no_open_money :: pystr where "msg_no_open_money = [32467, 31639, 26399, 38388,
     20869, 27809, 26377, 21487, 26680, 38144, 30340, 36164, 37329]"
definition msg_confirmed :: pystr where "msg_confirmed = [32467, 31639, 25209, 27425, 19981,
     33021, 37325, 22797, 30830, 35748]"
definition msg_not_draft :: pystr where "msg_not_draft = [32467, 31639, 25209, 27425, 29366,
     24577, 19981, 20801, 35768, 30830, 35748]"
definition msg_version :: pystr where "msg_version = [32467, 31639, 25209, 27425, 29256, 26412,
     24050, 36807, 26399]"
definition msg_duplicate_pair :: pystr where "msg_duplicate_pair = [32467, 31639, 25209, 27425,
     26680, 38144, 26126, 32454, 19981, 33021, 37325, 22797]"
definition msg_batch_no_invoice :: pystr where "msg_batch_no_invoice = [32467, 31639, 25209,
     27425, 32570, 23569, 21457, 31080, 26126, 32454]"
definition msg_batch_no_money :: pystr where "msg_batch_no_money = [32467, 31639, 25209, 27425,
     32570, 23569, 36164, 37329, 26126, 32454]"
definition msg_batch_empty :: pystr where "msg_batch_empty = [32467, 31639, 25209, 27425, 26680,
     38144, 26126, 32454, 19981, 33021, 20026, 31354]"
definition msg_foreign_invoice :: pystr where "msg_foreign_invoice = [21457, 31080, 19981,
     23646, 20110, 32467, 31639, 25209, 27425]"
definition msg_foreign_money :: pystr where "msg_foreign_money = [36164, 37329, 19981, 23646,
     20110, 32467, 31639, 25209, 27425]"
definition msg_incomplete :: pystr where "msg_incomplete = [32467, 31639, 25209, 27425, 26126,
     32454, 19981, 23436, 25972]"
definition msg_occupied :: pystr where "msg_occupied = [32467, 31639, 25209, 27425, 26126,
     32454, 24050, 34987, 20854, 20182, 26680, 38144, 21344, 29992]"
definition msg_closed_invoice :: pystr where "msg_closed_invoice = [32467, 31639, 25209, 27425,
     21253, 21547, 26080, 21487, 26680, 38144, 37329, 39069, 30340, 21457, 31080]"
definition msg_closed_money :: pystr where "msg_closed_money = [32467, 31639, 25209, 27425,
     21253, 21547, 26080, 21487, 26680, 38144, 37329, 39069, 30340, 36164, 37329]"
definition msg_batch_party :: pystr where "msg_batch_party = [32467, 31639, 25209, 27425, 20132,
     26131, 23545, 26041, 19981, 21305, 37197]"
definition msg_batch_side :: pystr where "msg_batch_side = [32467, 31639, 25209, 27425, 26041,
     21521, 19981, 21305, 37197]"
definition msg_invoice_period :: pystr where "msg_invoice_period = [21457, 31080, 19981, 22312,
     32467, 31639, 26399, 38388, 20869]"
definition msg_money_period :: pystr where "msg_money_period = [36164, 37329, 19981, 22312,
     32467, 31639, 26399, 38388, 20869]"
definition msg_totals :: pystr where "msg_totals = [32467, 31639, 25209, 27425, 26680, 38144,
     37329, 39069, 19981, 19968, 33268]"

definition settlement_directions_for :: "pystr \<Rightarrow> exn + pystr \<times> pystr" where
  "settlement_directions_for direction =
     (if direction = PURCHASE_PAYMENT then Inr (InvoiceDirection_INPUT, MoneyDirection_OUTFLOW)
      else if direction = SALES_RECEIPT then Inr (InvoiceDirection_OUTPUT, MoneyDirection_INFLOW)
      else Inl (ValidationError msg_batch_direction))"

section \<open>Creating a batch\<close>

text \<open>
  The open amount as \<open>_with_open_amount\<close> annotates it, and the rows a batch takes: no
  active allocation and a positive open amount.
\<close>

definition annotated_open :: "(allocation \<Rightarrow> uuid) \<Rightarrow> db \<Rightarrow> uuid \<Rightarrow> money \<Rightarrow> money" where
  "annotated_open key d i amount = amount - allocated_by key d i"

definition has_active_allocation :: "(allocation \<Rightarrow> uuid) \<Rightarrow> db \<Rightarrow> uuid \<Rightarrow> bool" where
  "has_active_allocation key d i \<longleftrightarrow> list_ex (\<lambda>a. key a = i \<and> active d a) (allocs d)"

definition settlement_invoices_for ::
    "db \<Rightarrow> uuid \<Rightarrow> pystr \<Rightarrow> date \<Rightarrow> date \<Rightarrow> invoice list" where
  "settlement_invoices_for d party direction start stop =
     filter (\<lambda>b. 0 < annotated_open ra_invoice d (inv_id b) (inv_total_amount b))
       (sort_key (\<lambda>b. (inv_issue_date b, inv_id b))
         (filter (\<lambda>b. inv_counterparty b = party \<and> inv_direction b = direction
              \<and> inv_status b = InvoiceStatus_NORMAL
              \<and> start \<le> inv_issue_date b \<and> inv_issue_date b \<le> stop
              \<and> \<not> has_active_allocation ra_invoice d (inv_id b)) (invoices d)))"

definition settlement_moneys_for ::
    "(instant \<Rightarrow> date) \<Rightarrow> db \<Rightarrow> uuid \<Rightarrow> pystr \<Rightarrow> date \<Rightarrow> date \<Rightarrow> money_transaction list" where
  "settlement_moneys_for ld d party direction start stop =
     filter (\<lambda>m. 0 < annotated_open ra_transaction d (mt_id m) (mt_amount m))
       (sort_key (\<lambda>m. (mt_occurred_at m, mt_id m))
         (filter (\<lambda>m. mt_counterparty m = Some party \<and> mt_direction m = direction
              \<and> start \<le> ld (mt_occurred_at m) \<and> ld (mt_occurred_at m) \<le> stop
              \<and> \<not> has_active_allocation ra_transaction d (mt_id m)) (moneys d)))"

definition settlement_rows ::
    "(nat \<Rightarrow> uuid) \<Rightarrow> invoice list \<Rightarrow> money_transaction list
     \<Rightarrow> settlement_invoice list \<times> settlement_money list" where
  "settlement_rows ids bills funds =
     (map (\<lambda>(k, b). \<lparr>si_id = ids (Suc k), si_batch = ids 0, si_invoice = inv_id b\<rparr>)
        (zip [0..<length bills] bills),
      map (\<lambda>(k, m). \<lparr>sm_id = ids (Suc (length bills + k)), sm_batch = ids 0,
                     sm_transaction = mt_id m\<rparr>)
        (zip [0..<length funds] funds))"

definition create_settlement_batch ::
    "(instant \<Rightarrow> date) \<Rightarrow> instant \<Rightarrow> (nat \<Rightarrow> uuid) \<Rightarrow> actor \<Rightarrow> uuid \<Rightarrow> pystr \<Rightarrow> date \<Rightarrow> date
     \<Rightarrow> db \<Rightarrow> exn + settlement_batch \<times> db" where
  "create_settlement_batch ld now ids a party direction start stop d =
     bindE (require_finance_actor d a msg_finance_only) (\<lambda>_.
     bindE (raise_if (stop < start) (ValidationError msg_period)) (\<lambda>_.
     bindE (settlement_directions_for direction) (\<lambda>(bill_direction, money_direction).
     bindE (raise_if (find_row cp_id (parties d) party = None) (ValidationError msg_no_party)) (\<lambda>_.
       let bills = settlement_invoices_for d party bill_direction start stop;
           funds = settlement_moneys_for ld d party money_direction start stop
       in
     bindE (raise_if (bills = []) (ValidationError msg_no_open_invoice)) (\<lambda>_.
     bindE (raise_if (funds = []) (ValidationError msg_no_open_money)) (\<lambda>_.
       let batch = \<lparr>sb_id = ids 0, sb_counterparty = party, sb_direction = direction,
                    sb_period_start = start, sb_period_end = stop,
                    sb_status = SettlementStatus_DRAFT, sb_version = 1,
                    sb_created_by = the (actor_pk a)\<rparr>;
           rows = settlement_rows ids bills funds;
           d1 = d\<lparr>settlements := settlements d @ [batch],
                  settlement_invoices := settlement_invoices d @ fst rows,
                  settlement_moneys := settlement_moneys d @ snd rows\<rparr>
       in
     bindE (record_audit now a (lit ''settlement_batch.created'')
              (saved_target (lit ''SettlementBatch'') (ids 0))
              (JObj [(lit ''invoice_count'', JInt (int (length bills))),
                     (lit ''transaction_count'', JInt (int (length funds)))]) d1) (\<lambda>d2.
       Inr (batch, d2))))))))"

section \<open>Confirming a batch\<close>

definition validate_batch_version :: "settlement_batch \<Rightarrow> int \<Rightarrow> exn + unit" where
  "validate_batch_version batch version =
     (if sb_status batch = SettlementStatus_CONFIRMED then Inl (ValidationError msg_confirmed)
      else if sb_status batch \<noteq> SettlementStatus_DRAFT then Inl (ValidationError msg_not_draft)
      else if version \<noteq> sb_version batch then Inl (ValidationError msg_version)
      else Inr ())"

definition batch_invoice_ids :: "db \<Rightarrow> uuid \<Rightarrow> uuid list" where
  "batch_invoice_ids d b =
     remdups (map si_invoice (filter (\<lambda>x. si_batch x = b) (settlement_invoices d)))"

definition batch_money_ids :: "db \<Rightarrow> uuid \<Rightarrow> uuid list" where
  "batch_money_ids d b =
     remdups (map sm_transaction (filter (\<lambda>x. sm_batch x = b) (settlement_moneys d)))"

text \<open>\<open>value.date()\<close> of an instant as the database driver returns it, in UTC.\<close>

definition utc_date :: "instant \<Rightarrow> date" where
  "utc_date t = t div 86400000000 + 719163"

definition validate_batch_invoice ::
    "settlement_batch \<Rightarrow> pystr \<Rightarrow> invoice \<Rightarrow> exn + unit" where
  "validate_batch_invoice batch direction b =
     (if inv_counterparty b \<noteq> sb_counterparty batch then Inl (ValidationError msg_batch_party)
      else if inv_direction b \<noteq> direction then Inl (ValidationError msg_batch_side)
      else if \<not> (sb_period_start batch \<le> inv_issue_date b
                 \<and> inv_issue_date b \<le> sb_period_end batch)
      then Inl (ValidationError msg_invoice_period)
      else Inr ())"

definition validate_batch_money ::
    "settlement_batch \<Rightarrow> pystr \<Rightarrow> money_transaction \<Rightarrow> exn + unit" where
  "validate_batch_money batch direction m =
     (if mt_counterparty m \<noteq> Some (sb_counterparty batch) then Inl (ValidationError msg_batch_party)
      else if mt_direction m \<noteq> direction then Inl (ValidationError msg_batch_side)
      else if \<not> (sb_period_start batch \<le> utc_date (mt_occurred_at m)
                 \<and> utc_date (mt_occurred_at m) \<le> sb_period_end batch)
      then Inl (ValidationError msg_money_period)
      else Inr ())"

definition validate_batch_records ::
    "settlement_batch \<Rightarrow> invoice list \<Rightarrow> money_transaction list \<Rightarrow> exn + unit" where
  "validate_batch_records batch bills funds =
     bindE (settlement_directions_for (sb_direction batch)) (\<lambda>(bill_direction, money_direction).
     bindE (traverse (validate_batch_invoice batch bill_direction) bills) (\<lambda>_.
     bindE (traverse (validate_batch_money batch money_direction) funds) (\<lambda>_. Inr ())))"

definition batch_of :: "db \<Rightarrow> uuid \<Rightarrow> uuid option" where
  "batch_of d rid =
     (case find_row rc_id (recons d) rid of None \<Rightarrow> None | Some r \<Rightarrow> rc_settlement_batch r)"

definition externally_occupied :: "db \<Rightarrow> uuid \<Rightarrow> uuid list \<Rightarrow> uuid list \<Rightarrow> bool" where
  "externally_occupied d b bill_ids money_ids \<longleftrightarrow>
     list_ex (\<lambda>a. (ra_invoice a \<in> set bill_ids \<or> ra_transaction a \<in> set money_ids) \<and> active d a
               \<and> batch_of d (ra_reconciliation a) \<noteq> Some b) (allocs d)"

text \<open>
  The two \<open>defaultdict(lambda: Decimal("0.00"))\<close> of \<open>_validate_allocation_totals\<close> and the
  loop that fills them; adding \<open>None\<close>, a value that is no number, raises a \<open>TypeError\<close>.
\<close>

definition total_get :: "(uuid \<times> pydec) list \<Rightarrow> uuid \<Rightarrow> pydec" where
  "total_get t k = (case map_of t k of None \<Rightarrow> Fin 0 (- 2) | Some x \<Rightarrow> x)"

definition add_total ::
    "uuid \<Rightarrow> pydec \<Rightarrow> (uuid \<times> pydec) list \<Rightarrow> exn + (uuid \<times> pydec) list" where
  "add_total k x t =
     (case dec_add (total_get t k) x of
        Inl _ \<Rightarrow> Inl DecimalInvalidOperation
      | Inr y \<Rightarrow> Inr (AList.update k y t))"

fun allocation_totals ::
    "alloc_input list \<Rightarrow> (uuid \<times> pydec) list \<Rightarrow> (uuid \<times> pydec) list
     \<Rightarrow> exn + (uuid \<times> pydec) list \<times> (uuid \<times> pydec) list" where
  "allocation_totals [] it mt = Inr (it, mt)"
| "allocation_totals (item # items) it mt =
     (case ai_amount item of
        None \<Rightarrow> Inl (TypeError [])
      | Some x \<Rightarrow>
          bindE (add_total (ai_invoice item) x it) (\<lambda>it1.
          bindE (add_total (ai_transaction item) x mt) (\<lambda>mt1.
          allocation_totals items it1 mt1)))"

definition total_matches :: "(uuid \<times> pydec) list \<Rightarrow> uuid \<times> money \<Rightarrow> exn + unit" where
  "total_matches t ko =
     raise_if (\<not> dec_eq (total_get t (fst ko)) (snd ko)) (ValidationError msg_totals)"

definition validate_allocation_totals ::
    "alloc_input list \<Rightarrow> (uuid \<times> money) list \<Rightarrow> (uuid \<times> money) list \<Rightarrow> exn + unit" where
  "validate_allocation_totals items bill_opens fund_opens =
     bindE (allocation_totals items [] []) (\<lambda>(it, mt).
     bindE (traverse (total_matches it) bill_opens) (\<lambda>_.
     bindE (traverse (total_matches mt) fund_opens) (\<lambda>_. Inr ())))"

definition validate_batch_allocations ::
    "db \<Rightarrow> settlement_batch \<Rightarrow> alloc_input list \<Rightarrow> exn + unit" where
  "validate_batch_allocations d batch items =
     (let bill_ids = batch_invoice_ids d (sb_id batch);
          money_ids = batch_money_ids d (sb_id batch);
          item_bills = ai_invoice ` set items; item_moneys = ai_transaction ` set items
      in
     bindE (raise_if (\<not> distinct (map (\<lambda>i. (ai_invoice i, ai_transaction i)) items))
              (ValidationError msg_duplicate_pair)) (\<lambda>_.
     bindE (raise_if (bill_ids = []) (ValidationError msg_batch_no_invoice)) (\<lambda>_.
     bindE (raise_if (money_ids = []) (ValidationError msg_batch_no_money)) (\<lambda>_.
     bindE (raise_if (items = []) (ValidationError msg_batch_empty)) (\<lambda>_.
     bindE (raise_if (\<not> item_bills \<subseteq> set bill_ids) (ValidationError msg_foreign_invoice)) (\<lambda>_.
     bindE (raise_if (\<not> item_moneys \<subseteq> set money_ids) (ValidationError msg_foreign_money)) (\<lambda>_.
     bindE (raise_if (item_bills \<noteq> set bill_ids \<or> item_moneys \<noteq> set money_ids)
              (ValidationError msg_incomplete)) (\<lambda>_.
     bindE (validate_batch_records batch
              (filter (\<lambda>b. inv_id b \<in> set bill_ids) (invoices d))
              (filter (\<lambda>m. mt_id m \<in> set money_ids) (moneys d))) (\<lambda>_.
     bindE (raise_if (externally_occupied d (sb_id batch) bill_ids money_ids)
              (ValidationError msg_occupied)) (\<lambda>_.
     bindE (traverse (invoice_open_amount d) bill_ids) (\<lambda>bill_opens.
     bindE (traverse (transaction_open_amount d) money_ids) (\<lambda>fund_opens.
     bindE (raise_if (list_ex (\<lambda>v. v \<le> 0) bill_opens) (ValidationError msg_closed_invoice)) (\<lambda>_.
     bindE (raise_if (list_ex (\<lambda>v. v \<le> 0) fund_opens) (ValidationError msg_closed_money)) (\<lambda>_.
     validate_allocation_totals items (zip bill_ids bill_opens)
       (zip money_ids fund_opens)))))))))))))))"

definition confirm_args :: "actor \<Rightarrow> settlement_batch \<Rightarrow> alloc_input list \<Rightarrow> recon_args" where
  "confirm_args a batch items =
     \<lparr>cr_actor = a, cr_direction = sb_direction batch, cr_allocations = items, cr_note = [],
      cr_mode = Mode_BATCH, cr_settlement = Some batch, cr_expected_invoice_open = None,
      cr_expected_transaction_open = None, cr_allow_partial = True\<rparr>"

definition mark_confirmed :: "settlement_batch \<Rightarrow> settlement_batch list \<Rightarrow> settlement_batch list" where
  "mark_confirmed batch =
     map (\<lambda>b. if sb_id b = sb_id batch
              then b\<lparr>sb_status := SettlementStatus_CONFIRMED, sb_version := sb_version batch + 1\<rparr>
              else b)"

definition confirm_settlement_batch ::
    "instant \<Rightarrow> (nat \<Rightarrow> uuid) \<Rightarrow> uuid \<Rightarrow> actor \<Rightarrow> alloc_input list \<Rightarrow> int \<Rightarrow> db
     \<Rightarrow> exn + reconciliation \<times> db" where
  "confirm_settlement_batch now ids b a items version d =
     bindE (require_finance_actor d a msg_finance_only) (\<lambda>_.
       case find_row sb_id (settlements d) b of
         None \<Rightarrow> Inl ObjectDoesNotExist
       | Some batch \<Rightarrow>
           bindE (validate_batch_version batch version) (\<lambda>_.
           bindE (validate_batch_allocations d batch items) (\<lambda>_.
           bindE (create_reconciliation now ids (confirm_args a batch items) d) (\<lambda>(rc, d1).
             Inr (rc, d1\<lparr>settlements := mark_confirmed batch (settlements d1)\<rparr>)))))"

end
