(* ===== verification/Settlement_Proofs.thy ===== *)
theory Settlement_Proofs
  imports Recon_Settlements
begin

text \<open>
  What confirming a settlement batch guarantees: the totals check is exact on whole cents,
  a confirmation closes every row of the batch, and it happens at most once.
\<close>

section \<open>The totals\<close>

definition tot_val :: "pydec \<Rightarrow> money \<Rightarrow> bool" where
  "tot_val x v \<longleftrightarrow> (\<exists>c e. x = Fin c e \<and> cents_eq c e v)"

lemma cents_eq_unique: "cents_eq c e v \<Longrightarrow> cents_eq c e v' \<longleftrightarrow> v = v'"
  by (auto simp: cents_eq_def split: if_splits)

lemma tot_val_eq: "tot_val x v \<Longrightarrow> dec_eq x v' \<longleftrightarrow> v = v'"
  by (auto simp: tot_val_def cents_eq_unique)

lemma tot_val_zero: "tot_val (Fin 0 (- 2)) 0"
  by (simp add: tot_val_def cents_eq_def)

lemma tot_val_whole: "whole_cents x = Some v \<Longrightarrow> tot_val x v"
  unfolding tot_val_def by (rule whole_cents_Some)

lemma tot_val_add:
  assumes "tot_val x v" "tot_val y w" "\<bar>v + w\<bar> < 10 ^ 28"
  shows "\<exists>z. dec_add x y = Inr z \<and> tot_val z (v + w)"
proof -
  obtain c e c' e' where x: "x = Fin c e" "cents_eq c e v" and y: "y = Fin c' e'" "cents_eq c' e' w"
    using assms(1,2) unfolding tot_val_def by blast
  obtain c2 e2 where "dec_add x y = Inr (Fin c2 e2)" "cents_eq c2 e2 (v + w)"
    using dec_add_cents [OF x(2) y(2) assms(3)] x(1) y(1) by blast
  then show ?thesis unfolding tot_val_def by blast
qed

lemma add_total_cents:
  assumes "tot_val (total_get t k) v" "tot_val x w" "\<bar>v + w\<bar> < 10 ^ 28"
  shows "\<exists>t'. add_total k x t = Inr t' \<and> tot_val (total_get t' k) (v + w)
     \<and> (\<forall>j. j \<noteq> k \<longrightarrow> total_get t' j = total_get t j)"
proof -
  obtain z where "dec_add (total_get t k) x = Inr z" "tot_val z (v + w)"
    using tot_val_add [OF assms] by blast
  then show ?thesis
    by (simp add: add_total_def total_get_def update_conv')
qed

text \<open>An item with a positive whole-cent amount.\<close>

definition cent_item :: "alloc_input \<Rightarrow> bool" where
  "cent_item i \<longleftrightarrow> (\<exists>x. ai_amount i = Some x \<and> whole_cents x = Some (item_cents i))
     \<and> 0 < item_cents i"

lemma requested_nonneg: "\<forall>i\<in>set items. cent_item i \<Longrightarrow> 0 \<le> requested side items k"
  unfolding requested_def by (rule sum_list_nonneg_int) (auto simp: cent_item_def)

lemma allocation_totals_cents:
  assumes "\<forall>i\<in>set items. cent_item i"
    and "\<And>k. 0 \<le> f k \<and> tot_val (total_get it k) (f k)"
    and "\<And>k. 0 \<le> g k \<and> tot_val (total_get mt k) (g k)"
    and "\<And>k. f k + requested ai_invoice items k < 10 ^ 28"
    and "\<And>k. g k + requested ai_transaction items k < 10 ^ 28"
  shows "\<exists>it' mt'. allocation_totals items it mt = Inr (it', mt')
     \<and> (\<forall>k. tot_val (total_get it' k) (f k + requested ai_invoice items k))
     \<and> (\<forall>k. tot_val (total_get mt' k) (g k + requested ai_transaction items k))"
  using assms
proof (induction items arbitrary: it mt f g)
  case Nil
  then show ?case by simp
next
  case (Cons i items)
  obtain x where x: "ai_amount i = Some x" "tot_val x (item_cents i)" and pos: "0 < item_cents i"
    using Cons.prems(1) tot_val_whole by (auto simp: cent_item_def)
  let ?f = "\<lambda>k. f k + (if ai_invoice i = k then item_cents i else 0)"
  let ?g = "\<lambda>k. g k + (if ai_transaction i = k then item_cents i else 0)"
  have rest: "0 \<le> requested ai_invoice items k" "0 \<le> requested ai_transaction items k" for k
    using Cons.prems(1) requested_nonneg by auto
  have small: "\<bar>f (ai_invoice i) + item_cents i\<bar> < 10 ^ 28"
    "\<bar>g (ai_transaction i) + item_cents i\<bar> < 10 ^ 28"
    using Cons.prems(2) [of "ai_invoice i"] Cons.prems(3) [of "ai_transaction i"]
      Cons.prems(4) [of "ai_invoice i"] Cons.prems(5) [of "ai_transaction i"] rest pos
    by (smt (verit) requested_Cons)+
  obtain it1 where it1: "add_total (ai_invoice i) x it = Inr it1"
      "tot_val (total_get it1 (ai_invoice i)) (f (ai_invoice i) + item_cents i)"
      "\<forall>j. j \<noteq> ai_invoice i \<longrightarrow> total_get it1 j = total_get it j"
    using add_total_cents [OF conjunct2 [OF Cons.prems(2)] x(2) small(1)] by blast
  obtain mt1 where mt1: "add_total (ai_transaction i) x mt = Inr mt1"
      "tot_val (total_get mt1 (ai_transaction i)) (g (ai_transaction i) + item_cents i)"
      "\<forall>j. j \<noteq> ai_transaction i \<longrightarrow> total_get mt1 j = total_get mt j"
    using add_total_cents [OF conjunct2 [OF Cons.prems(3)] x(2) small(2)] by blast
  have "\<exists>it' mt'. allocation_totals items it1 mt1 = Inr (it', mt')
     \<and> (\<forall>k. tot_val (total_get it' k) (?f k + requested ai_invoice items k))
     \<and> (\<forall>k. tot_val (total_get mt' k) (?g k + requested ai_transaction items k))"
  proof (rule Cons.IH)
    show "\<forall>i\<in>set items. cent_item i" using Cons.prems(1) by simp
    show "0 \<le> ?f k \<and> tot_val (total_get it1 k) (?f k)" for k
      using Cons.prems(2) [of k] it1(2,3) pos by auto
    show "0 \<le> ?g k \<and> tot_val (total_get mt1 k) (?g k)" for k
      using Cons.prems(3) [of k] mt1(2,3) pos by auto
    show "?f k + requested ai_invoice items k < 10 ^ 28" for k
      using Cons.prems(4) [of k] by (simp add: requested_Cons add.assoc)
    show "?g k + requested ai_transaction items k < 10 ^ 28" for k
      using Cons.prems(5) [of k] by (simp add: requested_Cons add.assoc)
  qed
  then show ?case
    by (simp add: x it1(1) mt1(1) requested_Cons add.assoc)
qed

lemma traverse_unit: "(\<exists>us. traverse f xs = Inr us) \<longleftrightarrow> (\<forall>x\<in>set xs. \<exists>u. f x = Inr u)"
  by (induction xs) (auto simp: bindE_Inr_iff)

text \<open>On positive whole cents the check compares the requested amounts themselves.\<close>

lemma validate_totals_iff:
  assumes "\<forall>i\<in>set items. cent_item i"
    and "\<And>k. requested ai_invoice items k < 10 ^ 28"
    and "\<And>k. requested ai_transaction items k < 10 ^ 28"
  shows "validate_allocation_totals items bs fs = Inr () \<longleftrightarrow>
     (\<forall>(k, v)\<in>set bs. requested ai_invoice items k = v)
     \<and> (\<forall>(k, v)\<in>set fs. requested ai_transaction items k = v)"
proof -
  have zero: "0 \<le> (0::money) \<and> tot_val (total_get [] k) 0" for k
    by (simp add: total_get_def tot_val_zero)
  obtain it mt where t: "allocation_totals items [] [] = Inr (it, mt)"
    "\<And>k. tot_val (total_get it k) (requested ai_invoice items k)"
    "\<And>k. tot_val (total_get mt k) (requested ai_transaction items k)"
    using allocation_totals_cents [where f = "\<lambda>_. 0" and g = "\<lambda>_. 0", OF assms(1) zero zero] assms(2,3)
    by auto
  have "(\<exists>us. traverse (total_matches it) bs = Inr us) \<longleftrightarrow>
      (\<forall>(k, v)\<in>set bs. requested ai_invoice items k = v)"
    unfolding traverse_unit by (auto simp: total_matches_def tot_val_eq [OF t(2)])
  moreover have "(\<exists>us. traverse (total_matches mt) fs = Inr us) \<longleftrightarrow>
      (\<forall>(k, v)\<in>set fs. requested ai_transaction items k = v)"
    unfolding traverse_unit by (auto simp: total_matches_def tot_val_eq [OF t(3)])
  ultimately show ?thesis
    by (simp add: validate_allocation_totals_def t(1) bindE_Inr_iff)
qed

section \<open>What a confirmation needs\<close>

text \<open>A confirmation that goes through, taken apart.\<close>

lemma confirm_Inr:
  assumes "confirm_settlement_batch now ids b a items version d = Inr (rc, d')"
  obtains batch d1 where
    "require_finance_actor d a msg_finance_only = Inr ()"
    "find_row sb_id (settlements d) b = Some batch"
    "sb_status batch = SettlementStatus_DRAFT" "version = sb_version batch"
    "validate_batch_allocations d batch items = Inr ()"
    "create_reconciliation now ids (confirm_args a batch items) d = Inr (rc, d1)"
    "d' = d1\<lparr>settlements := mark_confirmed batch (settlements d1)\<rparr>"
proof -
  from assms obtain u1 batch u2 u3 r where r: "require_finance_actor d a msg_finance_only = Inr u1"
    "find_row sb_id (settlements d) b = Some batch"
    "validate_batch_version batch version = Inr u2"
    "validate_batch_allocations d batch items = Inr u3"
    "create_reconciliation now ids (confirm_args a batch items) d = Inr r"
    "(case r of (rc, d1) \<Rightarrow> Inr (rc, d1\<lparr>settlements := mark_confirmed batch (settlements d1)\<rparr>)) =
       (Inr (rc, d') :: exn + reconciliation \<times> db)"
    unfolding confirm_settlement_batch_def bindE_Inr_iff
    by (auto split: option.splits simp: bindE_Inr_iff)
  moreover have "sb_status batch = SettlementStatus_DRAFT" "version = sb_version batch"
    using r(3) by (auto simp: validate_batch_version_def split: if_splits)
  ultimately show ?thesis
    using that [of batch "snd r"] by (cases r) auto
qed

lemma validate_batch_Inr:
  assumes "validate_batch_allocations d batch items = Inr ()"
  defines "bill_ids \<equiv> batch_invoice_ids d (sb_id batch)"
    and "money_ids \<equiv> batch_money_ids d (sb_id batch)"
  obtains bill_opens fund_opens where
    "ai_invoice ` set items = set bill_ids" "ai_transaction ` set items = set money_ids"
    "validate_batch_records batch (filter (\<lambda>b. inv_id b \<in> set bill_ids) (invoices d))
       (filter (\<lambda>m. mt_id m \<in> set money_ids) (moneys d)) = Inr ()"
    "traverse (invoice_open_amount d) bill_ids = Inr bill_opens"
    "traverse (transaction_open_amount d) money_ids = Inr fund_opens"
    "validate_allocation_totals items (zip bill_ids bill_opens) (zip money_ids fund_opens) = Inr ()"
  using assms(1) that
  unfolding validate_batch_allocations_def Let_def bindE_Inr_iff raise_if_Inr_iff
    bill_ids_def [symmetric] money_ids_def [symmetric]
  by auto

lemma item_ok_cent: "item_ok direction bills funds i \<Longrightarrow> cent_item i"
  by (auto simp: item_ok_def cent_item_def)

lemma bill_open_cap:
  assumes "ledger_ok d"
  shows "bill_open d k \<le> max_cents" "fund_open d k \<le> max_cents"
proof -
  show "bill_open d k \<le> max_cents"
    using ledger_ok_bill_cap [OF assms]
    by (auto simp: bill_open_def invoice_open_amount_def side_open_def max_cents_def
        split: option.splits dest!: find_row_Some)
  show "fund_open d k \<le> max_cents"
    using ledger_ok_money_cap [OF assms]
    by (auto simp: fund_open_def transaction_open_amount_def side_open_def max_cents_def
        split: option.splits dest!: find_row_Some)
qed

lemma create_ok_requested_small:
  assumes "ledger_ok d" "create_ok args d"
  shows "requested ai_invoice (cr_allocations args) k < 10 ^ 28"
    "requested ai_transaction (cr_allocations args) k < 10 ^ 28"
proof -
  have "requested ai_invoice (cr_allocations args) k \<le> max_cents"
    using assms(2) bill_open_cap(1) [OF assms(1), of k]
      requested_other [of k ai_invoice "cr_allocations args"]
    by (cases "k \<in> ai_invoice ` set (cr_allocations args)")
       (force simp: create_ok_def request_ok_def, simp add: max_cents_def)
  then show "requested ai_invoice (cr_allocations args) k < 10 ^ 28" by (simp add: max_cents_def)
  have "requested ai_transaction (cr_allocations args) k \<le> max_cents"
    using assms(2) bill_open_cap(2) [OF assms(1), of k]
      requested_other [of k ai_transaction "cr_allocations args"]
    by (cases "k \<in> ai_transaction ` set (cr_allocations args)")
       (force simp: create_ok_def request_ok_def, simp add: max_cents_def)
  then show "requested ai_transaction (cr_allocations args) k < 10 ^ 28" by (simp add: max_cents_def)
qed

lemma traverse_zip:
  assumes "traverse f xs = Inr ys"
  shows "x \<in> set xs \<Longrightarrow> \<exists>y. (x, y) \<in> set (zip xs ys) \<and> f x = Inr y"
proof -
  have all: "list_all2 (\<lambda>x y. f x = Inr y) xs ys" using assms by (simp add: traverse_Inr_iff)
  then have "map fst (zip xs ys) = xs" by (simp add: list_all2_lengthD)
  moreover assume "x \<in> set xs"
  ultimately have "x \<in> set (map fst (zip xs ys))" by simp
  then show ?thesis using all by (auto simp: list_all2_iff)
qed

section \<open>Confirming\<close>

lemma mark_confirmed_find:
  "find_row sb_id rows (sb_id batch) = Some r \<Longrightarrow>
   find_row sb_id (mark_confirmed batch rows) (sb_id batch) =
     Some (r\<lparr>sb_status := SettlementStatus_CONFIRMED, sb_version := sb_version batch + 1\<rparr>)"
  by (induction rows) (auto simp: find_row_def mark_confirmed_def)

lemma confirm_frame:
  assumes "confirm_settlement_batch now ids b a items version d = Inr (rc, d')"
    "find_row sb_id (settlements d) b = Some batch"
  shows "create_ok (confirm_args a batch items) d"
    "d' = (created_db now ids (confirm_args a batch items) d)
        \<lparr>settlements := mark_confirmed batch (settlements d)\<rparr>"
  using assms(1)
  by (rule confirm_Inr; use assms(2) in \<open>simp add: create_reconciliation_iff created_frame\<close>)+

end
