(* ===== verification/Recon_Presenters.thy ===== *)
theory Recon_Presenters
  imports Settlement_Proofs
begin

text \<open>
  What the settlement and reconciliation pages compute (\<open>apps/reconciliation/presenters.py\<close>):
  the allocation plan that fills the confirmation form of a batch, and the amounts that
  the workbench proposes for an invoice.
\<close>

section \<open>Items\<close>

text \<open>\<open>SettlementItem\<close>, with the identifier of its record, and \<open>AllocationRow\<close>.\<close>

record settlement_item =
  it_id :: uuid
  it_open :: money
  it_open_text :: pystr
  it_occupied :: bool

record allocation_row =
  ar_invoice :: uuid
  ar_transaction :: uuid
  ar_amount :: money
  ar_amount_input :: pystr

definition money_text :: "money \<Rightarrow> pystr" where
  "money_text v = money_grouped v"

definition money_input :: "money \<Rightarrow> pystr" where
  "money_input v = money_fixed v"

definition settlement_item_of :: "uuid \<Rightarrow> money \<Rightarrow> bool \<Rightarrow> settlement_item" where
  "settlement_item_of i amount occupied =
     \<lparr>it_id = i, it_open = amount, it_open_text = money_text amount, it_occupied = occupied\<rparr>"

section \<open>The allocation plan\<close>

text \<open>
  The two-pointer loop of \<open>_allocation_plan\<close>. The lists hold the identifiers from the two
  indices on with the amounts that remain; an index is advanced when its amount is zero.
\<close>

function plan_loop ::
    "(uuid \<times> money) list \<Rightarrow> (uuid \<times> money) list \<Rightarrow> allocation_row list" where
  "plan_loop [] ts = []"
| "plan_loop (x # xs) [] = []"
| "plan_loop ((i, r) # xs) ((t, s) # ts) =
     (if r = 0 then plan_loop xs ((t, s) # ts)
      else if s = 0 then plan_loop ((i, r) # xs) ts
      else (let amount = min r s
            in \<lparr>ar_invoice = i, ar_transaction = t, ar_amount = amount,
                ar_amount_input = money_input amount\<rparr>
               # plan_loop ((i, r - amount) # xs) ((t, s - amount) # ts)))"
  by pat_completeness auto
termination
  by (relation "measures [\<lambda>(xs, ts). length xs + length ts,
        \<lambda>(xs, ts). length (filter (\<lambda>x. snd x \<noteq> 0) xs) + length (filter (\<lambda>x. snd x \<noteq> 0) ts)]")
     (auto simp: min_def)

definition remaining_of :: "settlement_item \<Rightarrow> uuid \<times> money" where
  "remaining_of x = (it_id x, if it_occupied x then 0 else max (it_open x) 0)"

definition allocation_plan ::
    "settlement_item list \<Rightarrow> settlement_item list \<Rightarrow> allocation_row list" where
  "allocation_plan bills funds = plan_loop (map remaining_of bills) (map remaining_of funds)"

definition as_allocation_inputs :: "allocation_row list \<Rightarrow> alloc_input list" where
  "as_allocation_inputs rows =
     map (\<lambda>r. \<lparr>ai_invoice = ar_invoice r, ai_transaction = ar_transaction r,
               ai_amount = Some (Fin (ar_amount r) (- 2))\<rparr>) rows"

section \<open>The page of a batch\<close>

record settlement_page =
  pg_invoice_items :: "settlement_item list"
  pg_transaction_items :: "settlement_item list"
  pg_allocation_rows :: "allocation_row list"
  pg_invoice_total :: pystr
  pg_money_total :: pystr
  pg_allocated_total :: pystr
  pg_invoice_unallocated :: pystr
  pg_money_unallocated :: pystr
  pg_can_confirm :: bool

definition external_allocations :: "db \<Rightarrow> uuid \<Rightarrow> allocation list" where
  "external_allocations d b =
     filter (\<lambda>a. active d a \<and> batch_of d (ra_reconciliation a) \<noteq> Some b) (allocs d)"

definition batch_invoice_rows :: "db \<Rightarrow> uuid \<Rightarrow> uuid list" where
  "batch_invoice_rows d b =
     map si_invoice
       (sort_key (\<lambda>x. (case find_row inv_id (invoices d) (si_invoice x) of None \<Rightarrow> 0
                       | Some bill \<Rightarrow> inv_issue_date bill, si_invoice x))
          (filter (\<lambda>x. si_batch x = b) (settlement_invoices d)))"

definition batch_money_rows :: "db \<Rightarrow> uuid \<Rightarrow> uuid list" where
  "batch_money_rows d b =
     map sm_transaction
       (sort_key (\<lambda>x. (case find_row mt_id (moneys d) (sm_transaction x) of None \<Rightarrow> 0
                       | Some m \<Rightarrow> mt_occurred_at m, sm_transaction x))
          (filter (\<lambda>x. sm_batch x = b) (settlement_moneys d)))"

definition free_total :: "settlement_item list \<Rightarrow> money" where
  "free_total xs = sum_list (map it_open (filter (\<lambda>x. \<not> it_occupied x) xs))"

definition settlement_context :: "db \<Rightarrow> settlement_batch \<Rightarrow> exn + settlement_page" where
  "settlement_context d batch =
     (let ext = external_allocations d (sb_id batch);
          bill_ids = batch_invoice_rows d (sb_id batch);
          money_ids = batch_money_rows d (sb_id batch)
      in
     bindE (traverse (\<lambda>i. map_sum id (\<lambda>v. settlement_item_of i v (i \<in> ra_invoice ` set ext))
                            (invoice_open_amount d i)) bill_ids) (\<lambda>bills.
     bindE (traverse (\<lambda>i. map_sum id (\<lambda>v. settlement_item_of i v (i \<in> ra_transaction ` set ext))
                            (transaction_open_amount d i)) money_ids) (\<lambda>funds.
       let rows = allocation_plan bills funds;
           bill_total = free_total bills; fund_total = free_total funds;
           allocated = sum_list (map ar_amount rows)
       in Inr \<lparr>pg_invoice_items = bills, pg_transaction_items = funds,
               pg_allocation_rows = rows, pg_invoice_total = money_text bill_total,
               pg_money_total = money_text fund_total,
               pg_allocated_total = money_text allocated,
               pg_invoice_unallocated = money_text (bill_total - allocated),
               pg_money_unallocated = money_text (fund_total - allocated),
               pg_can_confirm = (rows \<noteq> [] \<and> bill_total = fund_total
                 \<and> \<not> list_ex it_occupied (bills @ funds))\<rparr>)))"

section \<open>The workbench\<close>

record direct_row =
  dr_record :: uuid
  dr_open_amount :: money
  dr_open_text :: pystr
  dr_open_input :: pystr
  dr_open_cents :: int
  dr_allocation_input :: pystr
  dr_selected :: bool

text \<open>The loop of \<open>direct_allocation_rows\<close>, with the amount it proposes for each row.\<close>

fun direct_amounts :: "money \<Rightarrow> (uuid \<times> money) list \<Rightarrow> money list" where
  "direct_amounts remaining [] = []"
| "direct_amounts remaining ((i, amount_open) # rest) =
     (let amount = min remaining amount_open
      in amount # direct_amounts (remaining - amount) rest)"

definition direct_allocation_rows :: "(uuid \<times> money) list \<Rightarrow> money \<Rightarrow> direct_row list" where
  "direct_allocation_rows items invoice_open =
     map (\<lambda>((i, v), amount).
            \<lparr>dr_record = i, dr_open_amount = v, dr_open_text = money_text v,
             dr_open_input = money_input v, dr_open_cents = v,
             dr_allocation_input = money_input amount, dr_selected = (0 < amount)\<rparr>)
       (zip items (direct_amounts invoice_open items))"

section \<open>Facts about the plan\<close>

lemma plan_loop_step:
  "plan_loop ((i, 0) # xs) ((t, s) # ts) = plan_loop xs ((t, s) # ts)"
  "r \<noteq> 0 \<Longrightarrow> plan_loop ((i, r) # xs) ((t, 0) # ts) = plan_loop ((i, r) # xs) ts"
  "r \<noteq> 0 \<Longrightarrow> s \<noteq> 0 \<Longrightarrow> plan_loop ((i, r) # xs) ((t, s) # ts) =
     \<lparr>ar_invoice = i, ar_transaction = t, ar_amount = min r s,
      ar_amount_input = money_input (min r s)\<rparr>
     # plan_loop ((i, r - min r s) # xs) ((t, s - min r s) # ts)"
  by (simp_all add: Let_def)

declare plan_loop.simps(3) [simp del]

text \<open>Induction over the loop: the two advances and the step that allocates.\<close>

lemma plan_loop_cases [case_names bills_done funds_done skip_bill skip_fund allocate]:
  fixes P :: "(uuid \<times> money) list \<Rightarrow> (uuid \<times> money) list \<Rightarrow> bool"
  assumes "\<And>ts. P [] ts" "\<And>x xs. P (x # xs) []"
    and "\<And>i xs t s ts. P xs ((t, s) # ts) \<Longrightarrow> P ((i, 0) # xs) ((t, s) # ts)"
    and "\<And>i r xs t ts. r \<noteq> 0 \<Longrightarrow> P ((i, r) # xs) ts \<Longrightarrow> P ((i, r) # xs) ((t, 0) # ts)"
    and "\<And>i r xs t s ts. r \<noteq> 0 \<Longrightarrow> s \<noteq> 0 \<Longrightarrow>
       P ((i, r - min r s) # xs) ((t, s - min r s) # ts) \<Longrightarrow> P ((i, r) # xs) ((t, s) # ts)"
  shows "P xs ts"
proof (induction xs ts rule: plan_loop.induct)
  case (3 i r xs t s ts)
  then show ?case using assms(3-5) by (cases "r = 0"; cases "s = 0") auto
qed (use assms(1,2) in auto)

definition row_sum :: "(allocation_row \<Rightarrow> uuid) \<Rightarrow> allocation_row list \<Rightarrow> uuid \<Rightarrow> money" where
  "row_sum side rows k = sum_list (map ar_amount (filter (\<lambda>r. side r = k) rows))"

lemma row_sum_simps [simp]:
  "row_sum side [] k = 0"
  "row_sum side (r # rows) k = (if side r = k then ar_amount r else 0) + row_sum side rows k"
  by (simp_all add: row_sum_def)

lemma plan_loop_rows:
  assumes "\<forall>x\<in>set xs. 0 \<le> snd x" "\<forall>x\<in>set ts. 0 \<le> snd x" "r \<in> set (plan_loop xs ts)"
  shows "0 < ar_amount r \<and> ar_invoice r \<in> fst ` set xs \<and> ar_transaction r \<in> fst ` set ts"
  using assms
proof (induction xs ts rule: plan_loop_cases)
  case (allocate i r' xs t s ts)
  let ?m = "min r' s"
  have pos: "0 < ?m" "0 \<le> r' - ?m" "0 \<le> s - ?m" using allocate by auto
  from allocate.prems(3) consider "ar_invoice r = i" "ar_transaction r = t" "ar_amount r = ?m"
    | "r \<in> set (plan_loop ((i, r' - ?m) # xs) ((t, s - ?m) # ts))"
    using allocate.hyps by (auto simp: plan_loop_step)
  then show ?case
  proof cases
    case 1
    then show ?thesis using pos(1) by simp
  next
    case 2
    then show ?thesis using allocate.IH allocate.prems(1,2) pos(2,3) by auto
  qed
qed (auto simp: plan_loop_step)

lemma plan_loop_total:
  assumes "\<forall>x\<in>set xs. 0 \<le> snd x" "\<forall>x\<in>set ts. 0 \<le> snd x"
  shows "sum_list (map ar_amount (plan_loop xs ts)) =
     min (sum_list (map snd xs)) (sum_list (map snd ts))"
  using assms
proof (induction xs ts rule: plan_loop_cases)
  case (bills_done ts)
  then show ?case using sum_list_nonneg_int [of ts snd] by simp
next
  case (funds_done x xs)
  then have "0 \<le> snd x + sum_list (map snd xs)" using sum_list_nonneg_int [of xs snd] by simp
  then show ?case by (simp add: min_def)
next
  case (allocate i r xs t s ts)
  then have "sum_list (map ar_amount (plan_loop ((i, r - min r s) # xs) ((t, s - min r s) # ts))) =
      min (r - min r s + sum_list (map snd xs)) (s - min r s + sum_list (map snd ts))"
    by simp
  then show ?case using allocate.hyps by (simp add: plan_loop_step min_def)
qed (auto simp: plan_loop_step)

lemma plan_loop_invoice_le:
  assumes "\<forall>x\<in>set xs. 0 \<le> snd x" "\<forall>x\<in>set ts. 0 \<le> snd x" "distinct (map fst xs)" "(k, v) \<in> set xs"
  shows "row_sum ar_invoice (plan_loop xs ts) k \<le> v"
  using assms
proof (induction xs ts arbitrary: v rule: plan_loop_cases)
  case (skip_bill i xs t s ts)
  have zero: "row_sum ar_invoice (plan_loop xs ((t, s) # ts)) i = 0"
  proof -
    have "filter (\<lambda>r. ar_invoice r = i) (plan_loop xs ((t, s) # ts)) = []"
      using plan_loop_rows [of xs "(t, s) # ts"] skip_bill.prems by (force simp: filter_empty_conv)
    then show ?thesis by (simp add: row_sum_def)
  qed
  show ?case
  proof (cases "k = i")
    case True
    with zero skip_bill.prems(3,4) show ?thesis by (force simp: plan_loop_step)
  next
    case False
    with skip_bill show ?thesis by (simp add: plan_loop_step)
  qed
next
  case (allocate i r xs t s ts)
  have pre: "\<forall>x\<in>set ((i, r - min r s) # xs). 0 \<le> snd x"
    "\<forall>x\<in>set ((t, s - min r s) # ts). 0 \<le> snd x"
    "distinct (map fst ((i, r - min r s) # xs))"
    using allocate.prems by auto
  show ?case
  proof (cases "k = i")
    case True
    then have v: "v = r" using allocate.prems(3,4) by force
    have "row_sum ar_invoice (plan_loop ((i, r - min r s) # xs) ((t, s - min r s) # ts)) k
        \<le> r - min r s"
      by (rule allocate.IH [OF pre]) (simp add: True)
    with allocate.hyps True v show ?thesis by (simp add: plan_loop_step)
  next
    case False
    then have "(k, v) \<in> set ((i, r - min r s) # xs)" using allocate.prems(4) by auto
    from allocate.IH [OF pre this] False allocate.hyps show ?thesis by (simp add: plan_loop_step)
  qed
qed (auto simp: plan_loop_step)

text \<open>The loop treats the two sides alike.\<close>

lemma plan_loop_Nil [simp]: "plan_loop xs [] = []"
  by (cases xs) auto

lemma plan_loop_zero_bill: "plan_loop ((i, 0) # xs) ts = plan_loop xs ts"
  by (cases ts) (auto simp: plan_loop_step)

lemma plan_loop_zero_fund: "plan_loop xs ((t, 0) # ts) = plan_loop xs ts"
proof (induction xs)
  case (Cons x xs)
  obtain i r where x: "x = (i, r)" by force
  then show ?case
    using Cons by (cases "r = 0") (auto simp: plan_loop_step plan_loop_zero_bill)
qed simp

definition swap_row :: "allocation_row \<Rightarrow> allocation_row" where
  "swap_row r = r\<lparr>ar_invoice := ar_transaction r, ar_transaction := ar_invoice r\<rparr>"

lemma plan_loop_swap: "plan_loop ts xs = map swap_row (plan_loop xs ts)"
proof (induction xs ts rule: plan_loop_cases)
  case (skip_bill i xs t s ts)
  then show ?case by (simp add: plan_loop_zero_bill plan_loop_zero_fund)
next
  case (skip_fund i r xs t ts)
  then show ?case by (simp add: plan_loop_zero_bill plan_loop_zero_fund)
next
  case (allocate i r xs t s ts)
  then show ?case by (simp add: plan_loop_step min.commute swap_row_def)
qed simp_all

lemma row_sum_swap: "row_sum ar_transaction rows k = row_sum ar_invoice (map swap_row rows) k"
  by (induction rows) (auto simp: swap_row_def)

lemma plan_loop_fund_le:
  assumes "\<forall>x\<in>set xs. 0 \<le> snd x" "\<forall>x\<in>set ts. 0 \<le> snd x" "distinct (map fst ts)" "(k, v) \<in> set ts"
  shows "row_sum ar_transaction (plan_loop xs ts) k \<le> v"
  unfolding row_sum_swap plan_loop_swap [of ts xs, symmetric]
  by (rule plan_loop_invoice_le [OF assms(2,1,3,4)])

text \<open>No pair is allocated twice.\<close>

lemma plan_loop_distinct:
  assumes "\<forall>x\<in>set xs. 0 \<le> snd x" "\<forall>x\<in>set ts. 0 \<le> snd x" "distinct (map fst xs)" "distinct (map fst ts)"
  shows "distinct (map (\<lambda>r. (ar_invoice r, ar_transaction r)) (plan_loop xs ts))"
  using assms
proof (induction xs ts rule: plan_loop_cases)
  case (allocate i r xs t s ts)
  let ?rest = "plan_loop ((i, r - min r s) # xs) ((t, s - min r s) # ts)"
  have pos: "\<forall>x\<in>set ((i, r - min r s) # xs). 0 \<le> snd x" "\<forall>x\<in>set ((t, s - min r s) # ts). 0 \<le> snd x"
    using allocate.prems by auto
  have "x \<in> set ?rest \<Longrightarrow> (ar_invoice x, ar_transaction x) \<noteq> (i, t)" for x
  proof (cases "r - min r s = 0")
    case True
    assume "x \<in> set ?rest"
    then have "ar_invoice x \<in> fst ` set xs"
      unfolding True plan_loop_zero_bill using plan_loop_rows [OF _ pos(2)] pos(1) by auto
    then show ?thesis using allocate.prems(3) by auto
  next
    case False
    then have z: "s - min r s = 0" by (simp add: min_def split: if_splits)
    assume "x \<in> set ?rest"
    then have "ar_transaction x \<in> fst ` set ts"
      unfolding z plan_loop_zero_fund using plan_loop_rows [OF pos(1)] pos(2) by auto
    then show ?thesis using allocate.prems(4) by auto
  qed
  moreover have "distinct (map (\<lambda>r. (ar_invoice r, ar_transaction r)) ?rest)"
    using allocate.IH pos allocate.prems(3,4) by simp
  ultimately show ?case using allocate.hyps by (auto simp: plan_loop_step)
qed (auto simp: plan_loop_step)

text \<open>When both sides have the same total, the plan uses up every amount.\<close>

lemma sum_filter_keys:
  assumes "distinct ks" "\<And>r. r \<in> set rows \<Longrightarrow> side r \<in> set ks"
  shows "sum_list (map (row_sum side rows) ks) = sum_list (map ar_amount rows)"
  using assms(2)
proof (induction rows)
  case Nil
  show ?case by (induction ks) auto
next
  case (Cons r rows)
  have "sum_list (map (\<lambda>k. (if side r = k then ar_amount r else 0) + f k) ks) =
      (if side r \<in> set ks then ar_amount r else 0) + sum_list (map f ks)" for f :: "uuid \<Rightarrow> money"
    using assms(1) by (induction ks) auto
  with Cons show ?case by simp
qed

lemma sum_le_eq:
  fixes f g :: "'a \<Rightarrow> int"
  assumes "\<And>x. x \<in> set xs \<Longrightarrow> f x \<le> g x" "sum_list (map f xs) = sum_list (map g xs)" "x \<in> set xs"
  shows "f x = g x"
  using assms
proof (induction xs)
  case (Cons y ys)
  have "sum_list (map f ys) \<le> sum_list (map g ys)"
    using Cons.prems(1) by (intro sum_list_mono) simp
  moreover have "f y \<le> g y" using Cons.prems(1) by simp
  ultimately have "f y = g y" "sum_list (map f ys) = sum_list (map g ys)"
    using Cons.prems(2) by auto
  with Cons show ?case by auto
qed simp

lemma plan_loop_full:
  assumes nn: "\<forall>x\<in>set xs. 0 \<le> snd x" "\<forall>x\<in>set ts. 0 \<le> snd x"
    and d: "distinct (map fst xs)" "distinct (map fst ts)"
    and eq: "sum_list (map snd xs) = sum_list (map snd ts)"
  shows "(k, v) \<in> set xs \<Longrightarrow> row_sum ar_invoice (plan_loop xs ts) k = v"
    and "(k, v) \<in> set ts \<Longrightarrow> row_sum ar_transaction (plan_loop xs ts) k = v"
proof -
  let ?rows = "plan_loop xs ts"
  have tot: "sum_list (map ar_amount ?rows) = sum_list (map snd xs)"
    "sum_list (map ar_amount ?rows) = sum_list (map snd ts)"
    using plan_loop_total [OF nn] eq by simp_all
  have "sum_list (map (row_sum ar_invoice ?rows) (map fst xs)) = sum_list (map ar_amount ?rows)"
    by (rule sum_filter_keys [OF d(1)]) (use plan_loop_rows [OF nn] in simp)
  then have s1: "sum_list (map (\<lambda>x. row_sum ar_invoice ?rows (fst x)) xs) = sum_list (map snd xs)"
    by (simp add: tot(1) comp_def)
  have "sum_list (map (row_sum ar_transaction ?rows) (map fst ts)) = sum_list (map ar_amount ?rows)"
    by (rule sum_filter_keys [OF d(2)]) (use plan_loop_rows [OF nn] in simp)
  then have s2: "sum_list (map (\<lambda>x. row_sum ar_transaction ?rows (fst x)) ts) = sum_list (map snd ts)"
    by (simp add: tot(2) comp_def)
  show "(k, v) \<in> set xs \<Longrightarrow> row_sum ar_invoice ?rows k = v"
    using sum_le_eq [OF _ s1, of "(k, v)"] plan_loop_invoice_le [OF nn d(1)] by force
  show "(k, v) \<in> set ts \<Longrightarrow> row_sum ar_transaction ?rows k = v"
    using sum_le_eq [OF _ s2, of "(k, v)"] plan_loop_fund_le [OF nn d(2)] by force
qed

end
