(* ===== verification/Calendar.thy ===== *)
theory Calendar
  imports Py_Text
begin

text \<open>
  The proleptic Gregorian calendar of Python's \<open>datetime\<close>: day numbers, the ISO texts of
  days and of UTC instants, and their parsers, with the round trips the stored states and
  the import files rest on.
\<close>

section \<open>Days\<close>

definition is_leap :: "int \<Rightarrow> bool" where
  "is_leap y \<longleftrightarrow> y mod 4 = 0 \<and> (y mod 100 \<noteq> 0 \<or> y mod 400 = 0)"

definition days_before_year :: "int \<Rightarrow> int" where
  "days_before_year y = (y - 1) * 365 + (y - 1) div 4 - (y - 1) div 100 + (y - 1) div 400"

definition month_lengths :: "bool \<Rightarrow> int list" where
  "month_lengths leap = [31, if leap then 29 else 28, 31, 30, 31, 30, 31, 31, 30, 31, 30, 31]"

definition days_in_month :: "int \<Rightarrow> int \<Rightarrow> int" where
  "days_in_month y m = month_lengths (is_leap y) ! nat (m - 1)"

definition days_before_month :: "bool \<Rightarrow> int \<Rightarrow> int" where
  "days_before_month leap m = sum_list (take (nat (m - 1)) (month_lengths leap))"

definition valid_ymd :: "int \<Rightarrow> int \<Rightarrow> int \<Rightarrow> bool" where
  "valid_ymd y m d \<longleftrightarrow>
     1 \<le> y \<and> y \<le> 9999 \<and> 1 \<le> m \<and> m \<le> 12 \<and> 1 \<le> d \<and> d \<le> days_in_month y m"

text \<open>\<open>date(y, m, d).toordinal()\<close>.\<close>

definition ymd_ord :: "int \<Rightarrow> int \<Rightarrow> int \<Rightarrow> date" where
  "ymd_ord y m d = days_before_year y + days_before_month (is_leap y) m + d"

text \<open>The month and day of the day \<open>n\<close>, counted from 0, of a year.\<close>

fun month_day :: "int \<Rightarrow> int list \<Rightarrow> int \<Rightarrow> int \<times> int" where
  "month_day m [] n = (m, n + 1)"
| "month_day m (l # ls) n = (if n < l then (m, n + 1) else month_day (m + 1) ls (n - l))"

definition ord_year :: "date \<Rightarrow> int \<times> int" where
  "ord_year o1 =
     (let n = o1 - 1; n400 = n div 146097; r400 = n mod 146097;
          n100 = min (r400 div 36524) 3; r100 = r400 - n100 * 36524;
          n4 = r100 div 1461; r4 = r100 mod 1461;
          n1 = min (r4 div 365) 3
      in (400 * n400 + 100 * n100 + 4 * n4 + n1 + 1, r4 - n1 * 365))"

definition ord_ymd :: "date \<Rightarrow> int \<times> int \<times> int" where
  "ord_ymd o1 =
     (let (y, n) = ord_year o1; (m, d) = month_day 1 (month_lengths (is_leap y)) n in (y, m, d))"

subsection \<open>The two conversions\<close>

lemma month_day_sum:
  assumes "0 \<le> n" "n < sum_list ls"
  shows "\<exists>k. month_day m ls n = (m + int k, n - sum_list (take k ls) + 1) \<and> k < length ls
     \<and> sum_list (take k ls) \<le> n \<and> n < sum_list (take k ls) + ls ! k"
  using assms
proof (induction ls arbitrary: m n)
  case (Cons l ls)
  show ?case
  proof (cases "n < l")
    case True
    with Cons.prems show ?thesis by (intro exI [of _ 0]) simp
  next
    case False
    with Cons.prems have "0 \<le> n - l" "n - l < sum_list ls" by auto
    from Cons.IH [OF this, of "m + 1"] obtain k where
      "month_day (m + 1) ls (n - l) = (m + 1 + int k, n - l - sum_list (take k ls) + 1)"
      "k < length ls" "sum_list (take k ls) \<le> n - l" "n - l < sum_list (take k ls) + ls ! k"
      by blast
    with False show ?thesis by (intro exI [of _ "Suc k"]) auto
  qed
qed simp

lemma year_parts:
  fixes a b c d :: int
  assumes y: "y = 400 * a + 100 * b + 4 * c + d + 1"
    and "0 \<le> b" "b \<le> 3" "0 \<le> c" "c \<le> 24" "0 \<le> d" "d \<le> 3"
  shows "days_before_year y = 146097 * a + 36524 * b + 1461 * c + 365 * d"
    and "is_leap y \<longleftrightarrow> d = 3 \<and> (c \<noteq> 24 \<or> b = 3)"
proof -
  have quot: "(r + q * x) div q = x" "(r + q * x) mod q = r" if "0 \<le> r" "r < q" for r q x :: int
    using that by simp_all
  have r: "0 \<le> d" "d < 4" "0 \<le> 4 * c + d" "4 * c + d < 100"
    "0 \<le> 100 * b + 4 * c + d" "100 * b + 4 * c + d < 400"
    using assms by simp_all
  have e: "y - 1 = d + 4 * (100 * a + 25 * b + c)" "y - 1 = (4 * c + d) + 100 * (4 * a + b)"
    "y - 1 = (100 * b + 4 * c + d) + 400 * a"
    by (simp_all add: y)
  have "(y - 1) div 4 = 100 * a + 25 * b + c" unfolding e(1) by (rule quot(1) [OF r(1,2)])
  moreover have "(y - 1) div 100 = 4 * a + b" unfolding e(2) by (rule quot(1) [OF r(3,4)])
  moreover have "(y - 1) div 400 = a" unfolding e(3) by (rule quot(1) [OF r(5,6)])
  ultimately show "days_before_year y = 146097 * a + 36524 * b + 1461 * c + 365 * d"
    by (simp add: days_before_year_def y)
  have succ: "(r + q * x + 1) mod q = 0 \<longleftrightarrow> r = q - 1" if "0 \<le> r" "r < q" for r q x :: int
  proof (cases "r = q - 1")
    case True
    then have "r + q * x + 1 = q * (x + 1)" by (simp add: distrib_left)
    with True show ?thesis by simp
  next
    case False
    then have "(r + 1 + q * x) mod q = r + 1" using that by (intro quot(2)) auto
    with False that show ?thesis by (simp add: add.assoc add.commute [of 1])
  qed
  have e1: "y = d + 4 * (100 * a + 25 * b + c) + 1" "y = (4 * c + d) + 100 * (4 * a + b) + 1"
    "y = (100 * b + 4 * c + d) + 400 * a + 1"
    by (simp_all add: y)
  have "y mod 4 = 0 \<longleftrightarrow> d = 4 - 1" unfolding e1(1) by (rule succ [OF r(1,2)])
  moreover have "y mod 100 = 0 \<longleftrightarrow> 4 * c + d = 100 - 1" unfolding e1(2) by (rule succ [OF r(3,4)])
  moreover have "y mod 400 = 0 \<longleftrightarrow> 100 * b + 4 * c + d = 400 - 1"
    unfolding e1(3) by (rule succ [OF r(5,6)])
  ultimately show "is_leap y \<longleftrightarrow> d = 3 \<and> (c \<noteq> 24 \<or> b = 3)"
    using assms by (auto simp: is_leap_def)
qed

lemma ord_year_parts:
  assumes "ord_year o1 = (y, n)"
  shows "days_before_year y + n + 1 = o1 \<and> 0 \<le> n \<and> n < (if is_leap y then 366 else 365)"
proof -
  define k where "k = o1 - 1"
  define a where "a = k div 146097"
  define r where "r = k mod 146097"
  define b where "b = min (r div 36524) 3"
  define r1 where "r1 = r - b * 36524"
  define c where "c = r1 div 1461"
  define r2 where "r2 = r1 mod 1461"
  define d where "d = min (r2 div 365) 3"
  have yn: "y = 400 * a + 100 * b + 4 * c + d + 1" "n = r2 - d * 365"
    using assms
    by (simp_all only: ord_year_def Let_def prod.inject k_def [symmetric] a_def [symmetric]
        r_def [symmetric] b_def [symmetric] r1_def [symmetric] c_def [symmetric] r2_def [symmetric]
        d_def [symmetric])
  have r: "0 \<le> r" "r < 146097" "k = 146097 * a + r" by (simp_all add: r_def a_def)
  define q where "q = r div 36524"
  define s where "s = r mod 36524"
  have q: "r = 36524 * q + s" "0 \<le> s" "s < 36524" by (simp_all add: q_def s_def)
  then have q0: "0 \<le> q" using r by linarith
  have "0 \<le> b \<and> b \<le> 3 \<and> 0 \<le> r1 \<and> r1 < (if b = 3 then 36525 else 36524)"
  proof (cases "q \<le> 3")
    case True
    then have "b = q" by (simp add: b_def q_def [symmetric])
    with True q q0 show ?thesis
      by (simp add: r1_def)
  next
    case False
    then have "b = 3" by (simp add: b_def q_def [symmetric])
    with False q r show ?thesis
      by (simp add: r1_def)
  qed
  then have b: "0 \<le> b" "b \<le> 3" "0 \<le> r1" "r1 < (if b = 3 then 36525 else 36524)" by blast+
  have r2: "0 \<le> r2" "r2 < 1461" "r1 = 1461 * c + r2" by (simp_all add: r2_def c_def)
  have r1: "r1 < 36525" using b(4) by (simp split: if_splits)
  have c: "0 \<le> c" "c \<le> 24" using b(3) r1 r2 by linarith+
  define u where "u = r2 div 365"
  define v where "v = r2 mod 365"
  have u: "r2 = 365 * u + v" "0 \<le> v" "v < 365" by (simp_all add: u_def v_def)
  then have u0: "0 \<le> u" using r2 by linarith
  have "0 \<le> d \<and> d \<le> 3 \<and> 0 \<le> n \<and> (n < 365 \<or> d = 3 \<and> n = 365)"
  proof (cases "u \<le> 3")
    case True
    then have "d = u" by (simp add: d_def u_def [symmetric])
    with True u u0 show ?thesis
      by (simp add: yn(2))
  next
    case False
    then have "d = 3" by (simp add: d_def u_def [symmetric])
    with False u r2 show ?thesis
      unfolding yn(2) by linarith
  qed
  then have d: "0 \<le> d" "d \<le> 3" "0 \<le> n" "n < 365 \<or> d = 3 \<and> n = 365" by blast+
  have last: "c \<noteq> 24 \<or> b = 3" if "n = 365"
  proof (rule ccontr)
    assume "\<not> (c \<noteq> 24 \<or> b = 3)"
    then have "c = 24" "r1 < 36524" using b(4) by simp_all
    moreover have "d = 3" using d(4) that by simp
    ultimately show False using r2(3) yn(2) that by linarith
  qed
  have "days_before_year y = 146097 * a + 36524 * b + 1461 * c + 365 * d"
    "is_leap y \<longleftrightarrow> d = 3 \<and> (c \<noteq> 24 \<or> b = 3)"
    by (rule year_parts [OF yn(1) b(1,2) c d(1,2)])+
  moreover have "o1 = 146097 * a + 36524 * b + 1461 * c + 365 * d + n + 1"
    using r(3) r2(3) yn(2) by (simp add: r1_def k_def)
  ultimately show ?thesis using d(3,4) last by auto
qed

lemma month_lengths_sum: "sum_list (month_lengths leap) = (if leap then 366 else 365)"
  by (simp add: month_lengths_def)

text \<open>Every day number is the number of its own year, month and day.\<close>

lemma ord_ymd_ord:
  assumes "ord_ymd o1 = (y, m, d)"
  shows "ymd_ord y m d = o1 \<and> 1 \<le> m \<and> m \<le> 12 \<and> 1 \<le> d \<and> d \<le> days_in_month y m"
proof -
  obtain n where yn: "ord_year o1 = (y, n)" and md: "month_day 1 (month_lengths (is_leap y)) n = (m, d)"
    using assms by (auto simp: ord_ymd_def split: prod.splits)
  note parts = ord_year_parts [OF yn]
  obtain k where k: "(m, d) = (1 + int k, n - sum_list (take k (month_lengths (is_leap y))) + 1)"
    "k < length (month_lengths (is_leap y))" "sum_list (take k (month_lengths (is_leap y))) \<le> n"
    "n < sum_list (take k (month_lengths (is_leap y))) + month_lengths (is_leap y) ! k"
    using month_day_sum [of n "month_lengths (is_leap y)" 1] parts md
    by (auto simp: month_lengths_sum)
  have "length (month_lengths (is_leap y)) = 12" by (simp add: month_lengths_def)
  with k parts show ?thesis
    by (auto simp: ymd_ord_def days_before_month_def days_in_month_def)
qed

lemma ord_year_range:
  assumes "ord_year o1 = (y, n)" "1 \<le> o1" "o1 \<le> 3652059"
  shows "1 \<le> y \<and> y \<le> 9999"
proof -
  note parts = ord_year_parts [OF assms(1)]
  define x where "x = y - 1"
  have dby: "days_before_year y = 365 * x + x div 4 - x div 100 + x div 400"
    by (simp add: days_before_year_def x_def)
  have "\<not> x \<le> -1"
  proof
    assume x: "x \<le> -1"
    then have "x div 4 \<le> -1" "x div 400 \<le> -1" "x \<le> x div 100" by linarith+
    then have "days_before_year y \<le> - 366" unfolding dby using x by linarith
    with parts assms(2) show False by (auto split: if_splits)
  qed
  moreover have "\<not> 9999 \<le> x"
  proof
    assume x: "9999 \<le> x"
    then have "2499 \<le> x div 4" "24 \<le> x div 400" "x div 100 \<le> x - 9900" by linarith+
    then have "3652059 \<le> days_before_year y" unfolding dby using x by linarith
    with parts assms(3) show False by linarith
  qed
  ultimately show ?thesis by (simp add: x_def)
qed

text \<open>The days that \<open>date\<close> can hold.\<close>

definition valid_ord :: "date \<Rightarrow> bool" where
  "valid_ord o1 \<longleftrightarrow> 1 \<le> o1 \<and> o1 \<le> 3652059"

lemma ord_ymd_valid:
  assumes "valid_ord o1" "ord_ymd o1 = (y, m, d)"
  shows "valid_ymd y m d \<and> ymd_ord y m d = o1"
proof -
  obtain n where "ord_year o1 = (y, n)"
    using assms(2) by (auto simp: ord_ymd_def split: prod.splits)
  with assms(1) ord_year_range have "1 \<le> y \<and> y \<le> 9999" by (simp add: valid_ord_def)
  with ord_ymd_ord [OF assms(2)] show ?thesis by (simp add: valid_ymd_def)
qed

lemma days_in_month_le: "1 \<le> m \<Longrightarrow> m \<le> 12 \<Longrightarrow> days_in_month y m \<le> 31"
proof -
  assume m: "1 \<le> m" "m \<le> 12"
  then have "nat (m - 1) < length (month_lengths (is_leap y))" by (simp add: month_lengths_def)
  then have "days_in_month y m \<in> set (month_lengths (is_leap y))"
    unfolding days_in_month_def by (rule nth_mem)
  then show ?thesis by (auto simp: month_lengths_def split: if_splits)
qed

section \<open>Digits of a fixed width\<close>

fun fixed_digits :: "nat \<Rightarrow> nat \<Rightarrow> pystr" where
  "fixed_digits 0 n = []"
| "fixed_digits (Suc k) n = fixed_digits k (n div 10) @ [48 + n mod 10]"

text \<open>The value of a text of ASCII digits; \<open>None\<close> when another character occurs.\<close>

fun digits_val :: "nat \<Rightarrow> pystr \<Rightarrow> nat option" where
  "digits_val acc [] = Some acc"
| "digits_val acc (c # cs) =
     (if 48 \<le> c \<and> c \<le> 57 then digits_val (10 * acc + (c - 48)) cs else None)"

definition parse_digits :: "pystr \<Rightarrow> nat option" where
  "parse_digits s = (if s = [] then None else digits_val 0 s)"

lemma length_fixed_digits [simp]: "length (fixed_digits k n) = k"
  by (induction k n rule: fixed_digits.induct) auto

lemma digits_val_append:
  "digits_val a (xs @ ys) = (case digits_val a xs of None \<Rightarrow> None | Some b \<Rightarrow> digits_val b ys)"
  by (induction a xs rule: digits_val.induct) auto

lemma digits_val_fixed: "n < 10 ^ k \<Longrightarrow> digits_val 0 (fixed_digits k n) = Some n"
proof (induction k n rule: fixed_digits.induct)
  case (2 k n)
  then have "n div 10 < 10 ^ k" by (simp add: less_mult_imp_div_less mult.commute)
  with 2 show ?case by (simp add: digits_val_append)
qed simp

lemma parse_fixed_digits: "0 < k \<Longrightarrow> n < 10 ^ k \<Longrightarrow> parse_digits (fixed_digits k n) = Some n"
  by (cases k) (auto simp: parse_digits_def digits_val_fixed simp del: fixed_digits.simps
      dest: arg_cong [of _ _ length])

lemma fixed_digits_chars: "c \<in> set (fixed_digits k n) \<Longrightarrow> 48 \<le> c \<and> c \<le> 57"
  by (induction k n rule: fixed_digits.induct) auto

section \<open>ISO texts\<close>

text \<open>\<open>date.isoformat()\<close>, and \<open>date.fromisoformat\<close> on texts of the form YYYY-MM-DD.\<close>

definition iso_date :: "date \<Rightarrow> pystr" where
  "iso_date o1 =
     (let (y, m, d) = ord_ymd o1
      in fixed_digits 4 (nat y) @ [45] @ fixed_digits 2 (nat m) @ [45] @ fixed_digits 2 (nat d))"

definition parse_iso_date :: "pystr \<Rightarrow> date option" where
  "parse_iso_date s =
     (if length s \<noteq> 10 \<or> s ! 4 \<noteq> 45 \<or> s ! 7 \<noteq> 45 then None
      else (case (parse_digits (take 4 s), parse_digits (take 2 (drop 5 s)),
                  parse_digits (drop 8 s)) of
              (Some y, Some m, Some d) \<Rightarrow>
                if valid_ymd (int y) (int m) (int d) then Some (ymd_ord (int y) (int m) (int d))
                else None
            | _ \<Rightarrow> None))"

lemma parse_iso_iso:
  assumes "valid_ord o1"
  shows "parse_iso_date (iso_date o1) = Some o1"
proof -
  obtain y m d where ymd: "ord_ymd o1 = (y, m, d)" by (cases "ord_ymd o1") auto
  have valid: "valid_ymd y m d" and ord: "ymd_ord y m d = o1"
    using ord_ymd_valid [OF assms ymd] by blast+
  then have b: "1 \<le> y" "y \<le> 9999" "1 \<le> m" "m \<le> 12" "1 \<le> d" "d \<le> 31"
    using days_in_month_le [of m y] by (auto simp: valid_ymd_def)
  have parse: "parse_digits (fixed_digits 4 (nat y)) = Some (nat y)"
    "parse_digits (fixed_digits 2 (nat m)) = Some (nat m)"
    "parse_digits (fixed_digits 2 (nat d)) = Some (nat d)"
    using b by (auto intro!: parse_fixed_digits)
  have iso: "iso_date o1 =
      fixed_digits 4 (nat y) @ 45 # fixed_digits 2 (nat m) @ 45 # fixed_digits 2 (nat d)"
    by (simp add: iso_date_def ymd del: fixed_digits.simps)
  have "take 4 (iso_date o1) = fixed_digits 4 (nat y)"
    "take 2 (drop 5 (iso_date o1)) = fixed_digits 2 (nat m)"
    "drop 8 (iso_date o1) = fixed_digits 2 (nat d)"
    "length (iso_date o1) = 10" "iso_date o1 ! 4 = 45" "iso_date o1 ! 7 = 45"
    unfolding iso by (simp_all add: nth_append del: fixed_digits.simps)
  with parse valid ord b show ?thesis by (simp add: parse_iso_date_def)
qed

section \<open>UTC instants\<close>

text \<open>
  \<open>datetime.isoformat()\<close> of an aware UTC datetime: the microseconds appear only when they
  are not zero.
\<close>

definition us_per_day :: int where "us_per_day = 86400000000"

definition valid_instant :: "instant \<Rightarrow> bool" where
  "valid_instant t \<longleftrightarrow> valid_ord (t div us_per_day + 719163)"

definition iso_clock :: "int \<Rightarrow> pystr" where
  "iso_clock us =
     (let s = us div 1000000; f = us mod 1000000
      in fixed_digits 2 (nat (s div 3600)) @ [58] @ fixed_digits 2 (nat (s div 60 mod 60)) @ [58]
         @ fixed_digits 2 (nat (s mod 60)) @ (if f = 0 then [] else 46 # fixed_digits 6 (nat f)))"

definition iso_utc :: "instant \<Rightarrow> pystr" where
  "iso_utc t =
     iso_date (t div us_per_day + 719163) @ [84] @ iso_clock (t mod us_per_day)
     @ lit ''+00:00''"

text \<open>
  \<open>datetime.fromisoformat\<close> on the extended formats: a day, optionally followed by any
  separator, a time with optional seconds and fraction, and an optional offset. The result
  is the instant and the offset in seconds, which is \<open>None\<close> for a naive datetime. The
  basic formats without separators, which the program never writes, are not modelled.
\<close>

definition parse_clock :: "pystr \<Rightarrow> int option" where
  "parse_clock s =
     (let h = parse_digits (take 2 s);
          m = (if length s = 2 then Some 0
               else if s ! 2 = 58 then parse_digits (take 2 (drop 3 s)) else None);
          sec = (if length s \<le> 5 then Some 0
                 else if s ! 5 = 58 then parse_digits (take 2 (drop 6 s)) else None);
          f = (if length s \<le> 8 then Some 0
               else if s ! 8 = 46 \<or> s ! 8 = 44
               then (if parse_digits (drop 9 s) = None then None
                     else parse_digits (take 6 (drop 9 s @ replicate 6 48)))
               else None)
      in if length s \<notin> {2, 5, 8} \<and> length s < 10 then None
         else (case (h, m, sec, f) of
             (Some h, Some m, Some sec, Some f) \<Rightarrow>
               if h < 24 \<and> m < 60 \<and> sec < 60
               then Some (((int h * 60 + int m) * 60 + int sec) * 1000000 + int f) else None
           | _ \<Rightarrow> None))"

definition parse_offset :: "pystr \<Rightarrow> int option option" where
  "parse_offset s =
     (if s = [] then Some None
      else if s = [90] then Some (Some 0)
      else if length s = 6 \<and> (hd s = 43 \<or> hd s = 45) \<and> s ! 3 = 58
      then (case (parse_digits (take 2 (tl s)), parse_digits (drop 4 s)) of
              (Some h, Some m) \<Rightarrow>
                if h < 24 \<and> m < 60
                then Some (Some ((if hd s = 45 then - 1 else 1) * (int h * 3600 + int m * 60)))
                else None
            | _ \<Rightarrow> None)
      else None)"

definition is_offset_start :: "nat \<Rightarrow> bool" where
  "is_offset_start c \<longleftrightarrow> c = 43 \<or> c = 45 \<or> c = 90"

definition parse_iso_datetime :: "pystr \<Rightarrow> (instant \<times> int option) option" where
  "parse_iso_datetime s =
     (case parse_iso_date (take 10 s) of
        None \<Rightarrow> None
      | Some day \<Rightarrow>
          if length s = 10 then Some ((day - 719163) * us_per_day, None)
          else
            (let rest = drop 11 s;
                 clock = takeWhile (\<lambda>c. \<not> is_offset_start c) rest;
                 off = dropWhile (\<lambda>c. \<not> is_offset_start c) rest
             in case (parse_clock clock, parse_offset off) of
                  (Some us, Some z) \<Rightarrow>
                    Some ((day - 719163) * us_per_day + us
                          - (case z of None \<Rightarrow> 0 | Some x \<Rightarrow> x) * 1000000, z)
                | _ \<Rightarrow> None))"

lemma length_iso_date: "length (iso_date o1) = 10"
  by (simp add: iso_date_def split: prod.splits del: fixed_digits.simps)

lemma take2_fixed: "take 2 (fixed_digits 2 n @ xs) = fixed_digits 2 n"
  "drop 2 (fixed_digits 2 n @ xs) = xs"
  by simp_all

lemma fixed2: "fixed_digits 2 n = [48 + n div 10 mod 10, 48 + n mod 10]"
  by (simp add: numeral_2_eq_2)

lemma parse_clock_plain:
  assumes "parse_digits [a, b] = Some h" "parse_digits [c, d] = Some m"
    "parse_digits [e, g] = Some x" "h < 24" "m < 60" "x < 60"
  shows "parse_clock [a, b, 58, c, d, 58, e, g] =
     Some (((int h * 60 + int m) * 60 + int x) * 1000000)"
  using assms by (simp add: parse_clock_def Let_def)

lemma parse_clock_fraction:
  assumes "parse_digits [a, b] = Some h" "parse_digits [c, d] = Some m"
    "parse_digits [e, g] = Some x" "h < 24" "m < 60" "x < 60"
    and "length fs = 6" "parse_digits fs = Some f"
  shows "parse_clock ([a, b, 58, c, d, 58, e, g, 46] @ fs) =
     Some (((int h * 60 + int m) * 60 + int x) * 1000000 + int f)"
  using assms by (simp add: parse_clock_def Let_def)

lemma parse_iso_clock:
  assumes "0 \<le> us" "us < us_per_day"
  shows "parse_clock (iso_clock us) = Some us"
proof -
  define s where "s = us div 1000000"
  define f where "f = us mod 1000000"
  have sf: "us = s * 1000000 + f" "0 \<le> f" "f < 1000000" "0 \<le> s" "s < 86400"
    using assms by (simp_all add: s_def f_def us_per_day_def)
  have h: "0 \<le> s div 3600" "s div 3600 < 24" "0 \<le> s div 60 mod 60" "s div 60 mod 60 < 60"
    "0 \<le> s mod 60" "s mod 60 < 60" using sf(4,5) by (simp_all add: pos_imp_zdiv_nonneg_iff)
  have lt: "nat (s div 3600) < 24" "nat (s div 60 mod 60) < 60" "nat (s mod 60) < 60"
    using h by (simp_all only: nat_less_iff)
  have ds: "parse_digits (fixed_digits 2 (nat (s div 3600))) = Some (nat (s div 3600))"
    "parse_digits (fixed_digits 2 (nat (s div 60 mod 60))) = Some (nat (s div 60 mod 60))"
    "parse_digits (fixed_digits 2 (nat (s mod 60))) = Some (nat (s mod 60))"
    "parse_digits (fixed_digits 6 (nat f)) = Some (nat f)"
  proof -
    have "nat (s div 3600) < 10 ^ 2" "nat (s div 60 mod 60) < 10 ^ 2" "nat (s mod 60) < 10 ^ 2"
      by (rule less_trans [OF lt(1)] less_trans [OF lt(2)] less_trans [OF lt(3)], simp)+
    moreover have "nat f < 10 ^ 6" using sf(2,3) by (simp add: nat_less_iff)
    ultimately show "parse_digits (fixed_digits 2 (nat (s div 3600))) = Some (nat (s div 3600))"
      "parse_digits (fixed_digits 2 (nat (s div 60 mod 60))) = Some (nat (s div 60 mod 60))"
      "parse_digits (fixed_digits 2 (nat (s mod 60))) = Some (nat (s mod 60))"
      "parse_digits (fixed_digits 6 (nat f)) = Some (nat f)"
      by (rule_tac [!] parse_fixed_digits) (simp_all only: zero_less_numeral)
  qed
  have "s div (60 * 60) = s div 60 div 60" by (rule zdiv_zmult2_eq) simp
  then have "s div 3600 = s div 60 div 60" by simp
  then have "s div 60 = s div 3600 * 60 + s div 60 mod 60"
    by (metis div_mult_mod_eq)
  then have total: "((s div 3600) * 60 + s div 60 mod 60) * 60 + s mod 60 = s"
    by (metis div_mult_mod_eq)
  have nn: "int (nat (s div 3600)) = s div 3600" "int (nat (s div 60 mod 60)) = s div 60 mod 60"
    "int (nat (s mod 60)) = s mod 60" "int (nat f) = f"
    using h(1,3,5) sf(2) by (simp_all only: int_nat_eq if_True)
  have sum: "((int (nat (s div 3600)) * 60 + int (nat (s div 60 mod 60))) * 60
      + int (nat (s mod 60))) * 1000000 + int (nat f) = us"
    unfolding nn total by (rule sf(1) [symmetric])
  note p = ds(1-3) [unfolded fixed2]
  show ?thesis
  proof (cases "f = 0")
    case True
    then have iso: "iso_clock us = fixed_digits 2 (nat (s div 3600)) @ 58
        # fixed_digits 2 (nat (s div 60 mod 60)) @ 58 # fixed_digits 2 (nat (s mod 60))"
      by (simp add: iso_clock_def Let_def s_def [symmetric] f_def [symmetric]
          del: fixed_digits.simps)
    show ?thesis
      unfolding iso fixed2 append_Cons append_Nil parse_clock_plain [OF p lt]
      using sum by (simp only: True nat_0 int_ops(1) add_0_right)
  next
    case False
    then have iso: "iso_clock us = fixed_digits 2 (nat (s div 3600)) @ 58
        # fixed_digits 2 (nat (s div 60 mod 60)) @ 58 # fixed_digits 2 (nat (s mod 60))
        @ 46 # fixed_digits 6 (nat f)"
      by (simp add: iso_clock_def Let_def s_def [symmetric] f_def [symmetric]
          del: fixed_digits.simps)
    show ?thesis
      unfolding iso fixed2
      by (simp only: append_Cons append_Nil parse_clock_fraction
          [OF p lt length_fixed_digits ds(4), unfolded append_Cons append_Nil] sum)
  qed
qed

text \<open>Writing an instant and reading it back.\<close>

lemma iso_clock_no_offset: "c \<in> set (iso_clock us) \<Longrightarrow> \<not> is_offset_start c"
  by (auto simp: iso_clock_def Let_def is_offset_start_def simp del: fixed_digits.simps
      split: if_splits dest!: fixed_digits_chars)

lemma parse_iso_utc:
  assumes "valid_instant t"
  shows "parse_iso_datetime (iso_utc t) = Some (t, Some 0)"
proof -
  let ?day = "t div us_per_day + 719163" and ?us = "t mod us_per_day"
  have us: "0 \<le> ?us" "?us < us_per_day" by (simp_all add: us_per_day_def)
  let ?off = "lit ''+00:00''"
  have off: "?off = [43, 48, 48, 58, 48, 48]" by (simp add: lit_def)
  have len: "length (iso_utc t) \<noteq> 10" by (simp add: iso_utc_def length_iso_date)
  have parts: "take 10 (iso_utc t) = iso_date ?day" "drop 11 (iso_utc t) = iso_clock ?us @ ?off"
    using length_iso_date [of ?day] by (simp_all add: iso_utc_def)
  have tw: "takeWhile (\<lambda>c. \<not> is_offset_start c) (iso_clock ?us @ ?off) = iso_clock ?us"
    "dropWhile (\<lambda>c. \<not> is_offset_start c) (iso_clock ?us @ ?off) = ?off"
    using iso_clock_no_offset
    by (simp_all add: takeWhile_append2 dropWhile_append2 off is_offset_start_def)
  have po: "parse_offset ?off = Some (Some 0)"
    by (simp add: off parse_offset_def parse_digits_def)
  have "(?day - 719163) * us_per_day + ?us = t"
    by simp
  then show ?thesis
    using assms len
    by (simp add: parse_iso_datetime_def parts parse_iso_iso valid_instant_def tw po
        parse_iso_clock [OF us] Let_def)
qed

chapter \<open>Aware times\<close>

text \<open>
  Aware datetimes with their own offset, as the import files and the staged rows hold them:
  the instant and the offset from UTC in seconds.
\<close>

type_synonym aware = "instant \<times> int"

text \<open>The clock reading of an aware datetime, in microseconds since the epoch.\<close>

definition wall :: "aware \<Rightarrow> int" where
  "wall a = fst a + snd a * 1000000"

text \<open>\<open>value.date()\<close>.\<close>

definition wall_day :: "aware \<Rightarrow> date" where
  "wall_day a = wall a div us_per_day + 719163"

definition offset_text :: "int \<Rightarrow> pystr" where
  "offset_text z =
     (let v = nat \<bar>z\<bar>
      in (if z < 0 then 45 else 43) # fixed_digits 2 (v div 3600) @ [58]
         @ fixed_digits 2 (v div 60 mod 60)
         @ (if v mod 60 = 0 then [] else 58 # fixed_digits 2 (v mod 60)))"

text \<open>\<open>value.isoformat()\<close>.\<close>

definition aware_iso :: "aware \<Rightarrow> pystr" where
  "aware_iso a =
     iso_date (wall_day a) @ [84] @ iso_clock (wall a mod us_per_day) @ offset_text (snd a)"

text \<open>\<open>datetime.fromisoformat(text)\<close> of a text with an offset.\<close>

definition parse_aware :: "pystr \<Rightarrow> aware option" where
  "parse_aware s =
     (case parse_iso_datetime s of Some (t, Some z) \<Rightarrow> Some (t, z) | _ \<Rightarrow> None)"

text \<open>
  \<open>value.astimezone(UTC).isoformat(timespec="microseconds")\<close>: the fraction is always
  written.
\<close>

definition iso_utc_micros :: "instant \<Rightarrow> pystr" where
  "iso_utc_micros t =
     (let us = t mod us_per_day
      in iso_date (t div us_per_day + 719163) @ [84]
         @ iso_clock (us - us mod 1000000) @ 46 # fixed_digits 6 (nat (us mod 1000000))
         @ lit ''+00:00'')"

text \<open>The datetimes that the texts carry: a day of the calendar and whole minutes of offset.\<close>

definition valid_aware :: "aware \<Rightarrow> bool" where
  "valid_aware a \<longleftrightarrow> valid_ord (wall_day a) \<and> \<bar>snd a\<bar> < 86400 \<and> snd a mod 60 = 0"

lemma parse_offset_text:
  assumes "\<bar>z\<bar> < 86400" "z mod 60 = 0"
  shows "parse_offset (offset_text z) = Some (Some z)"
proof -
  define v where "v = nat \<bar>z\<bar>"
  have "60 dvd \<bar>z\<bar>" using assms(2) by (simp add: mod_eq_0_iff_dvd)
  then have "int v mod 60 = 0" by (simp add: v_def mod_eq_0_iff_dvd)
  then have v60: "v mod 60 = 0" by (metis of_nat_eq_0_iff of_nat_mod of_nat_numeral)
  have "v < 86400" using assms(1) by (simp add: v_def)
  then have h: "v div 3600 < 24" "v div 60 mod 60 < 60"
    by (simp_all add: less_mult_imp_div_less)
  have "v div 3600 = v div 60 div 60" by (simp add: div_mult2_eq [symmetric])
  then have "v div 3600 * 3600 + v div 60 mod 60 * 60 = v"
    using v60 div_mult_mod_eq [of v 60] div_mult_mod_eq [of "v div 60" 60] by linarith
  moreover have "int v = \<bar>z\<bar>" by (simp add: v_def)
  ultimately have sum: "int (v div 3600) * 3600 + int (v div 60 mod 60) * 60 = \<bar>z\<bar>"
    by linarith
  have p: "parse_digits (fixed_digits 2 (v div 3600)) = Some (v div 3600)"
    "parse_digits (fixed_digits 2 (v div 60 mod 60)) = Some (v div 60 mod 60)"
    using h by (simp_all add: parse_fixed_digits)
  have shape: "offset_text z = (if z < 0 then 45 else 43) # fixed_digits 2 (v div 3600) @ [58]
      @ fixed_digits 2 (v div 60 mod 60)"
    by (simp add: offset_text_def v_def [symmetric] v60)
  obtain b c d e where f: "fixed_digits 2 (v div 3600) = [b, c]" "fixed_digits 2 (v div 60 mod 60) = [d, e]"
    by (simp add: fixed2)
  have "parse_offset ((if z < 0 then 45 else 43) # [b, c, 58, d, e]) =
      Some (Some ((if z < 0 then - 1 else 1) * \<bar>z\<bar>))"
    using p [unfolded f] h sum by (simp add: parse_offset_def)
  then show ?thesis
    unfolding shape f by (simp split: if_splits)
qed

lemma parse_iso_aware:
  assumes "valid_aware a"
  shows "parse_iso_datetime (aware_iso a) = Some (fst a, Some (snd a))"
proof -
  let ?us = "wall a mod us_per_day" and ?off = "offset_text (snd a)"
  have us: "0 \<le> ?us" "?us < us_per_day" by (simp_all add: us_per_day_def)
  have len: "length (aware_iso a) \<noteq> 10" by (simp add: aware_iso_def length_iso_date)
  have parts: "take 10 (aware_iso a) = iso_date (wall_day a)" "drop 11 (aware_iso a) = iso_clock ?us @ ?off"
    using length_iso_date [of "wall_day a"] by (simp_all add: aware_iso_def)
  have "\<exists>o1 os. ?off = o1 # os \<and> is_offset_start o1"
    by (simp add: offset_text_def is_offset_start_def Let_def)
  then obtain o1 os where o1: "?off = o1 # os" "is_offset_start o1" by blast
  have tw: "takeWhile (\<lambda>c. \<not> is_offset_start c) (iso_clock ?us @ ?off) = iso_clock ?us"
    "dropWhile (\<lambda>c. \<not> is_offset_start c) (iso_clock ?us @ ?off) = ?off"
    using iso_clock_no_offset o1 by (simp_all add: takeWhile_append2 dropWhile_append2)
  have po: "parse_offset ?off = Some (Some (snd a))"
    using assms by (simp add: parse_offset_text valid_aware_def)
  have pd: "parse_iso_date (iso_date (wall_day a)) = Some (wall_day a)"
    using assms by (simp add: parse_iso_iso valid_aware_def)
  have "(wall_day a - 719163) * us_per_day + ?us = wall a"
    by (simp add: wall_day_def)
  then have "(wall_day a - 719163) * us_per_day + ?us - snd a * 1000000 = fst a"
    by (simp only: wall_def)
  then show ?thesis
    using len
    by (simp add: parse_iso_datetime_def parts pd tw po parse_iso_clock [OF us] Let_def)
qed

lemma parse_aware_iso: "valid_aware a \<Longrightarrow> parse_aware (aware_iso a) = Some a"
  by (simp add: parse_aware_def parse_iso_aware)

end
