(* ===== verification/Dec_Text.thy ===== *)
theory Dec_Text
  imports Py_Decimal Calendar
begin

text \<open>
  The text of a \<open>Decimal\<close>: the constructor \<open>Decimal(text)\<close> and \<open>format(amount, "f")\<close>, with
  the round trip that the staged rows rest on. Digits are the ASCII digits.
\<close>

section \<open>Reading\<close>

definition lower_ascii :: "nat \<Rightarrow> nat" where
  "lower_ascii c = (if 65 \<le> c \<and> c \<le> 90 then c + 32 else c)"

definition is_exponent_mark :: "nat \<Rightarrow> bool" where
  "is_exponent_mark c \<longleftrightarrow> c = 69 \<or> c = 101"

fun split_sign :: "pystr \<Rightarrow> bool \<times> pystr" where
  "split_sign (c # cs) = (if c = 43 then (False, cs) else if c = 45 then (True, cs) else (False, c # cs))"
| "split_sign [] = (False, [])"

definition dec_exponent :: "pystr \<Rightarrow> int option" where
  "dec_exponent x =
     (if x = [] then Some 0
      else (let (neg, ds) = split_sign (tl x)
            in map_option (\<lambda>k. if neg then - int k else int k) (parse_digits ds)))"

definition dec_number :: "bool \<Rightarrow> pystr \<Rightarrow> pydec option" where
  "dec_number neg r =
     (let m = takeWhile (\<lambda>c. \<not> is_exponent_mark c) r;
          x = dropWhile (\<lambda>c. \<not> is_exponent_mark c) r;
          ip = takeWhile (\<lambda>c. c \<noteq> 46) m; fp = drop 1 (dropWhile (\<lambda>c. c \<noteq> 46) m)
      in case (parse_digits (ip @ fp), dec_exponent x) of
           (Some c, Some k) \<Rightarrow> Some (Fin (if neg then - int c else int c) (k - int (length fp)))
         | _ \<Rightarrow> None)"

definition is_nan_text :: "pystr \<Rightarrow> bool" where
  "is_nan_text l \<longleftrightarrow>
     (\<exists>p\<in>{lit ''nan'', lit ''snan''}.
        startswith l p \<and> (\<forall>c\<in>set (drop (length p) l). 48 \<le> c \<and> c \<le> 57))"

text \<open>\<open>Decimal(s)\<close>; \<open>None\<close> is \<open>InvalidOperation\<close>.\<close>

definition parse_dec :: "pystr \<Rightarrow> pydec option" where
  "parse_dec s =
     (let (neg, r) = split_sign (filter (\<lambda>c. c \<noteq> 95) (strip s)); l = map lower_ascii r
      in if l = lit ''inf'' \<or> l = lit ''infinity'' then Some (Infinite neg)
         else if is_nan_text l then Some NaN
         else dec_number neg r)"

section \<open>Writing\<close>

definition fixed_digits_text :: "nat \<Rightarrow> nat \<Rightarrow> pystr" where
  "fixed_digits_text n k =
     (let s = str_nat n; p = replicate (k + 1 - length s) 48 @ s
      in take (length p - k) p @ [46] @ drop (length p - k) p)"

fun dec_fixed :: "pydec \<Rightarrow> pystr" where
  "dec_fixed (Fin c e) =
     sign_text c @
     (if 0 \<le> e then (if c = 0 then [48] else str_nat (nat \<bar>c\<bar>) @ replicate (nat e) 48)
      else fixed_digits_text (nat \<bar>c\<bar>) (nat (- e)))"
| "dec_fixed (Infinite neg) = (if neg then lit ''-Infinity'' else lit ''Infinity'')"
| "dec_fixed NaN = lit ''NaN''"

section \<open>The round trip\<close>

text \<open>What reading the written text gives: a positive exponent is multiplied out.\<close>

fun dec_plain :: "pydec \<Rightarrow> pydec" where
  "dec_plain (Fin c e) = (if 0 \<le> e then Fin (c * 10 ^ nat e) 0 else Fin c e)"
| "dec_plain x = x"

lemma digits_val_zeros: "digits_val n (replicate k 48) = Some (n * 10 ^ k)"
  by (induction k arbitrary: n) simp_all

lemma digits_val_str_nat: "digits_val 0 (str_nat n) = Some n"
  unfolding str_nat_def
proof (induction n rule: nat_digits.induct)
  case (1 n)
  then show ?case
    by (subst nat_digits.simps) (auto simp: digits_val_append)
qed

lemma str_nat_nonempty [simp]: "str_nat n \<noteq> []"
  by (simp add: str_nat_def nat_digits_nonempty)

lemma digit_text_props:
  assumes "\<And>c. c \<in> set t \<Longrightarrow> 48 \<le> c \<and> c \<le> (57::nat)"
  shows "takeWhile (\<lambda>c. \<not> is_exponent_mark c) (t @ r) = t @ takeWhile (\<lambda>c. \<not> is_exponent_mark c) r"
    and "dropWhile (\<lambda>c. \<not> is_exponent_mark c) (t @ r) = dropWhile (\<lambda>c. \<not> is_exponent_mark c) r"
    and "takeWhile (\<lambda>c. c \<noteq> 46) (t @ 46 # r) = t" and "takeWhile (\<lambda>c. c \<noteq> 46) t = t"
    and "dropWhile (\<lambda>c. c \<noteq> 46) (t @ 46 # r) = 46 # r" and "dropWhile (\<lambda>c. c \<noteq> 46) t = []"
  using assms
proof -
  have "\<not> is_exponent_mark c" "c \<noteq> 46" if "c \<in> set t" for c
    using assms [OF that] by (auto simp: is_exponent_mark_def)
  then show "takeWhile (\<lambda>c. \<not> is_exponent_mark c) (t @ r) = t @ takeWhile (\<lambda>c. \<not> is_exponent_mark c) r"
    "dropWhile (\<lambda>c. \<not> is_exponent_mark c) (t @ r) = dropWhile (\<lambda>c. \<not> is_exponent_mark c) r"
    "takeWhile (\<lambda>c. c \<noteq> 46) (t @ 46 # r) = t" "takeWhile (\<lambda>c. c \<noteq> 46) t = t"
    "dropWhile (\<lambda>c. c \<noteq> 46) (t @ 46 # r) = 46 # r" "dropWhile (\<lambda>c. c \<noteq> 46) t = []"
    by (auto simp: takeWhile_append2 dropWhile_append2)
qed

lemma dec_number_integer:
  assumes "\<And>c. c \<in> set t \<Longrightarrow> 48 \<le> c \<and> c \<le> 57" "t \<noteq> []" "digits_val 0 t = Some n"
  shows "dec_number neg t = Some (Fin (if neg then - int n else int n) 0)"
proof -
  have m: "takeWhile (\<lambda>c. \<not> is_exponent_mark c) t = t" "dropWhile (\<lambda>c. \<not> is_exponent_mark c) t = []"
    using digit_text_props(1,2) [of t "[]"] assms(1) by simp_all
  have p: "takeWhile (\<lambda>c. c \<noteq> 46) t = t" "dropWhile (\<lambda>c. c \<noteq> 46) t = []"
    by (rule digit_text_props; rule assms(1), assumption)+
  show ?thesis
    unfolding dec_number_def Let_def m
    unfolding p parse_digits_def dec_exponent_def
    using assms(2,3) by simp
qed

lemma dec_number_fraction:
  assumes "\<And>c. c \<in> set t \<Longrightarrow> 48 \<le> c \<and> c \<le> 57" "\<And>c. c \<in> set f \<Longrightarrow> 48 \<le> c \<and> c \<le> 57"
    and "t \<noteq> []" "digits_val 0 (t @ f) = Some n"
  shows "dec_number neg (t @ 46 # f) = Some (Fin (if neg then - int n else int n) (- int (length f)))"
proof -
  have m: "takeWhile (\<lambda>c. \<not> is_exponent_mark c) (t @ 46 # f) = t @ 46 # f"
    "dropWhile (\<lambda>c. \<not> is_exponent_mark c) (t @ 46 # f) = []"
    using digit_text_props(1,2) [of t "46 # f"] digit_text_props(1,2) [of f "[]"] assms(1,2)
    by (simp_all add: is_exponent_mark_def)
  have p: "takeWhile (\<lambda>c. c \<noteq> 46) (t @ 46 # f) = t" "dropWhile (\<lambda>c. c \<noteq> 46) (t @ 46 # f) = 46 # f"
    by (rule digit_text_props; rule assms(1), assumption)+
  show ?thesis
    unfolding dec_number_def Let_def m
    unfolding p parse_digits_def dec_exponent_def
    using assms(3,4) by simp
qed

text \<open>A text of digits and points that starts with a digit is left alone by \<open>strip\<close>.\<close>

definition plain_text :: "pystr \<Rightarrow> bool" where
  "plain_text t \<longleftrightarrow> t \<noteq> [] \<and> (\<forall>c\<in>set t. 48 \<le> c \<and> c \<le> 57 \<or> c = 46) \<and> hd t \<noteq> 46"

lemma plain_textI:
  assumes "t \<noteq> []" "\<And>c. c \<in> set t \<Longrightarrow> 48 \<le> c \<and> c \<le> 57"
  shows "plain_text t"
proof -
  have "hd t \<noteq> 46" using assms(2) [OF hd_in_set [OF assms(1)]] by linarith
  with assms show ?thesis by (simp add: plain_text_def)
qed

lemma strip_no_space:
  assumes "\<And>c. c \<in> set s \<Longrightarrow> \<not> py_space c"
  shows "strip s = s"
proof -
  have "dropWhile py_space t = t" if "set t \<subseteq> set s" for t
    using that assms by (cases t) auto
  then show ?thesis
    by (simp add: strip_def rstrip_def lstrip_def)
qed

lemma parse_dec_plain:
  assumes "plain_text t"
  shows "parse_dec (sign_text c @ t) = dec_number (c < 0) t"
proof -
  have chars: "\<not> py_space x \<and> x \<noteq> 95" if "x \<in> set (sign_text c @ t)" for x
    using that assms by (auto simp: plain_text_def py_space_def sign_text_def split: if_splits)
  have filt: "filter (\<lambda>c. c \<noteq> 95) (strip (sign_text c @ t)) = sign_text c @ t"
    using strip_no_space [of "sign_text c @ t"] chars by (auto simp: filter_id_conv)
  obtain d ds where t: "t = d # ds" "48 \<le> d" "d \<le> 57"
    using assms by (cases t) (auto simp: plain_text_def)
  have sign: "split_sign (sign_text c @ t) = (c < 0, t)"
    using t by (simp add: sign_text_def)
  have low: "hd (map lower_ascii t) = d" "map lower_ascii t \<noteq> []"
    using t by (simp_all add: lower_ascii_def)
  then have "map lower_ascii t \<noteq> lit ''inf''" "map lower_ascii t \<noteq> lit ''infinity''"
    "\<not> is_nan_text (map lower_ascii t)"
    using t by (auto simp: lit_def is_nan_text_def startswith_def lower_ascii_def)
  then show ?thesis
    by (simp add: parse_dec_def filt sign)
qed

lemma fixed_digits_text_parts:
  assumes "0 < k"
  shows "\<exists>t f. fixed_digits_text n k = t @ 46 # f \<and> t \<noteq> [] \<and> length f = k
     \<and> (\<forall>c\<in>set (t @ f). 48 \<le> c \<and> c \<le> 57) \<and> digits_val 0 (t @ f) = Some n"
proof -
  define p where "p = replicate (k + 1 - length (str_nat n)) 48 @ str_nat n"
  define j where "j = length p - k"
  have len: "k < length p" by (simp add: p_def)
  have val: "digits_val 0 p = Some n"
    by (simp add: p_def digits_val_append digits_val_zeros digits_val_str_nat)
  have chars: "\<forall>c\<in>set p. 48 \<le> c \<and> c \<le> 57"
    by (auto simp: p_def dest: str_nat_chars)
  have eq: "fixed_digits_text n k = take j p @ 46 # drop j p"
    by (simp add: fixed_digits_text_def Let_def p_def j_def)
  show ?thesis
    unfolding eq
    by (rule exI [of _ "take j p"], rule exI [of _ "drop j p"])
      (use len val chars in \<open>auto simp: j_def\<close>)
qed

lemma parse_dec_fixed: "parse_dec (dec_fixed (Fin c e)) = Some (dec_plain (Fin c e))"
proof (cases "0 \<le> e")
  case True
  let ?t = "if c = 0 then [48] else str_nat (nat \<bar>c\<bar>) @ replicate (nat e) 48"
  have digits: "\<And>x. x \<in> set ?t \<Longrightarrow> 48 \<le> x \<and> x \<le> 57"
    by (auto dest: str_nat_chars split: if_splits)
  have plain: "plain_text ?t"
    by (rule plain_textI) (simp, rule digits)
  have "digits_val 0 ?t = Some (nat \<bar>c\<bar> * 10 ^ nat e)"
    by (simp add: digits_val_append digits_val_str_nat digits_val_zeros)
  then have num: "dec_number (c < 0) ?t =
      Some (Fin (if c < 0 then - int (nat \<bar>c\<bar> * 10 ^ nat e) else int (nat \<bar>c\<bar> * 10 ^ nat e)) 0)"
    using dec_number_integer [of ?t _ "c < 0"] digits by simp
  have "dec_fixed (Fin c e) = sign_text c @ ?t" using True by simp
  then show ?thesis
    using True num by (simp only: parse_dec_plain [OF plain]) simp
next
  case False
  obtain t f where tf: "fixed_digits_text (nat \<bar>c\<bar>) (nat (- e)) = t @ 46 # f" "t \<noteq> []"
    "length f = nat (- e)" "\<forall>c\<in>set (t @ f). 48 \<le> c \<and> c \<le> 57"
    "digits_val 0 (t @ f) = Some (nat \<bar>c\<bar>)"
    using fixed_digits_text_parts [of "nat (- e)" "nat \<bar>c\<bar>"] False by auto
  have plain: "plain_text (t @ 46 # f)"
    using tf by (cases t) (auto simp: plain_text_def)
  have "dec_number (c < 0) (t @ 46 # f) = Some (Fin c e)"
    using dec_number_fraction [of t f "nat \<bar>c\<bar>" "c < 0"] tf False by auto
  then show ?thesis
    using False parse_dec_plain [OF plain, of c] tf(1) by simp
qed

end
