(* ===== verification/Py_Uuid.thy ===== *)
theory Py_Uuid
  imports Dec_Text Ledger_Tables
begin

text \<open>
  The constructor \<open>UUID(text)\<close> on every spelling it takes, with the round trip of the
  canonical text.
\<close>

section \<open>Reading\<close>

fun hex_value :: "nat \<Rightarrow> pystr \<Rightarrow> nat option" where
  "hex_value acc [] = Some acc"
| "hex_value acc (c # cs) =
     (case hex_val c of None \<Rightarrow> None | Some v \<Rightarrow> hex_value (16 * acc + v) cs)"

text \<open>\<open>int(text, 16)\<close>: blanks around, a sign, a 0x prefix and single underscores are allowed.\<close>

definition int16_text :: "pystr \<Rightarrow> int option" where
  "int16_text t =
     (let (neg, s) = split_sign (strip t);
          r = (if 2 \<le> length s \<and> s ! 0 = 48 \<and> (s ! 1 = 120 \<or> s ! 1 = 88)
               then (if drop 2 s \<noteq> [] \<and> s ! 2 = 95 then drop 3 s else drop 2 s) else s)
      in if r = [] \<or> hd r = 95 \<or> last r = 95 \<or> (95, 95) \<in> set (zip r (tl r)) then None
         else map_option (\<lambda>n. if neg then - int n else int n) (hex_value 0 (filter (\<lambda>c. c \<noteq> 95) r)))"

text \<open>\<open>s.replace(p, "")\<close> for a text \<open>p\<close> that is not empty.\<close>

function remove_all :: "pystr \<Rightarrow> pystr \<Rightarrow> pystr" where
  "remove_all p [] = []"
| "remove_all p (c # cs) =
     (if p \<noteq> [] \<and> startswith (c # cs) p then remove_all p (drop (length p) (c # cs))
      else c # remove_all p cs)"
  by pat_completeness auto
termination
  by (relation "measure (length \<circ> snd)") (auto simp: length_greater_0_conv [symmetric]
      simp del: length_greater_0_conv)

declare remove_all.simps(2) [simp del]

text \<open>\<open>s.strip("{}")\<close>.\<close>

definition strip_braces :: "pystr \<Rightarrow> pystr" where
  "strip_braces s = rev (dropWhile (\<lambda>c. c = 123 \<or> c = 125)
     (rev (dropWhile (\<lambda>c. c = 123 \<or> c = 125) s)))"

definition parse_uuid :: "pystr \<Rightarrow> uuid option" where
  "parse_uuid s =
     (let h = filter (\<lambda>c. c \<noteq> 45)
                (strip_braces (remove_all (lit ''uuid:'') (remove_all (lit ''urn:'') s)))
      in if length h \<noteq> 32 then None
         else (case int16_text h of
                 None \<Rightarrow> None
               | Some n \<Rightarrow> if 0 \<le> n \<and> n < 2 ^ 128 then Some (of_int n) else None))"

section \<open>The canonical text\<close>

lemma hex_value_append:
  "hex_value a (xs @ ys) = (case hex_value a xs of None \<Rightarrow> None | Some b \<Rightarrow> hex_value b ys)"
  by (induction a xs rule: hex_value.induct) (auto split: option.split)

lemma hex_value_digits:
  "hex_value 0 (map hex_digit (map (\<lambda>i. n div 16 ^ (k - Suc i) mod 16) [0..<k])) = Some (n mod 16 ^ k)"
proof (induction k arbitrary: n)
  case (Suc k)
  have eq: "map (\<lambda>i. n div 16 ^ (Suc k - Suc i) mod 16) [0..<k]
      = map (\<lambda>i. (n div 16) div 16 ^ (k - Suc i) mod 16) [0..<k]"
  proof (rule map_cong [OF refl])
    fix i assume "i \<in> set [0..<k]"
    then have "Suc k - Suc i = Suc (k - Suc i)" by auto
    then show "n div 16 ^ (Suc k - Suc i) mod 16 = (n div 16) div 16 ^ (k - Suc i) mod 16"
      by (simp add: div_mult2_eq)
  qed
  have "16 * (n div 16 mod 16 ^ k) + n mod 16 = n mod 16 ^ Suc k"
    by (simp add: mod_mult2_eq)
  then show ?case
    unfolding upt_Suc_append [OF le0] map_append eq hex_value_append Suc [of "n div 16"]
    by (simp add: hex_val_digit)
qed simp

definition uuid_hex :: "uuid \<Rightarrow> pystr" where
  "uuid_hex x = map hex_digit (uuid_digits x)"

lemma length_uuid_hex [simp]: "length (uuid_hex x) = 32"
  by (simp add: uuid_hex_def uuid_digits_def)

lemma uuid_hex_value: "hex_value 0 (uuid_hex x) = Some (unat x)"
proof -
  have "map (\<lambda>i. unat x div 16 ^ (31 - i) mod 16) [0..<32]
      = map (\<lambda>i. unat x div 16 ^ (32 - Suc i) mod 16) [0..<32]"
    by (rule map_cong [OF refl]) (simp only: diff_Suc_Suc numeral_eq_Suc pred_numeral_simps BitM.simps)
  then have "hex_value 0 (uuid_hex x) = Some (unat x mod 16 ^ 32)"
    unfolding uuid_hex_def uuid_digits_def using hex_value_digits [of "unat x" 32] by (simp only:)
  moreover have "unat x < 16 ^ 32" using unsigned_less [of x] by simp
  ultimately show ?thesis by simp
qed

lemma uuid_hex_chars: "c \<in> set (uuid_hex x) \<Longrightarrow> 48 \<le> c \<and> c \<le> 57 \<or> 97 \<le> c \<and> c \<le> 102"
  by (auto simp: uuid_hex_def uuid_digits_def hex_digit_def)

lemma uuid_str_hex:
  "uuid_str x = (let h = uuid_hex x in take 8 h @ [45] @ take 4 (drop 8 h) @ [45]
     @ take 4 (drop 12 h) @ [45] @ take 4 (drop 16 h) @ [45] @ drop 20 h)"
  by (simp add: uuid_str_def uuid_hex_def Let_def)

lemma uuid_chars: "c \<in> set (uuid_str x) \<Longrightarrow> c = 45 \<or> 48 \<le> c \<and> c \<le> 57 \<or> 97 \<le> c \<and> c \<le> 102"
  using uuid_hex_chars [of c x] by (auto simp: uuid_str_hex Let_def dest: in_set_takeD in_set_dropD)

lemma length_uuid: "length (uuid_str x) = 36"
  by (simp add: uuid_str_hex Let_def)

lemma uuid_str_dashes: "filter (\<lambda>c. c \<noteq> 45) (uuid_str x) = uuid_hex x"
proof -
  let ?h = "uuid_hex x"
  have no: "filter (\<lambda>c. c \<noteq> 45) xs = xs" if "set xs \<subseteq> set ?h" for xs
    using that uuid_hex_chars [of _ x] by (fastforce simp: filter_id_conv)
  have parts: "filter (\<lambda>c. c \<noteq> 45) (take n (drop k ?h)) = take n (drop k ?h)"
    "filter (\<lambda>c. c \<noteq> 45) (drop k ?h) = drop k ?h" for n k
    by (rule no, auto dest: in_set_takeD in_set_dropD)+
  have first: "filter (\<lambda>c. c \<noteq> 45) (take 8 ?h) = take 8 ?h" using parts(1) [of 8 0] by simp
  have "take 8 ?h @ take 4 (drop 8 ?h) @ take 4 (drop 12 ?h) @ take 4 (drop 16 ?h) @ drop 20 ?h = ?h"
    using append_take_drop_id [of 4 "drop 16 ?h"] append_take_drop_id [of 4 "drop 12 ?h"]
      append_take_drop_id [of 4 "drop 8 ?h"] append_take_drop_id [of 8 ?h] by (simp add: drop_drop)
  then show ?thesis by (simp add: uuid_str_hex Let_def parts first)
qed

lemma remove_all_absent:
  assumes "58 \<notin> set s" "58 \<in> set p"
  shows "remove_all p s = s"
  using assms
proof (induction p s rule: remove_all.induct)
  case (2 p c cs)
  have "\<not> startswith (c # cs) p"
    using "2.prems" unfolding startswith_def by (metis in_set_takeD)
  with 2 show ?case by (simp add: remove_all.simps(2))
qed simp

lemma strip_braces_none: "(\<And>c. c \<in> set s \<Longrightarrow> c \<noteq> 123 \<and> c \<noteq> 125) \<Longrightarrow> strip_braces s = s"
proof -
  assume a: "\<And>c. c \<in> set s \<Longrightarrow> c \<noteq> 123 \<and> c \<noteq> 125"
  have dw: "dropWhile (\<lambda>c. c = 123 \<or> c = 125) xs = xs" if "set xs \<subseteq> set s" for xs
    using that a by (cases xs) auto
  show ?thesis using dw [of s] dw [of "rev s"] by (simp add: strip_braces_def)
qed

lemma int16_hex: "int16_text (uuid_hex x) = Some (int (unat x))"
proof -
  let ?h = "uuid_hex x"
  have c: "c \<noteq> 95 \<and> c \<noteq> 120 \<and> c \<noteq> 88 \<and> c \<noteq> 43 \<and> c \<noteq> 45 \<and> \<not> py_space c" if "c \<in> set ?h" for c
    using uuid_hex_chars [OF that] by (auto simp: py_space_def)
  obtain a b r where h: "?h = a # b # r"
    using length_uuid_hex [of x] by (metis length_0_conv length_Cons neq_Nil_conv zero_neq_numeral
        numeral_eq_one_iff One_nat_def list.size(3) semiring_norm(85))
  have "strip ?h = ?h" by (rule strip_no_space) (use c in blast)
  moreover have "split_sign ?h = (False, ?h)" using c [of a] by (simp add: h)
  moreover have "\<not> (?h ! 1 = 120 \<or> ?h ! 1 = 88)" using c [of b] by (simp add: h)
  moreover have "hd ?h \<noteq> 95" "last ?h \<noteq> 95" "?h \<noteq> []"
    using c [of a] c [of "last ?h"] last_in_set [of ?h] by (auto simp: h)
  moreover have "(95, 95) \<notin> set (zip ?h (tl ?h))" using c by (auto dest: set_zip_leftD)
  moreover have "filter (\<lambda>c. c \<noteq> 95) ?h = ?h" using c by (auto simp: filter_id_conv)
  ultimately show ?thesis by (simp add: int16_text_def uuid_hex_value)
qed

lemma parse_uuid_str: "parse_uuid (uuid_str x) = Some x"
proof -
  have c: "c \<noteq> 58 \<and> c \<noteq> 123 \<and> c \<noteq> 125" if "c \<in> set (uuid_str x)" for c
    using uuid_chars [OF that] by auto
  have "remove_all (lit ''urn:'') (uuid_str x) = uuid_str x"
    "remove_all (lit ''uuid:'') (uuid_str x) = uuid_str x"
    by (rule remove_all_absent, use c in blast, simp add: lit_def)+
  moreover have "strip_braces (uuid_str x) = uuid_str x" by (rule strip_braces_none) (use c in blast)
  moreover have "int (unat x) < 2 ^ 128" using unsigned_less [of x] by simp
  ultimately show ?thesis by (simp add: parse_uuid_def uuid_str_dashes int16_hex)
qed

lemma strip_uuid: "strip (uuid_str x) = uuid_str x"
  by (rule strip_no_space) (auto dest!: uuid_chars simp: py_space_def)

lemma uuid_str_inj: "uuid_str x = uuid_str y \<longleftrightarrow> x = y"
  by (metis parse_uuid_str option.inject)

end
