(* ===== verification/Web_Pages.thy ===== *)
theory Web_Pages
  imports Accounts Dec_Text
begin

text \<open>
  What the pages share: the fields of a request, the guard of the pages that owners and finance
  users read (\<open>apps/accounts/decorators.py\<close>), and the pages of a list.
\<close>

section \<open>Posted fields\<close>

type_synonym query = "(pystr \<times> pystr) list"

text \<open>\<open>data.getlist(name)\<close>, and \<open>data.get(name)\<close>, which is the last value.\<close>

definition getlist :: "string \<Rightarrow> query \<Rightarrow> pystr list" where
  "getlist k q = map snd (filter (\<lambda>x. fst x = lit k) q)"

definition get_field :: "string \<Rightarrow> query \<Rightarrow> pystr option" where
  "get_field k q = (if getlist k q = [] then None else Some (last (getlist k q)))"

text \<open>\<open>field_text\<close> is the text of a field, empty when it was not posted.\<close>

definition field_text :: "pystr option \<Rightarrow> pystr" where
  "field_text v = (case v of None \<Rightarrow> [] | Some t \<Rightarrow> t)"

text \<open>\<open>int(text)\<close>: blanks around, a sign, digits with single underscores between them.\<close>

definition int_text :: "pystr \<Rightarrow> int option" where
  "int_text t =
     (let (neg, r) = split_sign (strip t); ds = filter (\<lambda>c. c \<noteq> 95) r
      in if r = [] \<or> hd r = 95 \<or> last r = 95 \<or> (95, 95) \<in> set (zip r (tl r)) \<or> 4300 < length ds then None
         else map_option (\<lambda>n. if neg then - int n else int n) (parse_digits ds))"

text \<open>
  \<open>_querystring_without_page\<close>: the fields that the links to the other pages carry, grouped by
  their names in the order of their first values.
\<close>

fun query_pairs :: "query \<Rightarrow> query" where
  "query_pairs [] = []"
| "query_pairs ((k, v) # q) =
     (k, v) # map (Pair k) (map snd (filter (\<lambda>x. fst x = k) q)) @ query_pairs (filter (\<lambda>x. fst x \<noteq> k) q)"

definition querystring_without_page :: "query \<Rightarrow> query" where
  "querystring_without_page q = query_pairs (filter (\<lambda>x. fst x \<noteq> lit ''page'') q)"

section \<open>Pages to read\<close>

record read_request =
  rq_user :: actor
  rq_verb :: pystr
  rq_get :: query

text \<open>
  The answers of a page that only reads: the login, a refusal, a wrong method, a bad request, a
  missing row, or what the template shows.
\<close>

datatype 'p page_reply =
    LogIn
  | NoRole
  | BadVerb
  | BadQuery pystr
  | NoRow
  | Shown 'p

text \<open>\<open>owner_or_finance_required\<close> around \<open>require_GET\<close>.\<close>

definition owner_or_finance_required ::
    "(read_request \<Rightarrow> db \<Rightarrow> 'p page_reply) \<Rightarrow> read_request \<Rightarrow> db \<Rightarrow> 'p page_reply" where
  "owner_or_finance_required view r d =
     (if \<not> actor_authenticated (rq_user r) then LogIn
      else if \<not> list_ex (user_has_role d (rq_user r)) [OWNER, FINANCE] then NoRole
      else if rq_verb r \<noteq> lit ''GET'' then BadVerb
      else view r d)"

lemma shown_to_reader:
  "owner_or_finance_required view r d = Shown x \<longleftrightarrow>
     actor_authenticated (rq_user r) \<and> (user_has_role d (rq_user r) OWNER \<or> user_has_role d (rq_user r) FINANCE)
     \<and> rq_verb r = lit ''GET'' \<and> view r d = Shown x"
  by (auto simp: owner_or_finance_required_def)

section \<open>Pages of a list\<close>

text \<open>
  \<open>Paginator(rows, per).get_page(number)\<close> as documented: the first page when the number is not
  an integer, the last one when there is no such page.
\<close>

definition num_pages :: "nat \<Rightarrow> nat \<Rightarrow> nat" where
  "num_pages per count = (max 1 count + per - 1) div per"

definition page_number :: "nat \<Rightarrow> pystr option \<Rightarrow> nat" where
  "page_number pages v =
     (case Option.bind v int_text of
        None \<Rightarrow> 1
      | Some k \<Rightarrow> if k < 1 \<or> int pages < k then pages else nat k)"

definition page_rows :: "nat \<Rightarrow> nat \<Rightarrow> 'r list \<Rightarrow> 'r list" where
  "page_rows per n rows = take per (drop ((n - 1) * per) rows)"

definition get_page :: "nat \<Rightarrow> pystr option \<Rightarrow> 'r list \<Rightarrow> nat \<times> 'r list" where
  "get_page per v rows =
     (let n = page_number (num_pages per (length rows)) v in (n, page_rows per n rows))"

lemma num_pages_bounds:
  assumes "0 < per"
  shows "count \<le> num_pages per count * per" "1 \<le> num_pages per count"
proof -
  define m where "m = max 1 count"
  define n where "n = (m + per - 1) div per"
  have pages: "num_pages per count = n" by (simp add: num_pages_def n_def m_def)
  have "n * per + (m + per - 1) mod per = m + per - 1" unfolding n_def by (rule div_mult_mod_eq)
  moreover have "(m + per - 1) mod per < per" by (rule mod_less_divisor [OF assms])
  ultimately have m: "m \<le> n * per" by linarith
  then show "count \<le> num_pages per count * per" by (simp add: pages m_def)
  show "1 \<le> num_pages per count" using m by (cases n) (simp_all add: pages m_def)
qed

lemma page_number_range: "0 < per \<Longrightarrow> page_number (num_pages per count) v \<in> {1..num_pages per count}"
  using num_pages_bounds(2) [of per count] by (auto simp: page_number_def split: option.splits)

lemma concat_pages: "concat (map (\<lambda>n. page_rows per n rows) [1..<Suc k]) = take (k * per) rows"
proof (induction k)
  case (Suc k)
  have "take (Suc k * per) rows = take (k * per) rows @ take per (drop (k * per) rows)"
    by (metis add.commute mult_Suc take_add)
  then show ?case using Suc by (simp add: page_rows_def)
qed simp

lemma all_pages:
  assumes "0 < per"
  shows "concat (map (\<lambda>n. page_rows per n rows) [1..<Suc (num_pages per (length rows))]) = rows"
  using num_pages_bounds(1) [OF assms, of "length rows"] by (simp only: concat_pages take_all)

end
