(* ===== verification/Recon_Forms.thy ===== *)
theory Recon_Forms
  imports Recon_Presenters Py_Uuid Web_Pages
begin

text \<open>
  The forms of the reconciliation pages (\<open>apps/reconciliation/forms.py\<close>): from the fields a
  browser posts to the arguments of the services, or to the errors the page shows. What the
  fields of the framework do to a text beyond their documented options (which texts are
  numbers, days, checked boxes) is the parameter \<open>form_fields\<close>.
\<close>

section \<open>Fields\<close>

text \<open>
  \<open>ff_integer\<close> reads the text of an integer field, \<open>ff_date\<close> that of a date field, \<open>ff_checked\<close>
  tells whether a posted box is ticked, and \<open>ff_complaints\<close> are the messages of the
  validators that every text field has.
\<close>

record form_fields =
  ff_integer :: "pystr \<Rightarrow> int option"
  ff_date :: "pystr \<Rightarrow> date option"
  ff_checked :: "pystr \<Rightarrow> bool"
  ff_complaints :: "pystr \<Rightarrow> pystr list"

text \<open>An error is the field it belongs to, or \<open>__all__\<close>, and its message.\<close>

type_synonym form_errors = "(pystr \<times> pystr) list"

definition char_field ::
    "form_fields \<Rightarrow> pystr option \<Rightarrow> (nat \<times> pystr) option \<Rightarrow> pystr option \<Rightarrow> pystr list + pystr" where
  "char_field F required limit v =
     (let t = strip (field_text v)
      in if t = [] then (case required of None \<Rightarrow> Inr [] | Some msg \<Rightarrow> Inl [msg])
         else (case (case limit of None \<Rightarrow> [] | Some (n, msg) \<Rightarrow> if n < length t then [msg] else [])
                    @ ff_complaints F t of
                 [] \<Rightarrow> Inr t
               | es \<Rightarrow> Inl es))"

definition uuid_field :: "pystr \<Rightarrow> pystr \<Rightarrow> pystr option \<Rightarrow> pystr list + uuid" where
  "uuid_field required invalid v =
     (let t = strip (field_text v)
      in if t = [] then Inl [required]
         else (case parse_uuid t of None \<Rightarrow> Inl [invalid] | Some x \<Rightarrow> Inr x))"

definition integer_field ::
    "form_fields \<Rightarrow> pystr \<Rightarrow> pystr \<Rightarrow> int \<times> pystr \<Rightarrow> pystr option \<Rightarrow> pystr list + int" where
  "integer_field F required invalid low v =
     (if field_text v = [] then Inl [required]
      else (case ff_integer F (field_text v) of
              None \<Rightarrow> Inl [invalid]
            | Some n \<Rightarrow> if n < fst low then Inl [snd low] else Inr n))"

definition date_field :: "form_fields \<Rightarrow> pystr \<Rightarrow> pystr \<Rightarrow> pystr option \<Rightarrow> pystr list + date" where
  "date_field F required invalid v =
     (if field_text v = [] then Inl [required]
      else (case ff_date F (field_text v) of None \<Rightarrow> Inl [invalid] | Some d \<Rightarrow> Inr d))"

definition choice_field :: "pystr \<Rightarrow> pystr \<Rightarrow> pystr list \<Rightarrow> pystr option \<Rightarrow> pystr list + pystr" where
  "choice_field required invalid choices v =
     (if field_text v = [] then Inl [required]
      else if field_text v \<notin> set choices then Inl [invalid] else Inr (field_text v))"

definition model_choice_field ::
    "pystr \<Rightarrow> pystr \<Rightarrow> ('r \<Rightarrow> uuid) \<Rightarrow> 'r list \<Rightarrow> pystr option \<Rightarrow> pystr list + 'r" where
  "model_choice_field required invalid key rows v =
     (if field_text v = [] then Inl [required]
      else (case Option.bind (parse_uuid (field_text v)) (find_row key rows) of
              None \<Rightarrow> Inl [invalid]
            | Some r \<Rightarrow> Inr r))"

definition boolean_field :: "form_fields \<Rightarrow> pystr option \<Rightarrow> bool" where
  "boolean_field F v = (case v of None \<Rightarrow> False | Some t \<Rightarrow> ff_checked F t)"

definition errors_of :: "string \<Rightarrow> pystr list + 'a \<Rightarrow> form_errors" where
  "errors_of name r = (case r of Inl es \<Rightarrow> map (Pair (lit name)) es | Inr _ \<Rightarrow> [])"

text \<open>The error of \<open>clean\<close>, which belongs to no field.\<close>

definition form_error :: "pystr \<Rightarrow> form_errors" where
  "form_error msg = [(lit ''__all__'', msg)]"

definition errors_of_clean :: "pystr + 'a \<Rightarrow> form_errors" where
  "errors_of_clean r = (case r of Inl msg \<Rightarrow> form_error msg | Inr _ \<Rightarrow> [])"

section \<open>Amounts and identifiers\<close>

definition msg_amount_format :: pystr where "msg_amount_format = [26680, 38144, 37329, 39069, 26684, 24335, 19981, 21512,
     27861]"
definition msg_amount_range :: pystr where "msg_amount_range = [26680, 38144, 37329, 39069, 36229, 20986, 20801, 35768,
     33539, 22260]"
definition msg_invalid :: pystr where "msg_invalid = [19981, 21512, 27861]"

definition MAX_MONEY :: money where "MAX_MONEY = 999999999999999999"

definition clean_amount :: "pystr \<Rightarrow> pystr + pydec" where
  "clean_amount value =
     (case parse_dec value of
        Some (Fin c e) \<Rightarrow>
          if cents_le c e 0 then Inl msg_positive
          else if \<not> cents_le c e MAX_MONEY then Inl msg_amount_range
          else if e < - 2 then Inl msg_two_places
          else Inr (Fin c e)
      | _ \<Rightarrow> Inl msg_amount_format)"

definition clean_uuid :: "pystr \<Rightarrow> pystr \<Rightarrow> pystr + uuid" where
  "clean_uuid value label =
     (case parse_uuid value of None \<Rightarrow> Inl (label @ msg_invalid) | Some x \<Rightarrow> Inr x)"

section \<open>Confirming one invoice\<close>

definition msg_select_invoice :: pystr where "msg_select_invoice = [35831, 36873, 25321, 21457, 31080]"
definition msg_invoice_id :: pystr where "msg_invoice_id = [21457, 31080, 32534, 21495, 19981, 21512, 27861]"
definition msg_note_length :: pystr where "msg_note_length = [22791, 27880, 19981, 33021, 36229, 36807, 32, 49, 48, 48,
     48, 32, 20010, 23383, 31526]"
definition msg_money_twice :: pystr where "msg_money_twice = [36164, 37329, 27969, 27700, 19981, 33021, 37325, 22797]"
definition label_money :: pystr where "label_money = [36164, 37329, 27969, 27700]"
definition label_invoice :: pystr where "label_invoice = [21457, 31080]"

record direct_data =
  dd_invoice :: uuid
  dd_note :: pystr
  dd_partial :: bool
  dd_expected_invoice :: pydec
  dd_rows :: "(uuid \<times> pydec \<times> pydec) list"

definition clean_direct_row :: "pystr \<times> pystr \<times> pystr \<Rightarrow> pystr + uuid \<times> pydec \<times> pydec" where
  "clean_direct_row row =
     (case row of (transaction, amount, expected) \<Rightarrow>
       bindE (clean_uuid transaction label_money) (\<lambda>t.
       bindE (clean_amount amount) (\<lambda>a.
       bindE (clean_amount expected) (\<lambda>x. Inr (t, a, x)))))"

text \<open>
  \<open>DirectReconciliationForm.clean\<close>; its second argument is the expected amount of the
  invoice when that field is valid.
\<close>

definition direct_clean :: "query \<Rightarrow> pystr option \<Rightarrow> pystr + (uuid \<times> pydec \<times> pydec) list \<times> pydec option" where
  "direct_clean q expected =
     (let ts = getlist ''transaction_id'' q; amounts = getlist ''amount'' q;
          opens = getlist ''expected_transaction_open'' q
      in if ts = [] \<or> length ts \<noteq> length amounts \<or> length amounts \<noteq> length opens
         then Inl msg_empty
         else
           bindE (traverse clean_direct_row (zip ts (zip amounts opens))) (\<lambda>rows.
           bindE (raise_if (\<not> distinct (map fst rows)) msg_money_twice) (\<lambda>_.
           (case expected of
              None \<Rightarrow> Inr (rows, None)
            | Some t \<Rightarrow> bindE (clean_amount t) (\<lambda>x. Inr (rows, Some x))))))"

definition DirectReconciliationForm :: "form_fields \<Rightarrow> query \<Rightarrow> form_errors + direct_data" where
  "DirectReconciliationForm F q =
     (let i = uuid_field msg_select_invoice msg_invoice_id (get_field ''invoice_id'' q);
          note = char_field F None (Some (1000, msg_note_length)) (get_field ''note'' q);
          expected = char_field F (Some msg_stale) None (get_field ''expected_invoice_open'' q);
          body = direct_clean q (case expected of Inl _ \<Rightarrow> None | Inr t \<Rightarrow> Some t)
      in case (i, note, expected, body) of
           (Inr i, Inr note, Inr _, Inr (rows, Some x)) \<Rightarrow>
             Inr \<lparr>dd_invoice = i, dd_note = note,
                  dd_partial = boolean_field F (get_field ''partial_confirm'' q),
                  dd_expected_invoice = x, dd_rows = rows\<rparr>
         | _ \<Rightarrow> Inl (errors_of ''invoice_id'' i @ errors_of ''note'' note
                     @ errors_of ''expected_invoice_open'' expected @ errors_of_clean body))"

definition direct_inputs :: "direct_data \<Rightarrow> alloc_input list" where
  "direct_inputs x =
     map (\<lambda>(t, a, _). \<lparr>ai_invoice = dd_invoice x, ai_transaction = t, ai_amount = Some a\<rparr>) (dd_rows x)"

definition expected_invoice_open_amounts :: "direct_data \<Rightarrow> (uuid \<times> pydec) list" where
  "expected_invoice_open_amounts x = [(dd_invoice x, dd_expected_invoice x)]"

definition expected_transaction_open_amounts :: "direct_data \<Rightarrow> (uuid \<times> pydec) list" where
  "expected_transaction_open_amounts x = map (\<lambda>(t, _, e). (t, e)) (dd_rows x)"

section \<open>Drafting and confirming a batch\<close>

definition msg_select_party :: pystr where "msg_select_party = [35831, 36873, 25321, 24448, 26469, 21333, 20301]"
definition msg_party_invalid :: pystr where "msg_party_invalid = [24448, 26469, 21333, 20301, 19981, 21512, 27861]"
definition msg_select_direction :: pystr where "msg_select_direction = [35831, 36873, 25321, 26680, 38144, 26041, 21521]"
definition msg_start_required :: pystr where "msg_start_required = [35831, 36873, 25321, 24320, 22987, 26085, 26399]"
definition msg_start_invalid :: pystr where "msg_start_invalid = [24320, 22987, 26085, 26399, 19981, 21512, 27861]"
definition msg_end_required :: pystr where "msg_end_required = [35831, 36873, 25321, 32467, 26463, 26085, 26399]"
definition msg_end_invalid :: pystr where "msg_end_invalid = [32467, 26463, 26085, 26399, 19981, 21512, 27861]"
definition msg_version_required :: pystr where "msg_version_required = [32467, 31639, 25209, 27425, 29256, 26412, 19981, 33021,
     20026, 31354]"
definition msg_version_invalid :: pystr where "msg_version_invalid = [32467, 31639, 25209, 27425, 29256, 26412, 19981, 21512,
     27861]"
definition msg_reason_length :: pystr where "msg_reason_length = [25764, 38144, 21407, 22240, 19981, 33021, 36229, 36807, 32,
     49, 48, 48, 48, 32, 20010, 23383, 31526]"

record draft_data =
  df_counterparty :: counterparty
  df_direction :: pystr
  df_period_start :: date
  df_period_end :: date

definition SettlementDraftForm :: "form_fields \<Rightarrow> db \<Rightarrow> query \<Rightarrow> form_errors + draft_data" where
  "SettlementDraftForm F d q =
     (let party = model_choice_field msg_select_party msg_party_invalid cp_id (parties d)
                    (get_field ''counterparty'' q);
          direction = choice_field msg_select_direction msg_direction ReconciliationDirection_values
                        (get_field ''direction'' q);
          start = date_field F msg_start_required msg_start_invalid (get_field ''period_start'' q);
          stop = date_field F msg_end_required msg_end_invalid (get_field ''period_end'' q);
          body = (case (start, stop) of
                    (Inr s, Inr e) \<Rightarrow> raise_if (e < s) msg_period
                  | _ \<Rightarrow> Inr ())
      in case (party, direction, start, stop, body) of
           (Inr p, Inr r, Inr s, Inr e, Inr _) \<Rightarrow>
             Inr \<lparr>df_counterparty = p, df_direction = r, df_period_start = s, df_period_end = e\<rparr>
         | _ \<Rightarrow> Inl (errors_of ''counterparty'' party @ errors_of ''direction'' direction
                     @ errors_of ''period_start'' start @ errors_of ''period_end'' stop
                     @ errors_of_clean body))"

text \<open>The loop of \<open>SettlementConfirmForm.clean\<close> with the set of pairs it has seen.\<close>

fun clean_pairs ::
    "(uuid \<times> uuid) set \<Rightarrow> (pystr \<times> pystr \<times> pystr) list \<Rightarrow> pystr + alloc_input list" where
  "clean_pairs seen [] = Inr []"
| "clean_pairs seen ((invoice, transaction, amount) # rest) =
     bindE (clean_uuid invoice label_invoice) (\<lambda>i.
     bindE (clean_uuid transaction label_money) (\<lambda>t.
     bindE (raise_if ((i, t) \<in> seen) msg_duplicate_pair) (\<lambda>_.
     bindE (clean_amount amount) (\<lambda>a.
     bindE (clean_pairs (insert (i, t) seen) rest) (\<lambda>items.
       Inr (\<lparr>ai_invoice = i, ai_transaction = t, ai_amount = Some a\<rparr> # items))))))"

definition SettlementConfirmForm :: "form_fields \<Rightarrow> query \<Rightarrow> form_errors + int \<times> alloc_input list" where
  "SettlementConfirmForm F q =
     (let version = integer_field F msg_version_required msg_version_invalid (1, msg_version_invalid)
                      (get_field ''version'' q);
          bills = getlist ''invoice_id'' q; funds = getlist ''transaction_id'' q;
          amounts = getlist ''amount'' q;
          body = (if bills = [] \<or> length bills \<noteq> length funds \<or> length funds \<noteq> length amounts
                  then Inl msg_batch_empty
                  else clean_pairs {} (zip bills (zip funds amounts)))
      in case (version, body) of
           (Inr n, Inr items) \<Rightarrow> Inr (n, items)
         | _ \<Rightarrow> Inl (errors_of ''version'' version @ errors_of_clean body))"

text \<open>A form without posted data is not bound, and not valid.\<close>

definition ReversalForm :: "form_fields \<Rightarrow> query \<Rightarrow> form_errors + pystr" where
  "ReversalForm F q =
     (if q = [] then Inl []
      else (let reason = char_field F (Some msg_reason) (Some (1000, msg_reason_length))
                           (get_field ''reason'' q)
            in case reason of Inr t \<Rightarrow> Inr t | Inl _ \<Rightarrow> Inl (errors_of ''reason'' reason)))"

end
