(* ===== verification/Recon_Pages.thy ===== *)
theory Recon_Pages
  imports Recon_Forms
begin

text \<open>
  The reconciliation pages (\<open>apps/reconciliation/views.py\<close> and the guard \<open>finance_required\<close>):
  the workbench, the search for candidates, the confirmation of one invoice, the batches and
  the reversal. A page is the data the template shows. The routing, the sessions and the
  cross-site check of the framework are not modelled.
\<close>

section \<open>Requests and pages\<close>

record recon_request =
  rr_user :: actor
  rr_verb :: pystr
  rr_get :: query
  rr_post :: query

text \<open>
  What a request sees of the outside: the clock, the identifiers it draws, today in the local
  time zone, the local day of an instant, and the fields of the framework.
\<close>

record recon_env =
  re_now :: instant
  re_ids :: "nat \<Rightarrow> uuid"
  re_today :: date
  re_local :: "instant \<Rightarrow> date"
  re_fields :: form_fields

record workbench_page =
  wb_invoice_items :: "settlement_item list"
  wb_selected_invoice :: "uuid option"
  wb_selected_open :: pystr
  wb_selected_open_input :: pystr
  wb_selected_open_cents :: int
  wb_transactions :: "direct_row list"
  wb_money_total :: pystr
  wb_allocated_total :: pystr
  wb_difference :: pystr
  wb_difference_cents :: int
  wb_start :: pystr
  wb_end :: pystr
  wb_errors :: form_errors
  wb_stale :: bool

datatype recon_page =
    Workbench nat workbench_page
  | SettlementList nat form_errors "settlement_batch list"
  | SettlementDetail nat settlement_batch settlement_page form_errors
  | ReconciliationDetail reconciliation "(allocation \<times> pystr) list"
  | ReversalPage nat reconciliation "(allocation \<times> pystr) list" form_errors
  | ToReconciliation uuid
  | ToSettlement uuid
  | JsonReply nat json
  | ToLogin
  | Refused
  | VerbRefused
  | Missing
  | Crash exn

section \<open>Guards and errors\<close>

text \<open>\<open>finance_required\<close> around \<open>require_http_methods\<close>.\<close>

definition finance_required ::
    "string list \<Rightarrow> (recon_request \<Rightarrow> db \<Rightarrow> recon_page \<times> db) \<Rightarrow> recon_request \<Rightarrow> db
     \<Rightarrow> recon_page \<times> db" where
  "finance_required verbs view r d =
     (if \<not> actor_authenticated (rr_user r) then (ToLogin, d)
      else if \<not> user_has_role d (rr_user r) FINANCE then (Refused, d)
      else if rr_verb r \<notin> lit ` set verbs then (VerbRefused, d)
      else view r d)"

text \<open>An exception that no view catches: the framework answers it, and the transaction is undone.\<close>

fun uncaught :: "exn \<Rightarrow> recon_page" where
  "uncaught (PermissionDenied msg) = Refused"
| "uncaught e = Crash e"

fun is_database_error :: "exn \<Rightarrow> bool" where
  "is_database_error IntegrityError = True"
| "is_database_error DataError = True"
| "is_database_error e = False"

definition CONFLICT_MARKERS :: "pystr list" where
  "CONFLICT_MARKERS = [[21487, 26680, 38144, 37329, 39069, 19981, 36275], [29256, 26412, 24050, 36807, 26399], [19981, 33021, 37325, 22797, 30830, 35748], [24050, 32463, 25764, 38144], [26080, 21487, 26680, 38144, 37329, 39069],
     [39029, 38754, 25968, 25454, 24050, 36807, 26399], [24050, 34987, 20854, 20182, 26680, 38144, 21344, 29992]]"

definition stale_marker :: pystr where "stale_marker = [39029, 38754, 25968, 25454, 24050, 36807, 26399]"

definition validation_status :: "pystr \<Rightarrow> nat" where
  "validation_status message =
     (if list_ex (\<lambda>marker. substring marker message) CONFLICT_MARKERS then 409 else 400)"

definition parse_date_param :: "pystr option \<Rightarrow> date option" where
  "parse_date_param v = (if field_text v = [] then None else parse_iso_date (field_text v))"

definition parse_uuid_param :: "pystr option \<Rightarrow> uuid option" where
  "parse_uuid_param v = (if field_text v = [] then None else parse_uuid (field_text v))"

section \<open>The workbench\<close>

definition first_of_month :: "date \<Rightarrow> date" where
  "first_of_month o1 = (let (y, m, d) = ord_ymd o1 in ymd_ord y m 1)"

definition default_window :: "date \<Rightarrow> exn + date \<times> date" where
  "default_window reference =
     (let month_start = first_of_month reference
      in if \<not> valid_ord (month_start - 1) then Inl OverflowError
         else (let previous_month = first_of_month (month_start - 1); later = month_start + 27 + 4
               in if \<not> valid_ord later then Inl OverflowError
                  else Inr (previous_month, first_of_month later - 1)))"

text \<open>The loop over the normal invoices, in the order of the query.\<close>

definition normal_invoices :: "db \<Rightarrow> invoice list" where
  "normal_invoices d =
     sort_key (\<lambda>b. (inv_issue_date b, inv_id b))
       (filter (\<lambda>b. inv_status b = InvoiceStatus_NORMAL) (invoices d))"

definition workbench_window ::
    "recon_env \<Rightarrow> query \<Rightarrow> invoice option \<Rightarrow> exn + date \<times> date" where
  "workbench_window E q selected =
     bindE (default_window (case selected of None \<Rightarrow> re_today E | Some b \<Rightarrow> inv_issue_date b))
       (\<lambda>(default_start, default_end).
        let start = (case parse_date_param (get_field ''start'' q) of None \<Rightarrow> default_start | Some x \<Rightarrow> x);
            stop = (case parse_date_param (get_field ''end'' q) of None \<Rightarrow> default_end | Some x \<Rightarrow> x)
        in Inr (if stop < start then (default_start, default_end) else (start, stop)))"

definition workbench_context ::
    "recon_env \<Rightarrow> db \<Rightarrow> query \<Rightarrow> form_errors \<Rightarrow> uuid option \<Rightarrow> bool \<Rightarrow> exn + workbench_page" where
  "workbench_context E d q errors selected_id stale =
     (let requested = (case selected_id of Some i \<Rightarrow> Some i
                       | None \<Rightarrow> parse_uuid_param (get_field ''invoice'' q))
      in
     bindE (collect_open (\<lambda>b. invoice_open_amount d (inv_id b)) (normal_invoices d)) (\<lambda>bills.
       let selected = find (\<lambda>(b, _). Some (inv_id b) = requested) bills;
           selected_open = (case selected of None \<Rightarrow> 0 | Some (_, v) \<Rightarrow> v)
       in
     bindE (workbench_window E q (map_option fst selected)) (\<lambda>(start, stop).
     bindE (case selected of None \<Rightarrow> Inr []
            | Some (b, _) \<Rightarrow> available_transactions_for_invoice (re_local E) d b start stop) (\<lambda>available.
       let funds = map (\<lambda>x. (av_id x, av_open x)) available;
           money_total = sum_list (map snd funds);
           allocated = min selected_open money_total;
           difference = max (selected_open - allocated) 0
       in Inr \<lparr>wb_invoice_items = map (\<lambda>(b, v). settlement_item_of (inv_id b) v False) bills,
               wb_selected_invoice = map_option (inv_id \<circ> fst) selected,
               wb_selected_open = money_text selected_open,
               wb_selected_open_input = money_input selected_open,
               wb_selected_open_cents = selected_open,
               wb_transactions = direct_allocation_rows funds selected_open,
               wb_money_total = money_text money_total, wb_allocated_total = money_text allocated,
               wb_difference = money_text difference, wb_difference_cents = difference,
               wb_start = iso_date start, wb_end = iso_date stop,
               wb_errors = errors, wb_stale = stale\<rparr>))))"

definition render_workbench ::
    "recon_env \<Rightarrow> recon_request \<Rightarrow> form_errors \<Rightarrow> uuid option \<Rightarrow> nat \<Rightarrow> bool \<Rightarrow> db \<Rightarrow> recon_page \<times> db" where
  "render_workbench E r errors selected_id code stale d =
     ((case workbench_context E d (rr_get r) errors selected_id stale of
         Inl e \<Rightarrow> uncaught e
       | Inr page \<Rightarrow> Workbench code page), d)"

definition workbench :: "recon_env \<Rightarrow> recon_request \<Rightarrow> db \<Rightarrow> recon_page \<times> db" where
  "workbench E = finance_required [''GET''] (\<lambda>r d. render_workbench E r [] None 200 False d)"

section \<open>Candidates\<close>

definition msg_candidate_query :: pystr where "msg_candidate_query = [20505, 36873, 26597, 35810, 21442, 25968, 19981, 21512,
     27861, 12290]"
definition msg_candidate_invoice :: pystr where "msg_candidate_invoice = [21457, 31080, 19981, 23384, 22312, 12290]"

definition candidate_to_dict :: "candidate \<Rightarrow> json" where
  "candidate_to_dict c = JObj [(lit ''kind'', JStr (cand_kind c)),
     (lit ''transaction_ids'', JList (map (JStr \<circ> uuid_str) (cand_transaction_ids c))),
     (lit ''total'', JStr (money_text (cand_total c))), (lit ''total_cents'', JInt (cand_total c)),
     (lit ''difference'', JStr (money_text (cand_difference c))),
     (lit ''difference_cents'', JInt (cand_difference c)),
     (lit ''start'', JStr (iso_date (utc_date (cand_start_at c)))),
     (lit ''end'', JStr (iso_date (utc_date (cand_end_at c))))]"

definition candidate_query :: "query \<Rightarrow> (uuid \<times> date \<times> date) option" where
  "candidate_query q =
     Option.bind (Option.bind (get_field ''invoice'' q) parse_uuid) (\<lambda>i.
     Option.bind (Option.bind (get_field ''start'' q) parse_iso_date) (\<lambda>start.
     Option.bind (Option.bind (get_field ''end'' q) parse_iso_date) (\<lambda>stop.
       if stop < start then None else Some (i, start, stop))))"

definition json_message :: "nat \<Rightarrow> pystr \<Rightarrow> recon_page" where
  "json_message code msg = JsonReply code (JObj [(lit ''error'', JStr msg)])"

definition candidate_list :: "recon_env \<Rightarrow> recon_request \<Rightarrow> db \<Rightarrow> recon_page \<times> db" where
  "candidate_list E = finance_required [''GET''] (\<lambda>r d.
     ((case candidate_query (rr_get r) of
         None \<Rightarrow> json_message 400 msg_candidate_query
       | Some (i, start, stop) \<Rightarrow>
           (case transaction_candidates (re_local E) d i (Some start) (Some stop) of
              Inl ObjectDoesNotExist \<Rightarrow> json_message 404 msg_candidate_invoice
            | Inl (ValueError _) \<Rightarrow> json_message 400 msg_candidate_query
            | Inl e \<Rightarrow> uncaught e
            | Inr items \<Rightarrow> JsonReply 200 (JObj [(lit ''items'', JList (map candidate_to_dict items))]))), d))"

section \<open>Confirming one invoice\<close>

definition msg_direct_conflict :: pystr where "msg_direct_conflict = [26680, 38144, 25552, 20132, 20914, 31361, 65292, 35831,
     21047, 26032, 21518, 37325, 35797, 12290]"

definition direct_args :: "actor \<Rightarrow> invoice \<Rightarrow> direct_data \<Rightarrow> recon_args" where
  "direct_args a bill x =
     \<lparr>cr_actor = a,
      cr_direction = (if inv_direction bill = InvoiceDirection_INPUT then PURCHASE_PAYMENT
                      else SALES_RECEIPT),
      cr_allocations = direct_inputs x, cr_note = dd_note x, cr_mode = Mode_DIRECT,
      cr_settlement = None, cr_expected_invoice_open = Some (expected_invoice_open_amounts x),
      cr_expected_transaction_open = Some (expected_transaction_open_amounts x),
      cr_allow_partial = dd_partial x\<rparr>"

definition direct_confirm_body :: "recon_env \<Rightarrow> recon_request \<Rightarrow> db \<Rightarrow> recon_page \<times> db" where
  "direct_confirm_body E r d =
     (let selected_id = parse_uuid_param (get_field ''invoice_id'' (rr_post r))
     in case DirectReconciliationForm (re_fields E) (rr_post r) of
          Inl errors \<Rightarrow> render_workbench E r errors selected_id 400 False d
        | Inr x \<Rightarrow>
            (case find_row inv_id (invoices d) (dd_invoice x) of
               None \<Rightarrow> render_workbench E r [(lit ''invoice_id'', msg_no_invoice)] selected_id 400 False d
             | Some bill \<Rightarrow>
                 (case create_reconciliation (re_now E) (re_ids E) (direct_args (rr_user r) bill x) d of
                    Inr (rc, d') \<Rightarrow> (ToReconciliation (rc_id rc), d')
                  | Inl (ValidationError msg) \<Rightarrow>
                      render_workbench E r (form_error msg) (Some (inv_id bill)) (validation_status msg)
                        (substring stale_marker msg) d
                  | Inl e \<Rightarrow>
                      if is_database_error e
                      then render_workbench E r (form_error msg_direct_conflict) (Some (inv_id bill)) 409 True d
                      else (uncaught e, d))))"

definition direct_confirm :: "recon_env \<Rightarrow> recon_request \<Rightarrow> db \<Rightarrow> recon_page \<times> db" where
  "direct_confirm E = finance_required [''POST''] (direct_confirm_body E)"

section \<open>Batches\<close>

definition msg_draft_failed :: pystr where "msg_draft_failed = [32467, 31639, 33609, 31295, 21019, 24314, 22833, 36133,
     65292, 35831, 31245, 21518, 37325, 35797, 12290]"
definition msg_settlement_conflict :: pystr where "msg_settlement_conflict = [32467, 31639, 30830, 35748, 20914, 31361, 65292, 35831,
     21047, 26032, 21518, 37325, 35797, 12290]"

definition settlement_list_page :: "nat \<Rightarrow> form_errors \<Rightarrow> db \<Rightarrow> recon_page" where
  "settlement_list_page code errors d =
     SettlementList code errors (rev (sort_key sb_id (settlements d)))"

definition settlement_list :: "recon_env \<Rightarrow> recon_request \<Rightarrow> db \<Rightarrow> recon_page \<times> db" where
  "settlement_list E = finance_required [''GET''] (\<lambda>r d. (settlement_list_page 200 [] d, d))"

definition settlement_create_body :: "recon_env \<Rightarrow> recon_request \<Rightarrow> db \<Rightarrow> recon_page \<times> db" where
  "settlement_create_body E r d =
     (case SettlementDraftForm (re_fields E) d (rr_post r) of
       Inl errors \<Rightarrow> (settlement_list_page 400 errors d, d)
     | Inr x \<Rightarrow>
         (case create_settlement_batch (re_local E) (re_now E) (re_ids E) (rr_user r)
                 (cp_id (df_counterparty x)) (df_direction x) (df_period_start x) (df_period_end x) d of
            Inr (batch, d') \<Rightarrow> (ToSettlement (sb_id batch), d')
          | Inl (ValidationError msg) \<Rightarrow> (settlement_list_page 400 (form_error msg) d, d)
          | Inl e \<Rightarrow> if is_database_error e then (settlement_list_page 400 (form_error msg_draft_failed) d, d)
                     else (uncaught e, d)))"

definition settlement_create :: "recon_env \<Rightarrow> recon_request \<Rightarrow> db \<Rightarrow> recon_page \<times> db" where
  "settlement_create E = finance_required [''POST''] (settlement_create_body E)"

definition settlement_detail_page :: "nat \<Rightarrow> form_errors \<Rightarrow> settlement_batch \<Rightarrow> db \<Rightarrow> recon_page" where
  "settlement_detail_page code errors batch d =
     (case settlement_context d batch of
        Inl e \<Rightarrow> uncaught e
      | Inr page \<Rightarrow> SettlementDetail code batch page errors)"

definition settlement_detail :: "recon_env \<Rightarrow> uuid \<Rightarrow> recon_request \<Rightarrow> db \<Rightarrow> recon_page \<times> db" where
  "settlement_detail E pk = finance_required [''GET''] (\<lambda>r d.
     ((case find_row sb_id (settlements d) pk of
         None \<Rightarrow> Missing
       | Some batch \<Rightarrow> settlement_detail_page 200 [] batch d), d))"

definition settlement_confirm_body :: "recon_env \<Rightarrow> uuid \<Rightarrow> recon_request \<Rightarrow> db \<Rightarrow> recon_page \<times> db" where
  "settlement_confirm_body E pk r d =
     (case find_row sb_id (settlements d) pk of
       None \<Rightarrow> (Missing, d)
     | Some batch \<Rightarrow>
         (case SettlementConfirmForm (re_fields E) (rr_post r) of
            Inl errors \<Rightarrow> (settlement_detail_page 400 errors batch d, d)
          | Inr (version, items) \<Rightarrow>
              (case confirm_settlement_batch (re_now E) (re_ids E) (sb_id batch) (rr_user r) items
                      version d of
                 Inr (rc, d') \<Rightarrow> (ToReconciliation (rc_id rc), d')
               | Inl (ValidationError msg) \<Rightarrow>
                   (settlement_detail_page (validation_status msg) (form_error msg) batch d, d)
               | Inl e \<Rightarrow>
                   if is_database_error e
                   then (settlement_detail_page 409 (form_error msg_settlement_conflict) batch d, d)
                   else (uncaught e, d))))"

definition settlement_confirm :: "recon_env \<Rightarrow> uuid \<Rightarrow> recon_request \<Rightarrow> db \<Rightarrow> recon_page \<times> db" where
  "settlement_confirm E pk = finance_required [''POST''] (settlement_confirm_body E pk)"

section \<open>Details and reversal\<close>

definition msg_reversal_conflict :: pystr where "msg_reversal_conflict = [26680, 38144, 25764, 38144, 20914, 31361, 65292, 35831,
     21047, 26032, 21518, 37325, 35797, 12290]"

definition detail_rows :: "db \<Rightarrow> uuid \<Rightarrow> (allocation \<times> pystr) list" where
  "detail_rows d rid =
     map (\<lambda>a. (a, money_text (ra_amount a))) (filter (\<lambda>a. ra_reconciliation a = rid) (allocs d))"

definition reconciliation_detail :: "recon_env \<Rightarrow> uuid \<Rightarrow> recon_request \<Rightarrow> db \<Rightarrow> recon_page \<times> db" where
  "reconciliation_detail E pk = finance_required [''GET''] (\<lambda>r d.
     ((case find_row rc_id (recons d) pk of
         None \<Rightarrow> Missing
       | Some rc \<Rightarrow> ReconciliationDetail rc (detail_rows d pk)), d))"

definition reversal_page :: "nat \<Rightarrow> form_errors \<Rightarrow> reconciliation \<Rightarrow> db \<Rightarrow> recon_page" where
  "reversal_page code errors original d = ReversalPage code original (detail_rows d (rc_id original)) errors"

definition reverse_view_body :: "recon_env \<Rightarrow> uuid \<Rightarrow> recon_request \<Rightarrow> db \<Rightarrow> recon_page \<times> db" where
  "reverse_view_body E pk r d =
     (case find_row rc_id (recons d) pk of
       None \<Rightarrow> (Missing, d)
     | Some original \<Rightarrow>
         if rr_verb r = lit ''GET'' then (reversal_page 200 [] original d, d)
         else
           (case ReversalForm (re_fields E) (rr_post r) of
              Inl errors \<Rightarrow> (reversal_page 400 errors original d, d)
            | Inr reason \<Rightarrow>
                (case reverse_reconciliation (re_now E) (re_ids E) (rr_user r) (rc_id original)
                        (Some reason) d of
                   Inr (_, d') \<Rightarrow> (ToReconciliation (rc_id original), d')
                 | Inl (ValidationError msg) \<Rightarrow>
                     (reversal_page (validation_status msg) (form_error msg) original d, d)
                 | Inl e \<Rightarrow>
                     if is_database_error e \<or> e = ObjectDoesNotExist
                     then (reversal_page 409 (form_error msg_reversal_conflict) original d, d)
                     else (uncaught e, d))))"

definition reverse_view :: "recon_env \<Rightarrow> uuid \<Rightarrow> recon_request \<Rightarrow> db \<Rightarrow> recon_page \<times> db" where
  "reverse_view E pk = finance_required [''GET'', ''POST''] (reverse_view_body E pk)"

end
