(* ===== verification/Settlement_Properties.thy ===== *)
theory Settlement_Properties
  imports Settlement_Proofs
begin

text \<open>The properties of settlement batches, with witnesses on a sample batch.\<close>

section \<open>A sample batch\<close>

definition sample_batch :: settlement_batch where
  "sample_batch = \<lparr>sb_id = 50, sb_counterparty = 7, sb_direction = PURCHASE_PAYMENT,
     sb_period_start = 0, sb_period_end = 800000, sb_status = SettlementStatus_DRAFT,
     sb_version = 1, sb_created_by = 1\<rparr>"

definition sample_batch_db :: db where
  "sample_batch_db = sample_db\<lparr>settlements := [sample_batch],
     settlement_invoices := [\<lparr>si_id = 51, si_batch = 50, si_invoice = 5\<rparr>],
     settlement_moneys := [\<lparr>sm_id = 52, sm_batch = 50, sm_transaction = 3\<rparr>,
                           \<lparr>sm_id = 53, sm_batch = 50, sm_transaction = 4\<rparr>]\<rparr>"

definition sample_batch_items :: "alloc_input list" where
  "sample_batch_items =
     [\<lparr>ai_invoice = 5, ai_transaction = 3, ai_amount = Some (Fin 12000 (- 2))\<rparr>,
      \<lparr>ai_invoice = 5, ai_transaction = 4, ai_amount = Some (Fin 30 0)\<rparr>]"

lemma sample_batch_ledger: "ledger_ok sample_batch_db"
  by (rule ledger_ok_cong [OF sample_ledger_ok]) (simp_all add: sample_batch_db_def)

lemma sample_batch_fresh: "fresh_recon sample_ids sample_batch_db"
  using sample_fresh by (simp add: fresh_recon_def sample_batch_db_def)

lemma sample_batch_finance: "require_finance_actor sample_batch_db finance_actor m = Inr ()"
  using sample_finance require_finance_actor_cong [of sample_batch_db sample_db]
  by (simp add: sample_batch_db_def)

lemma sample_batch_opens:
  "invoice_open_amount sample_batch_db 5 = Inr 15000"
  "transaction_open_amount sample_batch_db 3 = Inr 12000"
  "transaction_open_amount sample_batch_db 4 = Inr 3000"
  by (simp_all add: invoice_open_amount_def transaction_open_amount_def allocated_by_def
      find_row_def sample_batch_db_def sample_defs)

lemma sample_batch_ids:
  "batch_invoice_ids sample_batch_db 50 = [5]" "batch_money_ids sample_batch_db 50 = [3, 4]"
  by (simp_all add: batch_invoice_ids_def batch_money_ids_def sample_batch_db_def)

lemma sample_batch_sums:
  "requested ai_invoice sample_batch_items k = (if k = 5 then 15000 else 0)"
  "requested ai_transaction sample_batch_items k = (if k = 3 then 12000 else if k = 4 then 3000 else 0)"
  by (simp_all add: requested_def item_cents_def whole_cents_def cents_eq_def cents_round_def
      sample_batch_items_def)

lemma sample_batch_valid: "validate_batch_allocations sample_batch_db sample_batch sample_batch_items = Inr ()"
proof -
  have "validate_allocation_totals sample_batch_items [(5, 15000)] [(3, 12000), (4, 3000)] = Inr ()"
  proof (subst validate_totals_iff)
    show "\<forall>i\<in>set sample_batch_items. cent_item i"
      by (simp add: cent_item_def sample_batch_items_def item_cents_def whole_cents_def
          cents_eq_def cents_round_def)
  qed (simp_all add: sample_batch_sums)
  moreover have "validate_batch_records sample_batch
      (filter (\<lambda>b. inv_id b \<in> set [5]) (invoices sample_batch_db))
      (filter (\<lambda>m. mt_id m \<in> set [3, 4]) (moneys sample_batch_db)) = Inr ()"
    by (simp add: validate_batch_records_def settlement_directions_for_def sample_batch_def
        validate_batch_invoice_def validate_batch_money_def utc_date_def sample_batch_db_def
        sample_defs)
  ultimately show ?thesis
    by (simp add: validate_batch_allocations_def sample_batch_ids sample_batch_opens
        externally_occupied_def sample_batch_def)
       (simp add: sample_batch_items_def sample_batch_db_def sample_db_def empty_db_def)
qed

lemma sample_batch_create_ok: "create_ok (confirm_args finance_actor sample_batch sample_batch_items) sample_batch_db"
proof -
  have sides: "ai_invoice ` set sample_batch_items = {5}" "ai_transaction ` set sample_batch_items = {3, 4}"
    by (auto simp: sample_batch_items_def)
  have "item_ok PURCHASE_PAYMENT (find_row inv_id (invoices sample_batch_db))
      (find_row mt_id (moneys sample_batch_db)) i" if "i \<in> set sample_batch_items" for i
    using that
    by (auto simp: item_ok_def item_cents_def whole_cents_def cents_eq_def cents_round_def
        find_row_def directions_for_def sample_batch_items_def sample_batch_db_def sample_defs)
  then have "request_ok sample_batch_db PURCHASE_PAYMENT sample_batch_items None None True"
    by (simp add: request_ok_def sides expected_matches_def sample_batch_sums bill_open_def
        fund_open_def sample_batch_opens)
  then show ?thesis
    using sample_batch_finance
    by (simp add: create_ok_def confirm_args_def create_args_ok_def sample_batch_def
        ReconciliationDirection_values_def ReconciliationMode_values_def)
       (simp add: sample_batch_items_def)
qed

lemma sample_confirm:
  "\<exists>rc d'. confirm_settlement_batch 5 sample_ids 50 finance_actor sample_batch_items 1
     sample_batch_db = Inr (rc, d')"
proof -
  have "find_row sb_id (settlements sample_batch_db) 50 = Some sample_batch"
    by (simp add: find_row_def sample_batch_db_def sample_batch_def)
  moreover have "validate_batch_version sample_batch 1 = Inr ()"
    by (simp add: validate_batch_version_def sample_batch_def)
  ultimately show ?thesis
    by (simp add: confirm_settlement_batch_def sample_batch_finance sample_batch_valid
        create_reconciliation_eq [OF sample_batch_create_ok])
qed

section \<open>Confirming\<close>

text \<open>What a confirmation leaves behind.\<close>

lemma confirmed_rows:
  assumes led: "ledger_ok d" and fresh: "fresh_recon ids d"
    and res: "confirm_settlement_batch now ids b a items version d = Inr (rc, d')"
  shows "ledger_ok d'
    \<and> (\<forall>k\<in>set (batch_invoice_ids d b). invoice_open_amount d' k = Inr 0)
    \<and> (\<forall>k\<in>set (batch_money_ids d b). transaction_open_amount d' k = Inr 0)
    \<and> (\<exists>batch. find_row sb_id (settlements d') b = Some batch
         \<and> sb_status batch = SettlementStatus_CONFIRMED \<and> sb_version batch = version + 1)"
  using res
proof (rule confirm_Inr)
  fix batch d1
  assume found: "find_row sb_id (settlements d) b = Some batch" and ver: "version = sb_version batch"
    and valid: "validate_batch_allocations d batch items = Inr ()"
  let ?args = "confirm_args a batch items"
  have bid: "sb_id batch = b" using find_row_Some [OF found] by simp
  have ok: "create_ok ?args d" and d': "d' = (created_db now ids ?args d)
        \<lparr>settlements := mark_confirmed batch (settlements d)\<rparr>"
    using confirm_frame [OF res found] by simp_all
  have items: "cr_allocations ?args = items" by (simp add: confirm_args_def)
  have "ledger_ok d'"
    by (rule ledger_ok_cong [OF created_ledger [OF ok led fresh]]) (simp_all add: d')
  moreover have "\<forall>k\<in>set (batch_invoice_ids d b). invoice_open_amount d' k = Inr 0"
    "\<forall>k\<in>set (batch_money_ids d b). transaction_open_amount d' k = Inr 0"
  proof -
    obtain bos fos where opens: "traverse (invoice_open_amount d) (batch_invoice_ids d b) = Inr bos"
        "traverse (transaction_open_amount d) (batch_money_ids d b) = Inr fos"
      and tot: "validate_allocation_totals items (zip (batch_invoice_ids d b) bos)
          (zip (batch_money_ids d b) fos) = Inr ()"
      using validate_batch_Inr [OF valid] unfolding bid by metis
    have "\<forall>i\<in>set items. cent_item i"
      using ok item_ok_cent by (auto simp: create_ok_def request_ok_def items)
    then have eqs: "\<forall>(k, v)\<in>set (zip (batch_invoice_ids d b) bos). requested ai_invoice items k = v"
      "\<forall>(k, v)\<in>set (zip (batch_money_ids d b) fos). requested ai_transaction items k = v"
      using tot validate_totals_iff create_ok_requested_small [OF led ok] by (simp_all add: items)
    have "invoice_open_amount d' k =
        map_sum id (\<lambda>v. v - requested ai_invoice items k) (invoice_open_amount d k)"
      "transaction_open_amount d' k =
        map_sum id (\<lambda>v. v - requested ai_transaction items k) (transaction_open_amount d k)" for k
    proof -
      have "invoice_open_amount d' k = invoice_open_amount (created_db now ids ?args d) k"
        "transaction_open_amount d' k = transaction_open_amount (created_db now ids ?args d) k"
        by (rule invoice_open_cong transaction_open_cong; simp add: d')+
      then show "invoice_open_amount d' k =
          map_sum id (\<lambda>v. v - requested ai_invoice items k) (invoice_open_amount d k)"
        "transaction_open_amount d' k =
          map_sum id (\<lambda>v. v - requested ai_transaction items k) (transaction_open_amount d k)"
        using created_open [OF fresh led, of now ?args k] by (simp_all add: items)
    qed
    then show "\<forall>k\<in>set (batch_invoice_ids d b). invoice_open_amount d' k = Inr 0"
      "\<forall>k\<in>set (batch_money_ids d b). transaction_open_amount d' k = Inr 0"
      using eqs traverse_zip [OF opens(1)] traverse_zip [OF opens(2)] by fastforce+
  qed
  moreover have "find_row sb_id (settlements d') b = Some
      (batch\<lparr>sb_status := SettlementStatus_CONFIRMED, sb_version := sb_version batch + 1\<rparr>)"
    using mark_confirmed_find [of "settlements d" batch batch] found by (simp add: bid d')
  ultimately show ?thesis by (simp add: ver)
qed

text \<open>
  C7. Confirming a batch reconciles it completely: every invoice and every transaction of
  the batch has no open amount left, the batch is marked confirmed under the next version
  number, and the ledger invariant holds.
\<close>

theorem confirm_closes:
  assumes led: "ledger_ok d" and fresh: "fresh_recon ids d"
    and res: "confirm_settlement_batch now ids b a items version d = Inr (rc, d')"
  shows "ledger_ok d'
    \<and> (\<forall>k\<in>set (batch_invoice_ids d b). invoice_open_amount d' k = Inr 0)
    \<and> (\<forall>k\<in>set (batch_money_ids d b). transaction_open_amount d' k = Inr 0)
    \<and> (\<exists>batch. find_row sb_id (settlements d') b = Some batch
         \<and> sb_status batch = SettlementStatus_CONFIRMED \<and> sb_version batch = version + 1)"
  by (rule confirmed_rows [OF assms])

lemma confirm_closes_witness:
  "\<exists>d'. ledger_ok d' \<and> invoice_open_amount d' 5 = Inr 0 \<and> transaction_open_amount d' 4 = Inr 0"
  using sample_confirm confirm_closes [OF sample_batch_ledger sample_batch_fresh]
  by (fastforce simp: sample_batch_ids)

text \<open>
  A batch is confirmed at most once: after a confirmation every further attempt on the
  same batch fails, whatever version and items it brings, and the same caller is told that
  the batch was confirmed already.
\<close>

theorem confirm_once:
  assumes "confirm_settlement_batch now ids b a items version d = Inr (rc, d')"
  shows "confirm_settlement_batch now2 ids2 b a items2 version2 d' = Inl (ValidationError msg_confirmed)
    \<and> (\<forall>a2. \<exists>e. confirm_settlement_batch now2 ids2 b a2 items2 version2 d' = Inl e)"
  using assms
proof (rule confirm_Inr)
  fix batch d1
  assume fin: "require_finance_actor d a msg_finance_only = Inr ()"
    and found: "find_row sb_id (settlements d) b = Some batch"
  let ?done = "batch\<lparr>sb_status := SettlementStatus_CONFIRMED, sb_version := sb_version batch + 1\<rparr>"
  have d': "d' = (created_db now ids (confirm_args a batch items) d)
        \<lparr>settlements := mark_confirmed batch (settlements d)\<rparr>"
    using confirm_frame [OF assms found] by simp
  have "find_row sb_id (settlements d') b = Some ?done"
    using mark_confirmed_find [of "settlements d" batch batch] found find_row_Some [OF found]
    by (simp add: d')
  moreover have "validate_batch_version ?done v = Inl (ValidationError msg_confirmed)" for v
    by (simp add: validate_batch_version_def)
  moreover have "require_finance_actor d' a msg_finance_only = Inr ()"
    using fin require_finance_actor_cong [of d' d] by (simp add: d' created_frame)
  ultimately show ?thesis
    by (auto simp: confirm_settlement_batch_def bindE_def split: sum.splits)
qed

lemma confirm_once_example:
  "\<exists>d'. confirm_settlement_batch 6 sample_ids 50 finance_actor sample_batch_items 1 d' =
     Inl (ValidationError msg_confirmed)"
  using sample_confirm confirm_once by blast

lemma validate_batch_records_money:
  assumes "validate_batch_records batch bills funds = Inr ()"
  shows "\<exists>dir. \<forall>m\<in>set funds. \<exists>u. validate_batch_money batch dir m = Inr u"
proof (cases "settlement_directions_for (sb_direction batch)")
  case (Inl e)
  with assms show ?thesis by (simp add: validate_batch_records_def)
next
  case (Inr p)
  with assms have "\<exists>us. traverse (validate_batch_money batch (snd p)) funds = Inr us"
    by (auto simp: validate_batch_records_def bindE_Inr_iff split: prod.splits)
  then show ?thesis unfolding traverse_unit by blast
qed

text \<open>
  C8. A transaction of the batch whose UTC day lies outside the period blocks the batch:
  no caller can confirm it, with whatever items. Batches are drawn up by the local day, so
  a transaction in the first hours of the first local day of the period is taken into the
  batch and then blocks it.
\<close>

theorem utc_day_blocks_batch:
  assumes "find_row sb_id (settlements d) b = Some batch" "m \<in> set (moneys d)"
    and "mt_id m \<in> set (batch_money_ids d b)"
    and "utc_date (mt_occurred_at m) < sb_period_start batch"
  shows "\<exists>e. confirm_settlement_batch now ids b a items version d = Inl e"
proof (cases "confirm_settlement_batch now ids b a items version d")
  case (Inr r)
  then obtain rc d' where "confirm_settlement_batch now ids b a items version d = Inr (rc, d')"
    by (cases r) auto
  then show ?thesis
  proof (rule confirm_Inr)
    fix batch2 d1
    assume "find_row sb_id (settlements d) b = Some batch2"
      and valid: "validate_batch_allocations d batch2 items = Inr ()"
    then have b2: "batch2 = batch" "sb_id batch = b" using assms(1) find_row_Some [OF assms(1)] by auto
    from valid [unfolded b2(1)] show ?thesis
    proof (rule validate_batch_Inr)
      assume "validate_batch_records batch
          (filter (\<lambda>x. inv_id x \<in> set (batch_invoice_ids d (sb_id batch))) (invoices d))
          (filter (\<lambda>x. mt_id x \<in> set (batch_money_ids d (sb_id batch))) (moneys d)) = Inr ()"
      from validate_batch_records_money [OF this] obtain dir
        where "\<forall>x\<in>set (filter (\<lambda>x. mt_id x \<in> set (batch_money_ids d b)) (moneys d)).
          \<exists>u. validate_batch_money batch dir x = Inr u"
        unfolding b2(2) by blast
      then have "\<exists>u. validate_batch_money batch dir m = Inr u" using assms(2,3) by simp
      then show ?thesis using assms(4) by (auto simp: validate_batch_money_def split: if_splits)
    qed
  qed
qed simp

text \<open>
  The concrete case: an invoice of day 719173 and a payment at two o'clock in the morning
  of that day at an offset of eight hours. The batch of that single day is created with
  both rows, and nobody can confirm it.
\<close>

definition offset_day :: "instant \<Rightarrow> date" where
  "offset_day t = (t + 28800000000) div 86400000000 + 719163"

definition early_db :: db where
  "early_db = sample_db\<lparr>invoices := [sample_invoice 1 719173 10000],
     moneys := [sample_money 3 842400000000 10000]\<rparr>"

definition early_batch :: settlement_batch where
  "early_batch = \<lparr>sb_id = 100, sb_counterparty = 7, sb_direction = PURCHASE_PAYMENT,
     sb_period_start = 719173, sb_period_end = 719173, sb_status = SettlementStatus_DRAFT,
     sb_version = 1, sb_created_by = 1\<rparr>"

lemma early_rows:
  "settlement_invoices_for early_db 7 InvoiceDirection_INPUT 719173 719173 =
     [sample_invoice 1 719173 10000]"
  "settlement_moneys_for offset_day early_db 7 MoneyDirection_OUTFLOW 719173 719173 =
     [sample_money 3 842400000000 10000]"
  by (simp_all add: settlement_invoices_for_def settlement_moneys_for_def annotated_open_def
      allocated_by_def has_active_allocation_def offset_day_def early_db_def sample_defs)

lemma early_created:
  "\<exists>d'. create_settlement_batch offset_day 5 sample_ids finance_actor 7 PURCHASE_PAYMENT
       719173 719173 early_db = Inr (early_batch, d')
     \<and> settlements d' = [early_batch] \<and> moneys d' = moneys early_db
     \<and> batch_money_ids d' 100 = [3]"
proof -
  have fin: "require_finance_actor early_db finance_actor m = Inr ()" for m
    using sample_finance require_finance_actor_cong [of early_db sample_db]
    by (simp add: early_db_def)
  show ?thesis
    by (simp add: create_settlement_batch_def fin settlement_directions_for_def early_rows
        record_audit_finance [OF fin] settlement_rows_def batch_money_ids_def early_batch_def
        sample_ids_def)
       (simp add: early_db_def sample_defs find_row_def Let_def)
qed

lemma utc_day_blocks_batch_witness:
  "\<exists>d'. create_settlement_batch offset_day 5 sample_ids finance_actor 7 PURCHASE_PAYMENT
       719173 719173 early_db = Inr (early_batch, d')
     \<and> (\<forall>a items version. \<exists>e. confirm_settlement_batch 6 sample_ids 100 a items version d' = Inl e)"
proof -
  obtain d' where d': "create_settlement_batch offset_day 5 sample_ids finance_actor 7
      PURCHASE_PAYMENT 719173 719173 early_db = Inr (early_batch, d')"
    "settlements d' = [early_batch]" "moneys d' = moneys early_db" "batch_money_ids d' 100 = [3]"
    using early_created by blast
  have "find_row sb_id (settlements d') 100 = Some early_batch"
    by (simp add: d' find_row_def early_batch_def)
  moreover have "sample_money 3 842400000000 10000 \<in> set (moneys d')"
    by (simp add: d' early_db_def)
  moreover have "mt_id (sample_money 3 842400000000 10000) \<in> set (batch_money_ids d' 100)"
    by (simp add: d' sample_money_def)
  moreover have "utc_date (mt_occurred_at (sample_money 3 842400000000 10000))
      < sb_period_start early_batch"
    by (simp add: utc_date_def sample_money_def early_batch_def)
  ultimately show ?thesis using utc_day_blocks_batch d'(1) by blast
qed

end
