(* ===== verification/Presenter_Properties.thy ===== *)
theory Presenter_Properties
  imports Recon_Presenters Settlement_Properties
begin

text \<open>
  The settlement page and the confirmation fit together: the plan the page proposes is one
  the confirmation accepts.
\<close>

section \<open>The plan as a request\<close>

lemma requested_plan:
  "requested ai_invoice (as_allocation_inputs rows) k = row_sum ar_invoice rows k"
  "requested ai_transaction (as_allocation_inputs rows) k = row_sum ar_transaction rows k"
  by (induction rows) (simp_all add: as_allocation_inputs_def requested_Cons item_cents_def)

lemma traverse_projr: "traverse f xs = Inr ys \<Longrightarrow> ys = map (projr \<circ> f) xs \<and> (\<forall>x\<in>set xs. \<exists>y. f x = Inr y)"
  by (induction xs arbitrary: ys) (auto simp: bindE_Inr_iff)

lemma batch_rows_set:
  "set (batch_invoice_rows d b) = set (batch_invoice_ids d b)"
  "set (batch_money_rows d b) = set (batch_money_ids d b)"
  by (auto simp: batch_invoice_rows_def batch_invoice_ids_def batch_money_rows_def
      batch_money_ids_def)

text \<open>The unique constraints of the two item tables of a batch.\<close>

definition batch_unique :: "db \<Rightarrow> uuid \<Rightarrow> bool" where
  "batch_unique d b \<longleftrightarrow>
     distinct (map si_invoice (filter (\<lambda>x. si_batch x = b) (settlement_invoices d)))
     \<and> distinct (map sm_transaction (filter (\<lambda>x. sm_batch x = b) (settlement_moneys d)))"

lemma batch_rows_distinct:
  "batch_unique d b \<Longrightarrow> distinct (batch_invoice_rows d b) \<and> distinct (batch_money_rows d b)"
  by (simp add: batch_unique_def batch_invoice_rows_def batch_money_rows_def distinct_map)

lemma batch_records_D:
  assumes "validate_batch_records batch bills funds = Inr ()"
  shows "sb_direction batch \<in> set ReconciliationDirection_values"
    and "x \<in> set bills \<Longrightarrow> inv_counterparty x = sb_counterparty batch
      \<and> inv_direction x = fst (directions_for (sb_direction batch))"
    and "m \<in> set funds \<Longrightarrow> mt_counterparty m = Some (sb_counterparty batch)
      \<and> mt_direction m = snd (directions_for (sb_direction batch))"
proof -
  from assms obtain p where p: "settlement_directions_for (sb_direction batch) = Inr p"
    by (auto simp: validate_batch_records_def bindE_Inr_iff)
  then show "sb_direction batch \<in> set ReconciliationDirection_values"
    by (auto simp: settlement_directions_for_def ReconciliationDirection_values_def split: if_splits)
  have dirs: "p = directions_for (sb_direction batch)"
    using p by (auto simp: settlement_directions_for_def directions_for_def split: if_splits)
  have "\<exists>us. traverse (validate_batch_invoice batch (fst p)) bills = Inr us"
    "\<exists>us. traverse (validate_batch_money batch (snd p)) funds = Inr us"
    using assms p by (auto simp: validate_batch_records_def bindE_Inr_iff split: prod.splits)
  then have all: "\<forall>x\<in>set bills. \<exists>u. validate_batch_invoice batch (fst p) x = Inr u"
    "\<forall>m\<in>set funds. \<exists>u. validate_batch_money batch (snd p) m = Inr u"
    unfolding traverse_unit by blast+
  show "x \<in> set bills \<Longrightarrow> inv_counterparty x = sb_counterparty batch
      \<and> inv_direction x = fst (directions_for (sb_direction batch))"
    using bspec [OF all(1), of x]
    by (auto simp: validate_batch_invoice_def dirs [symmetric] split: if_splits)
  show "m \<in> set funds \<Longrightarrow> mt_counterparty m = Some (sb_counterparty batch)
      \<and> mt_direction m = snd (directions_for (sb_direction batch))"
    using bspec [OF all(2), of m]
    by (auto simp: validate_batch_money_def dirs [symmetric] split: if_splits)
qed

section \<open>A page that can be confirmed\<close>

lemma settlement_context_Inr:
  assumes "settlement_context d batch = Inr page" "pg_can_confirm page"
    and pos: "\<forall>k\<in>set (batch_invoice_ids d (sb_id batch)). 0 < bill_open d k"
      "\<forall>k\<in>set (batch_money_ids d (sb_id batch)). 0 < fund_open d k"
  defines "xs \<equiv> map (\<lambda>i. (i, bill_open d i)) (batch_invoice_rows d (sb_id batch))"
    and "ts \<equiv> map (\<lambda>i. (i, fund_open d i)) (batch_money_rows d (sb_id batch))"
  shows "pg_allocation_rows page = plan_loop xs ts" "plan_loop xs ts \<noteq> []"
    "sum_list (map snd xs) = sum_list (map snd ts)"
    "\<forall>k\<in>set (batch_invoice_ids d (sb_id batch)). invoice_open_amount d k = Inr (bill_open d k)"
    "\<forall>k\<in>set (batch_money_ids d (sb_id batch)). transaction_open_amount d k = Inr (fund_open d k)"
    "\<not> externally_occupied d (sb_id batch) (batch_invoice_ids d (sb_id batch))
       (batch_money_ids d (sb_id batch))"
proof -
  let ?b = "sb_id batch" and ?ext = "external_allocations d (sb_id batch)"
  let ?f = "\<lambda>i. map_sum id (\<lambda>v. settlement_item_of i v (i \<in> ra_invoice ` set ?ext)) (invoice_open_amount d i)"
  let ?g = "\<lambda>i. map_sum id (\<lambda>v. settlement_item_of i v (i \<in> ra_transaction ` set ?ext))
      (transaction_open_amount d i)"
  from assms(1) obtain bills funds where
      bs: "traverse ?f (batch_invoice_rows d ?b) = Inr bills"
      and fs: "traverse ?g (batch_money_rows d ?b) = Inr funds"
      and rows: "pg_allocation_rows page = allocation_plan bills funds"
      and can: "pg_can_confirm page = (allocation_plan bills funds \<noteq> []
        \<and> free_total bills = free_total funds \<and> \<not> list_ex it_occupied (bills @ funds))"
    by (auto simp: settlement_context_def Let_def bindE_Inr_iff)
  have "\<forall>k\<in>set (batch_invoice_ids d ?b). \<exists>y. ?f k = Inr y"
    using traverse_projr [OF bs] by (simp add: batch_rows_set)
  then show bo: "\<forall>k\<in>set (batch_invoice_ids d ?b). invoice_open_amount d k = Inr (bill_open d k)"
    by (auto simp: bill_open_def split: sum.splits)
  have "\<forall>k\<in>set (batch_money_ids d ?b). \<exists>y. ?g k = Inr y"
    using traverse_projr [OF fs] by (simp add: batch_rows_set)
  then show fo: "\<forall>k\<in>set (batch_money_ids d ?b). transaction_open_amount d k = Inr (fund_open d k)"
    by (auto simp: fund_open_def split: sum.splits)
  have bills: "bills = map (\<lambda>i. settlement_item_of i (bill_open d i) (i \<in> ra_invoice ` set ?ext))
      (batch_invoice_rows d ?b)"
    using traverse_projr [OF bs] bo by (auto simp: batch_rows_set)
  have funds: "funds = map (\<lambda>i. settlement_item_of i (fund_open d i) (i \<in> ra_transaction ` set ?ext))
      (batch_money_rows d ?b)"
    using traverse_projr [OF fs] fo by (auto simp: batch_rows_set)
  have free: "\<not> list_ex it_occupied (bills @ funds)" using can assms(2) by simp
  have free2: "\<forall>x\<in>set bills. \<not> it_occupied x" "\<forall>x\<in>set funds. \<not> it_occupied x"
    using free by (auto simp: list_ex_iff)
  have notb: "i \<notin> ra_invoice ` set ?ext" if "i \<in> set (batch_invoice_ids d ?b)" for i
    using free2(1) that by (simp add: bills settlement_item_of_def batch_rows_set)
  have nott: "i \<notin> ra_transaction ` set ?ext" if "i \<in> set (batch_money_ids d ?b)" for i
    using free2(2) that by (simp add: funds settlement_item_of_def batch_rows_set)
  show "\<not> externally_occupied d ?b (batch_invoice_ids d ?b) (batch_money_ids d ?b)"
    using notb nott by (auto simp: externally_occupied_def list_ex_iff external_allocations_def)
  have xs: "map remaining_of bills = xs"
    using notb pos(1) by (auto simp: bills xs_def remaining_of_def settlement_item_of_def batch_rows_set)
  have ts: "map remaining_of funds = ts"
    using nott pos(2) by (auto simp: funds ts_def remaining_of_def settlement_item_of_def batch_rows_set)
  show "pg_allocation_rows page = plan_loop xs ts" "plan_loop xs ts \<noteq> []"
    using rows can assms(2) by (simp_all add: allocation_plan_def xs ts)
  have "filter (\<lambda>x. \<not> it_occupied x) bills = bills" "filter (\<lambda>x. \<not> it_occupied x) funds = funds"
    using free by (auto simp: list_ex_iff filter_id_conv)
  then have "free_total bills = sum_list (map snd xs)" "free_total funds = sum_list (map snd ts)"
    by (simp_all add: free_total_def bills funds xs_def ts_def comp_def settlement_item_of_def)
  then show "sum_list (map snd xs) = sum_list (map snd ts)" using can assms(2) by simp
qed

section \<open>A batch that is ready\<close>

text \<open>
  A draft batch whose rows still belong to its counterparty, direction and period, are not
  void or red, and have open amounts.
\<close>

definition batch_ready :: "db \<Rightarrow> settlement_batch \<Rightarrow> bool" where
  "batch_ready d batch \<longleftrightarrow>
     find_row sb_id (settlements d) (sb_id batch) = Some batch
     \<and> sb_status batch = SettlementStatus_DRAFT \<and> batch_unique d (sb_id batch)
     \<and> validate_batch_records batch
          (filter (\<lambda>x. inv_id x \<in> set (batch_invoice_ids d (sb_id batch))) (invoices d))
          (filter (\<lambda>x. mt_id x \<in> set (batch_money_ids d (sb_id batch))) (moneys d)) = Inr ()
     \<and> (\<forall>x\<in>set (invoices d). inv_id x \<in> set (batch_invoice_ids d (sb_id batch))
          \<longrightarrow> inv_status x = InvoiceStatus_NORMAL)
     \<and> (\<forall>k\<in>set (batch_invoice_ids d (sb_id batch)). 0 < bill_open d k)
     \<and> (\<forall>k\<in>set (batch_money_ids d (sb_id batch)). 0 < fund_open d k)"

abbreviation plan_bills :: "db \<Rightarrow> uuid \<Rightarrow> (uuid \<times> money) list" where
  "plan_bills d b \<equiv> map (\<lambda>i. (i, bill_open d i)) (batch_invoice_rows d b)"

abbreviation plan_funds :: "db \<Rightarrow> uuid \<Rightarrow> (uuid \<times> money) list" where
  "plan_funds d b \<equiv> map (\<lambda>i. (i, fund_open d i)) (batch_money_rows d b)"

lemma row_sum_other:
  "(\<And>r. r \<in> set rows \<Longrightarrow> side r \<noteq> k) \<Longrightarrow> row_sum side rows k = 0"
  by (simp add: row_sum_def filter_False_conv)

lemma plan_facts:
  assumes ready: "batch_ready d batch"
    and eq: "sum_list (map snd (plan_bills d (sb_id batch))) = sum_list (map snd (plan_funds d (sb_id batch)))"
  defines "rows \<equiv> plan_loop (plan_bills d (sb_id batch)) (plan_funds d (sb_id batch))"
    and "bs \<equiv> set (batch_invoice_ids d (sb_id batch))" and "ms \<equiv> set (batch_money_ids d (sb_id batch))"
  shows "row_sum ar_invoice rows k = (if k \<in> bs then bill_open d k else 0)"
    "row_sum ar_transaction rows k = (if k \<in> ms then fund_open d k else 0)"
    "r \<in> set rows \<Longrightarrow> 0 < ar_amount r \<and> ar_invoice r \<in> bs \<and> ar_transaction r \<in> ms"
    "distinct (map (\<lambda>r. (ar_invoice r, ar_transaction r)) rows)"
    "ar_invoice ` set rows = bs" "ar_transaction ` set rows = ms"
proof -
  let ?xs = "plan_bills d (sb_id batch)" and ?ts = "plan_funds d (sb_id batch)"
  have pos: "\<forall>k\<in>bs. 0 < bill_open d k" "\<forall>k\<in>ms. 0 < fund_open d k"
    using ready by (simp_all add: batch_ready_def bs_def ms_def)
  have nn: "\<forall>x\<in>set ?xs. 0 \<le> snd x" "\<forall>x\<in>set ?ts. 0 \<le> snd x"
    using pos by (auto simp: batch_rows_set bs_def ms_def)
  have keys: "fst ` set ?xs = bs" "fst ` set ?ts = ms"
    by (simp_all add: image_image batch_rows_set bs_def ms_def)
  have d: "distinct (map fst ?xs)" "distinct (map fst ?ts)"
    using batch_rows_distinct [of d "sb_id batch"] ready by (simp_all add: batch_ready_def comp_def)
  have mem: "0 < ar_amount r \<and> ar_invoice r \<in> bs \<and> ar_transaction r \<in> ms" if "r \<in> set rows" for r
    using plan_loop_rows [OF nn] that unfolding keys rows_def by blast
  then show "r \<in> set rows \<Longrightarrow> 0 < ar_amount r \<and> ar_invoice r \<in> bs \<and> ar_transaction r \<in> ms" .
  have other: "k \<notin> bs \<Longrightarrow> row_sum ar_invoice rows k = 0" "k \<notin> ms \<Longrightarrow> row_sum ar_transaction rows k = 0" for k
    by (rule row_sum_other; use mem in blast)+
  have "k \<in> bs \<Longrightarrow> row_sum ar_invoice rows k = bill_open d k" for k
    unfolding rows_def by (rule plan_loop_full(1) [OF nn d eq]) (simp add: bs_def batch_rows_set)
  with other show sum_b: "row_sum ar_invoice rows k = (if k \<in> bs then bill_open d k else 0)" for k
    by simp
  have "k \<in> ms \<Longrightarrow> row_sum ar_transaction rows k = fund_open d k" for k
    unfolding rows_def by (rule plan_loop_full(2) [OF nn d eq]) (simp add: ms_def batch_rows_set)
  with other show sum_m: "row_sum ar_transaction rows k = (if k \<in> ms then fund_open d k else 0)" for k
    by simp
  show "distinct (map (\<lambda>r. (ar_invoice r, ar_transaction r)) rows)"
    unfolding rows_def by (rule plan_loop_distinct [OF nn d])
  have "k \<in> ar_invoice ` set rows" if "k \<in> bs" for k
    using that sum_b [of k] pos(1) row_sum_other [of rows ar_invoice k] by force
  then show "ar_invoice ` set rows = bs" using mem by blast
  have "k \<in> ar_transaction ` set rows" if "k \<in> ms" for k
    using that sum_m [of k] pos(2) row_sum_other [of rows ar_transaction k] by force
  then show "ar_transaction ` set rows = ms" using mem by blast
qed

lemma as_inputs_sides:
  "ai_invoice ` set (as_allocation_inputs rows) = ar_invoice ` set rows"
  "ai_transaction ` set (as_allocation_inputs rows) = ar_transaction ` set rows"
  "map (\<lambda>i. (ai_invoice i, ai_transaction i)) (as_allocation_inputs rows) =
     map (\<lambda>r. (ar_invoice r, ar_transaction r)) rows"
  by (auto simp: as_allocation_inputs_def image_image)

lemma as_inputs_item:
  "i \<in> set (as_allocation_inputs rows) \<Longrightarrow> \<exists>r\<in>set rows. ai_invoice i = ar_invoice r
     \<and> ai_transaction i = ar_transaction r \<and> ai_amount i = Some (Fin (ar_amount r) (- 2))
     \<and> item_cents i = ar_amount r"
  by (auto simp: as_allocation_inputs_def item_cents_def)

text \<open>The plan passes the checks of the confirmation.\<close>

lemma plan_valid:
  assumes led: "ledger_ok d" and ready: "batch_ready d batch"
    and page: "settlement_context d batch = Inr page" "pg_can_confirm page"
  shows "validate_batch_allocations d batch (as_allocation_inputs (pg_allocation_rows page)) = Inr ()"
proof -
  let ?b = "sb_id batch"
  have pos: "\<forall>k\<in>set (batch_invoice_ids d ?b). 0 < bill_open d k"
    "\<forall>k\<in>set (batch_money_ids d ?b). 0 < fund_open d k"
    using ready by (simp_all add: batch_ready_def)
  note ctx = settlement_context_Inr [OF page pos]
  note facts = plan_facts [OF ready ctx(3)]
  let ?rows = "plan_loop (plan_bills d ?b) (plan_funds d ?b)"
  let ?items = "as_allocation_inputs ?rows"
  have opens: "traverse (invoice_open_amount d) (batch_invoice_ids d ?b) =
      Inr (map (bill_open d) (batch_invoice_ids d ?b))"
    "traverse (transaction_open_amount d) (batch_money_ids d ?b) =
      Inr (map (fund_open d) (batch_money_ids d ?b))"
    by (rule traverse_map; use ctx(4,5) in blast)+
  have small: "requested ai_invoice ?items k < 10 ^ 28" "requested ai_transaction ?items k < 10 ^ 28" for k
    unfolding requested_plan facts(1,2) using bill_open_cap [OF led, of k] by (auto simp: max_cents_def)
  have cents: "\<forall>i\<in>set ?items. cent_item i"
    using facts(3) by (auto simp: cent_item_def dest!: as_inputs_item)
  have tot: "validate_allocation_totals ?items
      (zip (batch_invoice_ids d ?b) (map (bill_open d) (batch_invoice_ids d ?b)))
      (zip (batch_money_ids d ?b) (map (fund_open d) (batch_money_ids d ?b))) = Inr ()"
    unfolding validate_totals_iff [OF cents small] requested_plan facts(1,2)
    by (auto simp: zip_map2 zip_same_conv_map)
  have ne: "?items \<noteq> []" using ctx(2) by (simp add: as_allocation_inputs_def)
  have "set (batch_invoice_ids d ?b) \<noteq> {}" "set (batch_money_ids d ?b) \<noteq> {}"
    using ctx(2) unfolding facts(5,6) [symmetric] by simp_all
  then have ids: "batch_invoice_ids d ?b \<noteq> []" "batch_money_ids d ?b \<noteq> []" by auto
  have "\<not> list_ex (\<lambda>v. v \<le> 0) (map (bill_open d) (batch_invoice_ids d ?b))"
    "\<not> list_ex (\<lambda>v. v \<le> 0) (map (fund_open d) (batch_money_ids d ?b))"
    using pos by (auto simp: list_ex_iff)
  then show ?thesis
    using ready ids ne tot ctx(6) facts(4)
    by (simp add: validate_batch_allocations_def Let_def ctx(1) as_inputs_sides facts(5,6) opens
        batch_ready_def)
qed

lemma plan_create_ok:
  assumes led: "ledger_ok d" and ready: "batch_ready d batch"
    and fin: "require_finance_actor d a msg_finance_only = Inr ()"
    and page: "settlement_context d batch = Inr page" "pg_can_confirm page"
  shows "create_ok (confirm_args a batch (as_allocation_inputs (pg_allocation_rows page))) d"
proof -
  let ?b = "sb_id batch"
  have pos: "\<forall>k\<in>set (batch_invoice_ids d ?b). 0 < bill_open d k"
    "\<forall>k\<in>set (batch_money_ids d ?b). 0 < fund_open d k"
    and recs: "validate_batch_records batch
          (filter (\<lambda>x. inv_id x \<in> set (batch_invoice_ids d ?b)) (invoices d))
          (filter (\<lambda>x. mt_id x \<in> set (batch_money_ids d ?b)) (moneys d)) = Inr ()"
    and normal: "\<forall>x\<in>set (invoices d). inv_id x \<in> set (batch_invoice_ids d ?b)
          \<longrightarrow> inv_status x = InvoiceStatus_NORMAL"
    using ready by (simp_all add: batch_ready_def)
  note ctx = settlement_context_Inr [OF page pos]
  note facts = plan_facts [OF ready ctx(3)]
  note recD = batch_records_D [OF recs]
  let ?rows = "plan_loop (plan_bills d ?b) (plan_funds d ?b)"
  let ?items = "as_allocation_inputs ?rows"
  have le: "row_sum ar_invoice ?rows k \<le> bill_open d k" if "k \<in> set (batch_invoice_ids d ?b)" for k
    using that facts(1) by simp
  have item: "item_ok (sb_direction batch) (find_row inv_id (invoices d)) (find_row mt_id (moneys d)) i"
    if "i \<in> set ?items" for i
  proof -
    obtain r where r: "r \<in> set ?rows" "ai_invoice i = ar_invoice r"
        "ai_transaction i = ar_transaction r" "ai_amount i = Some (Fin (ar_amount r) (- 2))"
        "item_cents i = ar_amount r"
      using as_inputs_item [OF \<open>i \<in> set ?items\<close>] by blast
    have mem: "0 < ar_amount r" "ar_invoice r \<in> set (batch_invoice_ids d ?b)"
      "ar_transaction r \<in> set (batch_money_ids d ?b)" using facts(3) [OF r(1)] by blast+
    have "ar_amount r \<le> row_sum ar_invoice ?rows (ar_invoice r)"
    proof -
      have "ar_amount r \<in> set (map ar_amount (filter (\<lambda>x. ar_invoice x = ar_invoice r) ?rows))"
        using r(1) by simp
      then show ?thesis
        unfolding row_sum_def using facts(3) by (intro member_le_sum_list) (auto simp: less_imp_le)
    qed
    then have "ar_amount r < 10 ^ 28"
      using le [OF mem(2)] bill_open_cap(1) [OF led, of "ar_invoice r"] by (simp add: max_cents_def)
    moreover obtain bill where bill: "find_row inv_id (invoices d) (ar_invoice r) = Some bill"
      using ctx(4) mem(2) by (force simp: invoice_open_amount_def split: option.splits)
    moreover obtain m where m: "find_row mt_id (moneys d) (ar_transaction r) = Some m"
      using ctx(5) mem(3) by (force simp: transaction_open_amount_def split: option.splits)
    moreover have "inv_status bill = InvoiceStatus_NORMAL"
      using normal find_row_Some [OF bill] mem(2) by auto
    moreover have "inv_counterparty bill = sb_counterparty batch
        \<and> inv_direction bill = fst (directions_for (sb_direction batch))"
      using recD(2) [of bill] find_row_Some [OF bill] mem(2) by auto
    moreover have "mt_counterparty m = Some (sb_counterparty batch)
        \<and> mt_direction m = snd (directions_for (sb_direction batch))"
      using recD(3) [of m] find_row_Some [OF m] mem(3) by auto
    ultimately show ?thesis using r mem(1) by (simp add: item_ok_def)
  qed
  have "request_ok d (sb_direction batch) ?items None None True"
    unfolding request_ok_def as_inputs_sides requested_plan facts(1,2) facts(5,6)
    using item by (simp add: expected_matches_def)
  moreover have "?items \<noteq> []" using ctx(2) by (simp add: as_allocation_inputs_def)
  ultimately show ?thesis
    using fin recD(1)
    by (simp add: create_ok_def create_args_ok_def confirm_args_def ctx(1)
        ReconciliationMode_values_def)
qed

section \<open>Properties\<close>

text \<open>
  When the page of a draft batch says that the batch can be confirmed, submitting the
  plan the page shows confirms it: for a finance user, with the current version, provided
  the rows of the batch still belong to its counterparty, direction and period, are not
  void or red, and have open amounts.
\<close>

lemma plan_confirms:
  assumes "ledger_ok d" "batch_ready d batch"
    and "require_finance_actor d a msg_finance_only = Inr ()"
    and "settlement_context d batch = Inr page" "pg_can_confirm page"
  shows "\<exists>rc d'. confirm_settlement_batch now ids (sb_id batch) a
      (as_allocation_inputs (pg_allocation_rows page)) (sb_version batch) d = Inr (rc, d')"
proof -
  have "validate_batch_version batch (sb_version batch) = Inr ()"
    "find_row sb_id (settlements d) (sb_id batch) = Some batch"
    using assms(2) by (simp_all add: batch_ready_def validate_batch_version_def)
  then show ?thesis
    using assms(3) plan_valid [OF assms(1,2,4,5)]
      create_reconciliation_eq [OF plan_create_ok [OF assms(1,2,3,4,5)]]
    by (simp add: confirm_settlement_batch_def)
qed

lemma sample_batch_ready: "batch_ready sample_batch_db sample_batch"
  by (simp add: batch_ready_def batch_unique_def batch_invoice_ids_def batch_money_ids_def
      find_row_def bill_open_def fund_open_def invoice_open_amount_def transaction_open_amount_def
      allocated_by_def validate_batch_records_def settlement_directions_for_def
      validate_batch_invoice_def validate_batch_money_def utc_date_def sample_batch_def
      sample_batch_db_def sample_defs)

lemma sample_page:
  "\<exists>page. settlement_context sample_batch_db sample_batch = Inr page \<and> pg_can_confirm page"
  by (simp add: settlement_context_def batch_invoice_rows_def batch_money_rows_def
      external_allocations_def find_row_def invoice_open_amount_def transaction_open_amount_def
      allocated_by_def allocation_plan_def remaining_of_def settlement_item_of_def free_total_def
      plan_loop_step plan_loop_zero_bill sample_batch_def sample_batch_db_def sample_defs Let_def)

lemma plan_confirms_example:
  "\<exists>page rc d'. settlement_context sample_batch_db sample_batch = Inr page
     \<and> confirm_settlement_batch 5 sample_ids 50 finance_actor
         (as_allocation_inputs (pg_allocation_rows page)) 1 sample_batch_db = Inr (rc, d')"
proof -
  obtain page where page: "settlement_context sample_batch_db sample_batch = Inr page"
    "pg_can_confirm page" using sample_page by blast
  from plan_confirms [OF sample_batch_ledger sample_batch_ready sample_batch_finance page]
  show ?thesis using page(1) by (auto simp: sample_batch_def)
qed

end
