(* ===== verification/Candidate_Properties.thy ===== *)
theory Candidate_Properties
  imports Recon_Candidates Recon_Properties
begin

text \<open>
  What a candidate is worth: the search finds exactly the runs that add up, and an exact
  candidate is a reconciliation that goes through and closes every row it names.
\<close>

section \<open>The available transactions\<close>

abbreviation money_open :: "db \<Rightarrow> money_transaction \<Rightarrow> money" where
  "money_open d m \<equiv> side_open ra_transaction mt_id mt_amount d m"

lemma collect_open_Inr:
  assumes "\<And>r. r \<in> set rs \<Longrightarrow> opn r = Inr (f r)"
  shows "collect_open opn rs = Inr (map (\<lambda>r. (r, f r)) (filter (\<lambda>r. 0 < f r) rs))"
  using assms by (induction rs) auto

lemma money_for_invoice_mem:
  "m \<in> set (money_for_invoice ld d bill start stop) \<longleftrightarrow> m \<in> set (moneys d)
     \<and> mt_counterparty m = Some (inv_counterparty bill)
     \<and> mt_direction m = (if inv_direction bill = InvoiceDirection_INPUT
                         then MoneyDirection_OUTFLOW else MoneyDirection_INFLOW)
     \<and> start \<le> ld (mt_occurred_at m) \<and> ld (mt_occurred_at m) \<le> stop"
  by (auto simp: money_for_invoice_def)

lemma distinct_map_filter_key: "distinct (map f xs) \<Longrightarrow> distinct (map f (filter P xs))"
  by (induction xs) auto

lemma distinct_map_sort_key:
  "distinct (map f (sort_key k xs)) \<longleftrightarrow> distinct (map f xs)"
  by (simp add: distinct_map)

lemma money_for_invoice_distinct:
  "ledger_ok d \<Longrightarrow> distinct (map mt_id (money_for_invoice ld d bill start stop))"
  by (simp add: money_for_invoice_def distinct_map_sort_key distinct_map_filter_key ledger_ok_def
      ledger_keys_def)

definition open_money_for_invoice ::
    "(instant \<Rightarrow> date) \<Rightarrow> db \<Rightarrow> invoice \<Rightarrow> date \<Rightarrow> date \<Rightarrow> money_transaction list" where
  "open_money_for_invoice ld d bill start stop =
     filter (\<lambda>m. 0 < money_open d m) (money_for_invoice ld d bill start stop)"

definition as_avail :: "db \<Rightarrow> money_transaction \<Rightarrow> avail_tx" where
  "as_avail d m = \<lparr>av_id = mt_id m, av_at = mt_occurred_at m, av_open = money_open d m\<rparr>"

lemma available_eq:
  assumes "ledger_ok d"
  shows "available_transactions_for_invoice ld d bill start stop =
     Inr (map (as_avail d) (open_money_for_invoice ld d bill start stop))"
proof -
  have "collect_open (\<lambda>m. transaction_open_amount d (mt_id m)) (money_for_invoice ld d bill start stop)
      = Inr (map (\<lambda>m. (m, money_open d m)) (open_money_for_invoice ld d bill start stop))"
    unfolding open_money_for_invoice_def
    by (rule collect_open_Inr)
       (simp add: transaction_open_side [OF assms] money_for_invoice_mem)
  then show ?thesis
    by (simp add: available_transactions_for_invoice_def comp_def as_avail_def)
qed

lemma sublist_map_ex:
  assumes "sublist w (map f xs)"
  shows "\<exists>v. w = map f v \<and> sublist v xs"
proof -
  from assms obtain ps ss where "map f xs = ps @ w @ ss" by (auto simp: sublist_def)
  then obtain p q where p: "xs = p @ q" and q: "w @ ss = map f q"
    unfolding map_eq_append_conv by blast
  from q [symmetric] obtain v r where "q = v @ r" "w = map f v"
    unfolding map_eq_append_conv by blast
  with p have "xs = p @ v @ r" "w = map f v" by simp_all
  then show ?thesis by (auto simp: sublist_def)
qed

lemma sublist_distinct_map: "sublist v xs \<Longrightarrow> distinct (map f xs) \<Longrightarrow> distinct (map f v)"
  by (auto simp: sublist_def)

lemma sublist_map: "sublist v xs \<Longrightarrow> sublist (map f v) (map f xs)"
  by (metis sublist_def map_append)

text \<open>The exact candidates, as runs of open transactions.\<close>

lemma windows_available:
  assumes "ledger_ok d"
  shows "(w, t) \<in> set (contiguous_windows av_open target
       (map (as_avail d) (open_money_for_invoice ld d bill start stop))) \<longleftrightarrow>
     (\<exists>v. w = map (as_avail d) v \<and> v \<noteq> []
        \<and> sublist v (open_money_for_invoice ld d bill start stop)
        \<and> sum_list (map (money_open d) v) = target \<and> t = target)" (is "?l \<longleftrightarrow> ?r")
proof -
  let ?xs = "map (as_avail d) (open_money_for_invoice ld d bill start stop)"
  have pos: "\<And>x. x \<in> set ?xs \<Longrightarrow> 0 \<le> av_open x"
    by (auto simp: open_money_for_invoice_def as_avail_def)
  have sums: "sum_list (map av_open (map (as_avail d) v)) = sum_list (map (money_open d) v)" for v
    by (simp add: comp_def as_avail_def)
  show ?thesis
    by (subst contiguous_windows_iff [OF pos], assumption)
      (auto dest!: sublist_map_ex simp: sums [unfolded map_map] intro: sublist_map)
qed

section \<open>The search\<close>

lemma find_row_bill:
  "find_row inv_id (invoices d) i = Some bill \<Longrightarrow> bill \<in> set (invoices d) \<and> inv_id bill = i"
  by (rule find_row_Some)

lemma transaction_candidates_eq:
  fixes ld :: "instant \<Rightarrow> date"
  assumes "ledger_ok d" "start \<le> stop" "find_row inv_id (invoices d) i = Some bill"
    "0 < bill_open d i"
  defines "items \<equiv> map (as_avail d) (open_money_for_invoice ld d bill start stop)"
  shows "transaction_candidates ld d i (Some start) (Some stop) =
     Inr (let exact = map (exact_candidate i) (contiguous_windows av_open (bill_open d i) items)
          in if exact \<noteq> [] then exact
             else if items = [] then [] else [partial_candidate i (bill_open d i) items])"
  using assms(2-4) available_eq [OF assms(1)]
  by (auto simp: transaction_candidates_def validate_date_window_def bill_open_def
      invoice_open_amount_def items_def Let_def)

text \<open>
  The request that a reviewer makes of a candidate: each of its transactions with its
  whole open amount.
\<close>

definition candidate_items :: "db \<Rightarrow> uuid \<Rightarrow> uuid list \<Rightarrow> alloc_input list" where
  "candidate_items d i ts =
     map (\<lambda>t. \<lparr>ai_invoice = i, ai_transaction = t, ai_amount = Some (Fin (fund_open d t) (- 2))\<rparr>) ts"

definition bill_side :: "invoice \<Rightarrow> pystr" where
  "bill_side bill =
     (if inv_direction bill = InvoiceDirection_INPUT then PURCHASE_PAYMENT else SALES_RECEIPT)"

definition candidate_args :: "actor \<Rightarrow> db \<Rightarrow> invoice \<Rightarrow> candidate \<Rightarrow> recon_args" where
  "candidate_args a d bill c =
     \<lparr>cr_actor = a, cr_direction = bill_side bill,
      cr_allocations = candidate_items d (inv_id bill) (cand_transaction_ids c),
      cr_note = [], cr_mode = Mode_DIRECT, cr_settlement = None,
      cr_expected_invoice_open = None, cr_expected_transaction_open = None,
      cr_allow_partial = False\<rparr>"

lemma candidate_item_cents:
  "item_cents \<lparr>ai_invoice = i, ai_transaction = t, ai_amount = Some (Fin v (- 2))\<rparr> = v"
  by (simp add: item_cents_def)

lemma requested_candidate_invoice:
  "requested ai_invoice (candidate_items d i ts) i = sum_list (map (fund_open d) ts)"
  by (induction ts) (simp_all add: candidate_items_def requested_Cons candidate_item_cents)

lemma requested_candidate_transaction:
  "distinct ts \<Longrightarrow> t \<in> set ts \<Longrightarrow>
     requested ai_transaction (candidate_items d i ts) t = fund_open d t"
proof (induction ts)
  case (Cons u ts)
  have other: "requested ai_transaction (candidate_items d i ts) u = 0" if "u \<notin> set ts"
    using that by (intro requested_other) (auto simp: candidate_items_def)
  from Cons show ?case
    by (auto simp: candidate_items_def requested_Cons candidate_item_cents other [unfolded candidate_items_def])
qed simp

lemma candidate_items_sides:
  "ai_invoice ` set (candidate_items d i ts) = (if ts = [] then {} else {i})"
  "ai_transaction ` set (candidate_items d i ts) = set ts"
  by (cases ts; auto simp: candidate_items_def image_iff)+

lemma fund_open_money:
  "ledger_ok d \<Longrightarrow> m \<in> set (moneys d) \<Longrightarrow> fund_open d (mt_id m) = money_open d m"
  by (simp add: fund_open_def transaction_open_side)

lemma sublist_set: "sublist v xs \<Longrightarrow> set v \<subseteq> set xs"
  by (auto simp: sublist_def)

text \<open>A run of open transactions of the invoice that adds up to its open amount.\<close>

lemma run_request_ok:
  assumes led: "ledger_ok d"
    and bill: "find_row inv_id (invoices d) i = Some bill" "inv_status bill = InvoiceStatus_NORMAL"
      "inv_direction bill \<in> {InvoiceDirection_INPUT, InvoiceDirection_OUTPUT}"
    and run: "v \<noteq> []" "sublist v (open_money_for_invoice ld d bill start stop)"
      "sum_list (map (money_open d) v) = bill_open d i"
  shows "request_ok d (bill_side bill) (candidate_items d i (map mt_id v)) None None False"
proof -
  let ?ts = "map mt_id v"
  have mem: "m \<in> set (moneys d)" "0 < money_open d m" "mt_counterparty m = Some (inv_counterparty bill)"
    "mt_direction m = (if inv_direction bill = InvoiceDirection_INPUT
        then MoneyDirection_OUTFLOW else MoneyDirection_INFLOW)" if "m \<in> set v" for m
    using that sublist_set [OF run(2)] by (auto simp: open_money_for_invoice_def money_for_invoice_mem)
  have "distinct (map mt_id (open_money_for_invoice ld d bill start stop))"
    unfolding open_money_for_invoice_def
    by (rule distinct_map_filter_key [OF money_for_invoice_distinct [OF led]])
  then have dist: "distinct ?ts" by (rule sublist_distinct_map [OF run(2)])
  have funds: "map (fund_open d) ?ts = map (money_open d) v"
    using mem(1) by (simp add: fund_open_money [OF led])
  have small: "money_open d m < 10 ^ 28" if "m \<in> set v" for m
    using ledger_ok_money_cap [OF led mem(1) [OF that]] by (simp add: max_cents_def)
  have found: "find_row mt_id (moneys d) (mt_id m) = Some m" if "m \<in> set v" for m
    using led mem(1) [OF that] by (simp add: ledger_ok_def ledger_keys_def find_row_unique)
  have "item_ok (bill_side bill) (find_row inv_id (invoices d)) (find_row mt_id (moneys d)) x"
    if "x \<in> set (candidate_items d i ?ts)" for x
  proof -
    from that obtain m where m: "m \<in> set v" and x: "x = \<lparr>ai_invoice = i, ai_transaction = mt_id m,
        ai_amount = Some (Fin (fund_open d (mt_id m)) (- 2))\<rparr>"
      by (auto simp: candidate_items_def)
    have fo: "fund_open d (mt_id m) = money_open d m"
      by (rule fund_open_money [OF led mem(1) [OF m]])
    have dirs: "inv_direction bill = fst (directions_for (bill_side bill))"
      "mt_direction m = snd (directions_for (bill_side bill))"
      using bill(3) mem(4) [OF m] by (auto simp: bill_side_def directions_for_def)
    show ?thesis
      unfolding item_ok_def x fo candidate_item_cents
      using mem(2,3) [OF m] small [OF m] found [OF m] bill(1,2) dirs by simp
  qed
  moreover have "requested ai_invoice (candidate_items d i ?ts) i = bill_open d i"
    unfolding requested_candidate_invoice funds by (rule run(3))
  moreover have "\<forall>t\<in>set ?ts. requested ai_transaction (candidate_items d i ?ts) t \<le> fund_open d t"
    using requested_candidate_transaction [OF dist] by simp
  ultimately show ?thesis
    unfolding request_ok_def candidate_items_sides using run(1) by (simp add: expected_matches_def)
qed

section \<open>Properties\<close>

text \<open>What a candidate of the search is.\<close>

lemma transaction_candidates_cases:
  assumes led: "ledger_ok d" and res: "transaction_candidates ld d i start stop = Inr cs"
    and c: "c \<in> set cs"
  obtains (exact) s e bill v where "start = Some s" "stop = Some e"
      "find_row inv_id (invoices d) i = Some bill" "0 < bill_open d i"
      "v \<noteq> []" "sublist v (open_money_for_invoice ld d bill s e)"
      "sum_list (map (money_open d) v) = bill_open d i"
      "c = exact_candidate i (map (as_avail d) v, bill_open d i)"
  | (partial) s e bill where "start = Some s" "stop = Some e"
      "find_row inv_id (invoices d) i = Some bill" "0 < bill_open d i"
      "open_money_for_invoice ld d bill s e \<noteq> []"
      "c = partial_candidate i (bill_open d i) (map (as_avail d) (open_money_for_invoice ld d bill s e))"
proof -
  from res obtain s e where se: "start = Some s" "stop = Some e" "s \<le> e"
    by (auto simp: transaction_candidates_def validate_date_window_def
        split: option.splits sum.splits if_splits)
  from res se obtain bill where bill: "find_row inv_id (invoices d) i = Some bill"
    by (auto simp: transaction_candidates_def split: option.splits sum.splits)
  have pos: "0 < bill_open d i"
    using res c se bill
    by (auto simp: transaction_candidates_def bill_open_def split: sum.splits if_splits)
  let ?items = "map (as_avail d) (open_money_for_invoice ld d bill s e)"
  from res se have cs: "cs = (let exact = map (exact_candidate i)
        (contiguous_windows av_open (bill_open d i) ?items)
      in if exact \<noteq> [] then exact
         else if ?items = [] then [] else [partial_candidate i (bill_open d i) ?items])"
    using transaction_candidates_eq [OF led se(3) bill pos, of ld] by simp
  show ?thesis
  proof (cases "contiguous_windows av_open (bill_open d i) ?items = []")
    case True
    with c cs show ?thesis
      by (intro partial [OF se(1,2) bill pos]) (auto split: if_splits)
  next
    case False
    with c cs obtain w t where "(w, t) \<in> set (contiguous_windows av_open (bill_open d i) ?items)"
      "c = exact_candidate i (w, t)"
      by (auto simp: Let_def)
    then show ?thesis
      unfolding windows_available [OF led] using exact [OF se(1,2) bill pos] by blast
  qed
qed

lemma exact_candidate_ids:
  "cand_transaction_ids (exact_candidate i (map (as_avail d) v, t)) = map mt_id v"
  by (simp add: exact_candidate_def as_avail_def)

lemma partial_not_exact: "cand_kind (partial_candidate i t xs) \<noteq> lit ''CONTIGUOUS_EXACT''"
  by (simp add: partial_candidate_def Let_def)

text \<open>
  C5. An exact candidate is a reconciliation that goes through: a finance user who creates
  the reconciliation of the invoice with every transaction of the candidate, each with its
  whole open amount, succeeds, even when partial amounts are not allowed, and afterwards
  the invoice and every transaction of the candidate have no open amount left.
\<close>

theorem exact_candidate_reconciles:
  assumes led: "ledger_ok d" and fresh: "fresh_recon ids d"
    and finance: "require_finance_actor d a msg_finance_only = Inr ()"
    and bill: "find_row inv_id (invoices d) i = Some bill" "inv_status bill = InvoiceStatus_NORMAL"
      "inv_direction bill \<in> {InvoiceDirection_INPUT, InvoiceDirection_OUTPUT}"
    and c: "transaction_candidates ld d i start stop = Inr cs" "c \<in> set cs"
      "cand_kind c = lit ''CONTIGUOUS_EXACT''"
  shows "\<exists>rc d'. create_reconciliation now ids (candidate_args a d bill c) d = Inr (rc, d')
     \<and> invoice_open_amount d' i = Inr 0
     \<and> (\<forall>t\<in>set (cand_transaction_ids c). transaction_open_amount d' t = Inr 0)"
  using led c(1,2)
proof (cases rule: transaction_candidates_cases)
  case partial
  with c(3) show ?thesis by (simp add: partial_not_exact)
next
  case (exact s e b v)
  with bill have b: "b = bill" by simp
  have iid: "inv_id bill = i" using bill(1) find_row_bill by blast
  let ?args = "candidate_args a d bill c" and ?ts = "map mt_id v"
  have ts: "cand_transaction_ids c = ?ts"
    by (simp add: exact exact_candidate_ids del: map_map)
  have items: "cr_allocations ?args = candidate_items d i ?ts"
    by (simp add: candidate_args_def ts iid)
  have ok: "request_ok d (bill_side bill) (candidate_items d i ?ts) None None False"
    by (rule run_request_ok [OF led bill exact(5) exact(6) [unfolded b] exact(7)])
  have "create_args_ok ?args"
    using exact(5)
    by (simp add: create_args_ok_def candidate_args_def ts candidate_items_def bill_side_def
        ReconciliationDirection_values_def ReconciliationMode_values_def)
  with ok finance have "create_ok ?args d"
    by (simp add: create_ok_def candidate_args_def ts iid)
  then have res: "create_reconciliation now ids ?args d =
      Inr (new_recon now ids ?args, created_db now ids ?args d)"
    by (rule create_reconciliation_eq)
  have "invoice_open_amount d i = Inr (bill_open d i)"
    using bill(1) by (simp add: bill_open_def invoice_open_amount_def)
  moreover have "requested ai_invoice (candidate_items d i ?ts) i = bill_open d i"
    using ok exact(5) exact(4) candidate_items_sides(1) [of d i ?ts] by (simp add: request_ok_def)
  moreover have dist: "distinct ?ts"
    using exact(6) distinct_map_filter_key [OF money_for_invoice_distinct [OF led]]
    unfolding open_money_for_invoice_def by (rule sublist_distinct_map)
  then have "transaction_open_amount d t = Inr (fund_open d t)
      \<and> requested ai_transaction (candidate_items d i ?ts) t = fund_open d t" if "t \<in> set ?ts" for t
  proof -
    have "t \<in> mt_id ` set (moneys d)"
      using that sublist_set [OF exact(6)]
      by (auto simp: open_money_for_invoice_def money_for_invoice_mem)
    then show ?thesis
      using requested_candidate_transaction [OF dist that] transaction_open_side [OF led]
      by (auto simp: fund_open_def)
  qed
  ultimately show ?thesis
    using res created_open [OF fresh led, of now ?args] by (simp add: items ts)
qed

text \<open>The day of an instant at a fixed offset of eight hours, to evaluate the searches.\<close>

definition sample_day :: "instant \<Rightarrow> date" where
  "sample_day t = (t + 28800000000) div 86400000000"

definition sample_candidate :: candidate where
  "sample_candidate = \<lparr>cand_kind = lit ''CONTIGUOUS_EXACT'', cand_transaction_ids = [3, 4],
     cand_invoice_ids = [5], cand_total = 15000, cand_difference = 0,
     cand_start_at = 11 * 86400000000, cand_end_at = 13 * 86400000000\<rparr>"

lemma sample_search:
  "transaction_candidates sample_day sample_db 5 (Some 0) (Some 100) = Inr [sample_candidate]"
  by (simp add: transaction_candidates_def validate_date_window_def find_row_def
      invoice_open_amount_def allocated_by_def available_transactions_for_invoice_def
      money_for_invoice_def transaction_open_amount_def sample_day_def exact_candidate_def
      sample_candidate_def sample_defs Let_def)

lemma exact_candidate_reconciles_witness:
  "\<exists>a bill d' rc. create_reconciliation 5 sample_ids (candidate_args a sample_db bill sample_candidate)
       sample_db = Inr (rc, d') \<and> invoice_open_amount d' 5 = Inr 0"
proof -
  have "find_row inv_id (invoices sample_db) 5 = Some (sample_invoice 5 14 15000)"
    by (simp add: sample_defs find_row_def)
  then show ?thesis
    using exact_candidate_reconciles [OF sample_ledger_ok sample_fresh sample_finance _ _ _
        sample_search, of "sample_invoice 5 14 15000" sample_candidate 5]
    by (auto simp: sample_invoice_def sample_candidate_def)
qed

text \<open>
  C6. The exact candidates of an invoice with an open amount are precisely the non-empty
  runs of consecutive available transactions whose open amounts add up to it.
\<close>

theorem exact_candidates_iff:
  assumes "ledger_ok d" "start \<le> stop" "find_row inv_id (invoices d) i = Some bill"
    "0 < bill_open d i"
  shows "\<exists>cs. transaction_candidates ld d i (Some start) (Some stop) = Inr cs
     \<and> (\<forall>ts. (\<exists>c\<in>set cs. cand_kind c = lit ''CONTIGUOUS_EXACT'' \<and> cand_transaction_ids c = ts)
          \<longleftrightarrow> (\<exists>v. v \<noteq> [] \<and> sublist v (open_money_for_invoice ld d bill start stop)
                 \<and> sum_list (map (money_open d) v) = bill_open d i \<and> ts = map mt_id v))"
proof -
  let ?items = "map (as_avail d) (open_money_for_invoice ld d bill start stop)"
  let ?ws = "contiguous_windows av_open (bill_open d i) ?items"
  define cs where "cs = (let exact = map (exact_candidate i) ?ws
      in if exact \<noteq> [] then exact
         else if ?items = [] then [] else [partial_candidate i (bill_open d i) ?items])"
  have res: "transaction_candidates ld d i (Some start) (Some stop) = Inr cs"
    unfolding cs_def by (rule transaction_candidates_eq [OF assms])
  have kinds: "c \<in> set cs \<and> cand_kind c = lit ''CONTIGUOUS_EXACT''
      \<longleftrightarrow> (\<exists>w t. (w, t) \<in> set ?ws \<and> c = exact_candidate i (w, t))" for c
  proof (cases "?ws = []")
    case True
    then show ?thesis by (auto simp: cs_def Let_def partial_not_exact)
  next
    case False
    then have "set cs = exact_candidate i ` set ?ws" by (simp add: cs_def Let_def)
    moreover have "cand_kind (exact_candidate i w) = lit ''CONTIGUOUS_EXACT''" for w
      by (simp add: exact_candidate_def)
    ultimately show ?thesis by force
  qed
  have "(\<exists>c\<in>set cs. cand_kind c = lit ''CONTIGUOUS_EXACT'' \<and> cand_transaction_ids c = ts)
      \<longleftrightarrow> (\<exists>w t. (w, t) \<in> set ?ws \<and> map av_id w = ts)" for ts
  proof -
    have "cand_transaction_ids (exact_candidate i (w, t)) = map av_id w" for w t
      by (simp add: exact_candidate_def)
    then show ?thesis using kinds by metis
  qed
  also have "\<dots> ts \<longleftrightarrow> (\<exists>v. v \<noteq> [] \<and> sublist v (open_money_for_invoice ld d bill start stop)
      \<and> sum_list (map (money_open d) v) = bill_open d i \<and> ts = map mt_id v)" for ts
    unfolding windows_available [OF assms(1)] by (auto simp: comp_def as_avail_def)
  finally show ?thesis using res by blast
qed

lemma exact_candidates_iff_witness:
  "\<exists>v. v \<noteq> [] \<and> map mt_id v = [3, 4]
     \<and> sublist v (open_money_for_invoice sample_day sample_db (sample_invoice 5 14 15000) 0 100)"
proof -
  have bill: "find_row inv_id (invoices sample_db) 5 = Some (sample_invoice 5 14 15000)"
    by (simp add: sample_defs find_row_def)
  have opn: "0 < bill_open sample_db 5"
    by (simp add: bill_open_def invoice_open_amount_def allocated_by_def find_row_def sample_defs)
  have c: "cand_kind sample_candidate = lit ''CONTIGUOUS_EXACT''"
    "cand_transaction_ids sample_candidate = [3, 4]"
    by (simp_all add: sample_candidate_def)
  have "(0::date) \<le> 100" by simp
  from exact_candidates_iff [OF sample_ledger_ok this bill opn, of sample_day]
  have "(\<exists>c\<in>set [sample_candidate]. cand_kind c = lit ''CONTIGUOUS_EXACT''
        \<and> cand_transaction_ids c = [3, 4])
      \<longleftrightarrow> (\<exists>v. v \<noteq> []
        \<and> sublist v (open_money_for_invoice sample_day sample_db (sample_invoice 5 14 15000) 0 100)
        \<and> sum_list (map (money_open sample_db) v) = bill_open sample_db 5 \<and> [3, 4] = map mt_id v)"
    unfolding sample_search by (elim exE conjE) (simp only: sum.inject)
  moreover have "\<exists>c\<in>set [sample_candidate]. cand_kind c = lit ''CONTIGUOUS_EXACT''
      \<and> cand_transaction_ids c = [3, 4]"
    using c by simp
  ultimately have "\<exists>v. v \<noteq> []
        \<and> sublist v (open_money_for_invoice sample_day sample_db (sample_invoice 5 14 15000) 0 100)
        \<and> sum_list (map (money_open sample_db) v) = bill_open sample_db 5 \<and> [3, 4] = map mt_id v"
    by (rule iffD1)
  then show ?thesis by (elim exE conjE, intro exI conjI) (assumption | rule sym)+
qed

text \<open>
  Every candidate names only transactions with a positive open amount, its total is
  positive and never more than the open amount of the invoice, and total and difference
  add up to that open amount.
\<close>

lemma candidate_totals:
  assumes "ledger_ok d" "transaction_candidates ld d i start stop = Inr cs" "c \<in> set cs"
  shows "0 < cand_total c \<and> 0 \<le> cand_difference c
    \<and> cand_total c + cand_difference c = bill_open d i
    \<and> cand_total c \<le> sum_list (map (fund_open d) (cand_transaction_ids c))
    \<and> (\<forall>t\<in>set (cand_transaction_ids c). 0 < fund_open d t)"
proof -
  have opens: "map (fund_open d) (map mt_id v) = map (money_open d) v
      \<and> (\<forall>t\<in>set (map mt_id v). 0 < fund_open d t)"
    if "set v \<subseteq> set (open_money_for_invoice ld d bill s e)" for v s e bill
    using that by (auto simp: open_money_for_invoice_def money_for_invoice_mem subset_iff
        fund_open_money [OF assms(1)])
  show ?thesis
    using assms
  proof (cases rule: transaction_candidates_cases)
    case (exact s e bill v)
    show ?thesis
      unfolding exact(8) exact_candidate_ids
      using exact(4,7) opens [OF sublist_set [OF exact(6)]]
      by (simp add: exact_candidate_def del: map_map)
  next
    case (partial s e bill)
    let ?v = "open_money_for_invoice ld d bill s e"
    have ids: "cand_transaction_ids c = map mt_id ?v"
      by (simp add: partial(6) partial_candidate_def as_avail_def comp_def Let_def)
    have sums: "sum_list (map av_open (map (as_avail d) ?v)) = sum_list (map (money_open d) ?v)"
      by (simp add: comp_def as_avail_def)
    have "0 < sum_list (map (money_open d) ?v)"
      by (rule sum_list_pos_int [OF partial(5)]) (simp add: open_money_for_invoice_def)
    then show ?thesis
      unfolding ids using partial(4) opens [OF order_refl, of bill s e]
      by (simp add: partial(6) partial_candidate_def sums Let_def min_def max_def del: map_map)
  qed
qed

lemma candidate_totals_witness:
  "cand_total sample_candidate + cand_difference sample_candidate = bill_open sample_db 5"
  using candidate_totals [OF sample_ledger_ok sample_search] by simp

end
