(* ===== verification/Recon_Page_Proofs.thy ===== *)
theory Recon_Page_Proofs
  imports Recon_Pages Presenter_Properties Candidate_Properties
begin

text \<open>
  What the forms accept: the amounts they let through pass the checks of the services, and
  the texts that the pages write are read back as the values they were written from.
\<close>

section \<open>Amounts\<close>

lemma clean_amount_Inr:
  assumes "clean_amount t = Inr x"
  shows "\<exists>v. whole_cents x = Some v \<and> 0 < v \<and> v \<le> max_cents"
proof -
  obtain c e where x: "x = Fin c e" "\<not> cents_le c e 0" "cents_le c e MAX_MONEY" "\<not> e < - 2"
    using assms by (auto simp: clean_amount_def split: option.splits pydec.splits if_splits)
  then have "cents_eq c e (cents_round c e)" by (simp add: cents_eq_round)
  with x show ?thesis
    by (auto simp: whole_cents_def cents_le_whole MAX_MONEY_def max_cents_def)
qed

lemma two_digits_val:
  assumes "m < 100"
  shows "digits_val n (two_digits m) = Some (100 * n + m)"
proof -
  have "m div 10 < 10" using assms by (simp add: less_mult_imp_div_less)
  moreover have "10 * (m div 10) + m mod 10 = m" by simp
  ultimately show ?thesis by (simp add: two_digits_def)
qed

lemma parse_money_fixed: "parse_dec (money_fixed v) = Some (Fin v (- 2))"
proof -
  let ?n = "nat (\<bar>v\<bar> div 100)" and ?m = "nat (\<bar>v\<bar> mod 100)"
  have m: "?m < 100" by (simp add: nat_less_iff)
  have chars: "\<And>c. c \<in> set (str_nat ?n) \<Longrightarrow> 48 \<le> c \<and> c \<le> 57"
    "\<And>c. c \<in> set (two_digits ?m) \<Longrightarrow> 48 \<le> c \<and> c \<le> 57"
    by (auto dest: str_nat_chars simp: two_digits_def)
  have plain: "plain_text (str_nat ?n @ 46 # two_digits ?m)"
  proof -
    have "hd (str_nat ?n) \<noteq> 46" using chars(1) [OF hd_in_set, of] by fastforce
    then show ?thesis using chars by (auto simp: plain_text_def)
  qed
  have "0 \<le> \<bar>v\<bar> div 100" by (simp add: pos_imp_zdiv_nonneg_iff)
  then have "int (100 * ?n + ?m) = \<bar>v\<bar>" by simp
  then have "100 * ?n + ?m = nat \<bar>v\<bar>" by (metis nat_int)
  then have "digits_val 0 (str_nat ?n @ two_digits ?m) = Some (nat \<bar>v\<bar>)"
    by (simp add: digits_val_append digits_val_str_nat two_digits_val [OF m])
  then have "dec_number (v < 0) (str_nat ?n @ 46 # two_digits ?m) = Some (Fin v (- 2))"
    using dec_number_fraction [of "str_nat ?n" "two_digits ?m" "nat \<bar>v\<bar>" "v < 0"] chars
    by (auto simp: two_digits_def)
  then show ?thesis
    using parse_dec_plain [OF plain, of v] by (simp add: money_fixed_def)
qed

lemma clean_amount_input:
  assumes "0 < v" "v \<le> max_cents"
  shows "clean_amount (money_input v) = Inr (Fin v (- 2))"
  using assms by (simp add: clean_amount_def money_input_def parse_money_fixed cents_le_def
      MAX_MONEY_def max_cents_def)

lemma clean_uuid_str [simp]: "clean_uuid (uuid_str x) label = Inr x"
  by (simp add: clean_uuid_def parse_uuid_str)

section \<open>Posted fields\<close>

lemma getlist_simps [simp]:
  "getlist k [] = []"
  "getlist k ((lit k', v) # q) = (if k' = k then v # getlist k q else getlist k q)"
  "getlist k (q @ q') = getlist k q @ getlist k q'"
  by (simp_all add: getlist_def)

lemma getlist_concat: "getlist k (concat qs) = concat (map (getlist k) qs)"
  by (induction qs) simp_all

lemma concat_single: "concat (map (\<lambda>x. [f x]) xs) = map f xs" "concat (map (\<lambda>x. []) xs) = []"
  by (induction xs) simp_all

text \<open>What a browser posts from the page of a batch: the hidden fields of its form.\<close>

definition settlement_post :: "settlement_batch \<Rightarrow> settlement_page \<Rightarrow> query" where
  "settlement_post batch page =
     (lit ''version'', str_int (sb_version batch))
     # concat (map (\<lambda>r. [(lit ''invoice_id'', uuid_str (ar_invoice r)),
                         (lit ''transaction_id'', uuid_str (ar_transaction r)),
                         (lit ''amount'', ar_amount_input r)]) (pg_allocation_rows page))"

lemma settlement_post_lists:
  "getlist ''version'' (settlement_post batch page) = [str_int (sb_version batch)]"
  "getlist ''invoice_id'' (settlement_post batch page) =
     map (uuid_str \<circ> ar_invoice) (pg_allocation_rows page)"
  "getlist ''transaction_id'' (settlement_post batch page) =
     map (uuid_str \<circ> ar_transaction) (pg_allocation_rows page)"
  "getlist ''amount'' (settlement_post batch page) = map ar_amount_input (pg_allocation_rows page)"
  by (simp_all add: settlement_post_def getlist_concat comp_def concat_single)

text \<open>The rows of a plan, with the text of their amount.\<close>

definition postable :: "allocation_row \<Rightarrow> bool" where
  "postable r \<longleftrightarrow> 0 < ar_amount r \<and> ar_amount r \<le> max_cents \<and> ar_amount_input r = money_input (ar_amount r)"

lemma clean_pairs_rows:
  assumes "\<forall>r\<in>set rows. postable r" "distinct (map (\<lambda>r. (ar_invoice r, ar_transaction r)) rows)"
    and "\<forall>r\<in>set rows. (ar_invoice r, ar_transaction r) \<notin> seen"
  shows "clean_pairs seen (zip (map (uuid_str \<circ> ar_invoice) rows)
       (zip (map (uuid_str \<circ> ar_transaction) rows) (map ar_amount_input rows))) =
     Inr (as_allocation_inputs rows)"
  using assms
proof (induction rows arbitrary: seen)
  case Nil
  show ?case by (simp add: as_allocation_inputs_def)
next
  case (Cons r rows)
  let ?p = "(ar_invoice r, ar_transaction r)"
  have "clean_amount (ar_amount_input r) = Inr (Fin (ar_amount r) (- 2))"
    using Cons.prems(1) by (simp add: postable_def clean_amount_input)
  moreover have "clean_pairs (insert ?p seen) (zip (map (uuid_str \<circ> ar_invoice) rows)
       (zip (map (uuid_str \<circ> ar_transaction) rows) (map ar_amount_input rows))) =
     Inr (as_allocation_inputs rows)"
    by (rule Cons.IH) (use Cons.prems in \<open>auto simp: image_iff\<close>)
  ultimately show ?case
    using Cons.prems(3) by (simp add: as_allocation_inputs_def comp_def)
qed

text \<open>The documented behaviour of the integer field that the page of a batch relies on.\<close>

definition reads_versions :: "form_fields \<Rightarrow> bool" where
  "reads_versions F \<longleftrightarrow> (\<forall>n\<ge>1. ff_integer F (str_int n) = Some n)"

lemma str_int_nonempty [simp]: "str_int n \<noteq> []"
  by (simp add: str_int_def)

lemma settlement_form_reads_page:
  assumes "reads_versions F" "1 \<le> sb_version batch"
    and "pg_allocation_rows page \<noteq> []" "\<forall>r\<in>set (pg_allocation_rows page). postable r"
    and "distinct (map (\<lambda>r. (ar_invoice r, ar_transaction r)) (pg_allocation_rows page))"
  shows "SettlementConfirmForm F (settlement_post batch page) =
     Inr (sb_version batch, as_allocation_inputs (pg_allocation_rows page))"
proof -
  have "integer_field F msg_version_required msg_version_invalid (1, msg_version_invalid)
      (get_field ''version'' (settlement_post batch page)) = Inr (sb_version batch)"
    using assms(1,2) by (simp add: integer_field_def get_field_def settlement_post_lists
        field_text_def reads_versions_def)
  moreover have "clean_pairs {} (zip (getlist ''invoice_id'' (settlement_post batch page))
      (zip (getlist ''transaction_id'' (settlement_post batch page))
        (getlist ''amount'' (settlement_post batch page)))) =
      Inr (as_allocation_inputs (pg_allocation_rows page))"
    unfolding settlement_post_lists by (rule clean_pairs_rows) (use assms in auto)
  ultimately show ?thesis
    using assms(3) by (simp add: SettlementConfirmForm_def settlement_post_lists)
qed

chapter \<open>The pages\<close>

text \<open>
  The form of the workbench, from the page that shows it to the reconciliation that posting
  it makes.
\<close>

section \<open>Guards\<close>

text \<open>A signed-in user that the services accept.\<close>

definition finance_user :: "db \<Rightarrow> actor \<Rightarrow> bool" where
  "finance_user d a \<longleftrightarrow>
     actor_authenticated a \<and> require_finance_actor d a msg_finance_only = Inr ()"

lemma finance_required_pass:
  assumes "finance_user d (rr_user r)" "rr_verb r \<in> lit ` set verbs"
  shows "finance_required verbs view r d = view r d"
  using assms require_finance_actorD(5) [of d "rr_user r" msg_finance_only]
  by (simp add: finance_required_def finance_user_def)

lemma finance_required_shown:
  "finance_required verbs view r d = (page, d') \<Longrightarrow> page \<notin> {ToLogin, Refused, VerbRefused} \<Longrightarrow>
     view r d = (page, d')"
  by (auto simp: finance_required_def split: if_splits)

lemma uncaught_page [simp]: "uncaught e \<noteq> Workbench n w" "uncaught e \<noteq> SettlementDetail n b p es"
  "uncaught e \<noteq> ToReconciliation i" "uncaught e \<noteq> ToSettlement i"
  by (cases e; simp)+

section \<open>The plan of a batch\<close>

lemma plan_loop_input:
  "x \<in> set (plan_loop xs ts) \<Longrightarrow> ar_amount_input x = money_input (ar_amount x)"
proof (induction xs ts rule: plan_loop_cases)
  case (allocate i r xs t s ts)
  then show ?case by (auto simp: plan_loop_step)
qed (auto simp: plan_loop_step)

section \<open>Proposed amounts\<close>

lemma direct_amounts_length [simp]: "length (direct_amounts v xs) = length xs"
  by (induction v xs rule: direct_amounts.induct) (auto simp: Let_def)

lemma direct_amounts_sum:
  assumes "\<forall>x\<in>set xs. 0 \<le> snd x" "0 \<le> v"
  shows "sum_list (direct_amounts v xs) = min v (sum_list (map snd xs))"
    and "\<And>a. a \<in> set (direct_amounts v xs) \<Longrightarrow> 0 \<le> a"
proof -
  have "sum_list (direct_amounts v xs) = min v (sum_list (map snd xs))
      \<and> (\<forall>a\<in>set (direct_amounts v xs). 0 \<le> a)"
    using assms
  proof (induction v xs rule: direct_amounts.induct)
    case (2 v i w rest)
    have "0 \<le> sum_list (map snd rest)" using "2.prems" by (intro sum_list_nonneg_int) auto
    with 2 show ?case by (auto simp: Let_def min_def)
  qed (simp add: min_def)
  then show "sum_list (direct_amounts v xs) = min v (sum_list (map snd xs))"
    "\<And>a. a \<in> set (direct_amounts v xs) \<Longrightarrow> 0 \<le> a" by blast+
qed

lemma direct_amounts_le:
  "((i, w), a) \<in> set (zip xs (direct_amounts v xs)) \<Longrightarrow> a \<le> w"
  by (induction v xs rule: direct_amounts.induct) (auto simp: Let_def)

text \<open>The proposals of the page that are not empty: the transaction, its open amount, the share.\<close>

definition proposals :: "money \<Rightarrow> (uuid \<times> money) list \<Rightarrow> ((uuid \<times> money) \<times> money) list" where
  "proposals v funds = filter (\<lambda>x. 0 < snd x) (zip funds (direct_amounts v funds))"

lemma sum_pos_filter:
  fixes f :: "'a \<Rightarrow> int"
  assumes "\<forall>x\<in>set xs. 0 \<le> f x"
  shows "sum_list (map f (filter (\<lambda>x. 0 < f x) xs)) = sum_list (map f xs)"
  using assms by (induction xs) auto

lemma proposals_sum:
  assumes "\<forall>x\<in>set funds. 0 \<le> snd x" "0 \<le> v"
  shows "sum_list (map snd (proposals v funds)) = min v (sum_list (map snd funds))"
proof -
  have "\<forall>x\<in>set (zip funds (direct_amounts v funds)). 0 \<le> snd x"
    using direct_amounts_sum(2) [OF assms] by (auto dest: set_zip_rightD)
  then show ?thesis
    by (simp add: proposals_def sum_pos_filter direct_amounts_sum(1) [OF assms])
qed

lemma proposals_mem:
  "((t, w), a) \<in> set (proposals v funds) \<Longrightarrow> (t, w) \<in> set funds \<and> 0 < a \<and> a \<le> w"
  by (auto simp: proposals_def dest: direct_amounts_le set_zip_leftD)

lemma proposals_distinct:
  assumes "distinct (map fst funds)"
  shows "distinct (map (fst \<circ> fst) (proposals v funds))"
proof -
  have "map (fst \<circ> fst) (zip funds (direct_amounts v funds)) = map fst funds"
    by (simp flip: map_map)
  then show ?thesis
    unfolding proposals_def by (metis assms distinct_map_filter_key)
qed

lemma proposals_nonempty:
  assumes "0 < v" "\<forall>x\<in>set funds. 0 < snd x" "funds \<noteq> []"
  shows "proposals v funds \<noteq> []"
  using assms by (cases funds) (auto simp: proposals_def Let_def)

section \<open>The posted form\<close>

text \<open>
  What a browser posts from the workbench: the rows whose box is ticked, the box for a partial
  confirmation when something remains, and a remark.
\<close>

definition workbench_post :: "workbench_page \<Rightarrow> pystr \<Rightarrow> query" where
  "workbench_post page remark =
     (case wb_selected_invoice page of None \<Rightarrow> [] | Some i \<Rightarrow>
       [(lit ''invoice_id'', uuid_str i),
        (lit ''expected_invoice_open'', wb_selected_open_input page)]
       @ concat (map (\<lambda>x. [(lit ''transaction_id'', uuid_str (dr_record x)),
                           (lit ''expected_transaction_open'', dr_open_input x),
                           (lit ''amount'', dr_allocation_input x)])
                  (filter dr_selected (wb_transactions page)))
       @ (if wb_difference_cents page = 0 then [] else [(lit ''partial_confirm'', lit ''on'')])
       @ [(lit ''note'', remark)])"

text \<open>The documented behaviour of the text fields and the check box that the workbench relies on.\<close>

definition reads_texts :: "form_fields \<Rightarrow> bool" where
  "reads_texts F \<longleftrightarrow> ff_checked F (lit ''on'') \<and> (\<forall>t. 0 \<notin> set t \<longrightarrow> ff_complaints F t = [])"

definition proposal_row :: "(uuid \<times> money) \<times> money \<Rightarrow> uuid \<times> pydec \<times> pydec" where
  "proposal_row x = (fst (fst x), Fin (snd x) (- 2), Fin (snd (fst x)) (- 2))"

lemma selected_rows:
  "filter dr_selected (direct_allocation_rows funds v) =
     map (\<lambda>((i, w), a). \<lparr>dr_record = i, dr_open_amount = w, dr_open_text = money_text w,
            dr_open_input = money_input w, dr_open_cents = w, dr_allocation_input = money_input a,
            dr_selected = (0 < a)\<rparr>) (proposals v funds)"
  unfolding direct_allocation_rows_def proposals_def filter_map
  by (rule arg_cong2 [of _ _ _ _ map], simp, rule filter_cong) auto

lemma clean_proposals:
  assumes "\<forall>x\<in>set ps. 0 < snd x \<and> snd x \<le> snd (fst x) \<and> snd (fst x) \<le> max_cents"
  shows "traverse clean_direct_row (zip (map (\<lambda>x. uuid_str (fst (fst x))) ps)
      (zip (map (\<lambda>x. money_input (snd x)) ps) (map (\<lambda>x. money_input (snd (fst x))) ps)))
    = Inr (map proposal_row ps)"
  using assms
proof (induction ps)
  case (Cons x ps)
  then have a: "clean_amount (money_input (snd x)) = Inr (Fin (snd x) (- 2))"
    "clean_amount (money_input (snd (fst x))) = Inr (Fin (snd (fst x)) (- 2))"
    by (intro clean_amount_input; force)+
  have "clean_direct_row (uuid_str (fst (fst x)), money_input (snd x), money_input (snd (fst x)))
      = Inr (proposal_row x)"
    by (simp add: clean_direct_row_def a proposal_row_def)
  with Cons show ?case by simp
qed simp

lemma set_strip: "set (strip t) \<subseteq> set t"
proof -
  have sub: "set (dropWhile P xs) \<subseteq> set xs" for P and xs :: pystr by (induction xs) auto
  have "set (strip t) \<subseteq> set (dropWhile py_space t)"
    using sub [of py_space "rev (dropWhile py_space t)"] by (simp add: strip_def lstrip_def rstrip_def)
  with sub [of py_space t] show ?thesis by blast
qed

lemma two_digits_chars: "c \<in> set (two_digits n) \<Longrightarrow> 48 \<le> c \<and> c \<le> 57"
proof -
  have "x mod 10 < 10" for x :: nat by simp
  from this [of "n div 10"] this [of n] show "c \<in> set (two_digits n) \<Longrightarrow> 48 \<le> c \<and> c \<le> 57"
    by (auto simp: two_digits_def simp del: mod_less_divisor)
qed

lemma money_text_chars: "c \<in> set (money_input v) \<Longrightarrow> c = 45 \<or> c = 46 \<or> 48 \<le> c \<and> c \<le> 57"
proof -
  assume "c \<in> set (money_input v)"
  then consider "c \<in> set (sign_text v)" | "c \<in> set (str_nat (nat (\<bar>v\<bar> div 100)))" | "c = 46"
    | "c \<in> set (two_digits (nat (\<bar>v\<bar> mod 100)))"
    by (fastforce simp only: money_input_def money_fixed_def set_append list.set Un_iff insert_iff empty_iff)
  then show ?thesis
  proof cases
    case 4
    then show ?thesis by (simp add: two_digits_chars)
  qed (auto simp: sign_text_def dest: str_nat_chars split: if_splits)
qed

lemma strip_money: "strip (money_input v) = money_input v" "money_input v \<noteq> []"
  by (rule strip_no_space, auto dest!: money_text_chars simp: py_space_def)
     (simp add: money_input_def money_fixed_def)

lemma expected_field:
  assumes "reads_texts F"
  shows "char_field F (Some msg) None (Some (money_input v)) = Inr (money_input v)"
proof -
  have "0 \<notin> set (money_input v)" by (auto dest: money_text_chars)
  with assms show ?thesis by (simp add: char_field_def field_text_def strip_money reads_texts_def)
qed

lemma direct_form_reads_page:
  assumes F: "reads_texts F" and short: "0 \<notin> set remark" "length (strip remark) \<le> 1000"
    and sel: "wb_selected_invoice page = Some i" "wb_selected_open_input page = money_input v"
      "wb_transactions page = direct_allocation_rows funds v"
    and v: "0 < v" "v \<le> max_cents"
    and funds: "funds \<noteq> []" "\<forall>x\<in>set funds. 0 < snd x \<and> snd x \<le> max_cents" "distinct (map fst funds)"
  shows "DirectReconciliationForm F (workbench_post page remark) = Inr
     \<lparr>dd_invoice = i, dd_note = strip remark, dd_partial = (wb_difference_cents page \<noteq> 0),
      dd_expected_invoice = Fin v (- 2), dd_rows = map proposal_row (proposals v funds)\<rparr>"
proof -
  let ?q = "workbench_post page remark" and ?ps = "proposals v funds"
  have lists: "getlist ''invoice_id'' ?q = [uuid_str i]"
    "getlist ''expected_invoice_open'' ?q = [money_input v]" "getlist ''note'' ?q = [remark]"
    "getlist ''partial_confirm'' ?q = (if wb_difference_cents page = 0 then [] else [lit ''on''])"
    "getlist ''transaction_id'' ?q = map (\<lambda>x. uuid_str (fst (fst x))) ?ps"
    "getlist ''amount'' ?q = map (\<lambda>x. money_input (snd x)) ?ps"
    "getlist ''expected_transaction_open'' ?q = map (\<lambda>x. money_input (snd (fst x))) ?ps"
    using sel by (simp_all add: workbench_post_def getlist_concat comp_def concat_single
        selected_rows case_prod_unfold)
  have pos: "\<forall>x\<in>set ?ps. 0 < snd x \<and> snd x \<le> snd (fst x) \<and> snd (fst x) \<le> max_cents"
    using funds(2) by (force dest: proposals_mem)
  have "distinct (map fst (map proposal_row ?ps))"
    using proposals_distinct [OF funds(3), of v] by (simp add: comp_def proposal_row_def)
  moreover have "?ps \<noteq> []" using proposals_nonempty [OF v(1)] funds by auto
  ultimately have body: "direct_clean ?q (Some (money_input v)) =
      Inr (map proposal_row ?ps, Some (Fin v (- 2)))"
    using clean_amount_input [OF v] clean_proposals [OF pos] by (simp add: direct_clean_def lists)
  have "uuid_str i \<noteq> []" using length_uuid [of i] by auto
  then have "uuid_field msg_select_invoice msg_invoice_id (get_field ''invoice_id'' ?q) = Inr i"
    by (simp add: uuid_field_def get_field_def lists field_text_def strip_uuid parse_uuid_str)
  moreover have "char_field F None (Some (1000, msg_note_length)) (get_field ''note'' ?q) = Inr (strip remark)"
  proof -
    have "set (strip remark) \<subseteq> set remark" by (rule set_strip)
    then show ?thesis using F short
      by (auto simp: char_field_def get_field_def lists field_text_def reads_texts_def Let_def)
  qed
  moreover have "char_field F (Some msg_stale) None (get_field ''expected_invoice_open'' ?q) = Inr (money_input v)"
    using expected_field [OF F] by (simp add: get_field_def lists)
  moreover have "boolean_field F (get_field ''partial_confirm'' ?q) = (wb_difference_cents page \<noteq> 0)"
    using F by (simp add: boolean_field_def get_field_def lists reads_texts_def)
  ultimately show ?thesis using body by (simp add: DirectReconciliationForm_def)
qed

end
