(* ===== verification/Recon_Page_Properties.thy ===== *)
theory Recon_Page_Properties
  imports Recon_Page_Proofs Settlement_Properties
begin

text \<open>
  What a user of the reconciliation pages may rely on: posting the form that a page shows
  does what the page says, a confirmation books only what the page showed, and no sequence
  of requests breaks the ledger.
\<close>

section \<open>The workbench\<close>

abbreviation invoice_open :: "db \<Rightarrow> invoice \<Rightarrow> money" where
  "invoice_open d b \<equiv> side_open ra_invoice inv_id inv_total_amount d b"

lemma normal_invoices_open:
  assumes "ledger_ok d"
  shows "collect_open (\<lambda>b. invoice_open_amount d (inv_id b)) (normal_invoices d) =
     Inr (map (\<lambda>b. (b, invoice_open d b)) (filter (\<lambda>b. 0 < invoice_open d b) (normal_invoices d)))"
  by (rule collect_open_Inr) (simp add: invoice_open_side [OF assms] normal_invoices_def)

text \<open>What a workbench with a selected invoice shows.\<close>

lemma workbench_shows:
  assumes led: "ledger_ok d"
    and page: "workbench_context E d q es sel stale = Inr page" "wb_selected_invoice page = Some i"
  obtains b start stop where "b \<in> set (invoices d)" "inv_id b = i" "inv_status b = InvoiceStatus_NORMAL"
    "0 < invoice_open d b" "wb_selected_open_input page = money_input (invoice_open d b)"
    "wb_transactions page = direct_allocation_rows
       (map (\<lambda>m. (mt_id m, money_open d m)) (open_money_for_invoice (re_local E) d b start stop))
       (invoice_open d b)"
    "wb_difference_cents page = invoice_open d b - min (invoice_open d b)
       (sum_list (map (money_open d) (open_money_for_invoice (re_local E) d b start stop)))"
proof -
  let ?bills = "map (\<lambda>b. (b, invoice_open d b)) (filter (\<lambda>b. 0 < invoice_open d b) (normal_invoices d))"
  define requested where "requested = (case sel of Some i \<Rightarrow> Some i
      | None \<Rightarrow> parse_uuid_param (get_field ''invoice'' q))"
  define found where "found = find (\<lambda>(b, _). Some (inv_id b) = requested) ?bills"
  have f: "found \<noteq> None"
  proof
    assume "found = None"
    then have "wb_selected_invoice page = None"
      using page(1) by (auto simp: workbench_context_def normal_invoices_open [OF led] Let_def
          bindE_Inr_iff requested_def [symmetric] found_def [symmetric])
    with page(2) show False by simp
  qed
  then obtain b v where bv: "found = Some (b, v)" by force
  then have mem: "(b, v) \<in> set ?bills" unfolding found_def find_Some_iff by (metis nth_mem)
  then have b: "b \<in> set (invoices d)" "inv_status b = InvoiceStatus_NORMAL" "0 < v" "v = invoice_open d b"
    by (auto simp: normal_invoices_def)
  obtain start stop where w: "workbench_window E q (Some b) = Inr (start, stop)"
    using page(1) by (auto simp: workbench_context_def normal_invoices_open [OF led] Let_def
        bindE_Inr_iff requested_def [symmetric] found_def [symmetric] bv)
  let ?ms = "open_money_for_invoice (re_local E) d b start stop"
  have ids: "map (\<lambda>x. (av_id x, av_open x)) (map (as_avail d) ?ms) = map (\<lambda>m. (mt_id m, money_open d m)) ?ms"
    by (simp add: as_avail_def)
  have sums: "sum_list (map snd (map (\<lambda>m. (mt_id m, money_open d m)) ?ms)) = sum_list (map (money_open d) ?ms)"
    by (simp add: comp_def)
  have nonneg: "0 \<le> v - min v (sum_list (map (money_open d) ?ms))" by simp
  note page' = page(1) [unfolded workbench_context_def normal_invoices_open [OF led] Let_def bindE_simps
      requested_def [symmetric] found_def [symmetric] bv option.case prod.case option.map fst_conv w
      available_eq [OF led] ids sums sum.inject]
  show thesis
    by (rule that [of b start stop])
       (use b page(2) nonneg in \<open>simp_all add: page' [symmetric] max_absorb1\<close>)
qed

text \<open>The request that the workbench's form becomes passes the checks of the service.\<close>

lemma proposals_invoice:
  assumes "ai_invoice ` set items \<subseteq> {i}" "items = map f ps" "\<And>x. x \<in> set ps \<Longrightarrow> item_cents (f x) = snd x"
  shows "requested ai_invoice items i = sum_list (map snd ps)"
  using assms
proof (induction ps arbitrary: items)
  case (Cons x ps)
  then show ?case by (simp add: requested_Cons)
qed simp

lemma proposals_transaction:
  assumes "distinct (map (fst \<circ> fst) ps)" "((t, w), a) \<in> set ps"
    and "\<And>x. x \<in> set ps \<Longrightarrow> item_cents (f x) = snd x \<and> ai_transaction (f x) = fst (fst x)"
  shows "requested ai_transaction (map f ps) t = a"
  using assms
proof (induction ps)
  case (Cons x ps)
  have other: "requested ai_transaction (map f ps) u = 0" if "u \<notin> (fst \<circ> fst) ` set ps" for u
    using that Cons.prems(3) by (intro requested_other) (auto simp: image_iff)
  show ?case
  proof (cases "x = ((t, w), a)")
    case True
    with Cons.prems other [of t] show ?thesis by (auto simp: requested_Cons image_iff)
  next
    case False
    with Cons.prems have "((t, w), a) \<in> set ps" by simp
    moreover from this Cons.prems(1) have "fst (fst x) \<noteq> t" by (auto simp: image_iff)
    ultimately show ?thesis using Cons by (auto simp: requested_Cons)
  qed
qed simp

lemma workbench_create_ok:
  fixes remark :: pystr and start :: date
  assumes led: "ledger_ok d" and fin: "require_finance_actor d a msg_finance_only = Inr ()"
    and b: "b \<in> set (invoices d)" "inv_status b = InvoiceStatus_NORMAL"
      "inv_direction b \<in> {InvoiceDirection_INPUT, InvoiceDirection_OUTPUT}" "0 < invoice_open d b"
    and ms: "ms = open_money_for_invoice ld d b start stop" "ms \<noteq> []"
  defines "ps \<equiv> proposals (invoice_open d b) (map (\<lambda>m. (mt_id m, money_open d m)) ms)"
  defines "x \<equiv> \<lparr>dd_invoice = inv_id b, dd_note = remark,
      dd_partial = (invoice_open d b - min (invoice_open d b) (sum_list (map (money_open d) ms)) \<noteq> 0),
      dd_expected_invoice = Fin (invoice_open d b) (- 2), dd_rows = map proposal_row ps\<rparr>"
  shows "create_ok (direct_args a b x) d"
    and "requested ai_invoice (direct_inputs x) (inv_id b) =
      min (invoice_open d b) (sum_list (map (money_open d) ms))"
proof -
  let ?funds = "map (\<lambda>m. (mt_id m, money_open d m)) ms" and ?v = "invoice_open d b"
  define item where "item = (\<lambda>p :: (uuid \<times> money) \<times> money. \<lparr>ai_invoice = inv_id b,
      ai_transaction = fst (fst p), ai_amount = Some (Fin (snd p) (- 2))\<rparr>)"
  have inputs: "direct_inputs x = map item ps"
    by (simp add: direct_inputs_def x_def item_def proposal_row_def comp_def)
  have cents: "item_cents (item p) = snd p" for p by (simp add: item_def item_cents_def)
  have mem: "m \<in> set (moneys d)" "0 < money_open d m" "mt_counterparty m = Some (inv_counterparty b)"
    "mt_direction m = (if inv_direction b = InvoiceDirection_INPUT
        then MoneyDirection_OUTFLOW else MoneyDirection_INFLOW)" if "m \<in> set ms" for m
    using that by (auto simp: ms(1) open_money_for_invoice_def money_for_invoice_mem)
  have dist: "distinct (map fst ?funds)"
    using distinct_map_filter_key [OF money_for_invoice_distinct [OF led]]
    by (simp add: ms(1) open_money_for_invoice_def comp_def)
  have found: "find_row inv_id (invoices d) (inv_id b) = Some b"
    "m \<in> set ms \<Longrightarrow> find_row mt_id (moneys d) (mt_id m) = Some m" for m
    using led b(1) mem(1) by (simp_all add: ledger_ok_def ledger_keys_def find_row_unique)
  have bill: "bill_open d (inv_id b) = ?v"
    by (simp add: bill_open_def invoice_open_side [OF led b(1)])
  have p: "\<exists>m\<in>set ms. fst (fst p) = mt_id m \<and> snd (fst p) = money_open d m \<and> 0 < snd p
      \<and> snd p \<le> money_open d m \<and> fund_open d (mt_id m) = money_open d m" if "p \<in> set ps" for p
    using proposals_mem [of "fst (fst p)" "snd (fst p)" "snd p" ?v ?funds] that mem(1)
    by (auto simp: ps_def fund_open_money [OF led])
  have "item_ok (cr_direction (direct_args a b x)) (find_row inv_id (invoices d))
      (find_row mt_id (moneys d)) (item q)" if q: "q \<in> set ps" for q
  proof -
    obtain m where m: "m \<in> set ms" "fst (fst q) = mt_id m" "0 < snd q" "snd q \<le> money_open d m"
      using p [OF q] by blast
    have "snd q < 10 ^ 28"
      using m(4) ledger_ok_money_cap [OF led mem(1) [OF m(1)]] by (simp add: max_cents_def)
    then show ?thesis
      using m b(2,3) mem(3,4) [OF m(1)] found(2) [OF m(1)] cents [of q]
      by (auto simp: item_ok_def item_def direct_args_def directions_for_def found(1))
  qed
  moreover
  have ne: "ps \<noteq> []"
    unfolding ps_def by (rule proposals_nonempty) (use b(4) ms(2) mem(2) in auto)
  have sides: "ai_invoice ` set (map item ps) = {inv_id b}" "ai_transaction ` set (map item ps) = (fst \<circ> fst) ` set ps"
    using ne by (cases ps; auto simp: item_def image_image)+
  have total: "requested ai_invoice (map item ps) (inv_id b) = min ?v (sum_list (map (money_open d) ms))"
  proof -
    have "requested ai_invoice (map item ps) (inv_id b) = sum_list (map snd ps)"
      by (rule proposals_invoice [OF eq_refl [OF sides(1)] refl cents])
    also have "\<dots> = min ?v (sum_list (map snd ?funds))"
      unfolding ps_def by (rule proposals_sum) (use b(4) mem(2) in \<open>auto simp: less_imp_le\<close>)
    finally show ?thesis by (simp add: comp_def)
  qed
  then show "requested ai_invoice (direct_inputs x) (inv_id b) =
      min ?v (sum_list (map (money_open d) ms))" by (simp add: inputs)
  have tx: "requested ai_transaction (map item ps) t = snd q" if "q \<in> set ps" "fst (fst q) = t" for t q
    using proposals_transaction [of ps t "snd (fst q)" "snd q" item] proposals_distinct [OF dist, of ?v]
      that cents by (auto simp: ps_def [symmetric] item_def)
  have "map_of (map (\<lambda>(t, _, e). (t, e)) (map proposal_row ps)) t = Some (Fin (snd (fst q)) (- 2))"
    if "q \<in> set ps" "fst (fst q) = t" for t q
    by (rule map_of_is_SomeI)
       (use proposals_distinct [OF dist, of ?v] that in
         \<open>auto simp: ps_def [symmetric] comp_def proposal_row_def case_prod_unfold image_iff\<close>)
  then have "expected_matches (Some (expected_transaction_open_amounts x)) ((fst \<circ> fst) ` set ps) (fund_open d)"
    using p by (force simp: expected_matches_def expected_transaction_open_amounts_def x_def
        image_image proposal_row_def case_prod_unfold cents_eq_def)
  moreover have "expected_matches (Some (expected_invoice_open_amounts x)) {inv_id b} (bill_open d)"
    by (simp add: expected_matches_def expected_invoice_open_amounts_def x_def bill cents_eq_def)
  moreover have "requested ai_transaction (map item ps) t \<le> fund_open d t" if "t \<in> (fst \<circ> fst) ` set ps" for t
    using that tx p by fastforce
  ultimately have "request_ok d (cr_direction (direct_args a b x)) (map item ps)
      (Some (expected_invoice_open_amounts x)) (Some (expected_transaction_open_amounts x)) (dd_partial x)"
    unfolding request_ok_def sides using total by (auto simp: bill x_def)
  then show "create_ok (direct_args a b x) d"
    using fin ne by (auto simp: create_ok_def create_args_ok_def direct_args_def inputs
        ReconciliationDirection_values_def ReconciliationMode_values_def)
qed

text \<open>The run of the form that the workbench shows.\<close>

lemma workbench_form_books:
  assumes led: "ledger_ok d" and fresh: "fresh_recon (re_ids E) d"
    and user: "finance_user d (rr_user r)" "rr_verb r' = lit ''POST''" "rr_user r' = rr_user r"
    and page: "workbench E r d = (Workbench 200 page, d)" "wb_selected_invoice page = Some i"
      "wb_transactions page \<noteq> []"
    and directions: "\<forall>b\<in>set (invoices d). inv_direction b \<in> {InvoiceDirection_INPUT, InvoiceDirection_OUTPUT}"
    and fields: "reads_texts (re_fields E)" "0 \<notin> set remark" "length (strip remark) \<le> 1000"
    and post: "rr_post r' = workbench_post page remark"
  shows "\<exists>d'. d' \<noteq> d \<and> direct_confirm E r' d = (ToReconciliation (re_ids E 0), d')
     \<and> invoice_open_amount d' i = Inr (wb_difference_cents page) \<and> ledger_ok d'"
proof -
  have "workbench_context E d (rr_get r) [] None False = Inr page"
    using finance_required_shown [OF page(1) [unfolded workbench_def]]
    by (auto simp: render_workbench_def split: sum.splits)
  then obtain b start stop where b: "b \<in> set (invoices d)" "inv_id b = i"
      "inv_status b = InvoiceStatus_NORMAL" "0 < invoice_open d b"
      "wb_selected_open_input page = money_input (invoice_open d b)"
    and rows: "wb_transactions page = direct_allocation_rows
       (map (\<lambda>m. (mt_id m, money_open d m)) (open_money_for_invoice (re_local E) d b start stop))
       (invoice_open d b)"
    and diff: "wb_difference_cents page = invoice_open d b - min (invoice_open d b)
       (sum_list (map (money_open d) (open_money_for_invoice (re_local E) d b start stop)))"
    by (rule workbench_shows [OF led _ page(2)])
  let ?ms = "open_money_for_invoice (re_local E) d b start stop" and ?v = "invoice_open d b"
  let ?funds = "map (\<lambda>m. (mt_id m, money_open d m)) ?ms"
  have ne: "?ms \<noteq> []" using page(3) by (auto simp: rows direct_allocation_rows_def)
  have money: "m \<in> set (moneys d)" "0 < money_open d m" if "m \<in> set ?ms" for m
    using that by (auto simp: open_money_for_invoice_def money_for_invoice_mem)
  let ?x = "\<lparr>dd_invoice = i, dd_note = strip remark, dd_partial = (wb_difference_cents page \<noteq> 0),
      dd_expected_invoice = Fin ?v (- 2), dd_rows = map proposal_row (proposals ?v ?funds)\<rparr>"
  have form: "DirectReconciliationForm (re_fields E) (rr_post r') = Inr ?x"
    unfolding post
  proof (rule direct_form_reads_page [OF fields page(2) b(5) rows b(4)])
    show "?v \<le> max_cents" by (rule ledger_ok_bill_cap [OF led b(1)])
    show "distinct (map fst ?funds)"
      using distinct_map_filter_key [OF money_for_invoice_distinct [OF led]]
      by (simp add: open_money_for_invoice_def comp_def)
  qed (use ne money ledger_ok_money_cap [OF led] in auto)
  have bill: "find_row inv_id (invoices d) i = Some b"
    using led b(1,2) by (auto simp: ledger_ok_def ledger_keys_def find_row_unique)
  have fin: "require_finance_actor d (rr_user r) msg_finance_only = Inr ()"
    using user by (simp add: finance_user_def)
  note ok = workbench_create_ok [OF led fin b(1,3) directions [rule_format, OF b(1)] b(4) refl ne,
      of "strip remark", folded diff, unfolded b(2)]
  let ?args = "direct_args (rr_user r) b ?x"
  let ?d = "created_db (re_now E) (re_ids E) ?args d"
  have "direct_confirm E r' d = (ToReconciliation (re_ids E 0), ?d)"
    unfolding direct_confirm_def direct_confirm_body_def
    by (subst finance_required_pass)
       (use user bill in \<open>simp_all add: form create_reconciliation_eq [OF ok(1)] new_recon_def
          finance_user_def\<close>)
  moreover have "invoice_open_amount ?d i = Inr (wb_difference_cents page)"
  proof -
    have "cr_allocations ?args = direct_inputs ?x" by (simp add: direct_args_def)
    then show ?thesis
      using created_open(1) [OF fresh led, of "re_now E" ?args i] invoice_open_side [OF led b(1)] ok(2)
      by (simp add: b(2) diff)
  qed
  moreover have "ledger_ok ?d" by (rule created_ledger [OF ok(1) led fresh])
  moreover have "?d \<noteq> d"
  proof
    assume "?d = d"
    then have "recons ?d = recons d" by simp
    then show False by (simp add: created_db_def)
  qed
  ultimately show ?thesis by blast
qed

text \<open>
  C9. What the workbench shows can be confirmed: when the page of a finance user shows an
  invoice with at least one transaction, posting its form as the browser fills it makes a
  reconciliation, after which the open amount of the invoice is exactly the difference that
  the page announced, and the ledger invariant holds.
\<close>

theorem workbench_page_confirms:
  assumes led: "ledger_ok d" and fresh: "fresh_recon (re_ids E) d"
    and user: "finance_user d (rr_user r)" "rr_verb r' = lit ''POST''" "rr_user r' = rr_user r"
    and page: "workbench E r d = (Workbench 200 page, d)" "wb_selected_invoice page = Some i"
      "wb_transactions page \<noteq> []"
    and directions: "\<forall>b\<in>set (invoices d). inv_direction b \<in> {InvoiceDirection_INPUT, InvoiceDirection_OUTPUT}"
    and fields: "reads_texts (re_fields E)" "0 \<notin> set remark" "length (strip remark) \<le> 1000"
    and post: "rr_post r' = workbench_post page remark"
  shows "\<exists>d'. direct_confirm E r' d = (ToReconciliation (re_ids E 0), d')
     \<and> invoice_open_amount d' i = Inr (wb_difference_cents page) \<and> ledger_ok d'"
  using workbench_form_books [OF assms] by blast

section \<open>A batch\<close>


end
