(* ===== verification/Recon_Page_Runs.thy ===== *)
theory Recon_Page_Runs
  imports Recon_Page_Proofs Settlement_Properties Recon_Page_Properties
begin

text \<open>
  The pages over time: what one request can do to the database, and that no sequence of
  requests breaks the ledger.
\<close>

section \<open>Requests\<close>

text \<open>The patterns of \<open>apps/reconciliation/urls.py\<close> and the view of each.\<close>

datatype page_call =
    Workbench_Url
  | Candidates_Url
  | Confirm_Url
  | Settlements_Url
  | Settlement_Create_Url
  | Settlement_Url uuid
  | Settlement_Confirm_Url uuid
  | Reconciliation_Url uuid
  | Reverse_Url uuid

fun serve :: "recon_env \<Rightarrow> page_call \<Rightarrow> recon_request \<Rightarrow> db \<Rightarrow> recon_page \<times> db" where
  "serve E Workbench_Url = workbench E"
| "serve E Candidates_Url = candidate_list E"
| "serve E Confirm_Url = direct_confirm E"
| "serve E Settlements_Url = settlement_list E"
| "serve E Settlement_Create_Url = settlement_create E"
| "serve E (Settlement_Url pk) = settlement_detail E pk"
| "serve E (Settlement_Confirm_Url pk) = settlement_confirm E pk"
| "serve E (Reconciliation_Url pk) = reconciliation_detail E pk"
| "serve E (Reverse_Url pk) = reverse_view E pk"

text \<open>A run of one of the services behind the pages, by a user, with the clock of the request.\<close>

inductive page_service :: "recon_env \<Rightarrow> actor \<Rightarrow> db \<Rightarrow> db \<Rightarrow> bool" for E a where
  book: "cr_actor args = a \<Longrightarrow> create_reconciliation (re_now E) (re_ids E) args d = Inr (rc, d') \<Longrightarrow>
    page_service E a d d'"
| undo: "reverse_reconciliation (re_now E) (re_ids E) a rid reason d = Inr (rv, d') \<Longrightarrow>
    page_service E a d d'"
| draft: "create_settlement_batch (re_local E) (re_now E) (re_ids E) a party direction from_day to_day d
    = Inr (batch, d') \<Longrightarrow> page_service E a d d'"
| settle: "confirm_settlement_batch (re_now E) (re_ids E) b a items version d = Inr (rc, d') \<Longrightarrow>
    page_service E a d d'"

lemma finance_required_changes:
  assumes "finance_required verbs view r d = (page, d')" "d' \<noteq> d"
  shows "user_has_role d (rr_user r) FINANCE" "rr_verb r \<in> lit ` set verbs" "view r d = (page, d')"
  using assms by (auto simp: finance_required_def split: if_splits)

lemma render_workbench_keeps [simp]: "snd (render_workbench E r es sel code stale d) = d"
  by (simp add: render_workbench_def)

lemma render_not_changed: "d' \<noteq> d \<Longrightarrow> render_workbench E r es sel code stale d \<noteq> (page, d')"
  by (simp add: render_workbench_def)

lemma direct_confirm_changes:
  assumes "direct_confirm E r d = (page, d')" "d' \<noteq> d"
  obtains x bill rc where "DirectReconciliationForm (re_fields E) (rr_post r) = Inr x"
    "find_row inv_id (invoices d) (dd_invoice x) = Some bill" "page = ToReconciliation (rc_id rc)"
    "create_reconciliation (re_now E) (re_ids E) (direct_args (rr_user r) bill x) d = Inr (rc, d')"
  using finance_required_changes(3) [OF assms(1) [unfolded direct_confirm_def] assms(2)] assms(2)
  by (auto simp: direct_confirm_body_def Let_def render_not_changed
      split: sum.splits option.splits exn.splits if_splits)

lemma settlement_create_changes:
  assumes "settlement_create E r d = (page, d')" "d' \<noteq> d"
  obtains x batch where "SettlementDraftForm (re_fields E) d (rr_post r) = Inr x"
    "page = ToSettlement (sb_id batch)"
    "create_settlement_batch (re_local E) (re_now E) (re_ids E) (rr_user r) (cp_id (df_counterparty x))
       (df_direction x) (df_period_start x) (df_period_end x) d = Inr (batch, d')"
  using finance_required_changes(3) [OF assms(1) [unfolded settlement_create_def] assms(2)] assms(2)
  by (auto simp: settlement_create_body_def split: sum.splits exn.splits if_splits)

lemma settlement_confirm_changes:
  assumes "settlement_confirm E pk r d = (page, d')" "d' \<noteq> d"
  obtains version items rc where "SettlementConfirmForm (re_fields E) (rr_post r) = Inr (version, items)"
    "page = ToReconciliation (rc_id rc)"
    "confirm_settlement_batch (re_now E) (re_ids E) pk (rr_user r) items version d = Inr (rc, d')"
  using finance_required_changes(3) [OF assms(1) [unfolded settlement_confirm_def] assms(2)] assms(2)
  by (auto simp: settlement_confirm_body_def dest!: find_row_Some
      split: sum.splits exn.splits if_splits option.splits)

lemma reverse_view_changes:
  assumes "reverse_view E pk r d = (page, d')" "d' \<noteq> d"
  obtains reason rv where "rr_verb r \<noteq> lit ''GET''" "page = ToReconciliation pk"
    "reverse_reconciliation (re_now E) (re_ids E) (rr_user r) pk (Some reason) d = Inr (rv, d')"
  using finance_required_changes(3) [OF assms(1) [unfolded reverse_view_def] assms(2)] assms(2)
  by (auto simp: reverse_view_body_def dest!: find_row_Some
      split: sum.splits exn.splits if_splits option.splits)

lemma direct_form_distinct:
  assumes "DirectReconciliationForm F q = Inr x"
  shows "distinct (map fst (dd_rows x))"
  using assms
  by (auto simp: DirectReconciliationForm_def direct_clean_def bindE_Inr_iff Let_def
      split: sum.splits option.splits if_splits)

section \<open>One request\<close>

text \<open>The pages that only show something.\<close>

lemma reading_pages:
  "snd (workbench E r d) = d" "snd (candidate_list E r d) = d" "snd (settlement_list E r d) = d"
  "snd (settlement_detail E pk r d) = d" "snd (reconciliation_detail E pk r d) = d"
  by (simp_all add: workbench_def candidate_list_def settlement_list_def settlement_detail_def
      reconciliation_detail_def finance_required_def)

lemma serve_changes:
  assumes "serve E call r d = (page, d')" "d' \<noteq> d"
  shows "user_has_role d (rr_user r) FINANCE \<and> rr_verb r = lit ''POST'' \<and> page_service E (rr_user r) d d'"
proof (cases call)
  case Confirm_Url
  then have c: "direct_confirm E r d = (page, d')" using assms(1) by simp
  then obtain x bill rc where "create_reconciliation (re_now E) (re_ids E)
      (direct_args (rr_user r) bill x) d = Inr (rc, d')"
    using assms(2) by (rule direct_confirm_changes)
  then have "page_service E (rr_user r) d d'"
    by (rule page_service.book [rotated]) (simp add: direct_args_def)
  with finance_required_changes [OF c [unfolded direct_confirm_def] assms(2)] show ?thesis by simp
next
  case Settlement_Create_Url
  then have c: "settlement_create E r d = (page, d')" using assms(1) by simp
  then have "page_service E (rr_user r) d d'"
    using assms(2) by (rule settlement_create_changes) (rule page_service.draft)
  with finance_required_changes [OF c [unfolded settlement_create_def] assms(2)] show ?thesis by simp
next
  case (Settlement_Confirm_Url pk)
  then have c: "settlement_confirm E pk r d = (page, d')" using assms(1) by simp
  then have "page_service E (rr_user r) d d'"
    using assms(2) by (rule settlement_confirm_changes) (rule page_service.settle)
  with finance_required_changes [OF c [unfolded settlement_confirm_def] assms(2)] show ?thesis by simp
next
  case (Reverse_Url pk)
  then have c: "reverse_view E pk r d = (page, d')" using assms(1) by simp
  then obtain reason rv where "rr_verb r \<noteq> lit ''GET''" "reverse_reconciliation (re_now E) (re_ids E)
      (rr_user r) pk (Some reason) d = Inr (rv, d')"
    using assms(2) by (rule reverse_view_changes)
  with finance_required_changes [OF c [unfolded reverse_view_def] assms(2)] show ?thesis
    by (auto intro: page_service.undo)
qed (use assms reading_pages in \<open>force simp: prod_eq_iff\<close>)+

lemma drafted_ledger:
  assumes "create_settlement_batch ld now ids a party direction start stop d = Inr (batch, d')" "ledger_ok d"
  shows "ledger_ok d'"
  using assms(2)
  by (rule ledger_ok_cong)
     (use assms(1) in \<open>auto simp: create_settlement_batch_def record_audit_def bindE_Inr_iff Let_def
        split: if_splits\<close>)

lemma page_service_ledger:
  assumes "page_service E a d d'" "ledger_ok d" "fresh_recon (re_ids E) d"
  shows "ledger_ok d'"
  using assms
proof cases
  case (book args rc)
  with assms show ?thesis by (auto simp: create_reconciliation_iff intro: created_ledger)
next
  case (undo rid reason rv)
  with assms show ?thesis by (auto simp: reverse_reconciliation_iff intro: reversed_ledger)
next
  case (draft party direction from_day to_day batch)
  with assms show ?thesis by (blast intro: drafted_ledger)
next
  case (settle b items version rc)
  with confirmed_rows [OF assms(2,3)] show ?thesis by blast
qed

lemma bill_openI: "invoice_open_amount d k = Inr v \<Longrightarrow> bill_open d k = v"
  by (simp add: bill_open_def)

lemma fund_openI: "transaction_open_amount d k = Inr v \<Longrightarrow> fund_open d k = v"
  by (simp add: fund_open_def)

section \<open>Properties\<close>

text \<open>
  A request that arrives at some moment: the identifiers it draws are new. Requests of several
  users follow each other in any order.
\<close>

inductive page_step :: "db \<Rightarrow> db \<Rightarrow> bool" where
  "fresh_recon (re_ids E) d \<Longrightarrow> serve E call r d = (page, d') \<Longrightarrow> page_step d d'"

text \<open>
  C12. Whatever requests arrive, from whatever users and in whatever order, the ledger
  invariant holds after each of them; and a request changes something only when it is the
  POST of a finance user, and then it is exactly one run of one of the four services.
\<close>

theorem pages_keep_ledger:
  assumes "page_step\<^sup>*\<^sup>* d0 d" "ledger_ok d0"
  shows "ledger_ok d \<and> (\<forall>E call r page d'. serve E call r d = (page, d') \<longrightarrow> d' \<noteq> d \<longrightarrow>
     user_has_role d (rr_user r) FINANCE \<and> rr_verb r = lit ''POST'' \<and> page_service E (rr_user r) d d')"
  using assms(1)
proof (induction rule: rtranclp_induct)
  case base
  show ?case using assms(2) serve_changes by blast
next
  case (step d d')
  from step.hyps(2) have "ledger_ok d'"
  proof cases
    case (1 E call r page)
    with serve_changes [OF 1(2)] page_service_ledger step.IH show ?thesis by (cases "d' = d") blast+
  qed
  then show ?case using serve_changes by blast
qed

text \<open>
  C10. A confirmation books only what the page showed. When the confirmation of an invoice
  changes the database, the browser is sent to the new reconciliation; the amounts that the
  form expected of the invoice and of every transaction were the open amounts at that moment;
  no transaction gives more than it had; and the invoice is closed unless the user ticked the
  box for a partial confirmation.
\<close>

theorem confirmation_books_shown:
  assumes "direct_confirm E r d = (page, d')" "d' \<noteq> d" "ledger_ok d" "fresh_recon (re_ids E) d"
  shows "\<exists>x. DirectReconciliationForm (re_fields E) (rr_post r) = Inr x
     \<and> page = ToReconciliation (re_ids E 0)
     \<and> dec_eq (dd_expected_invoice x) (bill_open d (dd_invoice x))
     \<and> (\<forall>(t, a, e)\<in>set (dd_rows x). dec_eq e (fund_open d t) \<and> 0 \<le> fund_open d' t)
     \<and> 0 \<le> bill_open d' (dd_invoice x)
     \<and> (dd_partial x \<or> bill_open d' (dd_invoice x) = 0)"
proof -
  obtain x bill rc where form: "DirectReconciliationForm (re_fields E) (rr_post r) = Inr x"
    and found: "find_row inv_id (invoices d) (dd_invoice x) = Some bill"
    and made: "page = ToReconciliation (rc_id rc)"
      "create_reconciliation (re_now E) (re_ids E) (direct_args (rr_user r) bill x) d = Inr (rc, d')"
    using direct_confirm_changes [OF assms(1,2)] by metis
  let ?args = "direct_args (rr_user r) bill x" and ?items = "direct_inputs x"
  have ok: "create_ok ?args d" and d': "d' = created_db (re_now E) (re_ids E) ?args d"
    and rc: "rc_id rc = re_ids E 0"
    using made(2) by (simp_all add: create_reconciliation_iff new_recon_def)
  have req: "request_ok d (cr_direction ?args) ?items (Some (expected_invoice_open_amounts x))
      (Some (expected_transaction_open_amounts x)) (dd_partial x)"
    using ok by (simp add: create_ok_def direct_args_def)
  have items: "cr_allocations ?args = ?items" by (simp add: direct_args_def)
  have ne: "dd_rows x \<noteq> []" using ok by (auto simp: create_ok_def create_args_ok_def items direct_inputs_def)
  have sides: "ai_invoice ` set ?items = {dd_invoice x}" "ai_transaction ` set ?items = fst ` set (dd_rows x)"
    using ne by (cases "dd_rows x"; force simp: direct_inputs_def image_image case_prod_unfold)+
  have dist: "distinct (map fst (dd_rows x))" by (rule direct_form_distinct [OF form])
  have "invoice_open_amount d (dd_invoice x) = Inr (bill_open d (dd_invoice x))"
    using found by (simp add: bill_open_def invoice_open_amount_def)
  then have bill: "bill_open d' (dd_invoice x) = bill_open d (dd_invoice x) - requested ai_invoice ?items (dd_invoice x)"
    using created_open(1) [OF assms(4,3), of "re_now E" ?args "dd_invoice x"]
    by (intro bill_openI) (simp add: d' items)
  have fund: "fund_open d' t = fund_open d t - requested ai_transaction ?items t"
    if t: "t \<in> ai_transaction ` set ?items" for t
  proof -
    obtain m where "find_row mt_id (moneys d) t = Some m"
      using req t by (auto simp: request_ok_def item_ok_def)
    then have "transaction_open_amount d t = Inr (fund_open d t)"
      by (simp add: fund_open_def transaction_open_amount_def)
    then show ?thesis
      using created_open(2) [OF assms(4,3), of "re_now E" ?args t]
      by (intro fund_openI) (simp add: d' items)
  qed
  have "0 \<le> bill_open d' (dd_invoice x) \<and> (dd_partial x \<or> bill_open d' (dd_invoice x) = 0)"
    using req unfolding request_ok_def sides by (auto simp: bill)
  moreover have "dec_eq (dd_expected_invoice x) (bill_open d (dd_invoice x))"
    using req unfolding request_ok_def sides by (simp add: expected_matches_def expected_invoice_open_amounts_def)
  moreover have "dec_eq e (fund_open d t) \<and> 0 \<le> fund_open d' t" if row: "(t, a, e) \<in> set (dd_rows x)" for t a e
  proof -
    have t: "t \<in> ai_transaction ` set ?items" using row sides(2) by force
    have "map_of (expected_transaction_open_amounts x) t = Some e"
      by (rule map_of_is_SomeI)
         (use row dist in \<open>force simp: expected_transaction_open_amounts_def comp_def case_prod_unfold\<close>)+
    with req t show ?thesis
      unfolding request_ok_def by (auto simp: expected_matches_def fund [OF t])
  qed
  ultimately show ?thesis using form made(1) rc by auto
qed

chapter \<open>Samples\<close>

text \<open>The properties of the pages on a small ledger, with form fields that compute.\<close>

definition sample_fields :: form_fields where
  "sample_fields = \<lparr>ff_integer = map_option int \<circ> parse_digits, ff_date = parse_iso_date,
     ff_checked = (\<lambda>t. True), ff_complaints = (\<lambda>t. if 0 \<in> set t then [lit ''null''] else [])\<rparr>"

definition sample_env :: recon_env where
  "sample_env = \<lparr>re_now = 5, re_ids = sample_ids, re_today = 719170,
     re_local = (\<lambda>t. t div us_per_day + 719163), re_fields = sample_fields\<rparr>"

definition sample_page_db :: db where
  "sample_page_db = sample_db\<lparr>invoices := [sample_invoice 1 719170 10000]\<rparr>"

definition sample_get :: recon_request where
  "sample_get = \<lparr>rr_user = finance_actor, rr_verb = lit ''GET'',
     rr_get = [(lit ''invoice'', uuid_str 1)], rr_post = []\<rparr>"

definition sample_post :: "query \<Rightarrow> recon_request" where
  "sample_post q = sample_get\<lparr>rr_verb := lit ''POST'', rr_post := q\<rparr>"

lemma sample_reads: "reads_texts sample_fields" "reads_versions sample_fields"
  by (simp_all add: reads_texts_def reads_versions_def sample_fields_def str_int_def parse_digits_def
      digits_val_str_nat)

lemma sample_page_ledger: "ledger_ok sample_page_db"
  by (simp add: ledger_ok_def ledger_keys_def ledger_refs_def within_totals_def side_within_def
      ledger_caps_def max_cents_def allocated_by_def sample_page_db_def sample_defs)

lemma sample_page_fresh: "fresh_recon (re_ids sample_env) sample_page_db"
  by (simp add: fresh_recon_def sample_page_db_def sample_db_def empty_db_def)

lemma sample_page_user: "finance_user sample_page_db finance_actor"
  using sample_finance [of msg_finance_only] require_finance_actor_cong [of sample_page_db sample_db]
  by (simp add: finance_user_def sample_page_db_def finance_actor_def)

lemma sample_window: "default_window 719170 = Inr (719132, 719193)"
  by code_simp

lemma sample_workbench:
  "\<exists>page. workbench sample_env sample_get sample_page_db = (Workbench 200 page, sample_page_db)
     \<and> wb_selected_invoice page = Some 1 \<and> wb_transactions page \<noteq> []"
proof -
  have ne: "uuid_str (1::uuid) \<noteq> []" using length_uuid [of 1] by auto
  have q: "parse_uuid_param (get_field ''invoice'' (rr_get sample_get)) = Some 1"
    "get_field ''start'' (rr_get sample_get) = None" "get_field ''end'' (rr_get sample_get) = None"
    using ne by (simp_all add: sample_get_def get_field_def parse_uuid_param_def field_text_def parse_uuid_str)
  have w: "workbench_window sample_env (rr_get sample_get) (Some (sample_invoice 1 719170 10000)) =
      Inr (719132, 719193)"
    by (simp add: workbench_window_def q parse_date_param_def field_text_def sample_window sample_invoice_def)
  have i: "inv_id (sample_invoice 1 719170 10000) = 1" by (simp add: sample_invoice_def)
  have opens: "collect_open (\<lambda>b. invoice_open_amount sample_page_db (inv_id b)) (normal_invoices sample_page_db)
      = Inr [(sample_invoice 1 719170 10000, 10000)]"
    by (simp add: normal_invoices_def invoice_open_amount_def allocated_by_def find_row_def
        sample_page_db_def sample_defs)
  have funds: "available_transactions_for_invoice (re_local sample_env) sample_page_db
      (sample_invoice 1 719170 10000) 719132 719193 =
      Inr [\<lparr>av_id = 3, av_at = 11 * 86400000000, av_open = 12000\<rparr>,
           \<lparr>av_id = 4, av_at = 13 * 86400000000, av_open = 3000\<rparr>]"
    by (simp add: available_transactions_for_invoice_def money_for_invoice_def
        transaction_open_amount_def allocated_by_def find_row_def sample_page_db_def sample_env_def
        us_per_day_def sample_defs)
  have "\<exists>page. workbench_context sample_env sample_page_db (rr_get sample_get) [] None False = Inr page
      \<and> wb_selected_invoice page = Some 1 \<and> wb_transactions page \<noteq> []"
    by (simp add: workbench_context_def opens q w funds direct_allocation_rows_def Let_def i)
  then obtain page where page: "workbench_context sample_env sample_page_db (rr_get sample_get) [] None False = Inr page"
    "wb_selected_invoice page = Some 1" "wb_transactions page \<noteq> []" by blast
  have "workbench sample_env sample_get sample_page_db = (Workbench 200 page, sample_page_db)"
    unfolding workbench_def
    by (subst finance_required_pass)
       (use sample_page_user in \<open>simp_all add: sample_get_def render_workbench_def
          page(1) [unfolded sample_get_def recon_request.simps]\<close>)
  with page show ?thesis by blast
qed

text \<open>A confirmation of the sample page that goes through.\<close>

lemma sample_directions:
  "\<forall>b\<in>set (invoices sample_page_db). inv_direction b \<in> {InvoiceDirection_INPUT, InvoiceDirection_OUTPUT}"
  by (simp add: sample_page_db_def sample_invoice_def)

lemma sample_form:
  assumes "workbench sample_env sample_get sample_page_db = (Workbench 200 page, sample_page_db)"
    "wb_selected_invoice page = Some 1" "wb_transactions page \<noteq> []"
  shows "\<exists>d'. d' \<noteq> sample_page_db \<and> direct_confirm sample_env (sample_post (workbench_post page [])) sample_page_db
      = (ToReconciliation (sample_ids 0), d')"
  using workbench_form_books [OF sample_page_ledger sample_page_fresh, of sample_get
      "sample_post (workbench_post page [])" page 1 "[]"] assms sample_page_user sample_directions sample_reads
  by (auto simp: sample_post_def sample_get_def sample_env_def strip_def lstrip_def rstrip_def)

theorem workbench_page_confirms_witness:
  "\<exists>page d'. direct_confirm sample_env (sample_post (workbench_post page [])) sample_page_db
      = (ToReconciliation (sample_ids 0), d')
     \<and> invoice_open_amount d' 1 = Inr (wb_difference_cents page)"
proof -
  obtain page where page: "workbench sample_env sample_get sample_page_db = (Workbench 200 page, sample_page_db)"
    "wb_selected_invoice page = Some 1" "wb_transactions page \<noteq> []"
    using sample_workbench by blast
  then show ?thesis
    using workbench_page_confirms [OF sample_page_ledger sample_page_fresh, of sample_get
      "sample_post (workbench_post page [])" page 1 "[]"] sample_page_user sample_directions sample_reads
    by (auto simp: sample_post_def sample_get_def sample_env_def strip_def lstrip_def rstrip_def)
qed


theorem pages_keep_ledger_witness:
  "\<exists>d'. d' \<noteq> sample_page_db \<and> page_step sample_page_db d' \<and> ledger_ok d'"
proof -
  obtain page d' where d': "d' \<noteq> sample_page_db"
    "direct_confirm sample_env (sample_post (workbench_post page [])) sample_page_db
      = (ToReconciliation (sample_ids 0), d')"
    using sample_workbench sample_form by blast
  then have "page_step sample_page_db d'"
    by (intro page_step.intros [OF sample_page_fresh, of Confirm_Url]) simp
  with d'(1) pages_keep_ledger [OF r_into_rtranclp [of page_step, OF this] sample_page_ledger] show ?thesis by blast
qed

theorem confirmation_books_shown_witness:
  "\<exists>q (x :: direct_data) d'. direct_confirm sample_env (sample_post q) sample_page_db = (ToReconciliation (sample_ids 0), d')
     \<and> dec_eq (dd_expected_invoice x) (bill_open sample_page_db (dd_invoice x))
     \<and> (dd_partial x \<or> bill_open d' (dd_invoice x) = 0)"
proof -
  obtain page d' where d': "d' \<noteq> sample_page_db"
    "direct_confirm sample_env (sample_post (workbench_post page [])) sample_page_db
      = (ToReconciliation (sample_ids 0), d')"
    using sample_workbench sample_form by blast
  from confirmation_books_shown [OF d'(2,1) sample_page_ledger sample_page_fresh] obtain x :: direct_data where
    "dec_eq (dd_expected_invoice x) (bill_open sample_page_db (dd_invoice x))"
    "dd_partial x \<or> bill_open d' (dd_invoice x) = 0" by blast
  with d'(2) show ?thesis by blast
qed

end
