(* ===== verification/Py_Bytes.thy ===== *)
theory Py_Bytes
  imports Py_Text
begin

text \<open>
  Bytes and their UTF-8 text, as \<open>bytes.decode("utf-8")\<close> and \<open>str.encode()\<close> convert them: the
  decoder is strict, so overlong forms, surrogates and values above 0x10FFFF are errors.
\<close>

type_synonym bytes = "nat list"

section \<open>Encoding\<close>

text \<open>The code points that UTF-8 can carry.\<close>

definition scalar :: "nat \<Rightarrow> bool" where
  "scalar c \<longleftrightarrow> c < 55296 \<or> (57344 \<le> c \<and> c < 1114112)"

definition utf8_char :: "nat \<Rightarrow> bytes" where
  "utf8_char c =
     (if c < 128 then [c]
      else if c < 2048 then [192 + c div 64, 128 + c mod 64]
      else if c < 65536 then [224 + c div 4096, 128 + c div 64 mod 64, 128 + c mod 64]
      else [240 + c div 262144, 128 + c div 4096 mod 64, 128 + c div 64 mod 64, 128 + c mod 64])"

definition utf8_encode :: "pystr \<Rightarrow> bytes" where
  "utf8_encode s = concat (map utf8_char s)"

section \<open>Decoding\<close>

definition cont_byte :: "nat \<Rightarrow> bool" where
  "cont_byte b \<longleftrightarrow> 128 \<le> b \<and> b < 192"

fun utf8_decode :: "bytes \<Rightarrow> pystr option" where
  "utf8_decode [] = Some []"
| "utf8_decode (a # bs) =
     (if a < 128 then map_option ((#) a) (utf8_decode bs)
      else if a < 192 then None
      else if a < 224 then
        (case bs of
           b # bs' \<Rightarrow>
             let c = (a - 192) * 64 + (b - 128)
             in if cont_byte b \<and> 128 \<le> c then map_option ((#) c) (utf8_decode bs') else None
         | _ \<Rightarrow> None)
      else if a < 240 then
        (case bs of
           b # b2 # bs' \<Rightarrow>
             let c = (a - 224) * 4096 + (b - 128) * 64 + (b2 - 128)
             in if cont_byte b \<and> cont_byte b2 \<and> 2048 \<le> c \<and> scalar c
                then map_option ((#) c) (utf8_decode bs') else None
         | _ \<Rightarrow> None)
      else
        (case bs of
           b # b2 # b3 # bs' \<Rightarrow>
             let c = (a - 240) * 262144 + (b - 128) * 4096 + (b2 - 128) * 64 + (b3 - 128)
             in if cont_byte b \<and> cont_byte b2 \<and> cont_byte b3 \<and> 65536 \<le> c \<and> scalar c
                then map_option ((#) c) (utf8_decode bs') else None
         | _ \<Rightarrow> None))"

declare utf8_decode.simps(2) [simp del]

text \<open>\<open>utf-8-sig\<close> drops a leading byte order mark.\<close>

definition utf8_sig_decode :: "bytes \<Rightarrow> pystr option" where
  "utf8_sig_decode bs = utf8_decode (if take 3 bs = [239, 187, 191] then drop 3 bs else bs)"

definition ascii_decode :: "bytes \<Rightarrow> pystr option" where
  "ascii_decode bs = (if \<forall>b\<in>set bs. b < 128 then Some bs else None)"

section \<open>The round trip\<close>

lemma div_mod_chain:
  fixes c :: nat
  shows "c div 64 * 64 + c mod 64 = c"
    and "c div 4096 * 4096 + c div 64 mod 64 * 64 + c mod 64 = c"
    and "c div 262144 * 262144 + c div 4096 mod 64 * 4096 + c div 64 mod 64 * 64 + c mod 64 = c"
proof -
  have 1: "c div 4096 = c div 64 div 64" "c div 262144 = c div 64 div 64 div 64"
    by (simp_all add: div_mult2_eq [symmetric])
  show "c div 64 * 64 + c mod 64 = c" by simp
  show "c div 4096 * 4096 + c div 64 mod 64 * 64 + c mod 64 = c"
    using div_mult_mod_eq [of "c div 64" 64] div_mult_mod_eq [of c 64] unfolding 1 by linarith
  show "c div 262144 * 262144 + c div 4096 mod 64 * 4096 + c div 64 mod 64 * 64 + c mod 64 = c"
    using div_mult_mod_eq [of "c div 64 div 64" 64] div_mult_mod_eq [of "c div 64" 64]
      div_mult_mod_eq [of c 64] unfolding 1 by linarith
qed

lemma cont_byte_mod [simp]: "cont_byte (128 + n mod 64)"
  by (simp add: cont_byte_def)

lemma utf8_decode_char:
  assumes "scalar c"
  shows "utf8_decode (utf8_char c @ bs) = map_option ((#) c) (utf8_decode bs)"
proof -
  have c: "c < 1114112" using assms by (auto simp: scalar_def)
  note chain = div_mod_chain [of c]
  consider "c < 128" | "128 \<le> c" "c < 2048" | "2048 \<le> c" "c < 65536" | "65536 \<le> c" by linarith
  then show ?thesis
  proof cases
    case 2
    then have "c div 64 < 32" by simp
    with 2 chain show ?thesis
      by (simp add: utf8_char_def utf8_decode.simps(2) Let_def)
  next
    case 3
    then have "c div 4096 < 16" by simp
    with 3 chain assms show ?thesis
      by (simp add: utf8_char_def utf8_decode.simps(2) Let_def)
  next
    case 4
    have "c div 262144 < 5" using c by simp
    with 4 chain assms show ?thesis
      by (simp add: utf8_char_def utf8_decode.simps(2) Let_def)
  qed (simp add: utf8_char_def utf8_decode.simps(2))
qed

lemma utf8_decode_encode:
  "(\<And>c. c \<in> set s \<Longrightarrow> scalar c) \<Longrightarrow> utf8_decode (utf8_encode s) = Some s"
  by (induction s) (simp_all add: utf8_encode_def utf8_decode_char)

lemma utf8_encode_append: "utf8_encode (s @ t) = utf8_encode s @ utf8_encode t"
  by (simp add: utf8_encode_def)

lemma utf8_encode_ascii: "(\<And>c. c \<in> set s \<Longrightarrow> c < 128) \<Longrightarrow> utf8_encode s = s"
  by (induction s) (simp_all add: utf8_encode_def utf8_char_def)

end
