(* ===== verification/Import_Types.thy ===== *)
theory Import_Types
  imports Dec_Text Calendar Py_Bytes Accounts
begin

text \<open>
  The data of the import pipeline (\<open>apps/imports/types.py\<close>): the cells a file holds, the
  normalized rows, the issues, and the environment of libraries and settings that the
  pipeline uses.
\<close>

section \<open>Cells\<close>

text \<open>
  What a cell of a file is: a text (every cell of a CSV file), or what \<open>openpyxl\<close> and \<open>xlrd\<close>
  return. A float is its \<open>repr\<close>, a naive datetime its microseconds since the epoch, a time
  its microseconds since midnight. \<open>COther\<close> is a value of another type, with its qualified
  type name and its \<open>str\<close>.
\<close>

datatype cell =
    CNone
  | CText pystr
  | CInt int
  | CFloat pystr
  | CBool bool
  | CDate date
  | CDateTime int
  | CTime int
  | COther pystr pystr

text \<open>\<open>str(value)\<close>.\<close>

fun cell_str :: "cell \<Rightarrow> pystr" where
  "cell_str CNone = lit ''None''"
| "cell_str (CText s) = s"
| "cell_str (CInt i) = str_int i"
| "cell_str (CFloat s) = s"
| "cell_str (CBool b) = (if b then lit ''True'' else lit ''False'')"
| "cell_str (CDate d) = iso_date d"
| "cell_str (CDateTime n) =
     iso_date (n div us_per_day + 719163) @ [32] @ iso_clock (n mod us_per_day)"
| "cell_str (CTime n) = iso_clock n"
| "cell_str (COther ty s) = s"

text \<open>\<open>text(value)\<close>, and \<open>_text\<close> of the tax importer.\<close>

definition text_of :: "cell \<Rightarrow> pystr" where
  "text_of v = (if v = CNone then [] else strip (cell_str v))"

text \<open>\<open>dict(zip(headers, values, strict=False))\<close>.\<close>

definition dict_of_zip :: "'k list \<Rightarrow> 'v list \<Rightarrow> ('k \<times> 'v) list" where
  "dict_of_zip hs vs = foldl (\<lambda>d (k, v). AList.update k v d) [] (zip hs vs)"

definition raw_get :: "(pystr \<times> cell) list \<Rightarrow> pystr \<Rightarrow> cell" where
  "raw_get raw k = (case map_of raw k of None \<Rightarrow> CNone | Some v \<Rightarrow> v)"

definition raw_item :: "(pystr \<times> cell) list \<Rightarrow> pystr \<Rightarrow> exn + cell" where
  "raw_item raw k = (case map_of raw k of None \<Rightarrow> Inl (KeyError k) | Some v \<Rightarrow> Inr v)"

section \<open>Raw rows as JSON\<close>

text \<open>
  The encoder cuts the fraction of a datetime or a time to three digits when there is one.
\<close>

definition iso_clock_millis :: "int \<Rightarrow> pystr" where
  "iso_clock_millis us = take 12 (iso_clock us)"

fun cell_json :: "cell \<Rightarrow> json option" where
  "cell_json CNone = Some JNull"
| "cell_json (CText s) = Some (JStr s)"
| "cell_json (CInt i) = Some (JInt i)"
| "cell_json (CFloat s) = Some (JNum s)"
| "cell_json (CBool b) = Some (JBool b)"
| "cell_json (CDate d) = Some (JStr (iso_date d))"
| "cell_json (CDateTime n) =
     Some (JStr (iso_date (n div us_per_day + 719163) @ [84] @ iso_clock_millis (n mod us_per_day)))"
| "cell_json (CTime n) = Some (JStr (iso_clock_millis n))"
| "cell_json (COther ty s) = None"

text \<open>\<open>_first_unserializable_value\<close> on a row: the qualified type of the value it stops at.\<close>

fun cell_type_unless_plain :: "cell \<Rightarrow> pystr option" where
  "cell_type_unless_plain (CDate d) = Some (lit ''datetime.date'')"
| "cell_type_unless_plain (CDateTime n) = Some (lit ''datetime.datetime'')"
| "cell_type_unless_plain (CTime n) = Some (lit ''datetime.time'')"
| "cell_type_unless_plain (COther ty s) = Some ty"
| "cell_type_unless_plain _ = None"

fun first_unserializable :: "(pystr \<times> cell) list \<Rightarrow> pystr option" where
  "first_unserializable [] = None"
| "first_unserializable ((k, v) # raw) =
     (case cell_type_unless_plain v of Some ty \<Rightarrow> Some ty | None \<Rightarrow> first_unserializable raw)"

record row_issue =
  ri_code :: pystr
  ri_message :: pystr
  ri_field :: pystr

definition issue :: "string \<Rightarrow> pystr \<Rightarrow> string \<Rightarrow> row_issue" where
  "issue code message fld = \<lparr>ri_code = lit code, ri_message = message, ri_field = lit fld\<rparr>"

text \<open>\<open>asdict(issue)\<close>.\<close>

definition issue_json :: "row_issue \<Rightarrow> json" where
  "issue_json i = JObj [(lit ''code'', JStr (ri_code i)), (lit ''message'', JStr (ri_message i)),
     (lit ''field'', JStr (ri_field i))]"

definition json_safe_raw_data :: "(pystr \<times> cell) list \<Rightarrow> json \<times> row_issue option" where
  "json_safe_raw_data raw =
     (if list_all (\<lambda>(k, v). cell_json v \<noteq> None) raw
      then (JObj (map (\<lambda>(k, v). (k, the (cell_json v))) raw), None)
      else (JObj [(lit ''_unserializable_type'', JStr (the (first_unserializable raw))),
                  (lit ''_unserializable_repr'', JStr (lit ''<builtins.dict>''))],
            Some (issue ''raw_data'' [21407, 22987, 25968, 25454, 26080, 27861, 24207, 21015,
     21270] ''raw_data'')))"

section \<open>Normalized rows\<close>

text \<open>
  The fields have the types that the importers of the program give them; the \<open>isinstance\<close>
  tests of the validation, which guard against other importers, are therefore always true.
\<close>

record norm_invoice =
  ni_direction :: pystr
  ni_number :: pystr
  ni_seller_tax_id :: pystr
  ni_seller_name :: pystr
  ni_buyer_tax_id :: pystr
  ni_buyer_name :: pystr
  ni_issue_date :: date
  ni_total_amount :: pydec
  ni_status :: pystr

record norm_tx =
  nt_channel :: pystr
  nt_direction :: pystr
  nt_occurred_at :: aware
  nt_amount :: pydec
  nt_balance_after :: "pydec option"
  nt_account_identifier :: pystr
  nt_counterparty_name :: pystr
  nt_counterparty_account :: pystr
  nt_transaction_id :: pystr
  nt_summary :: pystr

datatype normalized = NInv norm_invoice | NTx norm_tx

record parsed_row =
  pr_row_number :: int
  pr_raw_data :: "(pystr \<times> cell) list"
  pr_normalized :: "normalized option"
  pr_issues :: "row_issue list"

definition invalid_row :: "int \<Rightarrow> (pystr \<times> cell) list \<Rightarrow> row_issue \<Rightarrow> parsed_row" where
  "invalid_row n raw i =
     \<lparr>pr_row_number = n, pr_raw_data = raw, pr_normalized = None, pr_issues = [i]\<rparr>"

definition valid_row :: "int \<Rightarrow> (pystr \<times> cell) list \<Rightarrow> normalized \<Rightarrow> parsed_row" where
  "valid_row n raw x =
     \<lparr>pr_row_number = n, pr_raw_data = raw, pr_normalized = Some x, pr_issues = []\<rparr>"

record import_result =
  ir_batch_id :: uuid
  ir_posted_rows :: int
  ir_duplicate_rows :: int
  ir_error_rows :: int

definition result_from_batch :: "db \<Rightarrow> import_batch \<Rightarrow> import_result" where
  "result_from_batch d b =
     \<lparr>ir_batch_id = ib_id b,
      ir_posted_rows = int (length (filter (\<lambda>r. sr_batch r = ib_id b \<and> sr_posted_at r \<noteq> None)
                                      (staged_rows d))),
      ir_duplicate_rows = ib_duplicate_rows b, ir_error_rows = ib_error_rows b\<rparr>"

definition result_as_dict :: "import_result \<Rightarrow> json" where
  "result_as_dict r = JObj [(lit ''batch_id'', JStr (uuid_str (ir_batch_id r))),
     (lit ''posted_rows'', JInt (ir_posted_rows r)),
     (lit ''duplicate_rows'', JInt (ir_duplicate_rows r)),
     (lit ''error_rows'', JInt (ir_error_rows r))]"

section \<open>The environment\<close>

text \<open>
  What the pipeline takes from outside the repository: the Unicode tables behind \<open>normalize\<close>
  and \<open>casefold\<close>, \<open>hashlib.sha256\<close>, the GB18030 codec, the two workbook readers, the offset of
  the configured time zone for a clock reading, and the settings.
\<close>

type_synonym sheet = "cell list list"

record xlsx_book =
  xb_sheets :: "(pystr \<times> sheet) list"
  xb_active :: sheet

record import_env =
  ie_nfkc :: "pystr \<Rightarrow> pystr"
  ie_casefold :: "pystr \<Rightarrow> pystr"
  ie_sha256 :: "bytes \<Rightarrow> pystr"
  ie_gb18030 :: "bytes \<Rightarrow> pystr option"
  ie_xlsx :: "bytes \<Rightarrow> exn + xlsx_book"
  ie_xls :: "bytes \<Rightarrow> exn + sheet list"
  ie_tz_offset :: "int \<Rightarrow> int"
  ie_company_tax_id :: pystr
  ie_max_rows :: nat
  ie_max_upload_bytes :: nat

text \<open>\<open>timezone.make_aware(value)\<close>.\<close>

definition make_aware :: "import_env \<Rightarrow> int \<Rightarrow> aware" where
  "make_aware L n = (n - ie_tz_offset L n * 1000000, ie_tz_offset L n)"

text \<open>\<open>_canonical_text\<close> of the fingerprints and the body of \<open>normalize_party_text\<close>.\<close>

definition canonical_text :: "import_env \<Rightarrow> pystr \<Rightarrow> pystr" where
  "canonical_text L s = ie_casefold L (join [32] (split_ws (ie_nfkc L s)))"

text \<open>\<open>normalize_party_text\<close>; \<open>None\<close> is the \<open>ValueError\<close> for an empty text.\<close>

definition normalize_party_text :: "import_env \<Rightarrow> pystr \<Rightarrow> pystr option" where
  "normalize_party_text L s = (if canonical_text L s = [] then None else Some (canonical_text L s))"

record upload =
  up_name :: pystr
  up_content :: bytes

text \<open>\<open>Path(text).name\<close> and \<open>Path(text).suffix.lower()\<close>.\<close>

definition path_name :: "pystr \<Rightarrow> pystr" where
  "path_name s =
     (let ps = filter (\<lambda>p. p \<noteq> [] \<and> p \<noteq> [46]) (split_on 47 s) in if ps = [] then [] else last ps)"

definition path_suffix :: "pystr \<Rightarrow> pystr" where
  "path_suffix s =
     (let n = path_name s;
          ext = rev (takeWhile (\<lambda>c. c \<noteq> 46) (rev n)); stem = length n - length ext
      in if ext = [] \<or> stem \<le> 1 then [] else map lower_ascii (46 # ext))"

definition lower_name :: "pystr \<Rightarrow> pystr" where
  "lower_name s = map lower_ascii s"

end
