(* ===== verification/Import_Files.thy ===== *)
theory Import_Files
  imports Import_Types
begin

text \<open>
  Reading uploaded files: the checks of \<open>apps/core/uploads.py\<close>, Python's \<open>csv.reader\<close> in its
  default dialect, the cell parsers of \<open>parsers/csv_utils.py\<close> and the header detection of
  \<open>services._read_headers\<close>.
\<close>

section \<open>The CSV reader\<close>

datatype csv_mode = START_RECORD | START_FIELD | IN_FIELD | IN_QUOTED | QUOTE_IN_QUOTED | EAT_CRNL

text \<open>The reader holds the fields of the record, the current field (both reversed) and its mode.\<close>

record csv_state =
  cs_mode :: csv_mode
  cs_fields :: "pystr list"
  cs_field :: pystr

definition csv_init :: csv_state where
  "csv_init = \<lparr>cs_mode = START_RECORD, cs_fields = [], cs_field = []\<rparr>"

definition csv_save :: "csv_mode \<Rightarrow> csv_state \<Rightarrow> csv_state" where
  "csv_save m s = \<lparr>cs_mode = m, cs_fields = rev (cs_field s) # cs_fields s, cs_field = []\<rparr>"

definition csv_add :: "csv_mode \<Rightarrow> nat \<Rightarrow> csv_state \<Rightarrow> csv_state" where
  "csv_add m c s = s\<lparr>cs_mode := m, cs_field := c # cs_field s\<rparr>"

definition is_newline :: "nat \<Rightarrow> bool" where
  "is_newline c \<longleftrightarrow> c = 10 \<or> c = 13"

text \<open>A character, or \<open>None\<close> for the end of a line of input.\<close>

fun csv_step :: "nat option \<Rightarrow> csv_state \<Rightarrow> exn + csv_state" where
  "csv_step None s =
     (case cs_mode s of
        START_RECORD \<Rightarrow> Inr s
      | IN_QUOTED \<Rightarrow> Inr s
      | EAT_CRNL \<Rightarrow> Inr (s\<lparr>cs_mode := START_RECORD\<rparr>)
      | _ \<Rightarrow> Inr (csv_save START_RECORD s))"
| "csv_step (Some c) s =
     (let field_start =
        (if is_newline c then csv_save EAT_CRNL s
         else if c = 34 then s\<lparr>cs_mode := IN_QUOTED\<rparr>
         else if c = 44 then csv_save START_FIELD s
         else csv_add IN_FIELD c s)
      in case cs_mode s of
        START_RECORD \<Rightarrow> Inr (if is_newline c then s\<lparr>cs_mode := EAT_CRNL\<rparr> else field_start)
      | START_FIELD \<Rightarrow> Inr field_start
      | IN_FIELD \<Rightarrow>
          Inr (if is_newline c then csv_save EAT_CRNL s
               else if c = 44 then csv_save START_FIELD s
               else csv_add IN_FIELD c s)
      | IN_QUOTED \<Rightarrow> Inr (if c = 34 then s\<lparr>cs_mode := QUOTE_IN_QUOTED\<rparr> else csv_add IN_QUOTED c s)
      | QUOTE_IN_QUOTED \<Rightarrow>
          Inr (if c = 34 then csv_add IN_QUOTED c s
               else if c = 44 then csv_save START_FIELD s
               else if is_newline c then csv_save EAT_CRNL s
               else csv_add IN_FIELD c s)
      | EAT_CRNL \<Rightarrow> if is_newline c then Inr s else Inl CsvError)"

text \<open>
  The records of a stream of characters and line ends; \<open>csv.reader\<close> is lazy, so an error is
  the last element.
\<close>

fun csv_run :: "csv_state \<Rightarrow> nat option list \<Rightarrow> (exn + pystr list) list" where
  "csv_run s [] =
     (if cs_field s \<noteq> [] \<or> cs_mode s = IN_QUOTED
      then [Inr (rev (rev (cs_field s) # cs_fields s))] else [])"
| "csv_run s (c # cs) =
     (case csv_step c s of
        Inl e \<Rightarrow> [Inl e]
      | Inr s' \<Rightarrow>
          if c = None \<and> cs_mode s' = START_RECORD then Inr (rev (cs_fields s')) # csv_run csv_init cs
          else csv_run s' cs)"

text \<open>\<open>io.StringIO(text)\<close> yields lines that end in a line feed.\<close>

fun csv_stream :: "pystr \<Rightarrow> nat option list" where
  "csv_stream [] = []"
| "csv_stream (c # cs) =
     (if c = 10 \<or> cs = [] then Some c # None # csv_stream cs else Some c # csv_stream cs)"

definition csv_rows :: "pystr \<Rightarrow> (exn + pystr list) list" where
  "csv_rows s = csv_run csv_init (csv_stream s)"

text \<open>\<open>list(csv.reader(...))\<close>.\<close>

definition csv_list :: "pystr \<Rightarrow> exn + pystr list list" where
  "csv_list s = traverse id (csv_rows s)"

section \<open>Decoding\<close>

definition decode_import_text :: "import_env \<Rightarrow> bytes \<Rightarrow> pystr option" where
  "decode_import_text L bs =
     (case utf8_sig_decode bs of Some s \<Rightarrow> Some s | None \<Rightarrow> ie_gb18030 L bs)"

definition read_csv_rows :: "import_env \<Rightarrow> bytes \<Rightarrow> exn + pystr list list" where
  "read_csv_rows L bs =
     (case decode_import_text L bs of
        None \<Rightarrow> Inl (RowValidationError [67, 83, 86, 32, 25991, 20214, 32534, 30721,
     19981, 21463, 25903, 25345])
      | Some s \<Rightarrow> csv_list s)"

section \<open>The checks of an upload\<close>

definition msg_bad_signature :: pystr where
  "msg_bad_signature = [25991, 20214, 25193, 23637, 21517, 19982, 23454, 38469, 20869, 23481,
     19981, 19968, 33268]"

definition upload_signatures :: "(pystr \<times> bytes) list" where
  "upload_signatures = [(lit ''.pdf'', [37, 80, 68, 70, 45]), (lit ''.xlsx'', [80, 75, 3, 4]),
     (lit ''.xls'', [208, 207, 17, 224, 161, 177, 26, 225])]"

definition text_extension :: "pystr \<Rightarrow> bool" where
  "text_extension x \<longleftrightarrow> x = lit ''.csv'' \<or> x = lit ''.txt''"

definition validate_text_upload :: "import_env \<Rightarrow> bytes \<Rightarrow> exn + unit" where
  "validate_text_upload L bs =
     (if \<exists>b\<in>set bs. b < 32 \<and> b \<notin> {9, 10,
     13} then Inl (ValidationError msg_bad_signature)
      else case decode_import_text L bs of
        None \<Rightarrow> Inl (ValidationError msg_bad_signature)
      | Some s \<Rightarrow>
          (case csv_rows s of
             Inl e # _ \<Rightarrow> Inl (ValidationError msg_bad_signature)
           | _ \<Rightarrow> Inr ()))"

definition validate_upload_signature :: "import_env \<Rightarrow> upload \<Rightarrow> exn + unit" where
  "validate_upload_signature L u =
     (if ie_max_upload_bytes L < length (up_content u)
      then Inl (ValidationError [25991, 20214, 22823, 23567, 36229, 36807, 31995, 32479, 20801,
     35768, 30340, 19978, 38480])
      else if text_extension (path_suffix (up_name u)) then validate_text_upload L (up_content u)
      else case map_of upload_signatures (path_suffix (up_name u)) of
        None \<Rightarrow> Inl (ValidationError msg_bad_signature)
      | Some sig \<Rightarrow>
          if take (length sig) (up_content u) = sig then Inr ()
          else Inl (ValidationError msg_bad_signature))"

section \<open>Cell parsers\<close>

definition msg_bad_amount :: pystr where "msg_bad_amount = [37329, 39069, 19981, 21512, 27861]"

definition parse_decimal :: "cell \<Rightarrow> bool \<Rightarrow> exn + pydec" where
  "parse_decimal v blank_as_zero =
     (let t = (if v = CNone then [] else strip (filter (\<lambda>c. c \<noteq> 44) (cell_str v)))
      in if t = [] \<and> blank_as_zero then Inr (Fin 0 0)
         else case parse_dec t of
           Some (Fin c e) \<Rightarrow>
             if e < - 2 \<or> \<not> cents_le \<bar>c\<bar> e max_cents then Inl (RowValidationError msg_bad_amount)
             else Inr (Fin c e)
         | _ \<Rightarrow> Inl (RowValidationError msg_bad_amount))"

definition parse_datetime :: "import_env \<Rightarrow> cell \<Rightarrow> exn + aware" where
  "parse_datetime L v =
     (case v of
        CDateTime n \<Rightarrow> Inr (make_aware L n)
      | _ \<Rightarrow>
          (case parse_iso_datetime (strip (cell_str v)) of
             None \<Rightarrow> Inl (RowValidationError [20132, 26131, 26102, 38388, 19981,
     21512, 27861])
           | Some (n, None) \<Rightarrow> Inr (make_aware L n)
           | Some (t, Some z) \<Rightarrow> Inr (t, z)))"

section \<open>Headers\<close>

text \<open>
  \<open>_densest_row\<close>: the first of the rows with the most cells that are not empty.
\<close>

definition filled :: "pystr list \<Rightarrow> nat" where
  "filled r = length (filter (\<lambda>v. v \<noteq> []) r)"

fun densest :: "pystr list list \<Rightarrow> pystr list" where
  "densest [] = []"
| "densest [r] = r"
| "densest (r # r2 # rs) =
     (let m = densest (r2 # rs) in if filled m \<le> filled r then r else m)"

definition densest_row :: "sheet \<Rightarrow> pystr list" where
  "densest_row rows = densest (map (map text_of) rows)"

definition BANK_HEADERS :: "pystr list" where
  "BANK_HEADERS = [[20132, 26131, 26102, 38388], [25910, 20837, 37329, 39069], [25903, 20986,
     37329, 39069], [36134, 25143, 20313, 39069], [23545, 26041, 36134, 21495],
     [23545, 26041, 25143, 21517], [23545, 26041, 24320, 25143, 34892], [25688, 35201]]"

text \<open>
  \<open>_metadata_value\<close>: the text after \<open>label\<close>, a colon and optional blanks.
\<close>

definition metadata_match :: "pystr \<Rightarrow> pystr \<Rightarrow> pystr option" where
  "metadata_match label value =
     (if \<not> startswith value label then None
      else case dropWhile py_space (drop (length label) value) of
        [] \<Rightarrow> None
      | c # cs \<Rightarrow>
          (let r = dropWhile py_space cs
           in if (c = 58 \<or> c = 65306) \<and> r \<noteq> [] \<and> 10 \<notin> set r then Some (strip r) else None))"

fun metadata_value :: "pystr list \<Rightarrow> pystr \<Rightarrow> pystr option" where
  "metadata_value [] label = None"
| "metadata_value (v # vs) label =
     (case metadata_match label v of Some r \<Rightarrow> Some r | None \<Rightarrow> metadata_value vs label)"

definition statement_account_identifier :: "sheet \<Rightarrow> pystr option" where
  "statement_account_identifier s =
     (if length s < 3 then None
      else
        (let title = map text_of (s ! 0); metadata = map text_of (s ! 1)
         in if title = [] \<or> hd title \<noteq> [36134, 25143, 26126,
     32454] \<or> (\<exists>t\<in>set (tl title). t \<noteq> []) then None
            else case metadata_value metadata [36134, 21495] of
              None \<Rightarrow> None
            | Some account \<Rightarrow>
                if \<exists>label\<in>{[25143, 21517], [24065, 31181], [36215, 27490, 26085,
     26399]}. metadata_value metadata label = None
                then None
                else if map text_of (s ! 2) \<noteq> BANK_HEADERS then None
                else Some account))"

definition find_agricultural_bank_sheet :: "sheet list \<Rightarrow> exn + sheet \<times> pystr" where
  "find_agricultural_bank_sheet sheets =
     (case List.map_filter (\<lambda>s. map_option (Pair s) (statement_account_identifier s)) sheets of
        [] \<Rightarrow> Inl (RowValidationError [26080, 27861, 35782, 21035, 20892, 19994,
     38134, 34892, 27969, 27700, 24037, 20316, 34920])
      | [m] \<Rightarrow> Inr m
      | _ \<Rightarrow> Inl (RowValidationError [20892, 19994, 38134, 34892, 27969, 27700,
     24037, 20316, 34920, 19981, 21807, 19968]))"

text \<open>
  \<open>_read_headers\<close>. The content of a text file was decoded by the check of the upload, so the
  failure of both codecs is not reached.
\<close>

definition read_headers :: "import_env \<Rightarrow> upload \<Rightarrow> exn + pystr list" where
  "read_headers L u =
     (let x = path_suffix (path_name (up_name u))
      in if text_extension x then
           (case decode_import_text L (up_content u) of
              None \<Rightarrow> Inl (ValueError (lit ''gb18030''))
            | Some s \<Rightarrow> map_sum id (\<lambda>rows. densest_row (map (map CText) rows)) (csv_list s))
         else if x = lit ''.xlsx'' then map_sum id (\<lambda>b. densest_row (xb_active b)) (ie_xlsx L (up_content u))
         else if x = lit ''.xls'' then
           bindE (ie_xls L (up_content u)) (\<lambda>sheets.
           bindE (find_agricultural_bank_sheet sheets) (\<lambda>(s, account). Inr (map text_of (s ! 2))))
         else Inl (RowValidationError [19981, 25903, 25345, 30340, 25991, 20214, 25193, 23637,
     21517]))"

section \<open>Facts\<close>

lemma densest_mem: "rows \<noteq> [] \<Longrightarrow> densest rows \<in> set rows"
  by (induction rows rule: densest.induct) (auto simp: Let_def)

lemma densest_max: "r \<in> set rows \<Longrightarrow> filled r \<le> filled (densest rows)"
proof (induction rows rule: densest.induct)
  case (3 r1 r2 rs)
  show ?case
  proof (cases "r = r1")
    case True
    then show ?thesis by (simp add: Let_def)
  next
    case False
    then have "filled r \<le> filled (densest (r2 # rs))" using 3 by simp
    then show ?thesis by (simp only: densest.simps Let_def split: if_split) auto
  qed
qed auto

end
