(* ===== verification/Import_Parsers.thy ===== *)
theory Import_Parsers
  imports Import_Files
begin

text \<open>
  The three importers (\<open>apps/imports/parsers/\<close>) and their registry (\<open>registry.py\<close>). A parser
  yields its rows lazily: an exception ends the list of what it yields.
\<close>

section \<open>WeChat statements\<close>

definition col_time :: pystr where "col_time = [20132, 26131, 26102, 38388]"
definition col_flow :: pystr where "col_flow = [25910, 47, 25903]"
definition col_state :: pystr where "col_state = [24403, 21069, 29366, 24577]"
definition col_amount :: pystr where "col_amount = [37329, 39069, 40, 20803, 41]"
definition col_method :: pystr where "col_method = [25903, 20184, 26041, 24335]"
definition col_party :: pystr where "col_party = [20132, 26131, 23545, 26041]"
definition col_order :: pystr where "col_order = [20132, 26131, 21333, 21495]"
definition col_note :: pystr where "col_note = [22791, 27880]"

definition WECHAT_HEADERS :: "pystr list" where
  "WECHAT_HEADERS = [col_time, [20132, 26131, 31867, 22411], col_party, [21830, 21697],
     col_flow, col_amount, col_method,
     col_state, col_order, [21830, 25143, 21333, 21495], col_note]"

definition wechat_direction :: "pystr \<Rightarrow> pystr option" where
  "wechat_direction s =
     (if s = [25910, 20837] then Some MoneyDirection_INFLOW
      else if s = [25903, 20986] then Some MoneyDirection_OUTFLOW else None)"

definition success_states :: "pystr list" where
  "success_states = [[25903, 20184, 25104, 21151], [24050, 25910, 38065], [24050, 36716, 36134],
     [23545, 26041, 24050, 25910, 38065]]"

fun find_header_row :: "sheet \<Rightarrow> nat option" where
  "find_header_row [] = None"
| "find_header_row (r # rs) =
     (if set WECHAT_HEADERS \<subseteq> text_of ` set r then Some 0 else map_option Suc (find_header_row rs))"

definition is_blank_row :: "cell list \<Rightarrow> bool" where
  "is_blank_row values \<longleftrightarrow> (\<forall>v\<in>set values. text_of v = [])"

definition msg_amount_positive :: pystr where
  "msg_amount_positive = [24494, 20449, 20132, 26131, 37329, 39069, 24517, 39035, 22823, 20110,
     38646]"

definition wechat_amount :: "(pystr \<times> cell) list \<Rightarrow> exn + pydec" where
  "wechat_amount raw =
     bindE (parse_decimal (CText (filter (\<lambda>c. c \<noteq> 165) (text_of (raw_get raw col_amount)))) False)
       (\<lambda>a. if dec_le a 0 = Inr False then Inr a else Inl (RowValidationError msg_amount_positive))"

fun exn_text :: "exn \<Rightarrow> pystr" where
  "exn_text (RowValidationError s) = s"
| "exn_text _ = []"

definition wechat_parse_row :: "import_env \<Rightarrow> int \<Rightarrow> (pystr \<times> cell) list \<Rightarrow> parsed_row" where
  "wechat_parse_row L n raw =
     (case wechat_direction (text_of (raw_get raw col_flow)) of
        None \<Rightarrow> invalid_row n raw (issue ''direction'' [24494, 20449, 35760, 24405,
     19981, 26159, 25910, 20837, 25110, 25903, 20986] ''direction'')
      | Some direction \<Rightarrow>
          (let state = text_of (raw_get raw col_state)
           in if state \<notin> set success_states
              then invalid_row n raw (issue ''status'' ([24494, 20449, 20132, 26131, 23578,
     26410, 25104, 21151, 65306] @ state) ''status'')
              else case bindE (parse_datetime L (raw_get raw col_time)) (\<lambda>t.
                        bindE (wechat_amount raw) (\<lambda>a. Inr (t, a))) of
                Inl e \<Rightarrow> invalid_row n raw (issue ''amount'' (exn_text e) ''amount'')
              | Inr (t, a) \<Rightarrow>
                  valid_row n raw (NTx
                    \<lparr>nt_channel = MoneyChannel_WECHAT, nt_direction = direction, nt_occurred_at = t,
                     nt_amount = a, nt_balance_after = None,
                     nt_account_identifier = text_of (raw_get raw col_method),
                     nt_counterparty_name = text_of (raw_get raw col_party),
                     nt_counterparty_account = [],
                     nt_transaction_id = text_of (raw_get raw col_order),
                     nt_summary = text_of (raw_get raw col_note)\<rparr>)))"

text \<open>The data rows after the row \<open>k\<close>, numbered from \<open>k + 1\<close>; blank rows are skipped.\<close>

definition numbered_rows :: "nat \<Rightarrow> sheet \<Rightarrow> (int \<times> cell list) list" where
  "numbered_rows k rows =
     filter (\<lambda>(n, r). \<not> is_blank_row r)
       (map (\<lambda>(i, r). (int (k + i + 1), r)) (List.enumerate 0 (drop k rows)))"

definition wechat_parse :: "import_env \<Rightarrow> bytes \<Rightarrow> (exn + parsed_row) list" where
  "wechat_parse L bs =
     (case read_csv_rows L bs of
        Inl e \<Rightarrow> [Inl e]
      | Inr texts \<Rightarrow>
          (let rows = map (map CText) texts
           in case find_header_row rows of
                None \<Rightarrow> [Inl (RowValidationError [24494, 20449, 27969, 27700, 32570,
     23569, 26631, 20934, 34920, 22836])]
              | Some h \<Rightarrow>
                  (let headers = map text_of (rows ! h)
                   in map (\<lambda>(n, r). Inr (wechat_parse_row L n (dict_of_zip headers r)))
                        (numbered_rows (h + 1) rows))))"

section \<open>Bank statements\<close>

definition msg_one_side :: pystr where
  "msg_one_side = [25910, 20837, 37329, 39069, 21644, 25903, 20986, 37329, 39069, 24517, 39035,
     19988, 21482, 33021, 26377, 19968, 20010, 22823, 20110, 38646]"

definition dec_pos :: "pydec \<Rightarrow> bool" where
  "dec_pos a \<longleftrightarrow> dec_le a 0 = Inr False"

definition parse_bank_amount :: "cell \<Rightarrow> cell \<Rightarrow> exn + pystr \<times> pydec" where
  "parse_bank_amount income expense =
     bindE (parse_decimal income True) (\<lambda>income_amount.
     bindE (parse_decimal expense True) (\<lambda>expense_amount.
     if dec_pos income_amount = dec_pos expense_amount then Inl (RowValidationError msg_one_side)
     else if dec_pos income_amount then Inr (MoneyDirection_INFLOW, income_amount)
     else Inr (MoneyDirection_OUTFLOW, expense_amount)))"

text \<open>Columns of \<open>BANK_HEADERS\<close> by their place.\<close>

definition bank_col :: "nat \<Rightarrow> pystr" where
  "bank_col i = BANK_HEADERS ! i"

text \<open>
  \<open>_parse_row\<close>: a missing column raises \<open>KeyError\<close>, an invalid value makes an invalid row.
\<close>

definition bank_parse_row ::
    "import_env \<Rightarrow> int \<Rightarrow> (pystr \<times> cell) list \<Rightarrow> pystr \<Rightarrow> exn + parsed_row" where
  "bank_parse_row L n raw account =
     bindE (raw_item raw (bank_col 1)) (\<lambda>income.
     bindE (raw_item raw (bank_col 2)) (\<lambda>expense.
     case parse_bank_amount income expense of
       Inl e \<Rightarrow> Inr (invalid_row n raw (issue ''amount'' (exn_text e) ''amount''))
     | Inr (direction, amount) \<Rightarrow>
         bindE (raw_item raw (bank_col 0)) (\<lambda>time.
         case parse_datetime L time of
           Inl e \<Rightarrow> Inr (invalid_row n raw (issue ''datetime'' (exn_text e) ''occurred_at''))
         | Inr t \<Rightarrow>
             bindE (raw_item raw (bank_col 3)) (\<lambda>balance_cell.
             case parse_decimal balance_cell False of
               Inl e \<Rightarrow> Inr (invalid_row n raw (issue ''balance'' (exn_text e) ''balance_after''))
             | Inr balance \<Rightarrow>
                 bindE (raw_item raw (bank_col 5)) (\<lambda>party.
                 bindE (raw_item raw (bank_col 4)) (\<lambda>party_account.
                 bindE (raw_item raw (bank_col 7)) (\<lambda>summary.
                 Inr (valid_row n raw (NTx
                   \<lparr>nt_channel = MoneyChannel_BANK, nt_direction = direction, nt_occurred_at = t,
                    nt_amount = amount, nt_balance_after = Some balance,
                    nt_account_identifier = account, nt_counterparty_name = text_of party,
                    nt_counterparty_account = text_of party_account, nt_transaction_id = [],
                    nt_summary = text_of summary\<rparr>)))))))))"

definition bank_parse :: "import_env \<Rightarrow> bytes \<Rightarrow> (exn + parsed_row) list" where
  "bank_parse L bs =
     (case bindE (ie_xls L bs) find_agricultural_bank_sheet of
        Inl e \<Rightarrow> [Inl e]
      | Inr (rows, account) \<Rightarrow>
          map (\<lambda>(n, r). bank_parse_row L n (dict_of_zip BANK_HEADERS r) account) (numbered_rows 3 rows))"

section \<open>Tax invoices\<close>

definition tax_sheet_name :: pystr where "tax_sheet_name = [21457, 31080, 22522, 30784, 20449,
     24687]"

definition col_invoice_number :: pystr where "col_invoice_number = [21457, 31080, 21495, 30721]"
definition col_seller_tax_id :: pystr where "col_seller_tax_id = [38144, 21806, 26041, 32435,
     31246, 20154, 35782, 21035, 21495]"
definition col_seller_name :: pystr where "col_seller_name = [38144, 21806, 26041, 21517, 31216]"
definition col_buyer_tax_id :: pystr where "col_buyer_tax_id = [36141, 20080, 26041, 32435,
     31246, 20154, 35782, 21035, 21495]"
definition col_buyer_name :: pystr where "col_buyer_name = [36141, 20080, 26041, 21517, 31216]"
definition col_issue_date :: pystr where "col_issue_date = [24320, 31080, 26085, 26399]"
definition col_total_amount :: pystr where "col_total_amount = [20215, 31246, 21512, 35745]"
definition col_status :: pystr where "col_status = [21457, 31080, 29366, 24577]"

definition tax_columns :: "pystr list" where
  "tax_columns = [col_invoice_number, col_seller_tax_id, col_seller_name, col_buyer_tax_id,
     col_buyer_name, col_issue_date, col_total_amount, col_status]"

definition msg_not_ours :: pystr where "msg_not_ours = [21457, 31080, 36141, 38144, 21452,
     26041, 22343, 19981, 26159, 24403, 21069, 20844, 21496]"

definition direction_for :: "pystr \<Rightarrow> pystr \<Rightarrow> pystr \<Rightarrow> exn + pystr" where
  "direction_for seller buyer company =
     (if seller = company then Inr InvoiceDirection_OUTPUT
      else if buyer = company then Inr InvoiceDirection_INPUT
      else Inl (RowValidationError msg_not_ours))"

definition tax_amount :: "cell \<Rightarrow> exn + pydec" where
  "tax_amount v =
     (case parse_dec (strip (filter (\<lambda>c. c \<noteq> 44) (cell_str v))) of
        None \<Rightarrow> Inl DecimalInvalidOperation
      | Some (Fin c e) \<Rightarrow>
          if c \<le> 0 \<or> e < - 2 \<or> \<not> cents_le c e max_cents
          then Inl (ValueError [21457, 31080, 37329, 39069, 24517, 39035, 22823, 20110,
     38646]) else Inr (Fin c e)
      | Some _ \<Rightarrow> Inl (ValueError [21457, 31080, 37329, 39069, 24517, 39035, 22823,
     20110, 38646]))"

text \<open>\<open>date.fromisoformat\<close>, with the basic form of eight digits that it also takes.\<close>

definition parse_any_date :: "pystr \<Rightarrow> date option" where
  "parse_any_date s =
     (if length s = 8 then parse_iso_date (take 4 s @ [45] @ take 2 (drop 4 s) @ [45] @ drop 6 s)
      else parse_iso_date s)"

definition tax_date :: "cell \<Rightarrow> exn + date" where
  "tax_date v =
     (case v of
        CDateTime n \<Rightarrow> Inr (n div us_per_day + 719163)
      | CDate d \<Rightarrow> Inr d
      | _ \<Rightarrow>
          (case parse_any_date (map (\<lambda>c. if c = 47 then 45 else c) (text_of v)) of
             None \<Rightarrow> Inl (ValueError (lit ''Invalid isoformat string''))
           | Some d \<Rightarrow> Inr d))"

definition normalize_status :: "pystr \<Rightarrow> pystr option" where
  "normalize_status s =
     (if s = [27491, 24120] then Some InvoiceStatus_NORMAL
      else if s = [20316, 24223] then Some InvoiceStatus_VOID
      else if substring [32418] s then Some InvoiceStatus_RED else None)"

text \<open>
  \<open>_validate_values\<close> and the construction after it: the first issue, or the invoice. A column
  that the row does not have raises \<open>KeyError\<close> for the two columns read without \<open>get\<close>.
\<close>

definition tax_parse_row ::
    "import_env \<Rightarrow> int \<Rightarrow> (pystr \<times> cell) list \<Rightarrow> pystr \<Rightarrow> exn + parsed_row" where
  "tax_parse_row L n raw company =
     (let val = (\<lambda>column. text_of (raw_get raw column)) in
      if val col_invoice_number = []
      then Inr (invalid_row n raw (issue ''required'' [21457, 31080, 21495, 30721, 19981, 33021,
     20026, 31354] ''invoice_number''))
      else
        bindE (raw_item raw col_total_amount) (\<lambda>amount_cell.
        case tax_amount amount_cell of
          Inl _ \<Rightarrow> Inr (invalid_row n raw (issue ''amount'' [21457, 31080, 37329,
     39069, 19981, 21512, 27861] ''total_amount''))
        | Inr amount \<Rightarrow>
            bindE (raw_item raw col_issue_date) (\<lambda>date_cell.
            case tax_date date_cell of
              Inl _ \<Rightarrow> Inr (invalid_row n raw (issue ''date'' [24320, 31080, 26085,
     26399, 19981, 21512, 27861] ''issue_date''))
            | Inr day \<Rightarrow>
                (case direction_for (val col_seller_tax_id) (val col_buyer_tax_id) company of
                   Inl _ \<Rightarrow> Inr (invalid_row n raw (issue ''direction'' msg_not_ours ''direction''))
                 | Inr direction \<Rightarrow>
                     (case normalize_status (val col_status) of
                        None \<Rightarrow> Inr (invalid_row n raw (issue ''status'' [21457,
     31080, 29366, 24577, 19981, 21512, 27861] ''status''))
                      | Some status \<Rightarrow>
                          Inr (valid_row n raw (NInv
                            \<lparr>ni_direction = direction, ni_number = val col_invoice_number,
                             ni_seller_tax_id = val col_seller_tax_id,
                             ni_seller_name = val col_seller_name,
                             ni_buyer_tax_id = val col_buyer_tax_id,
                             ni_buyer_name = val col_buyer_name, ni_issue_date = day,
                             ni_total_amount = amount, ni_status = status\<rparr>)))))))"

text \<open>\<open>iter_sheet_rows\<close>: the rows after the header row, as dictionaries.\<close>

definition iter_sheet_rows ::
    "import_env \<Rightarrow> bytes \<Rightarrow> pystr \<Rightarrow> exn + (int \<times> (pystr \<times> cell) list) list" where
  "iter_sheet_rows L bs sheet_name =
     bindE (ie_xlsx L bs) (\<lambda>book.
     case map_of (xb_sheets book) sheet_name of
       None \<Rightarrow> Inl (RowValidationError ([69, 120, 99, 101, 108, 32, 25991, 20214,
     32570, 23569, 32] @ sheet_name @ [32, 24037, 20316, 34920]))
     | Some rows \<Rightarrow>
         (let headers = (if rows = [] then [] else map text_of (hd rows))
          in Inr (map (\<lambda>(i, r). (int (i + 2), dict_of_zip headers r))
                    (List.enumerate 0 (drop 1 rows)))))"

definition company_tax_id :: "import_env \<Rightarrow> pystr" where
  "company_tax_id L = strip (ie_company_tax_id L)"

definition tax_parse :: "import_env \<Rightarrow> bytes \<Rightarrow> (exn + parsed_row) list" where
  "tax_parse L bs =
     (case iter_sheet_rows L bs tax_sheet_name of
        Inl e \<Rightarrow> [Inl e]
      | Inr rows \<Rightarrow> map (\<lambda>(n, raw). tax_parse_row L n raw (company_tax_id L)) rows)"

definition row_directions :: "import_env \<Rightarrow> (int \<times> (pystr \<times> cell) list) list \<Rightarrow> pystr list" where
  "row_directions L rows =
     List.map_filter (\<lambda>(n, raw).
       case direction_for (text_of (raw_get raw col_seller_tax_id))
              (text_of (raw_get raw col_buyer_tax_id)) (company_tax_id L) of
         Inl _ \<Rightarrow> None | Inr x \<Rightarrow> Some x) rows"

definition infer_source_kind :: "import_env \<Rightarrow> bytes \<Rightarrow> exn + pystr" where
  "infer_source_kind L bs =
     bindE (iter_sheet_rows L bs tax_sheet_name) (\<lambda>rows.
     let ds = set (row_directions L rows)
     in if ds = {InvoiceDirection_INPUT} then Inr SourceKind_INPUT_INVOICE
        else if ds = {InvoiceDirection_OUTPUT} then Inr SourceKind_OUTPUT_INVOICE
        else if ds = {} then Inl (RowValidationError [26080, 27861, 26681, 25454, 36141, 38144,
     26041, 31246, 21495, 21028, 26029, 36827, 39033, 25110, 38144, 39033])
        else Inl (RowValidationError [21516, 19968, 25991, 20214, 21516, 26102, 21253, 21547,
     36827, 39033, 21644, 38144, 39033, 65292, 35831, 25286, 20998, 21518, 23548, 20837]))"

section \<open>The registry\<close>

datatype importer = TaxInvoiceImporter | AgriculturalBankImporter | WechatImporter

fun importer_supports :: "importer \<Rightarrow> pystr \<Rightarrow> pystr list \<Rightarrow> bool" where
  "importer_supports TaxInvoiceImporter name headers \<longleftrightarrow>
     endswith (lower_name name) (lit ''.xlsx'') \<and> set tax_columns \<subseteq> set headers"
| "importer_supports AgriculturalBankImporter name headers \<longleftrightarrow>
     endswith (lower_name name) (lit ''.xls'') \<and> headers = BANK_HEADERS"
| "importer_supports WechatImporter name headers \<longleftrightarrow>
     endswith (lower_name name) (lit ''.csv'') \<and> set WECHAT_HEADERS \<subseteq> set headers"

fun importer_source_kinds :: "importer \<Rightarrow> pystr list" where
  "importer_source_kinds TaxInvoiceImporter = [SourceKind_INPUT_INVOICE, SourceKind_OUTPUT_INVOICE]"
| "importer_source_kinds AgriculturalBankImporter = [SourceKind_BANK]"
| "importer_source_kinds WechatImporter = [SourceKind_WECHAT]"

fun importer_parse :: "import_env \<Rightarrow> importer \<Rightarrow> bytes \<Rightarrow> (exn + parsed_row) list" where
  "importer_parse L TaxInvoiceImporter bs = tax_parse L bs"
| "importer_parse L AgriculturalBankImporter bs = bank_parse L bs"
| "importer_parse L WechatImporter bs = wechat_parse L bs"

definition registered :: "importer list" where
  "registered = [TaxInvoiceImporter, AgriculturalBankImporter, WechatImporter]"

definition detect :: "importer list \<Rightarrow> pystr \<Rightarrow> pystr list \<Rightarrow> exn + importer" where
  "detect parsers name headers =
     (case filter (\<lambda>p. importer_supports p name headers) parsers of
        [p] \<Rightarrow> Inr p
      | _ \<Rightarrow> Inl (UnsupportedTemplateError [26080, 27861, 35782, 21035, 25991, 20214,
     27169, 26495]))"

text \<open>\<open>_detect_source_kind\<close> of the services.\<close>

definition detect_source_kind :: "import_env \<Rightarrow> importer \<Rightarrow> bytes \<Rightarrow> exn + pystr" where
  "detect_source_kind L p bs =
     (case importer_source_kinds p of
        [k] \<Rightarrow> Inr k
      | _ \<Rightarrow>
          bindE (infer_source_kind L bs) (\<lambda>k.
          if k \<notin> set SourceKind_values then Inl (ValueError [26469, 28304, 31867, 22411,
     19981, 21512, 27861])
          else if k \<notin> set (importer_source_kinds p)
          then Inl (RowValidationError [35299, 26512, 22120, 26080, 27861, 35782, 21035, 35813,
     26469, 28304, 31867, 22411])
          else Inr k))"

end
