(* ===== verification/Import_Validation.thy ===== *)
theory Import_Validation
  imports Import_Types
begin

text \<open>
  The validation of parsed rows (\<open>apps/imports/validation.py\<close>), the matching of parties and
  funding accounts, and the fingerprint of a transaction (\<open>fingerprints.py\<close>).
\<close>

section \<open>Matching\<close>

record 'a mapping_result =
  mr_value :: "'a option"
  mr_ambiguous :: bool

text \<open>\<open>_single_match\<close>.\<close>

definition single_match :: "'a list \<Rightarrow> 'a mapping_result" where
  "single_match xs =
     (case xs of [x] \<Rightarrow> \<lparr>mr_value = Some x, mr_ambiguous = False\<rparr>
      | _ \<Rightarrow> \<lparr>mr_value = None, mr_ambiguous = 1 < length xs\<rparr>)"

definition no_match :: "'a mapping_result" where
  "no_match = \<lparr>mr_value = None, mr_ambiguous = False\<rparr>"

definition resolve_invoice_counterparty :: "db \<Rightarrow> norm_invoice \<Rightarrow> counterparty mapping_result" where
  "resolve_invoice_counterparty d r =
     (let bought = (ni_direction r = InvoiceDirection_INPUT);
          tax_id = (if bought then ni_seller_tax_id r else ni_buyer_tax_id r)
      in single_match (filter (\<lambda>p. cp_tax_id p = tax_id \<and> cp_active p
           \<and> (if bought then cp_is_supplier p else cp_is_customer p)) (parties d)))"

definition active_party :: "db \<Rightarrow> uuid \<Rightarrow> bool" where
  "active_party d i = (case find_row cp_id (parties d) i of None \<Rightarrow> False | Some p \<Rightarrow> cp_active p)"

definition resolve_alias :: "import_env \<Rightarrow> db \<Rightarrow> norm_tx \<Rightarrow> counterparty mapping_result" where
  "resolve_alias L d r =
     (let kind = (if nt_channel r = MoneyChannel_BANK then AliasKind_BANK_ACCOUNT
                  else AliasKind_WECHAT_NAME);
          value = (if nt_counterparty_account r \<noteq> [] then nt_counterparty_account r
                   else nt_counterparty_name r)
      in case normalize_party_text L value of
           None \<Rightarrow> no_match
         | Some v \<Rightarrow>
             (let m = single_match (filter (\<lambda>x. al_kind x = kind \<and> al_normalized_value x = v
                        \<and> active_party d (al_counterparty x)) (party_aliases d))
              in case mr_value m of
                   None \<Rightarrow> \<lparr>mr_value = None, mr_ambiguous = mr_ambiguous m\<rparr>
                 | Some x \<Rightarrow>
                     \<lparr>mr_value = find_row cp_id (parties d) (al_counterparty x),
                      mr_ambiguous = False\<rparr>))"

definition resolve_transaction_counterparty ::
    "import_env \<Rightarrow> db \<Rightarrow> norm_tx \<Rightarrow> counterparty mapping_result" where
  "resolve_transaction_counterparty L d r =
     (case normalize_party_text L (nt_counterparty_name r) of
        None \<Rightarrow> no_match
      | Some name \<Rightarrow>
          (let m = single_match (filter (\<lambda>p. cp_normalized_name p = name \<and> cp_active p) (parties d))
           in if mr_value m \<noteq> None \<or> mr_ambiguous m then m else resolve_alias L d r))"

definition resolve_funding_account :: "db \<Rightarrow> norm_tx \<Rightarrow> funding_account mapping_result" where
  "resolve_funding_account d r =
     single_match (filter (\<lambda>x. fa_channel x = nt_channel r \<and> fa_identifier x = nt_account_identifier r
       \<and> fa_active x) (accounts d))"

section \<open>Issues\<close>

definition issue_if :: "bool \<Rightarrow> row_issue \<Rightarrow> row_issue list" where
  "issue_if b i = (if b then [i] else [])"

definition has_text :: "pystr \<Rightarrow> bool" where
  "has_text s \<longleftrightarrow> strip s \<noteq> []"

definition positive_decimal :: "pydec \<Rightarrow> bool" where
  "positive_decimal a \<longleftrightarrow> dec_le a 0 = Inr False"

definition msg_party_ambiguous :: pystr where "msg_party_ambiguous = [24448, 26469, 21333,
     20301, 26144, 23556, 19981, 21807, 19968]"
definition msg_party_unknown :: pystr where "msg_party_unknown = [26080, 27861, 35782, 21035,
     24448, 26469, 21333, 20301]"

definition validate_invoice :: "db \<Rightarrow> pystr \<Rightarrow> norm_invoice \<Rightarrow> row_issue list" where
  "validate_invoice d kind r =
     (let expected = (if kind = SourceKind_INPUT_INVOICE then InvoiceDirection_INPUT
                      else InvoiceDirection_OUTPUT);
          issues =
            issue_if (ni_direction r \<noteq> expected) (issue ''direction'' [21457, 31080,
     26041, 21521, 19982, 26469, 28304, 31867, 22411, 19981, 21305, 37197] ''direction'')
            @ issue_if (\<not> has_text (ni_number r)) (issue ''required'' [21457, 31080, 21495,
     30721, 19981, 33021, 20026, 31354] ''invoice_number'')
            @ issue_if (\<not> has_text (ni_seller_tax_id r)) (issue ''required'' [38144, 21806,
     26041, 31246, 21495, 19981, 33021, 20026, 31354] ''seller_tax_id'')
            @ issue_if (\<not> has_text (ni_buyer_tax_id r)) (issue ''required'' [36141, 20080,
     26041, 31246, 21495, 19981, 33021, 20026, 31354] ''buyer_tax_id'')
            @ issue_if (\<not> positive_decimal (ni_total_amount r)) (issue ''amount'' [21457,
     31080, 37329, 39069, 24517, 39035, 22823, 20110, 38646] ''total_amount'')
            @ issue_if (ni_status r \<notin> set InvoiceStatus_values) (issue ''status'' [21457,
     31080, 29366, 24577, 19981, 21512, 27861] ''status'');
          party = resolve_invoice_counterparty d r
      in issues @
         issue_if (issues = [] \<and> mr_value party = None)
           (if mr_ambiguous party then issue ''counterparty_ambiguous'' msg_party_ambiguous ''''
            else issue ''counterparty'' msg_party_unknown ''''))"

definition validate_transaction :: "import_env \<Rightarrow> db \<Rightarrow> pystr \<Rightarrow> norm_tx \<Rightarrow> row_issue list" where
  "validate_transaction L d kind r =
     (let account = resolve_funding_account d r; party = resolve_transaction_counterparty L d r
      in issue_if (nt_channel r \<notin> set MoneyChannel_values \<or> nt_channel r \<noteq> kind)
           (issue ''channel'' [36164, 37329, 28192, 36947, 19982, 26469, 28304, 31867, 22411,
     19981, 21305, 37197] ''channel'')
         @ issue_if (nt_direction r \<notin> set MoneyDirection_values)
           (issue ''direction'' [36164, 37329, 26041, 21521, 19981, 21512, 27861] ''direction'')
         @ issue_if (\<not> positive_decimal (nt_amount r)) (issue ''amount'' [36164, 37329,
     37329, 39069, 24517, 39035, 22823, 20110, 38646] ''amount'')
         @ issue_if (\<not> has_text (nt_account_identifier r) \<or> mr_value account = None)
           (if mr_ambiguous account
            then issue ''account_ambiguous'' [36164, 37329, 36134, 25143, 26144, 23556, 19981,
     21807, 19968] ''account_identifier''
            else issue ''account'' [26080, 27861, 35782, 21035, 36164, 37329, 36134,
     25143] ''account_identifier'')
         @ issue_if (mr_value party = None)
           (if mr_ambiguous party
            then issue ''counterparty_ambiguous'' msg_party_ambiguous ''counterparty_name''
            else issue ''counterparty'' msg_party_unknown ''counterparty_name''))"

definition msg_kind_mismatch :: pystr where "msg_kind_mismatch = [26469, 28304, 31867, 22411,
     19982, 26631, 20934, 34892, 31867, 22411, 19981, 21305, 37197]"

definition validate_parsed_row :: "import_env \<Rightarrow> db \<Rightarrow> pystr \<Rightarrow> parsed_row \<Rightarrow> row_issue list" where
  "validate_parsed_row L d kind p =
     (case pr_normalized p of
        None \<Rightarrow> (if pr_issues p = [] then [issue ''normalized'' [26080, 27861, 26631,
     20934, 21270, 35813, 34892] ''''] else pr_issues p)
      | Some (NInv r) \<Rightarrow>
          pr_issues p @
          (if kind \<notin> {SourceKind_INPUT_INVOICE, SourceKind_OUTPUT_INVOICE}
           then [issue ''source_kind'' msg_kind_mismatch ''''] else validate_invoice d kind r)
      | Some (NTx r) \<Rightarrow>
          pr_issues p @
          (if kind \<notin> {SourceKind_BANK, SourceKind_WECHAT}
           then [issue ''source_kind'' msg_kind_mismatch ''''] else validate_transaction L d kind r))"

section \<open>Fingerprints\<close>

definition fingerprint_fields :: "import_env \<Rightarrow> norm_tx \<Rightarrow> money option \<Rightarrow> pystr list" where
  "fingerprint_fields L r amount =
     (if canonical_text L (nt_transaction_id r) \<noteq> []
      then [lit ''transaction-id'', canonical_text L (nt_channel r),
            canonical_text L (nt_account_identifier r), canonical_text L (nt_transaction_id r)]
      else [lit ''fallback'', canonical_text L (nt_channel r),
            canonical_text L (nt_account_identifier r), iso_utc_micros (fst (nt_occurred_at r)),
            canonical_text L (nt_direction r),
            (case amount of None \<Rightarrow> lit ''NaN'' | Some v \<Rightarrow> dec_fixed (Fin v (- 2))),
            canonical_text L (nt_counterparty_name r), canonical_text L (nt_counterparty_account r)])"

definition transaction_fingerprint :: "import_env \<Rightarrow> norm_tx \<Rightarrow> exn + pystr" where
  "transaction_fingerprint L r =
     (case quantize_cents (nt_amount r) of
        Inl _ \<Rightarrow> Inl (ValueError [37329, 39069, 24517, 39035, 26159, 26377, 25928,
     32, 68, 101, 99, 105, 109, 97, 108])
      | Inr v \<Rightarrow> Inr (ie_sha256 L (utf8_encode (join [31] (fingerprint_fields L r v)))))"

section \<open>Facts\<close>

lemma single_match_value: "mr_value (single_match xs) = Some x \<longleftrightarrow> xs = [x]"
  by (auto simp: single_match_def split: list.splits)

lemma validate_parsed_row_Nil:
  assumes "validate_parsed_row L d kind p = []"
  obtains (invoice) r where "pr_normalized p = Some (NInv r)" "pr_issues p = []"
      "kind \<in> {SourceKind_INPUT_INVOICE, SourceKind_OUTPUT_INVOICE}" "validate_invoice d kind r = []"
    | (money) r where "pr_normalized p = Some (NTx r)" "pr_issues p = []"
      "kind \<in> {SourceKind_BANK, SourceKind_WECHAT}" "validate_transaction L d kind r = []"
proof (cases "pr_normalized p")
  case None
  then show thesis using assms by (auto simp: validate_parsed_row_def split: if_splits)
next
  case (Some x)
  then show thesis
    using assms that by (cases x) (auto simp: validate_parsed_row_def split: if_splits)
qed

lemma issue_if_Nil [simp]: "issue_if b i = [] \<longleftrightarrow> \<not> b"
  by (simp add: issue_if_def)

lemma validate_invoice_Nil:
  "validate_invoice d kind r = [] \<longleftrightarrow>
     ni_direction r = (if kind = SourceKind_INPUT_INVOICE then InvoiceDirection_INPUT
                       else InvoiceDirection_OUTPUT)
     \<and> has_text (ni_number r) \<and> has_text (ni_seller_tax_id r) \<and> has_text (ni_buyer_tax_id r)
     \<and> positive_decimal (ni_total_amount r) \<and> ni_status r \<in> set InvoiceStatus_values
     \<and> mr_value (resolve_invoice_counterparty d r) \<noteq> None"
  by (simp add: validate_invoice_def Let_def; blast)

lemma validate_transaction_Nil:
  "validate_transaction L d kind r = [] \<longleftrightarrow>
     nt_channel r \<in> set MoneyChannel_values \<and> nt_channel r = kind
     \<and> nt_direction r \<in> set MoneyDirection_values \<and> positive_decimal (nt_amount r)
     \<and> has_text (nt_account_identifier r) \<and> mr_value (resolve_funding_account d r) \<noteq> None
     \<and> mr_value (resolve_transaction_counterparty L d r) \<noteq> None"
  by (simp add: validate_transaction_def Let_def; blast)

end
