(* ===== verification/Import_Staging.thy ===== *)
theory Import_Staging
  imports Import_Parsers Import_Validation
begin

text \<open>
  Staging an upload (\<open>apps/imports/services.py\<close>): the stored form of a normalized row, the
  comparison with what is already in the ledger, the preparation of the rows and
  \<open>stage_upload\<close>. The stored file itself is outside the model: only its row in the database
  is kept.
\<close>

section \<open>The stored form of a row\<close>

fun serialize_normalized :: "normalized \<Rightarrow> json" where
  "serialize_normalized (NInv r) = JObj [(lit ''kind'', JStr (lit ''invoice'')),
     (lit ''direction'', JStr (ni_direction r)), (lit ''invoice_number'', JStr (ni_number r)),
     (lit ''seller_tax_id'', JStr (ni_seller_tax_id r)), (lit ''seller_name'', JStr (ni_seller_name r)),
     (lit ''buyer_tax_id'', JStr (ni_buyer_tax_id r)), (lit ''buyer_name'', JStr (ni_buyer_name r)),
     (lit ''issue_date'', JStr (iso_date (ni_issue_date r))),
     (lit ''total_amount'', JStr (dec_fixed (ni_total_amount r))), (lit ''status'', JStr (ni_status r))]"
| "serialize_normalized (NTx r) = JObj [(lit ''kind'', JStr (lit ''transaction'')),
     (lit ''channel'', JStr (nt_channel r)), (lit ''direction'', JStr (nt_direction r)),
     (lit ''occurred_at'', JStr (aware_iso (nt_occurred_at r))),
     (lit ''amount'', JStr (dec_fixed (nt_amount r))),
     (lit ''balance_after'',
        (case nt_balance_after r of None \<Rightarrow> JNull | Some b \<Rightarrow> JStr (dec_fixed b))),
     (lit ''account_identifier'', JStr (nt_account_identifier r)),
     (lit ''counterparty_name'', JStr (nt_counterparty_name r)),
     (lit ''counterparty_account'', JStr (nt_counterparty_account r)),
     (lit ''transaction_id'', JStr (nt_transaction_id r)), (lit ''summary'', JStr (nt_summary r))]"

text \<open>
  \<open>data[key]\<close>, which the callers use as a text; \<open>data[key]\<close> as a \<open>Decimal\<close>, as a day and as
  an aware datetime.
\<close>

definition text_item :: "json \<Rightarrow> string \<Rightarrow> exn + pystr" where
  "text_item data k =
     (case json_get data (lit k) of
        None \<Rightarrow> Inl (KeyError (lit k)) | Some (JStr s) \<Rightarrow> Inr s | Some _ \<Rightarrow> Inl (TypeError (lit k)))"

definition decimal_of_text :: "pystr \<Rightarrow> exn + pydec" where
  "decimal_of_text s = (case parse_dec s of None \<Rightarrow> Inl DecimalInvalidOperation | Some x \<Rightarrow> Inr x)"

definition day_of_text :: "pystr \<Rightarrow> exn + date" where
  "day_of_text s =
     (case parse_iso_datetime s of
        None \<Rightarrow> Inl (ValueError (lit ''Invalid isoformat string''))
      | Some (t, z) \<Rightarrow> Inr (wall_day (t, case z of None \<Rightarrow> 0 | Some x \<Rightarrow> x)))"

definition aware_of_text :: "pystr \<Rightarrow> exn + aware" where
  "aware_of_text s =
     (case parse_aware s of
        None \<Rightarrow> Inl (ValueError (lit ''Invalid isoformat string'')) | Some a \<Rightarrow> Inr a)"

definition optional_decimal :: "json \<Rightarrow> string \<Rightarrow> exn + pydec option" where
  "optional_decimal data k =
     (if json_get data (lit k) = Some JNull then Inr None
      else bindE (text_item data k) (\<lambda>s. map_sum id Some (decimal_of_text s)))"

definition deserialize_normalized :: "json \<Rightarrow> exn + normalized" where
  "deserialize_normalized data =
     (if json_get data (lit ''kind'') = Some (JStr (lit ''invoice''))
      then
        bindE (text_item data ''direction'') (\<lambda>direction.
        bindE (text_item data ''invoice_number'') (\<lambda>number.
        bindE (text_item data ''seller_tax_id'') (\<lambda>seller_tax_id.
        bindE (text_item data ''seller_name'') (\<lambda>seller_name.
        bindE (text_item data ''buyer_tax_id'') (\<lambda>buyer_tax_id.
        bindE (text_item data ''buyer_name'') (\<lambda>buyer_name.
        bindE (bindE (text_item data ''issue_date'') day_of_text) (\<lambda>day.
        bindE (bindE (text_item data ''total_amount'') decimal_of_text) (\<lambda>amount.
        bindE (text_item data ''status'') (\<lambda>status.
        Inr (NInv \<lparr>ni_direction = direction, ni_number = number, ni_seller_tax_id = seller_tax_id,
          ni_seller_name = seller_name, ni_buyer_tax_id = buyer_tax_id, ni_buyer_name = buyer_name,
          ni_issue_date = day, ni_total_amount = amount, ni_status = status\<rparr>))))))))))
      else
        bindE (text_item data ''channel'') (\<lambda>channel.
        bindE (text_item data ''direction'') (\<lambda>direction.
        bindE (bindE (text_item data ''occurred_at'') aware_of_text) (\<lambda>t.
        bindE (bindE (text_item data ''amount'') decimal_of_text) (\<lambda>amount.
        bindE (optional_decimal data ''balance_after'') (\<lambda>balance.
        bindE (text_item data ''account_identifier'') (\<lambda>account.
        bindE (text_item data ''counterparty_name'') (\<lambda>party.
        bindE (text_item data ''counterparty_account'') (\<lambda>party_account.
        bindE (text_item data ''transaction_id'') (\<lambda>transaction_id.
        bindE (text_item data ''summary'') (\<lambda>summary.
        Inr (NTx \<lparr>nt_channel = channel, nt_direction = direction, nt_occurred_at = t,
          nt_amount = amount, nt_balance_after = balance, nt_account_identifier = account,
          nt_counterparty_name = party, nt_counterparty_account = party_account,
          nt_transaction_id = transaction_id, nt_summary = summary\<rparr>))))))))))))"

section \<open>What the ledger already has\<close>

datatype disposition = New | Duplicate | Conflict | StatusUpdate

text \<open>\<open>Decimal(amount) == column\<close>, and \<open>Decimal(a) == Decimal(b)\<close>.\<close>

fun dec_eq_cents :: "pydec \<Rightarrow> money \<Rightarrow> bool" where
  "dec_eq_cents (Fin c e) v = cents_eq c e v"
| "dec_eq_cents _ v = False"

fun dec_eq :: "pydec \<Rightarrow> pydec \<Rightarrow> bool" where
  "dec_eq (Fin c e) (Fin c' e') = (c * 10 ^ nat (e - min e e') = c' * 10 ^ nat (e' - min e e'))"
| "dec_eq (Infinite a) (Infinite b) = (a = b)"
| "dec_eq _ _ = False"

definition status_disposition :: "pystr \<Rightarrow> pystr \<Rightarrow> disposition" where
  "status_disposition current incoming =
     (if current = incoming then Duplicate
      else if current = InvoiceStatus_NORMAL \<and> incoming \<in> {InvoiceStatus_RED, InvoiceStatus_VOID}
      then StatusUpdate else Conflict)"

definition staged_source :: "db \<Rightarrow> invoice \<Rightarrow> json option" where
  "staged_source d b =
     map_option sr_normalized_data
       (List.find (\<lambda>r. sr_batch r = inv_import_batch b \<and> sr_row_number r = inv_source_row b)
          (staged_rows d))"

definition invoice_business_fields_match :: "db \<Rightarrow> invoice \<Rightarrow> norm_invoice \<Rightarrow> bool" where
  "invoice_business_fields_match d b r \<longleftrightarrow>
     inv_direction b = ni_direction r \<and> inv_number b = ni_number r
     \<and> inv_seller_tax_id b = ni_seller_tax_id r \<and> inv_buyer_tax_id b = ni_buyer_tax_id r
     \<and> inv_issue_date b = ni_issue_date r \<and> dec_eq_cents (ni_total_amount r) (inv_total_amount b)
     \<and> (case staged_source d b of
          None \<Rightarrow> True
        | Some data \<Rightarrow>
            json_get data (lit ''kind'') \<noteq> Some (JStr (lit ''invoice''))
            \<or> json_get data (lit ''seller_name'') = Some (JStr (ni_seller_name r))
              \<and> json_get data (lit ''buyer_name'') = Some (JStr (ni_buyer_name r)))"

definition invoice_disposition :: "db \<Rightarrow> invoice \<Rightarrow> norm_invoice \<Rightarrow> disposition" where
  "invoice_disposition d b r =
     (if invoice_business_fields_match d b r then status_disposition (inv_status b) (ni_status r)
      else Conflict)"

definition same_business_fields :: "norm_invoice \<Rightarrow> norm_invoice \<Rightarrow> bool" where
  "same_business_fields a r \<longleftrightarrow>
     ni_direction a = ni_direction r \<and> ni_number a = ni_number r
     \<and> ni_seller_tax_id a = ni_seller_tax_id r \<and> ni_seller_name a = ni_seller_name r
     \<and> ni_buyer_tax_id a = ni_buyer_tax_id r \<and> ni_buyer_name a = ni_buyer_name r
     \<and> ni_issue_date a = ni_issue_date r \<and> dec_eq (ni_total_amount a) (ni_total_amount r)"

definition invoice_rows_disposition :: "norm_invoice \<Rightarrow> norm_invoice \<Rightarrow> disposition" where
  "invoice_rows_disposition a r =
     (if same_business_fields a r then status_disposition (ni_status a) (ni_status r) else Conflict)"

definition find_invoice :: "db \<Rightarrow> norm_invoice \<Rightarrow> invoice option" where
  "find_invoice d r =
     List.find (\<lambda>b. inv_number b = ni_number r \<and> inv_seller_tax_id b = ni_seller_tax_id r)
       (invoices d)"

definition formal_disposition_for ::
    "import_env \<Rightarrow> db \<Rightarrow> normalized \<Rightarrow> exn + disposition \<times> invoice option" where
  "formal_disposition_for L d x =
     (case x of
        NInv r \<Rightarrow>
          (case find_invoice d r of
             None \<Rightarrow> Inr (New, None)
           | Some b \<Rightarrow> Inr (invoice_disposition d b r, Some b))
      | NTx r \<Rightarrow>
          bindE (transaction_fingerprint L r) (\<lambda>f.
          Inr (if f \<in> mt_fingerprint ` set (moneys d) then Duplicate else New, None)))"

definition invoice_conflict_issue :: "pystr \<Rightarrow> pystr \<Rightarrow> row_issue" where
  "invoice_conflict_issue current incoming =
     (if current \<in> {InvoiceStatus_RED, InvoiceStatus_VOID} \<and> incoming = InvoiceStatus_NORMAL
      then issue ''invoice_conflict'' [32418, 20914, 25110, 20316, 24223, 21457, 31080, 19981,
     20801, 35768, 36890, 36807, 37325, 22797, 23548, 20837, 24674, 22797, 20026, 27491, 24120,
     29366, 24577] ''''
      else issue ''invoice_conflict'' [30456, 21516, 21457, 31080, 21495, 30721, 21644, 38144,
     21806, 26041, 31246, 21495, 30340, 19994, 21153, 23383, 27573, 20914, 31361] '''')"

section \<open>Preparing the rows\<close>

datatype dup_key = KInvoice pystr pystr | KTransaction pystr

definition duplicate_key :: "import_env \<Rightarrow> normalized \<Rightarrow> exn + dup_key" where
  "duplicate_key L x =
     (case x of
        NInv r \<Rightarrow> Inr (KInvoice (ni_number r) (ni_seller_tax_id r))
      | NTx r \<Rightarrow> map_sum id KTransaction (transaction_fingerprint L r))"

record prepared_row =
  pw_row_number :: int
  pw_raw_data :: json
  pw_normalized_data :: json
  pw_issues :: json
  pw_is_duplicate :: bool

record preparation =
  pp_rows :: "prepared_row list"
  pp_seen :: "(dup_key \<times> normalized) list"
  pp_total :: int
  pp_valid :: int
  pp_duplicate :: int
  pp_error :: int
  pp_dates :: "date list"

definition empty_preparation :: preparation where
  "empty_preparation = \<lparr>pp_rows = [], pp_seen = [], pp_total = 0, pp_valid = 0, pp_duplicate = 0,
     pp_error = 0, pp_dates = []\<rparr>"

fun period_date :: "normalized \<Rightarrow> date" where
  "period_date (NInv r) = ni_issue_date r"
| "period_date (NTx r) = wall_day (nt_occurred_at r)"

fun status_of :: "normalized \<Rightarrow> pystr" where
  "status_of (NInv r) = ni_status r"
| "status_of (NTx r) = []"

text \<open>
  The disposition of a row without issues, with the status it is compared to: against an
  earlier row of the file with the same key, or against the ledger.
\<close>

definition row_disposition ::
    "import_env \<Rightarrow> db \<Rightarrow> preparation \<Rightarrow> normalized \<Rightarrow> exn + dup_key \<times> disposition \<times> pystr" where
  "row_disposition L d s x =
     bindE (duplicate_key L x) (\<lambda>k.
     case (map_of (pp_seen s) k, x) of
       (None, _) \<Rightarrow>
         bindE (formal_disposition_for L d x) (\<lambda>(disp, existing).
         Inr (k, disp, case existing of None \<Rightarrow> [] | Some b \<Rightarrow> inv_status b))
     | (Some (NInv a), NInv r) \<Rightarrow> Inr (k, invoice_rows_disposition a r, ni_status a)
     | (Some _, _) \<Rightarrow> Inr (k, Duplicate, []))"

definition add_prepared ::
    "int \<Rightarrow> json \<Rightarrow> row_issue list \<Rightarrow> json \<Rightarrow> bool \<Rightarrow> preparation \<Rightarrow> preparation" where
  "add_prepared n raw issues data dup s =
     s\<lparr>pp_rows := pp_rows s @ [\<lparr>pw_row_number = n, pw_raw_data = raw, pw_normalized_data = data,
                               pw_issues = JList (map issue_json issues), pw_is_duplicate = dup\<rparr>],
       pp_total := pp_total s + 1,
       pp_valid := pp_valid s + (if issues = [] \<and> \<not> dup then 1 else 0),
       pp_duplicate := pp_duplicate s + (if issues = [] \<and> dup then 1 else 0),
       pp_error := pp_error s + (if issues \<noteq> [] then 1 else 0)\<rparr>"

definition prepare_staged_row ::
    "import_env \<Rightarrow> db \<Rightarrow> pystr \<Rightarrow> parsed_row \<Rightarrow> preparation \<Rightarrow> exn + preparation" where
  "prepare_staged_row L d kind p s =
     (let (raw, raw_issue) = json_safe_raw_data (pr_raw_data p);
          issues = (case raw_issue of None \<Rightarrow> [] | Some i \<Rightarrow> [i]) @ validate_parsed_row L d kind p
      in case (issues, pr_normalized p) of
           ([], Some x) \<Rightarrow>
             bindE (row_disposition L d s x) (\<lambda>(k, disp, current).
             let s1 = s\<lparr>pp_seen := (if disp = Conflict then pp_seen s else AList.update k x (pp_seen s)),
                        pp_dates := pp_dates s @ [period_date x]\<rparr>;
                 bad = (if disp = Conflict then [invoice_conflict_issue current (status_of x)] else [])
             in Inr (add_prepared (pr_row_number p) raw bad
                       (if bad = [] then serialize_normalized x else JObj []) (disp = Duplicate) s1))
         | _ \<Rightarrow> Inr (add_prepared (pr_row_number p) raw issues (JObj []) False s))"

text \<open>\<open>_prepare_rows\<close>, with the number of rows still allowed.\<close>

definition msg_too_many_rows :: pystr where "msg_too_many_rows = [25991, 20214, 25968, 25454,
     34892, 25968, 36229, 36807, 31995, 32479, 20801, 35768, 30340, 19978, 38480]"

fun prepare_rows ::
    "import_env \<Rightarrow> db \<Rightarrow> pystr \<Rightarrow> nat \<Rightarrow> (exn + parsed_row) list \<Rightarrow> preparation \<Rightarrow> exn + preparation" where
  "prepare_rows L d kind n [] s = Inr s"
| "prepare_rows L d kind n (Inl e # rows) s = Inl e"
| "prepare_rows L d kind 0 (Inr p # rows) s = Inl (RowValidationError msg_too_many_rows)"
| "prepare_rows L d kind (Suc n) (Inr p # rows) s =
     bindE (prepare_staged_row L d kind p s) (prepare_rows L d kind n rows)"

section \<open>Staging\<close>

definition msg_import_finance :: pystr where "msg_import_finance = [21482, 26377, 36130, 21153,
     20154, 21592, 21487, 20197, 25191, 34892, 23548, 20837, 30830, 35748]"
definition msg_duplicate_file :: pystr where "msg_duplicate_file = [30456, 21516, 32, 83, 72,
     65, 45, 50, 53, 54, 32, 30340, 21407, 22987, 25991, 20214, 24050, 23548, 20837]"

definition source_kind_for ::
    "import_env \<Rightarrow> importer \<Rightarrow> upload \<Rightarrow> pystr option \<Rightarrow> exn + pystr" where
  "source_kind_for L p u requested =
     (case requested of
        None \<Rightarrow> detect_source_kind L p (up_content u)
      | Some k \<Rightarrow>
          if k \<notin> set SourceKind_values then Inl (ValueError [26469, 28304, 31867, 22411,
     19981, 21512, 27861])
          else if k \<notin> set (importer_source_kinds p)
          then Inl (RowValidationError [35299, 26512, 22120, 19981, 25903, 25345, 35813, 26469,
     28304, 31867, 22411])
          else Inr k)"

text \<open>The rows of \<open>bulk_create\<close>; the identifiers 0 and 1 go to the batch and its file.\<close>

definition staged_from :: "(nat \<Rightarrow> uuid) \<Rightarrow> prepared_row list \<Rightarrow> staged_row list" where
  "staged_from ids rows =
     map (\<lambda>(i, w). \<lparr>sr_id = ids (i + 2), sr_batch = ids 0, sr_row_number = pw_row_number w,
            sr_raw_data = pw_raw_data w, sr_normalized_data = pw_normalized_data w,
            sr_issues = pw_issues w, sr_is_duplicate = pw_is_duplicate w, sr_posted_at = None\<rparr>)
       (List.enumerate 0 rows)"

definition staged_batch ::
    "instant \<Rightarrow> (nat \<Rightarrow> uuid) \<Rightarrow> actor \<Rightarrow> pystr \<Rightarrow> preparation \<Rightarrow> import_batch" where
  "staged_batch now ids a kind s =
     \<lparr>ib_id = ids 0, ib_source_kind = kind, ib_status = BatchStatus_PREVIEWED,
      ib_total_rows = pp_total s, ib_valid_rows = pp_valid s, ib_duplicate_rows = pp_duplicate s,
      ib_error_rows = pp_error s,
      ib_period_start = (if pp_dates s = [] then None else Some (Min (set (pp_dates s)))),
      ib_period_end = (if pp_dates s = [] then None else Some (Max (set (pp_dates s)))),
      ib_created_by = the (actor_pk a), ib_created_at = now, ib_confirmed_at = None\<rparr>"

definition stage_upload ::
    "import_env \<Rightarrow> importer list \<Rightarrow> instant \<Rightarrow> (nat \<Rightarrow> uuid) \<Rightarrow> upload \<Rightarrow> pystr option \<Rightarrow> actor \<Rightarrow> db
     \<Rightarrow> exn + import_batch \<times> db" where
  "stage_upload L registry now ids u requested a d =
     bindE (require_finance_actor d a msg_import_finance) (\<lambda>_.
     bindE (validate_upload_signature L u) (\<lambda>_.
     let sha = ie_sha256 L (up_content u); filename = path_name (up_name u)
     in
     bindE (raise_if (sha \<in> sf_sha256 ` set (source_files d)) (DuplicateSourceFileError msg_duplicate_file)) (\<lambda>_.
     bindE (read_headers L u) (\<lambda>headers.
     bindE (detect registry filename headers) (\<lambda>p.
     bindE (source_kind_for L p u requested) (\<lambda>kind.
     bindE (prepare_rows L d kind (ie_max_rows L) (importer_parse L p (up_content u)) empty_preparation) (\<lambda>s.
     let batch = staged_batch now ids a kind s; rows = staged_from ids (pp_rows s);
         d1 = d\<lparr>import_batches := import_batches d @ [batch],
                source_files := source_files d @ [\<lparr>sf_id = ids 1, sf_batch = ids 0,
                  sf_original_name = filename, sf_sha256 = sha,
                  sf_size = int (length (up_content u))\<rparr>],
                staged_rows := staged_rows d @ rows\<rparr>
     in
     bindE (raise_if (255 < length filename) DataError) (\<lambda>_.
     bindE (raise_if (\<not> distinct (map pw_row_number (pp_rows s))) IntegrityError) (\<lambda>_.
     bindE (record_audit now a (lit ''import.staged'') (saved_target (lit ''ImportBatch'') (ids 0))
              (result_as_dict (result_from_batch d1 batch)) d1) (\<lambda>d2.
     Inr (batch, d2)))))))))))"

end
