(* ===== verification/Import_Confirm.thy ===== *)
theory Import_Confirm
  imports Import_Staging
begin

text \<open>
  Confirming a staged batch (\<open>services.confirm_batch\<close> and what it calls): every row that is
  valid and not yet posted is compared with the ledger again and posted, the balances of a
  bank statement become snapshots, and the counters of the batch are brought up to date.
  PostgreSQL's column lengths and constraints are the checks of the two insertions.
\<close>

section \<open>Posting\<close>

text \<open>\<open>DecimalField(18, 2)\<close>: a value is stored rounded to cents,
     and at most 18 digits fit.\<close>

definition db_money :: "pydec \<Rightarrow> exn + money" where
  "db_money x =
     (case quantize_cents x of
        Inr (Some v) \<Rightarrow> if \<bar>v\<bar> \<le> max_cents then Inr v else Inl DecimalInvalidOperation
      | _ \<Rightarrow> Inl DecimalInvalidOperation)"

definition db_money_option :: "pydec option \<Rightarrow> exn + money option" where
  "db_money_option x = (case x of None \<Rightarrow> Inr None | Some b \<Rightarrow> map_sum id Some (db_money b))"

definition insert_invoice :: "invoice \<Rightarrow> db \<Rightarrow> exn + db" where
  "insert_invoice b d =
     bindE (raise_if (10 < length (inv_direction b) \<or> 30 < length (inv_number b)
       \<or> 32 < length (inv_seller_tax_id b) \<or> 32 < length (inv_buyer_tax_id b)
       \<or> 12 < length (inv_status b)) DataError) (\<lambda>_.
     bindE (raise_if (\<not> 0 < inv_total_amount b
       \<or> (inv_number b, inv_seller_tax_id b) \<in> (\<lambda>x. (inv_number x, inv_seller_tax_id x)) ` set (invoices d))
       IntegrityError) (\<lambda>_.
     Inr (d\<lparr>invoices := invoices d @ [b]\<rparr>)))"

definition insert_money :: "money_transaction \<Rightarrow> db \<Rightarrow> exn + db" where
  "insert_money m d =
     bindE (raise_if (12 < length (mt_channel m) \<or> 10 < length (mt_direction m)
       \<or> 100 < length (mt_transaction_id m) \<or> 64 < length (mt_fingerprint m)
       \<or> 255 < length (mt_counterparty_raw_name m) \<or> 100 < length (mt_counterparty_account m))
       DataError) (\<lambda>_.
     bindE (raise_if (\<not> 0 < mt_amount m \<or> mt_channel m \<notin> set MoneyChannel_values
       \<or> mt_direction m \<notin> set MoneyDirection_values \<or> mt_fingerprint m \<in> mt_fingerprint ` set (moneys d))
       IntegrityError) (\<lambda>_.
     Inr (d\<lparr>moneys := moneys d @ [m]\<rparr>)))"

text \<open>\<open>_post_normalized_row\<close>; \<open>i\<close> is the identifier the new row draws.\<close>

definition post_normalized_row ::
    "import_env \<Rightarrow> uuid \<Rightarrow> uuid \<Rightarrow> staged_row \<Rightarrow> db \<Rightarrow> exn + db" where
  "post_normalized_row L i batch row d =
     bindE (deserialize_normalized (sr_normalized_data row)) (\<lambda>x.
     case x of
       NInv r \<Rightarrow>
         (case mr_value (resolve_invoice_counterparty d r) of
            None \<Rightarrow> Inl (RowValidationError msg_party_unknown)
          | Some party \<Rightarrow>
              bindE (db_money (ni_total_amount r)) (\<lambda>total_amount.
              insert_invoice
                \<lparr>inv_id = i, inv_direction = ni_direction r, inv_number = ni_number r,
                 inv_seller_tax_id = ni_seller_tax_id r, inv_buyer_tax_id = ni_buyer_tax_id r,
                 inv_issue_date = ni_issue_date r, inv_due_date = None,
                 inv_total_amount = total_amount, inv_status = ni_status r,
                 inv_counterparty = cp_id party, inv_import_batch = batch,
                 inv_source_row = sr_row_number row, inv_source_payload = sr_raw_data row\<rparr> d))
     | NTx r \<Rightarrow>
         (case mr_value (resolve_funding_account d r) of
            None \<Rightarrow> Inl (RowValidationError [26080, 27861, 35782, 21035, 36164,
     37329, 36134, 25143])
          | Some account \<Rightarrow>
              (case mr_value (resolve_transaction_counterparty L d r) of
                 None \<Rightarrow> Inl (RowValidationError msg_party_unknown)
               | Some party \<Rightarrow>
                   bindE (transaction_fingerprint L r) (\<lambda>f.
                   bindE (db_money (nt_amount r)) (\<lambda>amount.
                   bindE (db_money_option (nt_balance_after r)) (\<lambda>balance.
                   insert_money
                     \<lparr>mt_id = i, mt_account = fa_id account, mt_channel = nt_channel r,
                      mt_direction = nt_direction r, mt_occurred_at = fst (nt_occurred_at r),
                      mt_amount = amount, mt_balance_after = balance,
                      mt_transaction_id = nt_transaction_id r, mt_fingerprint = f,
                      mt_counterparty = Some (cp_id party),
                      mt_counterparty_raw_name = nt_counterparty_name r,
                      mt_counterparty_account = nt_counterparty_account r,
                      mt_import_batch = batch, mt_source_row = sr_row_number row,
                      mt_source_payload = sr_raw_data row\<rparr> d))))))"

section \<open>Marking rows\<close>

definition update_staged :: "uuid \<Rightarrow> (staged_row \<Rightarrow> staged_row) \<Rightarrow> db \<Rightarrow> db" where
  "update_staged i f d =
     d\<lparr>staged_rows := map (\<lambda>r. if sr_id r = i then f r else r) (staged_rows d)\<rparr>"

definition mark_duplicate :: "staged_row \<Rightarrow> db \<Rightarrow> db" where
  "mark_duplicate row d = update_staged (sr_id row) (\<lambda>r. r\<lparr>sr_is_duplicate := True\<rparr>) d"

definition mark_invoice_conflict :: "staged_row \<Rightarrow> pystr \<Rightarrow> pystr \<Rightarrow> db \<Rightarrow> db" where
  "mark_invoice_conflict row current incoming d =
     update_staged (sr_id row)
       (\<lambda>r. r\<lparr>sr_issues := JList [issue_json (invoice_conflict_issue current incoming)]\<rparr>) d"

definition mark_posted :: "instant \<Rightarrow> staged_row \<Rightarrow> db \<Rightarrow> db" where
  "mark_posted now row d = update_staged (sr_id row) (\<lambda>r. r\<lparr>sr_posted_at := Some now\<rparr>) d"

definition update_invoice_status ::
    "instant \<Rightarrow> actor \<Rightarrow> invoice \<Rightarrow> pystr \<Rightarrow> uuid \<Rightarrow> staged_row \<Rightarrow> db \<Rightarrow> exn + db" where
  "update_invoice_status now a b status batch row d =
     record_audit now a (lit ''invoice.status_changed'') (saved_target (lit ''Invoice'') (inv_id b))
       (JObj [(lit ''from_status'', JStr (inv_status b)), (lit ''to_status'', JStr status),
              (lit ''source_batch_id'', JStr (uuid_str batch)),
              (lit ''source_row'', JInt (sr_row_number row))])
       (d\<lparr>invoices := map (\<lambda>x. if inv_id x = inv_id b then x\<lparr>inv_status := status\<rparr> else x) (invoices d)\<rparr>)"

section \<open>One row of the loop\<close>

record confirmation =
  cf_db :: db
  cf_next :: nat
  cf_duplicates :: int
  cf_errors :: int

text \<open>
  What the loop does for a disposition other than \<open>New\<close>; a status update posts the row.
\<close>

definition settle_row ::
    "instant \<Rightarrow> actor \<Rightarrow> uuid \<Rightarrow> staged_row \<Rightarrow> normalized \<Rightarrow> disposition \<Rightarrow> invoice option \<Rightarrow> confirmation
     \<Rightarrow> exn + confirmation" where
  "settle_row now a batch row x disp existing c =
     (case disp of
        Duplicate \<Rightarrow>
          Inr (c\<lparr>cf_db := mark_duplicate row (cf_db c), cf_duplicates := cf_duplicates c + 1\<rparr>)
      | Conflict \<Rightarrow>
          Inr (c\<lparr>cf_db := mark_invoice_conflict row (inv_status (the existing)) (status_of x) (cf_db c),
                 cf_errors := cf_errors c + 1\<rparr>)
      | StatusUpdate \<Rightarrow>
          bindE (update_invoice_status now a (the existing) (status_of x) batch row (cf_db c)) (\<lambda>d.
          Inr (c\<lparr>cf_db := mark_posted now row d\<rparr>))
      | New \<Rightarrow> Inr c)"

definition confirm_row ::
    "import_env \<Rightarrow> instant \<Rightarrow> (nat \<Rightarrow> uuid) \<Rightarrow> actor \<Rightarrow> uuid \<Rightarrow> staged_row \<Rightarrow> confirmation
     \<Rightarrow> exn + confirmation" where
  "confirm_row L now ids a batch row c =
     (if sr_issues row \<noteq> JList [] then Inr c
      else
        bindE (deserialize_normalized (sr_normalized_data row)) (\<lambda>x.
        bindE (formal_disposition_for L (cf_db c) x) (\<lambda>(disp, existing).
        if disp \<noteq> New then settle_row now a batch row x disp existing c
        else
          (case post_normalized_row L (ids (cf_next c)) batch row (cf_db c) of
             Inr d \<Rightarrow> Inr (c\<lparr>cf_db := mark_posted now row d, cf_next := cf_next c + 1\<rparr>)
           | Inl IntegrityError \<Rightarrow>
               bindE (formal_disposition_for L (cf_db c) x) (\<lambda>(disp2, existing2).
               if disp2 = New then Inl IntegrityError
               else settle_row now a batch row x disp2 existing2 c)
           | Inl e \<Rightarrow> Inl e))))"

fun confirm_rows ::
    "import_env \<Rightarrow> instant \<Rightarrow> (nat \<Rightarrow> uuid) \<Rightarrow> actor \<Rightarrow> uuid \<Rightarrow> staged_row list \<Rightarrow> confirmation
     \<Rightarrow> exn + confirmation" where
  "confirm_rows L now ids a batch [] c = Inr c"
| "confirm_rows L now ids a batch (r # rs) c =
     bindE (confirm_row L now ids a batch r c) (confirm_rows L now ids a batch rs)"

section \<open>Balance snapshots\<close>

text \<open>A candidate for the last balance of an account: its instant, row number and balance.\<close>

type_synonym balance_candidate = "instant \<times> int \<times> pydec"

definition later_balance :: "balance_candidate \<Rightarrow> balance_candidate \<Rightarrow> bool" where
  "later_balance c p \<longleftrightarrow> fst p < fst c \<or> (fst c = fst p \<and> fst (snd c) < fst (snd p))"

fun latest_balances ::
    "db \<Rightarrow> staged_row list \<Rightarrow> (uuid \<times> balance_candidate) list \<Rightarrow> exn + (uuid \<times> balance_candidate) list" where
  "latest_balances d [] acc = Inr acc"
| "latest_balances d (row # rows) acc =
     (if sr_issues row \<noteq> JList [] then latest_balances d rows acc
      else
        bindE (deserialize_normalized (sr_normalized_data row)) (\<lambda>x.
        case x of
          NInv r \<Rightarrow> latest_balances d rows acc
        | NTx r \<Rightarrow>
            (case (nt_balance_after r, mr_value (resolve_funding_account d r)) of
               (Some balance, Some account) \<Rightarrow>
                 (let c = (fst (nt_occurred_at r), sr_row_number row, balance)
                  in latest_balances d rows
                       (case map_of acc (fa_id account) of
                          None \<Rightarrow> AList.update (fa_id account) c acc
                        | Some p \<Rightarrow> if later_balance c p then AList.update (fa_id account) c acc else acc))
             | _ \<Rightarrow> latest_balances d rows acc)))"

definition msg_snapshot_conflict :: pystr where "msg_snapshot_conflict = [36134, 25143, 20313,
     39069, 24555, 29031, 20914, 31361]"

definition create_balance_snapshot ::
    "uuid \<Rightarrow> uuid \<Rightarrow> uuid \<Rightarrow> instant \<Rightarrow> pydec \<Rightarrow> db \<Rightarrow> exn + db" where
  "create_balance_snapshot i batch account t balance d =
     (case List.find (\<lambda>s. bs_account s = account \<and> bs_as_of s = t) (snapshots d) of
        Some s \<Rightarrow>
          if dec_eq_cents balance (bs_balance s) then Inr d
          else Inl (RowValidationError msg_snapshot_conflict)
      | None \<Rightarrow>
          bindE (db_money balance) (\<lambda>v.
          Inr (d\<lparr>snapshots := snapshots d @ [\<lparr>bs_id = i, bs_account = account, bs_as_of = t,
                   bs_balance = v, bs_source_batch = batch\<rparr>]\<rparr>)))"

fun create_snapshots ::
    "(nat \<Rightarrow> uuid) \<Rightarrow> nat \<Rightarrow> uuid \<Rightarrow> (uuid \<times> balance_candidate) list \<Rightarrow> db \<Rightarrow> exn + db" where
  "create_snapshots ids n batch [] d = Inr d"
| "create_snapshots ids n batch ((account, t, row, balance) # cs) d =
     bindE (create_balance_snapshot (ids n) batch account t balance d)
       (create_snapshots ids (n + 1) batch cs)"

definition batch_rows :: "uuid \<Rightarrow> db \<Rightarrow> staged_row list" where
  "batch_rows batch d = sort_key sr_row_number (filter (\<lambda>r. sr_batch r = batch) (staged_rows d))"

definition create_balance_snapshots ::
    "(nat \<Rightarrow> uuid) \<Rightarrow> nat \<Rightarrow> import_batch \<Rightarrow> db \<Rightarrow> exn + db" where
  "create_balance_snapshots ids n batch d =
     (if ib_source_kind batch \<noteq> SourceKind_BANK then Inr d
      else
        bindE (latest_balances d (filter (\<lambda>r. sr_posted_at r \<noteq> None) (batch_rows (ib_id batch) d)) [])
          (\<lambda>cs. create_snapshots ids n (ib_id batch) cs d))"

section \<open>Confirming\<close>

definition pending_rows :: "uuid \<Rightarrow> db \<Rightarrow> staged_row list" where
  "pending_rows batch d =
     filter (\<lambda>r. sr_posted_at r = None \<and> \<not> sr_is_duplicate r) (batch_rows batch d)"

definition confirmed_batch :: "instant \<Rightarrow> import_batch \<Rightarrow> confirmation \<Rightarrow> import_batch" where
  "confirmed_batch now b c =
     b\<lparr>ib_duplicate_rows := ib_duplicate_rows b + cf_duplicates c,
       ib_error_rows := ib_error_rows b + cf_errors c,
       ib_valid_rows := ib_valid_rows b - cf_duplicates c - cf_errors c,
       ib_confirmed_at := Some now,
       ib_status := (if ib_error_rows b + cf_errors c \<noteq> 0 then BatchStatus_PARTIAL
                     else BatchStatus_COMPLETED)\<rparr>"

definition start_confirmation :: "db \<Rightarrow> confirmation" where
  "start_confirmation d = \<lparr>cf_db = d, cf_next = 0, cf_duplicates = 0, cf_errors = 0\<rparr>"

definition confirm_batch ::
    "import_env \<Rightarrow> instant \<Rightarrow> (nat \<Rightarrow> uuid) \<Rightarrow> uuid \<Rightarrow> actor \<Rightarrow> db \<Rightarrow> exn + import_result \<times> db" where
  "confirm_batch L now ids batch_id a d =
     bindE (require_finance_actor d a msg_import_finance) (\<lambda>_.
     case find_row ib_id (import_batches d) batch_id of
       None \<Rightarrow> Inl ObjectDoesNotExist
     | Some b \<Rightarrow>
         if ib_confirmed_at b \<noteq> None then Inr (result_from_batch d b, d)
         else
           bindE (confirm_rows L now ids a batch_id (pending_rows batch_id d) (start_confirmation d)) (\<lambda>c.
           bindE (create_balance_snapshots ids (cf_next c) b (cf_db c)) (\<lambda>d1.
           let b1 = confirmed_batch now b c;
               d2 = d1\<lparr>import_batches := map (\<lambda>x. if ib_id x = batch_id then b1 else x) (import_batches d1)\<rparr>;
               result = result_from_batch d2 b1
           in
           bindE (record_audit now a (lit ''import.confirmed'')
                    (saved_target (lit ''ImportBatch'') batch_id) (result_as_dict result) d2) (\<lambda>d3.
           Inr (result, d3)))))"

end
