(* ===== verification/Import_Properties.thy ===== *)
theory Import_Properties
  imports Import_Confirm
begin

text \<open>
  What the import pipeline guarantees: the stored form of a row, the counters of a batch
  through staging and confirmation, what a file may change in the ledger and what is refused.
\<close>

section \<open>The stored form\<close>

text \<open>The rows that the validation lets through: finite amounts and days of the calendar.\<close>

fun finite_dec :: "pydec \<Rightarrow> bool" where
  "finite_dec (Fin c e) = True"
| "finite_dec _ = False"

fun storable :: "normalized \<Rightarrow> bool" where
  "storable (NInv r) \<longleftrightarrow> finite_dec (ni_total_amount r) \<and> valid_ord (ni_issue_date r)"
| "storable (NTx r) \<longleftrightarrow> finite_dec (nt_amount r) \<and> valid_aware (nt_occurred_at r)
     \<and> (\<forall>b. nt_balance_after r = Some b \<longrightarrow> finite_dec b)"

text \<open>The row that comes back: its amounts have no positive exponent.\<close>

fun stored_form :: "normalized \<Rightarrow> normalized" where
  "stored_form (NInv r) = NInv (r\<lparr>ni_total_amount := dec_plain (ni_total_amount r)\<rparr>)"
| "stored_form (NTx r) = NTx (r\<lparr>nt_amount := dec_plain (nt_amount r),
     nt_balance_after := map_option dec_plain (nt_balance_after r)\<rparr>)"

lemma decimal_of_fixed: "finite_dec x \<Longrightarrow> decimal_of_text (dec_fixed x) = Inr (dec_plain x)"
  by (cases x) (simp_all add: decimal_of_text_def parse_dec_fixed del: dec_fixed.simps dec_plain.simps)

lemma day_of_iso: "valid_ord n \<Longrightarrow> day_of_text (iso_date n) = Inr n"
proof -
  assume n: "valid_ord n"
  have "take 10 (iso_date n) = iso_date n" by (simp add: length_iso_date)
  then have "parse_iso_datetime (iso_date n) = Some ((n - 719163) * us_per_day, None)"
    using n by (simp add: parse_iso_datetime_def parse_iso_iso length_iso_date)
  then show ?thesis by (simp add: day_of_text_def wall_day_def wall_def us_per_day_def)
qed

lemma aware_of_iso: "valid_aware a \<Longrightarrow> aware_of_text (aware_iso a) = Inr a"
  by (simp add: aware_of_text_def parse_aware_iso)

lemma quantize_plain: "quantize_cents (dec_plain x) = quantize_cents x"
proof (cases x)
  case (Fin c e)
  then show ?thesis
    by (cases "0 \<le> e") (simp_all add: cents_round_def power_add [symmetric] nat_add_distrib mult_ac)
qed simp_all

lemma cents_plain: "dec_eq_cents (dec_plain x) v = dec_eq_cents x v"
  by (cases x) (auto simp: cents_eq_def nat_add_distrib power_add mult_ac)

lemma fingerprint_stored:
  "transaction_fingerprint L (r\<lparr>nt_amount := dec_plain (nt_amount r), nt_balance_after := b\<rparr>)
     = transaction_fingerprint L r"
  by (simp add: transaction_fingerprint_def quantize_plain fingerprint_fields_def split: sum.split)

lemma invoice_disposition_stored:
  "invoice_disposition d b (r\<lparr>ni_total_amount := dec_plain (ni_total_amount r)\<rparr>) = invoice_disposition d b r"
  by (simp add: invoice_disposition_def invoice_business_fields_match_def cents_plain cong: option.case_cong)

lemma disposition_stored: "formal_disposition_for L d (stored_form x) = formal_disposition_for L d x"
  by (cases x) (simp_all add: formal_disposition_for_def fingerprint_stored find_invoice_def
    invoice_disposition_stored cong: option.case_cong)

lemma deserialize_serialize:
  "storable x \<Longrightarrow> deserialize_normalized (serialize_normalized x) = Inr (stored_form x)"
  by (cases x)
    (simp_all add: deserialize_normalized_def text_item_def optional_decimal_def
      day_of_iso aware_of_iso decimal_of_fixed split: option.split)

text \<open>
  C16. A row that is staged is read back at the confirmation with every field, its amounts
  with the same value, so that the confirmation compares it with the ledger in the same way.
\<close>

theorem row_survives_storage:
  assumes "storable x"
  shows "deserialize_normalized (serialize_normalized x) = Inr (stored_form x)
     \<and> formal_disposition_for L d (stored_form x) = formal_disposition_for L d x"
  using deserialize_serialize [OF assms] disposition_stored by blast

section \<open>The rows of a batch\<close>

text \<open>
  The states of a row: with an issue, a duplicate, posted or still pending. The counters of a
  batch count them.
\<close>

abbreviation sound :: "staged_row \<Rightarrow> bool" where
  "sound r \<equiv> sr_issues r = JList []"

definition count_rows :: "(staged_row \<Rightarrow> bool) \<Rightarrow> uuid \<Rightarrow> db \<Rightarrow> int" where
  "count_rows P i d = int (length (filter (\<lambda>r. sr_batch r = i \<and> P r) (staged_rows d)))"

definition counts_ok :: "db \<Rightarrow> import_batch \<Rightarrow> bool" where
  "counts_ok d b \<longleftrightarrow>
     ib_total_rows b = count_rows (\<lambda>r. True) (ib_id b) d
     \<and> ib_error_rows b = count_rows (\<lambda>r. \<not> sound r) (ib_id b) d
     \<and> ib_duplicate_rows b = count_rows (\<lambda>r. sound r \<and> sr_is_duplicate r) (ib_id b) d
     \<and> ib_valid_rows b = count_rows (\<lambda>r. sound r \<and> \<not> sr_is_duplicate r) (ib_id b) d"

lemma counts_total:
  assumes "counts_ok d b"
  shows "ib_total_rows b = ib_valid_rows b + ib_duplicate_rows b + ib_error_rows b"
proof -
  have "length (filter P xs) = length (filter (\<lambda>x. P x \<and> Q x) xs) + length (filter (\<lambda>x. P x \<and> \<not> Q x) xs)"
    for P Q and xs :: "staged_row list"
    by (induction xs) auto
  note this [of "\<lambda>r. sr_batch r = ib_id b" "staged_rows d" "\<lambda>r. sound r"]
    this [of "\<lambda>r. sr_batch r = ib_id b \<and> sound r" "staged_rows d" sr_is_duplicate]
  then show ?thesis
    using assms by (simp add: counts_ok_def count_rows_def conj_assoc)
qed

section \<open>Staging\<close>

text \<open>The counters of a preparation are those of its rows.\<close>

definition prepared_ok :: "preparation \<Rightarrow> bool" where
  "prepared_ok s \<longleftrightarrow>
     pp_total s = int (length (pp_rows s))
     \<and> pp_error s = int (length (filter (\<lambda>w. pw_issues w \<noteq> JList []) (pp_rows s)))
     \<and> pp_duplicate s = int (length (filter (\<lambda>w. pw_issues w = JList [] \<and> pw_is_duplicate w) (pp_rows s)))
     \<and> pp_valid s = int (length (filter (\<lambda>w. pw_issues w = JList [] \<and> \<not> pw_is_duplicate w) (pp_rows s)))"

lemma prepared_ok_simps [simp]:
  "prepared_ok (s\<lparr>pp_seen := x\<rparr>) = prepared_ok s" "prepared_ok (s\<lparr>pp_dates := y\<rparr>) = prepared_ok s"
  by (simp_all add: prepared_ok_def)

lemma add_prepared_ok: "prepared_ok s \<Longrightarrow> prepared_ok (add_prepared n raw issues data dup s)"
  by (auto simp: prepared_ok_def add_prepared_def)

lemma prepare_row_ok: "prepare_staged_row L d kind p s = Inr s' \<Longrightarrow> prepared_ok s \<Longrightarrow> prepared_ok s'"
  by (auto simp: prepare_staged_row_def Let_def bindE_Inr_iff
    intro!: add_prepared_ok split: prod.splits option.splits list.splits if_splits)

lemma prepare_rows_ok: "prepare_rows L d kind n rows s = Inr s' \<Longrightarrow> prepared_ok s \<Longrightarrow> prepared_ok s'"
  by (induction L d kind n rows s rule: prepare_rows.induct) (auto simp: bindE_Inr_iff dest: prepare_row_ok)

lemma empty_preparation_ok: "prepared_ok empty_preparation"
  by (simp add: prepared_ok_def empty_preparation_def)

lemma record_audit_Inr:
  "record_audit now a action target changes d = Inr d' \<Longrightarrow> \<exists>r. d' = d\<lparr>audits := audits d @ [r]\<rparr>"
  by (auto simp: record_audit_def split: if_splits)

text \<open>What a staging that returns has done.\<close>

lemma stage_upload_Inr:
  assumes "stage_upload L registry now ids u requested a d = Inr (b, d')"
  shows "\<exists>s kind rows. prepare_rows L d kind (ie_max_rows L) rows empty_preparation = Inr s
     \<and> prepared_ok s \<and> b = staged_batch now ids a kind s
     \<and> distinct (map pw_row_number (pp_rows s))
     \<and> ie_sha256 L (up_content u) \<notin> sf_sha256 ` set (source_files d)
     \<and> import_batches d' = import_batches d @ [b]
     \<and> sf_sha256 ` set (source_files d') = insert (ie_sha256 L (up_content u)) (sf_sha256 ` set (source_files d))
     \<and> staged_rows d' = staged_rows d @ staged_from ids (pp_rows s)
     \<and> invoices d' = invoices d \<and> moneys d' = moneys d"
proof -
  obtain s p kind r where prep: "prepare_rows L d kind (ie_max_rows L) (importer_parse L p (up_content u))
      empty_preparation = Inr s"
    and rest: "b = staged_batch now ids a kind s" "distinct (map pw_row_number (pp_rows s))"
      "ie_sha256 L (up_content u) \<notin> sf_sha256 ` set (source_files d)"
      "d' = d\<lparr>import_batches := import_batches d @ [b],
         source_files := source_files d @ [\<lparr>sf_id = ids 1, sf_batch = ids 0,
           sf_original_name = path_name (up_name u), sf_sha256 = ie_sha256 L (up_content u),
           sf_size = int (length (up_content u))\<rparr>],
         staged_rows := staged_rows d @ staged_from ids (pp_rows s), audits := audits d @ [r]\<rparr>"
    using assms
    by (auto simp: stage_upload_def Let_def bindE_Inr_iff raise_if_Inr_iff dest!: record_audit_Inr)
  show ?thesis
    using prep rest prepare_rows_ok [OF prep empty_preparation_ok]
    by (intro exI [of _ s] exI [of _ kind] exI [of _ "importer_parse L p (up_content u)"]) simp
qed

lemma filter_staged_from:
  assumes "\<And>i w. P \<lparr>sr_id = i, sr_batch = ids 0, sr_row_number = pw_row_number w,
      sr_raw_data = pw_raw_data w, sr_normalized_data = pw_normalized_data w,
      sr_issues = pw_issues w, sr_is_duplicate = pw_is_duplicate w, sr_posted_at = None\<rparr> = Q w"
  shows "length (filter P (staged_from ids rows)) = length (filter Q rows)"
proof -
  have "length (filter P (map (\<lambda>(i, w). \<lparr>sr_id = ids (i + 2), sr_batch = ids 0, sr_row_number = pw_row_number w,
      sr_raw_data = pw_raw_data w, sr_normalized_data = pw_normalized_data w,
      sr_issues = pw_issues w, sr_is_duplicate = pw_is_duplicate w, sr_posted_at = None\<rparr>) (List.enumerate n rows)))
    = length (filter Q rows)" for n
    by (induction rows arbitrary: n) (simp_all add: assms)
  then show ?thesis by (simp only: staged_from_def)
qed

text \<open>
  C15. The counters of a staged batch are the numbers of its rows: all of them, those with an
  issue, the duplicates and the valid ones, which together are all.
\<close>

theorem staged_counts:
  assumes "stage_upload L registry now ids u requested a d = Inr (b, d')"
    and "ids 0 \<notin> sr_batch ` set (staged_rows d)"
  shows "counts_ok d' b \<and> ib_total_rows b = ib_valid_rows b + ib_duplicate_rows b + ib_error_rows b"
proof -
  obtain s kind where s: "prepared_ok s" "b = staged_batch now ids a kind s"
    "staged_rows d' = staged_rows d @ staged_from ids (pp_rows s)"
    using stage_upload_Inr [OF assms(1)] by blast
  have none: "filter (\<lambda>r. sr_batch r = ids 0 \<and> P r) (staged_rows d) = []" for P
    using assms(2) by (force simp: filter_empty_conv)
  note none [of "\<lambda>_. True", simplified]
  then have "counts_ok d' b"
    using s(1) none unfolding counts_ok_def count_rows_def s(2,3) prepared_ok_def staged_batch_def
    by (simp add: filter_staged_from [where Q = "\<lambda>_. True"]
        filter_staged_from [where Q = "\<lambda>w. pw_issues w \<noteq> JList []"]
        filter_staged_from [where Q = "\<lambda>w. pw_issues w = JList [] \<and> pw_is_duplicate w"]
        filter_staged_from [where Q = "\<lambda>w. pw_issues w = JList [] \<and> \<not> pw_is_duplicate w"])
  with counts_total show ?thesis by blast
qed

text \<open>
  A file whose content was staged is refused, whatever its name, kind and actor, with the
  error for a duplicate file, once the actor and the file itself pass their checks.
\<close>

theorem same_file_refused:
  assumes "stage_upload L registry now ids u requested a d = Inr (b, d')"
    and "up_content u2 = up_content u" "require_finance_actor d' a2 msg_import_finance = Inr ()"
    and "validate_upload_signature L u2 = Inr ()"
  shows "stage_upload L registry2 now2 ids2 u2 requested2 a2 d'
     = Inl (DuplicateSourceFileError msg_duplicate_file)"
proof -
  have "ie_sha256 L (up_content u) \<in> sf_sha256 ` set (source_files d')"
    using stage_upload_Inr [OF assms(1)] by blast
  then show ?thesis
    using assms(2-4) by (simp add: stage_upload_def Let_def raise_if_def)
qed

section \<open>Confirming a batch\<close>

text \<open>What the loop does to a row.\<close>

datatype outcome = Posted | AsDuplicate | AsConflict row_issue

fun settle :: "instant \<Rightarrow> outcome \<Rightarrow> staged_row \<Rightarrow> staged_row" where
  "settle now Posted r = r\<lparr>sr_posted_at := Some now\<rparr>"
| "settle now AsDuplicate r = r\<lparr>sr_is_duplicate := True\<rparr>"
| "settle now (AsConflict i) r = r\<lparr>sr_issues := JList [issue_json i]\<rparr>"

definition settle_in :: "instant \<Rightarrow> outcome \<Rightarrow> staged_row \<Rightarrow> staged_row list \<Rightarrow> staged_row list" where
  "settle_in now o1 row = map (\<lambda>r. if sr_id r = sr_id row then settle now o1 r else r)"

lemma settle_keys [simp]: "sr_id (settle now o1 r) = sr_id r" "sr_batch (settle now o1 r) = sr_batch r"
  by (cases o1; simp)+

lemma settle_in_ids: "map sr_id (settle_in now o1 row xs) = map sr_id xs"
  by (simp add: settle_in_def)

lemma insert_money_frame:
  "insert_money m d = Inr d' \<Longrightarrow> d' = d\<lparr>moneys := moneys d @ [m]\<rparr>"
  by (auto simp: insert_money_def bindE_Inr_iff)

lemma insert_invoice_frame:
  "insert_invoice b d = Inr d' \<Longrightarrow> d' = d\<lparr>invoices := invoices d @ [b]\<rparr>"
  by (auto simp: insert_invoice_def bindE_Inr_iff)

text \<open>A row is posted as one new invoice or one new transaction of the batch.\<close>

lemma post_row_cases:
  assumes "post_normalized_row L i batch row d = Inr d'"
  shows "(\<exists>b. insert_invoice b d = Inr d' \<and> inv_id b = i \<and> inv_import_batch b = batch)
    \<or> (\<exists>m. insert_money m d = Inr d' \<and> mt_id m = i \<and> mt_import_batch m = batch)"
proof -
  obtain x where x: "deserialize_normalized (sr_normalized_data row) = Inr x"
    using assms by (auto simp: post_normalized_row_def bindE_Inr_iff)
  show ?thesis
  proof (cases x)
    case (NInv r)
    then obtain b where "insert_invoice b d = Inr d'" "inv_id b = i" "inv_import_batch b = batch"
      using assms x by (auto simp: post_normalized_row_def bindE_Inr_iff split: option.splits)
    then show ?thesis by blast
  next
    case (NTx r)
    then obtain m where "insert_money m d = Inr d'" "mt_id m = i" "mt_import_batch m = batch"
      using assms x by (auto simp: post_normalized_row_def bindE_Inr_iff split: option.splits)
    then show ?thesis by blast
  qed
qed

text \<open>
  The changes of the database by one row: a row is posted as a new invoice or transaction
  with the identifier \<open>i\<close>, or an invoice is corrected; then rows are marked and logged.
\<close>

inductive post_step :: "uuid \<Rightarrow> uuid \<Rightarrow> db \<Rightarrow> db \<Rightarrow> bool" for batch i where
  invoice: "insert_invoice b d = Inr d' \<Longrightarrow> inv_id b = i \<Longrightarrow> inv_import_batch b = batch \<Longrightarrow>
    post_step batch i d d'"
| money: "insert_money m d = Inr d' \<Longrightarrow> mt_id m = i \<Longrightarrow> mt_import_batch m = batch \<Longrightarrow>
    post_step batch i d d'"

inductive mark_step :: "db \<Rightarrow> db \<Rightarrow> bool" where
  status: "b \<in> set (invoices d) \<Longrightarrow> inv_status b = InvoiceStatus_NORMAL \<Longrightarrow>
    st \<in> {InvoiceStatus_RED, InvoiceStatus_VOID} \<Longrightarrow>
    mark_step d
      (d\<lparr>invoices := map (\<lambda>x. if inv_id x = inv_id b then x\<lparr>inv_status := st\<rparr> else x) (invoices d)\<rparr>)"
| audit: "mark_step d (d\<lparr>audits := audits d @ [r]\<rparr>)"
| rows: "mark_step d (d\<lparr>staged_rows := rs\<rparr>)"

lemma disposition_update:
  assumes "formal_disposition_for L d x = Inr (disp, existing)" "disp \<noteq> New" "disp \<noteq> Duplicate"
  shows "\<exists>b. existing = Some b \<and> b \<in> set (invoices d)
     \<and> (disp = StatusUpdate \<longrightarrow> inv_status b = InvoiceStatus_NORMAL
          \<and> status_of x \<in> {InvoiceStatus_RED, InvoiceStatus_VOID})"
proof (cases x)
  case (NInv r)
  then obtain b where b: "find_invoice d r = Some b" "existing = Some b" "disp = invoice_disposition d b r"
    using assms by (auto simp: formal_disposition_for_def split: option.splits)
  have "b \<in> set (invoices d)"
    using b(1) find_row_Some [of "\<lambda>b. (inv_number b, inv_seller_tax_id b)" "invoices d" "(ni_number r, ni_seller_tax_id r)" b]
    by (simp add: find_invoice_def find_row_def)
  then show ?thesis
    using b NInv by (auto simp: invoice_disposition_def status_disposition_def split: if_splits)
next
  case (NTx r)
  then show ?thesis using assms by (auto simp: formal_disposition_for_def bindE_Inr_iff split: if_splits)
qed

lemma settle_row_staged:
  assumes "settle_row now a batch row x disp existing c = Inr c'" "disp \<noteq> New"
    and "formal_disposition_for L (cf_db c) x = Inr (disp, existing)"
  shows "\<exists>o1. staged_rows (cf_db c') = settle_in now o1 row (staged_rows (cf_db c))
     \<and> cf_duplicates c' = cf_duplicates c + (if o1 = AsDuplicate then 1 else 0)
     \<and> cf_errors c' = cf_errors c + (case o1 of AsConflict i \<Rightarrow> 1 | _ \<Rightarrow> 0)
     \<and> mark_step\<^sup>*\<^sup>* (cf_db c) (cf_db c') \<and> cf_next c' = cf_next c"
proof -
  have rows: "mark_step\<^sup>*\<^sup>* d (update_staged j f d)" for j f d
    unfolding update_staged_def by (rule r_into_rtranclp, rule mark_step.rows)
  show ?thesis
  proof (cases disp)
    case Duplicate
    then show ?thesis
      using assms(1) rows
      by (intro exI [of _ AsDuplicate])
        (auto simp: settle_row_def mark_duplicate_def update_staged_def settle_in_def)
  next
    case Conflict
    then show ?thesis
      using assms(1) rows
      by (intro exI [of _ "AsConflict (invoice_conflict_issue (inv_status (the existing)) (status_of x))"])
        (auto simp: settle_row_def mark_invoice_conflict_def update_staged_def settle_in_def)
  next
    case StatusUpdate
    then obtain b d where b: "existing = Some b" "b \<in> set (invoices (cf_db c))"
        "inv_status b = InvoiceStatus_NORMAL" "status_of x \<in> {InvoiceStatus_RED, InvoiceStatus_VOID}"
      and d: "update_invoice_status now a b (status_of x) batch row (cf_db c) = Inr d"
        "c' = c\<lparr>cf_db := mark_posted now row d\<rparr>"
      using assms disposition_update [OF assms(3)] by (auto simp: settle_row_def bindE_Inr_iff)
    define d1 where "d1 = cf_db c\<lparr>invoices := map (\<lambda>x'. if inv_id x' = inv_id b
        then x'\<lparr>inv_status := status_of x\<rparr> else x') (invoices (cf_db c))\<rparr>"
    obtain r where r: "d = d1\<lparr>audits := audits d1 @ [r]\<rparr>"
      using record_audit_Inr d(1) unfolding update_invoice_status_def d1_def by blast
    have "mark_step (cf_db c) d1"
      unfolding d1_def by (rule status [OF b(2-4)])
    moreover have "mark_step d1 d" unfolding r by (rule audit)
    moreover have "mark_step d (mark_posted now row d)"
      unfolding mark_posted_def update_staged_def by (rule mark_step.rows)
    ultimately have "mark_step\<^sup>*\<^sup>* (cf_db c) (mark_posted now row d)"
      by (simp add: converse_rtranclp_into_rtranclp)
    then show ?thesis
      using d(2) by (intro exI [of _ Posted])
        (auto simp: mark_posted_def update_staged_def settle_in_def r d1_def)
  qed (use assms(2) in simp)
qed

lemma confirm_row_settles:
  assumes "deserialize_normalized (sr_normalized_data row) = Inr x"
    and "formal_disposition_for L (cf_db c) x = Inr (disp, existing)" "sound row" "disp \<noteq> New"
  shows "confirm_row L now ids a batch row c = settle_row now a batch row x disp existing c"
  using assms(4)
  by (simp only: confirm_row_def assms(1-3) bindE_simps prod.case simp_thms if_True if_False)

lemma confirm_row_posts:
  assumes "deserialize_normalized (sr_normalized_data row) = Inr x"
    and "formal_disposition_for L (cf_db c) x = Inr (New, existing)" "sound row"
  shows "confirm_row L now ids a batch row c =
     (case post_normalized_row L (ids (cf_next c)) batch row (cf_db c) of
        Inr d \<Rightarrow> Inr (c\<lparr>cf_db := mark_posted now row d, cf_next := cf_next c + 1\<rparr>) | Inl e \<Rightarrow> Inl e)"
proof (cases "post_normalized_row L (ids (cf_next c)) batch row (cf_db c)")
  case (Inl e)
  then show ?thesis
    by (cases e) (simp_all only: confirm_row_def assms bindE_simps prod.case simp_thms if_True if_False
      sum.case exn.case)
qed (simp only: confirm_row_def assms bindE_simps prod.case simp_thms if_True if_False sum.case)

text \<open>A row of the loop: one with an issue is skipped, every other one is settled.\<close>

lemma confirm_row_staged:
  assumes "confirm_row L now ids a batch row c = Inr c'"
  shows "(if \<not> sound row then c' = c
     else \<exists>o1. staged_rows (cf_db c') = settle_in now o1 row (staged_rows (cf_db c))
       \<and> cf_duplicates c' = cf_duplicates c + (if o1 = AsDuplicate then 1 else 0)
       \<and> cf_errors c' = cf_errors c + (case o1 of AsConflict i \<Rightarrow> 1 | _ \<Rightarrow> 0))
     \<and> (\<exists>d. (d = cf_db c \<and> cf_next c' = cf_next c
            \<or> post_step batch (ids (cf_next c)) (cf_db c) d \<and> cf_next c' = cf_next c + 1)
          \<and> mark_step\<^sup>*\<^sup>* d (cf_db c'))"
proof (cases "sound row")
  case True
  then obtain x disp existing where x: "deserialize_normalized (sr_normalized_data row) = Inr x"
    and f: "formal_disposition_for L (cf_db c) x = Inr (disp, existing)"
    using assms by (auto simp: confirm_row_def bindE_Inr_iff)
  show ?thesis
  proof (cases "disp = New")
    case False
    have "settle_row now a batch row x disp existing c = Inr c'"
      using assms unfolding confirm_row_settles [OF x f True False] .
    from settle_row_staged [OF this False f]
    show ?thesis unfolding True by (simp only: simp_thms if_False if_True) blast
  next
    case new: True
    obtain d where d: "post_normalized_row L (ids (cf_next c)) batch row (cf_db c) = Inr d"
      and c': "c' = c\<lparr>cf_db := mark_posted now row d, cf_next := cf_next c + 1\<rparr>"
      using assms unfolding confirm_row_posts [OF x f [unfolded new] True]
      by (auto split: sum.splits)
    have "post_step batch (ids (cf_next c)) (cf_db c) d"
      using post_row_cases [OF d] by (auto intro: post_step.intros)
    moreover have "mark_step\<^sup>*\<^sup>* d (cf_db c')"
      using r_into_rtranclp [of mark_step, OF mark_step.rows]
      by (simp add: c' mark_posted_def update_staged_def)
    moreover have "staged_rows d = staged_rows (cf_db c)"
      using post_row_cases [OF d] by (auto dest!: insert_invoice_frame insert_money_frame)
    moreover have "cf_next c' = cf_next c + 1" by (simp add: c')
    ultimately show ?thesis
      using True c'
      by (auto simp: mark_posted_def update_staged_def settle_in_def intro!: exI [of _ Posted])
  qed
qed (use assms in \<open>simp add: confirm_row_def\<close>)

section \<open>Counting through the loop\<close>

abbreviation count_list :: "(staged_row \<Rightarrow> bool) \<Rightarrow> staged_row list \<Rightarrow> int" where
  "count_list P xs \<equiv> int (length (filter P xs))"

lemma count_settle:
  assumes "distinct (map sr_id xs)" "row \<in> set xs"
  shows "count_list P (settle_in now o1 row xs)
     = count_list P xs - of_bool (P row) + of_bool (P (settle now o1 row))"
  using assms
proof (induction xs)
  case (Cons r xs)
  show ?case
  proof (cases "r = row")
    case True
    then have "settle_in now o1 row xs = xs"
      using Cons.prems(1) unfolding settle_in_def by (intro map_idI) (auto simp: rev_image_eqI)
    then show ?thesis using True by (simp add: settle_in_def)
  next
    case False
    then have "row \<in> set xs" "sr_id r \<noteq> sr_id row" using Cons.prems by auto
    then show ?thesis using Cons by (auto simp: settle_in_def)
  qed
qed simp

text \<open>
  What the loop keeps: the rows still to come are as they were, every other valid row of the
  batch is posted, and no row with an issue or a duplicate is.
\<close>

definition loop_ok :: "uuid \<Rightarrow> staged_row list \<Rightarrow> staged_row list \<Rightarrow> bool" where
  "loop_ok batch todo xs \<longleftrightarrow> distinct (map sr_id xs) \<and> distinct todo \<and> set todo \<subseteq> set xs
     \<and> (\<forall>r\<in>set todo. sr_batch r = batch \<and> \<not> sr_is_duplicate r \<and> sr_posted_at r = None)
     \<and> (\<forall>r\<in>set xs. sr_batch r = batch \<longrightarrow>
          (sr_posted_at r \<noteq> None) = (sound r \<and> \<not> sr_is_duplicate r \<and> r \<notin> set todo))"

lemma loop_ok_skip: "loop_ok batch (row # rs) xs \<Longrightarrow> \<not> sound row \<Longrightarrow> loop_ok batch rs xs"
  by (auto simp: loop_ok_def)

lemma settle_in_set:
  assumes "distinct (map sr_id xs)" "row \<in> set xs"
  shows "set (settle_in now o1 row xs) = insert (settle now o1 row) (set xs - {row})"
proof -
  have "r \<in> set xs \<Longrightarrow> sr_id r = sr_id row \<longleftrightarrow> r = row" for r
    using assms by (auto simp: distinct_map inj_on_def)
  then show ?thesis using assms(2) by (auto simp: settle_in_def)
qed

lemma loop_ok_settle:
  assumes "loop_ok batch (row # rs) xs" "sound row"
  shows "loop_ok batch rs (settle_in now o1 row xs)"
proof -
  have a: "distinct (map sr_id xs)" "row \<in> set xs" using assms(1) by (auto simp: loop_ok_def)
  have new: "settle now o1 row \<notin> set rs"
  proof
    assume "settle now o1 row \<in> set rs"
    then have "settle now o1 row \<in> set xs" "settle now o1 row \<noteq> row"
      using assms(1) by (auto simp: loop_ok_def)
    then show False using a by (metis (no_types) distinct_map inj_onD settle_keys(1))
  qed
  show ?thesis
    unfolding loop_ok_def settle_in_ids settle_in_set [OF a]
    using assms new by (cases o1) (auto simp: loop_ok_def)
qed

lemma confirm_rows_counts:
  assumes "confirm_rows L now ids a batch todo c = Inr c'" "loop_ok batch todo (staged_rows (cf_db c))"
  shows "loop_ok batch [] (staged_rows (cf_db c'))
     \<and> count_rows (\<lambda>r. True) batch (cf_db c') = count_rows (\<lambda>r. True) batch (cf_db c)
     \<and> count_rows (\<lambda>r. \<not> sound r) batch (cf_db c') - cf_errors c'
         = count_rows (\<lambda>r. \<not> sound r) batch (cf_db c) - cf_errors c
     \<and> count_rows (\<lambda>r. sound r \<and> sr_is_duplicate r) batch (cf_db c') - cf_duplicates c'
         = count_rows (\<lambda>r. sound r \<and> sr_is_duplicate r) batch (cf_db c) - cf_duplicates c
     \<and> count_rows (\<lambda>r. sound r \<and> \<not> sr_is_duplicate r) batch (cf_db c') + cf_duplicates c' + cf_errors c'
         = count_rows (\<lambda>r. sound r \<and> \<not> sr_is_duplicate r) batch (cf_db c) + cf_duplicates c + cf_errors c"
  using assms
proof (induction todo arbitrary: c)
  case (Cons row todo)
  then obtain c1 where c1: "confirm_row L now ids a batch row c = Inr c1"
    and rest: "confirm_rows L now ids a batch todo c1 = Inr c'"
    by (auto simp: bindE_Inr_iff)
  note step = confirm_row_staged [OF c1]
  show ?case
  proof (cases "sound row")
    case False
    then have "c1 = c" using step by simp
    then show ?thesis using Cons.IH [OF rest] loop_ok_skip [OF Cons.prems(2) False] by simp
  next
    case True
    then obtain o1 where o1: "staged_rows (cf_db c1) = settle_in now o1 row (staged_rows (cf_db c))"
      "cf_duplicates c1 = cf_duplicates c + (if o1 = AsDuplicate then 1 else 0)"
      "cf_errors c1 = cf_errors c + (case o1 of AsConflict i \<Rightarrow> 1 | _ \<Rightarrow> 0)"
      using step by auto
    have row: "distinct (map sr_id (staged_rows (cf_db c)))" "row \<in> set (staged_rows (cf_db c))"
      "sr_batch row = batch" "\<not> sr_is_duplicate row"
      using Cons.prems(2) by (auto simp: loop_ok_def)
    have "loop_ok batch todo (staged_rows (cf_db c1))"
      unfolding o1(1) by (rule loop_ok_settle [OF Cons.prems(2) True])
    from Cons.IH [OF rest this] show ?thesis
      unfolding count_rows_def o1 count_settle [OF row(1,2)]
      using True row(3,4) by (cases o1) simp_all
  qed
qed simp

end
