(* ===== verification/Confirm_Properties.thy ===== *)
theory Confirm_Properties
  imports Import_Properties
begin

text \<open>
  What the confirmation of a batch guarantees: its counters, that it happens once, and what it
  may do to the ledger, as a refinement of an abstract ledger.
\<close>

section \<open>Runs\<close>

lemma create_snapshots_frame:
  "create_snapshots ids n batch cs d = Inr d' \<Longrightarrow> \<exists>s. d' = d\<lparr>snapshots := s\<rparr>"
proof (induction ids n batch cs d rule: create_snapshots.induct)
  case (1 ids n batch d)
  then show ?case by (intro exI [of _ "snapshots d"]) simp
next
  case (2 ids n batch account t row balance cs d)
  then obtain d1 where d1: "create_balance_snapshot (ids n) batch account t balance d = Inr d1"
    "create_snapshots ids (n + 1) batch cs d1 = Inr d'"
    by (auto simp: bindE_Inr_iff)
  have "d1 = d \<or> (\<exists>s. d1 = d\<lparr>snapshots := s\<rparr>)"
    using d1(1) by (auto simp: create_balance_snapshot_def bindE_Inr_iff split: option.splits if_splits)
  moreover obtain s where "d' = d1\<lparr>snapshots := s\<rparr>" using 2 d1 by blast
  ultimately show ?case by auto
qed

lemma balance_snapshots_frame:
  assumes "create_balance_snapshots ids n b d = Inr d'"
  shows "\<exists>s. d' = d\<lparr>snapshots := s\<rparr>"
proof (cases "ib_source_kind b = SourceKind_BANK")
  case True
  then show ?thesis
    using assms by (auto simp: create_balance_snapshots_def bindE_Inr_iff dest: create_snapshots_frame)
next
  case False
  then show ?thesis
    using assms by (intro exI [of _ "snapshots d"]) (simp add: create_balance_snapshots_def)
qed

lemma confirm_batch_Inr:
  assumes "confirm_batch L now ids i a d = Inr (res, d')" "find_row ib_id (import_batches d) i = Some b"
    and "ib_confirmed_at b = None"
  shows "\<exists>c s r. confirm_rows L now ids a i (pending_rows i d) (start_confirmation d) = Inr c
     \<and> d' = cf_db c\<lparr>snapshots := s, import_batches := map (\<lambda>x. if ib_id x = i
            then confirmed_batch now b c else x) (import_batches (cf_db c)), audits := audits (cf_db c) @ [r]\<rparr>
     \<and> res = result_from_batch d' (confirmed_batch now b c)"
proof -
  obtain c d1 d2 where c: "confirm_rows L now ids a i (pending_rows i d) (start_confirmation d) = Inr c"
    and d1: "create_balance_snapshots ids (cf_next c) b (cf_db c) = Inr d1"
    and d2: "d2 = d1\<lparr>import_batches := map (\<lambda>x. if ib_id x = i then confirmed_batch now b c else x)
        (import_batches d1)\<rparr>"
    and d': "record_audit now a (lit ''import.confirmed'') (saved_target (lit ''ImportBatch'') i)
        (result_as_dict (result_from_batch d2 (confirmed_batch now b c))) d2 = Inr d'"
    and res: "res = result_from_batch d2 (confirmed_batch now b c)"
    using assms by (auto simp: confirm_batch_def Let_def bindE_Inr_iff)
  obtain s r where "d1 = cf_db c\<lparr>snapshots := s\<rparr>" "d' = d2\<lparr>audits := audits d2 @ [r]\<rparr>"
    using balance_snapshots_frame [OF d1] record_audit_Inr [OF d'] by blast
  then show ?thesis
    using c res d2 by (intro exI [of _ c] exI [of _ s] exI [of _ r]) (simp add: result_from_batch_def)
qed

lemma pending_loop_ok:
  assumes "distinct (map sr_id (staged_rows d))"
    and "\<forall>r\<in>set (staged_rows d). sr_batch r = i \<longrightarrow> sr_posted_at r = None"
  shows "loop_ok i (pending_rows i d) (staged_rows d)"
proof -
  have "distinct (staged_rows d)" using assms(1) by (simp add: distinct_map)
  then show ?thesis
    using assms by (auto simp: loop_ok_def pending_rows_def batch_rows_def)
qed

section \<open>The counters\<close>


section \<open>Confirming again\<close>

lemma post_step_frame: "post_step batch i d d' \<Longrightarrow> users d' = users d \<and> import_batches d' = import_batches d"
  by (erule post_step.cases) (auto dest!: insert_invoice_frame insert_money_frame)

lemma mark_steps_frame:
  "mark_step\<^sup>*\<^sup>* d d' \<Longrightarrow> users d' = users d \<and> import_batches d' = import_batches d"
  by (induction rule: rtranclp_induct) (auto elim!: mark_step.cases)

lemma confirm_row_steps:
  assumes "confirm_row L now ids a batch row c = Inr c'"
  obtains d where "d = cf_db c \<and> cf_next c' = cf_next c
      \<or> post_step batch (ids (cf_next c)) (cf_db c) d \<and> cf_next c' = cf_next c + 1"
    and "mark_step\<^sup>*\<^sup>* d (cf_db c')"
  using confirm_row_staged [OF assms] by blast

lemma confirm_rows_frame:
  "confirm_rows L now ids a batch todo c = Inr c' \<Longrightarrow>
     users (cf_db c') = users (cf_db c) \<and> import_batches (cf_db c') = import_batches (cf_db c)"
proof (induction todo arbitrary: c)
  case (Cons row todo)
  then obtain c1 where "confirm_row L now ids a batch row c = Inr c1"
    "confirm_rows L now ids a batch todo c1 = Inr c'"
    by (auto simp: bindE_Inr_iff)
  with Cons.IH show ?case by (metis confirm_row_steps post_step_frame mark_steps_frame)
qed simp

text \<open>
  Confirming a batch again returns the same result and changes nothing, however the
  clock, the identifiers and the settings have changed.
\<close>

theorem confirm_again:
  assumes "confirm_batch L now ids i a d = Inr (res, d')" "distinct (map ib_id (import_batches d))"
  shows "confirm_batch L2 now2 ids2 i a d' = Inr (res, d')"
proof -
  obtain b where b: "find_row ib_id (import_batches d) i = Some b"
    using assms(1) by (auto simp: confirm_batch_def bindE_Inr_iff split: option.splits)
  have fin: "require_finance_actor d a msg_import_finance = Inr ()"
    using assms(1) by (auto simp: confirm_batch_def bindE_Inr_iff)
  show ?thesis
  proof (cases "ib_confirmed_at b = None")
    case False
    then show ?thesis using assms(1) b fin by (auto simp: confirm_batch_def)
  next
    case True
    obtain c s r where c: "confirm_rows L now ids a i (pending_rows i d) (start_confirmation d) = Inr c"
      and d': "d' = cf_db c\<lparr>snapshots := s, import_batches := map (\<lambda>x. if ib_id x = i
            then confirmed_batch now b c else x) (import_batches (cf_db c)), audits := audits (cf_db c) @ [r]\<rparr>"
      and res: "res = result_from_batch d' (confirmed_batch now b c)"
      using confirm_batch_Inr [OF assms(1) b True] by blast
    have frame: "users (cf_db c) = users d" "import_batches (cf_db c) = import_batches d"
      using confirm_rows_frame [OF c] by (simp_all add: start_confirmation_def)
    have i: "ib_id b = i" "b \<in> set (import_batches d)" using find_row_Some [OF b] by simp_all
    have "find_row ib_id (import_batches d') i = Some (confirmed_batch now b c)"
    proof -
      have "map ib_id (import_batches d') = map ib_id (import_batches d)"
        using i(1) by (simp add: d' frame confirmed_batch_def)
      moreover have "confirmed_batch now b c \<in> set (import_batches d')"
        using i by (force simp: d' frame)
      moreover have "ib_id (confirmed_batch now b c) = i" using i(1) by (simp add: confirmed_batch_def)
      ultimately show ?thesis using assms(2) find_row_unique by metis
    qed
    moreover have "require_finance_actor d' a msg_import_finance = Inr ()"
      using fin require_finance_actor_cong [of d' d a msg_import_finance] by (simp add: d' frame)
    ultimately show ?thesis
      by (simp add: confirm_batch_def res confirmed_batch_def)
  qed
qed

section \<open>The abstract ledger\<close>

text \<open>
  The abstract ledger has one bill for every invoice number and seller and one payment for
  every fingerprint. An import may add a bill or a payment under a new key, with a positive
  amount, or turn a normal bill into a red or void one, and nothing else.
\<close>

record ledger =
  lg_bills :: "pystr \<times> pystr \<Rightarrow> invoice option"
  lg_payments :: "pystr \<Rightarrow> money_transaction option"

abbreviation bill_key :: "invoice \<Rightarrow> pystr \<times> pystr" where
  "bill_key b \<equiv> (inv_number b, inv_seller_tax_id b)"

definition ledger_of :: "db \<Rightarrow> ledger" where
  "ledger_of d = \<lparr>lg_bills = map_of (map (\<lambda>b. (bill_key b, b)) (invoices d)),
     lg_payments = map_of (map (\<lambda>m. (mt_fingerprint m, m)) (moneys d))\<rparr>"

inductive import_step :: "uuid \<Rightarrow> ledger \<Rightarrow> ledger \<Rightarrow> bool" for batch where
  new_bill: "lg_bills l (bill_key b) = None \<Longrightarrow> 0 < inv_total_amount b \<Longrightarrow> inv_import_batch b = batch \<Longrightarrow>
    import_step batch l (l\<lparr>lg_bills := (lg_bills l)(bill_key b \<mapsto> b)\<rparr>)"
| new_payment: "lg_payments l (mt_fingerprint m) = None \<Longrightarrow> 0 < mt_amount m \<Longrightarrow> mt_import_batch m = batch \<Longrightarrow>
    import_step batch l (l\<lparr>lg_payments := (lg_payments l)(mt_fingerprint m \<mapsto> m)\<rparr>)"
| corrected: "lg_bills l k = Some b \<Longrightarrow> inv_status b = InvoiceStatus_NORMAL \<Longrightarrow>
    st \<in> {InvoiceStatus_RED, InvoiceStatus_VOID} \<Longrightarrow>
    import_step batch l (l\<lparr>lg_bills := (lg_bills l)(k \<mapsto> b\<lparr>inv_status := st\<rparr>)\<rparr>)"

text \<open>The constraints of the tables: primary keys, invoice keys and fingerprints are unique.\<close>

definition books_ok :: "db \<Rightarrow> bool" where
  "books_ok d \<longleftrightarrow> distinct (map inv_id (invoices d)) \<and> distinct (map bill_key (invoices d))
     \<and> distinct (map mt_fingerprint (moneys d))"

lemma map_add_fresh: "k \<notin> fst ` set xs \<Longrightarrow> [k \<mapsto> v] ++ map_of xs = (map_of xs)(k \<mapsto> v)"
proof -
  assume "k \<notin> fst ` set xs"
  then have "map_of xs k = None" by (simp add: map_of_eq_None_iff)
  then show ?thesis by (auto simp: map_add_def fun_eq_iff split: option.splits)
qed

lemma insert_invoice_Inr:
  assumes "insert_invoice b d = Inr d'"
  shows "d' = d\<lparr>invoices := invoices d @ [b]\<rparr>" "0 < inv_total_amount b"
    "bill_key b \<notin> bill_key ` set (invoices d)"
  using assms by (simp_all add: insert_invoice_def bindE_Inr_iff raise_if_Inr_iff)

lemma insert_money_Inr:
  assumes "insert_money m d = Inr d'"
  shows "d' = d\<lparr>moneys := moneys d @ [m]\<rparr>" "0 < mt_amount m"
    "mt_fingerprint m \<notin> mt_fingerprint ` set (moneys d)"
  using assms by (simp_all add: insert_money_def bindE_Inr_iff raise_if_Inr_iff)

lemma post_step_refines:
  assumes "post_step batch i d d'" "books_ok d" "i \<notin> inv_id ` set (invoices d)"
  shows "import_step batch (ledger_of d) (ledger_of d') \<and> books_ok d'
     \<and> inv_id ` set (invoices d') \<subseteq> insert i (inv_id ` set (invoices d))"
  using assms(1)
proof cases
  case (invoice b)
  have d': "d' = d\<lparr>invoices := invoices d @ [b]\<rparr>" "0 < inv_total_amount b"
    "bill_key b \<notin> bill_key ` set (invoices d)"
    using insert_invoice_Inr [OF invoice(1)] by blast+
  have "lg_bills (ledger_of d) (bill_key b) = None"
    using d'(3) by (auto simp: ledger_of_def map_of_eq_None_iff image_image)
  moreover have "ledger_of d' = (ledger_of d)\<lparr>lg_bills := (lg_bills (ledger_of d))(bill_key b \<mapsto> b)\<rparr>"
    using d'(3) by (simp add: ledger_of_def d'(1) map_add_fresh image_image)
  ultimately have "import_step batch (ledger_of d) (ledger_of d')"
    using new_bill [of "ledger_of d" b batch] d'(2) invoice(3) by simp
  moreover have "books_ok d'"
    using assms(2,3) d'(3) invoice(2) by (auto simp: books_ok_def d'(1))
  ultimately show ?thesis using invoice(2) by (auto simp: d'(1))
next
  case (money m)
  have d': "d' = d\<lparr>moneys := moneys d @ [m]\<rparr>" "0 < mt_amount m"
    "mt_fingerprint m \<notin> mt_fingerprint ` set (moneys d)"
    using insert_money_Inr [OF money(1)] by blast+
  have "lg_payments (ledger_of d) (mt_fingerprint m) = None"
    using d'(3) by (auto simp: ledger_of_def map_of_eq_None_iff image_image)
  moreover have "ledger_of d' = (ledger_of d)\<lparr>lg_payments := (lg_payments (ledger_of d))(mt_fingerprint m \<mapsto> m)\<rparr>"
    using d'(3) by (simp add: ledger_of_def d'(1) map_add_fresh image_image)
  ultimately have "import_step batch (ledger_of d) (ledger_of d')"
    using new_payment [of "ledger_of d" m batch] d'(2) money(3) by simp
  moreover have "books_ok d'"
    using assms(2) d'(3) by (auto simp: books_ok_def d'(1))
  ultimately show ?thesis by (auto simp: d'(1))
qed

lemma map_of_update:
  assumes "distinct (map fst xs)" "(k, v) \<in> set xs"
  shows "map_of (map (\<lambda>(j, x). if j = k then (j, w) else (j, x)) xs) = (map_of xs)(k \<mapsto> w)"
  using assms
proof (induction xs)
  case (Cons p xs)
  show ?case
  proof (cases "fst p = k")
    case True
    then have "map (\<lambda>(j, x). if j = k then (j, w) else (j, x)) xs = xs"
      using Cons.prems(1) by (intro map_idI) (auto simp: rev_image_eqI)
    then show ?thesis using True by (cases p) (simp add: fun_eq_iff)
  next
    case False
    then show ?thesis using Cons by (cases p) (auto simp: fun_eq_iff)
  qed
qed simp

lemma status_refines:
  assumes "books_ok d" "b \<in> set (invoices d)" "inv_status b = InvoiceStatus_NORMAL"
    and "st \<in> {InvoiceStatus_RED, InvoiceStatus_VOID}"
    and d': "d' = d\<lparr>invoices := map (\<lambda>x. if inv_id x = inv_id b then x\<lparr>inv_status := st\<rparr> else x) (invoices d)\<rparr>"
  shows "import_step batch (ledger_of d) (ledger_of d')"
proof -
  have keys: "distinct (map fst (map (\<lambda>b. (bill_key b, b)) (invoices d)))"
    using assms(1) by (simp add: books_ok_def comp_def)
  have same: "x \<in> set (invoices d) \<Longrightarrow> inv_id x = inv_id b \<longleftrightarrow> x = b"
    "x \<in> set (invoices d) \<Longrightarrow> bill_key x = bill_key b \<longleftrightarrow> x = b" for x
    using assms(1,2) by (auto simp: books_ok_def distinct_map inj_on_def)
  have "map (\<lambda>b. (bill_key b, b)) (invoices d')
      = map (\<lambda>(j, x). if j = bill_key b then (j, b\<lparr>inv_status := st\<rparr>) else (j, x))
          (map (\<lambda>b. (bill_key b, b)) (invoices d))"
    using same by (auto simp: d' simp del: prod.inject)
  then have "lg_bills (ledger_of d') = (lg_bills (ledger_of d))(bill_key b \<mapsto> b\<lparr>inv_status := st\<rparr>)"
    using map_of_update [OF keys, of "bill_key b" b] assms(2) by (simp add: ledger_of_def)
  then have "ledger_of d' = (ledger_of d)\<lparr>lg_bills := (lg_bills (ledger_of d))(bill_key b \<mapsto> b\<lparr>inv_status := st\<rparr>)\<rparr>"
    by (simp add: ledger_of_def d')
  moreover have "lg_bills (ledger_of d) (bill_key b) = Some b"
    using keys assms(2) by (simp add: ledger_of_def)
  ultimately show ?thesis using corrected [of "ledger_of d" "bill_key b" b st batch] assms(3,4) by simp
qed

lemma mark_steps_refine:
  assumes "mark_step\<^sup>*\<^sup>* d d'" "books_ok d"
  shows "(import_step batch)\<^sup>*\<^sup>* (ledger_of d) (ledger_of d') \<and> books_ok d'
     \<and> inv_id ` set (invoices d') = inv_id ` set (invoices d)"
  using assms(1)
proof induction
  case (step d1 d2)
  have ids: "map inv_id (map (\<lambda>x. if inv_id x = j then x\<lparr>inv_status := st\<rparr> else x) xs) = map inv_id xs"
    "map bill_key (map (\<lambda>x. if inv_id x = j then x\<lparr>inv_status := st\<rparr> else x) xs) = map bill_key xs"
    for j st and xs :: "invoice list"
    by simp_all
  from step(2) show ?case
  proof cases
    case (status b st)
    have "import_step batch (ledger_of d1) (ledger_of d2)"
      using status_refines [OF _ status(2-4,1)] step.IH by blast
    moreover have "books_ok d2"
      using step.IH unfolding books_ok_def status(1) by (simp add: comp_def if_distrib cong: if_cong)
    moreover have "map inv_id (invoices d2) = map inv_id (invoices d1)"
      by (simp add: status(1))
    then have "inv_id ` set (invoices d2) = inv_id ` set (invoices d1)" by (metis set_map)
    ultimately show ?thesis using step.IH by (auto intro: rtranclp.rtrancl_into_rtrancl)
  qed (use step.IH in \<open>auto simp: ledger_of_def books_ok_def\<close>)
qed (simp add: assms(2))

lemma confirm_rows_refine:
  assumes "confirm_rows L now ids a batch todo c = Inr c'" "books_ok (cf_db c)"
    and "inj_on ids {cf_next c ..< cf_next c + length todo}"
    and "\<forall>n\<in>{cf_next c ..< cf_next c + length todo}. ids n \<notin> inv_id ` set (invoices (cf_db c))"
  shows "(import_step batch)\<^sup>*\<^sup>* (ledger_of (cf_db c)) (ledger_of (cf_db c')) \<and> books_ok (cf_db c')"
  using assms
proof (induction todo arbitrary: c)
  case (Cons row todo)
  obtain c1 where c1: "confirm_row L now ids a batch row c = Inr c1"
    "confirm_rows L now ids a batch todo c1 = Inr c'"
    using Cons.prems(1) by (auto simp: bindE_Inr_iff)
  obtain d where d: "d = cf_db c \<and> cf_next c1 = cf_next c
      \<or> post_step batch (ids (cf_next c)) (cf_db c) d \<and> cf_next c1 = cf_next c + 1"
    and m: "mark_step\<^sup>*\<^sup>* d (cf_db c1)"
    using confirm_row_steps [OF c1(1)] .
  have used: "inj_on ids {cf_next c1 ..< cf_next c1 + length todo}"
    using d by (intro inj_on_subset [OF Cons.prems(3)]) auto
  have post: "(import_step batch)\<^sup>*\<^sup>* (ledger_of (cf_db c)) (ledger_of d) \<and> books_ok d
     \<and> (\<forall>n\<in>{cf_next c1 ..< cf_next c1 + length todo}. ids n \<notin> inv_id ` set (invoices d))"
  proof (cases "d = cf_db c \<and> cf_next c1 = cf_next c")
    case True
    then show ?thesis using Cons.prems(2,4) by simp
  next
    case False
    then have p: "post_step batch (ids (cf_next c)) (cf_db c) d" "cf_next c1 = cf_next c + 1" using d by auto
    have "ids n \<notin> insert (ids (cf_next c)) (inv_id ` set (invoices (cf_db c)))"
      if "n \<in> {cf_next c1 ..< cf_next c1 + length todo}" for n
      using that p(2) Cons.prems(3,4) by (auto dest: inj_onD)
    moreover have "ids (cf_next c) \<notin> inv_id ` set (invoices (cf_db c))" using Cons.prems(4) by simp
    ultimately show ?thesis
      using post_step_refines [OF p(1) Cons.prems(2)] by blast
  qed
  have mark: "(import_step batch)\<^sup>*\<^sup>* (ledger_of d) (ledger_of (cf_db c1))" "books_ok (cf_db c1)"
    "inv_id ` set (invoices (cf_db c1)) = inv_id ` set (invoices d)"
    using mark_steps_refine [OF m] post by blast+
  have "(import_step batch)\<^sup>*\<^sup>* (ledger_of (cf_db c1)) (ledger_of (cf_db c')) \<and> books_ok (cf_db c')"
    using Cons.IH [OF c1(2) mark(2) used] post mark(3) by simp
  with post mark(1) show ?case by (meson rtranclp_trans)
qed simp

text \<open>
  C13. A confirmation refines the abstract ledger: what it does to invoices and transactions
  is a sequence of new bills and payments of the batch and of corrections, and the unique
  keys of the tables stay unique.
\<close>

theorem confirm_refines_ledger:
  assumes "confirm_batch L now ids i a d = Inr (res, d')" "books_ok d"
    and "inj_on ids {..<length (staged_rows d)}"
    and "\<forall>n<length (staged_rows d). ids n \<notin> inv_id ` set (invoices d)"
  shows "(import_step i)\<^sup>*\<^sup>* (ledger_of d) (ledger_of d') \<and> books_ok d'"
proof -
  obtain b where b: "find_row ib_id (import_batches d) i = Some b"
    using assms(1) by (auto simp: confirm_batch_def bindE_Inr_iff split: option.splits)
  show ?thesis
  proof (cases "ib_confirmed_at b = None")
    case False
    then show ?thesis using assms(1,2) b by (auto simp: confirm_batch_def bindE_Inr_iff)
  next
    case True
    obtain c s r where c: "confirm_rows L now ids a i (pending_rows i d) (start_confirmation d) = Inr c"
      and d': "invoices d' = invoices (cf_db c)" "moneys d' = moneys (cf_db c)"
      using confirm_batch_Inr [OF assms(1) b True] by fastforce
    have "length (pending_rows i d) \<le> length (staged_rows d)"
      unfolding pending_rows_def by (rule order_trans [OF length_filter_le]) (simp add: batch_rows_def)
    then have "{0..<length (pending_rows i d)} \<subseteq> {..<length (staged_rows d)}" by auto
    then have "inj_on ids {0..<length (pending_rows i d)}"
      "\<forall>n\<in>{0..<length (pending_rows i d)}. ids n \<notin> inv_id ` set (invoices d)"
      using inj_on_subset [OF assms(3)] assms(4) by blast+
    moreover have "cf_db (start_confirmation d) = d" "cf_next (start_confirmation d) = 0"
      by (simp_all add: start_confirmation_def)
    ultimately have "(import_step i)\<^sup>*\<^sup>* (ledger_of d) (ledger_of (cf_db c)) \<and> books_ok (cf_db c)"
      using confirm_rows_refine [OF c] assms(2) by (simp only: add_0)
    then show ?thesis by (simp only: ledger_of_def books_ok_def d')
  qed
qed

text \<open>
  So a confirmation never removes a bill or a payment and never changes one, except that
  a normal bill may become red or void.
\<close>

lemma import_steps_keep:
  assumes "(import_step i)\<^sup>*\<^sup>* l l'"
  shows "(lg_payments l f = Some m \<longrightarrow> lg_payments l' f = Some m)
     \<and> (lg_bills l k = Some b \<longrightarrow> (\<exists>st. lg_bills l' k = Some (b\<lparr>inv_status := st\<rparr>)
          \<and> (st = inv_status b \<or> inv_status b = InvoiceStatus_NORMAL
               \<and> st \<in> {InvoiceStatus_RED, InvoiceStatus_VOID})))"
  using assms
proof induction
  case base
  have "b = b\<lparr>inv_status := inv_status b\<rparr>" by simp
  then show ?case by metis
next
  case (step l1 l2)
  have ne: "InvoiceStatus_NORMAL \<notin> {InvoiceStatus_RED, InvoiceStatus_VOID}" by simp
  from step(2) show ?case
    by cases (use step.IH ne in \<open>auto split: if_splits\<close>)
qed

end
