(* ===== verification/Import_Samples.thy ===== *)
theory Import_Samples
  imports Confirm_Properties Samples
begin

text \<open>
  A concrete import: a workbook of the tax office with three rows, of which the second repeats
  the first and the third has no number, uploaded by the finance user of the sample ledger.
\<close>

definition sample_row :: "pystr \<Rightarrow> cell list" where
  "sample_row number = [CText number, CText (lit ''s1''), CText (lit ''Seller''), CText (lit ''c1''),
     CText (lit ''Company''), CDate 739621, CInt 100, CText [27491, 24120]]"

definition sample_sheet :: sheet where
  "sample_sheet = [map CText tax_columns, sample_row (lit ''i1''), sample_row (lit ''i1''), sample_row []]"

definition sample_libs :: import_env where
  "sample_libs = \<lparr>ie_nfkc = id, ie_casefold = id, ie_sha256 = id, ie_gb18030 = (\<lambda>bs. None),
     ie_xlsx = (\<lambda>bs. Inr \<lparr>xb_sheets = [(tax_sheet_name, sample_sheet)], xb_active = sample_sheet\<rparr>),
     ie_xls = (\<lambda>bs. Inl DataError), ie_tz_offset = (\<lambda>n. 28800), ie_company_tax_id = lit ''c1'',
     ie_max_rows = 5, ie_max_upload_bytes = 1000\<rparr>"

definition sample_upload :: upload where
  "sample_upload = \<lparr>up_name = lit ''bills.xlsx'', up_content = [80, 75, 3, 4, 1]\<rparr>"

definition sample_books :: db where
  "sample_books = sample_db\<lparr>invoices := [sample_invoice 1 10 10000], moneys := [], parties := [\<lparr>cp_id = 7, cp_name = lit ''Seller'',
     cp_normalized_name = lit ''Seller'', cp_tax_id = lit ''s1'', cp_is_customer = True,
     cp_is_supplier = True, cp_active = True\<rparr>]\<rparr>"

lemmas tax_cols = tax_columns_def col_invoice_number_def col_seller_tax_id_def col_seller_name_def
  col_buyer_tax_id_def col_buyer_name_def col_issue_date_def col_total_amount_def col_status_def

lemmas text_defs = strip_def lstrip_def rstrip_def py_space_def

lemma sample_signature: "validate_upload_signature sample_libs sample_upload = Inr ()"
  by (simp add: validate_upload_signature_def sample_libs_def sample_upload_def path_suffix_def
      path_name_def Let_def text_extension_def upload_signatures_def lit_def lower_ascii_def)

lemma cell_texts:
  "text_of (CText (lit ''i1'')) = lit ''i1''" "text_of (CText (lit ''s1'')) = lit ''s1''"
  "text_of (CText (lit ''c1'')) = lit ''c1''" "text_of (CText (lit ''Seller'')) = lit ''Seller''"
  "text_of (CText (lit ''Company'')) = lit ''Company''"
  "text_of (CText [27491, 24120]) = [27491, 24120]" "text_of (CText []) = []"
  by (simp_all add: text_of_def text_defs lit_def)

lemma column_texts: "map (text_of \<circ> CText) tax_columns = tax_columns"
  by (simp add: text_of_def text_defs tax_cols)

lemma sample_amount: "tax_amount (CInt 100) = Inr (Fin 100 0)"
proof -
  have "str_int 100 = dec_fixed (Fin 100 0)"
    by (simp add: str_int_def sign_text_def)
  moreover have "filter (\<lambda>c. c \<noteq> 44) (dec_fixed (Fin 100 0)) = dec_fixed (Fin 100 0)"
    "strip (dec_fixed (Fin 100 0)) = dec_fixed (Fin 100 0)"
    by (simp_all add: str_nat_def sign_text_def text_defs nat_digits.simps)
  ultimately show ?thesis
    by (simp add: tax_amount_def parse_dec_fixed cents_le_def max_cents_def del: dec_fixed.simps)
qed

definition sample_raw :: "pystr \<Rightarrow> (pystr \<times> cell) list" where
  "sample_raw number = zip tax_columns (sample_row number)"

lemma sample_dict: "dict_of_zip tax_columns (sample_row number) = sample_raw number"
  by (simp add: dict_of_zip_def sample_raw_def sample_row_def tax_cols)

lemmas raw_simps = sample_raw_def sample_row_def raw_get_def raw_item_def cell_texts tax_cols
  sample_amount

definition sample_norm :: norm_invoice where
  "sample_norm = \<lparr>ni_direction = InvoiceDirection_INPUT, ni_number = lit ''i1'',
     ni_seller_tax_id = lit ''s1'', ni_seller_name = lit ''Seller'', ni_buyer_tax_id = lit ''c1'',
     ni_buyer_name = lit ''Company'', ni_issue_date = 739621, ni_total_amount = Fin 100 0,
     ni_status = InvoiceStatus_NORMAL\<rparr>"

definition no_number :: row_issue where
  "no_number = issue ''required'' [21457, 31080, 21495, 30721, 19981, 33021, 20026, 31354] ''invoice_number''"

lemma sample_row_valid:
  "tax_parse_row sample_libs n (sample_raw (lit ''i1'')) (lit ''c1'')
     = Inr (valid_row n (sample_raw (lit ''i1'')) (NInv sample_norm))"
  by (simp add: tax_parse_row_def Let_def raw_simps tax_date_def direction_for_def normalize_status_def
      sample_norm_def)

lemma sample_row_invalid:
  "tax_parse_row sample_libs n (sample_raw []) (lit ''c1'') = Inr (invalid_row n (sample_raw []) no_number)"
  by (simp add: tax_parse_row_def Let_def raw_simps no_number_def)

lemma sample_rows:
  "importer_parse sample_libs TaxInvoiceImporter (up_content sample_upload) =
     [Inr (valid_row 2 (sample_raw (lit ''i1'')) (NInv sample_norm)),
      Inr (valid_row 3 (sample_raw (lit ''i1'')) (NInv sample_norm)),
      Inr (invalid_row 4 (sample_raw []) no_number)]"
proof -
  have "company_tax_id sample_libs = lit ''c1''"
    by (simp add: company_tax_id_def sample_libs_def text_defs lit_def)
  moreover have "iter_sheet_rows sample_libs (up_content sample_upload) tax_sheet_name =
      Inr [(2, sample_raw (lit ''i1'')), (3, sample_raw (lit ''i1'')), (4, sample_raw [])]"
    by (simp add: iter_sheet_rows_def sample_libs_def sample_sheet_def column_texts sample_dict)
  ultimately show ?thesis
    by (simp add: tax_parse_def sample_row_valid sample_row_invalid)
qed

lemma sample_headers: "read_headers sample_libs sample_upload = Inr tax_columns"
proof -
  have "filled (map text_of (sample_row x)) \<le> filled tax_columns" for x
    by (simp add: filled_def sample_row_def tax_cols)
  then have "densest_row sample_sheet = tax_columns"
    by (simp add: densest_row_def sample_sheet_def column_texts Let_def)
  then show ?thesis
    by (simp add: read_headers_def sample_upload_def path_suffix_def path_name_def Let_def
        text_extension_def lit_def lower_ascii_def sample_libs_def)
qed

lemma sample_detected:
  "detect registered (path_name (up_name sample_upload)) tax_columns = Inr TaxInvoiceImporter"
  by (simp add: detect_def registered_def sample_upload_def path_name_def lower_name_def lower_ascii_def
      endswith_def lit_def)


lemma sample_row_sound:
  "validate_parsed_row sample_libs sample_books SourceKind_INPUT_INVOICE
     (valid_row n (sample_raw x) (NInv sample_norm)) = []"
  by (simp add: validate_parsed_row_def valid_row_def validate_invoice_Nil sample_norm_def has_text_def
      text_defs positive_decimal_def InvoiceStatus_values_def resolve_invoice_counterparty_def Let_def
      single_match_def sample_books_def lit_def cents_le_def)

lemma sample_new: "formal_disposition_for sample_libs sample_books (NInv sample_norm) = Inr (New, None)"
  by (simp add: formal_disposition_for_def find_invoice_def sample_books_def sample_db_def
      sample_invoice_def sample_norm_def)

lemma sample_same: "invoice_rows_disposition sample_norm sample_norm = Duplicate"
  by (simp add: invoice_rows_disposition_def same_business_fields_def status_disposition_def sample_norm_def)

definition sample_json :: "pystr \<Rightarrow> json" where
  "sample_json x = JObj (map (\<lambda>(k, v). (k, the (cell_json v))) (sample_raw x))"

lemma sample_raw_safe: "json_safe_raw_data (sample_raw x) = (sample_json x, None)"
  by (simp add: json_safe_raw_data_def sample_raw_def sample_row_def tax_cols sample_json_def)

definition sample_prepared_rows :: "prepared_row list" where
  "sample_prepared_rows =
     [\<lparr>pw_row_number = 2, pw_raw_data = sample_json (lit ''i1''),
       pw_normalized_data = serialize_normalized (NInv sample_norm), pw_issues = JList [],
       pw_is_duplicate = False\<rparr>,
      \<lparr>pw_row_number = 3, pw_raw_data = sample_json (lit ''i1''),
       pw_normalized_data = serialize_normalized (NInv sample_norm), pw_issues = JList [],
       pw_is_duplicate = True\<rparr>,
      \<lparr>pw_row_number = 4, pw_raw_data = sample_json [], pw_normalized_data = JObj [],
       pw_issues = JList [issue_json no_number], pw_is_duplicate = False\<rparr>]"

definition sample_preparation :: preparation where
  "sample_preparation = \<lparr>pp_rows = sample_prepared_rows,
     pp_seen = [(KInvoice (lit ''i1'') (lit ''s1''), NInv sample_norm)], pp_total = 3, pp_valid = 1,
     pp_duplicate = 1, pp_error = 1, pp_dates = [739621, 739621]\<rparr>"

lemma sample_prepared:
  "prepare_rows sample_libs sample_books SourceKind_INPUT_INVOICE (Suc (Suc (Suc n)))
     (importer_parse sample_libs TaxInvoiceImporter (up_content sample_upload)) empty_preparation
   = Inr sample_preparation"
proof -
  have key: "duplicate_key sample_libs (NInv sample_norm) = Inr (KInvoice (lit ''i1'') (lit ''s1''))"
    "period_date (NInv sample_norm) = 739621"
    by (simp_all add: duplicate_key_def sample_norm_def)
  have invalid: "validate_parsed_row sample_libs sample_books k (invalid_row n (sample_raw x) no_number) = [no_number]"
    for k n x
    by (simp add: validate_parsed_row_def invalid_row_def)
  have parts: "pr_raw_data (valid_row n (sample_raw x) v) = sample_raw x"
    "pr_raw_data (invalid_row n (sample_raw x) i) = sample_raw x"
    "pr_normalized (valid_row n (sample_raw x) v) = Some v"
    "pr_row_number (valid_row n (sample_raw x) v) = n"
    "pr_row_number (invalid_row n (sample_raw x) i) = n" for n x v i
    by (simp_all add: valid_row_def invalid_row_def)
  show ?thesis
    by (simp add: sample_rows prepare_staged_row_def sample_row_sound row_disposition_def sample_raw_safe
        key invalid parts sample_new sample_same empty_preparation_def add_prepared_def Let_def
        sample_preparation_def sample_prepared_rows_def
        del: serialize_normalized.simps importer_parse.simps period_date.simps)
qed

definition sample_import :: import_batch where
  "sample_import = staged_batch 5 sample_ids finance_actor SourceKind_INPUT_INVOICE sample_preparation"

definition sample_staged_db :: "audit_log list \<Rightarrow> db" where
  "sample_staged_db logs = sample_books\<lparr>import_batches := [sample_import],
     source_files := [\<lparr>sf_id = sample_ids 1, sf_batch = sample_ids 0, sf_original_name = lit ''bills.xlsx'',
       sf_sha256 = up_content sample_upload, sf_size = 5\<rparr>],
     staged_rows := staged_from sample_ids sample_prepared_rows, audits := logs\<rparr>"

lemma sample_actor: "users d = users sample_db \<Longrightarrow> require_finance_actor d finance_actor m = Inr ()"
  using sample_finance require_finance_actor_cong [of d sample_db finance_actor m] by simp

lemma sample_staged_Inr:
  "\<exists>d. stage_upload sample_libs registered 5 sample_ids sample_upload (Some SourceKind_INPUT_INVOICE)
     finance_actor sample_books = Inr (sample_import, d) \<and> d = sample_staged_db (audits d)"
proof -
  have "prepare_rows sample_libs sample_books SourceKind_INPUT_INVOICE 5
     (importer_parse sample_libs TaxInvoiceImporter (up_content sample_upload)) empty_preparation
     = Inr sample_preparation"
    using sample_prepared [of 2] by (simp del: importer_parse.simps)
  moreover have fin: "require_finance_actor sample_books finance_actor m = Inr ()" for m
    by (rule sample_actor) (simp add: sample_books_def)
  moreover have "source_files sample_books = []" "import_batches sample_books = []"
    "staged_rows sample_books = []" "ie_max_rows sample_libs = 5" "ie_sha256 sample_libs = id"
    by (simp_all add: sample_books_def sample_db_def empty_db_def sample_libs_def)
  moreover have "source_kind_for sample_libs TaxInvoiceImporter sample_upload (Some SourceKind_INPUT_INVOICE)
      = Inr SourceKind_INPUT_INVOICE"
    by (simp add: source_kind_for_def SourceKind_values_def)
  moreover have "pp_rows sample_preparation = sample_prepared_rows"
    "distinct (map pw_row_number sample_prepared_rows)" "path_name (up_name sample_upload) = lit ''bills.xlsx''"
    "length (up_content sample_upload) = 5"
    by (simp_all add: sample_preparation_def sample_prepared_rows_def sample_upload_def path_name_def
        lit_def Let_def)
  ultimately show ?thesis
    using sample_detected
    by (simp add: stage_upload_def sample_signature sample_headers Let_def raise_if_def
        record_audit_finance [OF fin] sample_staged_db_def sample_import_def del: importer_parse.simps)
qed

section \<open>Its confirmation\<close>

definition later_ids :: "nat \<Rightarrow> uuid" where
  "later_ids n = of_nat (200 + n)"

definition sample_pending :: staged_row where
  "sample_pending = \<lparr>sr_id = 102, sr_batch = 100, sr_row_number = 2, sr_raw_data = sample_json (lit ''i1''),
     sr_normalized_data = serialize_normalized (NInv sample_norm), sr_issues = JList [],
     sr_is_duplicate = False, sr_posted_at = None\<rparr>"

lemma sample_staged_rows:
  "\<exists>r2 r3. staged_rows (sample_staged_db logs) = [sample_pending, r2, r3]
     \<and> sr_batch r2 = 100 \<and> sr_batch r3 = 100 \<and> sr_id r2 = 103 \<and> sr_id r3 = 104
     \<and> sr_row_number r2 = 3 \<and> sr_row_number r3 = 4 \<and> sr_is_duplicate r2 \<and> \<not> sr_is_duplicate r3
     \<and> sr_issues r2 = JList [] \<and> sr_issues r3 = JList [issue_json no_number]
     \<and> sr_posted_at r2 = None \<and> sr_posted_at r3 = None"
  by (simp add: sample_staged_db_def staged_from_def sample_prepared_rows_def sample_ids_def
      sample_pending_def del: serialize_normalized.simps)

lemma sample_stored: "deserialize_normalized (sr_normalized_data sample_pending) = Inr (NInv sample_norm)"
  using deserialize_serialize [of "NInv sample_norm"]
  by (simp add: sample_pending_def sample_norm_def valid_ord_def del: serialize_normalized.simps)


lemma sample_valid_day: "valid_ord 739621"
  by (simp add: valid_ord_def)

definition sample_posted :: invoice where
  "sample_posted =
     \<lparr>inv_id = 200, inv_direction = InvoiceDirection_INPUT, inv_number = lit ''i1'',
      inv_seller_tax_id = lit ''s1'', inv_buyer_tax_id = lit ''c1'', inv_issue_date = 739621,
      inv_due_date = None, inv_total_amount = 10000, inv_status = InvoiceStatus_NORMAL,
      inv_counterparty = 7, inv_import_batch = 100, inv_source_row = 2,
      inv_source_payload = sample_json (lit ''i1'')\<rparr>"

lemma sample_posts:
  "post_normalized_row sample_libs 200 100 sample_pending (sample_staged_db logs) =
     Inr (sample_staged_db logs\<lparr>invoices := invoices sample_books @ [sample_posted]\<rparr>)"
proof -
  have "mr_value (resolve_invoice_counterparty (sample_staged_db logs) sample_norm) = Some (hd (parties sample_books))"
    by (simp add: resolve_invoice_counterparty_def Let_def sample_norm_def single_match_def
        sample_staged_db_def sample_books_def)
  moreover have "cp_id (hd (parties sample_books)) = 7" by (simp add: sample_books_def)
  moreover have "db_money (Fin 100 0) = Inr 10000"
    by (simp add: db_money_def cents_round_def max_cents_def)
  moreover have "insert_invoice sample_posted (sample_staged_db logs) =
      Inr (sample_staged_db logs\<lparr>invoices := invoices sample_books @ [sample_posted]\<rparr>)"
    by (simp add: insert_invoice_def sample_posted_def raise_if_def sample_staged_db_def sample_books_def
        sample_db_def sample_invoice_def)
  ultimately show ?thesis
    by (simp add: post_normalized_row_def sample_stored)
       (simp add: sample_norm_def sample_pending_def sample_posted_def)
qed

lemma sample_confirmed_Inr:
  "\<exists>res d. confirm_batch sample_libs 6 later_ids 100 finance_actor (sample_staged_db logs) = Inr (res, d)
     \<and> invoices d = invoices sample_books @ [sample_posted]"
proof -
  obtain r2 r3 where rows: "staged_rows (sample_staged_db logs) = [sample_pending, r2, r3]"
    "sr_batch r2 = 100" "sr_batch r3 = 100" "sr_row_number r2 = 3" "sr_row_number r3 = 4"
    "sr_is_duplicate r2" "\<not> sr_is_duplicate r3" "sr_issues r3 \<noteq> JList []" "sr_posted_at r3 = None"
    using sample_staged_rows by fastforce
  have pending: "pending_rows 100 (sample_staged_db logs) = [sample_pending, r3]"
    using rows by (simp add: pending_rows_def batch_rows_def sample_pending_def)
  have new: "formal_disposition_for sample_libs (sample_staged_db logs) (NInv sample_norm) = Inr (New, None)"
    by (simp add: formal_disposition_for_def find_invoice_def sample_staged_db_def sample_books_def sample_db_def
      sample_invoice_def sample_norm_def)
  define c0 where "c0 = start_confirmation (sample_staged_db logs)"
  have c0: "cf_db c0 = sample_staged_db logs" "cf_next c0 = 0" by (simp_all add: c0_def start_confirmation_def)
  define c1 where "c1 = c0\<lparr>cf_db := mark_posted 6 sample_pending
    (sample_staged_db logs\<lparr>invoices := invoices sample_books @ [sample_posted]\<rparr>), cf_next := 1\<rparr>"
  have "sound sample_pending" "later_ids 0 = 200" by (simp_all add: sample_pending_def later_ids_def)
  then have "confirm_row sample_libs 6 later_ids finance_actor 100 sample_pending c0 = Inr c1"
    using confirm_row_posts [OF sample_stored, of sample_libs c0] new sample_posts
    by (simp add: c0 c1_def)
  moreover have "confirm_row sample_libs 6 later_ids finance_actor 100 r3 c1 = Inr c1"
    using rows(8) by (simp add: confirm_row_def)
  ultimately have run: "confirm_rows sample_libs 6 later_ids finance_actor 100
      (pending_rows 100 (sample_staged_db logs)) c0 = Inr c1"
    by (simp add: pending)
  have c1: "users (cf_db c1) = users sample_db" "invoices (cf_db c1) = invoices sample_books @ [sample_posted]"
    by (simp_all add: c1_def mark_posted_def update_staged_def sample_staged_db_def sample_books_def)
  have b: "find_row ib_id (import_batches (sample_staged_db logs)) 100 = Some sample_import"
    "ib_confirmed_at sample_import = None" "ib_source_kind sample_import \<noteq> SourceKind_BANK"
    by (simp_all add: find_row_def sample_staged_db_def sample_import_def staged_batch_def sample_ids_def)
  have fin: "require_finance_actor (sample_staged_db logs) finance_actor m = Inr ()" for m
    by (rule sample_actor) (simp add: sample_staged_db_def sample_books_def)
  have "users (cf_db c1) = users (sample_staged_db logs)"
    by (simp add: c1 sample_staged_db_def sample_books_def)
  then show ?thesis
    using run fin b record_audit_finance [OF fin]
    by (simp add: confirm_batch_def c0_def create_balance_snapshots_def Let_def c1)
qed


section \<open>The properties on the sample\<close>

theorem row_survives_storage_witness:
  "deserialize_normalized (serialize_normalized (NInv sample_norm)) = Inr (stored_form (NInv sample_norm))"
proof -
  have "storable (NInv sample_norm)" by (simp add: sample_norm_def sample_valid_day)
  from row_survives_storage [OF this] show ?thesis by blast
qed

theorem staged_counts_witness:
  "\<exists>d. stage_upload sample_libs registered 5 sample_ids sample_upload (Some SourceKind_INPUT_INVOICE)
     finance_actor sample_books = Inr (sample_import, d) \<and> counts_ok d sample_import \<and> ib_total_rows sample_import = 3"
proof -
  obtain d where d: "stage_upload sample_libs registered 5 sample_ids sample_upload
      (Some SourceKind_INPUT_INVOICE) finance_actor sample_books = Inr (sample_import, d)"
    using sample_staged_Inr by blast
  have "sample_ids 0 \<notin> sr_batch ` set (staged_rows sample_books)"
    by (simp add: sample_books_def sample_db_def empty_db_def)
  from staged_counts [OF d this] d show ?thesis
    by (auto simp: sample_import_def staged_batch_def sample_preparation_def)
qed

theorem same_file_refused_example:
  "\<exists>d. stage_upload sample_libs registered 5 sample_ids sample_upload (Some SourceKind_INPUT_INVOICE)
     finance_actor sample_books = Inr (sample_import, d)
   \<and> stage_upload sample_libs registered 9 later_ids sample_upload None finance_actor d
     = Inl (DuplicateSourceFileError msg_duplicate_file)"
proof -
  obtain d where d: "stage_upload sample_libs registered 5 sample_ids sample_upload
      (Some SourceKind_INPUT_INVOICE) finance_actor sample_books = Inr (sample_import, d)"
      "d = sample_staged_db (audits d)"
    using sample_staged_Inr by blast
  have "users d = users sample_db"
    by (subst d(2)) (simp add: sample_staged_db_def sample_books_def)
  from same_file_refused [OF d(1) refl sample_actor [OF this] sample_signature] d(1)
  show ?thesis by blast
qed

lemma sample_staged_keys:
  "find_row ib_id (import_batches (sample_staged_db logs)) 100 = Some sample_import"
  "ib_confirmed_at sample_import = None"
  "distinct (map sr_id (staged_rows (sample_staged_db logs)))"
  "\<forall>r\<in>set (staged_rows (sample_staged_db logs)). sr_batch r = 100 \<longrightarrow> sr_posted_at r = None"
  using sample_staged_rows [of logs]
  by (auto simp: find_row_def sample_staged_db_def sample_import_def staged_batch_def sample_ids_def
      sample_pending_def)

lemma sample_counts: "counts_ok (sample_staged_db logs) sample_import"
  using sample_staged_rows [of logs]
  by (auto simp: counts_ok_def count_rows_def sample_import_def staged_batch_def sample_preparation_def
      sample_ids_def sample_pending_def)


theorem confirm_again_example:
  "\<exists>res d. confirm_batch sample_libs 6 later_ids 100 finance_actor (sample_staged_db []) = Inr (res, d)
     \<and> confirm_batch sample_libs 8 sample_ids 100 finance_actor d = Inr (res, d)"
proof -
  obtain res d where d: "confirm_batch sample_libs 6 later_ids 100 finance_actor (sample_staged_db []) = Inr (res, d)"
    using sample_confirmed_Inr by blast
  have "distinct (map ib_id (import_batches (sample_staged_db [])))"
    by (simp add: sample_staged_db_def)
  from confirm_again [OF d this] d show ?thesis by blast
qed

theorem confirm_refines_ledger_witness:
  "\<exists>res d. confirm_batch sample_libs 6 later_ids 100 finance_actor (sample_staged_db []) = Inr (res, d)
     \<and> (import_step 100)\<^sup>*\<^sup>* (ledger_of (sample_staged_db [])) (ledger_of d) \<and> books_ok d"
proof -
  obtain res d where d: "confirm_batch sample_libs 6 later_ids 100 finance_actor (sample_staged_db []) = Inr (res, d)"
    using sample_confirmed_Inr by blast
  have books: "books_ok (sample_staged_db [])"
    by (simp add: books_ok_def sample_staged_db_def sample_books_def)
  have rows: "length (staged_rows (sample_staged_db [])) = 3"
    using sample_staged_rows [of "[]"] by auto
  have three: "{..<3} = {0, 1, 2 :: nat}" by auto
  have ids: "later_ids 0 = 200" "later_ids (Suc 0) = 201" "later_ids 2 = 202"
    by (simp_all add: later_ids_def)
  have "inj_on later_ids {..<3}" by (auto simp: inj_on_def three ids)
  moreover have "later_ids n \<notin> inv_id ` set (invoices (sample_staged_db []))" if "n < 3" for n
  proof -
    have "inv_id ` set (invoices (sample_staged_db [])) = {1}"
      by (simp add: sample_staged_db_def sample_books_def sample_invoice_def)
    moreover have "n = 0 \<or> n = Suc 0 \<or> n = 2" using that by linarith
    ultimately show ?thesis by (elim disjE) (simp_all add: ids)
  qed
  ultimately have "inj_on later_ids {..<3}"
    "\<forall>n<3. later_ids n \<notin> inv_id ` set (invoices (sample_staged_db []))" by blast+
  from confirm_refines_ledger [OF d books this [folded rows]] d show ?thesis by blast
qed

end
