(* ===== verification/Import_Pages.thy ===== *)
theory Import_Pages
  imports Web_Pages Import_Confirm
begin

text \<open>
  The pages of the imports (\<open>apps/imports/views.py\<close>, \<open>forms.py\<close>, \<open>storage.py\<close>): the upload with its
  form, the preview, the confirmation, the table of the problems as CSV, and the stored file.
  The messages of the file field and the storage are parameters.
\<close>

section \<open>The upload form\<close>

text \<open>What the storage answers when a stored file is asked for.\<close>

datatype stored_file =
    Stored bytes
  | NotStored
  | CannotLook
  | GoneOnOpen
  | CannotOpen

record import_pages_env =
  pe_import :: import_env
  pe_registry :: "importer list"
  pe_now :: instant
  pe_ids :: "nat \<Rightarrow> uuid"
  pe_required :: pystr
  pe_empty :: pystr
  pe_stored :: "uuid \<Rightarrow> stored_file"

definition ALLOWED_EXTENSIONS :: "pystr list" where
  "ALLOWED_EXTENSIONS = [lit ''.csv'', lit ''.txt'', lit ''.xls'', lit ''.xlsx'']"

definition msg_extension :: pystr where
  "msg_extension = [20165, 25903, 25345, 32, 67, 83, 86, 12289, 84, 88, 84,
     12289, 88, 76, 83, 32, 21644, 32, 88, 76, 83, 88, 32,
     25991, 20214]"
definition msg_size :: pystr where
  "msg_size = [25991, 20214, 22823, 23567, 36229, 36807, 31995, 32479,
     20801, 35768, 30340, 19978, 38480]"

definition clean_file :: "import_pages_env \<Rightarrow> upload \<Rightarrow> pystr + upload" where
  "clean_file E u =
     (if path_suffix (up_name u) \<notin> set ALLOWED_EXTENSIONS then Inl msg_extension
      else if ie_max_upload_bytes (pe_import E) < length (up_content u) then Inl msg_size
      else (case validate_upload_signature (pe_import E) u of
              Inl (ValidationError msg) \<Rightarrow> Inl msg
            | _ \<Rightarrow> Inr u))"

text \<open>\<open>None\<close> is the form without data, which is not valid and has no errors.\<close>

definition ImportUploadForm :: "import_pages_env \<Rightarrow> (query \<times> upload option) option \<Rightarrow> pystr list + upload" where
  "ImportUploadForm E posted =
     (case posted of
        None \<Rightarrow> Inl []
      | Some (q, None) \<Rightarrow> Inl [pe_required E]
      | Some (q, Some u) \<Rightarrow>
          if up_content u = [] then Inl [pe_empty E]
          else (case clean_file E u of Inl msg \<Rightarrow> Inl [msg] | Inr f \<Rightarrow> Inr f))"

section \<open>Requests and pages\<close>

record import_request =
  im_user :: actor
  im_verb :: pystr
  im_get :: query
  im_post :: query
  im_file :: "upload option"

datatype import_page =
    ImportIndex nat "pystr list" "import_batch list"
  | ImportPreview import_batch "nat \<times> (int \<times> json) list"
  | ToPreview uuid "pystr option"
  | IssueFile pystr pystr
  | SourceDownload pystr bytes
  | PlainText nat pystr
  | ImportLogin
  | ImportRefused
  | ImportBadVerb
  | ImportMissing

definition import_finance_required ::
    "string list \<Rightarrow> (import_request \<Rightarrow> db \<Rightarrow> import_page \<times> db) \<Rightarrow> import_request \<Rightarrow> db \<Rightarrow> import_page \<times> db" where
  "import_finance_required verbs view r d =
     (if \<not> actor_authenticated (im_user r) then (ImportLogin, d)
      else if \<not> user_has_role d (im_user r) FINANCE then (ImportRefused, d)
      else if im_verb r \<notin> lit ` set verbs then (ImportBadVerb, d)
      else view r d)"

section \<open>Upload\<close>

text \<open>The text of the exceptions that may be shown.\<close>

fun safe_import_error :: "exn \<Rightarrow> pystr option" where
  "safe_import_error (DuplicateSourceFileError msg) = Some msg"
| "safe_import_error (RowValidationError msg) = Some msg"
| "safe_import_error (UnsupportedTemplateError msg) = Some msg"
| "safe_import_error e = None"

definition msg_staging_failed :: pystr where
  "msg_staging_failed = [25991, 20214, 22788, 29702, 22833, 36133, 65292, 35831,
     26816, 26597, 25991, 20214, 26684, 24335, 21518, 37325,
     35797, 12290]"

definition recent_batches :: "db \<Rightarrow> import_batch list" where
  "recent_batches d = take 10 (rev (sort_key ib_created_at (import_batches d)))"

definition import_index :: "import_request \<Rightarrow> pystr list \<Rightarrow> db \<Rightarrow> import_page" where
  "import_index r errors d =
     ImportIndex (if im_verb r = lit ''POST'' then 400 else 200) errors (recent_batches d)"

definition posted_form :: "import_request \<Rightarrow> (query \<times> upload option) option" where
  "posted_form r = (if im_post r = [] \<and> im_file r = None then None else Some (im_post r, im_file r))"

definition upload_body :: "import_pages_env \<Rightarrow> import_request \<Rightarrow> db \<Rightarrow> import_page \<times> db" where
  "upload_body E r d =
     (case ImportUploadForm E (posted_form r) of
        Inl errors \<Rightarrow> (import_index r errors d, d)
      | Inr u \<Rightarrow>
          if im_verb r \<noteq> lit ''POST'' then (import_index r [] d, d)
          else
            (case stage_upload (pe_import E) (pe_registry E) (pe_now E) (pe_ids E) u None (im_user r) d of
               Inr (batch, d') \<Rightarrow> (ToPreview (ib_id batch) None, d')
             | Inl e \<Rightarrow>
                 (import_index r [case safe_import_error e of Some msg \<Rightarrow> msg | None \<Rightarrow> msg_staging_failed] d, d)))"

definition upload_view :: "import_pages_env \<Rightarrow> import_request \<Rightarrow> db \<Rightarrow> import_page \<times> db" where
  "upload_view E = import_finance_required [''GET'', ''POST''] (upload_body E)"

section \<open>Preview and confirmation\<close>

definition issue_rows :: "db \<Rightarrow> uuid \<Rightarrow> staged_row list" where
  "issue_rows d pk =
     sort_key sr_row_number (filter (\<lambda>x. sr_batch x = pk \<and> sr_issues x \<noteq> JList []) (staged_rows d))"

definition preview_view :: "import_pages_env \<Rightarrow> uuid \<Rightarrow> import_request \<Rightarrow> db \<Rightarrow> import_page \<times> db" where
  "preview_view E pk = import_finance_required [''GET''] (\<lambda>r d.
     (case find_row ib_id (import_batches d) pk of
        None \<Rightarrow> ImportMissing
      | Some b \<Rightarrow> ImportPreview b (get_page 100 (get_field ''issue_page'' (im_get r))
                    (map (\<lambda>x. (sr_row_number x, sr_issues x)) (issue_rows d pk))), d))"

definition msg_confirm_failed :: pystr where
  "msg_confirm_failed = [30830, 35748, 23548, 20837, 22833, 36133, 65292, 35831,
     31245, 21518, 37325, 35797, 12290]"
definition msg_import_confirmed :: pystr where
  "msg_import_confirmed = [23548, 20837, 24050, 30830, 35748, 12290]"

definition confirm_body :: "import_pages_env \<Rightarrow> uuid \<Rightarrow> import_request \<Rightarrow> db \<Rightarrow> import_page \<times> db" where
  "confirm_body E pk r d =
     (case find_row ib_id (import_batches d) pk of
        None \<Rightarrow> (ImportMissing, d)
      | Some b \<Rightarrow>
          (case confirm_batch (pe_import E) (pe_now E) (pe_ids E) pk (im_user r) d of
             Inr (result, d') \<Rightarrow> (ToPreview pk (Some msg_import_confirmed), d')
           | Inl e \<Rightarrow>
               (ToPreview pk (Some (case safe_import_error e of Some msg \<Rightarrow> msg | None \<Rightarrow> msg_confirm_failed)), d)))"

definition confirm_view :: "import_pages_env \<Rightarrow> uuid \<Rightarrow> import_request \<Rightarrow> db \<Rightarrow> import_page \<times> db" where
  "confirm_view E pk = import_finance_required [''POST''] (confirm_body E pk)"

section \<open>The problems as CSV\<close>

text \<open>
  \<open>csv.writer\<close> in its default dialect: a field is put in quotes when it holds a comma, a quote
  or a line break, and an empty field when it is alone on its line.
\<close>

definition needs_quotes :: "pystr \<Rightarrow> bool" where
  "needs_quotes f \<longleftrightarrow> list_ex (\<lambda>c. c \<in> {44, 34, 10, 13}) f"

definition quoted :: "pystr \<Rightarrow> pystr" where
  "quoted f = 34 # concat (map (\<lambda>c. if c = 34 then [34, 34] else [c]) f) @ [34]"

definition csv_field :: "pystr \<Rightarrow> pystr" where
  "csv_field f = (if needs_quotes f then quoted f else f)"

definition csv_line :: "pystr list \<Rightarrow> pystr" where
  "csv_line fs = (if fs = [[]] then quoted [] else join [44] (map csv_field fs)) @ [13, 10]"

text \<open>
  A value of an issue as the writer prints it. The services write texts only; a list or an
  object, which they never write, is printed as nothing here.
\<close>

fun csv_value :: "json \<Rightarrow> pystr" where
  "csv_value (JStr s) = s"
| "csv_value (JInt i) = str_int i"
| "csv_value (JBool b) = (if b then lit ''True'' else lit ''False'')"
| "csv_value (JNum t) = t"
| "csv_value _ = []"

definition issue_value :: "string \<Rightarrow> json \<Rightarrow> pystr" where
  "issue_value k j = (case json_get j (lit k) of None \<Rightarrow> [] | Some v \<Rightarrow> csv_value v)"

definition issue_header :: "pystr list" where
  "issue_header = [[34892, 21495], [23383, 27573], [38382, 39064, 20195, 30721], [38382, 39064, 35828, 26126]]"

fun json_items :: "json \<Rightarrow> json list" where
  "json_items (JList xs) = xs"
| "json_items _ = []"

definition issue_table :: "db \<Rightarrow> uuid \<Rightarrow> pystr list list" where
  "issue_table d pk = concat (map (\<lambda>x. map (\<lambda>j. [str_int (sr_row_number x), issue_value ''field'' j,
       issue_value ''code'' j, issue_value ''message'' j]) (json_items (sr_issues x))) (issue_rows d pk))"

definition issue_csv_content :: "db \<Rightarrow> uuid \<Rightarrow> pystr" where
  "issue_csv_content d pk = 65279 # csv_line issue_header @ concat (map csv_line (issue_table d pk))"

definition issue_csv_view :: "import_pages_env \<Rightarrow> uuid \<Rightarrow> import_request \<Rightarrow> db \<Rightarrow> import_page \<times> db" where
  "issue_csv_view E pk = import_finance_required [''GET''] (\<lambda>r d.
     (case find_row ib_id (import_batches d) pk of
        None \<Rightarrow> ImportMissing
      | Some b \<Rightarrow> IssueFile (lit ''import-'' @ uuid_str (ib_id b) @ lit ''-issues.csv'') (issue_csv_content d (ib_id b)), d))"

section \<open>The stored file\<close>

definition msg_unreadable :: pystr where
  "msg_unreadable = [21407, 25991, 20214, 26242, 26102, 26080, 27861, 35835,
     21462, 65292, 35831, 31245, 21518, 37325, 35797, 12290]"
definition msg_lost :: pystr where
  "msg_lost = [21407, 25991, 20214, 24050, 20002, 22833, 12290]"

definition source_upload_path :: "uuid \<Rightarrow> pystr \<Rightarrow> pystr" where
  "source_upload_path batch filename =
     lit ''imports/'' @ uuid_str batch @ 47 # rev (takeWhile (\<lambda>c. c \<noteq> 47) (rev filename))"

definition source_file_view :: "import_pages_env \<Rightarrow> uuid \<Rightarrow> import_request \<Rightarrow> db \<Rightarrow> import_page \<times> db" where
  "source_file_view E pk = import_finance_required [''GET''] (\<lambda>r d.
     (case find_row sf_batch (source_files d) pk of
        None \<Rightarrow> ImportMissing
      | Some f \<Rightarrow>
          (case pe_stored E (sf_id f) of
             CannotLook \<Rightarrow> PlainText 503 msg_unreadable
           | NotStored \<Rightarrow> PlainText 404 msg_lost
           | GoneOnOpen \<Rightarrow> PlainText 404 msg_lost
           | CannotOpen \<Rightarrow> PlainText 503 msg_unreadable
           | Stored content \<Rightarrow> SourceDownload (path_name (sf_original_name f)) content), d))"

end
