(* ===== verification/Import_Page_Properties.thy ===== *)
theory Import_Page_Properties
  imports Import_Pages Import_Samples
begin

text \<open>
  The pages of the imports: the table of problems is read back by the program's own reader, and
  only the two services behind the pages change anything.
\<close>

section \<open>The writer and the reader\<close>

text \<open>The events of the reader for a text: a line ends after each line feed.\<close>

definition events :: "pystr \<Rightarrow> nat option list" where
  "events s = concat (map (\<lambda>c. if c = 10 then [Some c, None] else [Some c]) s)"

lemma events_simps [simp]:
  "events [] = []" "events (c # s) = (if c = 10 then [Some c, None] else [Some c]) @ events s"
  "events (s @ t) = events s @ events t"
  by (simp_all add: events_def)

lemma csv_stream_events: "s = [] \<or> last s = 10 \<Longrightarrow> csv_stream s = events s"
  by (induction s rule: csv_stream.induct) (auto split: if_splits)

text \<open>A field in quotes.\<close>

lemma read_quoted:
  "csv_run \<lparr>cs_mode = IN_QUOTED, cs_fields = fs, cs_field = acc\<rparr>
      (events (concat (map (\<lambda>c. if c = 34 then [34, 34] else [c]) f)) @ Some 34 # rest)
   = csv_run \<lparr>cs_mode = QUOTE_IN_QUOTED, cs_fields = fs, cs_field = rev f @ acc\<rparr> rest"
  by (induction f arbitrary: acc) (auto simp: csv_add_def Let_def)

lemma read_plain:
  assumes "\<not> needs_quotes f"
  shows "csv_run \<lparr>cs_mode = IN_FIELD, cs_fields = fs, cs_field = acc\<rparr> (events f @ rest)
    = csv_run \<lparr>cs_mode = IN_FIELD, cs_fields = fs, cs_field = rev f @ acc\<rparr> rest"
  using assms
  by (induction f arbitrary: acc) (auto simp: needs_quotes_def csv_add_def is_newline_def Let_def)

text \<open>The mode after a written field, in which the next comma or line end saves it.\<close>

definition after_field :: "csv_mode \<Rightarrow> pystr list \<Rightarrow> pystr \<Rightarrow> csv_state \<Rightarrow> bool" where
  "after_field m fs f s \<longleftrightarrow> cs_fields s = fs \<and> cs_field s = rev f
     \<and> (cs_mode s \<in> {IN_FIELD, QUOTE_IN_QUOTED} \<or> f = [] \<and> cs_mode s = m)"

lemma read_field:
  assumes "m = START_FIELD \<or> m = START_RECORD"
  shows "\<exists>s. after_field m fs f s \<and>
    csv_run \<lparr>cs_mode = m, cs_fields = fs, cs_field = []\<rparr> (events (csv_field f) @ rest) = csv_run s rest"
proof (cases "needs_quotes f")
  case True
  then have "csv_run \<lparr>cs_mode = m, cs_fields = fs, cs_field = []\<rparr> (events (csv_field f) @ rest)
    = csv_run \<lparr>cs_mode = QUOTE_IN_QUOTED, cs_fields = fs, cs_field = rev f\<rparr> rest"
    using assms by (auto simp: csv_field_def quoted_def is_newline_def Let_def read_quoted)
  then show ?thesis
    by (intro exI [of _ "\<lparr>cs_mode = QUOTE_IN_QUOTED, cs_fields = fs, cs_field = rev f\<rparr>"]) (simp add: after_field_def)
next
  case plain: False
  show ?thesis
  proof (cases f)
    case Nil
    then show ?thesis
      using plain by (intro exI [of _ "\<lparr>cs_mode = m, cs_fields = fs, cs_field = []\<rparr>"])
        (simp add: csv_field_def after_field_def)
  next
    case (Cons c g)
    with plain have c: "c \<notin> {44, 34, 10, 13}" "\<not> needs_quotes g" by (auto simp: needs_quotes_def)
    have "csv_run \<lparr>cs_mode = m, cs_fields = fs, cs_field = []\<rparr> (events (csv_field f) @ rest)
      = csv_run \<lparr>cs_mode = IN_FIELD, cs_fields = fs, cs_field = rev g @ [c]\<rparr> rest"
      using assms c plain read_plain [OF c(2), of fs "[c]" rest]
      by (auto simp: Cons csv_field_def is_newline_def csv_add_def Let_def)
    then show ?thesis
      by (intro exI [of _ "\<lparr>cs_mode = IN_FIELD, cs_fields = fs, cs_field = rev g @ [c]\<rparr>"])
        (simp add: after_field_def Cons)
  qed
qed

lemma read_comma:
  assumes "after_field m fs f s" "m = START_FIELD \<or> m = START_RECORD"
  shows "csv_run s (Some 44 # rest) = csv_run \<lparr>cs_mode = START_FIELD, cs_fields = f # fs, cs_field = []\<rparr> rest"
  using assms by (auto simp: after_field_def csv_save_def is_newline_def Let_def)

lemma read_line_end:
  assumes "after_field m fs f s" "m = START_FIELD \<or> m = START_RECORD \<and> (f \<noteq> [] \<or> cs_mode s = QUOTE_IN_QUOTED)"
  shows "csv_run s (Some 13 # Some 10 # None # rest) = Inr (rev (f # fs)) # csv_run csv_init rest"
  using assms by (auto simp: after_field_def csv_save_def is_newline_def Let_def csv_init_def)

lemma read_fields:
  assumes "fs' \<noteq> []"
  shows "csv_run \<lparr>cs_mode = START_FIELD, cs_fields = fs, cs_field = []\<rparr>
      (events (join [44] (map csv_field fs') @ [13, 10]) @ rest)
    = Inr (rev fs @ fs') # csv_run csv_init rest"
  using assms
proof (induction fs' arbitrary: fs)
  case (Cons f gs)
  show ?case
  proof (cases gs)
    case Nil
    obtain s where s: "after_field START_FIELD fs f s"
      "csv_run \<lparr>cs_mode = START_FIELD, cs_fields = fs, cs_field = []\<rparr> (events (csv_field f) @ Some 13 # Some 10 # None # rest)
        = csv_run s (Some 13 # Some 10 # None # rest)"
      using read_field [of START_FIELD fs f] by blast
    then show ?thesis using Nil read_line_end [OF s(1)] by simp
  next
    case (Cons g hs)
    let ?rest = "Some 44 # events (join [44] (map csv_field gs) @ [13, 10]) @ rest"
    obtain s where s: "after_field START_FIELD fs f s"
      "csv_run \<lparr>cs_mode = START_FIELD, cs_fields = fs, cs_field = []\<rparr> (events (csv_field f) @ ?rest) = csv_run s ?rest"
      using read_field [of START_FIELD fs f ?rest] by blast
    then show ?thesis
      using Cons.IH [of "f # fs"] Cons read_comma [OF s(1)] by simp
  qed
qed simp

lemma read_line:
  assumes "row \<noteq> []"
  shows "csv_run csv_init (events (csv_line row) @ rest) = Inr row # csv_run csv_init rest"
proof -
  have init: "csv_init = \<lparr>cs_mode = START_RECORD, cs_fields = [], cs_field = []\<rparr>" by (simp add: csv_init_def)
  obtain f fs where row: "row = f # fs" using assms by (cases row) auto
  show ?thesis
  proof (cases fs)
    case (Cons g gs)
    let ?rest = "Some 44 # events (join [44] (map csv_field fs) @ [13, 10]) @ rest"
    obtain s where s: "after_field START_RECORD [] f s"
      "csv_run csv_init (events (csv_field f) @ ?rest) = csv_run s ?rest"
      unfolding init using read_field [of START_RECORD "[]" f ?rest] by blast
    then show ?thesis
      using Cons read_comma [OF s(1)] read_fields [of fs "[f]" rest] by (simp add: row csv_line_def)
  next
    case Nil
    let ?rest = "Some 13 # Some 10 # None # rest"
    show ?thesis
    proof (cases "f = []")
      case True
      then show ?thesis
        using Nil by (simp add: row csv_line_def quoted_def init csv_save_def is_newline_def Let_def)
    next
      case False
      obtain s where s: "after_field START_RECORD [] f s"
        "csv_run csv_init (events (csv_field f) @ ?rest) = csv_run s ?rest"
        unfolding init using read_field [of START_RECORD "[]" f ?rest] by blast
      then show ?thesis
        using Nil False read_line_end [OF s(1), of rest] by (simp add: row csv_line_def)
    qed
  qed
qed

lemma csv_list_lines:
  assumes "[] \<notin> set rows"
  shows "csv_list (concat (map csv_line rows)) = Inr rows"
proof -
  have "concat (map csv_line rows) = [] \<or> last (concat (map csv_line rows)) = 10"
    by (induction rows) (auto simp: csv_line_def)
  then have "csv_rows (concat (map csv_line rows)) = csv_run csv_init (events (concat (map csv_line rows)))"
    by (simp add: csv_rows_def csv_stream_events)
  also have "\<dots> = map Inr rows"
  proof -
    have "csv_run csv_init [] = []" by (simp add: csv_init_def)
    then show ?thesis using assms by (induction rows) (auto simp: read_line)
  qed
  finally have "csv_rows (concat (map csv_line rows)) = map Inr rows" .
  moreover have "traverse id (map Inr rows) = Inr rows" by (induction rows) (simp_all add: bindE_def)
  ultimately show ?thesis by (simp add: csv_list_def)
qed


definition sample_issue_db :: db where
  "sample_issue_db = empty_db\<lparr>staged_rows :=
     [\<lparr>sr_id = 4, sr_batch = 9, sr_row_number = 2, sr_raw_data = JNull, sr_normalized_data = JNull,
       sr_issues = JList [issue_json \<lparr>ri_code = lit ''bad'', ri_message = [34, 44, 10, 37329], ri_field = lit ''amount''\<rparr>],
       sr_is_duplicate = False, sr_posted_at = None\<rparr>]\<rparr>"


text \<open>Only a finance user changes anything, by one run of a service.\<close>

lemma import_pages_change:
  "upload_view E r d = (page, d') \<Longrightarrow> d' \<noteq> d \<Longrightarrow> user_has_role d (im_user r) FINANCE \<and> im_verb r = lit ''POST''
     \<and> (\<exists>u batch. stage_upload (pe_import E) (pe_registry E) (pe_now E) (pe_ids E) u None (im_user r) d = Inr (batch, d'))"
  "confirm_view E pk r d = (page, d') \<Longrightarrow> d' \<noteq> d \<Longrightarrow> user_has_role d (im_user r) FINANCE \<and> im_verb r = lit ''POST''
     \<and> (\<exists>result. confirm_batch (pe_import E) (pe_now E) (pe_ids E) pk (im_user r) d = Inr (result, d'))"
  by (auto simp: upload_view_def confirm_view_def import_finance_required_def upload_body_def confirm_body_def
      split: if_splits option.splits sum.splits)

end
