(* ===== verification/Ledger_Pages.thy ===== *)
theory Ledger_Pages
  imports Web_Pages Recon_Settlements Py_Uuid "HOL-Library.List_Lexorder"
begin

text \<open>
  The lists of the ledger (\<open>apps/ledger/views.py\<close>) and of the parties (\<open>apps/parties/views.py\<close>):
  the filters of a request, the order and the page. The database is the parameter where it
  decides: the upper case that \<open>icontains\<close> compares, the collation of names and the local
  day of an instant.
\<close>

record list_env =
  le_upper :: "pystr \<Rightarrow> pystr"
  le_collate :: "pystr \<Rightarrow> pystr"
  le_local :: "instant \<Rightarrow> date"

definition icontains :: "list_env \<Rightarrow> pystr \<Rightarrow> pystr \<Rightarrow> bool" where
  "icontains E term value \<longleftrightarrow> substring (le_upper E term) (le_upper E value)"

section \<open>Parameters\<close>

definition valid_uuid_param :: "pystr option \<Rightarrow> uuid option" where
  "valid_uuid_param v = (if field_text v = [] then None else parse_uuid (field_text v))"

definition valid_date_param :: "pystr option \<Rightarrow> date option" where
  "valid_date_param v = (if field_text v = [] then None else parse_iso_date (field_text v))"

definition list_max_money :: money where "list_max_money = 999999999999999999"

definition valid_money :: "pystr \<Rightarrow> money option" where
  "valid_money value =
     (case parse_dec value of
        Some (Fin c e) \<Rightarrow>
          if c < 0 \<or> \<not> cents_le c e list_max_money \<or> e < - 2 then None else whole_cents (Fin c e)
      | _ \<Rightarrow> None)"

definition counterparty_choices :: "list_env \<Rightarrow> db \<Rightarrow> counterparty list" where
  "counterparty_choices E d = sort_key (\<lambda>c. (\<not> cp_active c, le_collate E (cp_name c))) (parties d)"

section \<open>Invoices\<close>

text \<open>A row of a list with the amounts of \<open>_with_open_amount\<close>.\<close>

record 'r amounts_row =
  lr_row :: 'r
  lr_allocated :: money
  lr_open :: money

definition with_open_amount ::
    "(allocation \<Rightarrow> uuid) \<Rightarrow> ('r \<Rightarrow> uuid) \<Rightarrow> ('r \<Rightarrow> money) \<Rightarrow> db \<Rightarrow> 'r \<Rightarrow> 'r amounts_row" where
  "with_open_amount key idf total_field d x =
     \<lparr>lr_row = x, lr_allocated = allocated_by key d (idf x), lr_open = total_field x - allocated_by key d (idf x)\<rparr>"

definition RECONCILIATION_STATES :: "pystr list" where
  "RECONCILIATION_STATES = [lit ''unreconciled'', lit ''partial'', lit ''reconciled'']"

definition in_state :: "pystr option \<Rightarrow> 'r amounts_row \<Rightarrow> bool" where
  "in_state state r =
     (if state = Some (lit ''unreconciled'') then lr_allocated r = 0
      else if state = Some (lit ''partial'') then 0 < lr_allocated r \<and> 0 < lr_open r
      else if state = Some (lit ''reconciled'') then lr_open r = 0
      else True)"

text \<open>A filter that is set aside when its value is not one of the choices.\<close>

definition choice_filter :: "pystr list \<Rightarrow> pystr option \<Rightarrow> pystr \<Rightarrow> bool" where
  "choice_filter choices v x \<longleftrightarrow> (case v of None \<Rightarrow> True | Some c \<Rightarrow> c \<in> set choices \<longrightarrow> x = c)"

definition InvoiceDirection_values :: "pystr list" where
  "InvoiceDirection_values = [InvoiceDirection_INPUT, InvoiceDirection_OUTPUT]"

definition optional :: "'a option \<Rightarrow> ('a \<Rightarrow> bool) \<Rightarrow> bool" where
  "optional v P \<longleftrightarrow> (case v of None \<Rightarrow> True | Some x \<Rightarrow> P x)"

definition search_filter :: "list_env \<Rightarrow> pystr option \<Rightarrow> pystr \<Rightarrow> bool" where
  "search_filter E v x \<longleftrightarrow> strip (field_text v) = [] \<or> icontains E (strip (field_text v)) x"

definition invoice_filter :: "list_env \<Rightarrow> query \<Rightarrow> invoice amounts_row \<Rightarrow> bool" where
  "invoice_filter E q r \<longleftrightarrow>
     (let b = lr_row r in
      choice_filter InvoiceDirection_values (get_field ''direction'' q) (inv_direction b)
      \<and> optional (valid_uuid_param (get_field ''counterparty'' q)) (\<lambda>i. inv_counterparty b = i)
      \<and> optional (valid_date_param (get_field ''issue_start'' q)) (\<lambda>x. x \<le> inv_issue_date b)
      \<and> optional (valid_date_param (get_field ''issue_end'' q)) (\<lambda>x. inv_issue_date b \<le> x)
      \<and> choice_filter InvoiceStatus_values (get_field ''status'' q) (inv_status b)
      \<and> in_state (get_field ''reconciliation_state'' q) r
      \<and> search_filter E (get_field ''invoice_number'' q) (inv_number b))"

definition invoice_rows :: "list_env \<Rightarrow> db \<Rightarrow> query \<Rightarrow> invoice amounts_row list" where
  "invoice_rows E d q =
     filter (invoice_filter E q)
       (map (with_open_amount ra_invoice inv_id inv_total_amount d)
         (rev (sort_key (\<lambda>b. (inv_issue_date b, inv_id b)) (invoices d))))"

record 'r list_page =
  lp_page :: "nat \<times> 'r list"
  lp_query :: query
  lp_counterparties :: "counterparty list"

definition invoice_list :: "list_env \<Rightarrow> read_request \<Rightarrow> db \<Rightarrow> invoice amounts_row list_page page_reply" where
  "invoice_list E = owner_or_finance_required (\<lambda>r d.
     Shown \<lparr>lp_page = get_page 50 (get_field ''page'' (rq_get r)) (invoice_rows E d (rq_get r)),
            lp_query = querystring_without_page (rq_get r),
            lp_counterparties = counterparty_choices E d\<rparr>)"

section \<open>Transactions\<close>

definition open_filter :: "pystr option \<Rightarrow> 'r amounts_row \<Rightarrow> bool" where
  "open_filter v r =
     (let t = strip (field_text v) in
      if t = lit ''open'' then 0 < lr_open r
      else if t = lit ''closed'' then lr_open r = 0
      else if t = [] then True
      else optional (valid_money t) (\<lambda>x. lr_open r = x))"

definition transaction_filter :: "list_env \<Rightarrow> query \<Rightarrow> money_transaction amounts_row \<Rightarrow> bool" where
  "transaction_filter E q r \<longleftrightarrow>
     (let m = lr_row r in
      choice_filter MoneyChannel_values (get_field ''channel'' q) (mt_channel m)
      \<and> choice_filter MoneyDirection_values (get_field ''direction'' q) (mt_direction m)
      \<and> optional (valid_uuid_param (get_field ''counterparty'' q)) (\<lambda>i. mt_counterparty m = Some i)
      \<and> optional (valid_date_param (get_field ''date_start'' q)) (\<lambda>x. x \<le> le_local E (mt_occurred_at m))
      \<and> optional (valid_date_param (get_field ''date_end'' q)) (\<lambda>x. le_local E (mt_occurred_at m) \<le> x)
      \<and> open_filter (get_field ''open_amount'' q) r
      \<and> search_filter E (get_field ''transaction_id'' q) (mt_transaction_id m))"

definition transaction_rows :: "list_env \<Rightarrow> db \<Rightarrow> query \<Rightarrow> money_transaction amounts_row list" where
  "transaction_rows E d q =
     filter (transaction_filter E q)
       (map (with_open_amount ra_transaction mt_id mt_amount d)
         (rev (sort_key (\<lambda>m. (mt_occurred_at m, mt_id m)) (moneys d))))"

definition transaction_list ::
    "list_env \<Rightarrow> read_request \<Rightarrow> db \<Rightarrow> money_transaction amounts_row list_page page_reply" where
  "transaction_list E = owner_or_finance_required (\<lambda>r d.
     Shown \<lparr>lp_page = get_page 50 (get_field ''page'' (rq_get r)) (transaction_rows E d (rq_get r)),
            lp_query = querystring_without_page (rq_get r),
            lp_counterparties = counterparty_choices E d\<rparr>)"

section \<open>Parties\<close>

definition party_filter :: "list_env \<Rightarrow> query \<Rightarrow> counterparty \<Rightarrow> bool" where
  "party_filter E q c \<longleftrightarrow>
     (let term = strip (field_text (get_field ''query'' q)); kind = get_field ''kind'' q; act = get_field ''active'' q
      in (term = [] \<or> icontains E term (cp_name c) \<or> icontains E term (cp_tax_id c))
       \<and> (kind = Some (lit ''customer'') \<longrightarrow> cp_is_customer c)
       \<and> (kind = Some (lit ''supplier'') \<longrightarrow> cp_is_supplier c)
       \<and> (act = Some (lit ''true'') \<longrightarrow> cp_active c)
       \<and> (act = Some (lit ''false'') \<longrightarrow> \<not> cp_active c))"

definition party_rows :: "list_env \<Rightarrow> db \<Rightarrow> query \<Rightarrow> counterparty list" where
  "party_rows E d q =
     filter (party_filter E q) (sort_key (\<lambda>c. (le_collate E (cp_name c), cp_id c)) (parties d))"

definition counterparty_list :: "list_env \<Rightarrow> read_request \<Rightarrow> db \<Rightarrow> counterparty list_page page_reply" where
  "counterparty_list E = owner_or_finance_required (\<lambda>r d.
     Shown \<lparr>lp_page = get_page 50 (get_field ''page'' (rq_get r)) (party_rows E d (rq_get r)),
            lp_query = querystring_without_page (rq_get r), lp_counterparties = []\<rparr>)"

end
