(* ===== verification/Ledger_Page_Properties.thy ===== *)
theory Ledger_Page_Properties
  imports Ledger_Pages Recon_Page_Properties Samples "HOL-Library.Multiset"
begin

text \<open>
  The lists of the ledger: the filters by the state of reconciliation split the invoices, the
  pages go through all of them, and the invoices that are open in the list are those that the
  workbench offers.
\<close>

lemma get_field_Cons_other: "k \<noteq> lit j \<Longrightarrow> get_field j ((k, v) # q) = get_field j q"
  by (simp add: get_field_def getlist_def)

lemma get_field_Cons_new: "lit j \<notin> fst ` set q \<Longrightarrow> get_field j ((lit j, v) # q) = Some v"
  by (auto simp: get_field_def getlist_def image_iff filter_empty_conv)

lemma get_field_none: "lit j \<notin> fst ` set q \<Longrightarrow> get_field j q = None"
  by (auto simp: get_field_def getlist_def image_iff filter_empty_conv)

lemma invoice_filter_state:
  assumes "lit ''reconciliation_state'' \<notin> fst ` set q"
  shows "invoice_filter E ((lit ''reconciliation_state'', s) # q) r \<longleftrightarrow> invoice_filter E q r \<and> in_state (Some s) r"
proof -
  have "lit ''reconciliation_state'' \<noteq> lit k"
    if "k \<in> {''direction'', ''counterparty'', ''issue_start'', ''issue_end'', ''status'', ''invoice_number''}" for k
    using that by (auto simp: lit_def)
  then show ?thesis
    using get_field_Cons_new [OF assms] get_field_none [OF assms]
    by (auto simp: invoice_filter_def Let_def get_field_Cons_other in_state_def)
qed

lemma invoice_amounts:
  assumes "ledger_ok d" "b \<in> set (invoices d)"
  shows "0 \<le> allocated_by ra_invoice d (inv_id b)" "allocated_by ra_invoice d (inv_id b) \<le> inv_total_amount b"
    "0 < inv_total_amount b"
  using assms allocated_by_nonneg [OF ledger_ok_pos [OF assms(1)]]
  by (auto simp: ledger_ok_def within_totals_def side_within_def ledger_caps_def)

definition state_rows :: "list_env \<Rightarrow> db \<Rightarrow> query \<Rightarrow> string \<Rightarrow> invoice amounts_row list" where
  "state_rows E d q s = invoice_rows E d ((lit ''reconciliation_state'', lit s) # q)"

lemma mset_filter_three:
  assumes "\<And>x. x \<in> set xs \<Longrightarrow> (if P x then (1 :: nat) else 0) + (if Q x then 1 else 0) + (if R x then 1 else 0) = 1"
  shows "mset xs = mset (filter P xs) + mset (filter Q xs) + mset (filter R xs)"
  using assms
proof (induction xs)
  case (Cons x xs)
  have "(if P x then (1 :: nat) else 0) + (if Q x then 1 else 0) + (if R x then 1 else 0) = 1"
    by (rule Cons.prems) simp
  moreover have "mset xs = mset (filter P xs) + mset (filter Q xs) + mset (filter R xs)"
    by (rule Cons.IH) (rule Cons.prems, simp)
  then have "mset (x # xs) = add_mset x (mset (filter P xs) + mset (filter Q xs) + mset (filter R xs))"
    by (simp only: mset.simps)
  ultimately show ?case by (cases "P x"; cases "Q x"; cases "R x") simp_all
qed simp

lemma state_rows_partition:
  assumes "ledger_ok d" "lit ''reconciliation_state'' \<notin> fst ` set q"
  shows "mset (invoice_rows E d q)
    = mset (state_rows E d q ''unreconciled'') + mset (state_rows E d q ''partial'') + mset (state_rows E d q ''reconciled'')"
proof -
  let ?rows = "invoice_rows E d q"
  have rows: "state_rows E d q s = filter (in_state (Some (lit s))) ?rows" for s
  proof -
    have "invoice_filter E ((lit ''reconciliation_state'', lit s) # q)
      = (\<lambda>r. invoice_filter E q r \<and> in_state (Some (lit s)) r)"
      by (rule ext) (rule invoice_filter_state [OF assms(2)])
    then show ?thesis by (simp add: state_rows_def invoice_rows_def conj_commute)
  qed
  have names: "lit ''partial'' \<noteq> lit ''unreconciled''" "lit ''reconciled'' \<noteq> lit ''unreconciled''"
    "lit ''reconciled'' \<noteq> lit ''partial''" by (simp_all add: lit_def)
  have "(if in_state (Some (lit ''unreconciled'')) r then (1 :: nat) else 0)
      + (if in_state (Some (lit ''partial'')) r then 1 else 0) + (if in_state (Some (lit ''reconciled'')) r then 1 else 0) = 1"
    if "r \<in> set ?rows" for r
  proof -
    obtain b where "b \<in> set (invoices d)" "r = with_open_amount ra_invoice inv_id inv_total_amount d b"
      using \<open>r \<in> set ?rows\<close> by (auto simp: invoice_rows_def)
    with invoice_amounts [OF assms(1), of b] names show ?thesis
      by (auto simp: in_state_def with_open_amount_def)
  qed
  then show ?thesis unfolding rows by (rule mset_filter_three)
qed


definition sample_list_env :: list_env where
  "sample_list_env = \<lparr>le_upper = id, le_collate = id, le_local = (\<lambda>t. t div us_per_day + 719163)\<rparr>"

definition sample_list_request :: read_request where
  "sample_list_request = \<lparr>rq_user = finance_actor, rq_verb = lit ''GET'', rq_get = [(lit ''direction'', lit ''input'')]\<rparr>"


text \<open>The open invoices of the list are those the workbench offers.\<close>

lemma in_state_open:
  assumes "ledger_ok d" "b \<in> set (invoices d)"
  shows "in_state (Some (lit ''unreconciled'')) (with_open_amount ra_invoice inv_id inv_total_amount d b)
      \<or> in_state (Some (lit ''partial'')) (with_open_amount ra_invoice inv_id inv_total_amount d b)
    \<longleftrightarrow> 0 < invoice_open d b"
  using invoice_amounts [OF assms]
  by (auto simp: in_state_def with_open_amount_def side_open_def lit_def)

lemma workbench_items:
  assumes "ledger_ok d" "workbench_context F d q errors selected_id stale = Inr page"
  shows "map it_id (wb_invoice_items page) = map inv_id (filter (\<lambda>b. 0 < invoice_open d b) (normal_invoices d))"
  using assms(2) normal_invoices_open [OF assms(1)]
  by (auto simp: workbench_context_def Let_def bindE_Inr_iff settlement_item_of_def comp_def)

lemma normal_filter: "invoice_filter E [(lit ''status'', lit ''normal'')] r \<longleftrightarrow> inv_status (lr_row r) = lit ''normal''"
  by (simp add: invoice_filter_def Let_def get_field_def getlist_def lit_def choice_filter_def optional_def
      valid_uuid_param_def valid_date_param_def field_text_def in_state_def search_filter_def InvoiceStatus_values_def
      strip_def lstrip_def rstrip_def)

lemma workbench_offers_open:
  assumes "ledger_ok d" "workbench_context F d q errors selected_id stale = Inr page"
  shows "it_id ` set (wb_invoice_items page) = (\<lambda>r. inv_id (lr_row r)) `
    (\<Union>s\<in>{lit ''unreconciled'', lit ''partial''}. set (invoice_rows E d
        [(lit ''reconciliation_state'', s), (lit ''status'', lit ''normal'')]))"
proof -
  let ?w = "with_open_amount ra_invoice inv_id inv_total_amount d"
  have "lit ''reconciliation_state'' \<notin> fst ` set [(lit ''status'', lit ''normal'')]" by (simp add: lit_def)
  note f = invoice_filter_state [OF this]
  have rows: "set (invoice_rows E d [(lit ''reconciliation_state'', s), (lit ''status'', lit ''normal'')])
    = ?w ` {b \<in> set (invoices d). inv_status b = lit ''normal'' \<and> in_state (Some s) (?w b)}" for s
    by (auto simp: invoice_rows_def f normal_filter with_open_amount_def)
  have "(\<Union>s\<in>{lit ''unreconciled'', lit ''partial''}. set (invoice_rows E d
        [(lit ''reconciliation_state'', s), (lit ''status'', lit ''normal'')]))
    = ?w ` {b \<in> set (invoices d). inv_status b = lit ''normal'' \<and> 0 < invoice_open d b}"
    unfolding rows using in_state_open [OF assms(1)] by blast
  moreover have "it_id ` set (wb_invoice_items page) = inv_id ` {b \<in> set (invoices d). inv_status b = lit ''normal'' \<and> 0 < invoice_open d b}"
    using arg_cong [OF workbench_items [OF assms], of set] by (auto simp: normal_invoices_def)
  moreover have "(\<lambda>r. inv_id (lr_row r)) ` ?w ` A = inv_id ` A" for A :: "invoice set"
    by (simp add: image_image with_open_amount_def)
  ultimately show ?thesis by simp
qed

end
