(* ===== verification/Updater_Types.thy ===== *)
theory Updater_Types
  imports Calendar Py_Uuid
begin

text \<open>
  The persistent types of the update service (\<open>updater/types.py\<close>): release versions,
  image identities, tasks with their stages and cleanup journal, and their dictionary
  forms. A datetime of the program is always aware and in UTC and is its instant.
\<close>

section \<open>Exceptions\<close>

text \<open>
  The exceptions that cross the update service: \<open>SafeOperationError\<close> of the platform,
  \<open>UpdateConflict\<close> of the manager, \<open>StateStoreError\<close> of the store, each with its code, and
  \<open>ValueError\<close> and \<open>TypeError\<close> with their message, \<open>OSError\<close> and
  the \<open>SafeCommandError\<close> of the command runner.
\<close>

datatype uexn =
    SafeOperationError pystr
  | UpdateConflict pystr
  | StateStoreError pystr
  | UValueError pystr
  | UTypeError pystr
  | UOSError
  | SafeCommandError pystr

abbreviation invalid_state :: uexn where "invalid_state \<equiv> UValueError (lit ''invalid_state'')"

section \<open>Stages and steps\<close>

datatype stage = CHECKING | BACKING_UP | PULLING | STOPPING_WEB | MIGRATING | STARTING_WEB
  | CHECKING_HEALTH | STABILIZING | PERSISTING_VERSION | CLEANING | ROLLING_BACK | SUCCEEDED
  | FAILED | MANUAL_INTERVENTION

fun stage_value :: "stage \<Rightarrow> pystr" where
  "stage_value CHECKING = lit ''checking''"
| "stage_value BACKING_UP = lit ''backing_up''"
| "stage_value PULLING = lit ''pulling''"
| "stage_value STOPPING_WEB = lit ''stopping_web''"
| "stage_value MIGRATING = lit ''migrating''"
| "stage_value STARTING_WEB = lit ''starting_web''"
| "stage_value CHECKING_HEALTH = lit ''checking_health''"
| "stage_value STABILIZING = lit ''stabilizing''"
| "stage_value PERSISTING_VERSION = lit ''persisting_version''"
| "stage_value CLEANING = lit ''cleaning''"
| "stage_value ROLLING_BACK = lit ''rolling_back''"
| "stage_value SUCCEEDED = lit ''succeeded''"
| "stage_value FAILED = lit ''failed''"
| "stage_value MANUAL_INTERVENTION = lit ''manual_intervention''"

definition all_stages :: "stage list" where
  "all_stages = [CHECKING, BACKING_UP, PULLING, STOPPING_WEB, MIGRATING, STARTING_WEB,
     CHECKING_HEALTH, STABILIZING, PERSISTING_VERSION, CLEANING, ROLLING_BACK, SUCCEEDED,
     FAILED, MANUAL_INTERVENTION]"

datatype cleanup_status = NOT_RUN | COMPLETE | PENDING

fun cleanup_value :: "cleanup_status \<Rightarrow> pystr" where
  "cleanup_value NOT_RUN = lit ''not_run''"
| "cleanup_value COMPLETE = lit ''complete''"
| "cleanup_value PENDING = lit ''pending''"

datatype cleanup_step = VERSION_TAG | ROLLBACK_ALIAS | IMAGE_ID

datatype step_status = NOT_STARTED | STARTED | COMPLETED

fun step_value :: "step_status \<Rightarrow> pystr" where
  "step_value NOT_STARTED = lit ''not_started''"
| "step_value STARTED = lit ''started''"
| "step_value COMPLETED = lit ''completed''"

text \<open>\<open>Enum(value)\<close>: the member with this value.\<close>

definition enum_of :: "('a \<Rightarrow> pystr) \<Rightarrow> 'a list \<Rightarrow> pystr \<Rightarrow> 'a option" where
  "enum_of value members s = List.find (\<lambda>m. value m = s) members"

section \<open>The cleanup journal\<close>

record cleanup_journal =
  jr_version_tag :: step_status
  jr_rollback_alias :: step_status
  jr_image_id :: step_status

text \<open>The checks of \<open>CleanupJournal.__post_init__\<close>: a step starts after the one before it.\<close>

definition journal_valid :: "cleanup_journal \<Rightarrow> bool" where
  "journal_valid j \<longleftrightarrow>
     \<not> (jr_rollback_alias j \<noteq> NOT_STARTED \<and> jr_version_tag j \<noteq> COMPLETED)
     \<and> \<not> (jr_image_id j \<noteq> NOT_STARTED \<and> jr_rollback_alias j \<noteq> COMPLETED)"

definition make_journal ::
    "step_status \<Rightarrow> step_status \<Rightarrow> step_status \<Rightarrow> uexn + cleanup_journal" where
  "make_journal v r i =
     (let j = \<lparr>jr_version_tag = v, jr_rollback_alias = r, jr_image_id = i\<rparr>
      in if journal_valid j then Inr j else Inl invalid_state)"

definition new_journal :: cleanup_journal where
  "new_journal = \<lparr>jr_version_tag = NOT_STARTED, jr_rollback_alias = NOT_STARTED,
     jr_image_id = NOT_STARTED\<rparr>"

definition journal_complete :: "cleanup_journal \<Rightarrow> bool" where
  "journal_complete j \<longleftrightarrow> jr_image_id j = COMPLETED"

fun journal_get :: "cleanup_journal \<Rightarrow> cleanup_step \<Rightarrow> step_status" where
  "journal_get j VERSION_TAG = jr_version_tag j"
| "journal_get j ROLLBACK_ALIAS = jr_rollback_alias j"
| "journal_get j IMAGE_ID = jr_image_id j"

text \<open>\<open>replace(journal, **{step.value: status})\<close>, which runs the checks again.\<close>

fun journal_replace ::
    "cleanup_journal \<Rightarrow> cleanup_step \<Rightarrow> step_status \<Rightarrow> uexn + cleanup_journal" where
  "journal_replace j VERSION_TAG s = make_journal s (jr_rollback_alias j) (jr_image_id j)"
| "journal_replace j ROLLBACK_ALIAS s = make_journal (jr_version_tag j) s (jr_image_id j)"
| "journal_replace j IMAGE_ID s = make_journal (jr_version_tag j) (jr_rollback_alias j) s"

definition journal_to_dict :: "cleanup_journal \<Rightarrow> json" where
  "journal_to_dict j = JObj [(lit ''version_tag'', JStr (step_value (jr_version_tag j))),
     (lit ''rollback_alias'', JStr (step_value (jr_rollback_alias j))),
     (lit ''image_id'', JStr (step_value (jr_image_id j)))]"

text \<open>\<open>_require_exact_keys\<close>. An object of JSON text has distinct keys.\<close>

definition require_exact_keys :: "json \<Rightarrow> pystr list \<Rightarrow> uexn + (pystr \<times> json) list" where
  "require_exact_keys payload expected =
     (case payload of
        JObj ms \<Rightarrow> if fst ` set ms = set expected then Inr ms else Inl invalid_state
      | _ \<Rightarrow> Inl invalid_state)"

definition field :: "(pystr \<times> json) list \<Rightarrow> string \<Rightarrow> json" where
  "field ms k = (case map_of ms (lit k) of None \<Rightarrow> JNull | Some v \<Rightarrow> v)"

fun as_str :: "json \<Rightarrow> uexn + pystr" where
  "as_str (JStr s) = Inr s"
| "as_str _ = Inl invalid_state"

fun as_bool :: "json \<Rightarrow> uexn + bool" where
  "as_bool (JBool b) = Inr b"
| "as_bool _ = Inl invalid_state"

fun as_str_list :: "json \<Rightarrow> uexn + pystr list" where
  "as_str_list (JList xs) = traverse as_str xs"
| "as_str_list _ = Inl invalid_state"

definition as_enum :: "('a \<Rightarrow> pystr) \<Rightarrow> 'a list \<Rightarrow> json \<Rightarrow> uexn + 'a" where
  "as_enum value members v =
     bindE (as_str v) (\<lambda>s. case enum_of value members s of
       None \<Rightarrow> Inl invalid_state | Some m \<Rightarrow> Inr m)"

abbreviation as_step :: "json \<Rightarrow> uexn + step_status" where
  "as_step \<equiv> as_enum step_value [NOT_STARTED, STARTED, COMPLETED]"

definition journal_from_dict :: "json \<Rightarrow> uexn + cleanup_journal" where
  "journal_from_dict payload =
     bindE (require_exact_keys payload
              [lit ''version_tag'', lit ''rollback_alias'', lit ''image_id'']) (\<lambda>ms.
     bindE (as_step (field ms ''version_tag'')) (\<lambda>v.
     bindE (as_step (field ms ''rollback_alias'')) (\<lambda>r.
     bindE (as_step (field ms ''image_id'')) (\<lambda>i. make_journal v r i))))"

section \<open>Versions\<close>

text \<open>\<open>0|[1-9][0-9]*\<close>, and \<open>VERSION_PATTERN\<close>.\<close>

definition version_part :: "pystr \<Rightarrow> bool" where
  "version_part p \<longleftrightarrow> p = [48] \<or> (p \<noteq> [] \<and> hd p \<noteq> 48 \<and> (\<forall>c\<in>set p. 48 \<le> c \<and> c \<le> 57))"

definition version_ok :: "pystr \<Rightarrow> bool" where
  "version_ok v \<longleftrightarrow>
     v \<noteq> [] \<and> hd v = 118 \<and> length (split_on 46 (tl v)) = 3
     \<and> (\<forall>p\<in>set (split_on 46 (tl v)). version_part p)"

definition validate_version :: "pystr \<Rightarrow> uexn + pystr" where
  "validate_version v =
     (if version_ok v then Inr v else Inl (UValueError (lit ''invalid_version'')))"

definition version_key :: "pystr \<Rightarrow> uexn + nat \<times> nat \<times> nat" where
  "version_key v =
     bindE (validate_version v) (\<lambda>s.
       case map parse_digits (split_on 46 (tl s)) of
         [Some a, Some b, Some c] \<Rightarrow> Inr (a, b, c)
       | _ \<Rightarrow> Inl (UValueError (lit ''invalid_version'')))"

section \<open>Image identities\<close>

record image_identity =
  im_repository :: pystr
  im_version :: pystr
  im_digest :: pystr
  im_image_id :: pystr
  im_tags :: "pystr list"
  im_rollback_alias :: pystr
  im_published_at :: "instant option"

text \<open>The check of \<open>ImageIdentity.__post_init__\<close>, on the constructed value.\<close>

definition make_image :: "image_identity \<Rightarrow> uexn + image_identity" where
  "make_image i = bindE (validate_version (im_version i)) (\<lambda>_. Inr i)"

definition datetime_to_dict :: "instant option \<Rightarrow> json" where
  "datetime_to_dict t = (case t of None \<Rightarrow> JNull | Some x \<Rightarrow> JStr (iso_utc x))"

definition datetime_from_dict :: "bool \<Rightarrow> json \<Rightarrow> uexn + instant option" where
  "datetime_from_dict nullable v =
     (case v of
        JNull \<Rightarrow> if nullable then Inr None else Inl (UTypeError (lit ''invalid_timestamp''))
      | JStr s \<Rightarrow>
          (case parse_iso_datetime s of
             None \<Rightarrow> Inl (UValueError (lit ''invalid_timestamp''))
           | Some (t, z) \<Rightarrow> if z = Some 0 then Inr (Some t)
                           else Inl (UValueError (lit ''timestamp_must_be_utc'')))
      | _ \<Rightarrow> Inl (UTypeError (lit ''invalid_timestamp'')))"

definition image_to_dict :: "image_identity \<Rightarrow> json" where
  "image_to_dict i = JObj [(lit ''repository'', JStr (im_repository i)),
     (lit ''version'', JStr (im_version i)), (lit ''digest'', JStr (im_digest i)),
     (lit ''image_id'', JStr (im_image_id i)), (lit ''tags'', JList (map JStr (im_tags i))),
     (lit ''rollback_alias'', JStr (im_rollback_alias i)),
     (lit ''published_at'', datetime_to_dict (im_published_at i))]"

definition image_from_dict :: "json \<Rightarrow> uexn + image_identity" where
  "image_from_dict payload =
     bindE (require_exact_keys payload
              [lit ''repository'', lit ''version'', lit ''digest'', lit ''image_id'', lit ''tags'',
               lit ''rollback_alias'', lit ''published_at'']) (\<lambda>ms.
     bindE (as_str (field ms ''repository'')) (\<lambda>repository.
     bindE (as_str (field ms ''version'')) (\<lambda>version.
     bindE (as_str (field ms ''digest'')) (\<lambda>digest.
     bindE (as_str (field ms ''image_id'')) (\<lambda>image_id.
     bindE (as_str (field ms ''rollback_alias'')) (\<lambda>rollback_alias.
     bindE (as_str_list (field ms ''tags'')) (\<lambda>tags.
     bindE (datetime_from_dict True (field ms ''published_at'')) (\<lambda>published_at.
     make_image \<lparr>im_repository = repository, im_version = version, im_digest = digest,
       im_image_id = image_id, im_tags = tags, im_rollback_alias = rollback_alias,
       im_published_at = published_at\<rparr>))))))))"

section \<open>Checks, tasks and the persistent state\<close>

record check_result =
  ck_current :: image_identity
  ck_target :: image_identity
  ck_available :: bool
  ck_checked_at :: instant

definition check_to_dict :: "check_result \<Rightarrow> json" where
  "check_to_dict c = JObj [(lit ''current'', image_to_dict (ck_current c)),
     (lit ''target'', image_to_dict (ck_target c)), (lit ''available'', JBool (ck_available c)),
     (lit ''checked_at'', datetime_to_dict (Some (ck_checked_at c)))]"

definition check_from_dict :: "json \<Rightarrow> uexn + check_result" where
  "check_from_dict payload =
     bindE (require_exact_keys payload
              [lit ''current'', lit ''target'', lit ''available'', lit ''checked_at'']) (\<lambda>ms.
     bindE (as_bool (field ms ''available'')) (\<lambda>available.
     bindE (datetime_from_dict False (field ms ''checked_at'')) (\<lambda>checked_at.
     bindE (image_from_dict (field ms ''current'')) (\<lambda>current.
     bindE (image_from_dict (field ms ''target'')) (\<lambda>target.
     Inr \<lparr>ck_current = current, ck_target = target, ck_available = available,
           ck_checked_at = the checked_at\<rparr>)))))"

record update_task =
  ut_id :: uuid
  ut_original :: image_identity
  ut_target :: image_identity
  ut_stage :: stage
  ut_created_at :: instant
  ut_started_at :: "instant option"
  ut_finished_at :: "instant option"
  ut_database_backup :: pystr
  ut_uploads_backup :: pystr
  ut_rolled_back :: bool
  ut_cleanup :: cleanup_status
  ut_cleanup_journal :: "cleanup_journal option"
  ut_error_code :: pystr
  ut_error_message :: pystr

definition new_task :: "uuid \<Rightarrow> image_identity \<Rightarrow> image_identity \<Rightarrow> instant \<Rightarrow> update_task" where
  "new_task i original target now =
     \<lparr>ut_id = i, ut_original = original, ut_target = target, ut_stage = CHECKING,
      ut_created_at = now, ut_started_at = None, ut_finished_at = None,
      ut_database_backup = [], ut_uploads_backup = [], ut_rolled_back = False,
      ut_cleanup = NOT_RUN, ut_cleanup_journal = Some new_journal, ut_error_code = [],
      ut_error_message = []\<rparr>"

record persistent_state =
  ps_last_check :: "check_result option"
  ps_task :: "update_task option"

definition empty_state :: persistent_state where
  "empty_state = \<lparr>ps_last_check = None, ps_task = None\<rparr>"

definition task_fields :: "pystr list" where
  "task_fields = [lit ''id'', lit ''original'', lit ''target'', lit ''stage'', lit ''created_at'',
     lit ''started_at'', lit ''finished_at'', lit ''database_backup'', lit ''uploads_backup'',
     lit ''rolled_back'', lit ''cleanup'', lit ''cleanup_journal'', lit ''error_code'',
     lit ''error_message'']"

definition task_to_dict :: "update_task \<Rightarrow> json" where
  "task_to_dict t = JObj [(lit ''id'', JStr (uuid_str (ut_id t))),
     (lit ''original'', image_to_dict (ut_original t)), (lit ''target'', image_to_dict (ut_target t)),
     (lit ''stage'', JStr (stage_value (ut_stage t))),
     (lit ''created_at'', datetime_to_dict (Some (ut_created_at t))),
     (lit ''started_at'', datetime_to_dict (ut_started_at t)),
     (lit ''finished_at'', datetime_to_dict (ut_finished_at t)),
     (lit ''database_backup'', JStr (ut_database_backup t)),
     (lit ''uploads_backup'', JStr (ut_uploads_backup t)),
     (lit ''rolled_back'', JBool (ut_rolled_back t)),
     (lit ''cleanup'', JStr (cleanup_value (ut_cleanup t))),
     (lit ''cleanup_journal'',
        (case ut_cleanup_journal t of None \<Rightarrow> JNull | Some j \<Rightarrow> journal_to_dict j)),
     (lit ''error_code'', JStr (ut_error_code t)), (lit ''error_message'', JStr (ut_error_message t))]"

text \<open>
  \<open>UpdateTask.from_dict\<close>: a state of an older release has no \<open>cleanup_journal\<close> member and
  then no journal.
\<close>

definition task_from_dict :: "json \<Rightarrow> uexn + update_task" where
  "task_from_dict payload =
     (case payload of
        JObj ms \<Rightarrow>
          if fst ` set ms \<noteq> set task_fields
             \<and> fst ` set ms \<noteq> set task_fields - {lit ''cleanup_journal''}
          then Inl invalid_state
          else
     bindE (as_str (field ms ''id'')) (\<lambda>id_text.
     bindE (as_str (field ms ''stage'')) (\<lambda>stage_text.
     bindE (as_str (field ms ''database_backup'')) (\<lambda>database_backup.
     bindE (as_str (field ms ''uploads_backup'')) (\<lambda>uploads_backup.
     bindE (as_str (field ms ''cleanup'')) (\<lambda>cleanup_text.
     bindE (as_str (field ms ''error_code'')) (\<lambda>error_code.
     bindE (as_str (field ms ''error_message'')) (\<lambda>error_message.
     bindE (as_bool (field ms ''rolled_back'')) (\<lambda>rolled_back.
     case (parse_uuid id_text, enum_of stage_value all_stages stage_text,
           enum_of cleanup_value [NOT_RUN, COMPLETE, PENDING] cleanup_text) of
       (Some i, Some st, Some cl) \<Rightarrow>
         bindE (datetime_from_dict False (field ms ''created_at'')) (\<lambda>created_at.
         bindE (image_from_dict (field ms ''original'')) (\<lambda>original.
         bindE (image_from_dict (field ms ''target'')) (\<lambda>target.
         bindE (datetime_from_dict True (field ms ''started_at'')) (\<lambda>started_at.
         bindE (datetime_from_dict True (field ms ''finished_at'')) (\<lambda>finished_at.
         bindE (if field ms ''cleanup_journal'' = JNull then Inr None
                else map_sum id Some (journal_from_dict (field ms ''cleanup_journal''))) (\<lambda>journal.
         Inr \<lparr>ut_id = i, ut_original = original, ut_target = target, ut_stage = st,
               ut_created_at = the created_at, ut_started_at = started_at,
               ut_finished_at = finished_at, ut_database_backup = database_backup,
               ut_uploads_backup = uploads_backup, ut_rolled_back = rolled_back,
               ut_cleanup = cl, ut_cleanup_journal = journal, ut_error_code = error_code,
               ut_error_message = error_message\<rparr>))))))
     | _ \<Rightarrow> Inl invalid_state))))))))
      | _ \<Rightarrow> Inl invalid_state)"

definition state_to_dict :: "persistent_state \<Rightarrow> json" where
  "state_to_dict s = JObj
     [(lit ''last_check'', (case ps_last_check s of None \<Rightarrow> JNull | Some c \<Rightarrow> check_to_dict c)),
      (lit ''task'', (case ps_task s of None \<Rightarrow> JNull | Some t \<Rightarrow> task_to_dict t))]"

definition nullable :: "(json \<Rightarrow> uexn + 'a) \<Rightarrow> json \<Rightarrow> uexn + 'a option" where
  "nullable f v = (if v = JNull then Inr None else map_sum id Some (f v))"

definition state_from_dict :: "json \<Rightarrow> uexn + persistent_state" where
  "state_from_dict payload =
     bindE (require_exact_keys payload [lit ''last_check'', lit ''task'']) (\<lambda>ms.
     bindE (nullable check_from_dict (field ms ''last_check'')) (\<lambda>c.
     bindE (nullable task_from_dict (field ms ''task'')) (\<lambda>t.
     Inr \<lparr>ps_last_check = c, ps_task = t\<rparr>)))"

section \<open>Views\<close>

definition public_error_messages :: "(pystr \<times> pystr) list" where
  "public_error_messages =
     [([], []),
      (lit ''backup_failed'', [22791, 20221, 22833, 36133, 65292, 35831, 32852, 31995, 31649,
     29702, 21592, 12290]),
      (lit ''pull_failed'', [19979, 36733, 21319, 32423, 29256, 26412, 22833, 36133, 65292,
     35831, 32852, 31995, 31649, 29702, 21592, 12290]),
      (lit ''migration_failed'', [21319, 32423, 22833, 36133, 65292, 35831, 32852, 31995, 31649,
     29702, 21592, 12290]),
      (lit ''health_check_failed'', [21319, 32423, 21518, 26816, 26597, 22833, 36133, 65292,
     35831, 32852, 31995, 31649, 29702, 21592, 12290]),
      (lit ''rollback_failed'', [21319, 32423, 22833, 36133, 65292, 38656, 35201, 20154, 24037,
     22788, 29702, 12290]),
      (lit ''update_failed'', [21319, 32423, 22833, 36133, 65292, 35831, 32852, 31995, 31649,
     29702, 21592, 12290])]"

definition public_error :: "pystr \<Rightarrow> pystr \<times> pystr" where
  "public_error code =
     (case map_of public_error_messages code of
        Some message \<Rightarrow> (code, message)
      | None \<Rightarrow> (lit ''update_failed'',
                 the (map_of public_error_messages (lit ''update_failed''))))"

record task_view =
  tv_id :: uuid
  tv_from_version :: pystr
  tv_to_version :: pystr
  tv_stage :: stage
  tv_created_at :: instant
  tv_started_at :: "instant option"
  tv_finished_at :: "instant option"
  tv_backup_complete :: bool
  tv_rolled_back :: bool
  tv_cleanup :: cleanup_status
  tv_error_code :: pystr
  tv_error_message :: pystr

definition public_view :: "update_task \<Rightarrow> uexn + task_view" where
  "public_view t =
     bindE (validate_version (im_version (ut_original t))) (\<lambda>from_version.
     bindE (validate_version (im_version (ut_target t))) (\<lambda>to_version.
     Inr \<lparr>tv_id = ut_id t, tv_from_version = from_version, tv_to_version = to_version,
           tv_stage = ut_stage t, tv_created_at = ut_created_at t,
           tv_started_at = ut_started_at t, tv_finished_at = ut_finished_at t,
           tv_backup_complete = (ut_database_backup t \<noteq> [] \<and> ut_uploads_backup t \<noteq> []),
           tv_rolled_back = ut_rolled_back t, tv_cleanup = ut_cleanup t,
           tv_error_code = fst (public_error (ut_error_code t)),
           tv_error_message = snd (public_error (ut_error_code t))\<rparr>))"

record status_view =
  sv_current_version :: pystr
  sv_current_published_at :: "instant option"
  sv_latest_version :: "pystr option"
  sv_latest_published_at :: "instant option"
  sv_update_available :: bool
  sv_checked_at :: "instant option"
  sv_task :: "task_view option"

definition make_status_view :: "status_view \<Rightarrow> uexn + status_view" where
  "make_status_view v =
     bindE (validate_version (sv_current_version v)) (\<lambda>_.
     bindE (case sv_latest_version v of None \<Rightarrow> Inr [] | Some x \<Rightarrow> validate_version x) (\<lambda>_.
     Inr v))"

definition task_view_to_dict :: "task_view \<Rightarrow> json" where
  "task_view_to_dict v = JObj [(lit ''id'', JStr (uuid_str (tv_id v))),
     (lit ''from_version'', JStr (tv_from_version v)), (lit ''to_version'', JStr (tv_to_version v)),
     (lit ''stage'', JStr (stage_value (tv_stage v))),
     (lit ''created_at'', datetime_to_dict (Some (tv_created_at v))),
     (lit ''started_at'', datetime_to_dict (tv_started_at v)),
     (lit ''finished_at'', datetime_to_dict (tv_finished_at v)),
     (lit ''backup_complete'', JBool (tv_backup_complete v)),
     (lit ''rolled_back'', JBool (tv_rolled_back v)),
     (lit ''cleanup'', JStr (cleanup_value (tv_cleanup v))),
     (lit ''error_code'', JStr (tv_error_code v)), (lit ''error_message'', JStr (tv_error_message v))]"

definition status_view_to_dict :: "status_view \<Rightarrow> json" where
  "status_view_to_dict v = JObj [(lit ''current_version'', JStr (sv_current_version v)),
     (lit ''current_published_at'', datetime_to_dict (sv_current_published_at v)),
     (lit ''latest_version'',
        (case sv_latest_version v of None \<Rightarrow> JNull | Some x \<Rightarrow> JStr x)),
     (lit ''latest_published_at'', datetime_to_dict (sv_latest_published_at v)),
     (lit ''update_available'', JBool (sv_update_available v)),
     (lit ''checked_at'', datetime_to_dict (sv_checked_at v)),
     (lit ''task'', (case sv_task v of None \<Rightarrow> JNull | Some t \<Rightarrow> task_view_to_dict t))]"

end
