(* ===== verification/Py_Json.thy ===== *)
theory Py_Json
  imports Dec_Text Py_Bytes
begin

text \<open>
  JSON text: \<open>json.dumps(value, separators=(",", ":"))\<close> with the ASCII escapes that are its
  default, and \<open>json.loads\<close> of a text. The parser keeps every member of an object in order;
  \<open>last_members\<close> and \<open>no_duplicates\<close> are the two ways the program builds its dictionaries.
\<close>

section \<open>Writing\<close>

text \<open>\<open>\uXXXX\<close>.\<close>

definition unicode_escape :: "nat \<Rightarrow> pystr" where
  "unicode_escape c = [92, 117, hex_digit (c div 4096), hex_digit (c div 256 mod 16),
     hex_digit (c div 16 mod 16), hex_digit (c mod 16)]"

definition short_escapes :: "(nat \<times> nat) list" where
  "short_escapes = [(34, 34), (92, 92), (10, 110), (13, 114), (9, 116), (12, 102), (8, 98)]"

definition json_char :: "nat \<Rightarrow> pystr" where
  "json_char c =
     (case map_of short_escapes c of
        Some e \<Rightarrow> [92, e]
      | None \<Rightarrow>
          if 32 \<le> c \<and> c \<le> 126 then [c]
          else if c < 65536 then unicode_escape c
          else unicode_escape (55296 + (c - 65536) div 1024)
               @ unicode_escape (56320 + (c - 65536) mod 1024))"

definition json_string :: "pystr \<Rightarrow> pystr" where
  "json_string s = 34 # concat (map json_char s) @ [34]"

fun json_dumps :: "json \<Rightarrow> pystr" and dump_items :: "json list \<Rightarrow> pystr"
  and dump_members :: "(pystr \<times> json) list \<Rightarrow> pystr" where
  "json_dumps JNull = lit ''null''"
| "json_dumps (JBool b) = (if b then lit ''true'' else lit ''false'')"
| "json_dumps (JInt i) = str_int i"
| "json_dumps (JNum t) = t"
| "json_dumps (JStr s) = json_string s"
| "json_dumps (JList xs) = 91 # dump_items xs"
| "json_dumps (JObj ms) = 123 # dump_members ms"
| "dump_items [] = [93]"
| "dump_items [x] = json_dumps x @ [93]"
| "dump_items (x # y # xs) = json_dumps x @ 44 # dump_items (y # xs)"
| "dump_members [] = [125]"
| "dump_members [(k, v)] = json_string k @ 58 # json_dumps v @ [125]"
| "dump_members ((k, v) # m # ms) = json_string k @ 58 # json_dumps v @ 44 # dump_members (m # ms)"

section \<open>Reading\<close>

definition json_space :: "nat \<Rightarrow> bool" where
  "json_space c \<longleftrightarrow> c = 32 \<or> c = 9 \<or> c = 10 \<or> c = 13"

definition skip_ws :: "pystr \<Rightarrow> pystr" where
  "skip_ws s = dropWhile json_space s"

text \<open>Four hexadecimal digits and what follows.\<close>

definition scan_hex4 :: "pystr \<Rightarrow> (nat \<times> pystr) option" where
  "scan_hex4 s =
     (case s of
        a # b # c # d # r \<Rightarrow>
          (case (hex_val a, hex_val b, hex_val c, hex_val d) of
             (Some w, Some x, Some y, Some z) \<Rightarrow> Some (4096 * w + 256 * x + 16 * y + z, r)
           | _ \<Rightarrow> None)
      | _ \<Rightarrow> None)"

text \<open>An escape sequence after its backslash; two surrogates in a row are one character.\<close>

definition scan_unicode :: "pystr \<Rightarrow> (nat \<times> pystr) option" where
  "scan_unicode s =
     (case scan_hex4 s of
        None \<Rightarrow> None
      | Some (u, r) \<Rightarrow>
          if 55296 \<le> u \<and> u \<le> 56319 \<and> take 2 r = [92, 117]
          then (case scan_hex4 (drop 2 r) of
                  Some (l, r') \<Rightarrow>
                    if 56320 \<le> l \<and> l \<le> 57343
                    then Some (65536 + (u - 55296) * 1024 + (l - 56320), r') else Some (u, r)
                | None \<Rightarrow> Some (u, r))
          else Some (u, r))"

definition scan_escape :: "pystr \<Rightarrow> (nat \<times> pystr) option" where
  "scan_escape s =
     (case s of
        [] \<Rightarrow> None
      | e # r \<Rightarrow>
          if e = 117 then scan_unicode r
          else map_option (\<lambda>c. (c, r))
                 (map_of ((47, 47) # map (\<lambda>(c, e). (e, c)) short_escapes) e))"

lemma scan_hex4_length: "scan_hex4 s = Some (u, r) \<Longrightarrow> length r < length s"
  by (auto simp: scan_hex4_def split: list.splits option.splits)

lemma scan_unicode_length: "scan_unicode s = Some (u, r) \<Longrightarrow> length r < length s"
proof -
  assume a: "scan_unicode s = Some (u, r)"
  then obtain v q where v: "scan_hex4 s = Some (v, q)"
    by (auto simp: scan_unicode_def split: option.splits)
  have "r = q \<or> (\<exists>l. scan_hex4 (drop 2 q) = Some (l, r))"
    using a v by (auto simp: scan_unicode_def split: option.splits if_splits prod.splits)
  then show ?thesis
    using scan_hex4_length [OF v] by (auto dest!: scan_hex4_length)
qed

lemma scan_escape_length: "scan_escape s = Some (u, r) \<Longrightarrow> length r < length s"
  by (auto simp: scan_escape_def split: list.splits if_splits dest!: scan_unicode_length)

text \<open>The rest of a string literal after its opening quote.\<close>

function scan_string :: "pystr \<Rightarrow> (pystr \<times> pystr) option" where
  "scan_string s =
     (case s of
        [] \<Rightarrow> None
      | c # cs \<Rightarrow>
          if c = 34 then Some ([], cs)
          else if c = 92
          then (case scan_escape cs of
                  None \<Rightarrow> None
                | Some (x, r) \<Rightarrow> map_option (\<lambda>(t, q). (x # t, q)) (scan_string r))
          else if c < 32 then None
          else map_option (\<lambda>(t, q). (c # t, q)) (scan_string cs))"
  by pat_completeness auto
termination
  by (relation "measure length") (auto dest: scan_escape_length)

declare scan_string.simps [simp del]

text \<open>
  Numbers: \<open>-?(0|[1-9][0-9]*)\<close> with an optional fraction and exponent. An integer has at
  most 4300 digits, the limit of \<open>int(text)\<close>.
\<close>

definition is_digit :: "nat \<Rightarrow> bool" where
  "is_digit c \<longleftrightarrow> 48 \<le> c \<and> c \<le> 57"

definition scan_fraction :: "pystr \<Rightarrow> pystr \<times> pystr" where
  "scan_fraction s =
     (case s of
        c # r \<Rightarrow>
          if c = 46 \<and> takeWhile is_digit r \<noteq> []
          then (c # takeWhile is_digit r, dropWhile is_digit r) else ([], s)
      | [] \<Rightarrow> ([], s))"

definition scan_exponent :: "pystr \<Rightarrow> pystr \<times> pystr" where
  "scan_exponent s =
     (case s of
        c # r \<Rightarrow>
          (let sign = (case r of d # _ \<Rightarrow> if d = 43 \<or> d = 45 then [d] else [] | [] \<Rightarrow> []);
               q = drop (length sign) r
           in if (c = 101 \<or> c = 69) \<and> takeWhile is_digit q \<noteq> []
              then (c # sign @ takeWhile is_digit q, dropWhile is_digit q) else ([], s))
      | [] \<Rightarrow> ([], s))"

definition number_digits :: "pystr \<Rightarrow> pystr" where
  "number_digits s = (if take 1 s = [48] then [48] else takeWhile is_digit s)"

definition number_value :: "pystr \<Rightarrow> pystr \<Rightarrow> pystr \<Rightarrow> (json \<times> pystr) option" where
  "number_value sign digits rest =
     (let (fraction, s1) = scan_fraction rest; (exponent, s2) = scan_exponent s1
      in if digits = [] then None
         else if fraction = [] \<and> exponent = []
         then if 4300 < length digits then None
              else map_option (\<lambda>n. (JInt (if sign = [] then int n else - int n), s2))
                     (parse_digits digits)
         else Some (JNum (sign @ digits @ fraction @ exponent), s2))"

definition scan_number :: "pystr \<Rightarrow> (json \<times> pystr) option" where
  "scan_number s =
     (let sign = (if take 1 s = [45] then [45] else []);
          body = drop (length sign) s; digits = number_digits body
      in number_value sign digits (drop (length digits) body))"

definition constants :: "(pystr \<times> json) list" where
  "constants = [(lit ''null'', JNull), (lit ''true'', JBool True), (lit ''false'', JBool False),
     (lit ''NaN'', JNum (lit ''NaN'')), (lit ''Infinity'', JNum (lit ''Infinity'')),
     (lit ''-Infinity'', JNum (lit ''-Infinity''))]"

definition scan_atom :: "pystr \<Rightarrow> (json \<times> pystr) option" where
  "scan_atom s =
     (case List.find (\<lambda>(w, v). startswith s w) constants of
        Some (w, v) \<Rightarrow> Some (v, drop (length w) s)
      | None \<Rightarrow> scan_number s)"

text \<open>
  Values, the elements of an array after \<open>[\<close> and the members of an object after \<open>{\<close>; the
  first argument bounds the nesting of the calls.
\<close>

fun parse_value :: "nat \<Rightarrow> pystr \<Rightarrow> (json \<times> pystr) option"
  and parse_items :: "nat \<Rightarrow> pystr \<Rightarrow> (json list \<times> pystr) option"
  and parse_members :: "nat \<Rightarrow> pystr \<Rightarrow> ((pystr \<times> json) list \<times> pystr) option" where
  "parse_value 0 s = None"
| "parse_value (Suc n) s =
     (case s of
        [] \<Rightarrow> None
      | c # cs \<Rightarrow>
          if c = 34 then map_option (\<lambda>(t, r). (JStr t, r)) (scan_string cs)
          else if c = 91
          then (case skip_ws cs of
                  [] \<Rightarrow> None
                | d # ds \<Rightarrow>
                    if d = 93 then Some (JList [], ds)
                    else map_option (\<lambda>(xs, r). (JList xs, r)) (parse_items n (d # ds)))
          else if c = 123
          then (case skip_ws cs of
                  [] \<Rightarrow> None
                | d # ds \<Rightarrow>
                    if d = 125 then Some (JObj [], ds)
                    else map_option (\<lambda>(ms, r). (JObj ms, r)) (parse_members n (d # ds)))
          else scan_atom s)"
| "parse_items 0 s = None"
| "parse_items (Suc n) s =
     (case parse_value n s of
        None \<Rightarrow> None
      | Some (v, r) \<Rightarrow>
          (case skip_ws r of
             [] \<Rightarrow> None
           | d # ds \<Rightarrow>
               if d = 93 then Some ([v], ds)
               else if d = 44
               then map_option (\<lambda>(vs, q). (v # vs, q)) (parse_items n (skip_ws ds))
               else None))"
| "parse_members 0 s = None"
| "parse_members (Suc n) s =
     (case s of
        [] \<Rightarrow> None
      | c # cs \<Rightarrow>
          if c \<noteq> 34 then None
          else
            (case scan_string cs of
               None \<Rightarrow> None
             | Some (k, r) \<Rightarrow>
                 (case skip_ws r of
                    [] \<Rightarrow> None
                  | d # ds \<Rightarrow>
                      if d \<noteq> 58 then None
                      else
                        (case parse_value n (skip_ws ds) of
                           None \<Rightarrow> None
                         | Some (v, q) \<Rightarrow>
                             (case skip_ws q of
                                [] \<Rightarrow> None
                              | e # es \<Rightarrow>
                                  if e = 125 then Some ([(k, v)], es)
                                  else if e = 44
                                  then map_option (\<lambda>(ms, p). ((k, v) # ms, p))
                                         (parse_members n (skip_ws es))
                                  else None)))))"

definition parse_json :: "pystr \<Rightarrow> json option" where
  "parse_json s =
     (if take 1 s = [65279] then None
      else
        (case parse_value (2 * length s + 1) (skip_ws s) of
           Some (v, r) \<Rightarrow> if skip_ws r = [] then Some v else None
         | None \<Rightarrow> None))"

text \<open>A later member replaces an earlier one with its key, in its place.\<close>

fun last_members :: "json \<Rightarrow> json" where
  "last_members (JList xs) = JList (map last_members xs)"
| "last_members (JObj ms) =
     JObj (foldl (\<lambda>d (k, v). AList.update k v d) [] (map (\<lambda>(k, v). (k, last_members v)) ms))"
| "last_members v = v"

text \<open>\<open>json.loads(text)\<close>; \<open>None\<close> is the \<open>JSONDecodeError\<close>, a \<open>ValueError\<close>.\<close>

definition json_loads :: "pystr \<Rightarrow> json option" where
  "json_loads s = map_option last_members (parse_json s)"

text \<open>
  With an \<open>object_pairs_hook\<close> that raises for a repeated key, and with a \<open>parse_constant\<close> that
  raises for \<open>NaN\<close> and the infinities.
\<close>

fun no_duplicates :: "json \<Rightarrow> bool" where
  "no_duplicates (JList xs) = list_all no_duplicates xs"
| "no_duplicates (JObj ms) = (distinct (map fst ms) \<and> list_all (\<lambda>(k, v). no_duplicates v) ms)"
| "no_duplicates v = True"

fun no_constants :: "json \<Rightarrow> bool" where
  "no_constants (JList xs) = list_all no_constants xs"
| "no_constants (JObj ms) = list_all (\<lambda>(k, v). no_constants v) ms"
| "no_constants (JNum t) = (t \<notin> {lit ''NaN'', lit ''Infinity'', lit ''-Infinity''})"
| "no_constants v = True"

definition json_loads_distinct :: "pystr \<Rightarrow> json option" where
  "json_loads_distinct s =
     (case parse_json s of Some v \<Rightarrow> if no_duplicates v then Some v else None | None \<Rightarrow> None)"

definition json_loads_strict :: "pystr \<Rightarrow> json option" where
  "json_loads_strict s =
     (case parse_json s of
        Some v \<Rightarrow> if no_duplicates v \<and> no_constants v then Some v else None | None \<Rightarrow> None)"

section \<open>The round trip\<close>

text \<open>The values that survive: no lone surrogates, no floats, no huge integers.\<close>

fun json_plain :: "json \<Rightarrow> bool" where
  "json_plain (JInt i) = (length (str_nat (nat \<bar>i\<bar>)) \<le> 4300)"
| "json_plain (JNum t) = False"
| "json_plain (JStr s) = list_all scalar s"
| "json_plain (JList xs) = list_all json_plain xs"
| "json_plain (JObj ms) = list_all (\<lambda>(k, v). list_all scalar k \<and> json_plain v) ms"
| "json_plain v = True"

lemma hex4_value: "c < 65536 \<Longrightarrow>
    4096 * (c div 4096) + 256 * (c div 256 mod 16) + 16 * (c div 16 mod 16) + c mod 16 = (c::nat)"
proof -
  define x y where "x = c div 16" and "y = x div 16"
  have e: "c div 4096 = y div 16" "c div 256 = y" "c div 16 = x"
    by (simp_all add: x_def y_def div_mult2_eq [symmetric])
  have "16 * (y div 16) + y mod 16 = y" "16 * y + x mod 16 = x" "16 * x + c mod 16 = c"
    by (simp_all add: x_def y_def)
  then show ?thesis
    unfolding e by linarith
qed

lemma scan_hex4_escape:
  assumes "c < 65536"
  shows "scan_hex4 (drop 2 (unicode_escape c) @ r) = Some (c, r)"
proof -
  have "c div 4096 < 16" using assms by (simp add: less_mult_imp_div_less)
  then show ?thesis
    using hex4_value [OF assms]
    by (simp add: scan_hex4_def unicode_escape_def hex_val_digit)
qed

lemma scan_string_step:
  "c \<noteq> 34 \<Longrightarrow> c \<noteq> 92 \<Longrightarrow> 32 \<le> c \<Longrightarrow>
     scan_string (c # cs) = map_option (\<lambda>(t, q). (c # t, q)) (scan_string cs)"
  "scan_escape cs = Some (x, r) \<Longrightarrow>
     scan_string (92 # cs) = map_option (\<lambda>(t, q). (x # t, q)) (scan_string r)"
  by (subst scan_string.simps; simp)+

lemma scan_escape_unicode: "scan_escape (tl (unicode_escape c) @ q) = scan_unicode (drop 2 (unicode_escape c) @ q)"
  by (simp add: scan_escape_def unicode_escape_def)

lemma scan_unicode_bmp:
  assumes "c < 65536" "scalar c"
  shows "scan_unicode (drop 2 (unicode_escape c) @ q) = Some (c, q)"
  using assms by (auto simp: scan_unicode_def scan_hex4_escape scalar_def)

lemma unicode_escape_head: "unicode_escape c = 92 # tl (unicode_escape c)"
  "unicode_escape c = [92, 117] @ drop 2 (unicode_escape c)"
  by (simp_all add: unicode_escape_def)

lemma scan_unicode_pair:
  assumes "u < 1024" "l < 1024"
  shows "scan_unicode (drop 2 (unicode_escape (55296 + u)) @ unicode_escape (56320 + l) @ q)
     = Some (65536 + u * 1024 + l, q)"
proof -
  have "scan_hex4 (drop 2 (unicode_escape (55296 + u)) @ unicode_escape (56320 + l) @ q)
      = Some (55296 + u, unicode_escape (56320 + l) @ q)"
    using assms by (intro scan_hex4_escape) simp
  moreover have "take 2 (unicode_escape (56320 + l) @ q) = [92, 117]"
    by (simp add: unicode_escape_def)
  moreover have "scan_hex4 (drop 2 (unicode_escape (56320 + l) @ q)) = Some (56320 + l, q)"
    using scan_hex4_escape [of "56320 + l" q] assms by (simp add: unicode_escape_def)
  ultimately show ?thesis
    using assms by (simp add: scan_unicode_def)
qed

lemma scan_json_char:
  assumes "scalar c"
  shows "scan_string (json_char c @ q) = map_option (\<lambda>(t, p). (c # t, p)) (scan_string q)"
proof (cases "map_of short_escapes c")
  case (Some e)
  then have "scan_escape (e # q) = Some (c, q)"
    by (auto simp: short_escapes_def scan_escape_def split: if_splits)
  then show ?thesis
    using Some by (simp add: json_char_def scan_string_step(2))
next
  case None
  then have plain: "c \<noteq> 34" "c \<noteq> 92" by (auto simp: short_escapes_def)
  consider "32 \<le> c" "c \<le> 126" | "\<not> (32 \<le> c \<and> c \<le> 126)" "c < 65536" | "65536 \<le> c"
    by linarith
  then show ?thesis
  proof cases
    case 1
    then show ?thesis using None plain by (simp add: json_char_def scan_string_step(1))
  next
    case 2
    have "scan_string (unicode_escape c @ q) = map_option (\<lambda>(t, p). (c # t, p)) (scan_string q)"
      by (subst unicode_escape_head(1))
        (simp add: scan_string_step(2) [OF trans [OF scan_escape_unicode scan_unicode_bmp [OF 2(2) assms]]])
    then show ?thesis using 2 None by (auto simp: json_char_def)
  next
    case 3
    let ?u = "(c - 65536) div 1024" and ?l = "(c - 65536) mod 1024"
    have lt: "?u < 1024" "?l < 1024"
      using assms 3 by (simp_all add: scalar_def less_mult_imp_div_less)
    have c: "65536 + ?u * 1024 + ?l = c" using 3 by simp
    have "scan_escape (tl (unicode_escape (55296 + ?u)) @ unicode_escape (56320 + ?l) @ q) = Some (c, q)"
      unfolding scan_escape_unicode using scan_unicode_pair [OF lt, of q] c by simp
    then have "scan_string (unicode_escape (55296 + ?u) @ unicode_escape (56320 + ?l) @ q)
        = map_option (\<lambda>(t, p). (c # t, p)) (scan_string q)"
      by (subst unicode_escape_head(1)) (simp add: scan_string_step(2))
    then show ?thesis using 3 None by (simp add: json_char_def)
  qed
qed

lemma scan_json_string:
  "list_all scalar s \<Longrightarrow> scan_string (concat (map json_char s) @ 34 # r) = Some (s, r)"
proof (induction s)
  case Nil
  then show ?case by (simp add: scan_string.simps)
next
  case (Cons c s)
  then show ?case by (simp add: scan_json_char)
qed

text \<open>What may follow a value in the text of another.\<close>

definition stops :: "pystr \<Rightarrow> bool" where
  "stops r \<longleftrightarrow> r = [] \<or> hd r \<in> {44, 93, 125}"

lemma stops_simps [simp]: "stops []" "stops (c # r) \<longleftrightarrow> c \<in> {44, 93, 125}"
  by (simp_all add: stops_def)

lemma str_nat_head: "0 < n \<Longrightarrow> hd (str_nat n) \<noteq> 48"
proof (induction n rule: nat_digits.induct)
  case (1 n)
  show ?case
  proof (cases "n < 10")
    case True
    then show ?thesis using 1(2) by (simp add: str_nat_def nat_digits.simps [of n])
  next
    case False
    then have "0 < n div 10" by (simp add: div_greater_zero_iff)
    with 1(1) False have "hd (str_nat (n div 10)) \<noteq> 48" by simp
    then show ?thesis
      using False nat_digits_nonempty [of "n div 10"]
      by (simp add: str_nat_def nat_digits.simps [of n] hd_map)
  qed
qed

lemma scan_digits:
  assumes "stops r"
  shows "number_digits (str_nat n @ r) = str_nat n"
proof -
  have all: "takeWhile is_digit (str_nat n @ r) = str_nat n"
  proof (subst takeWhile_append2)
    show "c \<in> set (str_nat n) \<Longrightarrow> is_digit c" for c
      using str_nat_chars by (auto simp: is_digit_def)
    show "str_nat n @ takeWhile is_digit r = str_nat n"
      using assms by (cases r) (auto simp: is_digit_def)
  qed
  show ?thesis
  proof (cases "n = 0")
    case True
    then show ?thesis by (simp add: number_digits_def str_nat_def nat_digits.simps)
  next
    case False
    then have "take 1 (str_nat n @ r) \<noteq> [48]"
      using str_nat_head [of n] by (cases "str_nat n") auto
    then show ?thesis using all by (simp add: number_digits_def)
  qed
qed

lemma scan_no_fraction: "stops r \<Longrightarrow> scan_fraction r = ([], r)" "stops r \<Longrightarrow> scan_exponent r = ([], r)"
  by (auto simp: scan_fraction_def scan_exponent_def Let_def split: list.splits)

lemma number_value_int:
  assumes "stops r" "length (str_nat n) \<le> 4300"
  shows "number_value sign (str_nat n) r = Some (JInt (if sign = [] then int n else - int n), r)"
  using assms by (simp add: number_value_def scan_no_fraction parse_digits_def digits_val_str_nat)

lemma str_int_cases:
  obtains (neg) c q where "i < 0" "str_int i = 45 # c # q" "str_nat (nat \<bar>i\<bar>) = c # q" "48 \<le> c" "c \<le> 57"
  | (pos) c q where "0 \<le> i" "str_int i = c # q" "str_nat (nat \<bar>i\<bar>) = c # q" "48 \<le> c" "c \<le> 57"
proof -
  obtain c q where c: "str_nat (nat \<bar>i\<bar>) = c # q" by (cases "str_nat (nat \<bar>i\<bar>)") auto
  then have "48 \<le> c" "c \<le> 57" using str_nat_chars [of c "nat \<bar>i\<bar>"] by auto
  then show thesis using that c by (cases "i < 0") (simp_all add: str_int_def)
qed

lemma scan_atom_int:
  assumes "stops r" "length (str_nat (nat \<bar>i\<bar>)) \<le> 4300"
  shows "scan_atom (str_int i @ r) = Some (JInt i, r)"
proof -
  note d = scan_digits [OF assms(1), of "nat \<bar>i\<bar>"] and v = number_value_int [OF assms]
  have none: "List.find (\<lambda>(w, v). startswith (str_int i @ r) w) constants = None"
    by (cases rule: str_int_cases [of i]) (simp_all add: constants_def startswith_def lit_def)
  show ?thesis
  proof (cases rule: str_int_cases [of i])
    case (neg c q)
    then show ?thesis
      using d v [of "[45]"] none by (simp add: scan_atom_def scan_number_def Let_def)
  next
    case (pos c q)
    then show ?thesis
      using d v [of "[]"] none by (simp add: scan_atom_def scan_number_def Let_def)
  qed
qed

lemma skip_ws_cons [simp]: "\<not> json_space c \<Longrightarrow> skip_ws (c # r) = c # r"
  by (simp add: skip_ws_def)

lemma json_string_scan:
  "list_all scalar k \<Longrightarrow> \<exists>t. json_string k @ r = 34 # t \<and> scan_string t = Some (k, r)"
  using scan_json_string [of k r] by (auto simp: json_string_def)

lemma dumps_head:
  "json_plain j \<Longrightarrow> \<exists>c t. json_dumps j = c # t \<and> \<not> json_space c \<and> c \<noteq> 93 \<and> c \<noteq> 125"
proof (cases j)
  case (JInt i)
  then show ?thesis
    by (cases rule: str_int_cases [of i]) (auto simp: json_space_def)
qed (auto simp: json_space_def json_string_def lit_def)

lemma skip_dumps: "json_plain j \<Longrightarrow> skip_ws (json_dumps j @ r) = json_dumps j @ r"
  using dumps_head [of j] by auto

lemma dump_items_head: "list_all json_plain (x # xs) \<Longrightarrow>
    \<exists>c t. dump_items (x # xs) = c # t \<and> \<not> json_space c \<and> c \<noteq> 93"
  using dumps_head [of x] by (cases xs) auto

lemma dump_members_head:
  "\<exists>t. dump_members (m # ms) = 34 # t"
  by (cases m; cases ms) (simp_all add: json_string_def)

lemma parse_atom:
  assumes "scan_atom s = Some (v, r)" "s = c # t" "c \<noteq> 34" "c \<noteq> 91" "c \<noteq> 123"
  shows "parse_value (Suc n) s = Some (v, r)"
  using assms by simp

lemma parse_dumps:
  "json_plain j \<Longrightarrow> stops r \<Longrightarrow> 2 * length (json_dumps j) < n \<Longrightarrow>
     parse_value n (json_dumps j @ r) = Some (j, r)"
  "list_all json_plain xs \<Longrightarrow> xs \<noteq> [] \<Longrightarrow> 2 * length (dump_items xs) \<le> n \<Longrightarrow>
     parse_items n (dump_items xs @ r) = Some (xs, r)"
  "list_all (\<lambda>(k, v). list_all scalar k \<and> json_plain v) ms \<Longrightarrow> ms \<noteq> [] \<Longrightarrow>
     2 * length (dump_members ms) \<le> n \<Longrightarrow> parse_members n (dump_members ms @ r) = Some (ms, r)"
proof (induction j and xs and ms arbitrary: n r and n r and n r
    rule: json_dumps_dump_items_dump_members.induct)
  case 1
  then obtain m where "n = Suc m" by (cases n) auto
  then show ?case by (simp add: scan_atom_def constants_def startswith_def lit_def)
next
  case (2 b)
  then obtain m where "n = Suc m" by (cases n) auto
  then show ?case by (simp add: scan_atom_def constants_def startswith_def lit_def)
next
  case (3 i)
  then obtain m where n: "n = Suc m" by (cases n) auto
  have a: "scan_atom (str_int i @ r) = Some (JInt i, r)" using 3 by (intro scan_atom_int) auto
  show ?case
    unfolding n json_dumps.simps
    by (cases rule: str_int_cases [of i]; rule parse_atom [OF a]) auto
next
  case (4 t)
  then show ?case by simp
next
  case (5 t)
  then obtain m where "n = Suc m" by (cases n) auto
  then show ?case using json_string_scan [of t r] 5 by auto
next
  case (6 xs)
  then obtain m where n: "n = Suc m" by (cases n) auto
  show ?case
  proof (cases xs)
    case Nil
    then show ?thesis by (simp add: n json_space_def)
  next
    case (Cons x ys)
    then have "parse_items m (dump_items xs @ r) = Some (xs, r)"
      using 6 n by (intro 6(1)) auto
    moreover obtain c t where "dump_items xs = c # t" "\<not> json_space c" "c \<noteq> 93"
      using dump_items_head [of x ys] Cons 6(2) by auto
    ultimately show ?thesis by (simp add: n)
  qed
next
  case (7 ms)
  then obtain m where n: "n = Suc m" by (cases n) auto
  show ?case
  proof (cases ms)
    case Nil
    then show ?thesis by (simp add: n json_space_def)
  next
    case (Cons x ys)
    then have "parse_members m (dump_members ms @ r) = Some (ms, r)"
      using 7 n by (intro 7(1)) auto
    moreover obtain t where "dump_members ms = 34 # t"
      using dump_members_head [of x ys] Cons by auto
    ultimately show ?thesis by (simp add: n json_space_def)
  qed
next
  case 8
  then show ?case by simp
next
  case (9 x)
  then obtain m where n: "n = Suc m" by (cases n) auto
  have "parse_value m (json_dumps x @ 93 # r) = Some (x, 93 # r)"
    using 9 n by (intro 9(1)) auto
  then show ?case by (simp add: n json_space_def)
next
  case (10 x y xs)
  then obtain m where n: "n = Suc m" by (cases n) auto
  have "parse_value m (json_dumps x @ 44 # dump_items (y # xs) @ r) = Some (x, 44 # dump_items (y # xs) @ r)"
    using 10 n by (intro 10(1)) auto
  moreover have "parse_items m (dump_items (y # xs) @ r) = Some (y # xs, r)"
    using 10 n by (intro 10(2)) auto
  moreover obtain c t where "dump_items (y # xs) = c # t" "\<not> json_space c"
    using dump_items_head [of y xs] 10(3) by auto
  ultimately show ?case by (simp add: n json_space_def)
next
  case 11
  then show ?case by simp
next
  case (12 k v)
  then obtain m where n: "n = Suc m" by (cases n) auto
  have v: "parse_value m (json_dumps v @ 125 # r) = Some (v, 125 # r)"
    using 12 n by (intro 12(1)) auto
  obtain t where "json_string k @ 58 # json_dumps v @ 125 # r = 34 # t"
    "scan_string t = Some (k, 58 # json_dumps v @ 125 # r)"
    using json_string_scan [of k] 12(2) by auto
  then show ?case
    using v skip_dumps [of v] 12(2) by (simp add: n json_space_def)
next
  case (13 k v m' ms)
  then obtain m where n: "n = Suc m" by (cases n) auto
  let ?q = "44 # dump_members (m' # ms) @ r"
  have v: "parse_value m (json_dumps v @ ?q) = Some (v, ?q)"
    using 13 n by (intro 13(1)) auto
  obtain t where t: "json_string k @ 58 # json_dumps v @ ?q = 34 # t"
    "scan_string t = Some (k, 58 # json_dumps v @ ?q)"
    using json_string_scan [of k] 13(3) by auto
  have "parse_members m (dump_members (m' # ms) @ r) = Some (m' # ms, r)"
    using 13 n by (intro 13(2)) auto
  moreover obtain u where "dump_members (m' # ms) = 34 # u"
    using dump_members_head by blast
  ultimately show ?case
    using t v skip_dumps [of v] 13(3) by (simp add: n json_space_def)
qed

lemma parse_json_dumps:
  assumes "json_plain j"
  shows "parse_json (json_dumps j) = Some j"
proof -
  obtain c t where c: "json_dumps j = c # t" "\<not> json_space c"
    using dumps_head [OF assms] by auto
  have "parse_value (2 * length (json_dumps j) + 1) (json_dumps j @ []) = Some (j, [])"
    by (rule parse_dumps(1)) (use assms in auto)
  moreover have "take 1 (json_dumps j) \<noteq> [65279]"
  proof (cases j)
    case (JInt i)
    then show ?thesis by (cases rule: str_int_cases [of i]) auto
  qed (use assms in \<open>auto simp: json_string_def lit_def\<close>)
  ultimately show ?thesis
    using c by (simp add: parse_json_def skip_ws_def)
qed

lemma last_members_distinct: "no_duplicates j \<Longrightarrow> last_members j = j"
proof (induction j rule: last_members.induct)
  case (1 xs)
  then show ?case by (auto simp: list_all_iff intro!: map_idI)
next
  case (2 ms)
  have vals: "map (\<lambda>(k, v). (k, last_members v)) ms = ms"
    using 2 by (intro map_idI) (auto simp: list_all_iff)
  have "foldl (\<lambda>d (k, v). AList.update k v d) d ms = d @ ms"
    if "distinct (map fst (d @ ms))" for d :: "(pystr \<times> json) list"
    using that
  proof (induction ms arbitrary: d)
    case (Cons m ms)
    have "AList.update (fst m) (snd m) d = d @ [m]"
      using Cons.prems by (induction d) auto
    then show ?case using Cons.IH [of "d @ [m]"] Cons.prems by (simp add: case_prod_beta)
  qed simp
  from this [of "[]"] 2(2) show ?case by (simp add: vals)
qed auto

theorem json_loads_dumps:
  assumes "json_plain j" "no_duplicates j"
  shows "json_loads (json_dumps j) = Some j"
  using assms by (simp add: json_loads_def parse_json_dumps last_members_distinct)

text \<open>The text is ASCII.\<close>

lemma json_char_ascii: "scalar c \<Longrightarrow> x \<in> set (json_char c) \<Longrightarrow> x < 128"
proof -
  assume c: "scalar c" and x: "x \<in> set (json_char c)"
  have h: "d < 16 \<Longrightarrow> hex_digit d < 128" for d by (simp add: hex_digit_def)
  have u: "y \<in> set (unicode_escape v) \<Longrightarrow> v < 65536 \<Longrightarrow> y < 128" for y v
    using h [of "v div 4096"] h [of "v div 256 mod 16"] h [of "v div 16 mod 16"] h [of "v mod 16"]
    by (auto simp: unicode_escape_def less_mult_imp_div_less)
  have "(c - 65536) div 1024 < 1024" if "\<not> c < 65536"
    using c that by (simp add: scalar_def less_mult_imp_div_less)
  then show ?thesis
    using x by (auto simp: json_char_def short_escapes_def split: if_splits dest!: u)
qed

lemma json_string_ascii: "list_all scalar s \<Longrightarrow> x \<in> set (json_string s) \<Longrightarrow> x < 128"
  by (auto simp: json_string_def list_all_iff dest: json_char_ascii)

lemma dumps_ascii:
  "json_plain j \<Longrightarrow> x \<in> set (json_dumps j) \<Longrightarrow> x < 128"
  "list_all json_plain xs \<Longrightarrow> x \<in> set (dump_items xs) \<Longrightarrow> x < 128"
  "list_all (\<lambda>(k, v). list_all scalar k \<and> json_plain v) ms \<Longrightarrow> x \<in> set (dump_members ms) \<Longrightarrow> x < 128"
proof (induction j and xs and ms rule: json_dumps_dump_items_dump_members.induct)
  case (3 i)
  then show ?case
    using str_nat_chars [of x] by (fastforce simp: str_int_def split: if_splits)
qed (auto simp: lit_def split: if_splits dest: json_string_ascii)

section \<open>The bound on the nesting\<close>

text \<open>A value consumes text, so the bound that \<open>parse_json\<close> takes is never met.\<close>

lemma length_skip_ws: "length (skip_ws s) \<le> length s"
  by (simp add: skip_ws_def length_dropWhile_le)

lemma skip_ws_shorter: "skip_ws s = d # ds \<Longrightarrow> length ds < length s"
  using length_skip_ws [of s] by simp

lemma scan_string_length: "scan_string s = Some (t, r) \<Longrightarrow> length r < length s"
proof (induction s arbitrary: t r rule: measure_induct_rule [of length])
  case (less s)
  from less.prems show ?case
  proof (subst (asm) scan_string.simps, auto split: list.splits if_splits option.splits, goal_cases)
    case (1 cs x q u)
    then have "length q < length cs" by (auto dest: scan_escape_length)
    with 1 show ?case using less.IH [of q u r] by simp
  next
    case (2 c cs u)
    then show ?case using less.IH [of cs u r] by simp
  qed
qed

lemma scan_tail_length:
  "length (snd (scan_fraction s)) \<le> length s" "length (snd (scan_exponent s)) \<le> length s"
proof -
  have d: "length (dropWhile is_digit r) \<le> length r" for r by (rule length_dropWhile_le)
  show "length (snd (scan_fraction s)) \<le> length s"
    using d by (auto simp: scan_fraction_def le_SucI split: list.splits)
  have "length (dropWhile is_digit (drop k r)) \<le> Suc (length r)" for k r
    using d [of "drop k r"] by simp
  then show "length (snd (scan_exponent s)) \<le> length s"
    by (auto simp: scan_exponent_def Let_def split: list.splits)
qed

lemma number_value_length:
  assumes "number_value sign digits rest = Some (v, r)"
  shows "length r \<le> length rest" "digits \<noteq> []"
proof -
  obtain fraction s1 where f: "scan_fraction rest = (fraction, s1)" by fastforce
  obtain e s2 where e: "scan_exponent s1 = (e, s2)" by fastforce
  have "r = s2" "digits \<noteq> []"
    using assms by (auto simp: number_value_def f e split: if_splits)
  then show "length r \<le> length rest" "digits \<noteq> []"
    using scan_tail_length(1) [of rest] scan_tail_length(2) [of s1] by (simp_all add: f e)
qed

lemma constants_nonempty: "(w, v) \<in> set constants \<Longrightarrow> w \<noteq> []"
  by (auto simp: constants_def)

lemma scan_atom_length:
  assumes "scan_atom s = Some (v, r)"
  shows "length r < length s"
proof (cases "List.find (\<lambda>(w, v). startswith s w) constants")
  case None
  let ?body = "drop (if take 1 s = [45] then 1 else 0) s"
  have n: "number_value (if take 1 s = [45] then [45] else []) (number_digits ?body)
      (drop (length (number_digits ?body)) ?body) = Some (v, r)"
    using assms None by (simp add: scan_atom_def scan_number_def Let_def split: if_splits)
  have "number_digits ?body \<noteq> []" by (rule number_value_length(2) [OF n])
  moreover have "?body \<noteq> []"
    using number_value_length(2) [OF n] by (auto simp: number_digits_def)
  ultimately show ?thesis
    using number_value_length(1) [OF n] by (cases "number_digits ?body"; cases ?body) auto
next
  case (Some x)
  obtain w u where x: "x = (w, u)" by (cases x)
  then have w: "startswith s w" "w \<noteq> []" "r = drop (length w) s"
    using assms Some constants_nonempty [of w u]
    by (auto simp: find_Some_iff scan_atom_def) (metis nth_mem)
  then show ?thesis by (cases s; cases w) (auto simp: startswith_def)
qed

lemma parse_length:
  "(\<forall>s v r. parse_value n s = Some (v, r) \<longrightarrow> length r < length s)
   \<and> (\<forall>s xs r. parse_items n s = Some (xs, r) \<longrightarrow> length r < length s)
   \<and> (\<forall>s ms r. parse_members n s = Some (ms, r) \<longrightarrow> length r < length s)"
proof (induction n)
  case (Suc n)
  then have V: "\<And>s v r. parse_value n s = Some (v, r) \<Longrightarrow> length r < length s"
    and I: "\<And>s xs r. parse_items n s = Some (xs, r) \<Longrightarrow> length r < length s"
    and M: "\<And>s ms r. parse_members n s = Some (ms, r) \<Longrightarrow> length r < length s"
    by blast+
  have "length r < length s" if "parse_value (Suc n) s = Some (v, r)" for s v r
    using that by (auto split: list.splits if_splits
        dest!: scan_string_length scan_atom_length skip_ws_shorter I M)
  moreover have "length r < length s" if "parse_items (Suc n) s = Some (xs, r)" for s xs r
    using that
  proof (auto split: list.splits if_splits option.splits dest!: V skip_ws_shorter, goal_cases)
    case (1 u q ds xs)
    then show ?case using I [of "skip_ws ds" xs r] length_skip_ws [of ds] by simp
  qed
  moreover have "length r < length s" if "parse_members (Suc n) s = Some (ms, r)" for s ms r
    using that
  proof (auto split: list.splits if_splits option.splits
      dest!: V skip_ws_shorter scan_string_length, goal_cases)
    case (1 cs k q ds v p)
    then show ?case using length_skip_ws [of ds] by simp
  next
    case (2 cs k q ds v p es ms)
    then show ?case using M [of "skip_ws es" ms r] length_skip_ws [of ds] length_skip_ws [of es] by simp
  qed
  ultimately show ?case by blast
qed simp

lemmas parse_shorter = parse_length [THEN conjunct1, rule_format]
  parse_length [THEN conjunct2, THEN conjunct1, rule_format]
  parse_length [THEN conjunct2, THEN conjunct2, rule_format]

lemma parse_bound:
  "(\<forall>s m. 2 * length s < n \<longrightarrow> 2 * length s < m \<longrightarrow> parse_value n s = parse_value m s)
   \<and> (\<forall>s m. 2 * length s + 1 < n \<longrightarrow> 2 * length s + 1 < m \<longrightarrow> parse_items n s = parse_items m s)
   \<and> (\<forall>s m. 2 * length s + 1 < n \<longrightarrow> 2 * length s + 1 < m \<longrightarrow> parse_members n s = parse_members m s)"
proof (induction n)
  case (Suc n)
  then have V: "\<And>s m. 2 * length s < n \<Longrightarrow> 2 * length s < m \<Longrightarrow> parse_value n s = parse_value m s"
    and I: "\<And>s m. 2 * length s + 1 < n \<Longrightarrow> 2 * length s + 1 < m \<Longrightarrow> parse_items n s = parse_items m s"
    and M: "\<And>s m. 2 * length s + 1 < n \<Longrightarrow> 2 * length s + 1 < m \<Longrightarrow> parse_members n s = parse_members m s"
    by blast+
  have "parse_value (Suc n) s = parse_value m s"
    if b: "2 * length s < Suc n" "2 * length s < m" for s m
  proof -
    obtain k where k: "m = Suc k" using b by (cases m) auto
    show ?thesis
    proof (cases s)
      case (Cons c cs)
      have "parse_items n (d # ds) = parse_items k (d # ds)"
        "parse_members n (d # ds) = parse_members k (d # ds)" if "skip_ws cs = d # ds" for d ds
        using that Cons b k length_skip_ws [of cs] by (intro I M; simp)+
      then show ?thesis using Cons k by (auto split: list.split)
    qed (simp add: k)
  qed
  moreover have "parse_items (Suc n) s = parse_items m s"
    if b: "2 * length s + 1 < Suc n" "2 * length s + 1 < m" for s m
  proof -
    obtain k where k: "m = Suc k" using b by (cases m) auto
    have v: "parse_value n s = parse_value k s" using b k by (intro V) auto
    have "parse_items n (skip_ws ds) = parse_items k (skip_ws ds)"
      if "parse_value k s = Some (x, r)" "skip_ws r = d # ds" for x r d ds
      using b k parse_shorter(1) [OF that(1)] skip_ws_shorter [OF that(2)] length_skip_ws [of ds]
      by (intro I) auto
    then show ?thesis by (auto simp: k v split: option.split list.split)
  qed
  moreover have "parse_members (Suc n) s = parse_members m s"
    if b: "2 * length s + 1 < Suc n" "2 * length s + 1 < m" for s m
  proof -
    obtain k where k: "m = Suc k" using b by (cases m) auto
    have v: "parse_value n (skip_ws ds) = parse_value k (skip_ws ds)"
      if "s = c # cs" "scan_string cs = Some (x, r)" "skip_ws r = d # ds" for c cs x r d ds
      using b k that(1) scan_string_length [OF that(2)] skip_ws_shorter [OF that(3)]
        length_skip_ws [of ds] by (intro V) auto
    have "parse_members n (skip_ws es) = parse_members k (skip_ws es)"
      if "s = c # cs" "scan_string cs = Some (x, r)" "skip_ws r = d # ds"
        "parse_value k (skip_ws ds) = Some (y, q)" "skip_ws q = e # es" for c cs x r d ds y q e es
      using b k that(1) scan_string_length [OF that(2)] skip_ws_shorter [OF that(3)]
        parse_shorter(1) [OF that(4)] skip_ws_shorter [OF that(5)]
        length_skip_ws [of ds] length_skip_ws [of es] by (intro M) auto
    then show ?thesis using v by (cases s) (auto simp: k split: option.split list.split)
  qed
  ultimately show ?case by blast
qed simp

lemma parse_enough:
  "2 * length s < n \<Longrightarrow> parse_value n s = parse_value (2 * length s + 1) s"
  by (rule parse_bound [THEN conjunct1, rule_format]) simp_all

end
