(* ===== verification/Updater_Codec.thy ===== *)
theory Updater_Codec
  imports Updater_Types Py_Json
begin

text \<open>
  The dictionary forms of the update service read back what they wrote, for every state the
  program can build: its versions match the pattern, its datetimes are in the range of
  \<open>datetime\<close>, its journals satisfy their checks and its texts have no lone surrogate.
\<close>

section \<open>States the program can build\<close>

definition valid_time :: "instant option \<Rightarrow> bool" where
  "valid_time t \<longleftrightarrow> (\<forall>x. t = Some x \<longrightarrow> valid_instant x)"

abbreviation plain_text :: "pystr \<Rightarrow> bool" where
  "plain_text s \<equiv> list_all scalar s"

definition valid_image :: "image_identity \<Rightarrow> bool" where
  "valid_image i \<longleftrightarrow> version_ok (im_version i) \<and> plain_text (im_repository i)
     \<and> plain_text (im_version i) \<and> plain_text (im_digest i) \<and> plain_text (im_image_id i)
     \<and> list_all plain_text (im_tags i) \<and> plain_text (im_rollback_alias i)
     \<and> valid_time (im_published_at i)"

definition valid_check :: "check_result \<Rightarrow> bool" where
  "valid_check c \<longleftrightarrow>
     valid_image (ck_current c) \<and> valid_image (ck_target c) \<and> valid_instant (ck_checked_at c)"

definition valid_task :: "update_task \<Rightarrow> bool" where
  "valid_task t \<longleftrightarrow> valid_image (ut_original t) \<and> valid_image (ut_target t)
     \<and> valid_instant (ut_created_at t) \<and> valid_time (ut_started_at t) \<and> valid_time (ut_finished_at t)
     \<and> plain_text (ut_database_backup t) \<and> plain_text (ut_uploads_backup t)
     \<and> plain_text (ut_error_code t) \<and> plain_text (ut_error_message t)
     \<and> (\<forall>j. ut_cleanup_journal t = Some j \<longrightarrow> journal_valid j)"

definition valid_state :: "persistent_state \<Rightarrow> bool" where
  "valid_state p \<longleftrightarrow> (\<forall>c. ps_last_check p = Some c \<longrightarrow> valid_check c)
     \<and> (\<forall>t. ps_task p = Some t \<longrightarrow> valid_task t)"

section \<open>The parts\<close>

lemma enum_of_value:
  "m \<in> set ms \<Longrightarrow> (\<And>x y. value x = value y \<Longrightarrow> x = y) \<Longrightarrow> enum_of value ms (value m) = Some m"
  unfolding enum_of_def by (induction ms) auto

lemma stage_value_inj: "stage_value x = stage_value y \<Longrightarrow> x = y"
  by (cases x; cases y) simp_all

lemma cleanup_value_inj: "cleanup_value x = cleanup_value y \<Longrightarrow> x = y"
  by (cases x; cases y) simp_all

lemma step_value_inj: "step_value x = step_value y \<Longrightarrow> x = y"
  by (cases x; cases y) simp_all

lemma enum_of_stage: "enum_of stage_value all_stages (stage_value g) = Some g"
  by (rule enum_of_value [OF _ stage_value_inj]) (cases g; simp add: all_stages_def)

lemma enum_of_cleanup: "enum_of cleanup_value [NOT_RUN, COMPLETE, PENDING] (cleanup_value c) = Some c"
  by (rule enum_of_value [OF _ cleanup_value_inj]) (cases c; simp)

lemma as_step_value: "as_step (JStr (step_value s)) = Inr s"
proof -
  have "enum_of step_value [NOT_STARTED, STARTED, COMPLETED] (step_value s) = Some s"
    by (rule enum_of_value [OF _ step_value_inj]) (cases s; simp)
  then show ?thesis by (simp add: as_enum_def)
qed

lemma journal_round: "journal_valid j \<Longrightarrow> journal_from_dict (journal_to_dict j) = Inr j"
  by (cases j) (simp add: journal_from_dict_def journal_to_dict_def require_exact_keys_def field_def
      as_step_value make_journal_def Let_def insert_commute)

lemma datetime_round:
  "valid_time t \<Longrightarrow> datetime_from_dict True (datetime_to_dict t) = Inr t"
  "valid_instant x \<Longrightarrow> datetime_from_dict False (datetime_to_dict (Some x)) = Inr (Some x)"
  by (auto simp: datetime_from_dict_def datetime_to_dict_def valid_time_def parse_iso_utc
      split: option.split)

lemma as_str_list_map: "as_str_list (JList (map JStr xs)) = Inr xs"
  by (simp, induction xs) simp_all

lemma image_round: "valid_image i \<Longrightarrow> image_from_dict (image_to_dict i) = Inr i"
  by (simp add: image_from_dict_def image_to_dict_def require_exact_keys_def field_def
      valid_image_def datetime_round as_str_list_map make_image_def validate_version_def
      insert_commute del: as_str_list.simps)

lemma check_round: "valid_check c \<Longrightarrow> check_from_dict (check_to_dict c) = Inr c"
  by (simp add: check_from_dict_def check_to_dict_def require_exact_keys_def field_def
      valid_check_def datetime_round image_round insert_commute)

section \<open>Tasks and states\<close>

lemma dict_not_null: "check_to_dict c \<noteq> JNull" "task_to_dict t \<noteq> JNull"
  "journal_to_dict j \<noteq> JNull"
  by (simp_all add: check_to_dict_def task_to_dict_def journal_to_dict_def)

lemma task_field:
  assumes "ms = [(lit ''id'', v0),
    (lit ''original'', v1),
    (lit ''target'', v2),
    (lit ''stage'', v3),
    (lit ''created_at'', v4),
    (lit ''started_at'', v5),
    (lit ''finished_at'', v6),
    (lit ''database_backup'', v7),
    (lit ''uploads_backup'', v8),
    (lit ''rolled_back'', v9),
    (lit ''cleanup'', v10),
    (lit ''cleanup_journal'', v11),
    (lit ''error_code'', v12),
    (lit ''error_message'', v13)]"
  shows "map fst ms = task_fields"
    "field ms ''id'' = v0"
    "field ms ''original'' = v1"
    "field ms ''target'' = v2"
    "field ms ''stage'' = v3"
    "field ms ''created_at'' = v4"
    "field ms ''started_at'' = v5"
    "field ms ''finished_at'' = v6"
    "field ms ''database_backup'' = v7"
    "field ms ''uploads_backup'' = v8"
    "field ms ''rolled_back'' = v9"
    "field ms ''cleanup'' = v10"
    "field ms ''cleanup_journal'' = v11"
    "field ms ''error_code'' = v12"
    "field ms ''error_message'' = v13"
  unfolding assms by (simp_all add: field_def task_fields_def)

lemma task_members:
  obtains ms where "task_to_dict t = JObj ms" "map fst ms = task_fields"
    "field ms ''id'' = JStr (uuid_str (ut_id t))" "field ms ''original'' = image_to_dict (ut_original t)"
    "field ms ''target'' = image_to_dict (ut_target t)" "field ms ''stage'' = JStr (stage_value (ut_stage t))"
    "field ms ''created_at'' = datetime_to_dict (Some (ut_created_at t))"
    "field ms ''started_at'' = datetime_to_dict (ut_started_at t)"
    "field ms ''finished_at'' = datetime_to_dict (ut_finished_at t)"
    "field ms ''database_backup'' = JStr (ut_database_backup t)"
    "field ms ''uploads_backup'' = JStr (ut_uploads_backup t)"
    "field ms ''rolled_back'' = JBool (ut_rolled_back t)"
    "field ms ''cleanup'' = JStr (cleanup_value (ut_cleanup t))"
    "field ms ''cleanup_journal'' =
       (case ut_cleanup_journal t of None \<Rightarrow> JNull | Some j \<Rightarrow> journal_to_dict j)"
    "field ms ''error_code'' = JStr (ut_error_code t)"
    "field ms ''error_message'' = JStr (ut_error_message t)"
  by (rule that [OF task_to_dict_def]; rule task_field [OF refl])

lemma task_round: "valid_task t \<Longrightarrow> task_from_dict (task_to_dict t) = Inr t"
proof -
  assume v: "valid_task t"
  show ?thesis
  proof (rule task_members [of t])
    fix ms
    assume ms: "task_to_dict t = JObj ms" "map fst ms = task_fields" and f:
      "field ms ''id'' = JStr (uuid_str (ut_id t))" "field ms ''original'' = image_to_dict (ut_original t)"
      "field ms ''target'' = image_to_dict (ut_target t)" "field ms ''stage'' = JStr (stage_value (ut_stage t))"
      "field ms ''created_at'' = datetime_to_dict (Some (ut_created_at t))"
      "field ms ''started_at'' = datetime_to_dict (ut_started_at t)"
      "field ms ''finished_at'' = datetime_to_dict (ut_finished_at t)"
      "field ms ''database_backup'' = JStr (ut_database_backup t)"
      "field ms ''uploads_backup'' = JStr (ut_uploads_backup t)"
      "field ms ''rolled_back'' = JBool (ut_rolled_back t)"
      "field ms ''cleanup'' = JStr (cleanup_value (ut_cleanup t))"
      "field ms ''cleanup_journal'' =
         (case ut_cleanup_journal t of None \<Rightarrow> JNull | Some j \<Rightarrow> journal_to_dict j)"
      "field ms ''error_code'' = JStr (ut_error_code t)"
      "field ms ''error_message'' = JStr (ut_error_message t)"
    have keys: "fst ` set ms = set task_fields" using ms(2) by (metis set_map)
    show ?thesis
      using v
      by (cases "ut_cleanup_journal t")
        (simp_all add: task_from_dict_def ms(1) keys f valid_task_def parse_uuid_str dict_not_null
          enum_of_stage enum_of_cleanup datetime_round image_round journal_round)
  qed
qed

lemma nullable_round:
  "f (g x) = Inr x \<Longrightarrow> g x \<noteq> JNull \<Longrightarrow> nullable f (g x) = Inr (Some x)" "nullable f JNull = Inr None"
  by (simp_all add: nullable_def)

lemma state_round: "valid_state p \<Longrightarrow> state_from_dict (state_to_dict p) = Inr p"
  by (cases p; cases "ps_last_check p"; cases "ps_task p")
    (simp_all add: state_from_dict_def state_to_dict_def require_exact_keys_def field_def
      valid_state_def check_round task_round nullable_def dict_not_null)

section \<open>The text of a state\<close>

lemma plain_small: "(\<And>c. c \<in> set s \<Longrightarrow> c < 256) \<Longrightarrow> plain_text s"
  by (fastforce simp: list_all_iff scalar_def)

lemma plain_lit [simp]: "plain_text (lit s)"
proof (rule plain_small)
  fix c assume "c \<in> set (lit s)"
  then obtain x :: char where "c = of_char x" by (auto simp: lit_def)
  moreover have "of_char x < (256 :: nat)" by simp
  ultimately show "c < 256" by simp
qed

lemma plain_append [simp]: "plain_text (s @ t) \<longleftrightarrow> plain_text s \<and> plain_text t"
  by simp

lemma plain_fixed [simp]: "plain_text (fixed_digits k n)"
  by (rule plain_small) (auto dest: fixed_digits_chars)

lemma plain_iso_utc [simp]: "plain_text (iso_utc t)"
  by (simp add: iso_utc_def iso_date_def iso_clock_def Let_def scalar_def del: fixed_digits.simps
      split: prod.split)

lemma plain_uuid [simp]: "plain_text (uuid_str x)"
proof (rule plain_small)
  have d: "c \<in> set (map hex_digit (uuid_digits x)) \<Longrightarrow> c < 256" for c
    by (auto simp: uuid_digits_def hex_digit_def)
  fix c assume "c \<in> set (uuid_str x)"
  then have "c = 45 \<or> c \<in> set (map hex_digit (uuid_digits x))"
    unfolding uuid_str_def Let_def
    by (auto simp del: set_map dest: in_set_takeD in_set_dropD)
  then show "c < 256" using d by auto
qed

definition fine_json :: "json \<Rightarrow> bool" where
  "fine_json j \<longleftrightarrow> json_plain j \<and> no_duplicates j"

lemma fine_simps [simp]:
  "fine_json JNull" "fine_json (JBool b)" "fine_json (JStr s) = plain_text s"
  "fine_json (JList xs) = list_all fine_json xs"
  "fine_json (JObj ms) = (distinct (map fst ms) \<and> list_all (\<lambda>(k, v). plain_text k \<and> fine_json v) ms)"
  by (auto simp: fine_json_def list_all_iff)

lemma plain_values [simp]:
  shows "plain_text (stage_value g)" and "plain_text (cleanup_value c)" and "plain_text (step_value s)"
  by (cases g; simp) (cases c; simp | cases s; simp)+

lemma fine_datetime [simp]: "fine_json (datetime_to_dict t)"
  by (simp add: datetime_to_dict_def split: option.split)

lemma fine_image [simp]: "valid_image i \<Longrightarrow> fine_json (image_to_dict i)"
  by (simp add: image_to_dict_def valid_image_def list.pred_map comp_def)

lemma fine_journal [simp]: "fine_json (journal_to_dict j)"
  by (simp add: journal_to_dict_def)

lemma fine_check [simp]: "valid_check c \<Longrightarrow> fine_json (check_to_dict c)"
  by (simp add: check_to_dict_def valid_check_def)

lemma fine_task [simp]: "valid_task t \<Longrightarrow> fine_json (task_to_dict t)"
  by (simp add: task_to_dict_def valid_task_def split: option.split)

lemma fine_state: "valid_state p \<Longrightarrow> fine_json (state_to_dict p)"
  by (simp add: state_to_dict_def valid_state_def split: option.split)

lemma state_text_round:
  assumes "valid_state p"
  shows "json_loads (json_dumps (state_to_dict p)) = Some (state_to_dict p)"
  using fine_state [OF assms] by (intro json_loads_dumps) (simp_all add: fine_json_def)

chapter \<open>Versions as texts\<close>

text \<open>
  Release versions as texts and as triples of numbers: the pattern of \<open>updater/types.py\<close> describes
  exactly the decimal texts without leading zeros.
\<close>

lemma str_nat_snoc: "0 < m \<Longrightarrow> d < 10 \<Longrightarrow> str_nat (10 * m + d) = str_nat m @ [48 + d]"
  by (subst str_nat_def, subst nat_digits.simps) (simp add: str_nat_def)

lemma str_nat_digit: "d < 10 \<Longrightarrow> str_nat d = [48 + d]"
  by (simp add: str_nat_def nat_digits.simps [of d])

lemma version_part_str: "version_part (str_nat n)"
proof (cases "n = 0")
  case False
  then show ?thesis
    using str_nat_head [of n] str_nat_chars [of _ n] by (auto simp: version_part_def)
qed (simp add: version_part_def str_nat_digit)

lemma digits_no_zero:
  assumes "p \<noteq> []" "hd p \<noteq> 48" "\<forall>c\<in>set p. 48 \<le> c \<and> c \<le> 57"
  shows "\<exists>n > 0. digits_val 0 p = Some n \<and> p = str_nat n"
  using assms
proof (induction p rule: rev_induct)
  case (snoc c p)
  have c: "48 \<le> c" "c \<le> 57" using snoc.prems(3) by auto
  show ?case
  proof (cases "p = []")
    case True
    then have "c \<noteq> 48" using snoc.prems(2) by simp
    with c True show ?thesis
      using str_nat_digit [of "c - 48"] by (intro exI [of _ "c - 48"]) auto
  next
    case False
    then obtain m where m: "0 < m" "digits_val 0 p = Some m" "p = str_nat m"
      using snoc by auto
    have "str_nat (10 * m + (c - 48)) = str_nat m @ [c]"
      using str_nat_snoc [of m "c - 48"] m(1) c by simp
    then show ?thesis
      using m c by (intro exI [of _ "10 * m + (c - 48)"]) (auto simp: digits_val_append)
  qed
qed simp

lemma version_part_iff: "version_part p \<and> parse_digits p = Some n \<longleftrightarrow> p = str_nat n"
proof
  assume a: "version_part p \<and> parse_digits p = Some n"
  show "p = str_nat n"
  proof (cases "p = [48]")
    case True
    then show ?thesis using a by (auto simp: parse_digits_def str_nat_digit)
  next
    case False
    then have "p \<noteq> []" "hd p \<noteq> 48" "\<forall>c\<in>set p. 48 \<le> c \<and> c \<le> 57"
      using a by (auto simp: version_part_def)
    from digits_no_zero [OF this] a show ?thesis by (auto simp: parse_digits_def)
  qed
qed (simp add: version_part_str parse_digits_def digits_val_str_nat)

lemma version_part_parse: "version_part p \<Longrightarrow> \<exists>n. parse_digits p = Some n"
  using digits_no_zero [of p] by (cases "p = [48]") (auto simp: version_part_def parse_digits_def)

lemma split_on_nonempty: "split_on sep s \<noteq> []"
  by (cases s) (auto split: list.split)

lemma split_on_none: "sep \<notin> set s \<Longrightarrow> split_on sep s = [s]"
  by (induction s) auto

lemma split_on_append: "sep \<notin> set s \<Longrightarrow> split_on sep (s @ sep # r) = s # split_on sep r"
  by (induction s) auto

lemma join_split_on: "join [sep] (split_on sep s) = s"
proof (induction s)
  case (Cons c s)
  obtain p ps where p: "split_on sep s = p # ps" using split_on_nonempty [of sep s] by (cases "split_on sep s") auto
  then show ?case using Cons by (cases ps) auto
qed simp

lemma split_on_triple: "split_on sep s = [a, b, c] \<Longrightarrow> s = a @ sep # b @ sep # c"
  using join_split_on [of sep s] by simp

lemma split_version: "split_on 46 (str_nat a @ 46 # str_nat b @ 46 # str_nat c) = [str_nat a, str_nat b, str_nat c]"
proof -
  have "46 \<notin> set (str_nat n)" for n using str_nat_chars [of 46 n] by auto
  then show ?thesis by (simp add: split_on_append split_on_none)
qed

lemma version_key_text:
  "version_key v = Inr (a, b, c) \<longleftrightarrow> v = 118 # str_nat a @ 46 # str_nat b @ 46 # str_nat c"
proof
  assume "version_key v = Inr (a, b, c)"
  then have ok: "version_ok v"
    and p: "map parse_digits (split_on 46 (tl v)) = [Some a, Some b, Some c]"
    by (auto simp: version_key_def validate_version_def bindE_Inr_iff split: if_splits list.splits option.splits)
  obtain x y z where xyz: "split_on 46 (tl v) = [x, y, z]"
    using p by (auto simp: map_eq_Cons_conv)
  have parts: "version_part x" "version_part y" "version_part z"
    using ok by (auto simp: version_ok_def xyz)
  have "x = str_nat a" "y = str_nat b" "z = str_nat c"
    using p parts version_part_iff by (auto simp: xyz)
  then have "tl v = str_nat a @ 46 # str_nat b @ 46 # str_nat c"
    using split_on_triple [OF xyz] by simp
  then show "v = 118 # str_nat a @ 46 # str_nat b @ 46 # str_nat c"
    using ok by (cases v) (auto simp: version_ok_def)
next
  assume v: "v = 118 # str_nat a @ 46 # str_nat b @ 46 # str_nat c"
  have "parse_digits (str_nat n) = Some n" for n by (simp add: parse_digits_def digits_val_str_nat)
  then show "version_key v = Inr (a, b, c)"
    by (simp add: v version_key_def validate_version_def version_ok_def split_version version_part_str)
qed

lemma version_ok_key: "version_ok v \<Longrightarrow> \<exists>k. version_key v = Inr k"
proof -
  assume ok: "version_ok v"
  then obtain x y z where xyz: "split_on 46 (tl v) = [x, y, z]"
    by (auto simp: version_ok_def length_Suc_conv numeral_3_eq_3)
  then have "version_part x" "version_part y" "version_part z"
    using ok by (auto simp: version_ok_def)
  then show ?thesis
    using ok version_part_parse [of x] version_part_parse [of y] version_part_parse [of z]
    by (auto simp: version_key_def validate_version_def xyz)
qed

lemma version_text: "version_ok v \<Longrightarrow> c \<in> set v \<Longrightarrow> c = 46 \<or> c = 118 \<or> 48 \<le> c \<and> c \<le> 57"
proof -
  assume v: "version_ok v" and c: "c \<in> set v"
  obtain x y z where "version_key v = Inr (x, y, z)" using version_ok_key [OF v] by fastforce
  then show ?thesis using c str_nat_chars unfolding version_key_text by auto
qed

end
