(* ===== verification/Effects.thy ===== *)
theory Effects
  imports Prelude
begin

text \<open>
  Effectful steps: a step takes the state and returns either an exception or a result,
  with the new state. An exception does not undo what was done before it.
\<close>

type_synonym ('s, 'e, 'a) eff = "'s \<Rightarrow> ('e + 'a) \<times> 's"

definition retM :: "'a \<Rightarrow> ('s, 'e, 'a) eff" where
  "retM x = (\<lambda>s. (Inr x, s))"

definition raiseM :: "'e \<Rightarrow> ('s, 'e, 'a) eff" where
  "raiseM e = (\<lambda>s. (Inl e, s))"

definition bindM :: "('s, 'e, 'a) eff \<Rightarrow> ('a \<Rightarrow> ('s, 'e, 'b) eff) \<Rightarrow> ('s, 'e, 'b) eff" where
  "bindM m f = (\<lambda>s. case m s of (Inl e, s') \<Rightarrow> (Inl e, s') | (Inr x, s') \<Rightarrow> f x s')"

definition thenM :: "('s, 'e, 'a) eff \<Rightarrow> ('s, 'e, 'b) eff \<Rightarrow> ('s, 'e, 'b) eff" where
  "thenM m n = bindM m (\<lambda>_. n)"

text \<open>\<open>liftM r\<close> is a pure computation that may raise.\<close>

definition liftM :: "'e + 'a \<Rightarrow> ('s, 'e, 'a) eff" where
  "liftM r = (\<lambda>s. (r, s))"

text \<open>
  \<open>try: m except C as error: ...\<close>: the exceptions for which \<open>catches\<close> gives a value become
  a result, the others pass.
\<close>

definition tryM :: "('e \<Rightarrow> 'c option) \<Rightarrow> ('s, 'e, 'a) eff \<Rightarrow> ('s, 'e, 'c + 'a) eff" where
  "tryM catches m = (\<lambda>s. case m s of
     (Inr x, s') \<Rightarrow> (Inr (Inr x), s')
   | (Inl e, s') \<Rightarrow> (case catches e of None \<Rightarrow> (Inl e, s') | Some c \<Rightarrow> (Inr (Inl c), s')))"

text \<open>\<open>except C as error: raise E from error\<close>.\<close>

definition exceptM :: "('e \<Rightarrow> bool) \<Rightarrow> 'e \<Rightarrow> ('s, 'e, 'a) eff \<Rightarrow> ('s, 'e, 'a) eff" where
  "exceptM catches e' m = (\<lambda>s. case m s of
     (Inl e, s') \<Rightarrow> (Inl (if catches e then e' else e), s') | (Inr x, s') \<Rightarrow> (Inr x, s'))"

text \<open>\<open>if b: raise e\<close>, and a step on a part of the state.\<close>

definition raise_whenM :: "bool \<Rightarrow> 'e \<Rightarrow> ('s, 'e, unit) eff" where
  "raise_whenM b e = (\<lambda>s. (if b then Inl e else Inr (), s))"

definition zoom :: "('s \<Rightarrow> 't) \<Rightarrow> ('t \<Rightarrow> 's \<Rightarrow> 's) \<Rightarrow> ('t, 'e, 'a) eff \<Rightarrow> ('s, 'e, 'a) eff" where
  "zoom get put m = (\<lambda>s. case m (get s) of (r, t) \<Rightarrow> (r, put t s))"

definition readM :: "('s \<Rightarrow> 'a) \<Rightarrow> ('s, 'e, 'a) eff" where
  "readM f = (\<lambda>s. (Inr (f s), s))"

text \<open>A run that returns.\<close>

lemma bindM_Inr: "bindM m f s = (Inr y, s') \<longleftrightarrow> (\<exists>x t. m s = (Inr x, t) \<and> f x t = (Inr y, s'))"
  by (auto simp: bindM_def split: prod.splits sum.splits)

lemma thenM_Inr: "thenM m n s = (Inr y, s') \<longleftrightarrow> (\<exists>x t. m s = (Inr x, t) \<and> n t = (Inr y, s'))"
  by (simp add: thenM_def bindM_Inr)

lemma ret_Inr: "retM x s = (Inr y, s') \<longleftrightarrow> y = x \<and> s' = s"
  by (auto simp: retM_def)

lemma lift_Inr: "liftM r s = (Inr y, s') \<longleftrightarrow> r = Inr y \<and> s' = s"
  by (auto simp: liftM_def)

lemma read_Inr: "readM f s = (Inr y, s') \<longleftrightarrow> y = f s \<and> s' = s"
  by (auto simp: readM_def)

lemma raise_Inr: "raiseM e s = (Inr y, s') \<longleftrightarrow> False"
  by (simp add: raiseM_def)

lemma raise_when_Inr: "raise_whenM b e s = (Inr y, s') \<longleftrightarrow> \<not> b \<and> s' = s"
  by (auto simp: raise_whenM_def)

lemma exceptM_Inr: "exceptM c e m s = (Inr x, s') \<longleftrightarrow> m s = (Inr x, s')"
  by (auto simp: exceptM_def split: prod.splits sum.splits)

lemma zoom_Inr: "zoom get put m s = (Inr y, s') \<longleftrightarrow> (\<exists>t. m (get s) = (Inr y, t) \<and> s' = put t s)"
  by (auto simp: zoom_def split: prod.splits)

text \<open>The exceptions a step may raise.\<close>

definition raises_only :: "('e \<Rightarrow> bool) \<Rightarrow> ('s, 'e, 'a) eff \<Rightarrow> bool" where
  "raises_only P m \<longleftrightarrow> (\<forall>s e s'. m s = (Inl e, s') \<longrightarrow> P e)"

named_theorems raises \<open>rules for the exceptions of a step\<close>

lemma raises_ret [raises]: "raises_only P (retM x)"
  by (simp add: raises_only_def retM_def)

lemma raises_read [raises]: "raises_only P (readM f)"
  by (simp add: raises_only_def readM_def)

lemma raises_raise [raises]: "P e \<Longrightarrow> raises_only P (raiseM e)"
  by (simp add: raises_only_def raiseM_def)

lemma raises_when [raises]: "P e \<Longrightarrow> raises_only P (raise_whenM b e)"
  by (simp add: raises_only_def raise_whenM_def)

lemma raises_lift [raises]: "(\<And>e. r = Inl e \<Longrightarrow> P e) \<Longrightarrow> raises_only P (liftM r)"
  by (simp add: raises_only_def liftM_def)

lemma raises_bind [raises]:
  "raises_only P m \<Longrightarrow> (\<And>x. raises_only P (f x)) \<Longrightarrow> raises_only P (bindM m f)"
  by (fastforce simp: raises_only_def bindM_def split: prod.splits sum.splits)

lemma raises_then [raises]: "raises_only P m \<Longrightarrow> raises_only P n \<Longrightarrow> raises_only P (thenM m n)"
  by (simp add: thenM_def raises_bind)

lemma raises_if [raises]:
  "(b \<Longrightarrow> raises_only P m) \<Longrightarrow> (\<not> b \<Longrightarrow> raises_only P n) \<Longrightarrow> raises_only P (if b then m else n)"
  by simp

lemma raises_zoom [raises]: "raises_only P m \<Longrightarrow> raises_only P (zoom get put m)"
  by (fastforce simp: raises_only_def zoom_def split: prod.splits)

lemma raises_except [raises]:
  "raises_only (\<lambda>e. c e \<or> P e) m \<Longrightarrow> P e' \<Longrightarrow> raises_only P (exceptM c e' m)"
  by (fastforce simp: raises_only_def exceptM_def split: prod.splits sum.splits if_splits)

lemma raises_mono: "raises_only P m \<Longrightarrow> (\<And>e. P e \<Longrightarrow> Q e) \<Longrightarrow> raises_only Q m"
  by (simp add: raises_only_def)

end
