(* ===== verification/Updater_Store.thy ===== *)
theory Updater_Store
  imports Updater_Codec Effects
begin

text \<open>
  The state file (\<open>updater/store.py\<close>): its reader with the checks of the path, its writer, and
  the atomic replacement of a private file as the steps the operating system sees, so that
  an interruption can be placed between any two of them.
\<close>

section \<open>A directory of private files\<close>

text \<open>
  What \<open>lstat\<close> finds at a path: nothing, an entry it may not look at, a directory or a regular
  file with its mode, or another kind of entry (a link, a device).
\<close>

datatype node =
    Absent
  | Denied
  | Directory nat
  | Regular nat bytes
  | Special

record private_dir =
  pd_node :: node
  pd_files :: "pystr \<Rightarrow> node"

definition max_state_bytes :: nat where
  "max_state_bytes = 1048576"

definition unsafe_path :: uexn where
  "unsafe_path = StateStoreError (lit ''unsafe_state_path'')"

section \<open>Reading\<close>

text \<open>
  \<open>json.loads(payload)\<close> on bytes. The UTF-16 and UTF-32 forms that \<open>json\<close> also detects, a byte
  order mark and encoded surrogates are never written by the program; here they are invalid.
\<close>

definition decode_state :: "bytes \<Rightarrow> uexn + persistent_state" where
  "decode_state payload =
     (case Option.bind (utf8_decode payload) json_loads of
        None \<Rightarrow> Inl (StateStoreError (lit ''invalid_state''))
      | Some j \<Rightarrow>
          (case state_from_dict j of
             Inl e \<Rightarrow> Inl (StateStoreError (lit ''invalid_state'')) | Inr p \<Rightarrow> Inr p))"

text \<open>
  \<open>FileStateStore.load\<close>. The file that \<open>_read_validated_file\<close> opens is the one that \<open>lstat\<close> has
  seen; a change between the two calls is outside the model.
\<close>

definition load_state :: "pystr \<Rightarrow> private_dir \<Rightarrow> uexn + persistent_state" where
  "load_state name d =
     (case pd_node d of
        Absent \<Rightarrow> Inr empty_state
      | Directory mode \<Rightarrow>
          if mode \<noteq> 448 then Inl unsafe_path
          else
            (case pd_files d name of
               Absent \<Rightarrow> Inr empty_state
             | Regular file_mode content \<Rightarrow>
                 if file_mode \<noteq> 384 then Inl unsafe_path
                 else if max_state_bytes < length content
                 then Inl (StateStoreError (lit ''state_too_large''))
                 else decode_state content
             | _ \<Rightarrow> Inl unsafe_path)
      | _ \<Rightarrow> Inl unsafe_path)"

section \<open>Writing\<close>

definition encode_state :: "persistent_state \<Rightarrow> bytes" where
  "encode_state p = utf8_encode (json_dumps (state_to_dict p))"

text \<open>
  \<open>atomic_private_replace\<close> as its calls: the temporary file \<open>tmp\<close>, whose name is drawn by
  \<open>tempfile\<close>, is filled before it is renamed. Flushing does not change what is seen.
\<close>

datatype store_call =
    MakeParent
  | ChmodParent nat
  | CreateTemp pystr
  | ChmodTemp pystr nat
  | WriteTemp pystr bytes
  | SyncTemp pystr
  | Rename pystr pystr
  | SyncParent

definition set_node :: "pystr \<Rightarrow> node \<Rightarrow> private_dir \<Rightarrow> private_dir" where
  "set_node name x d = d\<lparr>pd_files := (pd_files d)(name := x)\<rparr>"

text \<open>A step of the file system; \<open>None\<close> is the \<open>OSError\<close> it raises.\<close>

fun fs_step :: "store_call \<Rightarrow> private_dir \<Rightarrow> private_dir option" where
  "fs_step MakeParent d =
     (case pd_node d of
        Absent \<Rightarrow> Some (d\<lparr>pd_node := Directory 493, pd_files := (\<lambda>_. Absent)\<rparr>)
      | Directory mode \<Rightarrow> Some d
      | _ \<Rightarrow> None)"
| "fs_step (ChmodParent mode) d =
     (case pd_node d of Directory m \<Rightarrow> Some (d\<lparr>pd_node := Directory mode\<rparr>) | _ \<Rightarrow> None)"
| "fs_step (CreateTemp t) d =
     (if pd_files d t = Absent then Some (set_node t (Regular 384 []) d) else None)"
| "fs_step (ChmodTemp t mode) d =
     (case pd_files d t of Regular m b \<Rightarrow> Some (set_node t (Regular mode b) d) | _ \<Rightarrow> None)"
| "fs_step (WriteTemp t bs) d =
     (case pd_files d t of Regular m b \<Rightarrow> Some (set_node t (Regular m (b @ bs)) d) | _ \<Rightarrow> None)"
| "fs_step (SyncTemp t) d = Some d"
| "fs_step (Rename t name) d =
     (case (pd_files d t, pd_files d name) of
        (Regular m b, Directory m') \<Rightarrow> None
      | (Regular m b, _) \<Rightarrow> Some (set_node t Absent (set_node name (Regular m b) d))
      | _ \<Rightarrow> None)"
| "fs_step SyncParent d = Some d"

text \<open>The directory after the calls up to the first that fails, and whether none did.\<close>

fun run_steps :: "store_call list \<Rightarrow> private_dir \<Rightarrow> private_dir \<times> bool" where
  "run_steps [] d = (d, True)"
| "run_steps (x # xs) d = (case fs_step x d of None \<Rightarrow> (d, False) | Some d' \<Rightarrow> run_steps xs d')"

definition replace_steps :: "pystr \<Rightarrow> pystr \<Rightarrow> bytes \<Rightarrow> store_call list" where
  "replace_steps name tmp payload =
     [MakeParent, ChmodParent 448, CreateTemp tmp, ChmodTemp tmp 384, WriteTemp tmp payload,
      SyncTemp tmp, Rename tmp name, SyncParent]"

text \<open>A failed replacement removes its temporary file.\<close>

definition atomic_private_replace ::
    "pystr \<Rightarrow> pystr \<Rightarrow> bytes \<Rightarrow> (private_dir, uexn, unit) eff" where
  "atomic_private_replace name tmp payload d =
     (case run_steps (replace_steps name tmp payload) d of
        (d', True) \<Rightarrow> (Inr (), d')
      | (d', False) \<Rightarrow>
          (Inl UOSError, if pd_files d tmp = Absent then set_node tmp Absent d' else d'))"

definition save_state :: "pystr \<Rightarrow> pystr \<Rightarrow> persistent_state \<Rightarrow> (private_dir, uexn, unit) eff" where
  "save_state name tmp p d =
     (if max_state_bytes < length (encode_state p)
      then (Inl (StateStoreError (lit ''state_too_large'')), d)
      else atomic_private_replace name tmp (encode_state p) d)"

section \<open>What a load sees\<close>

text \<open>A directory in which the store can work: private, without the temporary name.\<close>

definition usable :: "pystr \<Rightarrow> pystr \<Rightarrow> private_dir \<Rightarrow> bool" where
  "usable name tmp d \<longleftrightarrow> pd_node d = Directory 448 \<and> name \<noteq> tmp \<and> pd_files d tmp = Absent
     \<and> (\<forall>m. pd_files d name \<noteq> Directory m)"

lemma decode_encode:
  assumes "valid_state p"
  shows "decode_state (encode_state p) = Inr p"
proof -
  let ?t = "json_dumps (state_to_dict p)"
  have "scalar c" if "c \<in> set ?t" for c
    using dumps_ascii(1) [OF _ that] fine_state [OF assms] by (simp add: fine_json_def scalar_def)
  then have "utf8_decode (encode_state p) = Some ?t"
    unfolding encode_state_def by (rule utf8_decode_encode)
  then show ?thesis
    by (simp add: decode_state_def state_text_round [OF assms] state_round [OF assms])
qed

lemma run_prefix:
  assumes "usable name tmp d"
  shows "fst (run_steps (take k (replace_steps name tmp payload)) d) =
     (if k \<le> 2 then d
      else if k \<le> 4 then set_node tmp (Regular 384 []) d
      else if k \<le> 6 then set_node tmp (Regular 384 payload) d
      else set_node tmp Absent (set_node name (Regular 384 payload) (set_node tmp (Regular 384 payload) d)))"
proof -
  have d: "d\<lparr>pd_node := Directory 448\<rparr> = d" using assms by (simp add: usable_def)
  consider "k = 0" | "k = 1" | "k = 2" | "k = 3" | "k = 4" | "k = 5" | "k = 6" | "k = 7" | "8 \<le> k"
    by linarith
  then show ?thesis
    using assms d
    by cases (simp_all add: replace_steps_def usable_def set_node_def split: node.split)
qed

end
