(* ===== verification/Updater_Runner.thy ===== *)
theory Updater_Runner
  imports Updater_Store Py_Text
begin

text \<open>
  The command runner (\<open>updater/runner.py\<close>): a command is checked, started and read up to a size
  and a deadline. What the operating system does with a started command is a \<open>process\<close>.
\<close>

section \<open>Processes\<close>

text \<open>
  The outcome of \<open>Popen\<close>: an \<open>OSError\<close>, another failure, or a process with the chunks that its
  pipes deliver, each with its time in milliseconds after the start and whether it comes
  from the standard output; then the time when both pipes are closed and the time and code
  of the exit, which a process may never reach.
\<close>

datatype process =
    Unavailable
  | SpawnFailed
  | Process "(nat \<times> bool \<times> bytes) list" "nat option" "(nat \<times> int) option"

definition max_output_bytes :: nat where
  "max_output_bytes = 65536"

section \<open>Reading the output\<close>

text \<open>The loop of \<open>_collect_bounded_output\<close>, with what the two streams have so far.\<close>

fun collect_chunks ::
    "nat \<Rightarrow> (nat \<times> bool \<times> bytes) list \<Rightarrow> bytes \<Rightarrow> bytes \<Rightarrow> uexn + bytes \<times> bytes" where
  "collect_chunks deadline [] out err = Inr (out, err)"
| "collect_chunks deadline ((t, is_out, chunk) # rest) out err =
     (if deadline \<le> t then Inl (SafeCommandError (lit ''command_timeout''))
      else if max_output_bytes < length (if is_out then out else err) + length chunk
              \<or> max_output_bytes < length out + length err + length chunk
      then Inl (SafeCommandError (lit ''command_output_too_large''))
      else if is_out then collect_chunks deadline rest (out @ chunk) err
      else collect_chunks deadline rest out (err @ chunk))"

definition reached :: "nat \<Rightarrow> nat option \<Rightarrow> bool" where
  "reached deadline t \<longleftrightarrow> (case t of None \<Rightarrow> False | Some x \<Rightarrow> x < deadline)"

definition collect_bounded_output ::
    "nat \<Rightarrow> (nat \<times> bool \<times> bytes) list \<Rightarrow> nat option \<Rightarrow> (nat \<times> int) option
     \<Rightarrow> uexn + bytes \<times> bytes \<times> int" where
  "collect_bounded_output deadline chunks closed exited =
     bindE (collect_chunks deadline chunks [] []) (\<lambda>(out, err).
     if \<not> reached deadline closed \<or> \<not> reached deadline (map_option fst exited)
     then Inl (SafeCommandError (lit ''command_timeout''))
     else Inr (out, err, snd (the exited)))"

section \<open>Running\<close>

text \<open>\<open>_validated_command\<close>; the timeouts of the program are positive constants.\<close>

definition valid_command :: "pystr list \<Rightarrow> bool" where
  "valid_command argv \<longleftrightarrow> argv \<noteq> [] \<and> (\<forall>v\<in>set argv. v \<noteq> [] \<and> 0 \<notin> set v)"

text \<open>
  \<open>CommandRunner.run\<close> with a timeout in seconds; \<open>start\<close> is what starting a command does to
  the world. The result is the standard output, the only part the callers use.
\<close>

definition run_command ::
    "(pystr list \<Rightarrow> 'w \<Rightarrow> process \<times> 'w) \<Rightarrow> pystr list \<Rightarrow> nat \<Rightarrow> ('w, uexn, bytes) eff" where
  "run_command start argv timeout w =
     (if \<not> valid_command argv then (Inl (SafeCommandError (lit ''invalid_command'')), w)
      else
        (case start argv w of
           (Unavailable, w') \<Rightarrow> (Inl (SafeCommandError (lit ''command_unavailable'')), w')
         | (SpawnFailed, w') \<Rightarrow> (Inl (SafeCommandError (lit ''command_failed'')), w')
         | (Process chunks closed exited, w') \<Rightarrow>
             (case collect_bounded_output (1000 * timeout) chunks closed exited of
                Inl e \<Rightarrow> (Inl e, w')
              | Inr (out, err, code) \<Rightarrow>
                  if code \<noteq> 0 then (Inl (SafeCommandError (lit ''command_failed'')), w')
                  else (Inr out, w'))))"

section \<open>Bounds\<close>

lemma collect_chunks_bound:
  "collect_chunks deadline chunks out err = Inr (out', err') \<Longrightarrow>
   length out + length err \<le> max_output_bytes \<Longrightarrow> length out' + length err' \<le> max_output_bytes"
  by (induction deadline chunks out err rule: collect_chunks.induct) (auto split: if_splits)

lemma collect_chunks_content:
  "collect_chunks deadline chunks out err = Inr (out', err') \<longleftrightarrow>
     (\<forall>(t, x, c)\<in>set chunks. t < deadline)
     \<and> length out + length err + sum_list (map (\<lambda>(t, x, c). length c) chunks)
         \<le> max_output_bytes
     \<and> out' = out @ concat (map (\<lambda>(t, x, c). if x then c else []) chunks)
     \<and> err' = err @ concat (map (\<lambda>(t, x, c). if x then [] else c) chunks)"
  if "length out + length err \<le> max_output_bytes"
  using that
  by (induction deadline chunks out err rule: collect_chunks.induct) (auto split: if_splits)

text \<open>A result is the output of a process that exited with 0 in time, at most 64 KiB of it.\<close>

lemma run_command_result:
  assumes "run_command start argv timeout w = (Inr out, w')"
  shows "valid_command argv" "length out \<le> max_output_bytes"
    and "\<exists>chunks t t'. start argv w = (Process chunks (Some t) (Some (t', 0)), w')
      \<and> t < 1000 * timeout \<and> t' < 1000 * timeout
      \<and> out = concat (map (\<lambda>(t, x, c). if x then c else []) chunks)"
proof -
  obtain p where p: "start argv w = (p, w')"
    using assms by (auto simp: run_command_def split: if_splits prod.splits process.splits sum.splits)
  then obtain chunks closed exited err where q: "p = Process chunks closed exited"
    "collect_bounded_output (1000 * timeout) chunks closed exited = Inr (out, err, 0)"
    using assms by (auto simp: run_command_def split: if_splits process.splits sum.splits)
  then have c: "collect_chunks (1000 * timeout) chunks [] [] = Inr (out, err)"
    and e: "reached (1000 * timeout) closed" "reached (1000 * timeout) (map_option fst exited)"
      "snd (the exited) = 0"
    by (auto simp: collect_bounded_output_def bindE_Inr_iff split: if_splits)
  show "valid_command argv"
    using assms by (auto simp: run_command_def split: if_splits)
  show "length out \<le> max_output_bytes"
    using collect_chunks_bound [OF c] by simp
  show "\<exists>chunks t t'. start argv w = (Process chunks (Some t) (Some (t', 0)), w')
      \<and> t < 1000 * timeout \<and> t' < 1000 * timeout
      \<and> out = concat (map (\<lambda>(t, x, c). if x then c else []) chunks)"
    using p q(1) e c by (cases closed; cases exited)
      (auto simp: reached_def collect_chunks_content intro!: exI [of _ chunks])
qed

lemma run_command_error:
  "run_command start argv timeout w = (Inl e, w') \<Longrightarrow> \<exists>c. e = SafeCommandError c"
proof -
  have "collect_chunks d cs out err = Inl e \<Longrightarrow> \<exists>c. e = SafeCommandError c" for d cs out err
    by (induction d cs out err rule: collect_chunks.induct) (auto split: if_splits)
  then show "run_command start argv timeout w = (Inl e, w') \<Longrightarrow> \<exists>c. e = SafeCommandError c"
    by (auto simp: run_command_def collect_bounded_output_def bindE_Inl_iff
        split: if_splits prod.splits process.splits sum.splits)
qed

end
