(* ===== verification/Updater_Manager.thy ===== *)
theory Updater_Manager
  imports Effects Updater_Types
begin

text \<open>
  The update state machine (\<open>updater/manager.py\<close>). As in the program, the manager is given
  its store, its platform, its clock and its sleeper: they are the fields of \<open>env\<close>, steps on
  a state of any type. The locks only serialise whole operations and are not modelled: an
  operation here runs alone.
\<close>

section \<open>The environment\<close>

record 's env =
  env_load :: "('s, uexn, persistent_state) eff"
  env_save :: "persistent_state \<Rightarrow> ('s, uexn, unit) eff"
  env_inspect_web :: "('s, uexn, image_identity) eff"
  env_resolve_stable :: "('s, uexn, image_identity) eff"
  env_verify_target :: "image_identity \<Rightarrow> ('s, uexn, unit) eff"
  env_create_backup :: "('s, uexn, pystr \<times> pystr) eff"
  env_tag_rollback :: "update_task \<Rightarrow> ('s, uexn, update_task) eff"
  env_stop_web :: "('s, uexn, unit) eff"
  env_migrate_target :: "image_identity \<Rightarrow> uuid \<Rightarrow> ('s, uexn, unit) eff"
  env_start_target :: "image_identity \<Rightarrow> uuid \<Rightarrow> ('s, uexn, unit) eff"
  env_start_rollback :: "update_task \<Rightarrow> ('s, uexn, unit) eff"
  env_health :: "image_identity \<Rightarrow> ('s, uexn, unit) eff"
  env_persist_version :: "pystr \<Rightarrow> ('s, uexn, unit) eff"
  env_cleanup_step :: "update_task \<Rightarrow> cleanup_step \<Rightarrow> ('s, uexn, unit) eff"
  env_now :: "('s, uexn, instant) eff"
  env_sleep :: "nat \<Rightarrow> ('s, uexn, unit) eff"

definition conflict :: "string \<Rightarrow> ('s, uexn, 'a) eff" where
  "conflict code = raiseM (UpdateConflict (lit code))"

text \<open>\<open>except SafeOperationError as error\<close>, with \<open>error.code\<close>.\<close>

fun safe_code :: "uexn \<Rightarrow> pystr option" where
  "safe_code (SafeOperationError c) = Some c"
| "safe_code _ = None"

definition check_max_age :: instant where
  "check_max_age = 120000000"

definition startup_health_max_attempts :: nat where
  "startup_health_max_attempts = 30"

definition startup_health_retry_seconds :: nat where
  "startup_health_retry_seconds = 2"

definition pre_tag_stages :: "stage list" where
  "pre_tag_stages = [CHECKING, BACKING_UP, PULLING]"

definition target_completion_stages :: "stage list" where
  "target_completion_stages = [PERSISTING_VERSION, CLEANING]"

definition terminal_stages :: "stage list" where
  "terminal_stages = [SUCCEEDED, FAILED, MANUAL_INTERVENTION]"

definition cleanup_steps :: "cleanup_step list" where
  "cleanup_steps = [VERSION_TAG, ROLLBACK_ALIAS, IMAGE_ID]"

section \<open>State access\<close>

fun require_task :: "persistent_state \<Rightarrow> uuid \<Rightarrow> uexn + update_task" where
  "require_task s i =
     (case ps_task s of
        None \<Rightarrow> Inl (UpdateConflict (lit ''task_not_found''))
      | Some t \<Rightarrow> if ut_id t = i then Inr t else Inl (UpdateConflict (lit ''task_not_found'')))"

definition task_of :: "'s env \<Rightarrow> uuid \<Rightarrow> ('s, uexn, update_task) eff" where
  "task_of E i = bindM (env_load E) (\<lambda>s. liftM (require_task s i))"

definition save_task :: "'s env \<Rightarrow> update_task \<Rightarrow> ('s, uexn, unit) eff" where
  "save_task E t =
     bindM (env_load E) (\<lambda>s. env_save E \<lparr>ps_last_check = ps_last_check s, ps_task = Some t\<rparr>)"

definition checkpoint :: "'s env \<Rightarrow> uuid \<Rightarrow> stage \<Rightarrow> ('s, uexn, unit) eff" where
  "checkpoint E i st =
     bindM (task_of E i) (\<lambda>t.
     if ut_started_at t = None
     then bindM (env_now E) (\<lambda>n.
            save_task E (t\<lparr>ut_stage := st, ut_started_at := Some n\<rparr>))
     else save_task E (t\<lparr>ut_stage := st\<rparr>))"

definition finish_failed :: "'s env \<Rightarrow> uuid \<Rightarrow> pystr \<Rightarrow> bool \<Rightarrow> ('s, uexn, unit) eff" where
  "finish_failed E i code rolled_back =
     bindM (task_of E i) (\<lambda>t.
     bindM (env_now E) (\<lambda>n.
     save_task E (t\<lparr>ut_stage := FAILED, ut_rolled_back := rolled_back, ut_error_code := code,
       ut_finished_at := Some n\<rparr>)))"

definition finish_manual :: "'s env \<Rightarrow> uuid \<Rightarrow> ('s, uexn, unit) eff" where
  "finish_manual E i =
     bindM (task_of E i) (\<lambda>t.
     bindM (env_now E) (\<lambda>n.
     save_task E (t\<lparr>ut_stage := MANUAL_INTERVENTION,
       ut_error_code := lit ''rollback_failed'', ut_finished_at := Some n\<rparr>)))"

definition record_backups :: "'s env \<Rightarrow> uuid \<Rightarrow> pystr \<times> pystr \<Rightarrow> ('s, uexn, unit) eff" where
  "record_backups E i backups =
     bindM (task_of E i) (\<lambda>t.
     save_task E (t\<lparr>ut_database_backup := fst backups, ut_uploads_backup := snd backups\<rparr>))"

definition commit_success :: "'s env \<Rightarrow> uuid \<Rightarrow> bool \<Rightarrow> ('s, uexn, unit) eff" where
  "commit_success E i cleanup_complete =
     bindM (env_load E) (\<lambda>s.
     bindM (liftM (require_task s i)) (\<lambda>t.
     bindM (env_now E) (\<lambda>n.
     bindM (env_now E) (\<lambda>n2.
     env_save E \<lparr>ps_last_check = Some \<lparr>ck_current = ut_target t, ck_target = ut_target t,
                   ck_available = False, ck_checked_at = n2\<rparr>,
                 ps_task = Some (t\<lparr>ut_stage := SUCCEEDED,
                   ut_cleanup := (if cleanup_complete then COMPLETE else PENDING),
                   ut_finished_at := Some n\<rparr>)\<rparr>))))"

section \<open>Health\<close>

text \<open>
  \<open>_wait_for_startup_health\<close>: the argument counts the attempts that are left after this
  one, so the last attempt's error is raised.
\<close>

fun startup_health :: "'s env \<Rightarrow> image_identity \<Rightarrow> nat \<Rightarrow> ('s, uexn, unit) eff" where
  "startup_health E expected 0 = env_health E expected"
| "startup_health E expected (Suc n) =
     bindM (tryM safe_code (env_health E expected)) (\<lambda>r.
     case r of
       Inr _ \<Rightarrow> retM ()
     | Inl _ \<Rightarrow> thenM (env_sleep E startup_health_retry_seconds) (startup_health E expected n))"

definition wait_for_startup_health :: "'s env \<Rightarrow> image_identity \<Rightarrow> ('s, uexn, unit) eff" where
  "wait_for_startup_health E expected = startup_health E expected (startup_health_max_attempts - 1)"

fun stabilize_rounds :: "'s env \<Rightarrow> uuid \<Rightarrow> nat \<Rightarrow> ('s, uexn, unit) eff" where
  "stabilize_rounds E i 0 = retM ()"
| "stabilize_rounds E i (Suc n) =
     thenM (env_sleep E 5)
     (thenM (checkpoint E i STABILIZING)
     (bindM (task_of E i) (\<lambda>t.
      thenM (env_health E (ut_target t)) (stabilize_rounds E i n))))"

definition stabilize :: "'s env \<Rightarrow> uuid \<Rightarrow> ('s, uexn, unit) eff" where
  "stabilize E i = thenM (checkpoint E i STABILIZING) (stabilize_rounds E i 3)"

section \<open>Cleaning up\<close>

fun cleanup_loop :: "'s env \<Rightarrow> uuid \<Rightarrow> cleanup_step list \<Rightarrow> ('s, uexn, bool) eff" where
  "cleanup_loop E i [] = retM True"
| "cleanup_loop E i (step # steps) =
     bindM (task_of E i) (\<lambda>t.
     case ut_cleanup_journal t of
       None \<Rightarrow> retM False
     | Some journal \<Rightarrow>
         if journal_get journal step = COMPLETED then cleanup_loop E i steps
         else
           thenM (if journal_get journal step = NOT_STARTED
                  then bindM (liftM (journal_replace journal step STARTED)) (\<lambda>j.
                         save_task E (t\<lparr>ut_cleanup_journal := Some j\<rparr>))
                  else retM ())
           (bindM (task_of E i) (\<lambda>t1.
            bindM (tryM safe_code (env_cleanup_step E t1 step)) (\<lambda>r.
            case r of
              Inl _ \<Rightarrow> retM False
            | Inr _ \<Rightarrow>
                bindM (task_of E i) (\<lambda>t2.
                case ut_cleanup_journal t2 of
                  None \<Rightarrow> retM False
                | Some journal2 \<Rightarrow>
                    if journal_get journal2 step \<noteq> STARTED then retM False
                    else
                      bindM (liftM (journal_replace journal2 step COMPLETED)) (\<lambda>j.
                      thenM (save_task E (t2\<lparr>ut_cleanup_journal := Some j\<rparr>))
                        (cleanup_loop E i steps)))))))"

definition cleanup_original :: "'s env \<Rightarrow> uuid \<Rightarrow> ('s, uexn, bool) eff" where
  "cleanup_original E i =
     bindM (task_of E i) (\<lambda>t.
     if ut_cleanup_journal t = None then retM False
     else
       thenM (if ut_cleanup t = NOT_RUN then save_task E (t\<lparr>ut_cleanup := PENDING\<rparr>)
              else retM ())
         (cleanup_loop E i cleanup_steps))"

section \<open>Rolling back\<close>

definition rollback_to_original ::
    "'s env \<Rightarrow> uuid \<Rightarrow> pystr \<Rightarrow> bool \<Rightarrow> bool \<Rightarrow> ('s, uexn, unit) eff" where
  "rollback_to_original E i code restore_original_version preserve_source_stage =
     bindM (task_of E i) (\<lambda>t.
     let checkpoint_stage = (if preserve_source_stage then ut_stage t else ROLLING_BACK)
     in
     thenM (save_task E (t\<lparr>ut_stage := checkpoint_stage, ut_error_code := code\<rparr>))
     (bindM (tryM safe_code
        (bindM (task_of E i) (\<lambda>t1.
         thenM (env_start_rollback E t1)
         (thenM (checkpoint E i checkpoint_stage)
         (thenM (wait_for_startup_health E (ut_original t1))
         (if restore_original_version
          then thenM (checkpoint E i checkpoint_stage)
                 (env_persist_version E (im_version (ut_original t1)))
          else retM ())))))) (\<lambda>r.
      case r of
        Inl _ \<Rightarrow> finish_manual E i
      | Inr _ \<Rightarrow> finish_failed E i code True)))"

definition safe_error_code :: "pystr \<Rightarrow> pystr" where
  "safe_error_code code =
     (if code \<in> {lit ''backup_failed'', lit ''pull_failed'', lit ''migration_failed'',
                 lit ''health_check_failed''}
      then code else lit ''update_failed'')"

definition handle_failure :: "'s env \<Rightarrow> uuid \<Rightarrow> pystr \<Rightarrow> bool \<Rightarrow> ('s, uexn, unit) eff" where
  "handle_failure E i code web_was_stopped =
     (if \<not> web_was_stopped then finish_failed E i code False
      else
        bindM (task_of E i) (\<lambda>t.
        rollback_to_original E i code (ut_stage t = PERSISTING_VERSION) False))"

section \<open>Running an update\<close>

text \<open>
  The body of the \<open>try\<close> of \<open>_execute\<close>, in the two parts that the assignment
  \<open>web_was_stopped = True\<close> separates.
\<close>

definition before_stop :: "'s env \<Rightarrow> uuid \<Rightarrow> ('s, uexn, unit) eff" where
  "before_stop E i =
     thenM (checkpoint E i BACKING_UP)
     (bindM (env_create_backup E) (\<lambda>backups.
      thenM (record_backups E i backups)
     (thenM (checkpoint E i PULLING)
     (bindM (task_of E i) (\<lambda>t.
      thenM (env_verify_target E (ut_target t))
     (thenM (checkpoint E i PULLING)
     (bindM (task_of E i) (\<lambda>t1.
      bindM (env_tag_rollback E t1) (\<lambda>t2.
      thenM (save_task E t2)
      (checkpoint E i STOPPING_WEB))))))))))"

definition after_stop :: "'s env \<Rightarrow> uuid \<Rightarrow> ('s, uexn, unit) eff" where
  "after_stop E i =
     thenM (env_stop_web E)
     (thenM (checkpoint E i MIGRATING)
     (bindM (task_of E i) (\<lambda>t.
      thenM (env_migrate_target E (ut_target t) (ut_id t))
     (thenM (checkpoint E i STARTING_WEB)
     (bindM (task_of E i) (\<lambda>t1.
      thenM (env_start_target E (ut_target t1) (ut_id t1))
     (thenM (checkpoint E i CHECKING_HEALTH)
     (bindM (task_of E i) (\<lambda>t2.
      thenM (wait_for_startup_health E (ut_target t2))
     (thenM (stabilize E i)
     (thenM (checkpoint E i PERSISTING_VERSION)
     (bindM (task_of E i) (\<lambda>t3.
      env_persist_version E (im_version (ut_target t3)))))))))))))))"

definition require_ready_task :: "'s env \<Rightarrow> uuid \<Rightarrow> ('s, uexn, unit) eff" where
  "require_ready_task E i =
     bindM (task_of E i) (\<lambda>t. if ut_stage t \<noteq> CHECKING then conflict ''task_not_ready'' else retM ())"

definition complete_update :: "'s env \<Rightarrow> uuid \<Rightarrow> ('s, uexn, unit) eff" where
  "complete_update E i = bindM (cleanup_original E i) (commit_success E i)"

definition execute :: "'s env \<Rightarrow> uuid \<Rightarrow> ('s, uexn, unit) eff" where
  "execute E i =
     thenM (require_ready_task E i)
     (bindM (tryM safe_code (before_stop E i)) (\<lambda>r.
      case r of
        Inl code \<Rightarrow> handle_failure E i (safe_error_code code) False
      | Inr _ \<Rightarrow>
          bindM (tryM safe_code (after_stop E i)) (\<lambda>r2.
          case r2 of
            Inl code \<Rightarrow> handle_failure E i (safe_error_code code) True
          | Inr _ \<Rightarrow> thenM (checkpoint E i CLEANING) (complete_update E i))))"

section \<open>Checking and starting\<close>

definition reject_active_task :: "persistent_state \<Rightarrow> ('s, uexn, unit) eff" where
  "reject_active_task s =
     (case ps_task s of
        None \<Rightarrow> retM ()
      | Some t \<Rightarrow>
          if ut_stage t = FAILED \<or> ut_stage t = SUCCEEDED \<and> ut_cleanup t = COMPLETE then retM ()
          else conflict ''task_active'')"

definition require_matching_repositories ::
    "image_identity \<Rightarrow> image_identity \<Rightarrow> ('s, uexn, unit) eff" where
  "require_matching_repositories current target =
     (if im_repository current \<noteq> im_repository target then conflict ''repository_mismatch''
      else retM ())"

definition status_from_state :: "persistent_state \<Rightarrow> ('s, uexn, status_view) eff" where
  "status_from_state s =
     (case ps_last_check s of
        None \<Rightarrow> conflict ''stale_check''
      | Some c \<Rightarrow>
          liftM (bindE (case ps_task s of None \<Rightarrow> Inr None
                        | Some t \<Rightarrow> map_sum id Some (public_view t)) (\<lambda>tv.
                 make_status_view
                   \<lparr>sv_current_version = im_version (ck_current c),
                    sv_current_published_at = im_published_at (ck_current c),
                    sv_latest_version = Some (im_version (ck_target c)),
                    sv_latest_published_at = im_published_at (ck_target c),
                    sv_update_available = ck_available c,
                    sv_checked_at = Some (ck_checked_at c), sv_task = tv\<rparr>)))"

definition check :: "'s env \<Rightarrow> ('s, uexn, status_view) eff" where
  "check E =
     bindM (env_load E) (\<lambda>s.
     thenM (reject_active_task s)
     (bindM (env_inspect_web E) (\<lambda>current.
      bindM (env_resolve_stable E) (\<lambda>target.
      thenM (require_matching_repositories current target)
     (bindM (liftM (version_key (im_version target))) (\<lambda>kt.
      bindM (liftM (version_key (im_version current))) (\<lambda>kc.
      bindM (env_now E) (\<lambda>n.
      let s1 = \<lparr>ps_last_check = Some \<lparr>ck_current = current, ck_target = target,
                  ck_available = (kc < kt), ck_checked_at = n\<rparr>,
                ps_task = ps_task s\<rparr>
      in thenM (env_save E s1) (status_from_state s1)))))))))"

definition require_fresh_check ::
    "'s env \<Rightarrow> check_result option \<Rightarrow> pystr \<Rightarrow> ('s, uexn, check_result) eff" where
  "require_fresh_check E checked target_version =
     bindM (liftM (version_key target_version)) (\<lambda>_.
     case checked of
       None \<Rightarrow> conflict ''stale_check''
     | Some c \<Rightarrow>
         if target_version \<noteq> im_version (ck_target c) then conflict ''target_mismatch''
         else if \<not> ck_available c then conflict ''no_update''
         else
           bindM (env_now E) (\<lambda>n.
           if n - ck_checked_at c < 0 \<or> check_max_age \<le> n - ck_checked_at c
           then conflict ''stale_check''
           else thenM (require_matching_repositories (ck_current c) (ck_target c)) (retM c)))"

text \<open>
  The second component of the result of \<open>start\<close> is the callable that the caller submits:
  \<open>Some i\<close> stands for \<open>lambda: self._execute(i)\<close> and \<open>None\<close> for \<open>lambda: None\<close>. The
  identifier \<open>fresh\<close> is the one \<open>uuid4\<close> draws when the caller gives none.
\<close>

definition start_new ::
    "'s env \<Rightarrow> persistent_state \<Rightarrow> pystr \<Rightarrow> uuid \<Rightarrow> ('s, uexn, task_view \<times> uuid option) eff" where
  "start_new E s target_version i =
     thenM (reject_active_task s)
     (bindM (require_fresh_check E (ps_last_check s) target_version) (\<lambda>checked.
      bindM (env_resolve_stable E) (\<lambda>resolved.
      if (im_version resolved, im_digest resolved)
           \<noteq> (im_version (ck_target checked), im_digest (ck_target checked))
      then conflict ''target_changed''
      else
        bindM (env_now E) (\<lambda>n.
        let task = new_task i (ck_current checked) (ck_target checked) n
        in thenM (env_save E \<lparr>ps_last_check = Some checked, ps_task = Some task\<rparr>)
             (bindM (liftM (public_view task)) (\<lambda>v. retM (v, Some i)))))))"

definition start ::
    "'s env \<Rightarrow> pystr \<Rightarrow> uuid option \<Rightarrow> uuid \<Rightarrow> ('s, uexn, task_view \<times> uuid option) eff" where
  "start E target_version task_id fresh =
     bindM (env_load E) (\<lambda>s.
     case (task_id, ps_task s) of
       (Some i, Some t) \<Rightarrow>
         if ut_id t = i
         then if im_version (ut_target t) \<noteq> target_version then conflict ''task_id_conflict''
              else bindM (liftM (public_view t)) (\<lambda>v.
                   retM (v, if ut_stage t = CHECKING then Some i else None))
         else start_new E s target_version i
     | (Some i, None) \<Rightarrow> start_new E s target_version i
     | (None, _) \<Rightarrow> start_new E s target_version fresh)"

definition status :: "'s env \<Rightarrow> ('s, uexn, status_view) eff" where
  "status E =
     bindM (env_load E) (\<lambda>s.
     if ps_last_check s \<noteq> None then status_from_state s
     else
       bindM (env_inspect_web E) (\<lambda>current.
       liftM (bindE (case ps_task s of None \<Rightarrow> Inr None
                     | Some t \<Rightarrow> map_sum id Some (public_view t)) (\<lambda>tv.
              make_status_view
                \<lparr>sv_current_version = im_version current,
                 sv_current_published_at = im_published_at current, sv_latest_version = None,
                 sv_latest_published_at = None, sv_update_available = False,
                 sv_checked_at = None, sv_task = tv\<rparr>))))"

definition complete_pending_cleanup :: "'s env \<Rightarrow> ('s, uexn, persistent_state) eff" where
  "complete_pending_cleanup E =
     bindM (env_load E) (\<lambda>s.
     case ps_task s of
       None \<Rightarrow> conflict ''cleanup_not_pending''
     | Some t \<Rightarrow>
         if ut_stage t \<noteq> SUCCEEDED \<or> ut_cleanup t \<noteq> PENDING \<or> ut_cleanup_journal t = None
         then conflict ''cleanup_not_pending''
         else
           bindM (cleanup_original E (ut_id t)) (\<lambda>ok.
           if \<not> ok then conflict ''cleanup_incomplete''
           else
             bindM (task_of E (ut_id t)) (\<lambda>t1.
             if (case ut_cleanup_journal t1 of None \<Rightarrow> True | Some j \<Rightarrow> \<not> journal_complete j)
             then conflict ''cleanup_incomplete''
             else thenM (save_task E (t1\<lparr>ut_cleanup := COMPLETE\<rparr>)) (env_load E))))"

section \<open>Recovering after a restart\<close>

definition has_complete_image_identity :: "image_identity \<Rightarrow> bool" where
  "has_complete_image_identity i \<longleftrightarrow>
     im_repository i \<noteq> [] \<and> im_version i \<noteq> [] \<and> im_digest i \<noteq> [] \<and> im_image_id i \<noteq> []
     \<and> im_tags i \<noteq> [] \<and> (\<forall>t\<in>set (im_tags i). t \<noteq> [])"

definition has_complete_recovery_identities :: "update_task \<Rightarrow> bool" where
  "has_complete_recovery_identities t \<longleftrightarrow>
     has_complete_image_identity (ut_original t) \<and> has_complete_image_identity (ut_target t)"

definition same_runtime_identity :: "image_identity \<Rightarrow> image_identity \<Rightarrow> bool" where
  "same_runtime_identity actual expected \<longleftrightarrow>
     (im_repository actual, im_version actual, im_digest actual, im_image_id actual,
      im_tags actual, im_published_at actual) =
     (im_repository expected, im_version expected, im_digest expected, im_image_id expected,
      im_tags expected, im_published_at expected)"

definition complete_recovered_target :: "'s env \<Rightarrow> uuid \<Rightarrow> ('s, uexn, unit) eff" where
  "complete_recovered_target E i =
     bindM (task_of E i) (\<lambda>t.
     if ut_stage t = CLEANING \<and> ut_cleanup_journal t = None then finish_manual E i
     else
       (let persist = (ut_stage t = PERSISTING_VERSION) in
        bindM (tryM safe_code
          (thenM (checkpoint E i (ut_stage t))
          (bindM (task_of E i) (\<lambda>t1.
           thenM (env_health E (ut_target t1))
             (if persist
              then thenM (checkpoint E i (ut_stage t1))
                     (env_persist_version E (im_version (ut_target t1)))
              else retM ()))))) (\<lambda>r.
        case r of
          Inl _ \<Rightarrow> rollback_to_original E i (lit ''update_failed'') True True
        | Inr _ \<Rightarrow>
            thenM (if persist then checkpoint E i CLEANING else retM ())
              (complete_update E i))))"

definition recover_before_tag :: "'s env \<Rightarrow> update_task \<Rightarrow> bool \<Rightarrow> ('s, uexn, unit) eff" where
  "recover_before_tag E t is_original =
     (if \<not> is_original then finish_manual E (ut_id t)
      else
        thenM (checkpoint E (ut_id t) (ut_stage t))
        (bindM (tryM safe_code
           (bindM (task_of E (ut_id t)) (\<lambda>t1. env_health E (ut_original t1)))) (\<lambda>r.
         case r of
           Inl _ \<Rightarrow> finish_manual E (ut_id t)
         | Inr _ \<Rightarrow> finish_failed E (ut_id t) (lit ''update_failed'') False)))"

definition recover_with :: "'s env \<Rightarrow> update_task \<Rightarrow> image_identity \<Rightarrow> ('s, uexn, unit) eff" where
  "recover_with E t actual =
     (let is_original = same_runtime_identity actual (ut_original t);
          is_target = same_runtime_identity actual (ut_target t)
      in
      if \<not> has_complete_image_identity actual then finish_manual E (ut_id t)
      else if is_original = is_target then finish_manual E (ut_id t)
      else if ut_stage t \<in> set target_completion_stages \<and> is_target
      then complete_recovered_target E (ut_id t)
      else if ut_stage t \<in> set pre_tag_stages then recover_before_tag E t is_original
      else if im_rollback_alias (ut_original t) = [] then finish_manual E (ut_id t)
      else
        rollback_to_original E (ut_id t) (lit ''update_failed'')
          (ut_stage t \<in> {PERSISTING_VERSION, CLEANING, ROLLING_BACK}) True)"

definition recover :: "'s env \<Rightarrow> ('s, uexn, unit) eff" where
  "recover E =
     bindM (env_load E) (\<lambda>s.
     case ps_task s of
       None \<Rightarrow> retM ()
     | Some t \<Rightarrow>
         if ut_stage t \<in> set terminal_stages then retM ()
         else if \<not> has_complete_recovery_identities t then finish_manual E (ut_id t)
         else
           bindM (tryM safe_code (env_inspect_web E)) (\<lambda>r.
           case r of
             Inl _ \<Rightarrow> finish_manual E (ut_id t)
           | Inr actual \<Rightarrow> recover_with E t actual))"

end
