(* ===== verification/Updater_Platform.thy ===== *)
theory Updater_Platform
  imports Updater_Runner Updater_Manager
begin

text \<open>
  The Docker platform (\<open>updater/platform.py\<close>) over the command runner: what it inspects and how
  strictly it reads it, the operations of an update and the files they write.
\<close>

section \<open>Constants and patterns\<close>

definition container_format :: pystr where
  "container_format = lit (''{\"Id\":{{json .Id}},\"Image\":{{json .Image}},''
     @ ''\"ConfigImage\":{{json .Config.Image}},''
     @ ''\"Project\":{{json (index .Config.Labels \"com.docker.compose.project\")}},''
     @ ''\"Service\":{{json (index .Config.Labels \"com.docker.compose.service\")}},''
     @ ''\"OneOff\":{{json (index .Config.Labels \"com.docker.compose.oneoff\")}}}'')"

definition image_format :: pystr where
  "image_format = lit (''{\"Id\":{{json .Id}},\"RepoTags\":{{json .RepoTags}},''
     @ ''\"RepoDigests\":{{json .RepoDigests}},''
     @ ''\"Version\":{{json (index .Config.Labels \"org.opencontainers.image.version\")}},''
     @ ''\"Revision\":{{json (index .Config.Labels \"org.opencontainers.image.revision\")}},''
     @ ''\"Created\":{{json (index .Config.Labels \"org.opencontainers.image.created\")}},''
     @ ''\"Os\":{{json .Os}},\"Architecture\":{{json .Architecture}}}'')"

definition project_name :: pystr where "project_name = lit ''finance-reconciliation''"
definition env_file_path :: pystr where "env_file_path = lit ''/config/.env''"
definition compose_file_path :: pystr where "compose_file_path = lit ''/config/compose.yml''"
definition web_repository :: pystr where
  "web_repository = lit ''ghcr.io/s450586793/finance-reconciliation-web''"
definition web_tag_key :: pystr where "web_tag_key = lit ''FINREC_WEB_IMAGE_TAG''"
definition max_environment_bytes :: nat where "max_environment_bytes = 1048576"
definition max_health_bytes :: nat where "max_health_bytes = 65536"

text \<open>\<open>[0-9a-f]\<close>, and the patterns built from it.\<close>

definition lower_hex :: "nat \<Rightarrow> bool" where
  "lower_hex c \<longleftrightarrow> (48 \<le> c \<and> c \<le> 57) \<or> (97 \<le> c \<and> c \<le> 102)"

definition digest_ok :: "pystr \<Rightarrow> bool" where
  "digest_ok s \<longleftrightarrow> length s = 71 \<and> startswith s (lit ''sha256:'') \<and> list_all lower_hex (drop 7 s)"

definition container_id_ok :: "pystr \<Rightarrow> bool" where
  "container_id_ok s \<longleftrightarrow> 12 \<le> length s \<and> length s \<le> 64 \<and> list_all lower_hex s"

definition revision_ok :: "pystr \<Rightarrow> bool" where
  "revision_ok s \<longleftrightarrow> 7 \<le> length s \<and> length s \<le> 64 \<and> list_all lower_hex s"

text \<open>\<open>^([A-Za-z_][A-Za-z0-9_]*)=(.*)$\<close>: the name and the value of a line.\<close>

definition name_start :: "nat \<Rightarrow> bool" where
  "name_start c \<longleftrightarrow> (65 \<le> c \<and> c \<le> 90) \<or> (97 \<le> c \<and> c \<le> 122) \<or> c = 95"

definition name_char :: "nat \<Rightarrow> bool" where
  "name_char c \<longleftrightarrow> name_start c \<or> is_digit c"

definition environment_line :: "pystr \<Rightarrow> (pystr \<times> pystr) option" where
  "environment_line s =
     (let key = takeWhile name_char s; rest = drop (length key) s
      in if key \<noteq> [] \<and> name_start (hd key) \<and> take 1 rest = [61] \<and> 10 \<notin> set rest
         then Some (key, tl rest) else None)"

text \<open>The stamp \<open>[0-9]{8}-[0-9]{6}\<close> between a prefix and a suffix.\<close>

definition stamp_ok :: "pystr \<Rightarrow> bool" where
  "stamp_ok s \<longleftrightarrow> length s = 15 \<and> s ! 8 = 45 \<and> list_all is_digit (take 8 s @ drop 9 s)"

definition stamp_between :: "string \<Rightarrow> string \<Rightarrow> pystr \<Rightarrow> pystr option" where
  "stamp_between before after s =
     (let stamp = take 15 (drop (length before) s)
      in if s = lit before @ stamp @ lit after \<and> stamp_ok stamp then Some stamp else None)"

definition backup_stamp :: "pystr \<Rightarrow> pystr option" where
  "backup_stamp s = stamp_between ''/data/backups/db-'' ''.dump'' s"

definition uploads_stamp :: "pystr \<Rightarrow> pystr option" where
  "uploads_stamp s = stamp_between ''/data/backups/uploads-'' ''.tar.gz'' s"

text \<open>The pattern of a rollback alias: the prefix and a version 4 style UUID.\<close>

definition alias_prefix :: pystr where
  "alias_prefix = lit ''finance-reconciliation-rollback-web:''"

definition uuid_pattern :: "pystr \<Rightarrow> bool" where
  "uuid_pattern s \<longleftrightarrow> length s = 36 \<and> s ! 8 = 45 \<and> s ! 13 = 45 \<and> s ! 18 = 45 \<and> s ! 23 = 45
     \<and> s ! 19 \<in> {56, 57, 97, 98}
     \<and> list_all lower_hex (take 8 s @ take 4 (drop 9 s) @ take 4 (drop 14 s)
                           @ take 4 (drop 19 s) @ drop 24 s)"

definition alias_ok :: "pystr \<Rightarrow> bool" where
  "alias_ok s \<longleftrightarrow> startswith s alias_prefix \<and> uuid_pattern (drop (length alias_prefix) s)"

section \<open>The platform's world\<close>

text \<open>What a request to the health endpoint gives.\<close>

datatype http_result = HttpError | HttpResponse int bytes

text \<open>
  The world outside, on a state \<open>'w\<close> of its own: starting a command, asking the health
  endpoint, the clock, waiting, and the name that \<open>tempfile\<close> draws. The files the platform writes are its own:
  the configuration directory and one directory per task.
\<close>

record 'w outside =
  out_start :: "pystr list \<Rightarrow> 'w \<Rightarrow> process \<times> 'w"
  out_health :: "'w \<Rightarrow> http_result \<times> 'w"
  out_now :: "'w \<Rightarrow> instant \<times> 'w"
  out_sleep :: "nat \<Rightarrow> 'w \<Rightarrow> 'w"
  out_tmp :: pystr

record 'w platform =
  pf_world :: 'w
  pf_config :: private_dir
  pf_tasks :: "uuid \<Rightarrow> private_dir"

type_synonym ('w, 'a) pf = "('w platform, uexn, 'a) eff"

definition run :: "'w outside \<Rightarrow> pystr list \<Rightarrow> nat \<Rightarrow> ('w, bytes) pf" where
  "run O1 argv timeout =
     zoom pf_world (\<lambda>w s. s\<lparr>pf_world := w\<rparr>) (run_command (out_start O1) argv timeout)"

text \<open>The exceptions that the operations convert.\<close>

fun platform_error :: "uexn \<Rightarrow> bool" where
  "platform_error (SafeCommandError c) = True"
| "platform_error (UValueError m) = True"
| "platform_error (UTypeError m) = True"
| "platform_error UOSError = True"
| "platform_error _ = False"

fun command_error :: "uexn \<Rightarrow> bool" where
  "command_error (SafeCommandError c) = True"
| "command_error _ = False"

definition refuse :: "string \<Rightarrow> uexn" where
  "refuse message = UValueError (lit message)"

definition safe_error :: "string \<Rightarrow> uexn" where
  "safe_error code = SafeOperationError (lit code)"

section \<open>Reading what Docker prints\<close>

definition decode_utf8 :: "bytes \<Rightarrow> uexn + pystr" where
  "decode_utf8 bs = (case utf8_decode bs of None \<Rightarrow> Inl (refuse ''utf-8'') | Some s \<Rightarrow> Inr s)"

definition decode_ascii :: "bytes \<Rightarrow> uexn + pystr" where
  "decode_ascii bs = (case ascii_decode bs of None \<Rightarrow> Inl (refuse ''ascii'') | Some s \<Rightarrow> Inr s)"

definition load_json :: "bytes \<Rightarrow> uexn + json" where
  "load_json bs =
     bindE (decode_utf8 bs) (\<lambda>s.
     case json_loads s of None \<Rightarrow> Inl (refuse ''json'') | Some j \<Rightarrow> Inr j)"

text \<open>\<open>_exact_json\<close>.\<close>

definition exact_json :: "bytes \<Rightarrow> string list \<Rightarrow> uexn + (pystr \<times> json) list" where
  "exact_json payload keys =
     bindE (load_json payload) (\<lambda>j.
     case j of
       JObj ms \<Rightarrow> if fst ` set ms = set (map lit keys) then Inr ms else Inl (refuse ''invalid_json'')
     | _ \<Rightarrow> Inl (refuse ''invalid_json''))"

text \<open>\<open>_parse_utc\<close>.\<close>

definition parse_utc :: "pystr \<Rightarrow> uexn + instant" where
  "parse_utc s =
     (case parse_iso_datetime s of
        Some (t, Some z) \<Rightarrow> if z = 0 then Inr t else Inl (refuse ''invalid_created_timestamp'')
      | _ \<Rightarrow> Inl (refuse ''invalid_created_timestamp''))"

record inspected_image =
  ii_identity :: image_identity
  ii_revision :: pystr
  ii_created :: pystr
  ii_os :: pystr
  ii_architecture :: pystr
  ii_all_tags :: "pystr list"

definition same_identity :: "image_identity \<Rightarrow> image_identity \<Rightarrow> bool" where
  "same_identity a b \<longleftrightarrow>
     (im_repository a, im_version a, im_digest a, im_image_id a, im_tags a, im_published_at a)
     = (im_repository b, im_version b, im_digest b, im_image_id b, im_tags b, im_published_at b)"

definition same_image_core :: "image_identity \<Rightarrow> image_identity \<Rightarrow> bool" where
  "same_image_core a b \<longleftrightarrow>
     (im_repository a, im_version a, im_digest a, im_image_id a, im_published_at a)
     = (im_repository b, im_version b, im_digest b, im_image_id b, im_published_at b)"

definition same_locked_image :: "inspected_image \<Rightarrow> inspected_image \<Rightarrow> bool" where
  "same_locked_image a b \<longleftrightarrow>
     same_image_core (ii_identity a) (ii_identity b) \<and> ii_revision a = ii_revision b
     \<and> ii_created a = ii_created b \<and> ii_os a = ii_os b \<and> ii_architecture a = ii_architecture b"

definition version_tag_of :: "pystr \<Rightarrow> pystr" where
  "version_tag_of version = web_repository @ 58 # version"

text \<open>
  The digest of an image: the only entry of \<open>RepoDigests\<close>, which must be of the repository, or
  the expected one when there is none.
\<close>

definition repository_digest :: "pystr list \<Rightarrow> pystr option \<Rightarrow> uexn + pystr" where
  "repository_digest digests expected =
     (let prefix = web_repository @ [64];
          ours = map (drop (length prefix)) (filter (\<lambda>d. startswith d prefix) digests);
          found =
            (if length digests = 1 \<and> length ours = 1 then Some (hd ours)
             else if digests = [] \<and> expected \<noteq> None \<and> digest_ok (the expected) then expected
             else None)
      in case found of
           None \<Rightarrow> Inl (refuse ''ambiguous_repository_digest'')
         | Some d \<Rightarrow> if digest_ok d then Inr d else Inl (refuse ''ambiguous_repository_digest''))"

text \<open>The part of \<open>_inspect_image\<close> after the command.\<close>

definition image_of_json ::
    "pystr option \<Rightarrow> (pystr \<times> json) list \<Rightarrow> uexn + inspected_image" where
  "image_of_json expected ms =
     bindE (as_str (field ms ''Id'')) (\<lambda>image_id.
     bindE (as_str (field ms ''Version'')) (\<lambda>version_text.
     bindE (as_str (field ms ''Revision'')) (\<lambda>revision.
     bindE (as_str (field ms ''Created'')) (\<lambda>created.
     bindE (as_str (field ms ''Os'')) (\<lambda>os.
     bindE (as_str (field ms ''Architecture'')) (\<lambda>architecture.
     bindE (as_str_list (field ms ''RepoTags'')) (\<lambda>repo_tags.
     bindE (as_str_list (field ms ''RepoDigests'')) (\<lambda>digests.
     if \<not> digest_ok image_id \<or> \<not> distinct repo_tags \<or> \<not> distinct digests \<or> \<not> revision_ok revision
        \<or> os \<noteq> lit ''linux'' \<or> architecture = []
     then Inl (refuse ''invalid_image_identity'')
     else
       bindE (validate_version version_text) (\<lambda>version.
       bindE (repository_digest digests expected) (\<lambda>digest.
       bindE (parse_utc created) (\<lambda>published_at.
       Inr \<lparr>ii_identity = \<lparr>im_repository = web_repository, im_version = version,
              im_digest = digest, im_image_id = image_id,
              im_tags = (if version_tag_of version \<in> set repo_tags then [version_tag_of version]
                         else []),
              im_rollback_alias = [], im_published_at = Some published_at\<rparr>,
            ii_revision = revision, ii_created = created, ii_os = os,
            ii_architecture = architecture, ii_all_tags = repo_tags\<rparr>)))))))))))"

definition inspect_image :: "'w outside \<Rightarrow> pystr \<Rightarrow> pystr option \<Rightarrow> ('w, inspected_image) pf" where
  "inspect_image O1 reference expected =
     bindM (run O1 [lit ''docker'', lit ''image'', lit ''inspect'', lit ''--format'', image_format,
              reference] 30) (\<lambda>out.
     liftM (bindE (exact_json out [''Id'', ''RepoTags'', ''RepoDigests'', ''Version'', ''Revision'',
                     ''Created'', ''Os'', ''Architecture'']) (image_of_json expected)))"

definition compose_prefix :: "pystr list" where
  "compose_prefix = [lit ''docker'', lit ''compose'', lit ''--project-name'', project_name,
     lit ''--env-file'', env_file_path, lit ''-f'', compose_file_path]"

text \<open>\<open>_is_web_image_reference\<close>.\<close>

definition is_web_image_reference :: "pystr \<Rightarrow> bool" where
  "is_web_image_reference s \<longleftrightarrow>
     startswith s (web_repository @ [64]) \<and> digest_ok (drop (length web_repository + 1) s)
     \<or> startswith s (web_repository @ [58]) \<and> version_ok (drop (length web_repository + 1) s)
     \<or> alias_ok s"

text \<open>The checks of \<open>_inspect_web_image\<close> on the container; the result is its image.\<close>

definition container_image :: "pystr \<Rightarrow> (pystr \<times> json) list \<Rightarrow> uexn + pystr" where
  "container_image container_id ms =
     bindE (as_str (field ms ''Id'')) (\<lambda>i.
     bindE (as_str (field ms ''Image'')) (\<lambda>image.
     bindE (as_str (field ms ''ConfigImage'')) (\<lambda>config_image.
     bindE (as_str (field ms ''Project'')) (\<lambda>project.
     bindE (as_str (field ms ''Service'')) (\<lambda>service.
     bindE (as_str (field ms ''OneOff'')) (\<lambda>one_off.
     if i \<noteq> container_id \<or> \<not> digest_ok image \<or> project \<noteq> project_name \<or> service \<noteq> lit ''web''
        \<or> one_off \<noteq> lit ''False'' \<or> \<not> is_web_image_reference config_image
     then Inl (refuse ''invalid_container_identity'') else Inr image))))))"

definition single_container :: "pystr \<Rightarrow> uexn + pystr" where
  "single_container text =
     (case splitlines text of
        [i] \<Rightarrow> if container_id_ok i then Inr i else Inl (refuse ''invalid_container_id'')
      | _ \<Rightarrow> Inl (refuse ''invalid_container_id''))"

definition inspect_web_image :: "'w outside \<Rightarrow> ('w, inspected_image) pf" where
  "inspect_web_image O1 =
     bindM (run O1 (compose_prefix @ [lit ''ps'', lit ''--all'', lit ''-q'', lit ''web'']) 30) (\<lambda>out.
     bindM (liftM (bindE (decode_ascii out) single_container)) (\<lambda>container_id.
     bindM (run O1 [lit ''docker'', lit ''container'', lit ''inspect'', lit ''--format'',
              container_format, container_id] 30) (\<lambda>inspected.
     bindM (liftM (bindE (exact_json inspected [''Id'', ''Image'', ''ConfigImage'', ''Project'',
                     ''Service'', ''OneOff'']) (container_image container_id))) (\<lambda>image_id.
     bindM (inspect_image O1 image_id None) (\<lambda>image.
     if im_image_id (ii_identity image) \<noteq> image_id then raiseM (refuse ''container_image_mismatch'')
     else retM image)))))"

definition inspect_web :: "'w outside \<Rightarrow> ('w, image_identity) pf" where
  "inspect_web O1 =
     exceptM platform_error (safe_error ''inspect_failed'')
       (bindM (inspect_web_image O1) (\<lambda>i. retM (ii_identity i)))"

section \<open>Identities\<close>

definition is_recorded_target :: "image_identity \<Rightarrow> bool" where
  "is_recorded_target t \<longleftrightarrow> version_ok (im_version t) \<and> im_repository t = web_repository
     \<and> digest_ok (im_digest t) \<and> digest_ok (im_image_id t)
     \<and> im_tags t = [version_tag_of (im_version t)] \<and> im_rollback_alias t = []"

definition is_original :: "bool \<Rightarrow> image_identity \<Rightarrow> bool" where
  "is_original alias_optional t \<longleftrightarrow> version_ok (im_version t) \<and> im_repository t = web_repository
     \<and> digest_ok (im_digest t) \<and> digest_ok (im_image_id t)
     \<and> im_tags t = [version_tag_of (im_version t)]
     \<and> (alias_ok (im_rollback_alias t) \<or> alias_optional \<and> im_rollback_alias t = [])"

definition rollback_alias :: "uuid \<Rightarrow> pystr" where
  "rollback_alias i = alias_prefix @ uuid_str i"

end
