(* ===== verification/Updater_Operations.thy ===== *)
theory Updater_Operations
  imports Updater_Platform
begin

text \<open>
  The operations of \<open>DockerPlatform\<close>: pulling and checking images, the backup, the switch of
  the web service, the health check, the version in the environment file and the cleanup.
\<close>

section \<open>Images\<close>

definition stable_tag :: pystr where
  "stable_tag = web_repository @ lit '':stable''"

definition pull :: "'w outside \<Rightarrow> pystr \<Rightarrow> ('w, bytes) pf" where
  "pull O1 reference = run O1 [lit ''docker'', lit ''pull'', reference] 300"

definition resolve_stable :: "'w outside \<Rightarrow> ('w, image_identity) pf" where
  "resolve_stable O1 =
     exceptM platform_error (safe_error ''pull_failed'')
       (thenM (pull O1 stable_tag)
       (bindM (inspect_image O1 stable_tag None) (\<lambda>stable.
        thenM (raise_whenM (stable_tag \<notin> set (ii_all_tags stable)) (refuse ''stable_tag_missing''))
       (let immutable = version_tag_of (im_version (ii_identity stable)) in
        thenM (pull O1 immutable)
       (bindM (inspect_image O1 immutable None) (\<lambda>image.
        thenM (raise_whenM (immutable \<notin> set (ii_all_tags image) \<or> \<not> same_locked_image stable image)
                 (refuse ''immutable_identity_mismatch''))
          (retM (ii_identity image))))))))"

definition verify_target :: "'w outside \<Rightarrow> image_identity \<Rightarrow> ('w, unit) pf" where
  "verify_target O1 target =
     (if \<not> is_recorded_target target then raiseM (safe_error ''target_identity_mismatch'')
      else
        (let reference = web_repository @ 64 # im_digest target in
         thenM (exceptM command_error (safe_error ''pull_failed'') (pull O1 reference))
           (exceptM platform_error (safe_error ''target_identity_mismatch'')
             (bindM (inspect_image O1 reference None) (\<lambda>image.
              bindM (inspect_web_image O1) (\<lambda>current.
              raise_whenM (\<not> same_identity (ii_identity image) target
                  \<or> (ii_os image, ii_architecture image) \<noteq> (ii_os current, ii_architecture current))
                (refuse ''target_identity_mismatch'')))))))"

section \<open>The backup\<close>

definition manifest_entry :: "pystr \<Rightarrow> uexn + pystr \<times> pystr" where
  "manifest_entry line =
     (if 61 \<in> set line
      then Inr (takeWhile (\<lambda>c. c \<noteq> 61) line, tl (dropWhile (\<lambda>c. c \<noteq> 61) line))
      else Inl (refuse ''invalid_backup_manifest''))"

text \<open>
  \<open>_parse_backup_manifest\<close>: two lines, the two keys once each, and paths with one stamp. All of
  its errors are \<open>ValueError\<close>s.
\<close>

definition backup_paths :: "(pystr \<times> pystr) list \<Rightarrow> uexn + pystr \<times> pystr" where
  "backup_paths values =
     (if \<not> distinct (map fst values) then Inl (refuse ''duplicate_backup_manifest_key'')
      else
        (case (map_of values (lit ''DB_BACKUP''), map_of values (lit ''UPLOADS_BACKUP'')) of
           (Some database, Some uploads) \<Rightarrow>
             if backup_stamp database = None \<or> uploads_stamp uploads = None
                \<or> backup_stamp database \<noteq> uploads_stamp uploads
             then Inl (refuse ''invalid_backup_paths'') else Inr (database, uploads)
         | _ \<Rightarrow> Inl (refuse ''invalid_backup_manifest_keys'')))"

definition parse_backup_manifest :: "bytes \<Rightarrow> uexn + pystr \<times> pystr" where
  "parse_backup_manifest payload =
     bindE (decode_utf8 payload) (\<lambda>text.
     if length (splitlines text) \<noteq> 2 then Inl (refuse ''invalid_backup_manifest'')
     else bindE (traverse manifest_entry (splitlines text)) backup_paths)"

definition compose_exec :: "pystr list" where
  "compose_exec = compose_prefix @ [lit ''exec'', lit ''-T'', lit ''web'']"

definition create_backup :: "'w outside \<Rightarrow> ('w, pystr \<times> pystr) pf" where
  "create_backup O1 =
     exceptM platform_error (safe_error ''backup_failed'')
       (bindM (run O1 (compose_exec @ [lit ''/app/scripts/backup.sh'']) 900) (\<lambda>out.
        bindM (liftM (parse_backup_manifest out)) (\<lambda>backups.
        thenM (run O1 (compose_exec @ [lit ''test'', lit ''-s'', fst backups]) 30)
       (thenM (run O1 (compose_exec @ [lit ''test'', lit ''-s'', snd backups]) 30)
          (retM backups)))))"

section \<open>The switch\<close>

definition tag_rollback :: "'w outside \<Rightarrow> update_task \<Rightarrow> ('w, update_task) pf" where
  "tag_rollback O1 t =
     (let orig = ut_original t; alias_tag = rollback_alias (ut_id t) in
      if im_rollback_alias orig \<notin> {[], alias_tag} \<or> \<not> is_original True orig
      then raiseM (safe_error ''rollback_identity_mismatch'')
      else
        exceptM platform_error (safe_error ''rollback_identity_mismatch'')
          (bindM (inspect_web_image O1) (\<lambda>actual.
           thenM (raise_whenM (\<not> same_identity (ii_identity actual) orig)
                    (refuse ''runtime_identity_mismatch''))
          (thenM (run O1 [lit ''docker'', lit ''image'', lit ''tag'', im_image_id orig, alias_tag] 60)
          (bindM (inspect_image O1 alias_tag None) (\<lambda>tagged.
           thenM (raise_whenM (alias_tag \<notin> set (ii_all_tags tagged)
                      \<or> \<not> same_identity (ii_identity tagged) orig)
                    (refuse ''rollback_identity_mismatch''))
             (retM (t\<lparr>ut_original := orig\<lparr>im_rollback_alias := alias_tag\<rparr>\<rparr>))))))))"

definition stop_web :: "'w outside \<Rightarrow> ('w, unit) pf" where
  "stop_web O1 =
     exceptM command_error (safe_error ''stop_failed'')
       (thenM (run O1 (compose_prefix @ [lit ''stop'', lit ''web'']) 120) (retM ()))"

text \<open>
  \<open>_write_override\<close>: a compose file that only names the image, in the directory of the task. A
  link in the place of the directory is refused.
\<close>

definition override_text :: "pystr \<Rightarrow> bytes" where
  "override_text tag_name =
     lit (''services:'' @ [CHR 0x0A] @ ''  web:'' @ [CHR 0x0A] @ ''    image: '') @ tag_name
     @ lit ([CHR 0x0A] @ ''    pull_policy: never'' @ [CHR 0x0A])"

definition replace_in :: "pystr \<Rightarrow> pystr \<Rightarrow> bytes \<Rightarrow> (private_dir, uexn, unit) eff" where
  "replace_in name tmp payload d =
     (case run_steps (drop 2 (replace_steps name tmp payload)) d of
        (d', True) \<Rightarrow> (Inr (), d')
      | (d', False) \<Rightarrow>
          (Inl UOSError, if pd_files d tmp = Absent then set_node tmp Absent d' else d'))"

definition write_task_override_at ::
    "pystr \<Rightarrow> pystr \<Rightarrow> bytes \<Rightarrow> (private_dir, uexn, unit) eff" where
  "write_task_override_at tmp name payload d =
     (case pd_node d of
        Special \<Rightarrow> (Inl (refuse ''unsafe_task_directory''), d)
      | _ \<Rightarrow>
          (case run_steps [MakeParent, ChmodParent 448] d of
             (d', True) \<Rightarrow> replace_in name tmp payload d'
           | (d', False) \<Rightarrow> (Inl UOSError, d')))"

definition override_path :: "uuid \<Rightarrow> pystr \<Rightarrow> pystr" where
  "override_path i name = lit ''/state/tasks/'' @ uuid_str i @ 47 # name"

definition write_override :: "'w outside \<Rightarrow> uuid \<Rightarrow> string \<Rightarrow> pystr \<Rightarrow> ('w, pystr) pf" where
  "write_override O1 i name tag_name =
     (if \<forall>c\<in>set tag_name. c < 128
      then
        thenM (zoom (\<lambda>s. pf_tasks s i) (\<lambda>d s. s\<lparr>pf_tasks := (pf_tasks s)(i := d)\<rparr>)
                 (write_task_override_at (out_tmp O1) (lit name) (override_text tag_name)))
          (retM (override_path i (lit name)))
      else raiseM (refuse ''ascii''))"

definition write_target_override :: "'w outside \<Rightarrow> image_identity \<Rightarrow> uuid \<Rightarrow> ('w, pystr) pf" where
  "write_target_override O1 target i =
     thenM (raise_whenM (\<not> is_recorded_target target) (refuse ''target_identity_mismatch''))
       (write_override O1 i ''target-compose.yml'' (web_repository @ 64 # im_digest target))"

definition migrate_target :: "'w outside \<Rightarrow> image_identity \<Rightarrow> uuid \<Rightarrow> ('w, unit) pf" where
  "migrate_target O1 target i =
     exceptM platform_error (safe_error ''migration_failed'')
       (bindM (write_target_override O1 target i) (\<lambda>path.
        thenM (run O1 (compose_prefix @ [lit ''-f'', path, lit ''run'', lit ''--rm'',
                 lit ''--no-deps'', lit ''-T'', lit ''web'', lit ''python'', lit ''manage.py'',
                 lit ''migrate'']) 900)
          (retM ())))"

definition compose_up :: "'w outside \<Rightarrow> pystr \<Rightarrow> ('w, unit) pf" where
  "compose_up O1 path =
     thenM (run O1 (compose_prefix @ [lit ''-f'', path, lit ''up'', lit ''-d'', lit ''--no-deps'',
              lit ''web'']) 180)
       (retM ())"

definition start_target :: "'w outside \<Rightarrow> image_identity \<Rightarrow> uuid \<Rightarrow> ('w, unit) pf" where
  "start_target O1 target i =
     exceptM platform_error (safe_error ''start_failed'')
       (bindM (write_target_override O1 target i) (compose_up O1))"

definition start_rollback :: "'w outside \<Rightarrow> update_task \<Rightarrow> ('w, unit) pf" where
  "start_rollback O1 t =
     (let alias_tag = rollback_alias (ut_id t) in
      if im_rollback_alias (ut_original t) \<noteq> alias_tag \<or> \<not> is_original False (ut_original t)
      then raiseM (safe_error ''rollback_identity_mismatch'')
      else
        exceptM platform_error (safe_error ''rollback_failed'')
          (bindM (inspect_image O1 alias_tag None) (\<lambda>image.
           thenM (raise_whenM (alias_tag \<notin> set (ii_all_tags image)
                      \<or> \<not> same_identity (ii_identity image) (ut_original t))
                    (refuse ''rollback_identity_mismatch''))
          (bindM (write_override O1 (ut_id t) ''rollback-compose.yml'' alias_tag) (compose_up O1)))))"

section \<open>Health\<close>

definition request_health :: "'w outside \<Rightarrow> ('w, http_result) pf" where
  "request_health O1 =
     zoom pf_world (\<lambda>w s. s\<lparr>pf_world := w\<rparr>)
       (\<lambda>w. case out_health O1 w of (r, w') \<Rightarrow> (Inr r, w'))"

text \<open>The checks of the response: its status, size and the exact document \<open>{"status": "ok"}\<close>.\<close>

definition expect_ok :: "json \<Rightarrow> uexn + unit" where
  "expect_ok j =
     (if j = JObj [(lit ''status'', JStr (lit ''ok''))] then Inr ()
      else Inl (refuse ''unhealthy_payload''))"

definition check_health_response :: "http_result \<Rightarrow> uexn + unit" where
  "check_health_response r =
     (case r of
        HttpError \<Rightarrow> Inl UOSError
      | HttpResponse code content \<Rightarrow>
          if code \<noteq> 200 then Inl (refuse ''unhealthy_status'')
          else if max_health_bytes < length (take (max_health_bytes + 1) content)
          then Inl (refuse ''health_response_too_large'')
          else bindE (load_json content) expect_ok)"

fun health_error :: "uexn \<Rightarrow> bool" where
  "health_error (SafeOperationError c) = True"
| "health_error e = platform_error e"

definition health_check :: "'w outside \<Rightarrow> image_identity option \<Rightarrow> ('w, unit) pf" where
  "health_check O1 expected =
     exceptM health_error (safe_error ''health_check_failed'')
       (bindM (request_health O1) (\<lambda>r.
        thenM (liftM (check_health_response r))
          (case expected of
             None \<Rightarrow> retM ()
           | Some e \<Rightarrow>
               bindM (inspect_web O1) (\<lambda>actual.
               raise_whenM (\<not> same_identity actual e) (refuse ''health_identity_mismatch'')))))"

section \<open>The environment file\<close>

definition env_name :: pystr where
  "env_name = lit ''.env''"

text \<open>\<open>_read_environment_at\<close>: blank lines and comments aside, every line is an assignment.\<close>

fun environment_values ::
    "pystr list \<Rightarrow> (pystr \<times> pystr) list \<Rightarrow> uexn + (pystr \<times> pystr) list" where
  "environment_values [] vs = Inr vs"
| "environment_values (line # lines) vs =
     (if line = [] \<or> hd line = 35 then environment_values lines vs
      else
        (case environment_line line of
           None \<Rightarrow> Inl (refuse ''invalid_environment'')
         | Some (k, v) \<Rightarrow>
             if k \<in> fst ` set vs then Inl (refuse ''invalid_environment'')
             else environment_values lines (vs @ [(k, v)])))"

definition read_environment_at :: "node \<Rightarrow> uexn + pystr \<times> (pystr \<times> pystr) list" where
  "read_environment_at x =
     (case x of
        Regular mode content \<Rightarrow>
          if mode \<noteq> 384 \<or> max_environment_bytes < length content
          then Inl (refuse ''unsafe_environment_file'')
          else
            bindE (decode_utf8 content) (\<lambda>text.
            bindE (environment_values (splitlines text) []) (\<lambda>vs. Inr (text, vs)))
      | Absent \<Rightarrow> Inl UOSError
      | Denied \<Rightarrow> Inl UOSError
      | _ \<Rightarrow> Inl (refuse ''unsafe_environment_file''))"

text \<open>One line of \<open>persist_version\<close>: the new line and whether it was replaced.\<close>

definition persist_line :: "pystr \<Rightarrow> pystr \<Rightarrow> pystr \<times> nat" where
  "persist_line version line =
     (let feed = (if endswith line [10] then [10] else []);
          raw = take (length line - length feed) line;
          (raw2, brk) = (if endswith raw [13] then (butlast raw, 13 # feed) else (raw, feed))
      in case environment_line raw2 of
           Some (k, v) \<Rightarrow>
             if k = web_tag_key then (web_tag_key @ 61 # version @ brk, 1) else (line, 0)
         | None \<Rightarrow> (line, 0))"

text \<open>The new content of the file.\<close>

definition persist_text :: "pystr \<Rightarrow> pystr \<Rightarrow> (pystr \<times> pystr) list \<Rightarrow> uexn + pystr" where
  "persist_text version text vs =
     (case map_of vs web_tag_key of
        None \<Rightarrow> Inl (refuse ''missing_web_version'')
      | Some current \<Rightarrow>
          bindE (validate_version current) (\<lambda>_.
          let lines = map (persist_line version) (splitlines_keepends text)
          in if sum_list (map snd lines) \<noteq> 1 then Inl (refuse ''invalid_web_version_count'')
             else Inr (concat (map fst lines))))"

definition read_environment :: "('w, pystr \<times> (pystr \<times> pystr) list) pf" where
  "read_environment = (\<lambda>s. (read_environment_at (pd_files (pf_config s) env_name), s))"

definition persist_version :: "'w outside \<Rightarrow> pystr \<Rightarrow> ('w, unit) pf" where
  "persist_version O1 version =
     exceptM platform_error (safe_error ''persist_failed'')
       (bindM (liftM (validate_version version)) (\<lambda>v.
        bindM read_environment (\<lambda>(text, vs).
        bindM (liftM (persist_text v text vs)) (\<lambda>new.
        zoom pf_config (\<lambda>d s. s\<lparr>pf_config := d\<rparr>)
          (replace_in env_name (out_tmp O1) (utf8_encode new))))))"

section \<open>The cleanup\<close>

text \<open>\<open>_reference_image_id\<close>.\<close>

definition listed_image :: "pystr \<Rightarrow> uexn + pystr option" where
  "listed_image text =
     (case splitlines text of
        [] \<Rightarrow> Inr None
      | [i] \<Rightarrow> if digest_ok i then Inr (Some i) else Inl (refuse ''ambiguous_image_reference'')
      | _ \<Rightarrow> Inl (refuse ''ambiguous_image_reference''))"

definition reference_image_id :: "'w outside \<Rightarrow> pystr \<Rightarrow> ('w, pystr option) pf" where
  "reference_image_id O1 reference =
     bindM (run O1 [lit ''docker'', lit ''image'', lit ''ls'', lit ''--no-trunc'', lit ''--quiet'',
              reference] 30) (\<lambda>out.
     liftM (bindE (decode_ascii out) listed_image))"

definition byte_space :: "nat \<Rightarrow> bool" where
  "byte_space b \<longleftrightarrow> b = 32 \<or> (9 \<le> b \<and> b \<le> 13)"

definition require_no_container_references :: "'w outside \<Rightarrow> pystr \<Rightarrow> ('w, unit) pf" where
  "require_no_container_references O1 image_id =
     bindM (run O1 [lit ''docker'', lit ''container'', lit ''ls'', lit ''--all'', lit ''--quiet'',
              lit ''--filter'', lit ''ancestor='' @ image_id] 30) (\<lambda>out.
     raise_whenM (\<exists>b\<in>set out. \<not> byte_space b) (refuse ''image_has_container_reference''))"

fun require_references_absent :: "'w outside \<Rightarrow> pystr list \<Rightarrow> ('w, unit) pf" where
  "require_references_absent O1 [] = retM ()"
| "require_references_absent O1 (r # rs) =
     bindM (reference_image_id O1 r) (\<lambda>i.
     thenM (raise_whenM (i \<noteq> None) (refuse ''cleanup_reference_present''))
       (require_references_absent O1 rs))"

definition original_references :: "update_task \<Rightarrow> pystr list" where
  "original_references t = im_tags (ut_original t) @ [im_rollback_alias (ut_original t)]"

definition remove_cleanup_reference ::
    "'w outside \<Rightarrow> pystr \<Rightarrow> pystr \<Rightarrow> pystr list \<Rightarrow> ('w, unit) pf" where
  "remove_cleanup_reference O1 reference image_id inspected_tags =
     bindM (reference_image_id O1 reference) (\<lambda>i.
     case i of
       None \<Rightarrow> raise_whenM (reference \<in> set inspected_tags) (refuse ''cleanup_reference_missing'')
     | Some x \<Rightarrow>
         thenM (raise_whenM (x \<noteq> image_id) (refuse ''cleanup_reference_mismatch''))
        (thenM (run O1 [lit ''docker'', lit ''image'', lit ''rm'', reference] 60)
        (bindM (reference_image_id O1 reference) (\<lambda>j.
         raise_whenM (j \<noteq> None) (refuse ''cleanup_reference_remains'')))))"

definition cleanup_image_id :: "'w outside \<Rightarrow> update_task \<Rightarrow> ('w, unit) pf" where
  "cleanup_image_id O1 t =
     (let orig = ut_original t in
      bindM (reference_image_id O1 (im_image_id orig)) (\<lambda>i.
      case i of
        None \<Rightarrow>
          thenM (require_no_container_references O1 (im_image_id orig))
            (require_references_absent O1 (original_references t))
      | Some x \<Rightarrow>
          thenM (raise_whenM (x \<noteq> im_image_id orig) (refuse ''cleanup_image_mismatch''))
         (bindM (inspect_image O1 (im_image_id orig) None) (\<lambda>image.
          thenM (raise_whenM (\<not> same_image_core (ii_identity image) orig \<or> ii_all_tags image \<noteq> [])
                   (refuse ''final_identity_mismatch''))
         (thenM (require_no_container_references O1 (im_image_id orig))
         (thenM (require_references_absent O1 (original_references t))
         (thenM (run O1 [lit ''docker'', lit ''image'', lit ''rm'', im_image_id orig] 60)
         (bindM (reference_image_id O1 (im_image_id orig)) (\<lambda>j.
          raise_whenM (j \<noteq> None) (refuse ''cleanup_image_remains''))))))))))"

text \<open>\<open>_validate_cleanup_task\<close>.\<close>

definition safe_cleanup_task :: "update_task \<Rightarrow> bool" where
  "safe_cleanup_task t \<longleftrightarrow>
     (let a = ut_original t; b = ut_target t in
      is_original False a \<and> im_rollback_alias a = rollback_alias (ut_id t) \<and> is_recorded_target b
      \<and> im_repository a = im_repository b \<and> im_version a \<noteq> im_version b
      \<and> im_digest a \<noteq> im_digest b \<and> im_image_id a \<noteq> im_image_id b)"

text \<open>The two steps that remove a reference, after the checks they share.\<close>

definition cleanup_reference_step :: "'w outside \<Rightarrow> update_task \<Rightarrow> cleanup_step \<Rightarrow> ('w, unit) pf" where
  "cleanup_reference_step O1 t step =
     (let orig = ut_original t; alias_tag = im_rollback_alias orig; version_tag = hd (im_tags orig) in
      bindM (inspect_image O1 (im_image_id orig) (Some (im_digest orig))) (\<lambda>image.
      thenM (raise_whenM (\<not> same_image_core (ii_identity image) orig) (refuse ''original_identity_mismatch''))
     (thenM (raise_whenM (\<not> set (ii_all_tags image) \<subseteq> insert alias_tag (set (im_tags orig)))
               (refuse ''unexpected_image_tags''))
     (thenM (require_no_container_references O1 (im_image_id orig))
     (if step = VERSION_TAG
      then
        thenM (raise_whenM (alias_tag \<notin> set (ii_all_tags image)) (refuse ''rollback_alias_missing''))
       (bindM (reference_image_id O1 alias_tag) (\<lambda>i.
        thenM (raise_whenM (i \<noteq> Some (im_image_id orig)) (refuse ''alias_identity_mismatch''))
          (remove_cleanup_reference O1 version_tag (im_image_id orig) (ii_all_tags image))))
      else
        thenM (raise_whenM (version_tag \<in> set (ii_all_tags image)) (refuse ''version_tag_still_present''))
       (bindM (reference_image_id O1 version_tag) (\<lambda>i.
        thenM (raise_whenM (i \<noteq> None) (refuse ''version_tag_reference_present''))
          (remove_cleanup_reference O1 alias_tag (im_image_id orig) (ii_all_tags image)))))))))"

definition cleanup_original_step :: "'w outside \<Rightarrow> update_task \<Rightarrow> cleanup_step \<Rightarrow> ('w, unit) pf" where
  "cleanup_original_step O1 t step =
     exceptM platform_error (safe_error ''cleanup_refused'')
    (exceptM command_error (safe_error ''cleanup_failed'')
      (thenM (raise_whenM (\<not> safe_cleanup_task t) (refuse ''unsafe_cleanup_identity''))
      (bindM read_environment (\<lambda>(text, vs).
       thenM (raise_whenM (map_of vs web_tag_key \<noteq> Some (im_version (ut_target t)))
                (refuse ''environment_target_mismatch''))
      (thenM (raise_whenM (case ut_cleanup_journal t of
                  None \<Rightarrow> True | Some j \<Rightarrow> journal_get j step \<noteq> STARTED)
                (refuse ''cleanup_step_not_started''))
         (if step = IMAGE_ID then cleanup_image_id O1 t
          else cleanup_reference_step O1 t step))))))"

end
