(* ===== verification/Updater_Proofs.thy ===== *)
theory Updater_Proofs
  imports Updater_Manager
begin

text \<open>
  The contract between the manager and its store and platform, as the locale \<open>update_env\<close>,
  and what the manager's operations do under it.
\<close>

section \<open>Weakest preconditions\<close>

text \<open>
  \<open>wp m Q R s\<close>: a result of \<open>m\<close> in \<open>s\<close> satisfies \<open>Q\<close> and an exception \<open>R\<close>. The manager never
  catches an error of its store, so a \<open>StateStoreError\<close> is always allowed: it ends the run.
\<close>

fun is_store_error :: "uexn \<Rightarrow> bool" where
  "is_store_error (StateStoreError k) = True"
| "is_store_error _ = False"

definition wp ::
    "('s, uexn, 'a) eff \<Rightarrow> ('a \<Rightarrow> 's \<Rightarrow> bool) \<Rightarrow> (uexn \<Rightarrow> 's \<Rightarrow> bool) \<Rightarrow> 's \<Rightarrow> bool" where
  "wp m Q R s = (case m s of (Inr x, s') \<Rightarrow> Q x s' | (Inl e, s') \<Rightarrow> is_store_error e \<or> R e s')"

lemma safe_code_store: "is_store_error e \<Longrightarrow> safe_code e = None"
  by (cases e) simp_all

lemma wp_retM [wp]: "wp (retM x) Q R s = Q x s"
  by (simp add: wp_def retM_def)

lemma wp_raiseM [wp]: "wp (raiseM e) Q R s = (is_store_error e \<or> R e s)"
  by (simp add: wp_def raiseM_def)

lemma wp_bindM [wp]: "wp (bindM m f) Q R s = wp m (\<lambda>x. wp (f x) Q R) R s"
  by (auto simp: wp_def bindM_def split: sum.splits prod.splits)

lemma wp_thenM [wp]: "wp (thenM m n) Q R s = wp m (\<lambda>_. wp n Q R) R s"
  by (simp add: thenM_def wp_bindM)

lemma wp_liftM [wp]:
  "wp (liftM r) Q R s = (case r of Inl e \<Rightarrow> is_store_error e \<or> R e s | Inr x \<Rightarrow> Q x s)"
  by (simp add: wp_def liftM_def split: sum.splits)

lemma wp_tryM [wp]:
  "wp (tryM safe_code m) Q R s =
     wp m (\<lambda>x. Q (Inr x)) (\<lambda>e. case safe_code e of None \<Rightarrow> R e | Some x \<Rightarrow> Q (Inl x)) s"
  by (auto simp: wp_def tryM_def safe_code_store split: sum.splits prod.splits option.splits)

lemma wp_if [wp]: "wp (if b then m else n) Q R s = (if b then wp m Q R s else wp n Q R s)"
  by simp

lemma wp_mono:
  "wp m Q R s \<Longrightarrow> (\<And>x s'. Q x s' \<Longrightarrow> Q' x s') \<Longrightarrow> (\<And>e s'. R e s' \<Longrightarrow> R' e s') \<Longrightarrow> wp m Q' R' s"
  by (auto simp: wp_def split: sum.splits prod.splits)

lemma wp_result:
  "wp m Q R s \<Longrightarrow> m s = (r, s') \<Longrightarrow>
   (case r of Inr x \<Rightarrow> Q x s' | Inl e \<Rightarrow> is_store_error e \<or> R e s')"
  by (simp add: wp_def split: sum.splits)

section \<open>The calls on the platform\<close>

datatype call =
    CInspect | CResolve | CBackup | CVerify image_identity | CTag update_task | CStop
  | CMigrate image_identity uuid | CStart image_identity uuid | CRollback update_task
  | CHealth image_identity | CPersist pystr | CCleanup update_task cleanup_step | CSleep nat

text \<open>
  A platform operation leaves the stored state alone, is recorded in the log, and raises
  only \<open>SafeOperationError\<close>; \<open>post\<close> is what it promises of its result.
\<close>

definition platform_step ::
    "('s \<Rightarrow> persistent_state) \<Rightarrow> ('s \<Rightarrow> call list) \<Rightarrow> call \<Rightarrow> ('a \<Rightarrow> bool) \<Rightarrow> ('s, uexn, 'a) eff \<Rightarrow> bool" where
  "platform_step st log c post m \<longleftrightarrow>
     (\<forall>s. wp m (\<lambda>x s'. st s' = st s \<and> log s' = log s @ [c] \<and> post x)
             (\<lambda>e s'. st s' = st s \<and> log s' = log s @ [c] \<and> (\<exists>k. e = SafeOperationError k)) s)"

text \<open>\<open>tag_rollback\<close> returns the task with the alias of its original image filled in.\<close>

definition tagged :: "update_task \<Rightarrow> update_task \<Rightarrow> bool" where
  "tagged t t' \<longleftrightarrow> (\<exists>a. a \<noteq> [] \<and> t' = t\<lparr>ut_original := (ut_original t)\<lparr>im_rollback_alias := a\<rparr>\<rparr>)"

locale update_env =
  fixes E :: "'s env"
    and st :: "'s \<Rightarrow> persistent_state"
    and log :: "'s \<Rightarrow> call list"
  assumes load: "env_load E s = (Inr (st s), s)"
    and save: "wp (env_save E p) (\<lambda>_ s'. st s' = p \<and> log s' = log s) (\<lambda>_ _. False) s"
    and now: "wp (env_now E) (\<lambda>_ s'. st s' = st s \<and> log s' = log s) (\<lambda>_ _. False) s"
    and sleep: "wp (env_sleep E n) (\<lambda>_ s'. st s' = st s \<and> log s' = log s @ [CSleep n])
      (\<lambda>_ _. False) s"
    and inspect: "platform_step st log CInspect (\<lambda>_. True) (env_inspect_web E)"
    and resolve: "platform_step st log CResolve (\<lambda>_. True) (env_resolve_stable E)"
    and backup: "platform_step st log CBackup (\<lambda>_. True) (env_create_backup E)"
    and verify: "platform_step st log (CVerify x) (\<lambda>_. True) (env_verify_target E x)"
    and tag: "platform_step st log (CTag t) (tagged t) (env_tag_rollback E t)"
    and stop: "platform_step st log CStop (\<lambda>_. True) (env_stop_web E)"
    and migrate: "platform_step st log (CMigrate x i) (\<lambda>_. True) (env_migrate_target E x i)"
    and start_target: "platform_step st log (CStart x i) (\<lambda>_. True) (env_start_target E x i)"
    and start_rollback: "platform_step st log (CRollback t) (\<lambda>_. True) (env_start_rollback E t)"
    and health: "platform_step st log (CHealth x) (\<lambda>_. True) (env_health E x)"
    and persist: "platform_step st log (CPersist v) (\<lambda>_. True) (env_persist_version E v)"
    and cleanup: "platform_step st log (CCleanup t step) (\<lambda>_. True) (env_cleanup_step E t step)"

section \<open>Rules for the state\<close>

text \<open>The task of a stored state, and that the state holds the task \<open>i\<close>.\<close>

definition cur :: "persistent_state \<Rightarrow> update_task" where
  "cur p = the (ps_task p)"

definition holds :: "uuid \<Rightarrow> persistent_state \<Rightarrow> bool" where
  "holds i p \<longleftrightarrow> ps_task p \<noteq> None \<and> ut_id (cur p) = i"

lemma holds_with_task [simp]:
  "holds i \<lparr>ps_last_check = c, ps_task = Some t\<rparr> \<longleftrightarrow> ut_id t = i"
  "cur \<lparr>ps_last_check = c, ps_task = Some t\<rparr> = t"
  by (simp_all add: holds_def cur_def)

lemma holds_eq: "holds i p \<Longrightarrow> p = \<lparr>ps_last_check = ps_last_check p, ps_task = Some (cur p)\<rparr>"
  by (cases p) (auto simp: holds_def cur_def)

lemma platform_stepD:
  assumes "platform_step st log c post m"
    and "\<And>x s'. st s' = st s \<Longrightarrow> log s' = log s @ [c] \<Longrightarrow> post x \<Longrightarrow> Q x s'"
    and "\<And>k s'. st s' = st s \<Longrightarrow> log s' = log s @ [c] \<Longrightarrow> R (SafeOperationError k) s'"
  shows "wp m Q R s"
  using assms unfolding platform_step_def
  by (fast elim: wp_mono)

text \<open>
  The startup check calls the health endpoint at most \<open>n + 1\<close> times, with a pause between
  two calls, and leaves the stored state alone.
\<close>

definition health_run :: "image_identity \<Rightarrow> nat \<Rightarrow> call list \<Rightarrow> bool" where
  "health_run x n h \<longleftrightarrow> (\<exists>k\<le>n. h = concat (replicate k [CHealth x, CSleep 2]) @ [CHealth x])"

lemma health_run_one: "health_run x n [CHealth x]"
  by (auto simp: health_run_def intro!: exI [of _ 0])

lemma health_run_more: "health_run x n h \<Longrightarrow> health_run x (Suc n) ([CHealth x, CSleep 2] @ h)"
  unfolding health_run_def by (metis Suc_le_mono append_assoc concat.simps(2) replicate_Suc)

context update_env
begin

lemma wp_load: "wp (env_load E) Q R s = Q (st s) s"
  by (simp add: wp_def load)

lemma wp_save: "(\<And>s'. st s' = p \<Longrightarrow> log s' = log s \<Longrightarrow> Q () s') \<Longrightarrow> wp (env_save E p) Q R s"
  using save [of p s] by (fastforce intro: wp_mono)

lemma wp_now:
  "(\<And>n s'. st s' = st s \<Longrightarrow> log s' = log s \<Longrightarrow> Q n s') \<Longrightarrow> wp (env_now E) Q R s"
  using now [of s] by (fastforce intro: wp_mono)

lemma wp_sleep:
  "(\<And>s'. st s' = st s \<Longrightarrow> log s' = log s @ [CSleep n] \<Longrightarrow> Q () s') \<Longrightarrow> wp (env_sleep E n) Q R s"
  using sleep [of n s] by (fastforce intro: wp_mono)

lemmas wp_platform =
  platform_stepD [OF inspect] platform_stepD [OF resolve] platform_stepD [OF backup]
  platform_stepD [OF verify] platform_stepD [OF stop]
  platform_stepD [OF migrate] platform_stepD [OF start_target] platform_stepD [OF start_rollback]
  platform_stepD [OF health] platform_stepD [OF persist] platform_stepD [OF cleanup]

lemma wp_task_of: "holds i (st s) \<Longrightarrow> Q (cur (st s)) s \<Longrightarrow> wp (task_of E i) Q R s"
  by (auto simp: task_of_def wp wp_load holds_def cur_def)

lemma wp_save_task:
  "(\<And>s'. st s' = \<lparr>ps_last_check = ps_last_check (st s), ps_task = Some t\<rparr> \<Longrightarrow> log s' = log s
      \<Longrightarrow> Q () s') \<Longrightarrow> wp (save_task E t) Q R s"
  by (auto simp: save_task_def wp wp_load intro: wp_save)

lemma wp_checkpoint:
  assumes "holds i (st s)"
    and "\<And>n s'. st s' = \<lparr>ps_last_check = ps_last_check (st s),
          ps_task = Some ((cur (st s))\<lparr>ut_stage := g, ut_started_at := Some n\<rparr>)\<rparr>
          \<Longrightarrow> log s' = log s \<Longrightarrow> Q () s'"
  shows "wp (checkpoint E i g) Q R s"
  unfolding checkpoint_def wp
proof (rule wp_task_of [OF assms(1)], cases "ut_started_at (cur (st s))")
  case None
  then show "if ut_started_at (cur (st s)) = None
      then wp (env_now E) (\<lambda>n. wp (save_task E (cur (st s)\<lparr>ut_stage := g, ut_started_at := Some n\<rparr>)) Q R) R s
      else wp (save_task E (cur (st s)\<lparr>ut_stage := g\<rparr>)) Q R s"
    using assms(2) by (auto intro!: wp_now wp_save_task)
next
  case (Some n)
  then have eq: "cur (st s)\<lparr>ut_stage := g\<rparr> = cur (st s)\<lparr>ut_stage := g, ut_started_at := Some n\<rparr>"
    by (metis update_task.surjective update_task.update_convs(4) update_task.update_convs(6))
  have "wp (save_task E (cur (st s)\<lparr>ut_stage := g\<rparr>)) Q R s"
    by (rule wp_save_task, rule assms(2) [of _ n]) (simp_all only: eq [symmetric])
  with Some show "if ut_started_at (cur (st s)) = None
      then wp (env_now E) (\<lambda>n. wp (save_task E (cur (st s)\<lparr>ut_stage := g, ut_started_at := Some n\<rparr>)) Q R) R s
      else wp (save_task E (cur (st s)\<lparr>ut_stage := g\<rparr>)) Q R s"
    by simp
qed

lemma wp_finish_failed:
  assumes "holds i (st s)"
    and "\<And>n s'. st s' = \<lparr>ps_last_check = ps_last_check (st s),
          ps_task = Some ((cur (st s))\<lparr>ut_stage := FAILED, ut_rolled_back := b,
            ut_error_code := code, ut_finished_at := Some n\<rparr>)\<rparr> \<Longrightarrow> log s' = log s \<Longrightarrow> Q () s'"
  shows "wp (finish_failed E i code b) Q R s"
  unfolding finish_failed_def wp
  by (rule wp_task_of [OF assms(1)], rule wp_now, rule wp_save_task) (simp add: assms(2))

lemma wp_finish_manual:
  assumes "holds i (st s)"
    and "\<And>n s'. st s' = \<lparr>ps_last_check = ps_last_check (st s),
          ps_task = Some ((cur (st s))\<lparr>ut_stage := MANUAL_INTERVENTION,
            ut_error_code := lit ''rollback_failed'', ut_finished_at := Some n\<rparr>)\<rparr>
          \<Longrightarrow> log s' = log s \<Longrightarrow> Q () s'"
  shows "wp (finish_manual E i) Q R s"
  unfolding finish_manual_def wp
  by (rule wp_task_of [OF assms(1)], rule wp_now, rule wp_save_task) (simp add: assms(2))

lemma wp_startup_health:
  assumes "\<And>s' h. st s' = st s \<Longrightarrow> log s' = log s @ h \<Longrightarrow> health_run x n h \<Longrightarrow> Q () s'"
    and "\<And>k s' h. st s' = st s \<Longrightarrow> log s' = log s @ h \<Longrightarrow> health_run x n h
      \<Longrightarrow> R (SafeOperationError k) s'"
  shows "wp (startup_health E x n) Q R s"
  using assms
proof (induction n arbitrary: s)
  case 0
  show ?case
    unfolding startup_health.simps
    by (rule platform_stepD [OF health]) (use 0 health_run_one in auto)
next
  case (Suc n)
  show ?case
    unfolding startup_health.simps wp
  proof (rule platform_stepD [OF health], goal_cases)
    case (1 u s')
    then show ?case using Suc.prems(1) health_run_one by (simp add: wp)
  next
    case (2 k s')
    show ?case
    proof (simp add: wp, rule wp_sleep, goal_cases)
      case (1 s2)
      show ?case
      proof (rule Suc.IH)
        fix s3 h assume "st s3 = st s2" "log s3 = log s2 @ h" "health_run x n h"
        then show "Q () s3"
          using 1 2 Suc.prems(1) [of s3 "[CHealth x, CSleep 2] @ h"] health_run_more
          by (simp add: startup_health_retry_seconds_def)
      next
        fix k2 s3 h assume "st s3 = st s2" "log s3 = log s2 @ h" "health_run x n h"
        then show "R (SafeOperationError k2) s3"
          using 1 2 Suc.prems(2) [of s3 "[CHealth x, CSleep 2] @ h"] health_run_more
          by (simp add: startup_health_retry_seconds_def)
      qed
    qed
  qed
qed

lemma wp_wait_health:
  assumes "\<And>s' h. st s' = st s \<Longrightarrow> log s' = log s @ h \<Longrightarrow> health_run x 29 h \<Longrightarrow> Q () s'"
    and "\<And>k s' h. st s' = st s \<Longrightarrow> log s' = log s @ h \<Longrightarrow> health_run x 29 h
      \<Longrightarrow> R (SafeOperationError k) s'"
  shows "wp (wait_for_startup_health E x) Q R s"
  unfolding wait_for_startup_health_def startup_health_max_attempts_def
  by (rule wp_startup_health) (use assms in auto)

end

chapter \<open>Compound operations\<close>

text \<open>
  The compound operations of the manager under the contract \<open>update_env\<close>: the cleanup with
  its journal, the rollback, and the two halves of an update.
\<close>

section \<open>The cleanup journal\<close>

text \<open>The journal when the loop has the steps \<open>steps\<close> still to do.\<close>

definition suffix_ok :: "cleanup_step list \<Rightarrow> cleanup_journal \<Rightarrow> bool" where
  "suffix_ok steps j \<longleftrightarrow> journal_valid j \<and>
     (steps = cleanup_steps
      \<or> steps = [ROLLBACK_ALIAS, IMAGE_ID] \<and> jr_version_tag j = COMPLETED
      \<or> steps = [IMAGE_ID] \<and> jr_rollback_alias j = COMPLETED
      \<or> steps = [] \<and> jr_image_id j = COMPLETED)"

lemma suffix_ok_skip: "suffix_ok (x # xs) j \<Longrightarrow> journal_get j x = COMPLETED \<Longrightarrow> suffix_ok xs j"
  by (auto simp: suffix_ok_def cleanup_steps_def)

lemma suffix_ok_start:
  "suffix_ok (x # xs) j \<Longrightarrow> journal_get j x = NOT_STARTED \<Longrightarrow>
   \<exists>j'. journal_replace j x STARTED = Inr j' \<and> suffix_ok (x # xs) j' \<and> journal_get j' x = STARTED"
  by (auto simp: suffix_ok_def cleanup_steps_def make_journal_def journal_valid_def Let_def)

lemma suffix_ok_finish:
  "suffix_ok (x # xs) j \<Longrightarrow> journal_get j x = STARTED \<Longrightarrow>
   \<exists>j'. journal_replace j x COMPLETED = Inr j' \<and> suffix_ok xs j'"
  by (auto simp: suffix_ok_def cleanup_steps_def make_journal_def journal_valid_def Let_def)

fun is_cleanup :: "call \<Rightarrow> bool" where
  "is_cleanup (CCleanup t s) = True"
| "is_cleanup _ = False"

section \<open>Cleaning up\<close>

text \<open>What the cleanup leaves: only the journal and the status of the task change.\<close>

definition cleaned :: "persistent_state \<Rightarrow> bool \<Rightarrow> persistent_state \<Rightarrow> bool" where
  "cleaned p b p' \<longleftrightarrow> (\<exists>c j. p' = \<lparr>ps_last_check = ps_last_check p,
       ps_task = Some ((cur p)\<lparr>ut_cleanup := c, ut_cleanup_journal := j\<rparr>)\<rparr>
     \<and> (\<forall>x. j = Some x \<longrightarrow> journal_valid x)
     \<and> (b \<longrightarrow> (\<exists>x. j = Some x \<and> journal_complete x)))"

context update_env
begin

lemma wp_cleanup_loop:
  assumes "holds i (st s)" "ut_cleanup_journal (cur (st s)) = Some j" "suffix_ok steps j"
    and "\<And>b s' j' l. st s' = \<lparr>ps_last_check = ps_last_check (st s),
          ps_task = Some ((cur (st s))\<lparr>ut_cleanup_journal := Some j'\<rparr>)\<rparr> \<Longrightarrow> journal_valid j' \<Longrightarrow>
          (b \<longrightarrow> journal_complete j') \<Longrightarrow> log s' = log s @ l \<Longrightarrow> list_all is_cleanup l \<Longrightarrow> Q b s'"
  shows "wp (cleanup_loop E i steps) Q R s"
  using assms
proof (induction steps arbitrary: s j)
  case Nil
  have "journal_complete j" "journal_valid j"
    using Nil.prems(3) by (simp_all add: suffix_ok_def journal_complete_def cleanup_steps_def)
  moreover have "st s = \<lparr>ps_last_check = ps_last_check (st s),
      ps_task = Some ((cur (st s))\<lparr>ut_cleanup_journal := Some j\<rparr>)\<rparr>"
    using holds_eq [OF Nil.prems(1)] Nil.prems(2) by (cases "cur (st s)") simp
  ultimately show ?case
    by (simp add: wp) (rule Nil.prems(4) [where l = "[]"], simp_all)
next
  case (Cons x xs)
  note Q = Cons.prems(4)
  show ?case
  proof (cases "journal_get j x = COMPLETED")
    case True
    then have "wp (cleanup_loop E i xs) Q R s"
      using Cons.IH [OF Cons.prems(1,2) suffix_ok_skip [OF Cons.prems(3)]] Q by blast
    then show ?thesis
      unfolding cleanup_loop.simps wp
      by (rule_tac wp_task_of [OF Cons.prems(1)]) (simp add: Cons.prems(2) True)
  next
    case False
    text \<open>The state when the step is marked as started.\<close>
    have step: "wp (bindM (task_of E i) (\<lambda>t1. bindM (tryM safe_code (env_cleanup_step E t1 x)) (\<lambda>r.
            case r of
              Inl _ \<Rightarrow> retM False
            | Inr _ \<Rightarrow>
                bindM (task_of E i) (\<lambda>t2.
                case ut_cleanup_journal t2 of
                  None \<Rightarrow> retM False
                | Some journal2 \<Rightarrow>
                    if journal_get journal2 x \<noteq> STARTED then retM False
                    else
                      bindM (liftM (journal_replace journal2 x COMPLETED)) (\<lambda>j.
                      thenM (save_task E (t2\<lparr>ut_cleanup_journal := Some j\<rparr>))
                        (cleanup_loop E i xs)))))) Q R s1"
      if s1: "st s1 = \<lparr>ps_last_check = ps_last_check (st s),
          ps_task = Some ((cur (st s))\<lparr>ut_cleanup_journal := Some j1\<rparr>)\<rparr>" "log s1 = log s"
        "suffix_ok (x # xs) j1" "journal_get j1 x = STARTED" for s1 j1
    proof -
      have h1: "holds i (st s1)" using Cons.prems(1) by (simp add: s1 holds_def)
      show ?thesis
        unfolding wp
      proof (rule wp_task_of [OF h1], rule platform_stepD [OF cleanup], goal_cases)
        case (1 u s2)
        obtain j2 where j2: "journal_replace j1 x COMPLETED = Inr j2" "suffix_ok xs j2"
          using suffix_ok_finish [OF s1(3,4)] by blast
        have h2: "holds i (st s2)" using h1 1 by simp
        have "wp (save_task E ((cur (st s2))\<lparr>ut_cleanup_journal := Some j2\<rparr>))
            (\<lambda>_. wp (cleanup_loop E i xs) Q R) R s2"
        proof (rule wp_save_task)
          fix s3 assume s3: "st s3 = \<lparr>ps_last_check = ps_last_check (st s2),
              ps_task = Some ((cur (st s2))\<lparr>ut_cleanup_journal := Some j2\<rparr>)\<rparr>" "log s3 = log s2"
          have h3: "holds i (st s3)" using h2 by (simp add: s3 holds_def)
          show "wp (cleanup_loop E i xs) Q R s3"
          proof (rule Cons.IH [OF h3 _ j2(2)])
            fix b s' j' l
            assume "st s' = \<lparr>ps_last_check = ps_last_check (st s3),
                ps_task = Some (cur (st s3)\<lparr>ut_cleanup_journal := Some j'\<rparr>)\<rparr>" "journal_valid j'"
              "b \<longrightarrow> journal_complete j'" "log s' = log s3 @ l" "list_all is_cleanup l"
            then show "Q b s'"
              using 1 by (intro Q [where l = "CCleanup (cur (st s1)) x # l"]) (simp_all add: s3 s1)
          qed (simp add: s3)
        qed
        then show ?case
          by (simp add: wp, rule_tac wp_task_of [OF h2])
             (simp add: 1 s1 j2 wp)
      next
        case (2 k s2)
        have "journal_valid j1" using s1(3) by (simp add: suffix_ok_def)
        with 2 show ?case
          by (simp add: wp) (rule Q [where l = "[CCleanup (cur (st s1)) x]"], simp_all add: s1)
      qed
    qed
    show ?thesis
    proof (cases "journal_get j x = NOT_STARTED")
      case True
      obtain j1 where j1: "journal_replace j x STARTED = Inr j1" "suffix_ok (x # xs) j1"
        "journal_get j1 x = STARTED"
        using suffix_ok_start [OF Cons.prems(3) True] by blast
      show ?thesis
        unfolding cleanup_loop.simps wp
        apply (rule wp_task_of [OF Cons.prems(1)])
        apply (simp add: Cons.prems(2) True wp j1 del: wp_bindM)
        apply (simp only: wp_bindM wp_liftM sum.case)
        apply (rule wp_save_task)
        apply (rule step [OF _ _ j1(2,3)]; simp)
        done
    next
      case started: False
      then have j: "journal_get j x = STARTED" using False by (cases "journal_get j x") auto
      have s: "st s = \<lparr>ps_last_check = ps_last_check (st s),
          ps_task = Some ((cur (st s))\<lparr>ut_cleanup_journal := Some j\<rparr>)\<rparr>"
        using holds_eq [OF Cons.prems(1)] Cons.prems(2) by (cases "cur (st s)") simp
      show ?thesis
        unfolding cleanup_loop.simps wp
        apply (rule wp_task_of [OF Cons.prems(1)])
        apply (simp add: Cons.prems(2) j wp_thenM wp_retM)
        apply (rule step [OF s refl Cons.prems(3) j])
        done
    qed
  qed
qed

lemma wp_cleanup_original:
  assumes "holds i (st s)" "\<And>j. ut_cleanup_journal (cur (st s)) = Some j \<Longrightarrow> journal_valid j"
    and "\<And>b s' l. cleaned (st s) b (st s') \<Longrightarrow> log s' = log s @ l \<Longrightarrow> list_all is_cleanup l
      \<Longrightarrow> Q b s'"
  shows "wp (cleanup_original E i) Q R s"
proof (cases "ut_cleanup_journal (cur (st s))")
  case None
  have "st s = \<lparr>ps_last_check = ps_last_check (st s),
      ps_task = Some ((cur (st s))\<lparr>ut_cleanup := ut_cleanup (cur (st s)),
        ut_cleanup_journal := None\<rparr>)\<rparr>"
    using holds_eq [OF assms(1)] None by (cases "cur (st s)") simp
  then have "cleaned (st s) False (st s)"
    unfolding cleaned_def by blast
  then show ?thesis
    unfolding cleanup_original_def wp
    by (rule_tac wp_task_of [OF assms(1)], simp add: None wp)
      (rule assms(3) [where l = "[]"], simp_all)
next
  case (Some j)
  have start: "suffix_ok cleanup_steps j"
    using assms(2) [OF Some] by (simp add: suffix_ok_def)
  have loop: "wp (cleanup_loop E i cleanup_steps) Q R s1"
    if s1: "st s1 = \<lparr>ps_last_check = ps_last_check (st s),
        ps_task = Some ((cur (st s))\<lparr>ut_cleanup := c\<rparr>)\<rparr>" "log s1 = log s" for c s1
  proof (rule wp_cleanup_loop [OF _ _ start])
    show "holds i (st s1)" "ut_cleanup_journal (cur (st s1)) = Some j"
      using assms(1) Some by (simp_all add: s1 holds_def)
    fix b s' j' l
    assume "st s' = \<lparr>ps_last_check = ps_last_check (st s1),
        ps_task = Some (cur (st s1)\<lparr>ut_cleanup_journal := Some j'\<rparr>)\<rparr>" "journal_valid j'"
      "b \<longrightarrow> journal_complete j'" "log s' = log s1 @ l" "list_all is_cleanup l"
    then show "Q b s'"
      by (intro assms(3) [of b s' l]) (auto simp: s1 cleaned_def)
  qed
  have keep: "st s = \<lparr>ps_last_check = ps_last_check (st s),
      ps_task = Some ((cur (st s))\<lparr>ut_cleanup := ut_cleanup (cur (st s))\<rparr>)\<rparr>"
    using holds_eq [OF assms(1)] by (cases "cur (st s)") simp
  show ?thesis
    unfolding cleanup_original_def wp
  proof (rule wp_task_of [OF assms(1)], simp add: Some wp, intro conjI impI)
    show "wp (save_task E (cur (st s)\<lparr>ut_cleanup := PENDING\<rparr>))
        (\<lambda>_. wp (cleanup_loop E i cleanup_steps) Q R) R s"
      by (rule wp_save_task, rule loop)
    show "wp (cleanup_loop E i cleanup_steps) Q R s"
      by (rule loop [OF keep refl])
  qed
qed

end

section \<open>Rolling back\<close>

text \<open>
  What a rollback of the task \<open>t\<close> asks of the platform: to start the original image under
  its alias, then to wait for it, then to write its version, and nothing else.
\<close>

definition rollback_log :: "update_task \<Rightarrow> call list \<Rightarrow> bool" where
  "rollback_log t l \<longleftrightarrow> (\<exists>h p. l = CRollback t # h @ p
     \<and> (h = [] \<and> p = [] \<or> health_run (ut_original t) 29 h)
     \<and> p \<in> {[], [CPersist (im_version (ut_original t))]})"

text \<open>
  A rollback ends in \<open>FAILED\<close> with \<open>rolled_back\<close> set, the original image healthy and, when
  asked, its version written; or it ends in \<open>MANUAL_INTERVENTION\<close>.
\<close>

definition rollback_end ::
    "persistent_state \<Rightarrow> pystr \<Rightarrow> bool \<Rightarrow> stage \<Rightarrow> persistent_state \<Rightarrow> call list \<Rightarrow> bool" where
  "rollback_end p code restore g p' l \<longleftrightarrow>
     (let t = (cur p)\<lparr>ut_stage := g, ut_error_code := code\<rparr> in
      rollback_log t l
      \<and> (\<exists>n b. p' = \<lparr>ps_last_check = ps_last_check p,
            ps_task = Some (t\<lparr>ut_stage := FAILED, ut_rolled_back := True, ut_finished_at := Some n,
              ut_started_at := b\<rparr>)\<rparr>
          \<and> (\<exists>h. health_run (ut_original t) 29 h \<and>
               l = CRollback t # h @
                 (if restore then [CPersist (im_version (ut_original t))] else []))
        \<or> p' = \<lparr>ps_last_check = ps_last_check p,
            ps_task = Some (t\<lparr>ut_stage := MANUAL_INTERVENTION,
              ut_error_code := lit ''rollback_failed'', ut_finished_at := Some n,
              ut_started_at := b\<rparr>)\<rparr>))"

lemma rollback_log_start: "rollback_log t [CRollback t]"
  by (simp add: rollback_log_def)

lemma rollback_log_health: "health_run (ut_original t) 29 h \<Longrightarrow> rollback_log t (CRollback t # h)"
  by (auto simp: rollback_log_def)

lemma rollback_log_persist:
  "health_run (ut_original t) 29 h \<Longrightarrow>
   rollback_log t (CRollback t # h @ [CPersist (im_version (ut_original t))])"
  by (auto simp: rollback_log_def)

lemma rollback_end_manual:
  assumes "rollback_log ((cur p)\<lparr>ut_stage := g, ut_error_code := code\<rparr>) l"
    and "p' = \<lparr>ps_last_check = ps_last_check p,
      ps_task = Some ((cur p)\<lparr>ut_stage := g, ut_error_code := code, ut_started_at := b,
        ut_stage := MANUAL_INTERVENTION, ut_error_code := lit ''rollback_failed'',
        ut_finished_at := Some n\<rparr>)\<rparr>"
  shows "rollback_end p code restore g p' l"
  unfolding rollback_end_def Let_def
  by (intro conjI assms(1) exI [of _ n] exI [of _ b] disjI2) (simp add: assms(2))

lemma rollback_end_failed:
  assumes "l = CRollback ((cur p)\<lparr>ut_stage := g, ut_error_code := code\<rparr>) # h @
      (if restore then [CPersist (im_version (ut_original (cur p)))] else [])"
    and "health_run (ut_original (cur p)) 29 h"
    and "p' = \<lparr>ps_last_check = ps_last_check p,
      ps_task = Some ((cur p)\<lparr>ut_stage := g, ut_error_code := code, ut_started_at := b,
        ut_stage := FAILED, ut_rolled_back := True, ut_error_code := code,
        ut_finished_at := Some n\<rparr>)\<rparr>"
  shows "rollback_end p code restore g p' l"
  unfolding rollback_end_def Let_def
proof (intro conjI exI [of _ n] exI [of _ b] disjI1 exI [of _ h])
  show "rollback_log ((cur p)\<lparr>ut_stage := g, ut_error_code := code\<rparr>) l"
    unfolding rollback_log_def by (rule exI [of _ h]) (use assms(1,2) in auto)
qed (use assms in simp_all)

context update_env
begin

lemma wp_rollback:
  assumes "holds i (st s)"
    and "\<And>s' l. rollback_end (st s) code restore (if keep then ut_stage (cur (st s)) else ROLLING_BACK)
        (st s') l \<Longrightarrow> log s' = log s @ l \<Longrightarrow> Q () s'"
  shows "wp (rollback_to_original E i code restore keep) Q R s"
proof -
  define g where "g = (if keep then ut_stage (cur (st s)) else ROLLING_BACK)"
  define t where "t = (cur (st s))\<lparr>ut_stage := g, ut_error_code := code\<rparr>"
  note Q = assms(2) [folded g_def]
  have i: "ut_id t = i" and o: "ut_original t = ut_original (cur (st s))"
    using assms(1) by (simp_all add: t_def holds_def)
  have manual: "wp (finish_manual E i) Q R s'"
    if "st s' = \<lparr>ps_last_check = ps_last_check (st s), ps_task = Some (t\<lparr>ut_started_at := b\<rparr>)\<rparr>"
      "log s' = log s @ l" "rollback_log t l" for s' b l
  proof (rule wp_finish_manual)
    show "holds i (st s')" using that i by simp
    fix n s2
    assume "st s2 = \<lparr>ps_last_check = ps_last_check (st s'), ps_task = Some (cur (st s')
        \<lparr>ut_stage := MANUAL_INTERVENTION, ut_error_code := lit ''rollback_failed'',
          ut_finished_at := Some n\<rparr>)\<rparr>" "log s2 = log s'"
    then show "Q () s2"
      using that by (intro Q [OF rollback_end_manual [where l = l and b = b and n = n]])
        (simp_all add: t_def)
  qed
  have failed: "wp (finish_failed E i code True) Q R s'"
    if "st s' = \<lparr>ps_last_check = ps_last_check (st s), ps_task = Some (t\<lparr>ut_started_at := b\<rparr>)\<rparr>"
      "log s' = log s @ CRollback t # h @
        (if restore then [CPersist (im_version (ut_original t))] else [])"
      "health_run (ut_original t) 29 h" for s' b h
  proof (rule wp_finish_failed)
    show "holds i (st s')" using that i by simp
    fix n s2
    assume "st s2 = \<lparr>ps_last_check = ps_last_check (st s'), ps_task = Some (cur (st s')
        \<lparr>ut_stage := FAILED, ut_rolled_back := True, ut_error_code := code,
          ut_finished_at := Some n\<rparr>)\<rparr>" "log s2 = log s'"
    then show "Q () s2"
      using that
      by (intro Q [OF rollback_end_failed [where h = h and b = b and n = n]])
        (simp_all add: t_def)
  qed
  show ?thesis
    unfolding rollback_to_original_def Let_def wp
  proof (rule wp_task_of [OF assms(1)], rule wp_save_task, goal_cases)
    case (1 s1)
    note s1 = 1 [folded g_def t_def]
    have h1: "holds i (st s1)" using i by (simp add: s1)
    show ?case
    proof (rule wp_task_of [OF h1], rule platform_stepD [OF start_rollback], goal_cases)
      case (1 u s2)
      then have h2: "holds i (st s2)" using h1 by simp
      show ?case
      proof (rule wp_checkpoint [OF h2], goal_cases)
        case (1 n s3)
        have s3: "st s3 = \<lparr>ps_last_check = ps_last_check (st s),
            ps_task = Some (t\<lparr>ut_started_at := Some n\<rparr>)\<rparr>" "log s3 = log s @ [CRollback t]"
          using 1 [folded g_def] \<open>st s2 = st s1\<close> \<open>log s2 = _\<close> s1 by (simp_all add: t_def)
        then have h3: "holds i (st s3)" using i by simp
        show ?case
        proof (rule wp_wait_health, goal_cases)
          case (1 s4 h)
          then have h4: "holds i (st s4)" using h3 by simp
          show ?case
          proof (cases restore)
            case False
            then show ?thesis
              using 1 s3 by (simp add: wp) (rule failed [where h = h and b = "Some n"],
                  simp_all add: s1 o)
          next
            case True
            show ?thesis
            proof (simp only: True if_True, rule wp_checkpoint [OF h4], rule platform_stepD [OF persist], goal_cases)
              case (1 n2 s5 u2 s6)
              note this [folded g_def]
              then show ?case
                using \<open>st s4 = _\<close> \<open>log s4 = _\<close> \<open>health_run _ _ _\<close> s3 True
                by (simp add: wp) (rule failed [where h = h and b = "Some n2"],
                  simp_all add: s1 o t_def)
            next
              case (2 n2 s5 k s6)
              note this [folded g_def]
              then show ?case
                using \<open>st s4 = _\<close> \<open>log s4 = _\<close> \<open>health_run _ _ _\<close> s3 True
                by (simp add: wp) (rule manual [where b = "Some n2" and l = "CRollback t # h @
                  [CPersist (im_version (ut_original t))]"],
                  simp_all add: s1 o t_def rollback_log_persist [of "_\<lparr>ut_stage := g, ut_error_code := code\<rparr>",
                    simplified])
            qed
          qed
        next
          case (2 k s4 h)
          then show ?case
            using s3 by (simp add: wp) (rule manual [where b = "Some n" and l = "CRollback t # h"],
                simp_all add: s1 o rollback_log_health)
        qed
      qed
    next
      case (2 k s2)
      then show ?case
        using s1 by (simp add: wp) (rule manual [of _ "ut_started_at t" "[CRollback t]"],
          simp_all add: rollback_log_start)
    qed
  qed
qed

end

end
