(* ===== verification/Updater_Execute.thy ===== *)
theory Updater_Execute
  imports Updater_Proofs "HOL-Library.Sublist"
begin

text \<open>
  What \<open>execute\<close> does: the calls on the platform, in their order, and how the task ends.
\<close>

section \<open>The order of the calls\<close>

text \<open>The calls of an update before the web service is stopped, and those after it.\<close>

definition prepare_calls :: "update_task \<Rightarrow> update_task \<Rightarrow> call list" where
  "prepare_calls t t1 = [CBackup, CVerify (ut_target t), CTag t1]"

definition switch_calls :: "update_task \<Rightarrow> call list \<Rightarrow> call list" where
  "switch_calls t h =
     [CStop, CMigrate (ut_target t) (ut_id t), CStart (ut_target t) (ut_id t)] @ h @
     concat (replicate 3 [CSleep 5, CHealth (ut_target t)]) @ [CPersist (im_version (ut_target t))]"

text \<open>
  The task is in stage \<open>g\<close>, its original image is \<open>orig\<close>, and the rest of what \<open>t\<close> fixes
  is as in \<open>t\<close>.
\<close>

definition phase ::
    "check_result option \<Rightarrow> update_task \<Rightarrow> image_identity \<Rightarrow> stage \<Rightarrow> persistent_state \<Rightarrow> bool" where
  "phase lc t orig g p \<longleftrightarrow> ps_last_check p = lc \<and> holds (ut_id t) p \<and> ut_stage (cur p) = g
     \<and> ut_target (cur p) = ut_target t \<and> ut_original (cur p) = orig
     \<and> ut_rolled_back (cur p) = ut_rolled_back t \<and> ut_cleanup (cur p) = ut_cleanup t
     \<and> ut_cleanup_journal (cur p) = ut_cleanup_journal t"

lemma phase_holds: "phase lc t orig g p \<Longrightarrow> holds (ut_id t) p"
  by (simp add: phase_def)

lemma phase_fields:
  assumes "phase lc t orig g p"
  shows "ut_stage (cur p) = g" "ut_target (cur p) = ut_target t" "ut_original (cur p) = orig"
    "ut_id (cur p) = ut_id t" "ps_last_check p = lc" "ut_rolled_back (cur p) = ut_rolled_back t"
    "ut_cleanup_journal (cur p) = ut_cleanup_journal t" "ut_cleanup (cur p) = ut_cleanup t"
  using assms by (auto simp: phase_def holds_def)

context update_env
begin

lemma wp_phase_checkpoint:
  assumes "phase lc t orig g (st s)" "i = ut_id t"
    and "\<And>s'. phase lc t orig g' (st s') \<Longrightarrow> log s' = log s \<Longrightarrow> Q () s'"
  shows "wp (checkpoint E i g') Q R s"
  using assms by (intro wp_checkpoint) (auto simp: phase_def holds_def)

lemma wp_phase_task:
  assumes "phase lc t orig g (st s)" "i = ut_id t"
    and "\<And>u. ut_target u = ut_target t \<Longrightarrow> ut_original u = orig \<Longrightarrow> ut_id u = ut_id t
      \<Longrightarrow> u = cur (st s) \<Longrightarrow> Q u s"
  shows "wp (task_of E i) Q R s"
  using assms by (intro wp_task_of) (auto simp: phase_def holds_def)

lemma wp_phase_backups:
  assumes "phase lc t orig g (st s)" "i = ut_id t"
    and "\<And>s'. phase lc t orig g (st s') \<Longrightarrow> log s' = log s \<Longrightarrow> Q () s'"
  shows "wp (record_backups E i b) Q R s"
  unfolding record_backups_def wp
  by (rule wp_phase_task [OF assms(1,2)], rule wp_save_task, rule assms(3))
     (use assms(1) in \<open>auto simp: phase_def holds_def\<close>)

lemma wp_phase_platform:
  assumes "platform_step st log c post m" "phase lc t orig g (st s)" "log s = l"
    and "\<And>x s'. phase lc t orig g (st s') \<Longrightarrow> log s' = l @ [c] \<Longrightarrow> post x \<Longrightarrow> Q x s'"
    and "\<And>k s'. phase lc t orig g (st s') \<Longrightarrow> log s' = l @ [c] \<Longrightarrow> R (SafeOperationError k) s'"
  shows "wp m Q R s"
  by (rule platform_stepD [OF assms(1)]) (use assms in simp_all)

lemma wp_phase_sleep:
  assumes "phase lc t orig g (st s)" "log s = l"
    and "\<And>s'. phase lc t orig g (st s') \<Longrightarrow> log s' = l @ [CSleep n] \<Longrightarrow> Q () s'"
  shows "wp (env_sleep E n) Q R s"
  by (rule wp_sleep) (use assms in simp_all)

lemma wp_phase_health:
  assumes "phase lc t orig g (st s)" "log s = l"
    and "\<And>s' h. phase lc t orig g (st s') \<Longrightarrow> log s' = l @ h \<Longrightarrow> health_run x 29 h \<Longrightarrow> Q () s'"
    and "\<And>k s' h. phase lc t orig g (st s') \<Longrightarrow> log s' = l @ h \<Longrightarrow> health_run x 29 h
      \<Longrightarrow> R (SafeOperationError k) s'"
  shows "wp (wait_for_startup_health E x) Q R s"
  by (rule wp_wait_health) (use assms in simp_all)

lemma wp_phase_tag:
  assumes "phase lc t orig g (st s)" "u = cur (st s)" "log s = l"
    and "\<And>a s'. a \<noteq> [] \<Longrightarrow> phase lc t (orig\<lparr>im_rollback_alias := a\<rparr>) g (st s') \<Longrightarrow> log s' = l @ [CTag u]
      \<Longrightarrow> Q () s'"
    and "\<And>k s'. phase lc t orig g (st s') \<Longrightarrow> log s' = l @ [CTag u] \<Longrightarrow> R (SafeOperationError k) s'"
  shows "wp (env_tag_rollback E u) (\<lambda>x. wp (save_task E x) Q R) R s"
proof (rule platform_stepD [OF tag], goal_cases)
  case (1 x s')
  then obtain a where a: "a \<noteq> []" "x = u\<lparr>ut_original := (ut_original u)\<lparr>im_rollback_alias := a\<rparr>\<rparr>"
    by (auto simp: tagged_def)
  show ?case
  proof (rule wp_save_task, rule assms(4) [OF a(1)], goal_cases)
    case (1 s2)
    then show ?case
      using assms(1,2) \<open>st s' = st s\<close> by (auto simp: phase_def holds_def a)
  qed (use 1 assms(3) in simp)
next
  case (2 k s')
  then show ?case using assms(1,3,5) by simp
qed

section \<open>The two halves of an update\<close>

lemma wp_before_stop:
  assumes "phase lc t (ut_original t) CHECKING (st s)"
    and Q: "\<And>s' t1 a. a \<noteq> [] \<Longrightarrow> phase lc t ((ut_original t)\<lparr>im_rollback_alias := a\<rparr>) STOPPING_WEB (st s')
      \<Longrightarrow> log s' = log s @ prepare_calls t t1 \<Longrightarrow> Q () s'"
    and R: "\<And>k s' t1 l g. phase lc t (ut_original t) g (st s')
      \<Longrightarrow> log s' = log s @ l \<Longrightarrow> prefix l (prepare_calls t t1) \<Longrightarrow> R (SafeOperationError k) s'"
  shows "wp (before_stop E (ut_id t)) Q R s"
proof -
  note calls = prepare_calls_def prefix_def
  show ?thesis
  unfolding before_stop_def wp
  apply (rule wp_phase_checkpoint [OF assms(1) refl])
  apply (rule wp_phase_platform [OF backup], assumption, assumption)
   apply (rule wp_phase_backups, assumption, rule refl)
   apply (rule wp_phase_checkpoint, assumption, rule refl)
   apply (rule wp_phase_task, assumption, rule refl)
   apply (rule wp_phase_platform [OF verify], assumption, simp)
    apply (rule wp_phase_checkpoint, assumption, rule refl)
    apply (rule wp_phase_task, assumption, rule refl)
    apply (rule wp_phase_tag, assumption, assumption, simp)
     apply (rule wp_phase_checkpoint, assumption, rule refl)
     apply (rule Q, assumption, assumption, simp add: calls)
    apply (rule R, assumption, simp, simp add: calls)
   apply (rule R [where l = "[CBackup, CVerify (ut_target t)]"], assumption, simp, simp add: calls)
  apply (rule R [where l = "[CBackup]"], assumption, simp, simp add: calls)
  done
qed

lemma switch_calls_eq:
  "switch_calls t h =
     CStop # CMigrate (ut_target t) (ut_id t) # CStart (ut_target t) (ut_id t) # h @
     [CSleep 5, CHealth (ut_target t), CSleep 5, CHealth (ut_target t), CSleep 5,
      CHealth (ut_target t), CPersist (im_version (ut_target t))]"
  by (simp add: switch_calls_def numeral_3_eq_3)

lemma wp_after_stop:
  assumes "phase lc t orig STOPPING_WEB (st s)"
    and Q: "\<And>u s' h. health_run (ut_target t) 29 h \<Longrightarrow> phase lc t orig PERSISTING_VERSION (st s')
      \<Longrightarrow> log s' = log s @ switch_calls t h \<Longrightarrow> Q u s'"
    and R: "\<And>k s' h l g. health_run (ut_target t) 29 h \<Longrightarrow> phase lc t orig g (st s')
      \<Longrightarrow> log s' = log s @ l \<Longrightarrow> prefix l (switch_calls t h) \<Longrightarrow> l \<noteq> []
      \<Longrightarrow> (g = PERSISTING_VERSION) = (l = switch_calls t h) \<Longrightarrow> R (SafeOperationError k) s'"
  shows "wp (after_stop E (ut_id t)) Q R s"
proof -
  note calls = switch_calls_eq prefix_def
  let ?x = "ut_target t"
  let ?c = "[CStop, CMigrate ?x (ut_id t), CStart ?x (ut_id t)]"
  note one = health_run_one [of ?x 29]
  note ck = wp_phase_checkpoint [OF _ refl] and tk = wp_phase_task [OF _ refl]
  have eq3: "(3::nat) = Suc (Suc (Suc 0))" by simp
  have stab: "wp (stabilize E (ut_id t)) (\<lambda>_. wp (checkpoint E (ut_id t) PERSISTING_VERSION)
      (\<lambda>_. wp (task_of E (ut_id t)) (\<lambda>t3. wp (env_persist_version E (im_version (ut_target t3))) Q R) R)
      R) R s0"
    if s0: "phase lc t orig CHECKING_HEALTH (st s0)" "log s0 = log s @ ?c @ h" "health_run ?x 29 h"
    for s0 h
  proof -
    show ?thesis
    unfolding stabilize_def eq3 stabilize_rounds.simps wp
    apply (rule ck, rule s0(1))
    apply (rule wp_phase_sleep, assumption, simp add: s0(2))
    apply (rule ck, assumption)
    apply (rule tk, assumption)
    apply (rule wp_phase_platform [OF health], assumption, simp)
     apply (rule wp_phase_sleep, assumption, simp)
     apply (rule ck, assumption)
     apply (rule tk, assumption)
     apply (rule wp_phase_platform [OF health], assumption, simp)
      apply (rule wp_phase_sleep, assumption, simp)
      apply (rule ck, assumption)
      apply (rule tk, assumption)
      apply (rule wp_phase_platform [OF health], assumption, simp)
       apply (rule ck, assumption)
       apply (rule tk, assumption)
       apply (rule wp_phase_platform [OF persist], assumption, simp)
        apply (rule Q [OF s0(3)], assumption, simp add: calls)
       apply (rule R [OF s0(3)], assumption, simp, simp add: calls, simp, simp add: calls)
      apply (rule R [OF s0(3)], assumption, simp, simp add: calls, simp, simp add: calls)
     apply (rule R [OF s0(3)], assumption, simp, simp add: calls, simp, simp add: calls)
    apply (rule R [OF s0(3)], assumption, simp, simp add: calls, simp, simp add: calls)
    done
  qed
  show ?thesis
  unfolding after_stop_def wp
  apply (rule wp_phase_platform [OF stop], rule assms(1), rule refl)
   apply (rule ck, assumption)
   apply (rule tk, assumption)
   apply (rule wp_phase_platform [OF migrate], assumption, simp)
    apply (rule ck, assumption)
    apply (rule tk, assumption)
    apply (rule wp_phase_platform [OF start_target], assumption, simp)
     apply (rule ck, assumption)
     apply (rule tk, assumption)
     apply (rule wp_phase_health, assumption, simp)
      apply (rule stab, assumption, simp, simp)
     apply (rule R, simp, assumption, simp, simp add: calls, simp, simp add: calls)
    apply (rule R [OF one], assumption, simp, simp add: calls, simp, simp add: calls)
   apply (rule R [OF one], assumption, simp, simp add: calls, simp, simp add: calls)
  apply (rule R [OF one], assumption, simp, simp add: calls, simp, simp add: calls)
  done
qed

end

section \<open>How an update ends\<close>

definition completed :: "update_task \<Rightarrow> persistent_state \<Rightarrow> bool" where
  "completed t p \<longleftrightarrow> holds (ut_id t) p \<and> ut_stage (cur p) = SUCCEEDED
     \<and> ut_target (cur p) = ut_target t \<and> ut_finished_at (cur p) \<noteq> None
     \<and> (ut_cleanup (cur p) = PENDING \<or> ut_cleanup (cur p) = COMPLETE
        \<and> (\<exists>j. ut_cleanup_journal (cur p) = Some j \<and> journal_complete j))
     \<and> (\<exists>n. ps_last_check p = Some \<lparr>ck_current = ut_target t, ck_target = ut_target t,
            ck_available = False, ck_checked_at = n\<rparr>)"

definition succeeded :: "update_task \<Rightarrow> persistent_state \<Rightarrow> call list \<Rightarrow> bool" where
  "succeeded t p l \<longleftrightarrow> completed t p \<and> (\<exists>h t1 k. health_run (ut_target t) 29 h \<and> list_all is_cleanup k
     \<and> l = prepare_calls t t1 @ switch_calls t h @ k)"

definition failed_early ::
    "check_result option \<Rightarrow> update_task \<Rightarrow> persistent_state \<Rightarrow> call list \<Rightarrow> bool" where
  "failed_early lc t p l \<longleftrightarrow> phase lc (t\<lparr>ut_rolled_back := False\<rparr>) (ut_original t) FAILED p
     \<and> ut_finished_at (cur p) \<noteq> None \<and> (\<exists>t1. prefix l (prepare_calls t t1))"

text \<open>
  After the stop of the web service a failure is answered by a rollback, which writes the
  original version only when the target version may have been written.
\<close>

definition fell_back ::
    "check_result option \<Rightarrow> update_task \<Rightarrow> persistent_state \<Rightarrow> call list \<Rightarrow> bool" where
  "fell_back lc t p l \<longleftrightarrow> (\<exists>t1 h k u r a. health_run (ut_target t) 29 h
     \<and> prefix k (switch_calls t h) \<and> k \<noteq> [] \<and> l = prepare_calls t t1 @ k @ r
     \<and> a \<noteq> [] \<and> ut_original u = (ut_original t)\<lparr>im_rollback_alias := a\<rparr> \<and> ut_id u = ut_id t
     \<and> rollback_log u r \<and> holds (ut_id t) p \<and> ut_finished_at (cur p) \<noteq> None \<and> ps_last_check p = lc
     \<and> (ut_stage (cur p) = FAILED \<and> ut_rolled_back (cur p)
          \<and> (CPersist (im_version (ut_original t)) \<in> set r \<longleftrightarrow> k = switch_calls t h)
        \<or> ut_stage (cur p) = MANUAL_INTERVENTION))"

lemma health_run_set: "health_run x n h \<Longrightarrow> set h \<subseteq> {CHealth x, CSleep 2}"
  by (auto simp: health_run_def split: if_splits)

context update_env
begin

lemma wp_complete_update:
  assumes "phase lc t orig g (st s)" "\<And>j. ut_cleanup_journal t = Some j \<Longrightarrow> journal_valid j"
    and "\<And>s' l. completed t (st s') \<Longrightarrow> log s' = log s @ l \<Longrightarrow> list_all is_cleanup l \<Longrightarrow> Q () s'"
  shows "wp (complete_update E (ut_id t)) Q R s"
  unfolding complete_update_def wp
proof (rule wp_cleanup_original [OF phase_holds [OF assms(1)]], goal_cases)
  case (1 j)
  then show ?case using assms(1,2) by (simp add: phase_fields)
next
  case (2 b s' l)
  show ?case
    unfolding commit_success_def wp
  proof (simp only: wp_load, cases "require_task (st s') (ut_id t)", goal_cases)
    case (1 e)
    then show ?case using 2(1) assms(1) by (auto simp: cleaned_def phase_def holds_def)
  next
    case (2 u)
    have u: "u = cur (st s')" "ut_id u = ut_id t" "ut_target u = ut_target t"
      "b \<longrightarrow> (\<exists>j. ut_cleanup_journal u = Some j \<and> journal_complete j)"
      using 2 \<open>cleaned _ _ _\<close> assms(1) by (auto simp: cleaned_def phase_def holds_def)
    show ?case
      unfolding 2 sum.case
    proof (rule wp_now, rule wp_now, rule wp_save, goal_cases)
      case (1 n s1 n2 s2 s3)
      then show ?case
        using u \<open>log s' = _\<close> \<open>list_all _ _\<close>
        by (intro assms(3) [of _ l]) (auto simp: completed_def holds_def cur_def)
    qed
  qed
qed

lemma rollback_end_fields:
  assumes "rollback_end p code restore g p' r" "holds i p"
  shows "holds i p'" "ut_finished_at (cur p') \<noteq> None" "ps_last_check p' = ps_last_check p"
    "\<exists>u. rollback_log u r \<and> ut_id u = i \<and> ut_original u = ut_original (cur p)"
    "ut_stage (cur p') = FAILED \<and> ut_rolled_back (cur p') \<and>
       (CPersist (im_version (ut_original (cur p))) \<in> set r \<longleftrightarrow> restore)
     \<or> ut_stage (cur p') = MANUAL_INTERVENTION"
proof -
  show "\<exists>u. rollback_log u r \<and> ut_id u = i \<and> ut_original u = ut_original (cur p)"
    using assms by (intro exI [of _ "cur p\<lparr>ut_stage := g, ut_error_code := code\<rparr>"])
      (simp add: rollback_end_def Let_def holds_def)
qed (use assms in \<open>auto simp: rollback_end_def Let_def holds_def cur_def dest!: health_run_set\<close>)

lemma wp_handle_stopped:
  assumes "phase lc t ((ut_original t)\<lparr>im_rollback_alias := a\<rparr>) g (st s)" "a \<noteq> []"
    and "health_run (ut_target t) 29 h" "prefix k (switch_calls t h)" "k \<noteq> []"
    and "g = PERSISTING_VERSION \<longleftrightarrow> k = switch_calls t h" "log s = l0 @ prepare_calls t t1 @ k"
    and "\<And>s' l. log s' = l0 @ l \<Longrightarrow> fell_back lc t (st s') l \<Longrightarrow> Q () s'"
  shows "wp (handle_failure E (ut_id t) code True) Q R s"
  unfolding handle_failure_def
proof (simp add: wp, rule wp_phase_task [OF assms(1) refl], rule wp_rollback, goal_cases)
  case (1 u)
  then show ?case using assms(1) by (rule_tac phase_holds)
next
  case (2 u s' r)
  note f = phase_fields [OF assms(1)]
  have restore: "ut_stage u = PERSISTING_VERSION \<longleftrightarrow> k = switch_calls t h"
    using assms(6) f(1) 2(4) by simp
  note e = rollback_end_fields [OF 2(5) phase_holds [OF assms(1)]]
  obtain v where v: "rollback_log v r" "ut_id v = ut_id t" "ut_original v = ut_original (cur (st s))"
    using e(4) by blast
  have "fell_back lc t (st s') (prepare_calls t t1 @ k @ r)"
    unfolding fell_back_def
    using assms(2,3,4,5) e(1,2,3,5) v restore f
    by (intro exI [of _ t1] exI [of _ h] exI [of _ k] exI [of _ v] exI [of _ r] exI [of _ a]) simp
  then show ?case
    using assms(7) 2(6) by (intro assms(8) [of _ "prepare_calls t t1 @ k @ r"]) simp_all
qed

lemma wp_execute:
  assumes "phase lc t (ut_original t) CHECKING (st s)"
    and "\<And>j. ut_cleanup_journal t = Some j \<Longrightarrow> journal_valid j"
    and Q: "\<And>s' l. log s' = log s @ l \<Longrightarrow>
      succeeded t (st s') l \<or> failed_early lc t (st s') l \<or> fell_back lc t (st s') l \<Longrightarrow> Q () s'"
  shows "wp (execute E (ut_id t)) Q R s"
  unfolding execute_def require_ready_task_def wp
proof (rule wp_phase_task [OF assms(1) refl], simp add: phase_fields [OF assms(1)] wp,
    rule wp_before_stop [OF assms(1)], goal_cases)
  case (1 s1 t1 a)
  show ?case
  proof (simp add: wp, rule wp_after_stop [OF 1(2)], goal_cases)
    case (1 x s2 h)
    show ?case
    proof (simp add: wp, rule wp_phase_checkpoint [OF 1(2) refl], rule wp_complete_update,
        assumption, goal_cases)
      case (1 s3 j)
      then show ?case using assms(2) by simp
    next
      case (2 s3 s4 k)
      then show ?case
        using 1 \<open>log s1 = _\<close> \<open>log s2 = _\<close>
        by (intro Q [of s4 "prepare_calls t t1 @ switch_calls t h @ k"]) (auto simp: succeeded_def)
    qed
  next
    case (2 k s2 h l g)
    then show ?case
      using 1 by (simp add: wp) (rule wp_handle_stopped [of lc t a g s2 h l "log s" t1],
        auto intro: Q)
  qed
next
  case (2 k s1 t1 l g)
  then show ?case
    apply (simp add: wp handle_failure_def)
    apply (rule wp_finish_failed [OF phase_holds], assumption)
    by (auto simp: failed_early_def phase_def holds_def intro!: Q [of _ l])
qed

end

end
