(* ===== verification/Updater_Recovery.thy ===== *)
theory Updater_Recovery
  imports Updater_Execute
begin

text \<open>
  What \<open>recover\<close> does with the task it finds after a restart, and what \<open>start\<close>, \<open>check\<close> and
  \<open>complete_pending_cleanup\<close> do to the stored state.
\<close>

section \<open>Recovering\<close>

fun is_recovery :: "call \<Rightarrow> bool" where
  "is_recovery CInspect = True"
| "is_recovery (CRollback t) = True"
| "is_recovery (CHealth x) = True"
| "is_recovery (CPersist v) = True"
| "is_recovery (CCleanup t s) = True"
| "is_recovery (CSleep n) = True"
| "is_recovery _ = False"

text \<open>
  A recovered task is finished: completed when the target was already running in one of the
  last two stages, failed after a rollback, failed with the untouched original healthy, or
  left for manual intervention.
\<close>

definition recovered :: "update_task \<Rightarrow> persistent_state \<Rightarrow> call list \<Rightarrow> bool" where
  "recovered t p l \<longleftrightarrow> holds (ut_id t) p \<and> ut_finished_at (cur p) \<noteq> None \<and> list_all is_recovery l
     \<and> (completed t p \<and> ut_stage t \<in> {PERSISTING_VERSION, CLEANING}
        \<or> ut_stage (cur p) = FAILED \<and> ut_rolled_back (cur p) \<and> ut_stage t \<notin> set pre_tag_stages
          \<and> (\<exists>u r. suffix r l \<and> rollback_log u r \<and> ut_id u = ut_id t \<and> ut_original u = ut_original t)
        \<or> ut_stage (cur p) = FAILED \<and> \<not> ut_rolled_back (cur p) \<and> ut_stage t \<in> set pre_tag_stages
          \<and> l = [CInspect, CHealth (ut_original t)]
        \<or> ut_stage (cur p) = MANUAL_INTERVENTION)"

lemma health_run_recovery: "health_run x n h \<Longrightarrow> list_all is_recovery h"
  by (drule health_run_set) (auto simp: list_all_iff subset_iff)

lemma rollback_log_recovery: "rollback_log t l \<Longrightarrow> list_all is_recovery l"
  by (auto simp: rollback_log_def health_run_recovery)

lemma cleanup_recovery: "list_all is_cleanup l \<Longrightarrow> list_all is_recovery l"
proof -
  have "is_cleanup c \<Longrightarrow> is_recovery c" for c by (cases c) simp_all
  then show "list_all is_cleanup l \<Longrightarrow> list_all is_recovery l"
    by (auto simp: list_all_iff)
qed

context update_env
begin

lemma wp_recovered_manual:
  assumes "phase lc t orig g (st s)" "log s = l0 @ l" "list_all is_recovery l"
    and "\<And>s'. recovered t (st s') l \<Longrightarrow> log s' = l0 @ l \<Longrightarrow> Q () s'"
  shows "wp (finish_manual E (ut_id t)) Q R s"
  by (rule wp_finish_manual [OF phase_holds [OF assms(1)]])
     (use assms in \<open>auto simp: recovered_def phase_def holds_def\<close>)

lemma wp_recovered_rollback:
  assumes "phase lc t (ut_original t) g (st s)" "log s = l0 @ l" "list_all is_recovery l"
    and "ut_stage t \<notin> set pre_tag_stages"
    and "\<And>s' r. recovered t (st s') (l @ r) \<Longrightarrow> log s' = l0 @ l @ r \<Longrightarrow> Q () s'"
  shows "wp (rollback_to_original E (ut_id t) code restore keep) Q R s"
proof (rule wp_rollback [OF phase_holds [OF assms(1)]], goal_cases)
  case (1 s' r)
  note e = rollback_end_fields [OF 1(1) phase_holds [OF assms(1)]]
  obtain u where u: "rollback_log u r" "ut_id u = ut_id t" "ut_original u = ut_original t"
    using e(4) phase_fields(3) [OF assms(1)] by auto
  have "recovered t (st s') (l @ r)"
    unfolding recovered_def using e(1,2,5) assms(3,4) u
    by (auto simp: suffix_def dest: rollback_log_recovery)
  then show ?case
    using 1(2) assms(2) by (intro assms(5) [of _ r]) simp_all
qed

lemma wp_complete_recovered:
  assumes "phase lc t (ut_original t) (ut_stage t) (st s)" "log s = l0 @ l" "list_all is_recovery l"
    and "ut_stage t \<in> {PERSISTING_VERSION, CLEANING}"
    and "\<And>j. ut_cleanup_journal t = Some j \<Longrightarrow> journal_valid j"
    and Q: "\<And>s' r. recovered t (st s') (l @ r) \<Longrightarrow> log s' = l0 @ l @ r \<Longrightarrow> Q () s'"
  shows "wp (complete_recovered_target E (ut_id t)) Q R s"
proof -
  have finish: "wp (complete_update E (ut_id t)) Q R s1"
    if "phase lc t (ut_original t) g (st s1)" "log s1 = l0 @ l @ r" "list_all is_recovery r"
    for s1 g r
  proof (rule wp_complete_update [OF that(1) assms(5)], assumption, goal_cases)
    case (1 s' k)
    then show ?case
      using that assms(3,4) cleanup_recovery [of k]
      by (intro Q [of s' "r @ k"]) (auto simp: recovered_def completed_def)
  qed
  have revert: "wp (rollback_to_original E (ut_id t) code True True) Q R s1"
    if "phase lc t (ut_original t) g (st s1)" "log s1 = l0 @ l @ r" "list_all is_recovery r"
    for s1 g r code
    by (rule wp_recovered_rollback [OF that(1), of l0 "l @ r"])
       (use that assms(3,4) Q in \<open>auto simp: pre_tag_stages_def\<close>)
  show ?thesis
    unfolding complete_recovered_target_def Let_def wp
  proof (rule wp_phase_task [OF assms(1) refl], goal_cases)
    case (1 u)
    have stage: "ut_stage u = ut_stage t" using 1(4) phase_fields(1) [OF assms(1)] by simp
    show ?case
    proof (cases "ut_stage u = CLEANING \<and> ut_cleanup_journal u = None")
      case True
      then show ?thesis
        by simp (rule wp_recovered_manual [OF assms(1,2,3)], rule Q [where r = "[]"], simp_all)
    next
      case False
      show ?thesis
      proof (simp only: False if_False, simp only: stage,
          rule wp_phase_checkpoint [OF assms(1) refl],
          rule wp_phase_task, assumption, rule refl, rule platform_stepD [OF health], goal_cases)
        case (1 s1 u1 x s2)
        note h = \<open>log s2 = _\<close> \<open>log s1 = _\<close> and p1 = \<open>phase lc t _ _ (st s1)\<close>
        have s2: "phase lc t (ut_original t) (ut_stage t) (st s2)"
          "log s2 = l0 @ l @ [CHealth (ut_target t)]"
          using 1 assms(2) by simp_all
        have stage1: "ut_stage u1 = ut_stage t" using 1 phase_fields(1) [OF p1] by simp
        show ?case
        proof (cases "ut_stage t = PERSISTING_VERSION")
          case True
          show ?thesis
          proof (simp only: True if_True refl, rule wp_phase_checkpoint [OF s2(1) refl],
              rule platform_stepD [OF persist], goal_cases)
            case (1 s3 y s4)
            then have s4: "phase lc t (ut_original t) PERSISTING_VERSION (st s4)"
              "log s4 = l0 @ l @ [CHealth (ut_target t), CPersist (im_version (ut_target u1))]"
              using s2(2) stage1 True by simp_all
            show ?case
              by (simp add: wp, rule wp_phase_checkpoint [OF s4(1) refl],
                rule finish [where r = "[CHealth (ut_target t), CPersist (im_version (ut_target u1))]"],
                assumption) (simp_all add: s4(2))
          next
            case (2 s3 k s4)
            then show ?case
              using s2(2) stage1 True by (simp add: wp)
                (rule revert [of PERSISTING_VERSION s4
                  "[CHealth (ut_target t), CPersist (im_version (ut_target u1))]"], simp_all)
          qed
        next
          case False
          then show ?thesis
            by (simp add: wp) (rule finish [OF s2(1,2)], simp)
        qed
      next
        case (2 s1 u1 k s2)
        then show ?case
          using assms(2) by (simp add: wp) (rule revert [of _ s2 "[CHealth (ut_target t)]"], simp_all)
      qed
    qed
  qed
qed

lemma wp_recover_before_tag:
  assumes "phase lc t (ut_original t) (ut_stage t) (st s)" "log s = l0 @ [CInspect]"
    and "ut_stage t \<in> set pre_tag_stages" "u = t"
    and Q: "\<And>s' l. recovered t (st s') l \<Longrightarrow> log s' = l0 @ l \<Longrightarrow> Q () s'"
  shows "wp (recover_before_tag E u b) Q R s"
proof (cases b)
  case False
  then show ?thesis
    unfolding recover_before_tag_def assms(4)
    by simp (rule wp_recovered_manual [OF assms(1,2)], simp, rule Q)
next
  case True
  show ?thesis
    unfolding recover_before_tag_def assms(4) wp
  proof (simp only: True if_False not_True_eq_False, rule wp_phase_checkpoint [OF assms(1) refl],
      rule wp_phase_task, assumption, rule refl, rule platform_stepD [OF health], goal_cases)
    case (1 s1 u1 x s2)
    then have s2: "phase lc t (ut_original t) (ut_stage t) (st s2)"
      "log s2 = l0 @ [CInspect, CHealth (ut_original t)]"
      using assms(2) by simp_all
    show ?case
      by (simp add: wp, rule wp_finish_failed [OF phase_holds [OF s2(1)]],
          rule Q [where l = "[CInspect, CHealth (ut_original t)]"])
        (use s2 assms(3) in \<open>auto simp: recovered_def phase_def holds_def\<close>)
  next
    case (2 s1 u1 k s2)
    then show ?case
      using assms(2) by (simp add: wp)
        (rule wp_recovered_manual [where l = "[CInspect, CHealth (ut_original t)]"], simp, simp, simp, rule Q)
  qed
qed

lemma wp_recover_with:
  assumes "phase lc t (ut_original t) (ut_stage t) (st s)" "log s = l0 @ [CInspect]" "u = t"
    and "\<And>j. ut_cleanup_journal t = Some j \<Longrightarrow> journal_valid j"
    and Q: "\<And>s' l. recovered t (st s') l \<Longrightarrow> log s' = l0 @ l \<Longrightarrow> Q () s'"
  shows "wp (recover_with E u actual) Q R s"
proof -
  have manual: "wp (finish_manual E (ut_id t)) Q R s"
    by (rule wp_recovered_manual [OF assms(1,2)]) (auto intro: Q)
  have complete: "wp (complete_recovered_target E (ut_id t)) Q R s"
    if "ut_stage t \<in> set target_completion_stages"
    by (rule wp_complete_recovered [OF assms(1,2)])
      (use that assms(4) Q in \<open>auto simp: target_completion_stages_def\<close>)
  have before_tag: "wp (recover_before_tag E t b) Q R s" if "ut_stage t \<in> set pre_tag_stages" for b
    by (rule wp_recover_before_tag [OF assms(1,2) that refl]) (auto intro: Q)
  have rollback: "wp (rollback_to_original E (ut_id t) code restore True) Q R s"
    if "ut_stage t \<notin> set pre_tag_stages" for code restore
    by (rule wp_recovered_rollback [OF assms(1,2) _ that]) (auto intro: Q)
  show ?thesis
    unfolding recover_with_def assms(3)
    by (simp add: Let_def manual complete before_tag rollback)
qed

lemma wp_recover:
  assumes "holds (ut_id t) (st s)" "t = cur (st s)"
    and "\<And>j. ut_cleanup_journal t = Some j \<Longrightarrow> journal_valid j"
    and "ut_stage t \<notin> set terminal_stages"
    and Q: "\<And>s' l. recovered t (st s') l \<Longrightarrow> log s' = log s @ l \<Longrightarrow> Q () s'"
  shows "wp (recover E) Q R s"
proof -
  have p: "phase (ps_last_check (st s)) t (ut_original t) (ut_stage t) (st s)"
    using assms(1,2) by (simp add: phase_def)
  have task: "ps_task (st s) = Some t"
    using assms(1,2) by (auto simp: holds_def cur_def)
  show ?thesis
    unfolding recover_def wp
  proof (rule wp_load [THEN iffD2], simp only: task option.case assms(4) if_False wp split: if_split,
      intro conjI impI, goal_cases)
    case 1
    show ?case
      by (rule wp_recovered_manual [OF p, where l = "[]"]; (rule Q)?) simp_all
  next
    case 2
    show ?case
    proof (rule platform_stepD [OF inspect], goal_cases)
      case (1 x s')
      then show ?case
        using p by (simp, rule_tac wp_recover_with [where lc = "ps_last_check (st s)" and t = t,
            OF _ _ refl assms(3)]) (auto intro: Q)
    next
      case (2 k s')
      then show ?case
        using p by (simp, rule_tac wp_recovered_manual [where l = "[CInspect]"]) (auto intro: Q)
    qed
  qed
qed

lemma recover_idle:
  assumes "ps_task (st s) = None \<or> ut_stage (cur (st s)) \<in> set terminal_stages"
  shows "recover E s = (Inr (), s)"
  using assms by (auto simp: recover_def bindM_def load retM_def cur_def split: option.split)

end

end
