(* ===== verification/Updater_Machine.thy ===== *)
theory Updater_Machine
  imports Updater_Operations Updater_Recovery
begin

text \<open>
  The update service as one machine: the platform, the stored state, the clock, and the log of
  the calls on the platform, which only the proofs read. The manager's contract \<open>update_env\<close>
  is interpreted on it.
\<close>

section \<open>What the platform raises\<close>

definition is_safe :: "uexn \<Rightarrow> bool" where
  "is_safe e \<longleftrightarrow> (\<exists>c. e = SafeOperationError c)"

lemma is_safe_error [simp]: "is_safe (safe_error c)" "is_safe (SafeOperationError k)"
  by (simp_all add: is_safe_def safe_error_def)

lemma refuse_platform [simp]: "platform_error (refuse m)"
  by (simp add: refuse_def)

lemma is_safe_cases: "health_error e \<longleftrightarrow> is_safe e \<or> platform_error e"
  by (cases e) (simp_all add: is_safe_def)

text \<open>The readers raise only what the operations convert.\<close>

lemma decode_error: "decode_utf8 b = Inl e \<Longrightarrow> platform_error e" "decode_ascii b = Inl e \<Longrightarrow> platform_error e"
  by (auto simp: decode_utf8_def decode_ascii_def split: option.splits)

lemma load_json_error: "load_json b = Inl e \<Longrightarrow> platform_error e"
  by (auto simp: load_json_def bindE_Inl_iff split: option.splits dest: decode_error)

lemma exact_json_error: "exact_json b ks = Inl e \<Longrightarrow> platform_error e"
proof (cases "load_json b")
  case (Inr j)
  then show "exact_json b ks = Inl e \<Longrightarrow> platform_error e"
    by (cases j) (auto simp: exact_json_def split: if_splits)
qed (auto simp: exact_json_def dest: load_json_error)

lemma as_str_error: "as_str v = Inl e \<Longrightarrow> platform_error e"
  by (cases v) auto

lemma traverse_error:
  "traverse f xs = Inl e \<Longrightarrow> (\<And>x e. f x = Inl e \<Longrightarrow> platform_error e) \<Longrightarrow> platform_error e"
  by (induction xs) (auto simp: bindE_Inl_iff)

lemma as_str_list_error: "as_str_list v = Inl e \<Longrightarrow> platform_error e"
  by (cases v) (auto dest: traverse_error as_str_error)

lemma version_error: "validate_version v = Inl e \<Longrightarrow> platform_error e"
  by (auto simp: validate_version_def split: if_splits)

lemma parse_utc_error: "parse_utc s = Inl e \<Longrightarrow> platform_error e"
  by (auto simp: parse_utc_def split: option.splits if_splits)

lemma repository_digest_error: "repository_digest ds x = Inl e \<Longrightarrow> platform_error e"
  by (auto simp: repository_digest_def Let_def split: option.splits if_splits)

lemma image_of_json_error: "image_of_json x ms = Inl e \<Longrightarrow> platform_error e"
  by (auto simp: image_of_json_def bindE_Inl_iff split: if_splits
      dest: as_str_error as_str_list_error version_error repository_digest_error parse_utc_error)

lemma container_image_error: "container_image i ms = Inl e \<Longrightarrow> platform_error e"
  by (auto simp: container_image_def bindE_Inl_iff split: if_splits dest: as_str_error)

lemma single_container_error: "single_container s = Inl e \<Longrightarrow> platform_error e"
  by (auto simp: single_container_def split: list.splits if_splits)

lemma listed_image_error: "listed_image s = Inl e \<Longrightarrow> platform_error e"
  by (auto simp: listed_image_def split: list.splits if_splits)

lemma manifest_lines_error: "traverse manifest_entry ls = Inl e \<Longrightarrow> platform_error e"
  by (erule traverse_error) (auto simp: manifest_entry_def split: if_splits)

lemma backup_paths_error: "backup_paths vs = Inl e \<Longrightarrow> platform_error e"
  by (auto simp: backup_paths_def split: if_splits option.splits)

lemma manifest_error: "parse_backup_manifest b = Inl e \<Longrightarrow> platform_error e"
  by (auto simp: parse_backup_manifest_def bindE_Inl_iff
      split: if_splits dest: decode_error manifest_lines_error backup_paths_error)

lemma environment_values_error: "environment_values ls vs = Inl e \<Longrightarrow> platform_error e"
  by (induction ls vs rule: environment_values.induct) (auto split: if_splits option.splits)

lemma read_environment_error: "read_environment_at x = Inl e \<Longrightarrow> platform_error e"
  by (auto simp: read_environment_at_def bindE_Inl_iff split: node.splits if_splits
      dest: decode_error environment_values_error)

lemma persist_text_error: "persist_text v t vs = Inl e \<Longrightarrow> platform_error e"
  by (auto simp: persist_text_def Let_def bindE_Inl_iff split: option.splits if_splits dest: version_error)

lemma expect_ok_error: "expect_ok j = Inl e \<Longrightarrow> platform_error e"
  by (auto simp: expect_ok_def split: if_splits)

lemma health_response_error: "check_health_response r = Inl e \<Longrightarrow> platform_error e"
  by (auto simp: check_health_response_def bindE_Inl_iff split: http_result.splits if_splits
      dest: load_json_error expect_ok_error)

lemmas reader_errors = decode_error load_json_error exact_json_error image_of_json_error
  container_image_error single_container_error listed_image_error manifest_error
  persist_text_error health_response_error version_error

section \<open>What the steps raise\<close>

text \<open>The errors that may cross an operation: converted ones and those to convert.\<close>

definition inner_error :: "uexn \<Rightarrow> bool" where
  "inner_error e \<longleftrightarrow> platform_error e \<or> is_safe e"

lemma inner_refuse [simp]: "inner_error (refuse m)" "inner_error (safe_error c)" "inner_error UOSError"
  by (simp_all add: inner_error_def)

lemma raises_reader [raises]:
  "(\<And>e. r = Inl e \<Longrightarrow> platform_error e) \<Longrightarrow> raises_only inner_error (liftM r)"
  by (rule raises_lift) (auto simp: inner_error_def)

lemma raises_run [raises]: "raises_only inner_error (run O1 argv n)" "raises_only command_error (run O1 argv n)"
  by (auto simp: raises_only_def run_def zoom_def inner_error_def split: prod.splits dest!: run_command_error)

lemma raises_operation:
  assumes "raises_only inner_error m"
  shows "raises_only is_safe (exceptM platform_error (safe_error c) m)"
    and "raises_only inner_error (exceptM platform_error (safe_error c) m)"
    and "raises_only is_safe (exceptM health_error (safe_error c) m)"
  using assms by (auto intro!: raises_except elim: raises_mono simp: inner_error_def is_safe_cases)

lemma raises_command:
  "raises_only command_error m \<Longrightarrow> raises_only is_safe (exceptM command_error (safe_error c) m)"
  by (rule raises_except) (auto elim: raises_mono)

lemma raises_inspect_image [raises]: "raises_only inner_error (inspect_image O1 r x)"
  unfolding inspect_image_def
  by (intro raises) (auto simp: bindE_Inl_iff dest: reader_errors)

lemma raises_inspect_web_image [raises]: "raises_only inner_error (inspect_web_image O1)"
  unfolding inspect_web_image_def
  by (intro raises) (auto simp: bindE_Inl_iff dest: reader_errors)

lemma raises_inspect_web: "raises_only is_safe (inspect_web O1)"
  unfolding inspect_web_def by (intro raises_operation raises)

lemma raises_resolve: "raises_only is_safe (resolve_stable O1)"
  unfolding resolve_stable_def pull_def Let_def by (intro raises_operation raises) simp_all

lemma raises_verify: "raises_only is_safe (verify_target O1 t)"
  unfolding verify_target_def pull_def Let_def
  by (intro raises_operation raises_command raises) simp_all

lemma raises_backup: "raises_only is_safe (create_backup O1)"
  unfolding create_backup_def by (intro raises_operation raises) (auto dest: reader_errors)

lemma raises_tag: "raises_only is_safe (tag_rollback O1 t)"
  unfolding tag_rollback_def Let_def by (intro raises_operation raises) simp_all

lemma raises_stop: "raises_only is_safe (stop_web O1)"
  unfolding stop_web_def by (intro raises_command raises)

lemma raises_replace [raises]: "raises_only inner_error (replace_in n t p)"
  by (auto simp: raises_only_def replace_in_def split: prod.splits bool.splits)

lemma raises_override_at [raises]: "raises_only inner_error (write_task_override_at t n p)"
  using raises_replace [of n t p]
  by (auto simp: raises_only_def write_task_override_at_def split: prod.splits bool.splits node.splits)

lemma raises_write_override [raises]: "raises_only inner_error (write_override O1 i n x)"
  unfolding write_override_def by (intro raises) simp_all

lemma raises_target_override [raises]: "raises_only inner_error (write_target_override O1 x i)"
  unfolding write_target_override_def by (intro raises) simp_all

lemma raises_compose_up [raises]: "raises_only inner_error (compose_up O1 p)"
  unfolding compose_up_def by (intro raises)

lemma raises_migrate: "raises_only is_safe (migrate_target O1 x i)"
  unfolding migrate_target_def by (intro raises_operation raises)

lemma raises_start: "raises_only is_safe (start_target O1 x i)"
  unfolding start_target_def by (intro raises_operation raises)

lemma raises_start_rollback: "raises_only is_safe (start_rollback O1 t)"
  unfolding start_rollback_def Let_def by (intro raises_operation raises) simp_all

lemma raises_request [raises]: "raises_only P (request_health O1)"
  by (auto simp: raises_only_def request_health_def zoom_def split: prod.splits)

lemma raises_health: "raises_only is_safe (health_check O1 x)"
  unfolding health_check_def
  by (intro raises_operation raises; (cases x)?)
    (auto intro!: raises raises_mono [OF raises_inspect_web] simp: inner_error_def dest: reader_errors)

lemma raises_read_environment [raises]: "raises_only inner_error read_environment"
  by (auto simp: raises_only_def read_environment_def inner_error_def dest: read_environment_error)

lemma raises_case_prod [raises]: "(\<And>a b. raises_only P (f a b)) \<Longrightarrow> raises_only P (case p of (a, b) \<Rightarrow> f a b)"
  by (cases p) simp

lemma raises_case_option [raises]:
  "raises_only P m \<Longrightarrow> (\<And>x. raises_only P (f x)) \<Longrightarrow> raises_only P (case y of None \<Rightarrow> m | Some x \<Rightarrow> f x)"
  by (cases y) simp_all

lemma raises_persist: "raises_only is_safe (persist_version O1 v)"
  unfolding persist_version_def by (intro raises_operation raises) (auto dest: reader_errors)

lemma raises_reference [raises]: "raises_only inner_error (reference_image_id O1 r)"
  unfolding reference_image_id_def
  by (intro raises) (auto simp: bindE_Inl_iff dest: reader_errors)

lemma raises_no_container [raises]: "raises_only inner_error (require_no_container_references O1 i)"
  unfolding require_no_container_references_def by (intro raises) simp_all

lemma raises_absent [raises]: "raises_only inner_error (require_references_absent O1 rs)"
proof (induction rs)
  case (Cons r rs)
  then show ?case unfolding require_references_absent.simps by (intro raises) simp_all
qed (simp add: raises)

lemma raises_remove [raises]: "raises_only inner_error (remove_cleanup_reference O1 r i ts)"
  unfolding remove_cleanup_reference_def by (intro raises) simp_all

lemma raises_cleanup_image [raises]: "raises_only inner_error (cleanup_image_id O1 t)"
  unfolding cleanup_image_id_def Let_def by (intro raises) simp_all

lemma raises_cleanup_reference [raises]: "raises_only inner_error (cleanup_reference_step O1 t x)"
  unfolding cleanup_reference_step_def Let_def by (intro raises) simp_all

lemma raises_cleanup: "raises_only is_safe (cleanup_original_step O1 t x)"
  unfolding cleanup_original_step_def
  by (intro raises_operation raises_except raises)
    (auto intro: raises raises_mono [of inner_error] simp: inner_error_def)

section \<open>The machine\<close>

text \<open>
  The state of the service. The store keeps the object itself: a load of the file gives back
  the state that was saved (\<open>load_after_save\<close>), so only the size check of \<open>save\<close> remains.
\<close>

record 'w machine =
  mc_platform :: "'w platform"
  mc_state :: persistent_state
  mc_log :: "call list"

type_synonym ('w, 'a) mc = "('w machine, uexn, 'a) eff"

definition on_platform :: "call \<Rightarrow> ('w, 'a) pf \<Rightarrow> ('w, 'a) mc" where
  "on_platform c m =
     (\<lambda>s. case m (mc_platform s) of
        (r, p) \<Rightarrow> (r, s\<lparr>mc_platform := p, mc_log := mc_log s @ [c]\<rparr>))"

definition machine_save :: "persistent_state \<Rightarrow> ('w, unit) mc" where
  "machine_save p =
     (\<lambda>s. if max_state_bytes < length (encode_state p)
          then (Inl (StateStoreError (lit ''state_too_large'')), s) else (Inr (), s\<lparr>mc_state := p\<rparr>))"

definition on_world :: "('w \<Rightarrow> 'a \<times> 'w) \<Rightarrow> ('w, 'a) mc" where
  "on_world f =
     (\<lambda>s. case f (pf_world (mc_platform s)) of
        (x, w) \<Rightarrow> (Inr x, s\<lparr>mc_platform := (mc_platform s)\<lparr>pf_world := w\<rparr>\<rparr>))"

definition machine_sleep :: "'w outside \<Rightarrow> nat \<Rightarrow> ('w, unit) mc" where
  "machine_sleep O1 n =
     thenM (on_world (\<lambda>w. ((), out_sleep O1 n w)))
       (\<lambda>s. (Inr (), s\<lparr>mc_log := mc_log s @ [CSleep n]\<rparr>))"

definition machine_env :: "'w outside \<Rightarrow> 'w machine env" where
  "machine_env O1 = \<lparr>
     env_load = readM mc_state,
     env_save = machine_save,
     env_inspect_web = on_platform CInspect (inspect_web O1),
     env_resolve_stable = on_platform CResolve (resolve_stable O1),
     env_verify_target = (\<lambda>x. on_platform (CVerify x) (verify_target O1 x)),
     env_create_backup = on_platform CBackup (create_backup O1),
     env_tag_rollback = (\<lambda>t. on_platform (CTag t) (tag_rollback O1 t)),
     env_stop_web = on_platform CStop (stop_web O1),
     env_migrate_target = (\<lambda>x i. on_platform (CMigrate x i) (migrate_target O1 x i)),
     env_start_target = (\<lambda>x i. on_platform (CStart x i) (start_target O1 x i)),
     env_start_rollback = (\<lambda>t. on_platform (CRollback t) (start_rollback O1 t)),
     env_health = (\<lambda>x. on_platform (CHealth x) (health_check O1 (Some x))),
     env_persist_version = (\<lambda>v. on_platform (CPersist v) (persist_version O1 v)),
     env_cleanup_step = (\<lambda>t x. on_platform (CCleanup t x) (cleanup_original_step O1 t x)),
     env_now = on_world (out_now O1),
     env_sleep = machine_sleep O1\<rparr>"

lemma on_platform_step:
  fixes m :: "('w, 'a) pf"
  assumes "raises_only is_safe m" "\<And>s x s'. m s = (Inr x, s') \<Longrightarrow> post x"
  shows "platform_step mc_state mc_log c post (on_platform c m)"
  unfolding platform_step_def
proof
  fix s :: "'w machine"
  obtain r p where m: "m (mc_platform s) = (r, p)" by fastforce
  show "wp (on_platform c m) (\<lambda>x s'. mc_state s' = mc_state s \<and> mc_log s' = mc_log s @ [c] \<and> post x)
      (\<lambda>e s'. mc_state s' = mc_state s \<and> mc_log s' = mc_log s @ [c] \<and> (\<exists>k. e = SafeOperationError k)) s"
    using assms m by (cases r) (auto simp: wp_def on_platform_def raises_only_def is_safe_def)
qed

lemma tag_rollback_tagged:
  assumes "tag_rollback O1 t s = (Inr t', s')"
  shows "tagged t t'"
proof -
  have "t' = t\<lparr>ut_original := (ut_original t)\<lparr>im_rollback_alias := rollback_alias (ut_id t)\<rparr>\<rparr>"
    using assms
    by (auto simp: tag_rollback_def Let_def exceptM_def bindM_def thenM_def raiseM_def retM_def
        split: if_splits prod.splits sum.splits)
  moreover have "rollback_alias (ut_id t) \<noteq> []"
    by (simp add: rollback_alias_def alias_prefix_def)
  ultimately show ?thesis unfolding tagged_def by blast
qed

interpretation um: update_env "machine_env O1" mc_state mc_log for O1 :: "'w outside"
proof
  show "env_load (machine_env O1) s = (Inr (mc_state s), s)" for s
    by (simp add: machine_env_def readM_def)
  show "wp (env_save (machine_env O1) p) (\<lambda>_ s'. mc_state s' = p \<and> mc_log s' = mc_log s) (\<lambda>_ _. False) s" for p s
    by (simp add: machine_env_def machine_save_def wp_def)
  show "wp (env_now (machine_env O1)) (\<lambda>_ s'. mc_state s' = mc_state s \<and> mc_log s' = mc_log s)
      (\<lambda>_ _. False) s" for s
    by (simp add: machine_env_def on_world_def wp_def split: prod.split)
  show "wp (env_sleep (machine_env O1) n) (\<lambda>_ s'. mc_state s' = mc_state s \<and> mc_log s' = mc_log s @ [CSleep n])
      (\<lambda>_ _. False) s" for n s
    by (simp add: machine_env_def machine_sleep_def on_world_def wp_def thenM_def bindM_def)
qed (auto simp: machine_env_def dest: tag_rollback_tagged intro!: on_platform_step raises_inspect_web raises_resolve
    raises_backup raises_verify raises_tag raises_stop raises_migrate raises_start raises_start_rollback
    raises_health raises_persist raises_cleanup)

end
