(* ===== verification/Updater_Samples.thy ===== *)
theory Updater_Samples
  imports Updater_Operations Updater_Machine
begin

text \<open>
  A small concrete host on which the witnesses run the update service: one image that is
  running, a newer one in the registry, a backup that succeeds. The state of this world only
  says whether the new image has been started.
\<close>

definition sample_digest :: "nat \<Rightarrow> pystr" where
  "sample_digest c = lit ''sha256:'' @ replicate 64 c"

definition sample_old_version :: pystr where "sample_old_version = lit ''v1.9.0''"
definition sample_new_version :: pystr where "sample_new_version = lit ''v1.10.0''"

definition sample_task_id :: uuid where "sample_task_id = 0x9000800000000000"

definition sample_alias :: pystr where
  "sample_alias = lit ''finance-reconciliation-rollback-web:00000000-0000-0000-9000-800000000000''"

text \<open>The images: the letter of its digest, its version and its other tag.\<close>

definition sample_image :: "nat \<Rightarrow> pystr \<Rightarrow> pystr \<Rightarrow> (pystr \<times> json) list" where
  "sample_image c version other =
     [(lit ''Id'', JStr (sample_digest c)),
       (lit ''RepoTags'', JList [JStr (version_tag_of version), JStr other]),
       (lit ''RepoDigests'', JList [JStr (web_repository @ 64 # sample_digest c)]),
       (lit ''Version'', JStr version), (lit ''Revision'', JStr (lit ''abcdef0'')),
       (lit ''Created'', JStr (lit ''2026-01-02T03:04:05+00:00'')), (lit ''Os'', JStr (lit ''linux'')),
       (lit ''Architecture'', JStr (lit ''amd64''))]"

definition sample_container_id :: pystr where
  "sample_container_id = lit ''0123456789ab''"

definition sample_container :: "bool \<Rightarrow> (pystr \<times> json) list" where
  "sample_container new =
     [(lit ''Id'', JStr sample_container_id),
       (lit ''Image'', JStr (sample_digest (if new then 98 else 97))),
       (lit ''ConfigImage'', JStr (version_tag_of (if new then sample_new_version else sample_old_version))),
       (lit ''Project'', JStr project_name), (lit ''Service'', JStr (lit ''web'')),
       (lit ''OneOff'', JStr (lit ''False''))]"

definition sample_is_new :: "pystr \<Rightarrow> bool" where
  "sample_is_new reference \<longleftrightarrow>
     reference \<in> {stable_tag, version_tag_of sample_new_version, sample_digest 98,
       web_repository @ 64 # sample_digest 98}"

definition sample_output :: "pystr list \<Rightarrow> bool \<Rightarrow> bytes" where
  "sample_output argv new =
     (if argv ! 1 = lit ''image'' \<and> argv ! 2 = lit ''inspect''
      then utf8_encode (json_dumps
             (if sample_is_new (last argv) then JObj (sample_image 98 sample_new_version stable_tag)
              else JObj (sample_image 97 sample_old_version sample_alias)))
      else if argv ! 1 = lit ''container'' \<and> argv ! 2 = lit ''inspect''
      then utf8_encode (json_dumps (JObj (sample_container new)))
      else if lit ''ps'' \<in> set argv then sample_container_id @ [10]
      else if last argv = lit ''/app/scripts/backup.sh''
      then lit ''DB_BACKUP=/data/backups/db-20260102-030405.dump'' @ 10
        # lit ''UPLOADS_BACKUP=/data/backups/uploads-20260102-030405.tar.gz'' @ [10]
      else [])"

definition sample_health :: json where
  "sample_health = JObj [(lit ''status'', JStr (lit ''ok''))]"

definition sample_outside :: "bool outside" where
  "sample_outside = \<lparr>
     out_start = (\<lambda>argv new. (Process [(1, True, sample_output argv new)] (Some 2) (Some (2, 0)),
        if lit ''up'' \<in> set argv then endswith (argv ! 9) (lit ''target-compose.yml'') else new)),
     out_health = (\<lambda>new. (HttpResponse 200 (utf8_encode (json_dumps sample_health)), new)),
     out_now = (\<lambda>new. (1000000, new)), out_sleep = (\<lambda>n new. new), out_tmp = lit ''.tmp''\<rparr>"

definition sample_environment :: pystr where
  "sample_environment = lit ''# settings'' @ 10 # lit ''FINREC_WEB_IMAGE_TAG=v1.9.0'' @ 10
     # lit ''DB_NAME=finrec'' @ [10]"

definition sample_platform :: "bool platform" where
  "sample_platform = \<lparr>pf_world = False,
     pf_config = \<lparr>pd_node = Directory 493,
        pd_files = (\<lambda>_. Absent)(env_name := Regular 384 sample_environment)\<rparr>,
     pf_tasks = (\<lambda>_. \<lparr>pd_node = Absent, pd_files = (\<lambda>_. Absent)\<rparr>)\<rparr>"

definition sample_machine :: "bool machine" where
  "sample_machine = \<lparr>mc_platform = sample_platform, mc_state = empty_state, mc_log = []\<rparr>"

section \<open>What the host answers\<close>

lemma load_dumps: "fine_json j \<Longrightarrow> load_json (utf8_encode (json_dumps j)) = Inr j"
proof -
  assume j: "fine_json j"
  have "scalar c" if "c \<in> set (json_dumps j)" for c
    using dumps_ascii(1) [OF _ that] j by (simp add: fine_json_def scalar_def)
  then have "utf8_decode (utf8_encode (json_dumps j)) = Some (json_dumps j)"
    by (rule utf8_decode_encode)
  then show ?thesis
    using j by (simp add: load_json_def decode_utf8_def json_loads_dumps fine_json_def)
qed

lemma sample_run:
  assumes "valid_command argv" "length (sample_output argv (pf_world s)) \<le> max_output_bytes" "0 < n"
  shows "run sample_outside argv n s = (Inr (sample_output argv (pf_world s)),
     s\<lparr>pf_world := snd (out_start sample_outside argv (pf_world s))\<rparr>)"
  using assms
  by (simp add: run_def zoom_def run_command_def sample_outside_def collect_bounded_output_def reached_def)

definition sample_new_image :: inspected_image where
  "sample_new_image = \<lparr>ii_identity = \<lparr>im_repository = web_repository, im_version = sample_new_version,
      im_digest = sample_digest 98, im_image_id = sample_digest 98,
      im_tags = [version_tag_of sample_new_version], im_rollback_alias = [],
      im_published_at = Some 1767323045000000\<rparr>,
     ii_revision = lit ''abcdef0'', ii_created = lit ''2026-01-02T03:04:05+00:00'',
     ii_os = lit ''linux'', ii_architecture = lit ''amd64'',
     ii_all_tags = [version_tag_of sample_new_version, stable_tag]\<rparr>"

definition sample_old_image :: inspected_image where
  "sample_old_image = \<lparr>ii_identity = \<lparr>im_repository = web_repository, im_version = sample_old_version,
      im_digest = sample_digest 97, im_image_id = sample_digest 97,
      im_tags = [version_tag_of sample_old_version], im_rollback_alias = [],
      im_published_at = Some 1767323045000000\<rparr>,
     ii_revision = lit ''abcdef0'', ii_created = lit ''2026-01-02T03:04:05+00:00'',
     ii_os = lit ''linux'', ii_architecture = lit ''amd64'',
     ii_all_tags = [version_tag_of sample_old_version, sample_alias]\<rparr>"

text \<open>Printable ASCII without quotes and backslashes is written as it is.\<close>

definition printable :: "pystr \<Rightarrow> bool" where
  "printable s \<longleftrightarrow> list_all (\<lambda>c. 32 \<le> c \<and> c < 127 \<and> c \<noteq> 34 \<and> c \<noteq> 92) s"

lemma json_string_printable: "printable s \<Longrightarrow> json_string s = 34 # s @ [34]"
proof -
  have "32 \<le> c \<Longrightarrow> c < 127 \<Longrightarrow> c \<noteq> 34 \<Longrightarrow> c \<noteq> 92 \<Longrightarrow> json_char c = [c]" for c
    by (simp add: json_char_def short_escapes_def)
  then have "printable s \<Longrightarrow> concat (map json_char s) = s"
    by (induction s) (auto simp: printable_def)
  then show "printable s \<Longrightarrow> json_string s = 34 # s @ [34]" by (simp add: json_string_def)
qed

lemma printable_plain: "printable s \<Longrightarrow> plain_text s"
  by (auto simp: printable_def plain_text_def scalar_def list_all_iff)

lemma printable_samples:
  "printable (sample_digest 97)" "printable (sample_digest 98)" "printable stable_tag"
  "printable (version_tag_of sample_old_version)" "printable (version_tag_of sample_new_version)"
  "printable (web_repository @ 64 # sample_digest 97)" "printable (web_repository @ 64 # sample_digest 98)"
  "printable sample_alias" "printable sample_old_version" "printable sample_new_version"
  "printable project_name" "printable sample_container_id" "printable web_repository"
  by code_simp+

lemma length_samples:
  "length (sample_digest c) = 71" "length stable_tag = 52"
  "length (version_tag_of sample_old_version) = 52" "length (version_tag_of sample_new_version) = 53"
  "length web_repository = 45" "length sample_alias = 72"
  "length sample_old_version = 6" "length sample_new_version = 7"
  "length project_name = 22" "length sample_container_id = 12"
  by (simp_all add: sample_digest_def stable_tag_def web_repository_def version_tag_of_def sample_alias_def
      sample_old_version_def sample_new_version_def project_name_def sample_container_id_def)

lemma printable_words:
  "printable (lit ''Id'')" "printable (lit ''RepoTags'')" "printable (lit ''RepoDigests'')"
  "printable (lit ''Version'')" "printable (lit ''Revision'')" "printable (lit ''Created'')"
  "printable (lit ''Os'')" "printable (lit ''Architecture'')" "printable (lit ''abcdef0'')"
  "printable (lit ''linux'')" "printable (lit ''amd64'')" "printable (lit ''2026-01-02T03:04:05+00:00'')"
  "printable (lit ''Image'')" "printable (lit ''ConfigImage'')" "printable (lit ''Project'')"
  "printable (lit ''Service'')" "printable (lit ''OneOff'')" "printable (lit ''web'')"
  "printable (lit ''False'')"
  by code_simp+

lemmas printables = printable_samples printable_words printable_samples [THEN printable_plain]
  printable_words [THEN printable_plain] json_string_printable length_samples

lemma ascii_dumps: "fine_json j \<Longrightarrow> utf8_encode (json_dumps j) = json_dumps j"
  by (rule utf8_encode_ascii) (auto simp: fine_json_def dest: dumps_ascii(1))

lemma sample_images_fine:
  "fine_json (JObj (sample_image 98 sample_new_version stable_tag))"
  "fine_json (JObj (sample_image 97 sample_old_version sample_alias))"
  "fine_json (JObj (sample_container new))"
  by (simp_all add: sample_image_def sample_container_def printables scalar_def)

lemma sample_images_small:
  "length (json_dumps (JObj (sample_image 98 sample_new_version stable_tag))) \<le> max_output_bytes" 
  "length (json_dumps (JObj (sample_image 97 sample_old_version sample_alias))) \<le> max_output_bytes" 
  "length (json_dumps (JObj (sample_container new))) \<le> max_output_bytes" 
  by (simp_all add: sample_image_def sample_container_def printables max_output_bytes_def)

lemma sample_image_values:
  "image_of_json x (sample_image 98 sample_new_version stable_tag) = Inr sample_new_image"
  "image_of_json x (sample_image 97 sample_old_version sample_alias) = Inr sample_old_image"
  by code_simp+

lemma sample_container_value:
  "container_image sample_container_id (sample_container True) = Inr (sample_digest 98)"
  "container_image sample_container_id (sample_container False) = Inr (sample_digest 97)"
  by code_simp+

lemma sample_formats: "0 \<notin> set image_format" "image_format \<noteq> []" "0 \<notin> set container_format" "container_format \<noteq> []"
  "0 \<notin> set sample_container_id" "sample_container_id \<noteq> []"
  by code_simp+

lemma sample_world: "snd (out_start sample_outside argv w) =
    (if lit ''up'' \<in> set argv then endswith (argv ! 9) (lit ''target-compose.yml'') else w)"
  by (simp add: sample_outside_def)

lemma sample_inspect:
  assumes "r \<noteq> []" "0 \<notin> set r" "r \<noteq> lit ''up''"
  shows "inspect_image sample_outside r x s =
     (Inr (if sample_is_new r then sample_new_image else sample_old_image), s)"
proof -
  let ?argv = "[lit ''docker'', lit ''image'', lit ''inspect'', lit ''--format'', image_format, r]"
  let ?ms = "if sample_is_new r then sample_image 98 sample_new_version stable_tag
     else sample_image 97 sample_old_version sample_alias"
  have out: "sample_output ?argv w = utf8_encode (json_dumps (JObj ?ms))" for w
    by (simp add: sample_output_def)
  have j: "fine_json (JObj ?ms)" "length (json_dumps (JObj ?ms)) \<le> max_output_bytes"
    using sample_images_fine sample_images_small by (simp_all del: fine_simps)
  have "valid_command ?argv"
    using assms sample_formats by (simp add: valid_command_def lit_def)
  then have run: "run sample_outside ?argv 30 s = (Inr (utf8_encode (json_dumps (JObj ?ms))), s)"
    using j assms(3)
    by (subst sample_run) (simp_all only: out ascii_dumps sample_world, simp_all add: image_format_def)
  have "exact_json (utf8_encode (json_dumps (JObj ?ms))) [''Id'', ''RepoTags'', ''RepoDigests'', ''Version'',
      ''Revision'', ''Created'', ''Os'', ''Architecture''] = Inr ?ms"
    unfolding exact_json_def load_dumps [OF j(1)] by (simp add: sample_image_def)
  then show ?thesis
    using run sample_image_values by (simp add: inspect_image_def bindM_def liftM_def)
qed

lemma sample_ps:
  "run sample_outside (compose_prefix @ [lit ''ps'', lit ''--all'', lit ''-q'', lit ''web'']) 30 s
     = (Inr (sample_container_id @ [10]), s)"
proof -
  have out: "sample_output (compose_prefix @ [lit ''ps'', lit ''--all'', lit ''-q'', lit ''web'']) w
      = sample_container_id @ [10]" for w
    by (simp add: sample_output_def compose_prefix_def)
  have "valid_command (compose_prefix @ [lit ''ps'', lit ''--all'', lit ''-q'', lit ''web''])" by code_simp
  then show ?thesis
    by (subst sample_run) (simp_all only: out sample_world, simp_all add: length_samples max_output_bytes_def
        compose_prefix_def project_name_def env_file_path_def compose_file_path_def)
qed

lemma sample_inspect_container:
  "\<exists>bs. run sample_outside [lit ''docker'', lit ''container'', lit ''inspect'', lit ''--format'',
     container_format, sample_container_id] 30 s = (Inr bs, s)
   \<and> exact_json bs [''Id'', ''Image'', ''ConfigImage'', ''Project'', ''Service'', ''OneOff'']
     = Inr (sample_container (pf_world s))"
proof -
  let ?argv = "[lit ''docker'', lit ''container'', lit ''inspect'', lit ''--format'',
     container_format, sample_container_id]"
  let ?ms = "sample_container (pf_world s)"
  have out: "sample_output ?argv (pf_world s) = utf8_encode (json_dumps (JObj ?ms))"
    by (simp add: sample_output_def)
  have "valid_command ?argv"
    using sample_formats by (simp add: valid_command_def lit_def)
  then have "run sample_outside ?argv 30 s = (Inr (utf8_encode (json_dumps (JObj ?ms))), s)"
    using sample_images_fine(3) sample_images_small(3)
    by (subst sample_run) (simp_all only: out ascii_dumps sample_world,
        simp_all add: container_format_def sample_container_id_def)
  moreover have "exact_json (utf8_encode (json_dumps (JObj ?ms))) [''Id'', ''Image'', ''ConfigImage'',
      ''Project'', ''Service'', ''OneOff''] = Inr ?ms"
    unfolding exact_json_def load_dumps [OF sample_images_fine(3)] by (simp add: sample_container_def)
  ultimately show ?thesis by blast
qed

lemma sample_single: "bindE (decode_ascii (sample_container_id @ [10])) single_container = Inr sample_container_id"
  by code_simp

lemma sample_digests:
  "0 \<notin> set (sample_digest 97)" "0 \<notin> set (sample_digest 98)" "sample_digest c \<noteq> []"
  "sample_digest c \<noteq> lit ''up''" "sample_is_new (sample_digest 98)" "\<not> sample_is_new (sample_digest 97)"
  by (simp_all add: sample_digest_def lit_def sample_is_new_def stable_tag_def web_repository_def
      version_tag_of_def)

lemma sample_inspect_web_image:
  "inspect_web_image sample_outside s = (Inr (if pf_world s then sample_new_image else sample_old_image), s)"
proof -
  obtain bs where bs: "run sample_outside [lit ''docker'', lit ''container'', lit ''inspect'', lit ''--format'',
      container_format, sample_container_id] 30 s = (Inr bs, s)"
    "exact_json bs [''Id'', ''Image'', ''ConfigImage'', ''Project'', ''Service'', ''OneOff'']
      = Inr (sample_container (pf_world s))"
    using sample_inspect_container by blast
  show ?thesis
    using sample_container_value sample_digests
    by (cases "pf_world s")
      (simp_all add: inspect_web_image_def bindM_def liftM_def sample_ps sample_single bs sample_inspect retM_def,
       simp_all add: sample_new_image_def sample_old_image_def)
qed

lemma sample_pull:
  assumes "r \<noteq> []" "0 \<notin> set r" "r \<noteq> lit ''up''" "r \<noteq> lit ''ps''" "r \<noteq> lit ''/app/scripts/backup.sh''"
  shows "pull sample_outside r s = (Inr [], s)"
proof -
  have "valid_command [lit ''docker'', lit ''pull'', r]"
    using assms by (simp add: valid_command_def lit_def)
  then show ?thesis
    unfolding pull_def using assms
    by (subst sample_run) (simp_all add: sample_output_def sample_world)
qed

lemma sample_references:
  "stable_tag \<noteq> []" "0 \<notin> set stable_tag" "stable_tag \<noteq> lit ''up''" "stable_tag \<noteq> lit ''ps''"
  "stable_tag \<noteq> lit ''/app/scripts/backup.sh''"
  "version_tag_of v \<noteq> []" "0 \<notin> set v \<Longrightarrow> 0 \<notin> set (version_tag_of v)" "version_tag_of v \<noteq> lit ''up''"
  "version_tag_of v \<noteq> lit ''ps''" "version_tag_of v \<noteq> lit ''/app/scripts/backup.sh''"
  "0 \<notin> set sample_new_version" "sample_is_new stable_tag" "sample_is_new (version_tag_of sample_new_version)"
  by (simp_all add: stable_tag_def version_tag_of_def web_repository_def lit_def sample_new_version_def
      sample_is_new_def)

lemma sample_resolve: "resolve_stable sample_outside s = (Inr (ii_identity sample_new_image), s)"
proof -
  have image: "im_version (ii_identity sample_new_image) = sample_new_version"
    "ii_all_tags sample_new_image = [version_tag_of sample_new_version, stable_tag]"
    by (simp_all add: sample_new_image_def)
  show ?thesis
    by (simp add: resolve_stable_def Let_def exceptM_def thenM_def bindM_def sample_pull sample_inspect
        sample_references raise_whenM_def image retM_def same_locked_image_def same_image_core_def)
qed

lemma sample_verify: "verify_target sample_outside (ii_identity sample_new_image) s = (Inr (), s)"
proof -
  let ?r = "web_repository @ 64 # sample_digest 98"
  have r: "?r \<noteq> []" "0 \<notin> set ?r" "?r \<noteq> lit ''up''" "?r \<noteq> lit ''ps''" "?r \<noteq> lit ''/app/scripts/backup.sh''"
    "sample_is_new ?r"
    by (simp_all add: web_repository_def lit_def sample_digest_def sample_is_new_def)
  have d: "im_digest (ii_identity sample_new_image) = sample_digest 98"
    by (simp add: sample_new_image_def)
  have "is_recorded_target (ii_identity sample_new_image)" by code_simp
  moreover have "(ii_os sample_new_image, ii_architecture sample_new_image)
      = (ii_os sample_old_image, ii_architecture sample_old_image)"
    by (simp add: sample_new_image_def sample_old_image_def)
  moreover note sample_pull [OF r(1-5), of s] sample_inspect [OF r(1-3), of None s]
  ultimately show ?thesis
    by (simp add: verify_target_def Let_def exceptM_def thenM_def bindM_def d r
        sample_inspect_web_image raise_whenM_def same_identity_def)
qed

section \<open>What the service stores\<close>

definition sample_check :: check_result where
  "sample_check = \<lparr>ck_current = ii_identity sample_old_image, ck_target = ii_identity sample_new_image,
     ck_available = True, ck_checked_at = 1000000\<rparr>"

definition sample_task :: update_task where
  "sample_task = new_task sample_task_id (ii_identity sample_old_image) (ii_identity sample_new_image) 1000000"

definition sample_checked :: persistent_state where
  "sample_checked = \<lparr>ps_last_check = Some sample_check, ps_task = None\<rparr>"

definition sample_started :: persistent_state where
  "sample_started = \<lparr>ps_last_check = Some sample_check, ps_task = Some sample_task\<rparr>"

text \<open>A succeeded update whose image was removed, before and after its cleanup is marked.\<close>

definition sample_cleaned :: "cleanup_status \<Rightarrow> persistent_state" where
  "sample_cleaned c = \<lparr>ps_last_check = Some sample_check,
     ps_task = Some (sample_task\<lparr>ut_stage := SUCCEEDED, ut_cleanup := c, ut_finished_at := Some 1000000,
       ut_cleanup_journal := Some \<lparr>jr_version_tag = COMPLETED, jr_rollback_alias = COMPLETED,
         jr_image_id = COMPLETED\<rparr>\<rparr>)\<rparr>"

lemma printable_lit: "printable (lit s) \<longleftrightarrow> list_all (\<lambda>c. 32 \<le> c \<and> c < (127::nat) \<and> c \<noteq> 34 \<and> c \<noteq> 92) (map of_char s)"
  by (simp add: printable_def lit_def)

lemma json_string_empty: "json_string [] = [34, 34]"
  by (simp add: json_string_def)

lemma sample_images_printable:
  "im_repository (ii_identity sample_old_image) = web_repository" "im_version (ii_identity sample_old_image) = sample_old_version"
  "im_digest (ii_identity sample_old_image) = sample_digest 97" "im_image_id (ii_identity sample_old_image) = sample_digest 97"
  "im_tags (ii_identity sample_old_image) = [version_tag_of sample_old_version]" "im_rollback_alias (ii_identity sample_old_image) = []"
  "im_published_at (ii_identity sample_old_image) = Some 1767323045000000"
  "im_repository (ii_identity sample_new_image) = web_repository" "im_version (ii_identity sample_new_image) = sample_new_version"
  "im_digest (ii_identity sample_new_image) = sample_digest 98" "im_image_id (ii_identity sample_new_image) = sample_digest 98"
  "im_tags (ii_identity sample_new_image) = [version_tag_of sample_new_version]" "im_rollback_alias (ii_identity sample_new_image) = []"
  "im_published_at (ii_identity sample_new_image) = Some 1767323045000000"
  by (simp_all add: sample_old_image_def sample_new_image_def)

lemma sample_times:
  "datetime_to_dict (Some 1767323045000000) = JStr (lit ''2026-01-02T03:04:05+00:00'')"
  "datetime_to_dict (Some 1000000) = JStr (lit ''1970-01-01T00:00:01+00:00'')"
  "datetime_to_dict None = JNull"
  by code_simp+

lemma sample_uuid: "uuid_str sample_task_id = lit ''00000000-0000-0000-9000-800000000000''"
  by (simp add: uuid_str_def uuid_digits_def sample_task_id_def upt_rec hex_digit_def lit_def)

lemma sample_versions: "version_ok sample_old_version" "version_ok sample_new_version"
  "version_key sample_old_version = Inr (1, 9, 0)" "version_key sample_new_version = Inr (1, 10, 0)"
  by code_simp+

lemma sample_instants: "valid_instant 1000000" "valid_instant 1767323045000000"
  by code_simp+

lemma sample_valid: "valid_state sample_checked" "valid_state sample_started" "valid_state (sample_cleaned c)"
  using sample_versions sample_instants
  by (simp_all add: sample_checked_def sample_started_def sample_cleaned_def sample_check_def sample_task_def new_task_def
      valid_state_def valid_check_def valid_task_def valid_image_def valid_time_def sample_images_printable
      printables new_journal_def journal_valid_def)

lemma sample_small:
  "length (encode_state sample_checked) \<le> max_state_bytes" "length (encode_state sample_started) \<le> max_state_bytes"
  "length (encode_state (sample_cleaned COMPLETE)) \<le> max_state_bytes"
  unfolding encode_state_def sample_valid [THEN fine_state, THEN ascii_dumps]
  by (simp_all add: sample_checked_def sample_started_def sample_cleaned_def sample_check_def sample_task_def new_task_def
      state_to_dict_def check_to_dict_def task_to_dict_def image_to_dict_def sample_images_printable
      sample_times sample_uuid journal_to_dict_def new_journal_def printables printable_lit json_string_empty max_state_bytes_def)

section \<open>Runs\<close>

definition sample_at :: "persistent_state \<Rightarrow> bool machine" where
  "sample_at p = sample_machine\<lparr>mc_state := p\<rparr>"

lemma sample_inspect_web: "inspect_web sample_outside s
    = (Inr (ii_identity (if pf_world s then sample_new_image else sample_old_image)), s)"
  by (simp add: inspect_web_def exceptM_def bindM_def sample_inspect_web_image retM_def)

lemma sample_env:
  "env_load (machine_env sample_outside) s = (Inr (mc_state s), s)"
  "env_save (machine_env sample_outside) p s = machine_save p s"
  "env_inspect_web (machine_env sample_outside) s
     = (Inr (ii_identity (if pf_world (mc_platform s) then sample_new_image else sample_old_image)),
        s\<lparr>mc_log := mc_log s @ [CInspect]\<rparr>)"
  "env_resolve_stable (machine_env sample_outside) s
     = (Inr (ii_identity sample_new_image), s\<lparr>mc_log := mc_log s @ [CResolve]\<rparr>)"
  "env_now (machine_env sample_outside) s = (Inr 1000000, s)"
  by (simp_all add: machine_env_def readM_def on_platform_def sample_inspect_web sample_resolve on_world_def,
      simp add: sample_outside_def)

lemma sample_save:
  "machine_save sample_checked s = (Inr (), s\<lparr>mc_state := sample_checked\<rparr>)"
  "machine_save sample_started s = (Inr (), s\<lparr>mc_state := sample_started\<rparr>)"
  using sample_small by (simp_all add: machine_save_def)

lemma sample_checks:
  "\<exists>v s'. check (machine_env sample_outside) (sample_at empty_state) = (Inr v, s')"
proof -
  have p: "\<lparr>ps_last_check = Some \<lparr>ck_current = ii_identity sample_old_image,
      ck_target = ii_identity sample_new_image, ck_available = True, ck_checked_at = 1000000\<rparr>,
      ps_task = None\<rparr> = sample_checked"
    by (simp add: sample_checked_def sample_check_def)
  obtain v where v: "status_from_state sample_checked s = (Inr v, s)" for s :: "bool machine"
    using sample_versions
    by (auto simp add: status_from_state_def sample_checked_def sample_check_def liftM_def make_status_view_def
        sample_images_printable validate_version_def)
  have "pf_world sample_platform = False" by (simp add: sample_platform_def)
  then show ?thesis
    by (simp add: v check_def sample_at_def sample_machine_def empty_state_def bindM_def thenM_def
        sample_env reject_active_task_def retM_def require_matching_repositories_def liftM_def
        sample_versions sample_images_printable p sample_save)
qed

lemma sample_starts:
  "\<exists>v s'. start (machine_env sample_outside) sample_new_version (Some sample_task_id) 0
     (sample_at sample_checked) = (Inr (v, Some sample_task_id), s')"
proof -
  have p: "\<lparr>ps_last_check = Some sample_check, ps_task = Some (new_task sample_task_id
      (ii_identity sample_old_image) (ii_identity sample_new_image) 1000000)\<rparr> = sample_started"
    by (simp add: sample_started_def sample_task_def)
  have c: "ck_target sample_check = ii_identity sample_new_image" "ck_available sample_check"
    "ck_current sample_check = ii_identity sample_old_image" "ck_checked_at sample_check = 1000000"
    by (simp_all add: sample_check_def)
  have view: "\<exists>v. public_view (new_task sample_task_id (ii_identity sample_old_image)
      (ii_identity sample_new_image) 1000000) = Inr v"
    using sample_versions
    by (simp add: public_view_def new_task_def sample_images_printable validate_version_def)
  have l: "ps_last_check sample_checked = Some sample_check" "ps_task sample_checked = None"
    by (simp_all add: sample_checked_def)
  show ?thesis
    using view
    by (auto simp: start_def start_new_def sample_at_def sample_machine_def bindM_def thenM_def l c
        sample_env reject_active_task_def retM_def require_fresh_check_def
        require_matching_repositories_def liftM_def Let_def
        sample_versions sample_images_printable check_max_age_def p sample_save)
qed

lemma sample_finishes:
  "\<exists>p s'. complete_pending_cleanup (machine_env sample_outside) (sample_at (sample_cleaned PENDING)) = (Inr p, s')"
proof -
  have marked: "\<lparr>ps_last_check = Some sample_check, ps_task = Some (sample_task\<lparr>ut_stage := SUCCEEDED,
      ut_finished_at := Some 1000000, ut_cleanup_journal :=
      Some \<lparr>jr_version_tag = COMPLETED, jr_rollback_alias = COMPLETED, jr_image_id = COMPLETED\<rparr>,
      ut_cleanup := COMPLETE\<rparr>)\<rparr>
      = sample_cleaned COMPLETE"
    by (simp add: sample_cleaned_def)
  have saved: "machine_save (sample_cleaned COMPLETE) s = (Inr (), s\<lparr>mc_state := sample_cleaned COMPLETE\<rparr>)"
    for s :: "bool machine"
    using sample_small(3) by (simp add: machine_save_def)
  have pending: "ps_task (sample_cleaned PENDING) = Some (sample_task\<lparr>ut_stage := SUCCEEDED,
      ut_cleanup := PENDING, ut_finished_at := Some 1000000, ut_cleanup_journal :=
      Some \<lparr>jr_version_tag = COMPLETED, jr_rollback_alias = COMPLETED, jr_image_id = COMPLETED\<rparr>\<rparr>)"
    "ps_last_check (sample_cleaned PENDING) = Some sample_check"
    by (simp_all add: sample_cleaned_def)
  show ?thesis
    by (simp add: complete_pending_cleanup_def cleanup_original_def cleanup_steps_def sample_at_def
        sample_machine_def bindM_def thenM_def liftM_def sample_env retM_def task_of_def
        journal_complete_def save_task_def pending marked saved)
qed

lemma sample_healthy: "\<exists>s'. health_check sample_outside (Some (ii_identity sample_old_image)) sample_platform = (Inr (), s')"
proof -
  have small: "length (utf8_encode (json_dumps sample_health)) = 15"
    by (subst ascii_dumps) (simp_all add: sample_health_def json_string_printable printable_lit)
  have "load_json (utf8_encode (json_dumps sample_health)) = Inr sample_health"
    by (rule load_dumps) (simp add: sample_health_def)
  then have "check_health_response (HttpResponse 200 (utf8_encode (json_dumps sample_health))) = Inr ()"
    by (simp add: check_health_response_def small max_health_bytes_def,
        simp add: expect_ok_def sample_health_def)
  moreover have "request_health sample_outside sample_platform
      = (Inr (HttpResponse 200 (utf8_encode (json_dumps sample_health))), sample_platform)"
    by (simp add: request_health_def zoom_def sample_outside_def)
  ultimately show ?thesis
    by (simp add: health_check_def exceptM_def bindM_def thenM_def liftM_def sample_inspect_web
        raise_whenM_def same_identity_def, simp add: sample_platform_def)
qed

end
