(* ===== verification/Updater_Properties.thy ===== *)
theory Updater_Properties
  imports Updater_Samples Updater_Codec
begin

text \<open>
  What the update service guarantees: how an update and a recovery end, what a check and a
  start do, what is shown to the outside, and that the stored state survives.
\<close>

section \<open>Runs of the machine\<close>

lemma machine_env_sel [simp]:
  "env_load (machine_env O1) = readM mc_state" "env_save (machine_env O1) = machine_save"
  by (simp_all add: machine_env_def)

text \<open>The conclusion of a weakest precondition for a run that returns or stops at the store.\<close>

lemma wp_unit_run:
  assumes "wp m Q (\<lambda>_ _. False) s" "m s = (r, s')"
  shows "(\<exists>k. r = Inl (StateStoreError k)) \<or> r = Inr () \<and> Q () s'"
proof (cases r)
  case (Inl e)
  with wp_result [OF assms] show ?thesis by (cases e) simp_all
qed (use wp_result [OF assms] in simp)

text \<open>
  C17. An update that is run for a task in its first stage always comes to an end: it succeeds
  with the target image running, or it fails before the web service was stopped and leaves
  the original image and the last check alone, or it falls back to the original image; the
  log lists the calls of each case in their order. Only an error of the store ends it early.
\<close>

theorem update_ends:
  assumes "ps_task (mc_state s) = Some t" "ut_stage t = CHECKING"
    and "\<forall>j. ut_cleanup_journal t = Some j \<longrightarrow> journal_valid j"
    and "execute (machine_env O1) (ut_id t) s = (r, s')"
  shows "(\<exists>k. r = Inl (StateStoreError k)) \<or> r = Inr () \<and> (\<exists>l. mc_log s' = mc_log s @ l \<and>
     (succeeded t (mc_state s') l \<or> failed_early (ps_last_check (mc_state s)) t (mc_state s') l
      \<or> fell_back (ps_last_check (mc_state s)) t (mc_state s') l))"
proof (rule wp_unit_run [OF um.wp_execute assms(4)])
  show "phase (ps_last_check (mc_state s)) t (ut_original t) CHECKING (mc_state s)"
    using assms(1,2) by (simp add: phase_def holds_def cur_def)
qed (use assms(3) in auto)

theorem update_ends_witness:
  "\<exists>r s'. execute (machine_env sample_outside) sample_task_id (sample_at sample_started) = (r, s')
     \<and> ((\<exists>k. r = Inl (StateStoreError k)) \<or> r = Inr () \<and> (\<exists>l. mc_log s' = l \<and>
       (succeeded sample_task (mc_state s') l \<or> failed_early (Some sample_check) sample_task (mc_state s') l
        \<or> fell_back (Some sample_check) sample_task (mc_state s') l)))"
proof -
  obtain r s' where run: "execute (machine_env sample_outside) (ut_id sample_task) (sample_at sample_started) = (r, s')"
    by fastforce
  have task: "ps_task (mc_state (sample_at sample_started)) = Some sample_task" "ut_stage sample_task = CHECKING"
    "\<forall>j. ut_cleanup_journal sample_task = Some j \<longrightarrow> journal_valid j" "ut_id sample_task = sample_task_id"
    "mc_log (sample_at sample_started) = []" "ps_last_check (mc_state (sample_at sample_started)) = Some sample_check"
    by (simp_all add: sample_at_def sample_machine_def sample_started_def sample_task_def new_task_def
        new_journal_def journal_valid_def)
  show ?thesis
    using update_ends [OF task(1-3) run] run by (auto simp: task(4-6))
qed

text \<open>
  C18. After a restart \<open>recover\<close> finishes whatever the interrupted update left: the update is
  completed when the target was already running in one of its last stages, rolled back,
  failed with the original image found healthy, or left for manual intervention.
\<close>

theorem recover_ends:
  assumes "ps_task (mc_state s) = Some t" "ut_stage t \<notin> {SUCCEEDED, FAILED, MANUAL_INTERVENTION}"
    and "\<forall>j. ut_cleanup_journal t = Some j \<longrightarrow> journal_valid j"
    and "recover (machine_env O1) s = (r, s')"
  shows "(\<exists>k. r = Inl (StateStoreError k)) \<or>
     r = Inr () \<and> (\<exists>l. mc_log s' = mc_log s @ l \<and> recovered t (mc_state s') l)"
proof (rule wp_unit_run [OF um.wp_recover assms(4)])
  show "holds (ut_id t) (mc_state s)" "t = cur (mc_state s)"
    using assms(1) by (simp_all add: holds_def cur_def)
qed (use assms(2,3) in \<open>auto simp: terminal_stages_def\<close>)

theorem recover_ends_witness:
  "\<exists>r s'. recover (machine_env sample_outside) (sample_at sample_started) = (r, s')
     \<and> ((\<exists>k. r = Inl (StateStoreError k)) \<or>
          r = Inr () \<and> (\<exists>l. mc_log s' = l \<and> recovered sample_task (mc_state s') l))"
proof -
  obtain r s' where run: "recover (machine_env sample_outside) (sample_at sample_started) = (r, s')"
    by fastforce
  have task: "ps_task (mc_state (sample_at sample_started)) = Some sample_task"
    "ut_stage sample_task \<notin> {SUCCEEDED, FAILED, MANUAL_INTERVENTION}"
    "\<forall>j. ut_cleanup_journal sample_task = Some j \<longrightarrow> journal_valid j"
    "mc_log (sample_at sample_started) = []"
    by (simp_all add: sample_at_def sample_machine_def sample_started_def sample_task_def new_task_def
        new_journal_def journal_valid_def)
  show ?thesis
    using recover_ends [OF task(1-3) run] run by (auto simp: task(4))
qed

section \<open>Checking and starting\<close>

lemma conflict_Inr: "conflict c s = (Inr y, s') \<longleftrightarrow> False"
  by (simp add: conflict_def raise_Inr)

lemma save_Inr:
  "machine_save p s = (Inr y, s') \<longleftrightarrow>
     length (encode_state p) \<le> max_state_bytes \<and> s' = s\<lparr>mc_state := p\<rparr>"
  by (auto simp: machine_save_def)

lemmas run_Inr = bindM_Inr thenM_Inr ret_Inr lift_Inr read_Inr raise_Inr conflict_Inr raise_when_Inr save_Inr

lemma platform_Inr:
  "env_inspect_web (machine_env O1) s = (Inr x, s') \<Longrightarrow> mc_state s' = mc_state s \<and> mc_log s' = mc_log s @ [CInspect]"
  "env_resolve_stable (machine_env O1) s = (Inr x, s') \<Longrightarrow> mc_state s' = mc_state s \<and> mc_log s' = mc_log s @ [CResolve]"
  "env_now (machine_env O1) s = (Inr n, s') \<Longrightarrow> mc_state s' = mc_state s \<and> mc_log s' = mc_log s"
  by (auto simp: machine_env_def on_platform_def on_world_def split: prod.splits)

lemma require_fresh_Inr:
  "require_fresh_check (machine_env O1) lc v s = (Inr c, s') \<Longrightarrow>
     lc = Some c \<and> im_version (ck_target c) = v \<and> ck_available c
     \<and> mc_state s' = mc_state s \<and> mc_log s' = mc_log s"
  by (auto simp: require_fresh_check_def require_matching_repositories_def run_Inr
      split: option.splits if_splits dest: platform_Inr)

lemma start_new_Inr:
  assumes "start_new (machine_env O1) p v i s = (Inr (view, job), s')"
  shows "\<exists>c n. ps_last_check p = Some c \<and> im_version (ck_target c) = v \<and> ck_available c
     \<and> (\<forall>t. ps_task p = Some t \<longrightarrow> ut_stage t = FAILED \<or> ut_stage t = SUCCEEDED \<and> ut_cleanup t = COMPLETE)
     \<and> mc_state s' = \<lparr>ps_last_check = Some c, ps_task = Some (new_task i (ck_current c) (ck_target c) n)\<rparr>
     \<and> public_view (new_task i (ck_current c) (ck_target c) n) = Inr view
     \<and> job = Some i \<and> mc_log s' = mc_log s @ [CResolve]"
  using assms
  by (auto simp: start_new_def reject_active_task_def Let_def run_Inr
      split: option.splits if_splits dest!: platform_Inr require_fresh_Inr)

lemma start_cases:
  assumes "start (machine_env O1) v (Some i) fresh s = (Inr (view, job), s')"
  shows "(\<exists>t. ps_task (mc_state s) = Some t \<and> ut_id t = i \<and> im_version (ut_target t) = v
       \<and> public_view t = Inr view \<and> s' = s \<and> job = (if ut_stage t = CHECKING then Some i else None))
     \<or> (\<exists>c n. ps_last_check (mc_state s) = Some c \<and> im_version (ck_target c) = v \<and> ck_available c
       \<and> (\<forall>t. ps_task (mc_state s) = Some t \<longrightarrow> ut_id t \<noteq> i
            \<and> (ut_stage t = FAILED \<or> ut_stage t = SUCCEEDED \<and> ut_cleanup t = COMPLETE))
       \<and> mc_state s' = \<lparr>ps_last_check = Some c,
            ps_task = Some (new_task i (ck_current c) (ck_target c) n)\<rparr>
       \<and> public_view (new_task i (ck_current c) (ck_target c) n) = Inr view
       \<and> job = Some i \<and> mc_log s' = mc_log s @ [CResolve])"
proof (cases "ps_task (mc_state s)")
  case None
  then have "start_new (machine_env O1) (mc_state s) v i s = (Inr (view, job), s')"
    using assms by (simp add: start_def run_Inr)
  from start_new_Inr [OF this] None show ?thesis by auto
next
  case (Some t)
  show ?thesis
  proof (cases "ut_id t = i")
    case True
    then show ?thesis
      using assms Some by (auto simp: start_def run_Inr split: if_splits)
  next
    case False
    then have "start_new (machine_env O1) (mc_state s) v i s = (Inr (view, job), s')"
      using assms Some by (simp add: start_def run_Inr)
    from start_new_Inr [OF this] Some False show ?thesis by auto
  qed
qed

text \<open>
  A start with a task identifier either repeats the answer for the stored task of that
  identifier and version, changing nothing, or stores a new task in its first stage: then the
  last check offered exactly that version as an update and no earlier task is unfinished.
\<close>

theorem start_outcome:
  assumes "start (machine_env O1) v (Some i) fresh s = (Inr (view, job), s')"
  shows "(\<exists>t. ps_task (mc_state s) = Some t \<and> ut_id t = i \<and> im_version (ut_target t) = v
       \<and> public_view t = Inr view \<and> s' = s \<and> job = (if ut_stage t = CHECKING then Some i else None))
     \<or> (\<exists>c n. ps_last_check (mc_state s) = Some c \<and> im_version (ck_target c) = v \<and> ck_available c
       \<and> (\<forall>t. ps_task (mc_state s) = Some t \<longrightarrow> ut_id t \<noteq> i
            \<and> (ut_stage t = FAILED \<or> ut_stage t = SUCCEEDED \<and> ut_cleanup t = COMPLETE))
       \<and> mc_state s' = \<lparr>ps_last_check = Some c,
            ps_task = Some (new_task i (ck_current c) (ck_target c) n)\<rparr>
       \<and> public_view (new_task i (ck_current c) (ck_target c) n) = Inr view
       \<and> job = Some i \<and> mc_log s' = mc_log s @ [CResolve])"
  by (rule start_cases [OF assms])

theorem start_outcome_example:
  "\<exists>v s' c n. start (machine_env sample_outside) sample_new_version (Some sample_task_id) 0
       (sample_at sample_checked) = (Inr (v, Some sample_task_id), s')
     \<and> ps_last_check (mc_state (sample_at sample_checked)) = Some c
     \<and> mc_state s' = \<lparr>ps_last_check = Some c,
          ps_task = Some (new_task sample_task_id (ck_current c) (ck_target c) n)\<rparr>"
proof -
  obtain v s' where run: "start (machine_env sample_outside) sample_new_version (Some sample_task_id) 0
      (sample_at sample_checked) = (Inr (v, Some sample_task_id), s')"
    using sample_starts by blast
  have "ps_task (mc_state (sample_at sample_checked)) = None"
    by (simp add: sample_at_def sample_checked_def)
  then show ?thesis using start_outcome [OF run] run by auto
qed

text \<open>
  A start that is sent again, because its answer was lost, changes nothing more and gives
  the same answer, as long as the update has not begun.
\<close>

lemma start_again:
  assumes "start (machine_env O1) v (Some i) fresh s = (Inr (view, Some i), s')"
  shows "start (machine_env O1) v (Some i) fresh' s' = (Inr (view, Some i), s')"
proof -
  consider t where "ps_task (mc_state s) = Some t" "ut_id t = i" "im_version (ut_target t) = v"
      "public_view t = Inr view" "s' = s" "ut_stage t = CHECKING"
    | c n where "mc_state s' = \<lparr>ps_last_check = Some c,
          ps_task = Some (new_task i (ck_current c) (ck_target c) n)\<rparr>" "im_version (ck_target c) = v"
        "public_view (new_task i (ck_current c) (ck_target c) n) = Inr view"
    using start_cases [OF assms] by (auto split: if_splits)
  then show ?thesis
    by cases (simp_all add: start_def bindM_def readM_def liftM_def retM_def new_task_def)
qed

lemma start_again_example:
  "\<exists>v s'. start (machine_env sample_outside) sample_new_version (Some sample_task_id) 5 s'
     = (Inr (v, Some sample_task_id), s') \<and> ps_task (mc_state s') \<noteq> None"
proof -
  obtain v s' where run: "start (machine_env sample_outside) sample_new_version (Some sample_task_id) 0
      (sample_at sample_checked) = (Inr (v, Some sample_task_id), s')"
    using sample_starts by blast
  have "ps_task (mc_state s') \<noteq> None"
    using run by (auto simp: start_def run_Inr sample_at_def sample_checked_def dest!: start_new_Inr)
  then show ?thesis using start_again [OF run, of 5] by blast
qed

text \<open>
  A check inspects the running image and the newest one, stores both, and offers an update
  exactly when the version of the newest is greater; it touches no task and is refused while
  a task is unfinished.
\<close>

lemma check_reports:
  assumes "check (machine_env O1) s = (Inr v, s')"
  shows "\<exists>current target a b n. version_key (im_version current) = Inr a
     \<and> version_key (im_version target) = Inr b
     \<and> mc_state s' = \<lparr>ps_last_check = Some \<lparr>ck_current = current, ck_target = target,
          ck_available = (a < b), ck_checked_at = n\<rparr>, ps_task = ps_task (mc_state s)\<rparr>
     \<and> sv_update_available v = (a < b) \<and> sv_current_version v = im_version current
     \<and> sv_latest_version v = Some (im_version target) \<and> mc_log s' = mc_log s @ [CInspect, CResolve]
     \<and> (\<forall>t. ps_task (mc_state s) = Some t \<longrightarrow>
          ut_stage t = FAILED \<or> ut_stage t = SUCCEEDED \<and> ut_cleanup t = COMPLETE)"
proof -
  obtain current target kc kt n t1 t2 t3 p where
    active: "reject_active_task (mc_state s) s = (Inr (), s)"
    and c: "env_inspect_web (machine_env O1) s = (Inr current, t1)"
    and t: "env_resolve_stable (machine_env O1) t1 = (Inr target, t2)"
    and k: "version_key (im_version target) = Inr kt" "version_key (im_version current) = Inr kc"
    and n: "env_now (machine_env O1) t2 = (Inr n, t3)"
    and p: "p = \<lparr>ps_last_check = Some \<lparr>ck_current = current, ck_target = target,
        ck_available = (kc < kt), ck_checked_at = n\<rparr>, ps_task = ps_task (mc_state s)\<rparr>"
    and v: "status_from_state p (t3\<lparr>mc_state := p\<rparr>) = (Inr v, s')"
    using assms
    by (auto simp: check_def Let_def run_Inr reject_active_task_def require_matching_repositories_def
        split: option.splits if_splits)
  have s': "s' = t3\<lparr>mc_state := p\<rparr>"
    and view: "sv_update_available v = (kc < kt)" "sv_current_version v = im_version current"
      "sv_latest_version v = Some (im_version target)"
    using v by (auto simp: p status_from_state_def run_Inr bindE_Inr_iff make_status_view_def)
  have "\<forall>t. ps_task (mc_state s) = Some t \<longrightarrow>
      ut_stage t = FAILED \<or> ut_stage t = SUCCEEDED \<and> ut_cleanup t = COMPLETE"
    using active by (auto simp: reject_active_task_def run_Inr split: if_splits)
  then show ?thesis
    using k view platform_Inr(1) [OF c] platform_Inr(2) [OF t] platform_Inr(3) [OF n]
    by (intro exI [of _ current] exI [of _ target] exI [of _ kc] exI [of _ kt] exI [of _ n])
      (simp add: s' p)
qed

theorem check_reports_example:
  "\<exists>v s' (current :: image_identity) (target :: image_identity).
     check (machine_env sample_outside) (sample_at empty_state) = (Inr v, s')
     \<and> sv_current_version v = im_version current \<and> sv_latest_version v = Some (im_version target)
     \<and> mc_log s' = [CInspect, CResolve]"
proof -
  obtain v s' where run: "check (machine_env sample_outside) (sample_at empty_state) = (Inr v, s')"
    using sample_checks by blast
  have "mc_log (sample_at empty_state) = []" by (simp add: sample_at_def sample_machine_def)
  then show ?thesis using check_reports [OF run] run by auto
qed

section \<open>Finishing a pending cleanup\<close>

lemma cleanup_original_run:
  assumes "holds i (mc_state s)" "\<And>j. ut_cleanup_journal (cur (mc_state s)) = Some j \<Longrightarrow> journal_valid j"
    and "cleanup_original (machine_env O1) i s = (Inr b, s')"
  shows "cleaned (mc_state s) b (mc_state s')" "\<exists>l. mc_log s' = mc_log s @ l \<and> list_all is_cleanup l"
  using wp_result [OF um.wp_cleanup_original [OF assms(1,2), where Q = "\<lambda>b s'. cleaned (mc_state s) b (mc_state s')
      \<and> (\<exists>l. mc_log s' = mc_log s @ l \<and> list_all is_cleanup l)" and R = "\<lambda>_ _. True"] assms(3)]
  by auto

text \<open>
  Finishing a pending cleanup by hand succeeds only for a succeeded update whose cleanup is
  pending, asks the platform for nothing but cleanup steps, and leaves the same task with
  every step of its journal done and the cleanup complete.
\<close>

theorem pending_cleanup_completes:
  assumes "complete_pending_cleanup (machine_env O1) s = (Inr p, s')"
    and "\<forall>t j. ps_task (mc_state s) = Some t \<longrightarrow> ut_cleanup_journal t = Some j \<longrightarrow> journal_valid j"
  shows "\<exists>t j l. ps_task (mc_state s) = Some t \<and> ut_stage t = SUCCEEDED \<and> ut_cleanup t = PENDING
     \<and> p = mc_state s'
     \<and> p = \<lparr>ps_last_check = ps_last_check (mc_state s),
            ps_task = Some (t\<lparr>ut_cleanup := COMPLETE, ut_cleanup_journal := Some j\<rparr>)\<rparr>
     \<and> journal_complete j \<and> mc_log s' = mc_log s @ l \<and> list_all is_cleanup l"
proof -
  obtain t t1 s1 j where t: "ps_task (mc_state s) = Some t" "ut_stage t = SUCCEEDED" "ut_cleanup t = PENDING"
    and run: "cleanup_original (machine_env O1) (ut_id t) s = (Inr True, s1)"
    and t1: "task_of (machine_env O1) (ut_id t) s1 = (Inr t1, s1)"
      "ut_cleanup_journal t1 = Some j" "journal_complete j"
    and save: "thenM (save_task (machine_env O1) (t1\<lparr>ut_cleanup := COMPLETE\<rparr>)) (env_load (machine_env O1)) s1
      = (Inr p, s')"
    using assms(1)
    by (auto simp: complete_pending_cleanup_def task_of_def run_Inr split: option.splits if_splits)
  have h: "holds (ut_id t) (mc_state s)" "cur (mc_state s) = t"
    using t(1) by (simp_all add: holds_def cur_def)
  obtain l where l: "mc_log s1 = mc_log s @ l" "list_all is_cleanup l"
    and c: "cleaned (mc_state s) True (mc_state s1)"
    using cleanup_original_run [OF h(1) _ run] assms(2) t(1) h(2) by metis
  have "ps_task (mc_state s1) = Some t1"
    using t1(1) by (auto simp: task_of_def run_Inr split: option.splits if_splits)
  then have s1: "ps_last_check (mc_state s1) = ps_last_check (mc_state s)"
    "t1\<lparr>ut_cleanup := COMPLETE\<rparr> = t\<lparr>ut_cleanup := COMPLETE, ut_cleanup_journal := Some j\<rparr>"
    using c t1(2) by (auto simp: cleaned_def h(2))
  have "s' = s1\<lparr>mc_state := p\<rparr>" "p = \<lparr>ps_last_check = ps_last_check (mc_state s1),
      ps_task = Some (t1\<lparr>ut_cleanup := COMPLETE\<rparr>)\<rparr>"
    using save by (auto simp: save_task_def run_Inr)
  then show ?thesis
    using t l t1(3) s1 by (intro exI [of _ t] exI [of _ j] exI [of _ l]) simp
qed

theorem pending_cleanup_completes_example:
  "\<exists>p s' t. complete_pending_cleanup (machine_env sample_outside) (sample_at (sample_cleaned PENDING)) = (Inr p, s')
     \<and> ps_task p = Some t \<and> ut_cleanup t = COMPLETE"
proof -
  obtain p s' where run: "complete_pending_cleanup (machine_env sample_outside)
      (sample_at (sample_cleaned PENDING)) = (Inr p, s')"
    using sample_finishes by blast
  have "\<forall>t j. ps_task (mc_state (sample_at (sample_cleaned PENDING))) = Some t \<longrightarrow>
      ut_cleanup_journal t = Some j \<longrightarrow> journal_valid j"
    by (simp add: sample_at_def sample_cleaned_def journal_valid_def)
  from pending_cleanup_completes [OF run this] run show ?thesis by auto
qed

section \<open>What is shown\<close>

text \<open>
  The view of a task shows only an error code of the fixed table with its own message,
  whatever the task has recorded; an unknown code is shown as a failed update.
\<close>

lemma view_shows_known_errors:
  assumes "public_view t = Inr v"
  shows "(tv_error_code v, tv_error_message v) \<in> set public_error_messages
     \<and> tv_error_code v = (if ut_error_code t \<in> fst ` set public_error_messages then ut_error_code t
                          else lit ''update_failed'')"
proof -
  have v: "tv_error_code v = fst (public_error (ut_error_code t))"
    "tv_error_message v = snd (public_error (ut_error_code t))"
    using assms by (auto simp: public_view_def bindE_Inr_iff)
  show ?thesis
  proof (cases "map_of public_error_messages (ut_error_code t)")
    case None
    then have "ut_error_code t \<notin> fst ` set public_error_messages" by (simp add: map_of_eq_None_iff)
    moreover have "(lit ''update_failed'', the (map_of public_error_messages (lit ''update_failed'')))
        \<in> set public_error_messages"
      by (simp add: public_error_messages_def)
    ultimately show ?thesis using None by (simp add: v public_error_def)
  next
    case (Some m)
    then have "(ut_error_code t, m) \<in> set public_error_messages" by (rule map_of_SomeD)
    then show ?thesis using Some by (auto simp: v public_error_def image_iff)
  qed
qed

lemma view_shows_known_errors_example:
  "\<exists>v. public_view (sample_task\<lparr>ut_error_code := lit ''/etc/passwd''\<rparr>) = Inr v
     \<and> tv_error_code v = lit ''update_failed''"
proof -
  have "\<exists>v. public_view (sample_task\<lparr>ut_error_code := lit ''/etc/passwd''\<rparr>) = Inr v"
    using sample_versions
    by (simp add: public_view_def sample_task_def new_task_def sample_images_printable validate_version_def)
  then obtain v where v: "public_view (sample_task\<lparr>ut_error_code := lit ''/etc/passwd''\<rparr>) = Inr v" by blast
  have "lit ''/etc/passwd'' \<notin> fst ` set public_error_messages"
    by (simp add: public_error_messages_def)
  then show ?thesis using view_shows_known_errors [OF v] v by auto
qed


end
