(* ===== verification/Platform_Properties.thy ===== *)
theory Platform_Properties
  imports Updater_Samples Updater_Codec
begin

text \<open>
  What the store, the command runner and the platform operations guarantee on their own: the
  stored state survives a save and an interruption of one, commands are bounded, and the
  operations accept only what they are meant to accept.
\<close>

section \<open>The state file\<close>

text \<open>
  C20. Saving a state that fits into the file and loading it again gives the same state, for
  every state the program can build, and leaves a private directory in which the next save
  works again.
\<close>

theorem load_after_save:
  assumes "usable name tmp d" "valid_state p" "length (encode_state p) \<le> max_state_bytes"
  shows "\<exists>d'. save_state name tmp p d = (Inr (), d') \<and> load_state name d' = Inr p
     \<and> usable name tmp d'"
proof -
  let ?d = "set_node tmp Absent (set_node name (Regular 384 (encode_state p))
      (set_node tmp (Regular 384 (encode_state p)) d))"
  have run: "run_steps (replace_steps name tmp (encode_state p)) d = (?d, True)"
    using assms(1) by (cases "pd_files d name")
      (simp_all add: replace_steps_def usable_def set_node_def)
  have "load_state name ?d = Inr p" "usable name tmp ?d"
    using assms by (simp_all add: load_state_def usable_def set_node_def decode_encode)
  then show ?thesis
    using assms(3) run by (auto simp: save_state_def atomic_private_replace_def)
qed

definition sample_directory :: private_dir where
  "sample_directory = \<lparr>pd_node = Directory 448, pd_files = (\<lambda>_. Absent)\<rparr>"

lemma sample_usable: "usable (lit ''update-state.json'') (lit ''.tmp'') sample_directory"
  by (simp add: usable_def sample_directory_def)

theorem load_after_save_witness:
  "\<exists>d'. save_state (lit ''update-state.json'') (lit ''.tmp'') sample_started sample_directory = (Inr (), d')
     \<and> load_state (lit ''update-state.json'') d' = Inr sample_started"
  using load_after_save [OF sample_usable sample_valid(2) sample_small(2)] by blast



section \<open>Commands\<close>

text \<open>
  C22. A command that returns was started with non-empty arguments, exited with code 0 before
  its deadline, and gave at most 64 KiB of output, which is returned whole and in order.
\<close>

theorem command_bounds:
  assumes "run_command launch argv timeout w = (Inr out, w')"
  shows "(\<forall>v\<in>set argv. v \<noteq> []) \<and> length out \<le> 65536
     \<and> (\<exists>chunks t t'. launch argv w = (Process chunks (Some t) (Some (t', 0)), w')
          \<and> t < 1000 * timeout \<and> t' < 1000 * timeout
          \<and> out = concat (map (\<lambda>(t, is_out, c). if is_out then c else []) chunks))"
  using run_command_result [OF assms] by (simp add: valid_command_def max_output_bytes_def)

theorem command_bounds_witness:
  "\<exists>out. run_command (\<lambda>argv (w :: nat). (Process [(1, True, [79]), (2, False, [33]), (3, True, [75])]
       (Some 4) (Some (5, 0)), Suc w)) [lit ''docker'', lit ''version''] 30 0 = (Inr out, 1)
     \<and> out = [79, 75] \<and> length out \<le> 65536"
proof -
  have run: "run_command (\<lambda>argv (w :: nat). (Process [(1, True, [79]), (2, False, [33]), (3, True, [75])]
       (Some 4) (Some (5, 0)), Suc w)) [lit ''docker'', lit ''version''] 30 0 = (Inr [79, 75], 1)"
    by (simp add: run_command_def valid_command_def lit_def collect_bounded_output_def reached_def
        max_output_bytes_def)
  then show ?thesis using command_bounds [OF run] by simp
qed

section \<open>Images\<close>

lemmas runs = zoom_Inr exceptM_Inr bindM_Inr thenM_Inr raise_when_Inr lift_Inr ret_Inr

lemma repository_digest_ok: "repository_digest ds x = Inr d \<Longrightarrow> digest_ok d"
  by (auto simp: repository_digest_def Let_def split: option.splits if_splits)

lemma image_of_json_ok:
  assumes "image_of_json x ms = Inr i"
  shows "version_ok (im_version (ii_identity i))" "im_repository (ii_identity i) = web_repository"
    "digest_ok (im_digest (ii_identity i))" "digest_ok (im_image_id (ii_identity i))"
    "im_rollback_alias (ii_identity i) = []"
    "im_tags (ii_identity i) = (if version_tag_of (im_version (ii_identity i)) \<in> set (ii_all_tags i)
       then [version_tag_of (im_version (ii_identity i))] else [])"
  using assms
  by (auto simp: image_of_json_def bindE_Inr_iff validate_version_def repository_digest_ok split: if_splits)

lemma inspect_image_ok:
  assumes "inspect_image O1 r x s = (Inr i, s')"
  shows "version_ok (im_version (ii_identity i))" "im_repository (ii_identity i) = web_repository"
    "digest_ok (im_digest (ii_identity i))" "digest_ok (im_image_id (ii_identity i))"
    "im_rollback_alias (ii_identity i) = []"
    "im_tags (ii_identity i) = (if version_tag_of (im_version (ii_identity i)) \<in> set (ii_all_tags i)
       then [version_tag_of (im_version (ii_identity i))] else [])"
proof -
  obtain y ms where "image_of_json y ms = Inr i"
    using assms by (auto simp: inspect_image_def runs bindE_Inr_iff)
  from image_of_json_ok [OF this]
  show "version_ok (im_version (ii_identity i))" "im_repository (ii_identity i) = web_repository"
    "digest_ok (im_digest (ii_identity i))" "digest_ok (im_image_id (ii_identity i))"
    "im_rollback_alias (ii_identity i) = []"
    "im_tags (ii_identity i) = (if version_tag_of (im_version (ii_identity i)) \<in> set (ii_all_tags i)
       then [version_tag_of (im_version (ii_identity i))] else [])"
    by simp_all
qed

text \<open>
  C23. The image that a check resolves carries its immutable version tag and everything that
  \<open>verify_target\<close> later demands of a recorded target: a check never records a target that an
  update refuses for its form.
\<close>

theorem resolved_is_recorded_target:
  assumes "resolve_stable O1 s = (Inr x, s')"
  shows "is_recorded_target x"
proof -
  obtain stable img s1 s2 s3 where i:
    "inspect_image O1 (version_tag_of (im_version (ii_identity stable))) None s2 = (Inr img, s3)"
    "version_tag_of (im_version (ii_identity stable)) \<in> set (ii_all_tags img)"
    "same_locked_image stable img" "x = ii_identity img"
    using assms by (auto simp: resolve_stable_def Let_def runs)
  have "im_version (ii_identity img) = im_version (ii_identity stable)"
    using i(3) by (simp add: same_locked_image_def same_image_core_def)
  then show ?thesis
    using inspect_image_ok [OF i(1)] i(2) by (simp add: i(4) is_recorded_target_def)
qed

theorem resolved_is_recorded_target_witness:
  "\<exists>x. resolve_stable sample_outside sample_platform = (Inr x, sample_platform) \<and> is_recorded_target x"
  using resolved_is_recorded_target [OF sample_resolve] sample_resolve by blast

text \<open>
  C24. A target passes \<open>verify_target\<close> only when the image pulled by its digest is the recorded
  one in every field and is built for the platform of the running image.
\<close>

theorem verified_target:
  assumes "verify_target O1 target s = (Inr (), s')"
  shows "is_recorded_target target \<and> (\<exists>img current s1 s2 s3.
     inspect_image O1 (web_repository @ 64 # im_digest target) None s1 = (Inr img, s2)
     \<and> inspect_web_image O1 s2 = (Inr current, s3) \<and> ii_identity img = target
     \<and> ii_os img = ii_os current \<and> ii_architecture img = ii_architecture current)"
proof -
  obtain img current s1 s2 s3 where r: "is_recorded_target target"
    "inspect_image O1 (web_repository @ 64 # im_digest target) None s1 = (Inr img, s2)"
    "inspect_web_image O1 s2 = (Inr current, s3)" "same_identity (ii_identity img) target"
    "ii_os img = ii_os current" "ii_architecture img = ii_architecture current"
    using assms by (auto simp: verify_target_def Let_def runs raiseM_def split: if_splits)
  have "ii_identity img = target"
    using r(1,4) inspect_image_ok(5) [OF r(2)]
    by (cases "ii_identity img"; cases target) (simp add: same_identity_def is_recorded_target_def)
  with r show ?thesis by blast
qed

theorem verified_target_witness:
  "\<exists>img s1 s2. inspect_image sample_outside (web_repository @ 64 # sample_digest 98) None s1 = (Inr img, s2)
     \<and> ii_identity img = ii_identity sample_new_image"
  using verified_target [OF sample_verify [of sample_platform]] by (auto simp: sample_images_printable)

section \<open>Health\<close>

text \<open>
  A health check with an expected image passes exactly when the endpoint answers 200 with
  at most 64 KiB that are the document \<open>{"status": "ok"}\<close> and the inspected web container runs
  that image.
\<close>

lemma health_check_iff:
  "(\<exists>s'. health_check O1 (Some e) s = (Inr (), s')) \<longleftrightarrow>
     (\<exists>content s1 actual s2. request_health O1 s = (Inr (HttpResponse 200 content), s1)
        \<and> length content \<le> 65536
        \<and> load_json content = Inr (JObj [(lit ''status'', JStr (lit ''ok''))])
        \<and> inspect_web O1 s1 = (Inr actual, s2) \<and> same_identity actual e)"
proof -
  have cut: "max_health_bytes < length (take (max_health_bytes + 1) content)
      \<longleftrightarrow> \<not> length content \<le> max_health_bytes" for content :: bytes
    by (simp add: min_def max_health_bytes_def) linarith
  have ok: "expect_ok j = Inr () \<longleftrightarrow> j = JObj [(lit ''status'', JStr (lit ''ok''))]" for j
    by (simp add: expect_ok_def)
  have resp: "check_health_response r = Inr () \<longleftrightarrow> (\<exists>content. r = HttpResponse 200 content
      \<and> length content \<le> max_health_bytes
      \<and> load_json content = Inr (JObj [(lit ''status'', JStr (lit ''ok''))]))" for r
    by (cases r) (simp_all only: check_health_response_def http_result.simps cut bindE_Inr_iff ok
        split: if_split, auto)
  show ?thesis
    by (auto simp: health_check_def runs resp max_health_bytes_def)
qed

section \<open>The backup manifest\<close>

lemma ascii_decode_utf8: "(\<And>c. c \<in> set s \<Longrightarrow> c < 128) \<Longrightarrow> decode_utf8 s = Inr s"
proof -
  assume a: "\<And>c. c \<in> set s \<Longrightarrow> c < 128"
  then have "utf8_encode s = s"
    by (induction s) (auto simp: utf8_encode_def utf8_char_def)
  moreover have "utf8_decode (utf8_encode s) = Some s"
    by (rule utf8_decode_encode) (use a in \<open>fastforce simp: scalar_def\<close>)
  ultimately show ?thesis by (simp add: decode_utf8_def)
qed

lemma stamp_chars: "stamp_ok s \<Longrightarrow> c \<in> set s \<Longrightarrow> 45 \<le> c \<and> c \<le> 57"
proof -
  assume s: "stamp_ok s" and c: "c \<in> set s"
  then have "s = take 8 s @ s ! 8 # drop (Suc 8) s"
    by (intro id_take_nth_drop) (simp add: stamp_ok_def)
  then have "set s = set (take 8 s) \<union> {s ! 8} \<union> set (drop 9 s)"
    by (metis (no_types) Suc_numeral insert_is_Un list.simps(15) semiring_norm(5) set_append sup_assoc)
  then have "c = 45 \<or> 48 \<le> c \<and> c \<le> 57"
    using s c by (auto simp: stamp_ok_def is_digit_def list_all_iff)
  then show ?thesis by linarith
qed

lemma stamp_between_ok: "stamp_ok a \<Longrightarrow> stamp_between x y (lit x @ a @ lit y) = Some a"
  by (simp add: stamp_between_def Let_def stamp_ok_def)

text \<open>
  The manifest is read as the two backup paths exactly when they carry the same time
  stamp: the two assignments in either order, one per line.
\<close>

lemma manifest_pair:
  assumes "stamp_ok a" "stamp_ok b"
    and "db = lit ''/data/backups/db-'' @ a @ lit ''.dump''"
    and "up = lit ''/data/backups/uploads-'' @ b @ lit ''.tar.gz''"
  shows "parse_backup_manifest (lit ''DB_BACKUP='' @ db @ [10] @ lit ''UPLOADS_BACKUP='' @ up @ [10])
      = (if a = b then Inr (db, up) else Inl (refuse ''invalid_backup_paths''))"
proof -
  let ?l1 = "lit ''DB_BACKUP='' @ db" and ?l2 = "lit ''UPLOADS_BACKUP='' @ up"
  have chars: "c < 128 \<and> \<not> line_break c" if "c \<in> set ?l1 \<or> c \<in> set ?l2" for c
    using that stamp_chars [OF assms(1)] stamp_chars [OF assms(2)]
    by (fastforce simp: assms(3,4) lit_def line_break_def)
  have split: "splitlines (?l1 @ [10] @ ?l2 @ [10]) = [?l1, ?l2]"
  proof -
    have "line_pairs [] (?l1 @ 10 # r) = (?l1, [10]) # line_pairs [] r"
      "line_pairs [] (?l2 @ 10 # r) = (?l2, [10]) # line_pairs [] r" for r
      using chars by (subst line_pairs_line_append, blast, simp add: line_break_def)+
    then show ?thesis by (simp add: splitlines_def)
  qed
  have decode: "decode_utf8 (?l1 @ [10] @ ?l2 @ [10]) = Inr (?l1 @ [10] @ ?l2 @ [10])"
    by (rule ascii_decode_utf8) (use chars in auto)
  have entry: "manifest_entry ?l1 = Inr (lit ''DB_BACKUP'', db)"
    "manifest_entry ?l2 = Inr (lit ''UPLOADS_BACKUP'', up)"
    by (simp_all add: manifest_entry_def lit_def)
  have stamps: "backup_stamp db = Some a" "uploads_stamp up = Some b"
    unfolding backup_stamp_def uploads_stamp_def assms(3,4)
    by (rule stamp_between_ok [OF assms(1)] stamp_between_ok [OF assms(2)])+
  show ?thesis
    using decode split entry stamps
    by (simp add: parse_backup_manifest_def backup_paths_def)
qed

lemma manifest_pair_example:
  "parse_backup_manifest (lit ''DB_BACKUP=/data/backups/db-20260102-030405.dump'' @ [10]
     @ lit ''UPLOADS_BACKUP=/data/backups/uploads-20260102-030406.tar.gz'' @ [10])
   = Inl (refuse ''invalid_backup_paths'')"
proof -
  have stamps: "stamp_ok (lit ''20260102-030405'')" "stamp_ok (lit ''20260102-030406'')"
    by (simp_all add: stamp_ok_def lit_def is_digit_def)
  show ?thesis
    using manifest_pair [OF stamps refl refl] by (simp add: lit_def)
qed

section \<open>The environment file\<close>

text \<open>What \<open>persist_version\<close> does to one line, without its separator.\<close>

definition new_line :: "pystr \<Rightarrow> pystr \<Rightarrow> pystr" where
  "new_line version line =
     (case environment_line line of
        Some (k, v) \<Rightarrow> if k = web_tag_key then web_tag_key @ 61 # version else line
      | None \<Rightarrow> line)"

definition new_values :: "pystr \<Rightarrow> (pystr \<times> pystr) list \<Rightarrow> (pystr \<times> pystr) list" where
  "new_values version vs = map (\<lambda>(k, x). (k, if k = web_tag_key then version else x)) vs"

lemma endswith_snoc [simp]: "endswith (s @ [c]) [d] \<longleftrightarrow> c = d" "endswith [] [d] \<longleftrightarrow> False"
  by (simp_all add: endswith_def)

lemma endswith_single: "endswith s [d] \<longleftrightarrow> s \<noteq> [] \<and> last s = d"
  by (cases s rule: rev_cases) simp_all

lemma persist_line_pair:
  assumes "\<And>c. c \<in> set line \<Longrightarrow> \<not> line_break c" "brk \<in> {[], [10], [13], [13, 10]}"
  shows "fst (persist_line version (line @ brk)) = new_line version line @ brk"
proof -
  have e: "\<not> endswith line [10]" "\<not> endswith line [13]"
  proof -
    have "10 \<notin> set line" "13 \<notin> set line"
      using assms(1) [of 10] assms(1) [of 13] by (auto simp: line_break_def)
    then show "\<not> endswith line [10]" "\<not> endswith line [13]"
      using last_in_set [of line] by (metis endswith_single)+
  qed
  have e2: "\<not> endswith (line @ [13]) [10]" "endswith (line @ [13, 10]) [10]" "endswith (line @ [13]) [13]"
    using endswith_snoc(1) [of "line @ [13]" 10 10] by simp_all
  consider "brk = []" | "brk = [10]" | "brk = [13]" | "brk = [13, 10]" using assms(2) by blast
  then show ?thesis
    by cases (simp_all add: persist_line_def Let_def new_line_def e e2 split: option.split)
qed

lemma version_chars: "version_ok v \<Longrightarrow> c \<in> set v \<Longrightarrow> c < 128 \<and> \<not> line_break c"
  by (drule (1) version_text) (auto simp: line_break_def)

lemma web_tag_line:
  assumes "version_ok v"
  shows "environment_line (web_tag_key @ 61 # v) = Some (web_tag_key, v)"
    and "c \<in> set (web_tag_key @ 61 # v) \<Longrightarrow> \<not> line_break c"
proof -
  have key: "c \<in> set web_tag_key \<Longrightarrow> name_char c \<and> \<not> line_break c" for c
    by (auto simp: web_tag_key_def lit_def name_char_def name_start_def line_break_def)
  have stop: "\<not> name_char 61" by (simp add: name_char_def name_start_def is_digit_def)
  have "takeWhile name_char (web_tag_key @ 61 # v) = web_tag_key"
    using key stop by (subst takeWhile_append2) auto
  moreover have "10 \<notin> set v" using version_chars [OF assms, of 10] by (auto simp: line_break_def)
  moreover have "web_tag_key \<noteq> []" "name_start (hd web_tag_key)"
    by (simp_all add: web_tag_key_def lit_def name_start_def)
  ultimately show "environment_line (web_tag_key @ 61 # v) = Some (web_tag_key, v)"
    by (simp add: environment_line_def Let_def)
  show "c \<in> set (web_tag_key @ 61 # v) \<Longrightarrow> \<not> line_break c"
    using key version_chars [OF assms] by (auto simp: line_break_def)
qed

lemma comment_line: "line = [] \<or> hd line = 35 \<Longrightarrow> new_line version line = line"
proof -
  have "\<not> name_char 35" by (simp add: name_char_def name_start_def is_digit_def)
  then show "line = [] \<or> hd line = 35 \<Longrightarrow> new_line version line = line"
    by (cases line) (auto simp: new_line_def environment_line_def Let_def)
qed

lemma new_line_plain:
  assumes "environment_line line = Some (k, x)" "version_ok v"
  shows "new_line v line \<noteq> []" "hd (new_line v line) \<noteq> 35"
    "environment_line (new_line v line) = Some (k, if k = web_tag_key then v else x)"
proof -
  have "line \<noteq> []" using assms(1) by (auto simp: environment_line_def Let_def)
  moreover have "hd line \<noteq> 35"
    using assms(1) comment_line [of line] by (cases line)
      (auto simp: environment_line_def Let_def name_char_def name_start_def is_digit_def split: if_splits)
  moreover have "hd (web_tag_key @ 61 # v) \<noteq> 35" by (simp add: web_tag_key_def lit_def)
  ultimately show "new_line v line \<noteq> []" "hd (new_line v line) \<noteq> 35"
    "environment_line (new_line v line) = Some (k, if k = web_tag_key then v else x)"
    using assms web_tag_line(1) [OF assms(2)] by (simp_all add: new_line_def)
qed

lemma environment_values_new:
  assumes "version_ok v"
  shows "environment_values lines vs = Inr ws \<Longrightarrow>
    environment_values (map (new_line v) lines) (new_values v vs) = Inr (new_values v ws)"
proof (induction lines vs rule: environment_values.induct)
  case (2 line lines vs)
  show ?case
  proof (cases "line = [] \<or> hd line = 35")
    case True
    then show ?thesis
      using 2 comment_line [OF True, of v] by simp
  next
    case False
    then obtain k x where k: "environment_line line = Some (k, x)" "k \<notin> fst ` set vs"
      "environment_values lines (vs @ [(k, x)]) = Inr ws"
      using 2(3) by (auto split: option.splits if_splits)
    have "fst ` set (new_values v vs) = fst ` set vs"
      by (force simp: new_values_def)
    moreover have "environment_values (map (new_line v) lines) (new_values v (vs @ [(k, x)]))
        = Inr (new_values v ws)"
      using 2(2) [OF False k(1) refl k(2,3)] .
    ultimately show ?thesis
      using new_line_plain [OF k(1) assms] k(2) by (simp add: new_values_def)
  qed
qed (simp add: new_values_def)

text \<open>The text after the version was written, as the pairs of its lines.\<close>

lemma persist_text_pairs:
  assumes "persist_text v text vs = Inr new" "\<forall>c\<in>set text. line_break c \<longrightarrow> c \<in> {10, 13}"
  shows "version_ok v \<Longrightarrow> line_pairs [] new = map (\<lambda>(l, b). (new_line v l, b)) (line_pairs [] text)"
proof -
  assume v: "version_ok v"
  let ?ps = "line_pairs [] text"
  have seps: "b \<in> {[], [10], [13], [13, 10]}" "\<And>c. c \<in> set l \<Longrightarrow> \<not> line_break c"
    if lb: "(l, b) \<in> set ?ps" for l b
  proof -
    have "set b \<subseteq> set text"
    proof -
      have "set b \<subseteq> set (concat (map (\<lambda>(line, brk). line @ brk) ?ps))" using lb by force
      then show ?thesis by (simp only: concat_line_pairs) simp
    qed
    with line_pairs_end [OF lb] assms(2) show "b \<in> {[], [10], [13], [13, 10]}"
      by (auto simp: line_end_def)
    show "\<And>c. c \<in> set l \<Longrightarrow> \<not> line_break c" using line_pairs_line [OF lb] by simp
  qed
  have "new = concat (map (\<lambda>line. fst (persist_line v line)) (splitlines_keepends text))"
    using assms(1)
    by (auto simp: persist_text_def Let_def bindE_Inr_iff comp_def split: option.splits if_splits)
  also have "\<dots> = join_pairs (map (\<lambda>(l, b). (new_line v l, b)) ?ps)"
  proof -
    have "map (\<lambda>line. fst (persist_line v line)) (map (\<lambda>(l, b). l @ b) ?ps)
        = map (\<lambda>(l, b). l @ b) (map (\<lambda>(l, b). (new_line v l, b)) ?ps)"
      using persist_line_pair [OF seps(2,1)] by auto
    then show ?thesis by (simp only: join_pairs_def splitlines_keepends_def)
  qed
  finally have new: "new = join_pairs (map (\<lambda>(l, b). (new_line v l, b)) ?ps)" .
  have empty: "new_line v l = [] \<longleftrightarrow> l = []" for l
    by (auto simp: new_line_def environment_line_def Let_def split: option.splits if_splits)
  have ended: "well_ended (map (\<lambda>(l, b). (new_line v l, b)) qs) = well_ended qs" for qs
  proof (induction qs)
    case (Cons q qs)
    have "line_feed_next (map (\<lambda>(l, b). (new_line v l, b)) qs) = line_feed_next qs"
      by (cases qs) (auto simp: line_feed_next_def empty)
    with Cons show ?case by (cases q) (simp add: empty)
  qed simp
  have nl: "\<not> line_break c" if "c \<in> set (new_line v l)" "\<And>c. c \<in> set l \<Longrightarrow> \<not> line_break c" for c l
    using that web_tag_line(2) [OF v, of c]
    by (auto simp: new_line_def split: option.splits if_splits)
  show ?thesis
    unfolding new
    by (rule line_pairs_join)
      (use ended line_pairs_well_ended seps(2) nl in \<open>auto dest: line_pairs_end\<close>)
qed


lemma sample_persists:
  "\<exists>s'. persist_version sample_outside sample_new_version sample_platform = (Inr (), s')"
  "read_environment_at (pd_files (pf_config sample_platform) env_name)
     = Inr (sample_environment, [(web_tag_key, sample_old_version), (lit ''DB_NAME'', lit ''finrec'')])"
  "\<forall>c\<in>set sample_environment. line_break c \<longrightarrow> c \<in> {10, 13}"
proof -
  have pairs: "line_pairs [] sample_environment =
      [(lit ''# settings'', [10]), (lit ''FINREC_WEB_IMAGE_TAG=v1.9.0'', [10]), (lit ''DB_NAME=finrec'', [10])]"
    by (simp add: sample_environment_def lit_def line_break_def)
  have entries: "environment_line (lit ''# settings'') = None"
    "environment_line (lit ''FINREC_WEB_IMAGE_TAG=v1.9.0'') = Some (web_tag_key, sample_old_version)"
    "environment_line (lit ''DB_NAME=finrec'') = Some (lit ''DB_NAME'', lit ''finrec'')"
    by (simp_all add: environment_line_def lit_def Let_def name_char_def name_start_def is_digit_def
        web_tag_key_def sample_old_version_def)
  have chars: "c \<in> set sample_environment \<Longrightarrow> c < 128 \<and> (line_break c \<longrightarrow> c \<in> {10, 13})" for c
    by (auto simp: sample_environment_def lit_def line_break_def)
  show "\<forall>c\<in>set sample_environment. line_break c \<longrightarrow> c \<in> {10, 13}" using chars by blast
  have assignments: "environment_values (splitlines sample_environment) []
      = Inr [(web_tag_key, sample_old_version), (lit ''DB_NAME'', lit ''finrec'')]"
    by (simp add: splitlines_def pairs entries, simp add: lit_def web_tag_key_def)
  have "length sample_environment \<le> max_environment_bytes"
    by (simp add: sample_environment_def max_environment_bytes_def)
  then show content: "read_environment_at (pd_files (pf_config sample_platform) env_name)
      = Inr (sample_environment, [(web_tag_key, sample_old_version), (lit ''DB_NAME'', lit ''finrec'')])"
    using chars by (simp add: sample_platform_def read_environment_at_def ascii_decode_utf8 assignments)
  have key: "lit ''DB_NAME'' \<noteq> web_tag_key" by (simp add: web_tag_key_def)
  have "\<exists>b. persist_line sample_new_version (lit ''# settings'' @ [10]) = (b, 0)"
    "\<exists>b. persist_line sample_new_version (lit ''FINREC_WEB_IMAGE_TAG=v1.9.0'' @ [10]) = (b, 1)"
    "\<exists>b. persist_line sample_new_version (lit ''DB_NAME=finrec'' @ [10]) = (b, 0)"
    using entries key by (simp_all add: persist_line_def Let_def endswith_single, simp_all add: lit_def)
  then obtain new where "persist_text sample_new_version sample_environment
      [(web_tag_key, sample_old_version), (lit ''DB_NAME'', lit ''finrec'')] = Inr new"
    using sample_versions by (auto simp: persist_text_def Let_def splitlines_keepends_def pairs validate_version_def)
  moreover obtain d where "replace_in env_name (out_tmp sample_outside) (utf8_encode new)
      (pf_config sample_platform) = (Inr (), d)"
    by (simp add: replace_in_def replace_steps_def sample_platform_def sample_outside_def env_name_def
        set_node_def)
  ultimately show "\<exists>s'. persist_version sample_outside sample_new_version sample_platform = (Inr (), s')"
    using sample_versions content
    by (simp add: persist_version_def exceptM_def bindM_def liftM_def read_environment_def
        validate_version_def zoom_def)
qed


text \<open>
  The condition on the separators is needed: a line of the image tag that ends in a vertical
  tab loses its separator, and the next assignment becomes part of the version.
\<close>

lemma unusual_separator_lost:
  "persist_text (lit ''v1.1.0'')
     (lit ''FINREC_WEB_IMAGE_TAG=v1.0.0'' @ 11 # lit ''NEXT=1'')
     [(lit ''FINREC_WEB_IMAGE_TAG'', lit ''v1.0.0''), (lit ''NEXT'', lit ''1'')]
   = Inr (lit ''FINREC_WEB_IMAGE_TAG=v1.1.0NEXT=1'')"
proof -
  have pairs: "line_pairs [] (lit ''FINREC_WEB_IMAGE_TAG=v1.0.0'' @ 11 # lit ''NEXT=1'')
      = [(lit ''FINREC_WEB_IMAGE_TAG=v1.0.0'', [11]), (lit ''NEXT=1'', [])]"
    by (simp add: lit_def line_break_def)
  have entries: "environment_line (lit ''FINREC_WEB_IMAGE_TAG=v1.0.0'' @ [11])
      = Some (lit ''FINREC_WEB_IMAGE_TAG'', lit ''v1.0.0'' @ [11])"
    "environment_line (lit ''NEXT=1'') = Some (lit ''NEXT'', lit ''1'')"
    by (simp_all add: environment_line_def lit_def Let_def name_char_def name_start_def is_digit_def)
  have "version_ok (lit ''v1.0.0'')" by code_simp
  moreover have "persist_line (lit ''v1.1.0'') (lit ''FINREC_WEB_IMAGE_TAG=v1.0.0'' @ [11])
      = (lit ''FINREC_WEB_IMAGE_TAG=v1.1.0'', 1)"
    using entries(1) by (simp add: persist_line_def Let_def endswith_single web_tag_key_def, simp add: lit_def)
  moreover have "persist_line (lit ''v1.1.0'') (lit ''NEXT=1'') = (lit ''NEXT=1'', 0)"
    using entries(2) by (simp add: persist_line_def Let_def endswith_single web_tag_key_def,
      simp add: lit_def)
  ultimately show ?thesis
    by (simp add: persist_text_def Let_def web_tag_key_def splitlines_keepends_def pairs validate_version_def,
      simp add: lit_def)
qed

end
