(* ===== verification/Env_Swap.thy ===== *)
theory Env_Swap
  imports Updater_Platform
begin

text \<open>
  The helper of the updater's own update (\<open>scripts/system-update-updater-atomic.py\<close>): it keeps
  the environment file and the file with the new tag (\<open>capture\<close>), swaps the file in one
  rename (\<open>replace\<close>), tells after an interruption which of the two is in place (\<open>classify\<close>), and
  starts the shell script under a lock (\<open>lock-exec\<close>). No other process changes the files
  while it runs; what can happen at any moment is that it is killed.
\<close>

section \<open>Files\<close>

record file_stat =
  st_dev :: "64 word"
  st_ino :: "64 word"
  st_mode :: nat
  st_uid :: nat

datatype entry =
    DirEntry file_stat
  | FileEntry file_stat bytes
  | LinkEntry file_stat
  | DeviceEntry file_stat

fun entry_stat :: "entry \<Rightarrow> file_stat" where
  "entry_stat (DirEntry m) = m"
| "entry_stat (FileEntry m b) = m"
| "entry_stat (LinkEntry m) = m"
| "entry_stat (DeviceEntry m) = m"

fun is_regular :: "entry \<Rightarrow> bool" where
  "is_regular (FileEntry m b) = True"
| "is_regular e = False"

fun is_directory :: "entry \<Rightarrow> bool" where
  "is_directory (DirEntry m) = True"
| "is_directory e = False"

fun entry_bytes :: "entry \<Rightarrow> bytes" where
  "entry_bytes (FileEntry m b) = b"
| "entry_bytes e = []"

type_synonym tree = "(pystr \<times> entry) list"

text \<open>
  What the helper sees of its host: the device and inode number of the next file it creates,
  its user, the real path of a directory, the names \<open>tempfile\<close> draws, and the programs it may
  execute.
\<close>

record host =
  ho_draw :: "tree \<Rightarrow> 64 word \<times> 64 word"
  ho_uid :: nat
  ho_real :: "pystr \<Rightarrow> pystr option"
  ho_temp :: "tree \<Rightarrow> pystr \<Rightarrow> pystr"
  ho_executable :: "pystr \<Rightarrow> bool"

text \<open>\<open>SystemExit(1)\<close> of \<open>fail\<close>, and the exceptions, which also end the process with status 1.\<close>

datatype swap_error = SwapFail | SwapOSError | SwapValueError

type_synonym 'a sw = "(tree, swap_error, 'a) eff"

definition same_file :: "file_stat \<Rightarrow> file_stat \<Rightarrow> bool" where
  "same_file m n \<longleftrightarrow> st_dev m = st_dev n \<and> st_ino m = st_ino n"

definition writable_by_others :: "nat \<Rightarrow> bool" where
  "writable_by_others mode \<longleftrightarrow> mode div 16 mod 2 = 1 \<or> mode div 2 mod 2 = 1"

definition parent_path :: "pystr \<Rightarrow> pystr" where
  "parent_path p =
     (let d = rev (tl (dropWhile (\<lambda>c. c \<noteq> 47) (rev p))) in if d = [] then [47] else d)"

definition lstat :: "pystr \<Rightarrow> entry sw" where
  "lstat p = (\<lambda>t. (case map_of t p of None \<Rightarrow> Inl SwapOSError | Some e \<Rightarrow> Inr e, t))"

text \<open>\<open>os.open\<close> for reading without following a link, then \<open>fstat\<close>.\<close>

definition open_nofollow :: "pystr \<Rightarrow> entry sw" where
  "open_nofollow p = (\<lambda>t.
     (case map_of t p of
        Some (LinkEntry m) \<Rightarrow> Inl SwapOSError
      | Some e \<Rightarrow> Inr e
      | None \<Rightarrow> Inl SwapOSError, t))"

text \<open>\<open>read_bytes\<close> of a file of the private scratch directory.\<close>

definition read_bytes :: "pystr \<Rightarrow> bytes sw" where
  "read_bytes p = (\<lambda>t.
     (case map_of t p of Some (FileEntry m b) \<Rightarrow> Inr b | _ \<Rightarrow> Inl SwapOSError, t))"

definition new_stat :: "host \<Rightarrow> tree \<Rightarrow> file_stat" where
  "new_stat H t =
     \<lparr>st_dev = fst (ho_draw H t), st_ino = snd (ho_draw H t), st_mode = 384, st_uid = ho_uid H\<rparr>"

definition create_private :: "host \<Rightarrow> pystr \<Rightarrow> file_stat sw" where
  "create_private H p = (\<lambda>t.
     (case map_of t (parent_path p) of
        Some (DirEntry d) \<Rightarrow>
          if map_of t p \<noteq> None then (Inl SwapOSError, t)
          else (Inr (new_stat H t), (p, FileEntry (new_stat H t) []) # t)
      | _ \<Rightarrow> (Inl SwapOSError, t)))"

definition write_file :: "pystr \<Rightarrow> bytes \<Rightarrow> unit sw" where
  "write_file p payload = (\<lambda>t.
     (case map_of t p of
        Some (FileEntry m b) \<Rightarrow> (Inr (), AList.update p (FileEntry m (b @ payload)) t)
      | _ \<Rightarrow> (Inl SwapOSError, t)))"

definition private_write :: "host \<Rightarrow> pystr \<Rightarrow> bytes \<Rightarrow> unit sw" where
  "private_write H p payload = bindM (create_private H p) (\<lambda>_. write_file p payload)"

definition chmod_private :: "pystr \<Rightarrow> unit sw" where
  "chmod_private p = (\<lambda>t.
     (case map_of t p of
        Some (FileEntry m b) \<Rightarrow> (Inr (), AList.update p (FileEntry (m\<lparr>st_mode := 384\<rparr>) b) t)
      | _ \<Rightarrow> (Inl SwapOSError, t)))"

text \<open>\<open>fsync_directory\<close>: the directory is opened; what is written stays as it is.\<close>

definition fsync_directory :: "pystr \<Rightarrow> unit sw" where
  "fsync_directory p = (\<lambda>t.
     (case map_of t p of Some (DirEntry m) \<Rightarrow> Inr () | _ \<Rightarrow> Inl SwapOSError, t))"

definition rename_file :: "pystr \<Rightarrow> pystr \<Rightarrow> unit sw" where
  "rename_file p q = (\<lambda>t.
     (case (map_of t p, map_of t q) of
        (Some (FileEntry m b), Some (DirEntry d)) \<Rightarrow> (Inl SwapOSError, t)
      | (Some (FileEntry m b), _) \<Rightarrow> (Inr (), AList.update q (FileEntry m b) (AList.delete p t))
      | _ \<Rightarrow> (Inl SwapOSError, t)))"

definition unlink_missing_ok :: "pystr \<Rightarrow> tree \<Rightarrow> tree" where
  "unlink_missing_ok p t = AList.delete p t"

section \<open>Reading the environment file\<close>

definition max_env_bytes :: nat where "max_env_bytes = 1048576"

definition swap_read_environment :: "pystr \<Rightarrow> (bytes \<times> file_stat) sw" where
  "swap_read_environment p =
     bindM (lstat p) (\<lambda>linked.
     thenM (raise_whenM (\<not> is_regular linked \<or> st_mode (entry_stat linked) \<noteq> 384
              \<or> st_uid (entry_stat linked) \<noteq> 0 \<or> max_env_bytes < length (entry_bytes linked)) SwapFail)
     (bindM (open_nofollow p) (\<lambda>opened.
     thenM (raise_whenM (\<not> is_regular opened \<or> st_mode (entry_stat opened) \<noteq> 384
              \<or> st_uid (entry_stat opened) \<noteq> 0 \<or> \<not> same_file (entry_stat opened) (entry_stat linked)) SwapFail)
     (let payload = take (max_env_bytes + 1) (entry_bytes opened)
      in thenM (raise_whenM (max_env_bytes < length payload) SwapFail)
           (retM (payload, entry_stat opened))))))"

definition stat_payload :: "file_stat \<Rightarrow> bytes" where
  "stat_payload m = json_dumps (JObj [(lit ''device'', JInt (uint (st_dev m))),
     (lit ''inode'', JInt (uint (st_ino m))), (lit ''mode'', JInt (int (st_mode m))),
     (lit ''uid'', JInt (int (st_uid m)))])"

section \<open>Capture\<close>

definition updater_tag_key :: pystr where "updater_tag_key = lit ''FINREC_UPDATER_IMAGE_TAG''"

definition crlf :: "nat \<Rightarrow> bool" where "crlf c \<longleftrightarrow> c = 13 \<or> c = 10"

definition rstrip_crlf :: "pystr \<Rightarrow> pystr" where
  "rstrip_crlf s = rev (dropWhile crlf (rev s))"

definition line_ending :: "pystr \<Rightarrow> pystr" where
  "line_ending s = drop (length (rstrip_crlf s)) s"

text \<open>The loop over the lines: the names seen, and the last line and value of the tag.\<close>

fun scan_lines ::
    "nat \<Rightarrow> pystr list \<Rightarrow> pystr list \<Rightarrow> (nat \<times> pystr) option \<Rightarrow> swap_error + (nat \<times> pystr) option" where
  "scan_lines i [] seen found = Inr found"
| "scan_lines i (complete_line # lines) seen found =
     (let line = rstrip_crlf complete_line in
      if line = [] \<or> hd line = 35 then scan_lines (i + 1) lines seen found
      else case environment_line line of
             None \<Rightarrow> Inl SwapFail
           | Some (k, v) \<Rightarrow>
               if k \<in> set seen then Inl SwapFail
               else scan_lines (i + 1) lines (k # seen)
                      (if k = updater_tag_key then Some (i, v) else found))"

definition target_text :: "pystr \<Rightarrow> pystr \<Rightarrow> swap_error + pystr \<times> pystr" where
  "target_text target_tag text =
     (let lines = splitlines_keepends text in
      bindE (scan_lines 0 lines [] None) (\<lambda>found.
      case found of
        None \<Rightarrow> Inl SwapFail
      | Some (i, old_tag) \<Rightarrow>
          if \<not> version_ok old_tag \<or> old_tag = target_tag then Inl SwapFail
          else Inr (old_tag, concat (lines[i := updater_tag_key @ 61 # target_tag @ line_ending (lines ! i)]))))"

definition safe_entry :: "(entry \<Rightarrow> bool) \<Rightarrow> entry \<Rightarrow> bool" where
  "safe_entry kind e \<longleftrightarrow> kind e \<and> st_uid (entry_stat e) = 0
     \<and> \<not> writable_by_others (st_mode (entry_stat e))"

definition decode_strict :: "bytes \<Rightarrow> swap_error + pystr" where
  "decode_strict b = (case utf8_decode b of None \<Rightarrow> Inl SwapValueError | Some s \<Rightarrow> Inr s)"

definition capture_files ::
    "host \<Rightarrow> pystr \<Rightarrow> pystr \<Rightarrow> pystr \<Rightarrow> pystr \<Rightarrow> pystr \<Rightarrow> pystr \<Rightarrow> pystr \<Rightarrow> pystr \<Rightarrow> unit sw" where
  "capture_files H app env compose tag original target old_tag_file stat_file =
     (case ho_real H app of
        None \<Rightarrow> raiseM SwapOSError
      | Some real \<Rightarrow>
     bindM (lstat app) (\<lambda>app_entry.
     thenM (raise_whenM (real \<noteq> app \<or> \<not> safe_entry is_directory app_entry) SwapFail)
     (bindM (lstat compose) (\<lambda>compose_entry.
     thenM (raise_whenM (\<not> safe_entry is_regular compose_entry) SwapFail)
     (bindM (swap_read_environment env) (\<lambda>(payload, env_stat).
     bindM (liftM (decode_strict payload)) (\<lambda>text.
     bindM (liftM (target_text tag text)) (\<lambda>(old_tag, new_text).
     thenM (raise_whenM (utf8_encode new_text = payload) SwapFail)
     (thenM (private_write H original payload)
     (thenM (private_write H target (utf8_encode new_text))
     (thenM (private_write H old_tag_file old_tag)
            (private_write H stat_file (stat_payload env_stat)))))))))))))"

definition capture_environment :: "host \<Rightarrow> pystr list \<Rightarrow> unit sw" where
  "capture_environment H args =
     (case args of
        [app, env, compose, tag, original, target, old_tag_file, stat_file] \<Rightarrow>
          capture_files H app env compose tag original target old_tag_file stat_file
      | _ \<Rightarrow> raiseM SwapFail)"

section \<open>The expected file\<close>

text \<open>
  The file of the state before the swap. In Python a Boolean is an integer too, so the keys
  may hold \<open>true\<close> and \<open>false\<close>.
\<close>

fun int_member :: "json \<Rightarrow> int option" where
  "int_member (JInt i) = Some i"
| "int_member (JBool b) = Some (if b then 1 else 0)"
| "int_member _ = None"

definition read_expected :: "json \<Rightarrow> (int \<times> int) option" where
  "read_expected j =
     (case j of
        JObj ms \<Rightarrow>
          if set (map fst ms) \<noteq> {lit ''device'', lit ''inode'', lit ''mode'', lit ''uid''}
             \<or> list_ex (\<lambda>x. int_member (snd x) = None) ms
             \<or> Option.bind (json_get j (lit ''mode'')) int_member \<noteq> Some 384
             \<or> Option.bind (json_get j (lit ''uid'')) int_member \<noteq> Some 0
          then None
          else (case (Option.bind (json_get j (lit ''device'')) int_member,
                      Option.bind (json_get j (lit ''inode'')) int_member) of
                  (Some d, Some i) \<Rightarrow> Some (d, i)
                | _ \<Rightarrow> None)
      | _ \<Rightarrow> None)"

definition parse_expected :: "bytes \<Rightarrow> swap_error + int \<times> int" where
  "parse_expected b =
     (case Option.bind (ascii_decode b) json_loads of
        None \<Rightarrow> Inl SwapValueError
      | Some j \<Rightarrow> (case read_expected j of None \<Rightarrow> Inl SwapFail | Some x \<Rightarrow> Inr x))"

definition expected_environment_stat :: "pystr \<Rightarrow> (int \<times> int) sw" where
  "expected_environment_stat p = bindM (read_bytes p) (\<lambda>b. liftM (parse_expected b))"

definition is_expected :: "file_stat \<Rightarrow> int \<times> int \<Rightarrow> bool" where
  "is_expected m x \<longleftrightarrow> uint (st_dev m) = fst x \<and> uint (st_ino m) = snd x"

definition private_regular :: "entry \<Rightarrow> bool" where
  "private_regular e \<longleftrightarrow> is_regular e \<and> st_mode (entry_stat e) = 384 \<and> st_uid (entry_stat e) = 0"

definition validate_current_environment :: "pystr \<Rightarrow> bytes \<Rightarrow> int \<times> int \<Rightarrow> unit sw" where
  "validate_current_environment p expected x =
     bindM (lstat p) (\<lambda>linked.
     thenM (raise_whenM (\<not> private_regular linked \<or> \<not> is_expected (entry_stat linked) x) SwapValueError)
     (bindM (open_nofollow p) (\<lambda>opened.
     thenM (raise_whenM (\<not> same_file (entry_stat opened) (entry_stat linked)) SwapValueError)
           (raise_whenM (take (length expected + 1) (entry_bytes opened) \<noteq> expected) SwapValueError))))"

definition validate_replaced_environment ::
    "pystr \<Rightarrow> bytes \<Rightarrow> int \<times> int \<Rightarrow> file_stat \<Rightarrow> file_stat sw" where
  "validate_replaced_environment p source x temporary =
     bindM (lstat p) (\<lambda>linked.
     bindM (open_nofollow p) (\<lambda>opened.
     thenM (raise_whenM (\<not> private_regular opened \<or> \<not> same_file (entry_stat linked) (entry_stat opened)
              \<or> \<not> same_file (entry_stat opened) temporary \<or> is_expected (entry_stat opened) x) SwapValueError)
     (thenM (raise_whenM (take (length source + 1) (entry_bytes opened) \<noteq> source) SwapValueError)
            (retM (entry_stat opened)))))"

section \<open>Replace\<close>

text \<open>
  The body of \<open>replace_environment\<close> as the actions between which it can be killed. The state
  holds the local variables: the temporary file to remove, its status, and that of the
  replaced file.
\<close>

record swap =
  sw_tree :: tree
  sw_temp :: "pystr option"
  sw_temp_stat :: file_stat
  sw_replaced :: file_stat

type_synonym swap_action = "(swap, swap_error, unit) eff"

definition on_tree :: "'a sw \<Rightarrow> (swap, swap_error, 'a) eff" where
  "on_tree m = zoom sw_tree (\<lambda>t s. s\<lparr>sw_tree := t\<rparr>) m"

definition store_local :: "(swap \<Rightarrow> swap) \<Rightarrow> swap_action" where
  "store_local f = (\<lambda>s. (Inr (), f s))"

definition temp_path :: "host \<Rightarrow> pystr \<Rightarrow> swap \<Rightarrow> pystr" where
  "temp_path H path s = ho_temp H (sw_tree s) (parent_path path)"

definition make_temp :: "host \<Rightarrow> pystr \<Rightarrow> swap_action" where
  "make_temp H path = bindM (readM (temp_path H path)) (\<lambda>tmp.
     thenM (on_tree (create_private H tmp)) (store_local (\<lambda>s. s\<lparr>sw_temp := Some tmp\<rparr>)))"

definition with_temp :: "(pystr \<Rightarrow> 'a sw) \<Rightarrow> (swap, swap_error, 'a) eff" where
  "with_temp f = bindM (readM sw_temp) (\<lambda>tmp.
     case tmp of None \<Rightarrow> raiseM SwapOSError | Some p \<Rightarrow> on_tree (f p))"

definition check_temp :: "int \<times> int \<Rightarrow> swap_action" where
  "check_temp x = bindM (with_temp lstat) (\<lambda>e.
     thenM (store_local (\<lambda>s. s\<lparr>sw_temp_stat := entry_stat e\<rparr>))
           (raise_whenM (\<not> private_regular e \<or> is_expected (entry_stat e) x) SwapValueError))"

definition rename_temp :: "pystr \<Rightarrow> swap_action" where
  "rename_temp path = thenM (with_temp (\<lambda>tmp. rename_file tmp path)) (store_local (\<lambda>s. s\<lparr>sw_temp := None\<rparr>))"

definition check_replaced :: "pystr \<Rightarrow> bytes \<Rightarrow> int \<times> int \<Rightarrow> swap_action" where
  "check_replaced path source x = bindM (readM sw_temp_stat) (\<lambda>m.
     bindM (on_tree (validate_replaced_environment path source x m)) (\<lambda>r.
     store_local (\<lambda>s. s\<lparr>sw_replaced := r\<rparr>)))"

definition marker_actions :: "host \<Rightarrow> pystr option \<Rightarrow> swap_action list" where
  "marker_actions H marker =
     (case marker of
        None \<Rightarrow> []
      | Some p \<Rightarrow> [thenM (on_tree (create_private H p)) (retM ()),
                   on_tree (write_file p (lit ''recovery-required'')),
                   on_tree (fsync_directory (parent_path p))])"

definition replace_actions ::
    "host \<Rightarrow> pystr \<Rightarrow> bytes \<Rightarrow> bytes \<Rightarrow> int \<times> int \<Rightarrow> pystr \<Rightarrow> pystr option \<Rightarrow> swap_action list" where
  "replace_actions H path source expected x next_stat marker =
     marker_actions H marker @
     [on_tree (validate_current_environment path expected x),
      make_temp H path,
      with_temp chmod_private,
      with_temp (\<lambda>tmp. write_file tmp source),
      check_temp x,
      on_tree (validate_current_environment path expected x),
      rename_temp path,
      on_tree (fsync_directory (parent_path path)),
      check_replaced path source x,
      thenM (on_tree (create_private H next_stat)) (retM ()),
      bindM (readM sw_replaced) (\<lambda>r. on_tree (write_file next_stat (stat_payload r)))]"

definition run_actions :: "swap_action list \<Rightarrow> swap_action" where
  "run_actions acts = foldr thenM acts (retM ())"

text \<open>The \<open>finally\<close> clause.\<close>

definition remove_temp :: "swap \<Rightarrow> tree" where
  "remove_temp s = (case sw_temp s of None \<Rightarrow> sw_tree s | Some p \<Rightarrow> unlink_missing_ok p (sw_tree s))"

definition swap_start :: "tree \<Rightarrow> swap" where
  "swap_start t = \<lparr>sw_tree = t, sw_temp = None, sw_temp_stat = \<lparr>st_dev = 0, st_ino = 0, st_mode = 0, st_uid = 0\<rparr>,
     sw_replaced = \<lparr>st_dev = 0, st_ino = 0, st_mode = 0, st_uid = 0\<rparr>\<rparr>"

definition replace_inputs ::
    "pystr list \<Rightarrow> (bytes \<times> bytes \<times> (int \<times> int)) sw" where
  "replace_inputs args =
     bindM (read_bytes (args ! 1)) (\<lambda>source.
     bindM (read_bytes (args ! 2)) (\<lambda>expected.
     bindM (expected_environment_stat (args ! 3)) (\<lambda>x. retM (source, expected, x))))"

definition marker_argument :: "pystr list \<Rightarrow> pystr option" where
  "marker_argument args = (if length args = 6 \<and> args ! 5 \<noteq> [] then Some (args ! 5) else None)"

definition replace_plan :: "host \<Rightarrow> pystr list \<Rightarrow> (swap_action list) sw" where
  "replace_plan H args =
     thenM (raise_whenM (length args \<noteq> 5 \<and> length args \<noteq> 6) SwapFail)
     (bindM (replace_inputs args) (\<lambda>(source, expected, x).
      retM (replace_actions H (args ! 0) source expected x (args ! 4) (marker_argument args))))"

definition replace_environment :: "host \<Rightarrow> pystr list \<Rightarrow> unit sw" where
  "replace_environment H args =
     bindM (replace_plan H args) (\<lambda>acts t.
       case run_actions acts (swap_start t) of (r, s) \<Rightarrow> (r, remove_temp s))"

text \<open>The files when the process is killed after \<open>k\<close> actions: nothing is cleaned up.\<close>

definition replace_killed :: "host \<Rightarrow> pystr list \<Rightarrow> nat \<Rightarrow> tree \<Rightarrow> tree" where
  "replace_killed H args k t =
     (case replace_plan H args t of
        (Inl e, t') \<Rightarrow> t'
      | (Inr acts, t') \<Rightarrow> sw_tree (snd (run_actions (take k acts) (swap_start t'))))"

section \<open>Classify\<close>

definition classify_files ::
    "host \<Rightarrow> pystr \<Rightarrow> pystr \<Rightarrow> pystr \<Rightarrow> pystr \<Rightarrow> pystr \<Rightarrow> pystr \<Rightarrow> unit sw" where
  "classify_files H path original_path target_path stat_path stat_output state_output =
     bindM (read_bytes original_path) (\<lambda>original.
     bindM (read_bytes target_path) (\<lambda>target.
     bindM (expected_environment_stat stat_path) (\<lambda>x.
     bindM (swap_read_environment path) (\<lambda>(payload, opened).
       if payload = target
       then thenM (private_write H stat_output (stat_payload opened))
              (private_write H state_output (lit ''target''))
       else if payload = original \<and> is_expected opened x
       then private_write H state_output (lit ''original'')
       else raiseM SwapFail))))"

definition classify_environment :: "host \<Rightarrow> pystr list \<Rightarrow> unit sw" where
  "classify_environment H args =
     (case args of
        [path, original, target, stat_path, stat_output, state_output] \<Rightarrow>
          classify_files H path original target stat_path stat_output state_output
      | _ \<Rightarrow> raiseM SwapFail)"

section \<open>The lock\<close>

text \<open>
  The machine: the files, the locked files (by device and inode), the open descriptors of the
  process above the standard ones, and what it wrote to its error output.
\<close>

record machine =
  mc_tree :: tree
  mc_locks :: "(64 word \<times> 64 word) list"
  mc_open :: "nat list"
  mc_errors :: bytes

definition lock_path :: pystr where
  "lock_path = lit ''/run/finance-reconciliation-system-update-updater.lock''"

definition lock_failure_message :: bytes where
  "lock_failure_message = lit ''updater update requires manual intervention'' @ [10]"

definition safe_root_directory :: "pystr \<Rightarrow> unit sw" where
  "safe_root_directory p =
     bindM (lstat p) (\<lambda>e. raise_whenM (\<not> safe_entry is_directory e) SwapValueError)"

text \<open>The lock file is created if there is none; a link or a directory is not opened.\<close>

definition open_lock :: "host \<Rightarrow> entry sw" where
  "open_lock H = (\<lambda>t.
     (case map_of t lock_path of
        None \<Rightarrow> thenM (create_private H lock_path) (lstat lock_path) t
      | Some (LinkEntry m) \<Rightarrow> (Inl SwapOSError, t)
      | Some (DirEntry m) \<Rightarrow> (Inl SwapOSError, t)
      | Some e \<Rightarrow> (Inr e, t)))"

definition checked_lock :: "host \<Rightarrow> file_stat sw" where
  "checked_lock H =
     thenM (safe_root_directory [47]) (thenM (safe_root_directory (parent_path lock_path))
     (bindM (open_lock H) (\<lambda>opened.
      bindM (lstat lock_path) (\<lambda>linked.
      thenM (raise_whenM (\<not> private_regular opened \<or> entry_bytes opened \<noteq> []
               \<or> \<not> same_file (entry_stat linked) (entry_stat opened)) SwapValueError)
        (retM (entry_stat opened))))))"

datatype outcome =
    Exited nat
  | Executed pystr "pystr list"

definition lock_id :: "file_stat \<Rightarrow> 64 word \<times> 64 word" where
  "lock_id m = (st_dev m, st_ino m)"

text \<open>
  \<open>fd\<close> is the descriptor of the lock. When a step fails after the lock was taken, closing
  the descriptor gives it back.
\<close>

definition lock_failed :: "machine \<Rightarrow> outcome \<times> machine" where
  "lock_failed M = (Exited 1, M\<lparr>mc_errors := mc_errors M @ lock_failure_message\<rparr>)"

definition lock_exec :: "host \<Rightarrow> nat \<Rightarrow> pystr list \<Rightarrow> machine \<Rightarrow> outcome \<times> machine" where
  "lock_exec H fd args M =
     (case args of
        bash # a # rest \<Rightarrow>
          if take 1 bash \<noteq> [47] then lock_failed M
          else
            (case checked_lock H (mc_tree M) of
               (Inl e, t) \<Rightarrow> lock_failed (M\<lparr>mc_tree := t\<rparr>)
             | (Inr m, t) \<Rightarrow>
                 let M1 = M\<lparr>mc_tree := t\<rparr> in
                 if lock_id m \<in> set (mc_locks M) then lock_failed M1
                 else if \<not> ho_executable H bash then lock_failed (M1\<lparr>mc_open := []\<rparr>)
                 else (Executed bash (bash # lit ''-s'' # lit ''--'' # a # rest),
                       M1\<lparr>mc_locks := lock_id m # mc_locks M, mc_open := [fd]\<rparr>))
      | _ \<Rightarrow> lock_failed M)"

section \<open>The command line\<close>

definition swap_command :: "unit sw \<Rightarrow> machine \<Rightarrow> outcome \<times> machine" where
  "swap_command m M =
     (case m (mc_tree M) of
        (Inl e, t) \<Rightarrow> (Exited 1, M\<lparr>mc_tree := t\<rparr>)
      | (Inr _, t) \<Rightarrow> (Exited 0, M\<lparr>mc_tree := t\<rparr>))"

definition swap_main :: "host \<Rightarrow> nat \<Rightarrow> pystr list \<Rightarrow> machine \<Rightarrow> outcome \<times> machine" where
  "swap_main H fd argv M =
     (case argv of
        [] \<Rightarrow> (Exited 1, M)
      | command # args \<Rightarrow>
          if command = lit ''capture'' then swap_command (capture_environment H args) M
          else if command = lit ''replace'' then swap_command (replace_environment H args) M
          else if command = lit ''classify'' then swap_command (classify_environment H args) M
          else if command = lit ''lock-exec'' then lock_exec H fd args M
          else (Exited 1, M))"

end
