(* ===== verification/Env_Swap_Proofs.thy ===== *)
theory Env_Swap_Proofs
  imports Env_Swap Updater_Codec
begin

text \<open>
  The updater's own update: the file with the new tag differs from the captured one in that
  tag only, a swap is all or nothing wherever it is interrupted, and the recovery restores the
  captured file.
\<close>

section \<open>Runs\<close>

lemmas swap_runs = bindM_Inr thenM_Inr ret_Inr lift_Inr read_Inr raise_Inr raise_when_Inr

lemma create_private_iff:
  "create_private H p t = (Inr m, t') \<longleftrightarrow>
     (\<exists>d. map_of t (parent_path p) = Some (DirEntry d)) \<and> map_of t p = None
     \<and> m = new_stat H t \<and> t' = (p, FileEntry m []) # t"
  by (auto simp: create_private_def split: option.splits entry.splits)

lemma write_file_iff:
  "write_file p b t = (Inr u, t') \<longleftrightarrow>
     (\<exists>m c. map_of t p = Some (FileEntry m c) \<and> t' = AList.update p (FileEntry m (c @ b)) t)"
  by (auto simp: write_file_def split: option.splits entry.splits)

lemma private_write_iff:
  "private_write H p b t = (Inr u, t') \<longleftrightarrow>
     (\<exists>d. map_of t (parent_path p) = Some (DirEntry d)) \<and> map_of t p = None
     \<and> t' = (p, FileEntry (new_stat H t) b) # t"
  by (auto simp: private_write_def swap_runs create_private_iff write_file_iff)

lemma lstat_iff: "lstat p t = (Inr e, t') \<longleftrightarrow> map_of t p = Some e \<and> t' = t"
  by (auto simp: lstat_def split: option.splits)

lemma read_bytes_iff: "read_bytes p t = (Inr b, t') \<longleftrightarrow> (\<exists>m. map_of t p = Some (FileEntry m b)) \<and> t' = t"
  by (auto simp: read_bytes_def split: option.splits entry.splits)

lemma swap_read_iff:
  "swap_read_environment p t = (Inr (b, m), t') \<longleftrightarrow>
     map_of t p = Some (FileEntry m b) \<and> st_mode m = 384 \<and> st_uid m = 0 \<and> length b \<le> max_env_bytes
     \<and> t' = t" (is "?l \<longleftrightarrow> ?r")
proof
  show "?r \<Longrightarrow> ?l"
    by (auto simp: swap_read_environment_def swap_runs lstat_iff Let_def same_file_def open_nofollow_def)
  show "?l \<Longrightarrow> ?r"
    by (auto simp: swap_read_environment_def swap_runs lstat_iff Let_def open_nofollow_def
        split: option.splits entry.splits elim!: is_regular.elims(2))
qed

section \<open>The file with the new tag\<close>

text \<open>What a shell or Compose reads of an environment file: the assignments in their order.\<close>

definition assignments :: "pystr \<Rightarrow> (pystr \<times> pystr) list" where
  "assignments text = List.map_filter (\<lambda>line. environment_line (rstrip_crlf line)) (splitlines_keepends text)"

lemma comment_no_assignment: "line = [] \<or> hd line = 35 \<Longrightarrow> environment_line line = None"
  by (cases line)
    (auto simp: environment_line_def Let_def name_char_def name_start_def is_digit_def)

lemma scan_lines_step:
  "scan_lines i (line # lines) seen found = Inr r \<longleftrightarrow>
     (case environment_line (rstrip_crlf line) of
        None \<Rightarrow> (rstrip_crlf line = [] \<or> hd (rstrip_crlf line) = 35) \<and> scan_lines (i + 1) lines seen found = Inr r
      | Some (k, v) \<Rightarrow> k \<notin> set seen \<and> scan_lines (i + 1) lines (k # seen)
                         (if k = updater_tag_key then Some (i, v) else found) = Inr r)"
  using comment_no_assignment [of "rstrip_crlf line"] by (auto simp: Let_def split: option.splits)

lemma scan_lines_seen:
  "scan_lines i lines seen found = Inr r \<Longrightarrow> updater_tag_key \<in> set seen \<Longrightarrow> r = found"
proof (induction lines arbitrary: i seen found)
  case (Cons line lines)
  then show ?case
    by (auto simp: scan_lines_step simp del: scan_lines.simps split: option.splits if_splits)
qed simp

lemma scan_lines_found:
  assumes "scan_lines i lines seen None = Inr (Some (j, v))"
  shows "i \<le> j \<and> j < i + length lines \<and>
    environment_line (rstrip_crlf (lines ! (j - i))) = Some (updater_tag_key, v)"
  using assms
proof (induction lines arbitrary: i seen)
  case (Cons line lines)
  show ?case
  proof (cases "\<exists>x. environment_line (rstrip_crlf line) = Some (updater_tag_key, x)")
    case True
    then obtain x where x: "environment_line (rstrip_crlf line) = Some (updater_tag_key, x)" by blast
    with Cons.prems have "scan_lines (i + 1) lines (updater_tag_key # seen) (Some (i, x)) = Inr (Some (j, v))"
      by (simp add: scan_lines_step del: scan_lines.simps)
    then have "(j, v) = (i, x)" by (auto dest: scan_lines_seen)
    then show ?thesis using x by simp
  next
    case False
    then obtain seen' where "scan_lines (i + 1) lines seen' None = Inr (Some (j, v))"
      using Cons.prems by (auto simp: scan_lines_step simp del: scan_lines.simps split: option.splits)
    from Cons.IH [OF this] have "i + 1 \<le> j" "j < i + 1 + length lines"
      "environment_line (rstrip_crlf (lines ! (j - (i + 1)))) = Some (updater_tag_key, v)" by auto
    moreover from this(1) have "j - i = Suc (j - (i + 1))" by simp
    ultimately show ?thesis by simp
  qed
qed simp

lemma scan_lines_distinct:
  fixes lines :: "pystr list"
  defines "keys \<equiv> (\<lambda>ls. map fst (List.map_filter (\<lambda>line. environment_line (rstrip_crlf line)) ls))"
  shows "scan_lines i lines seen found = Inr r \<Longrightarrow>
    distinct (keys lines) \<and> set (keys lines) \<inter> set seen = {}"
proof (induction lines arbitrary: i seen found)
  case (Cons line lines)
  show ?case
  proof (cases "environment_line (rstrip_crlf line)")
    case None
    with Cons.prems have "scan_lines (i + 1) lines seen found = Inr r"
      by (simp add: scan_lines_step del: scan_lines.simps)
    from Cons.IH [OF this] None show ?thesis by (simp add: keys_def map_filter_simps)
  next
    case (Some x)
    then obtain k v where x: "environment_line (rstrip_crlf line) = Some (k, v)" by (cases x) auto
    with Cons.prems obtain found' where "scan_lines (i + 1) lines (k # seen) found' = Inr r" "k \<notin> set seen"
      by (auto simp: scan_lines_step simp del: scan_lines.simps)
    with Cons.IH [OF this(1)] x show ?thesis by (auto simp: keys_def map_filter_simps)
  qed
qed (simp add: keys_def map_filter_simps)

lemma map_filter_update:
  assumes "distinct (map fst (List.map_filter f xs))" "i < length xs" "f (xs ! i) = Some (k, x)" "f y = Some (k, z)"
  shows "List.map_filter f (xs[i := y])
    = map (\<lambda>(j, v). (j, if j = k then z else v)) (List.map_filter f xs)"
  using assms
proof (induction xs arbitrary: i)
  case (Cons a xs)
  have same: "map (\<lambda>(j, v). (j, if j = k then z else v)) ys = ys" if "k \<notin> fst ` set ys" for ys
    using that by (induction ys) auto
  show ?case
  proof (cases i)
    case 0
    then show ?thesis using Cons.prems same by (auto simp: map_filter_simps)
  next
    case (Suc n)
    have "k \<in> fst ` set (List.map_filter f xs)"
      using Cons.prems(2,3) Suc by (force simp: map_filter_def)
    moreover have "k \<noteq> j" if "f a = Some (j, v)" for j v
      using that calculation Cons.prems(1) by (auto simp: map_filter_simps)
    moreover have "List.map_filter f (xs[n := y]) = map (\<lambda>(j, v). (j, if j = k then z else v)) (List.map_filter f xs)"
      using Cons.prems Suc by (intro Cons.IH) (auto simp: map_filter_simps split: option.splits)
    ultimately show ?thesis
      using Suc by (auto simp: map_filter_simps split: option.splits)
  qed
qed simp

text \<open>The lines of the new text.\<close>

lemma rstrip_crlf_line:
  assumes "\<And>c. c \<in> set l \<Longrightarrow> \<not> line_break c" "line_end b"
  shows "rstrip_crlf (l @ b) = (if set b \<subseteq> {13, 10} then l else l @ b)"
proof -
  have "dropWhile crlf (rev l) = rev l"
    using assms(1) [of 13] assms(1) [of 10]
    by (cases l rule: rev_cases) (auto simp: crlf_def line_break_def)
  moreover have "dropWhile crlf (rev b @ rev l) = dropWhile crlf (rev l)" if "set b \<subseteq> {13, 10}"
    using that by (intro dropWhile_append2) (auto simp: crlf_def)
  ultimately have l: "rstrip_crlf (l @ b) = l" if "set b \<subseteq> {13, 10}"
    using that by (simp add: rstrip_crlf_def)
  have "rstrip_crlf (l @ b) = l @ b" if "\<not> set b \<subseteq> {13, 10}"
  proof -
    obtain c where c: "b = [c]" using assms(2) \<open>\<not> set b \<subseteq> {13, 10}\<close> by (auto simp: line_end_def)
    with that show ?thesis by (auto simp: rstrip_crlf_def crlf_def)
  qed
  with l show ?thesis by simp
qed

lemma tag_value_end:
  assumes "environment_line (l @ [c]) = Some (k, v)" "line_break c"
  shows "c \<in> set v"
proof -
  have n: "\<not> name_char c" "c \<noteq> 61"
    using assms(2) by (auto simp: line_break_def name_char_def name_start_def is_digit_def)
  let ?key = "takeWhile name_char (l @ [c])"
  have v: "take 1 (drop (length ?key) (l @ [c])) = [61]" "v = tl (drop (length ?key) (l @ [c]))"
    using assms(1) by (auto simp: environment_line_def Let_def split: if_splits)
  have "length ?key \<le> length l"
    using n(1) length_takeWhile_le [of name_char l]
    by (cases "\<forall>x\<in>set l. name_char x") (auto simp: takeWhile_append)
  then have "drop (length ?key) (l @ [c]) = drop (length ?key) l @ [c]" by simp
  with v n(2) show ?thesis by (cases "drop (length ?key) l") auto
qed

lemma tag_line:
  assumes "version_ok v"
  shows "environment_line (updater_tag_key @ 61 # v) = Some (updater_tag_key, v)"
    and "c \<in> set (updater_tag_key @ 61 # v) \<Longrightarrow> \<not> line_break c"
proof -
  have key: "c \<in> set updater_tag_key \<Longrightarrow> name_char c \<and> \<not> line_break c" for c
    by (auto simp: updater_tag_key_def lit_def name_char_def name_start_def line_break_def)
  have stop: "\<not> name_char 61" by (simp add: name_char_def name_start_def is_digit_def)
  have "takeWhile name_char (updater_tag_key @ 61 # v) = updater_tag_key"
    using key stop by (subst takeWhile_append2) auto
  moreover have "10 \<notin> set v" using version_text [OF assms, of 10] by auto
  moreover have "updater_tag_key \<noteq> []" "name_start (hd updater_tag_key)"
    by (simp_all add: updater_tag_key_def lit_def name_start_def)
  ultimately show "environment_line (updater_tag_key @ 61 # v) = Some (updater_tag_key, v)"
    by (simp add: environment_line_def Let_def)
  show "c \<in> set (updater_tag_key @ 61 # v) \<Longrightarrow> \<not> line_break c"
    using key version_text [OF assms, of c] by (auto simp: line_break_def)
qed

lemma well_ended_update:
  "well_ended ps \<Longrightarrow> i < length ps \<Longrightarrow> ps ! i = (l, b) \<Longrightarrow> l \<noteq> [] \<Longrightarrow> l' \<noteq> [] \<Longrightarrow> well_ended (ps[i := (l', b)])"
proof (induction ps arbitrary: i)
  case (Cons p ps)
  obtain x y where p: "p = (x, y)" by (cases p)
  show ?case
  proof (cases i)
    case 0
    with Cons p show ?thesis by auto
  next
    case (Suc n)
    have "line_feed_next (ps[n := (l', b)]) \<longleftrightarrow> line_feed_next ps" if "n < length ps" "ps ! n = (l, b)"
      using that Cons.prems(4,5) by (cases n; cases ps) (auto simp: line_feed_next_def)
    with Cons Suc p show ?thesis by (auto simp: line_feed_next_def)
  qed
qed simp

text \<open>The new text splits into the old lines, but for the line of the tag.\<close>

lemma target_text_lines:
  assumes "target_text tag text = Inr (old, new)" "version_ok tag"
  obtains i e where "i < length (splitlines_keepends text)"
    "environment_line (rstrip_crlf (splitlines_keepends text ! i)) = Some (updater_tag_key, old)"
    "splitlines_keepends new = (splitlines_keepends text)[i := updater_tag_key @ 61 # tag @ e]"
    "set e \<subseteq> {13, 10}" "line_end e"
proof -
  let ?ps = "line_pairs [] text" and ?lines = "splitlines_keepends text"
  obtain i where i: "scan_lines 0 ?lines [] None = Inr (Some (i, old))" "version_ok old"
    and new: "new = concat (?lines[i := updater_tag_key @ 61 # tag @ line_ending (?lines ! i)])"
    using assms(1) by (auto simp: target_text_def Let_def bindE_Inr_iff split: option.splits if_splits)
  from scan_lines_found [OF i(1)] have n: "i < length ?lines"
    and found: "environment_line (rstrip_crlf (?lines ! i)) = Some (updater_tag_key, old)" by simp_all
  obtain l b where lb: "?ps ! i = (l, b)" by (cases "?ps ! i")
  have mem: "(l, b) \<in> set ?ps"
    using lb n nth_mem [of i ?ps] by (simp add: splitlines_keepends_def)
  have l: "\<And>c. c \<in> set l \<Longrightarrow> \<not> line_break c" and b: "line_end b"
    using line_pairs_line [OF mem] line_pairs_end [OF mem] by auto
  have line: "?lines ! i = l @ b" using lb n by (simp add: splitlines_keepends_def)
  have crlf: "set b \<subseteq> {13, 10}"
  proof (rule ccontr)
    assume "\<not> set b \<subseteq> {13, 10}"
    moreover from this obtain c where "b = [c]" "line_break c" using b by (auto simp: line_end_def)
    ultimately have c: "c \<in> set old" "line_break c"
      using found tag_value_end [of l c updater_tag_key old] rstrip_crlf_line [OF l b] by (auto simp: line)
    with version_text [OF i(2) c(1)] show False by (auto simp: line_break_def)
  qed
  have rl: "rstrip_crlf (l @ b) = l" "l \<noteq> []"
    using crlf rstrip_crlf_line [OF l b] found by (auto simp: line environment_line_def Let_def split: if_splits)
  let ?new = "updater_tag_key @ 61 # tag"
  have upd: "?lines[i := ?new @ b] = map (\<lambda>(line, brk). line @ brk) (?ps[i := (?new, b)])"
    by (simp add: splitlines_keepends_def map_update)
  have "line_pairs [] (join_pairs (?ps[i := (?new, b)])) = ?ps[i := (?new, b)]"
  proof (rule line_pairs_join)
    show "well_ended (?ps[i := (?new, b)])"
      using line_pairs_well_ended n lb rl(2)
      by (intro well_ended_update) (simp_all add: splitlines_keepends_def)
    show "line_end brk \<and> (\<forall>c\<in>set x. \<not> line_break c)" if "(x, brk) \<in> set (?ps[i := (?new, b)])" for x brk
      using that set_update_subset_insert [of ?ps i "(?new, b)"] b tag_line(2) [OF assms(2)]
        line_pairs_end line_pairs_line [of x brk "[]" "text"] by fastforce
  qed
  then have "splitlines_keepends (concat (?lines[i := ?new @ b])) = ?lines[i := ?new @ b]"
    unfolding upd by (simp only: splitlines_keepends_def join_pairs_def)
  then show thesis
    using that [of i b] n found crlf b by (simp add: new line line_ending_def rl(1))
qed

lemma target_assignments:
  assumes "target_text tag text = Inr (old, new)" "version_ok tag"
  shows "assignments new = map (\<lambda>(k, v). (k, if k = updater_tag_key then tag else v)) (assignments text)"
    and "map_of (assignments text) updater_tag_key = Some old"
proof -
  let ?f = "\<lambda>line. environment_line (rstrip_crlf line)" and ?lines = "splitlines_keepends text"
  obtain i e where i: "i < length ?lines" "?f (?lines ! i) = Some (updater_tag_key, old)"
    and new: "splitlines_keepends new = ?lines[i := updater_tag_key @ 61 # tag @ e]"
    and e: "set e \<subseteq> {13, 10}" "line_end e"
    using target_text_lines [OF assms] .
  have d: "distinct (map fst (List.map_filter ?f ?lines))"
    using assms(1) scan_lines_distinct [of 0 ?lines "[]" None]
    by (auto simp: target_text_def Let_def bindE_Inr_iff)
  have "rstrip_crlf ((updater_tag_key @ 61 # tag) @ e) = updater_tag_key @ 61 # tag"
    by (subst rstrip_crlf_line) (use tag_line(2) [OF assms(2)] e in \<open>blast, simp_all\<close>)
  then have "?f (updater_tag_key @ 61 # tag @ e) = Some (updater_tag_key, tag)"
    using tag_line(1) [OF assms(2)] by simp
  from map_filter_update [OF d i this]
  show "assignments new = map (\<lambda>(k, v). (k, if k = updater_tag_key then tag else v)) (assignments text)"
    by (simp add: assignments_def new)
  have "(updater_tag_key, old) \<in> set (List.map_filter ?f ?lines)"
    using i nth_mem [OF i(1)] by (force simp: map_filter_def)
  with d show "map_of (assignments text) updater_tag_key = Some old"
    by (simp add: assignments_def)
qed

section \<open>What a capture leaves\<close>

lemma capture_facts:
  assumes "capture_files H app env compose tag original target old_tag_file stat_file t = (Inr (), t')"
  obtains m payload content old new m1 m2 m3 m4 where
    "map_of t env = Some (FileEntry m payload)" "st_mode m = 384" "st_uid m = 0" "length payload \<le> max_env_bytes"
    "utf8_decode payload = Some content" "target_text tag content = Inr (old, new)" "utf8_encode new \<noteq> payload"
    "t' = (stat_file, FileEntry m4 (stat_payload m)) # (old_tag_file, FileEntry m3 old)
       # (target, FileEntry m2 (utf8_encode new)) # (original, FileEntry m1 payload) # t"
    "distinct [stat_file, old_tag_file, target, original, env]"
    "map_of t original = None" "map_of t target = None" "map_of t old_tag_file = None" "map_of t stat_file = None"
    "\<exists>d. map_of t (parent_path original) = Some (DirEntry d)"
proof -
  from assms obtain m payload content old new t1 t2 t3 where
    e: "map_of t env = Some (FileEntry m payload)" "st_mode m = 384" "st_uid m = 0" "length payload \<le> max_env_bytes"
    and d: "decode_strict payload = Inr content" "target_text tag content = Inr (old, new)" "utf8_encode new \<noteq> payload"
    and w: "private_write H original payload t = (Inr (), t1)"
      "private_write H target (utf8_encode new) t1 = (Inr (), t2)"
      "private_write H old_tag_file old t2 = (Inr (), t3)"
      "private_write H stat_file (stat_payload m) t3 = (Inr (), t')"
    by (auto simp: capture_files_def swap_runs lstat_iff swap_read_iff split: option.splits)
  have decoded: "utf8_decode payload = Some content" using d(1) by (auto simp: decode_strict_def split: option.splits)
  show thesis
    using w e(1) by (intro that [OF e decoded d(2,3)]) (auto simp: private_write_iff split: if_splits)
qed

text \<open>
  C30. Preparing the updater's own update changes nothing but its tag: the prepared file has the
  assignments of the environment file in their order, with the new tag in the place of the
  old one, and the environment file itself is as it was and kept in a copy.
\<close>

theorem capture_changes_updater_tag:
  assumes "capture_environment H [app, env, compose, tag, original, target, old_tag_file, stat_file] t = (Inr (), t')"
    and "version_ok tag"
  shows "\<exists>m payload text new old m1 m2. map_of t env = Some (FileEntry m payload)
     \<and> utf8_decode payload = Some text
     \<and> map_of t' env = map_of t env \<and> map_of t' original = Some (FileEntry m1 payload)
     \<and> map_of t' target = Some (FileEntry m2 (utf8_encode new))
     \<and> map_of (assignments text) (lit ''FINREC_UPDATER_IMAGE_TAG'') = Some old \<and> version_ok old \<and> old \<noteq> tag
     \<and> assignments new
        = map (\<lambda>(k, v). (k, if k = lit ''FINREC_UPDATER_IMAGE_TAG'' then tag else v)) (assignments text)"
proof -
  have "capture_files H app env compose tag original target old_tag_file stat_file t = (Inr (), t')"
    using assms(1) by (simp add: capture_environment_def)
  then show ?thesis
  proof (rule capture_facts, goal_cases)
    case (1 m payload content old new m1 m2 m3 m4)
    then have "map_of t' env = map_of t env" "map_of t' original = Some (FileEntry m1 payload)"
      "map_of t' target = Some (FileEntry m2 (utf8_encode new))" by auto
    moreover have "version_ok old" "old \<noteq> tag"
      using 1(6) by (auto simp: target_text_def Let_def bindE_Inr_iff split: option.splits if_splits)
    ultimately show ?thesis
      using 1(1,5) target_assignments [OF 1(6) assms(2)] unfolding updater_tag_key_def
      by (intro exI [of _ m] exI [of _ payload] exI [of _ content] exI [of _ new] exI [of _ old] exI [of _ m1]
          exI [of _ m2] conjI)
  qed
qed

section \<open>A swap is all or nothing\<close>

lemma run_actions_simps [simp]:
  "run_actions [] s = (Inr (), s)"
  "run_actions (a # as) s = (case a s of (Inr _, s') \<Rightarrow> run_actions as s' | (Inl e, s') \<Rightarrow> (Inl e, s'))"
  by (auto simp: run_actions_def retM_def thenM_def bindM_def split: prod.splits sum.splits)

text \<open>
  Actions that run from \<open>P\<close> stop, killed or failing, where \<open>safe\<close> holds; a step goes from one
  condition to the next.
\<close>

definition safe_run :: "(swap \<Rightarrow> bool) \<Rightarrow> (swap \<Rightarrow> bool) \<Rightarrow> swap_action list \<Rightarrow> bool" where
  "safe_run safe P acts \<longleftrightarrow> (\<forall>k s. P s \<longrightarrow> safe (snd (run_actions (take k acts) s)))"

definition step_ok :: "(swap \<Rightarrow> bool) \<Rightarrow> (swap \<Rightarrow> bool) \<Rightarrow> swap_action \<Rightarrow> (swap \<Rightarrow> bool) \<Rightarrow> bool" where
  "step_ok safe P a Q \<longleftrightarrow> (\<forall>s. P s \<longrightarrow> (case a s of (Inr _, s') \<Rightarrow> Q s' | (Inl _, s') \<Rightarrow> safe s'))"

lemma safe_run_Nil: "(\<And>s. P s \<Longrightarrow> safe s) \<Longrightarrow> safe_run safe P []"
  by (simp add: safe_run_def)

lemma safe_run_Cons:
  assumes "step_ok safe P a Q" "\<And>s. P s \<Longrightarrow> safe s" "safe_run safe Q as"
  shows "safe_run safe P (a # as)"
proof -
  have "safe (snd (run_actions (take k (a # as)) s))" if "P s" for k s
    using assms that by (cases k) (auto simp: safe_run_def step_ok_def split: prod.splits sum.splits)
  then show ?thesis by (simp add: safe_run_def)
qed

lemma safe_run_conj: "(G \<Longrightarrow> safe_run safe P acts) \<Longrightarrow> safe_run safe (\<lambda>s. P s \<and> G) acts"
  by (auto simp: safe_run_def)

text \<open>What holds of a swap of \<open>path\<close>, which holds \<open>e\<close> in \<open>t\<close>.\<close>

definition good_old :: "bytes \<Rightarrow> int \<times> int \<Rightarrow> entry \<Rightarrow> bool" where
  "good_old expected x e \<longleftrightarrow> private_regular e \<and> entry_bytes e = expected \<and> is_expected (entry_stat e) x"

definition others_kept :: "host \<Rightarrow> tree \<Rightarrow> pystr \<Rightarrow> pystr \<Rightarrow> pystr option \<Rightarrow> swap \<Rightarrow> bool" where
  "others_kept H t path next_stat marker s \<longleftrightarrow>
     (\<forall>q. q \<noteq> path \<longrightarrow> map_of t q \<noteq> None \<longrightarrow> map_of (sw_tree s) q = map_of t q)
     \<and> (\<forall>q. map_of (sw_tree s) q \<noteq> None \<longrightarrow> map_of t q \<noteq> None \<or> marker = Some q \<or> q = next_stat
           \<or> (\<exists>u. q = ho_temp H u (parent_path path)))
     \<and> (\<forall>p. sw_temp s = Some p \<longrightarrow> p \<noteq> path \<and> map_of t p = None \<and> (\<exists>u. p = ho_temp H u (parent_path path)))"

definition new_file :: "bytes \<Rightarrow> entry option \<Rightarrow> bool" where
  "new_file source e \<longleftrightarrow> (\<exists>m. e = Some (FileEntry m source) \<and> st_mode m = 384 \<and> st_uid m = 0)"

lemma private_regular_iff:
  "private_regular e \<longleftrightarrow> (\<exists>m b. e = FileEntry m b \<and> st_mode m = 384 \<and> st_uid m = 0)"
  by (cases e) (auto simp: private_regular_def)

lemma take_more_eq: "take (Suc (length xs)) ys = xs \<longleftrightarrow> ys = xs"
proof
  assume h: "take (Suc (length xs)) ys = xs"
  then have "length (take (Suc (length xs)) ys) = length xs" by (rule arg_cong)
  then have "length ys \<le> length xs" by (simp add: min_def split: if_splits)
  with h show "ys = xs" by simp
qed simp

lemma validate_iff:
  "validate_current_environment p expected x t = (Inr u, t') \<longleftrightarrow>
     (\<exists>e. map_of t p = Some e \<and> good_old expected x e) \<and> t' = t"
  by (auto simp: validate_current_environment_def swap_runs lstat_iff open_nofollow_def good_old_def
      private_regular_iff same_file_def take_more_eq split: option.splits entry.splits)

lemma on_tree_step:
  "on_tree m s = (case m (sw_tree s) of (r, u) \<Rightarrow> (r, s\<lparr>sw_tree := u\<rparr>))"
  by (simp add: on_tree_def zoom_def)

lemma create_private_step:
  "create_private H p u = (if (\<exists>d. map_of u (parent_path p) = Some (DirEntry d)) \<and> map_of u p = None
     then (Inr (new_stat H u), (p, FileEntry (new_stat H u) []) # u) else (Inl SwapOSError, u))"
  by (auto simp: create_private_def split: option.splits entry.splits)

lemma others_create:
  assumes "others_kept H t path next_stat marker s" "map_of (sw_tree s) p = None"
    "marker = Some p \<or> p = next_stat \<or> (\<exists>u. p = ho_temp H u (parent_path path))"
  shows "others_kept H t path next_stat marker (s\<lparr>sw_tree := (p, en) # sw_tree s\<rparr>)"
    and "p \<noteq> path \<Longrightarrow> map_of t p = None"
proof -
  show "p \<noteq> path \<Longrightarrow> map_of t p = None"
    using assms(1,2) unfolding others_kept_def by (metis option.distinct(1))
  then show "others_kept H t path next_stat marker (s\<lparr>sw_tree := (p, en) # sw_tree s\<rparr>)"
    using assms by (auto simp: others_kept_def)
qed

lemma others_update:
  assumes "others_kept H t path next_stat marker s" "map_of t p = None \<or> p = path"
    "map_of (sw_tree s) p \<noteq> None"
  shows "others_kept H t path next_stat marker (s\<lparr>sw_tree := AList.update p en (sw_tree s)\<rparr>)"
  using assms by (auto simp: others_kept_def update_conv')

lemma others_delete:
  assumes "others_kept H t path next_stat marker s" "map_of t p = None"
  shows "others_kept H t path next_stat marker (s\<lparr>sw_tree := AList.delete p (sw_tree s)\<rparr>)"
  using assms by (auto simp: others_kept_def delete_conv')

lemma others_locals:
  assumes "others_kept H t path next_stat marker s"
  shows "others_kept H t path next_stat marker (s\<lparr>sw_temp_stat := m\<rparr>)"
    and "others_kept H t path next_stat marker (s\<lparr>sw_replaced := m\<rparr>)"
    and "others_kept H t path next_stat marker (s\<lparr>sw_temp := None\<rparr>)"
    and "p \<noteq> path \<Longrightarrow> map_of t p = None \<Longrightarrow> p = ho_temp H u (parent_path path) \<Longrightarrow>
      others_kept H t path next_stat marker (s\<lparr>sw_temp := Some p\<rparr>)"
  using assms by (auto simp: others_kept_def)

text \<open>
  The conditions between the actions: the old file in place; the same, and it is the expected
  one; the temporary file with a content; the new file in place.
\<close>

definition kept :: "host \<Rightarrow> tree \<Rightarrow> pystr \<Rightarrow> pystr \<Rightarrow> pystr option \<Rightarrow> entry \<Rightarrow> swap \<Rightarrow> bool" where
  "kept H t path next_stat marker e s \<longleftrightarrow>
     others_kept H t path next_stat marker s \<and> map_of (sw_tree s) path = Some e"

definition filling ::
    "host \<Rightarrow> tree \<Rightarrow> pystr \<Rightarrow> pystr \<Rightarrow> pystr option \<Rightarrow> entry \<Rightarrow> (file_stat \<Rightarrow> bool) \<Rightarrow> bytes \<Rightarrow> swap \<Rightarrow> bool" where
  "filling H t path next_stat marker e ok b s \<longleftrightarrow> kept H t path next_stat marker e s
     \<and> (\<exists>p m. sw_temp s = Some p \<and> map_of (sw_tree s) p = Some (FileEntry m b) \<and> ok m)"

definition replaced :: "host \<Rightarrow> tree \<Rightarrow> pystr \<Rightarrow> pystr \<Rightarrow> pystr option \<Rightarrow> bytes \<Rightarrow> swap \<Rightarrow> bool" where
  "replaced H t path next_stat marker source s \<longleftrightarrow>
     others_kept H t path next_stat marker s \<and> new_file source (map_of (sw_tree s) path)"

text \<open>Where a swap may stop.\<close>

definition sound_stop ::
    "host \<Rightarrow> tree \<Rightarrow> pystr \<Rightarrow> pystr \<Rightarrow> pystr option \<Rightarrow> entry \<Rightarrow> bytes \<Rightarrow> bytes \<Rightarrow> int \<times> int \<Rightarrow> swap \<Rightarrow> bool" where
  "sound_stop H t path next_stat marker e source expected x s \<longleftrightarrow>
     kept H t path next_stat marker e s
     \<or> good_old expected x e \<and> replaced H t path next_stat marker source s"

named_theorems steps \<open>the actions of a swap\<close>

lemma step_marker [steps]:
  "step_ok S (kept H t path next_stat (Some p) e) (thenM (on_tree (create_private H p)) (retM ()))
     (\<lambda>s. kept H t path next_stat (Some p) e s \<and> p \<noteq> path \<and> map_of t p = None)"
  if "\<And>s. kept H t path next_stat (Some p) e s \<Longrightarrow> S s"
  using that others_create [of H t path next_stat "Some p" _ p]
  by (auto simp: step_ok_def thenM_def bindM_def on_tree_step create_private_step retM_def kept_def)

lemma step_write_marker [steps]:
  "step_ok S (\<lambda>s. kept H t path next_stat marker e s \<and> p \<noteq> path \<and> map_of t p = None)
     (on_tree (write_file p b)) (kept H t path next_stat marker e)"
  if "\<And>s. kept H t path next_stat marker e s \<Longrightarrow> S s"
  using that others_update [of H t path next_stat marker _ p]
  by (auto simp: step_ok_def on_tree_step write_file_def kept_def update_conv'
      split: option.splits entry.splits)

lemma step_fsync [steps]:
  "step_ok S P (on_tree (fsync_directory p)) P" if "\<And>s. P s \<Longrightarrow> S s"
  using that by (auto simp: step_ok_def on_tree_step fsync_directory_def split: option.splits entry.splits)

lemma step_validate [steps]:
  "step_ok S P (on_tree (validate_current_environment path expected x)) (\<lambda>s. P s \<and> good_old expected x e)"
  if S: "\<And>s. P s \<Longrightarrow> S s" and P: "\<And>s. P s \<Longrightarrow> map_of (sw_tree s) path = Some e"
proof -
  have "u' = u" if "validate_current_environment path expected x u = (r, u')" for u r u'
    using that by (auto simp: validate_current_environment_def bindM_def thenM_def lstat_def raise_whenM_def
        open_nofollow_def split: option.splits entry.splits prod.splits sum.splits)
  note same = this
  have "S s'" if "P s" "on_tree (validate_current_environment path expected x) s = (Inl er, s')" for s s' er
    using that S by (auto simp: on_tree_step dest!: same split: prod.splits)
  moreover have "P s' \<and> good_old expected x e"
    if "P s" "on_tree (validate_current_environment path expected x) s = (Inr u, s')" for s s' u
    using that P [OF that(1)] by (auto simp: on_tree_step validate_iff split: prod.splits)
  ultimately show ?thesis
    by (auto simp: step_ok_def split: prod.splits sum.splits)
qed

lemma step_make_temp [steps]:
  "step_ok S (kept H t path next_stat marker e) (make_temp H path)
     (filling H t path next_stat marker e (\<lambda>m. True) [])"
  if S: "\<And>s. kept H t path next_stat marker e s \<Longrightarrow> S s"
proof -
  have "case make_temp H path s of
      (Inr u, s') \<Rightarrow> filling H t path next_stat marker e (\<lambda>m. True) [] s' | (Inl er, s') \<Rightarrow> S s'"
    if k: "kept H t path next_stat marker e s" for s
  proof -
    let ?p = "temp_path H path s" and ?m = "new_stat H (sw_tree s)"
    let ?s1 = "s\<lparr>sw_tree := (?p, FileEntry ?m []) # sw_tree s\<rparr>"
    have run: "make_temp H path s =
      (if (\<exists>d. map_of (sw_tree s) (parent_path ?p) = Some (DirEntry d)) \<and> map_of (sw_tree s) ?p = None
       then (Inr (), ?s1\<lparr>sw_temp := Some ?p\<rparr>) else (Inl SwapOSError, s))"
      by (simp add: make_temp_def bindM_def thenM_def readM_def store_local_def on_tree_step create_private_step)
    have "filling H t path next_stat marker e (\<lambda>m. True) [] (?s1\<lparr>sw_temp := Some ?p\<rparr>)"
      if free: "map_of (sw_tree s) ?p = None"
    proof -
      have p: "?p \<noteq> path" using k free by (auto simp: kept_def)
      have "others_kept H t path next_stat marker ?s1" "map_of t ?p = None"
        using k free p others_create [of H t path next_stat marker s ?p] by (auto simp: kept_def temp_path_def)
      then show ?thesis
        using k p others_locals(4) [of H t path next_stat marker ?s1 ?p "sw_tree s"]
        by (auto simp: filling_def kept_def temp_path_def)
    qed
    then show ?thesis using S [OF k] by (simp add: run)
  qed
  then show ?thesis by (simp add: step_ok_def)
qed

lemma filling_update:
  assumes "filling H t path next_stat marker e ok b s" "sw_temp s = Some p"
    "\<And>m. ok m \<Longrightarrow> map_of (sw_tree s) p = Some (FileEntry m b) \<Longrightarrow> ok' (f m)"
  obtains m where "map_of (sw_tree s) p = Some (FileEntry m b)" "ok m" "p \<noteq> path"
    "filling H t path next_stat marker e ok' c (s\<lparr>sw_tree := AList.update p (FileEntry (f m) c) (sw_tree s)\<rparr>)"
proof -
  obtain m where m: "map_of (sw_tree s) p = Some (FileEntry m b)" "ok m"
    and k: "others_kept H t path next_stat marker s" "map_of (sw_tree s) path = Some e"
    using assms(1,2) by (auto simp: filling_def kept_def)
  have p: "p \<noteq> path" "map_of t p = None" using k(1) assms(2) by (auto simp: others_kept_def)
  have "others_kept H t path next_stat marker (s\<lparr>sw_tree := AList.update p (FileEntry (f m) c) (sw_tree s)\<rparr>)"
    using others_update [OF k(1)] p(2) m(1) by simp
  then show thesis
    using k(2) p(1) assms(2,3) m by (intro that [OF m p(1)]) (auto simp: filling_def kept_def update_conv')
qed

lemma with_temp_step: "sw_temp s = Some p \<Longrightarrow> with_temp f s = on_tree (f p) s"
  by (simp add: with_temp_def bindM_def readM_def)

lemma step_chmod [steps]:
  "step_ok S (filling H t path next_stat marker e (\<lambda>m. True) b) (with_temp chmod_private)
     (filling H t path next_stat marker e (\<lambda>m. st_mode m = 384) b)"
proof -
  have "\<exists>s'. with_temp chmod_private s = (Inr (), s') \<and> filling H t path next_stat marker e (\<lambda>m. st_mode m = 384) b s'"
    if f: "filling H t path next_stat marker e (\<lambda>m. True) b s" for s
  proof -
    obtain p where p: "sw_temp s = Some p" using f by (auto simp: filling_def)
    show ?thesis
      by (rule filling_update [OF f p, of "\<lambda>m. st_mode m = 384" "\<lambda>m. m\<lparr>st_mode := 384\<rparr>" b])
        (simp_all add: with_temp_step [OF p] on_tree_step chmod_private_def)
  qed
  then show ?thesis by (fastforce simp: step_ok_def)
qed

lemma step_write_temp [steps]:
  "step_ok S (filling H t path next_stat marker e ok []) (with_temp (\<lambda>tmp. write_file tmp b))
     (filling H t path next_stat marker e ok b)"
proof -
  have "\<exists>s'. with_temp (\<lambda>tmp. write_file tmp b) s = (Inr (), s') \<and> filling H t path next_stat marker e ok b s'"
    if f: "filling H t path next_stat marker e ok [] s" for s
  proof -
    obtain p where p: "sw_temp s = Some p" using f by (auto simp: filling_def)
    show ?thesis
      by (rule filling_update [OF f p, of ok "\<lambda>m. m" b])
        (simp_all add: with_temp_step [OF p] on_tree_step write_file_def)
  qed
  then show ?thesis by (fastforce simp: step_ok_def)
qed

lemma step_check_temp [steps]:
  "step_ok S (filling H t path next_stat marker e (\<lambda>m. st_mode m = 384) b) (check_temp x)
     (filling H t path next_stat marker e (\<lambda>m. st_mode m = 384 \<and> st_uid m = 0) b)"
  if S: "\<And>s. kept H t path next_stat marker e s \<Longrightarrow> S s"
proof -
  have "case check_temp x s of
      (Inr u, s') \<Rightarrow> filling H t path next_stat marker e (\<lambda>m. st_mode m = 384 \<and> st_uid m = 0) b s'
    | (Inl er, s') \<Rightarrow> S s'"
    if f: "filling H t path next_stat marker e (\<lambda>m. st_mode m = 384) b s" for s
  proof -
    obtain p m where p: "sw_temp s = Some p" "map_of (sw_tree s) p = Some (FileEntry m b)"
      using f by (auto simp: filling_def)
    have k: "kept H t path next_stat marker e (s\<lparr>sw_temp_stat := m\<rparr>)"
      using f others_locals(1) by (auto simp: filling_def kept_def)
    then show ?thesis
      using f p S [OF k] by (auto simp: check_temp_def bindM_def thenM_def with_temp_step on_tree_step lstat_def
          store_local_def raise_whenM_def filling_def private_regular_iff)
  qed
  then show ?thesis by (simp add: step_ok_def)
qed

lemma step_rename [steps]:
  "step_ok S (filling H t path next_stat marker e (\<lambda>m. st_mode m = 384 \<and> st_uid m = 0) b) (rename_temp path)
     (replaced H t path next_stat marker b)"
  if S: "\<And>s. kept H t path next_stat marker e s \<Longrightarrow> S s"
proof -
  have "case rename_temp path s of
      (Inr u, s') \<Rightarrow> replaced H t path next_stat marker b s' | (Inl er, s') \<Rightarrow> S s'"
    if f: "filling H t path next_stat marker e (\<lambda>m. st_mode m = 384 \<and> st_uid m = 0) b s" for s
  proof -
    obtain p m where p: "sw_temp s = Some p" "map_of (sw_tree s) p = Some (FileEntry m b)"
      and m: "st_mode m = 384" "st_uid m = 0" and k: "others_kept H t path next_stat marker s"
      "map_of (sw_tree s) path = Some e"
      using f by (auto simp: filling_def kept_def)
    have q: "p \<noteq> path" "map_of t p = None" using k(1) p(1) by (auto simp: others_kept_def)
    let ?s1 = "s\<lparr>sw_tree := AList.delete p (sw_tree s)\<rparr>"
    let ?s2 = "?s1\<lparr>sw_tree := AList.update path (FileEntry m b) (sw_tree ?s1)\<rparr>"
    have "others_kept H t path next_stat marker ?s2"
      using others_update [OF others_delete [OF k(1) q(2)], of path] k(2) q(1) by (simp add: delete_conv')
    then have r: "replaced H t path next_stat marker b (?s2\<lparr>sw_temp := None\<rparr>)"
      using others_locals(3) m by (auto simp: replaced_def new_file_def update_conv')
    have "rename_temp path s = (Inr (), ?s2\<lparr>sw_temp := None\<rparr>) \<or> (\<exists>er. rename_temp path s = (Inl er, s))"
      using p k(2) by (cases e)
        (auto simp: rename_temp_def bindM_def thenM_def with_temp_step on_tree_step rename_file_def store_local_def)
    then show ?thesis
      using r S [of s] k by (auto simp: kept_def)
  qed
  then show ?thesis by (simp add: step_ok_def)
qed

lemma step_check_replaced [steps]:
  "step_ok S (replaced H t path next_stat marker b) (check_replaced path c x) (replaced H t path next_stat marker b)"
  if S: "\<And>s. replaced H t path next_stat marker b s \<Longrightarrow> S s"
proof -
  have same: "u' = u" if "validate_replaced_environment path c x m u = (r, u')" for m u r u'
    using that by (auto simp: validate_replaced_environment_def bindM_def thenM_def lstat_def raise_whenM_def
        open_nofollow_def retM_def split: option.splits entry.splits prod.splits sum.splits if_splits)
  have "case check_replaced path c x s of
      (Inr u, s') \<Rightarrow> replaced H t path next_stat marker b s' | (Inl er, s') \<Rightarrow> S s'"
    if r: "replaced H t path next_stat marker b s" for s
    using r S [OF r] others_locals(2)
    by (auto simp: check_replaced_def bindM_def readM_def on_tree_step store_local_def replaced_def
        dest!: same split: prod.splits sum.splits)
  then show ?thesis by (simp add: step_ok_def)
qed

lemma step_next [steps]:
  "step_ok S (replaced H t path next_stat marker b) (thenM (on_tree (create_private H next_stat)) (retM ()))
     (\<lambda>s. replaced H t path next_stat marker b s \<and> next_stat \<noteq> path \<and> map_of t next_stat = None)"
  if "\<And>s. replaced H t path next_stat marker b s \<Longrightarrow> S s"
  using that others_create [of H t path next_stat marker _ next_stat]
  by (auto simp: step_ok_def thenM_def bindM_def on_tree_step create_private_step retM_def replaced_def new_file_def)

lemma step_write_next [steps]:
  "step_ok S (\<lambda>s. replaced H t path next_stat marker b s \<and> next_stat \<noteq> path \<and> map_of t next_stat = None)
     (bindM (readM sw_replaced) (\<lambda>r. on_tree (write_file next_stat (stat_payload r))))
     (replaced H t path next_stat marker b)"
  if "\<And>s. replaced H t path next_stat marker b s \<Longrightarrow> S s"
  using that others_update [of H t path next_stat marker _ next_stat]
  by (auto simp: step_ok_def bindM_def readM_def on_tree_step write_file_def replaced_def new_file_def update_conv'
      split: option.splits entry.splits)

text \<open>The whole chain.\<close>

lemma stop_kept: "kept H t path next_stat marker e s \<Longrightarrow> sound_stop H t path next_stat marker e source expected x s"
  by (simp add: sound_stop_def)

lemma stop_filling:
  "filling H t path next_stat marker e ok b s \<Longrightarrow> sound_stop H t path next_stat marker e source expected x s"
  by (simp add: sound_stop_def filling_def)

lemma replace_tail:
  fixes H t path next_stat marker e source expected x
  defines "S \<equiv> sound_stop H t path next_stat marker e source expected x"
  shows "safe_run S (kept H t path next_stat marker e)
    (replace_actions H path source expected x next_stat None)"
proof -
  let ?K = "kept H t path next_stat marker e" and ?F = "filling H t path next_stat marker e"
  have k: "?K s \<Longrightarrow> S s" for s by (simp add: S_def stop_kept)
  have f: "?F ok b s \<Longrightarrow> S s" for ok b s unfolding S_def by (rule stop_filling)
  have e: "?F ok b s \<Longrightarrow> map_of (sw_tree s) path = Some e" for ok b s
    by (simp add: filling_def kept_def)
  show ?thesis
    unfolding replace_actions_def marker_actions_def option.simps append_Nil
  proof (rule safe_run_Cons [OF step_validate k safe_run_conj])
    assume g: "good_old expected x e"
    have r: "replaced H t path next_stat marker source s \<Longrightarrow> S s" for s
      using g by (simp add: S_def sound_stop_def)
    show "safe_run S ?K [make_temp H path, with_temp chmod_private, with_temp (\<lambda>tmp. write_file tmp source),
        check_temp x, on_tree (validate_current_environment path expected x), rename_temp path,
        on_tree (fsync_directory (parent_path path)), check_replaced path source x,
        thenM (on_tree (create_private H next_stat)) (retM ()),
        bindM (readM sw_replaced) (\<lambda>r. on_tree (write_file next_stat (stat_payload r)))]"
      by (rule safe_run_Cons safe_run_Nil safe_run_conj [where G = "good_old expected x e"]
          step_make_temp step_chmod step_write_temp step_check_temp
          step_validate [where P = "?F (\<lambda>m. st_mode m = 384 \<and> st_uid m = 0) source" and e = e] step_rename
          step_fsync step_check_replaced step_next step_write_next k f e r; (erule conjunct1)?; assumption?)+
  qed (auto simp: k kept_def)
qed

lemma replace_actions_marker:
  "replace_actions H path source expected x next_stat (Some p)
    = thenM (on_tree (create_private H p)) (retM ()) # on_tree (write_file p (lit ''recovery-required''))
      # on_tree (fsync_directory (parent_path p)) # replace_actions H path source expected x next_stat None"
  by (simp add: replace_actions_def marker_actions_def)

lemma replace_safe:
  "safe_run (sound_stop H t path next_stat marker e source expected x) (kept H t path next_stat marker e)
    (replace_actions H path source expected x next_stat marker)"
proof (cases marker)
  case None
  then show ?thesis using replace_tail by simp
next
  case (Some p)
  let ?S = "sound_stop H t path next_stat (Some p) e source expected x" and ?K = "kept H t path next_stat (Some p) e"
  have k: "?K s \<Longrightarrow> ?S s" for s by (rule stop_kept)
  have "safe_run ?S ?K (replace_actions H path source expected x next_stat (Some p))"
    unfolding replace_actions_marker
    by (rule safe_run_Cons step_marker step_write_marker step_fsync k replace_tail; (erule conjunct1)?; assumption?)+
  then show ?thesis using Some by simp
qed

lemma kept_start: "map_of t path = Some e \<Longrightarrow> kept H t path next_stat marker e (swap_start t)"
  by (auto simp: kept_def others_kept_def swap_start_def)

lemma stop_unlink:
  assumes "sound_stop H t path next_stat marker e source expected x s"
  shows "sound_stop H t path next_stat marker e source expected x (s\<lparr>sw_tree := remove_temp s\<rparr>)"
proof (cases "sw_temp s")
  case (Some p)
  have o: "others_kept H t path next_stat marker s" using assms by (auto simp: sound_stop_def kept_def replaced_def)
  then have "p \<noteq> path" "map_of t p = None" using Some by (auto simp: others_kept_def)
  with assms Some others_delete [OF o] show ?thesis
    by (auto simp: sound_stop_def kept_def replaced_def remove_temp_def unlink_missing_ok_def delete_conv')
qed (use assms in \<open>simp add: remove_temp_def\<close>)

text \<open>The files after a swap that ended or was killed: a sound stop, or no change at all.\<close>

lemma replace_inputs_iff:
  "replace_inputs args t = (Inr (source, expected, x), t') \<longleftrightarrow>
     (\<exists>m1 m2 m3 b. map_of t (args ! 1) = Some (FileEntry m1 source)
        \<and> map_of t (args ! 2) = Some (FileEntry m2 expected)
        \<and> map_of t (args ! 3) = Some (FileEntry m3 b) \<and> parse_expected b = Inr x) \<and> t' = t"
  by (auto simp: replace_inputs_def expected_environment_stat_def swap_runs read_bytes_iff)

lemma replace_inputs_keeps: "replace_inputs args t = (r, t') \<Longrightarrow> t' = t"
  by (auto simp: replace_inputs_def expected_environment_stat_def bindM_def liftM_def retM_def read_bytes_def
      split: prod.splits sum.splits option.splits entry.splits)

lemma replace_plan_cases:
  assumes "replace_plan H args t = (r, t')"
  obtains (fails) er where "r = Inl er" "t' = t"
    | (plan) source expected x m1 m2 where "r = Inr (replace_actions H (args ! 0) source expected x (args ! 4) (marker_argument args))"
      "t' = t" "replace_inputs args t = (Inr (source, expected, x), t)" "length args = 5 \<or> length args = 6"
      "map_of t (args ! 1) = Some (FileEntry m1 source)" "map_of t (args ! 2) = Some (FileEntry m2 expected)"
proof -
  have "(\<exists>er. r = Inl er \<and> t' = t)
    \<or> (\<exists>source expected x. r = Inr (replace_actions H (args ! 0) source expected x (args ! 4) (marker_argument args))
         \<and> t' = t \<and> replace_inputs args t = (Inr (source, expected, x), t) \<and> (length args = 5 \<or> length args = 6))"
    using assms
    by (auto simp: replace_plan_def thenM_def bindM_def raise_whenM_def retM_def dest: replace_inputs_keeps
        split: prod.splits sum.splits if_splits)
  then show thesis
    using fails plan by (auto simp: replace_inputs_iff)
qed

lemma replace_stops:
  assumes "map_of t (args ! 0) = Some e"
    and "t' = snd (replace_environment H args t) \<or> t' = replace_killed H args k t"
  obtains (unchanged) "t' = t"
    | (stopped) source expected x m1 m2 s where "t' = sw_tree s"
      "sound_stop H t (args ! 0) (args ! 4) (marker_argument args) e source expected x s"
      "replace_inputs args t = (Inr (source, expected, x), t)"
      "map_of t (args ! 1) = Some (FileEntry m1 source)" "map_of t (args ! 2) = Some (FileEntry m2 expected)"
proof -
  obtain r t1 where plan: "replace_plan H args t = (r, t1)" by fastforce
  then show thesis
  proof (cases rule: replace_plan_cases)
    case fails
    then show ?thesis
      using plan assms(2) unchanged by (auto simp: replace_environment_def replace_killed_def bindM_def)
  next
    case (plan source expected x m1 m2)
    let ?acts = "replace_actions H (args ! 0) source expected x (args ! 4) (marker_argument args)"
    let ?S = "sound_stop H t (args ! 0) (args ! 4) (marker_argument args) e source expected x"
    have stops: "?S (snd (run_actions (take n ?acts) (swap_start t)))" for n
      using replace_safe kept_start [OF assms(1)] unfolding safe_run_def by blast
    obtain r' s where run: "run_actions ?acts (swap_start t) = (r', s)" by fastforce
    from assms(2) consider "t' = remove_temp s" | "t' = sw_tree (snd (run_actions (take k ?acts) (swap_start t)))"
      using plan(1,2) run \<open>replace_plan H args t = (r, t1)\<close>
      by (auto simp: replace_environment_def replace_killed_def bindM_def)
    then show ?thesis
    proof cases
      case 1
      have "?S s" using stops [of "length ?acts"] run by simp
      from stop_unlink [OF this] have "?S (s\<lparr>sw_tree := remove_temp s\<rparr>)" .
      with 1 show ?thesis
        by (intro stopped [OF _ _ plan(3,5,6), of "s\<lparr>sw_tree := remove_temp s\<rparr>"]) simp_all
    next
      case 2
      then show ?thesis by (rule stopped) (rule stops plan)+
    qed
  qed
qed

lemma swap_outcome:
  assumes "map_of t env = Some e"
    and "t' = snd (replace_environment H [env, source_file, expected_file, stat_file, next_stat, marker] t)
       \<or> t' = replace_killed H [env, source_file, expected_file, stat_file, next_stat, marker] k t"
  shows "(map_of t' env = Some e
      \<or> (\<exists>m old n content m1 m2. e = FileEntry m old \<and> st_mode m = 384 \<and> st_uid m = 0
           \<and> map_of t expected_file = Some (FileEntry m1 old)
           \<and> map_of t source_file = Some (FileEntry m2 content)
           \<and> map_of t' env = Some (FileEntry n content) \<and> st_mode n = 384 \<and> st_uid n = 0))
    \<and> (\<forall>q. q \<noteq> env \<and> map_of t q \<noteq> None \<longrightarrow> map_of t' q = map_of t q)"
proof -
  let ?args = "[env, source_file, expected_file, stat_file, next_stat, marker]"
  have e: "map_of t (?args ! 0) = Some e" using assms(1) by simp
  from e assms(2) show ?thesis
  proof (rule replace_stops)
    assume "t' = t"
    with assms(1) show ?thesis by simp
  next
    fix source expected x m1 m2 s
    assume t': "t' = sw_tree s" and r: "replace_inputs ?args t = (Inr (source, expected, x), t)"
      and s: "sound_stop H t (?args ! 0) (?args ! 4) (marker_argument ?args) e source expected x s"
      and f: "map_of t (?args ! 1) = Some (FileEntry m1 source)" "map_of t (?args ! 2) = Some (FileEntry m2 expected)"
    have "\<forall>q. q \<noteq> env \<and> map_of t q \<noteq> None \<longrightarrow> map_of t' q = map_of t q"
      using s by (auto simp: t' sound_stop_def kept_def replaced_def others_kept_def)
    then show ?thesis
      using s f by (auto simp: t' sound_stop_def kept_def replaced_def new_file_def good_old_def private_regular_iff)
  qed
qed

text \<open>
  C31. Swapping the environment file is all or nothing. Whether the swap ends, fails or is killed
  after any of its steps, the file is the old one, untouched, or it holds the whole new content
  and is private; and it is the new one only where the old one was the private file with the
  expected content. Every other file that was there keeps its content.
\<close>

theorem swap_all_or_nothing:
  assumes "map_of t env = Some e"
    and "t' = snd (replace_environment H [env, source_file, expected_file, stat_file, next_stat, marker] t)
       \<or> t' = replace_killed H [env, source_file, expected_file, stat_file, next_stat, marker] k t"
  shows "(map_of t' env = Some e
      \<or> (\<exists>m old n content m1 m2. e = FileEntry m old \<and> st_mode m = 384 \<and> st_uid m = 0
           \<and> map_of t expected_file = Some (FileEntry m1 old)
           \<and> map_of t source_file = Some (FileEntry m2 content)
           \<and> map_of t' env = Some (FileEntry n content) \<and> st_mode n = 384 \<and> st_uid n = 0))
    \<and> (\<forall>q. q \<noteq> env \<and> map_of t q \<noteq> None \<longrightarrow> map_of t' q = map_of t q)"
  by (rule swap_outcome [OF assms])

end
