(* ===== verification/Env_Swap_Recovery.thy ===== *)
theory Env_Swap_Recovery
  imports Env_Swap_Proofs
begin

text \<open>
  The recovery of the updater's own update: on a host that draws unused names and numbers, a
  swap killed after any step is classified, and what the classification leaves is enough to
  put the captured file back.
\<close>

section \<open>A host that works\<close>

text \<open>
  The helper runs as root; a drawn name is free in its directory; and while there are fewer
  than \<open>2 ^ 32\<close> files, a new file gets numbers that no other file has.
\<close>

definition file_ids :: "tree \<Rightarrow> (64 word \<times> 64 word) set" where
  "file_ids t = (\<lambda>(p, e). lock_id (entry_stat e)) ` set t"

definition healthy_host :: "host \<Rightarrow> bool" where
  "healthy_host H \<longleftrightarrow> ho_uid H = 0
     \<and> (\<forall>t d. map_of t (ho_temp H t d) = None \<and> (d \<noteq> [] \<longrightarrow> parent_path (ho_temp H t d) = d))
     \<and> (\<forall>t. length t < 2 ^ 32 \<longrightarrow> ho_draw H t \<notin> file_ids t)"

lemma parent_path_nonempty [simp]: "parent_path p \<noteq> []"
  by (simp add: parent_path_def Let_def)

lemma new_stat_private [simp]:
  "healthy_host H \<Longrightarrow> private_regular (FileEntry (new_stat H t) b)" "st_mode (new_stat H t) = 384"
  by (simp_all add: new_stat_def private_regular_def healthy_host_def)

lemma new_stat_chmod [simp]: "new_stat H t\<lparr>st_mode := 384\<rparr> = new_stat H t"
  by (simp add: new_stat_def)

lemma new_stat_fresh:
  assumes "healthy_host H" "length t < 2 ^ 32" "map_of t p = Some e"
  shows "\<not> same_file (new_stat H t) (entry_stat e)"
proof -
  have "lock_id (entry_stat e) \<in> file_ids t"
    using map_of_SomeD [OF assms(3)] by (force simp: file_ids_def)
  then have "lock_id (new_stat H t) \<noteq> lock_id (entry_stat e)"
    using assms(1,2) by (auto simp: healthy_host_def new_stat_def lock_id_def)
  then show ?thesis by (auto simp: same_file_def lock_id_def)
qed

lemma expected_same: "is_expected m x \<Longrightarrow> is_expected n x \<Longrightarrow> same_file n m"
  by (auto simp: is_expected_def same_file_def word_uint_eq_iff)

section \<open>The file of the status\<close>

lemma length_nat_digits: "n < 10 ^ k \<Longrightarrow> 0 < k \<Longrightarrow> length (nat_digits n) \<le> k"
proof (induction n arbitrary: k rule: nat_digits.induct)
  case (1 n)
  show ?case
  proof (cases "n < 10")
    case False
    then obtain j where j: "k = Suc j" using 1(3) by (cases k) auto
    with False 1(2) have "0 < j" by (cases j) auto
    moreover have "n div 10 < 10 ^ j" using 1(2) j by (simp add: less_mult_imp_div_less)
    ultimately have "length (nat_digits (n div 10)) \<le> j" using 1(1) [OF False] by blast
    then show ?thesis using False j by (subst nat_digits.simps) simp
  qed (use 1(3) in \<open>subst nat_digits.simps, simp\<close>)
qed

lemma parse_stat_payload:
  assumes "st_mode m = 384" "st_uid m = 0"
  shows "parse_expected (stat_payload m) = Inr (uint (st_dev m), uint (st_ino m))"
proof -
  let ?j = "JObj [(lit ''device'', JInt (uint (st_dev m))), (lit ''inode'', JInt (uint (st_ino m))),
     (lit ''mode'', JInt (int (st_mode m))), (lit ''uid'', JInt (int (st_uid m)))]"
  have few: "length (nat_digits n) \<le> 4300" if "n < 10 ^ 20" for n
    using length_nat_digits [OF that] by simp
  have "unat w < 2 ^ LENGTH(64)" for w :: "64 word" by (rule unsigned_less)
  then have "length (str_nat (nat \<bar>uint w\<bar>)) \<le> 4300" for w :: "64 word"
    using few [of "unat w"] by (simp add: str_nat_def less_trans [of _ "2 ^ 64"])
  then have "json_plain ?j"
    using few [of 384] few [of 0] assms by (simp add: str_nat_def lit_def scalar_def)
  moreover have "no_duplicates ?j" by (simp add: lit_def)
  ultimately have "json_loads (json_dumps ?j) = Some ?j" by (rule json_loads_dumps)
  then have "json_loads (stat_payload m) = Some ?j" by (simp only: stat_payload_def)
  moreover have "ascii_decode (stat_payload m) = Some (stat_payload m)"
    using dumps_ascii(1) [OF \<open>json_plain ?j\<close>] by (simp only: stat_payload_def ascii_decode_def if_True ball_simps) simp
  moreover have "read_expected ?j = Some (uint (st_dev m), uint (st_ino m))"
    using assms by (simp add: read_expected_def lit_def)
  ultimately show ?thesis by (simp add: parse_expected_def)
qed

section \<open>A swap that is not disturbed\<close>

lemma swap_effects:
  "thenM m n s = (case m s of (Inl e, s') \<Rightarrow> (Inl e, s') | (Inr x, s') \<Rightarrow> n s')"
  "bindM m' f s = (case m' s of (Inl e, s') \<Rightarrow> (Inl e, s') | (Inr x, s') \<Rightarrow> f x s')"
  "retM x s = (Inr x, s)" "readM g s = (Inr (g s), s)"
  "raise_whenM b er s = (if b then Inl er else Inr (), s)"
  by (simp_all add: thenM_def bindM_def retM_def readM_def raise_whenM_def)

lemma store_local_step: "store_local h s = (Inr (), h s)"
  by (simp add: store_local_def)

lemma replace_undisturbed:
  assumes "healthy_host H" "length t + 2 < 2 ^ 32"
    and old: "map_of t path = Some e" "good_old expected x e"
    and dirs: "map_of t (parent_path path) = Some (DirEntry d)" "map_of t (parent_path next_stat) = Some (DirEntry d')"
    and "map_of t next_stat = None" "sw_tree s = t"
  shows "\<exists>s' n. run_actions (replace_actions H path source expected x next_stat None) s = (Inr (), s')
    \<and> sw_temp s' = None \<and> map_of (sw_tree s') path = Some (FileEntry n source) \<and> st_mode n = 384 \<and> st_uid n = 0"
proof -
  let ?p = "ho_temp H t (parent_path path)" and ?n = "new_stat H t"
  have p: "map_of t ?p = None" "parent_path ?p = parent_path path" using assms(1) by (auto simp: healthy_host_def)
  have ne: "?p \<noteq> path" "parent_path path \<noteq> path" "?p \<noteq> parent_path path" "next_stat \<noteq> path"
    "parent_path next_stat \<noteq> path" "?p \<noteq> parent_path next_stat"
    using p old dirs assms(7) by (auto simp: good_old_def private_regular_iff)
  have fresh: "\<not> is_expected ?n x"
    using new_stat_fresh [OF assms(1) _ old(1)] expected_same [of "entry_stat e" x ?n] old(2) assms(2)
    by (auto simp: good_old_def)
  have v: "validate_current_environment path expected x u = (Inr (), u)" if "map_of u path = Some e" for u
    using validate_iff [of path expected x u "()" u] old(2) that by auto
  have gone: "AList.delete ?p t = t" using p(1) by (simp add: delete_idem map_of_eq_None_iff)
  let ?u1 = "(?p, FileEntry ?n []) # t" and ?u2 = "(?p, FileEntry ?n source) # t"
  let ?u3 = "AList.update path (FileEntry ?n source) t"
  have r: "validate_replaced_environment path source x ?n ?u3 = (Inr ?n, ?u3)"
    using fresh assms(1) by (simp add: validate_replaced_environment_def swap_effects lstat_def open_nofollow_def
        update_conv' same_file_def take_more_eq)
  obtain m where e: "e = FileEntry m expected" using old(2) by (auto simp: good_old_def private_regular_iff)
  have "private_regular (FileEntry ?n source)" using assms(1) by simp
  then show ?thesis
    using assms(7,8) p ne fresh v gone r dirs old(1) e
    by (simp add: replace_actions_def marker_actions_def on_tree_step make_temp_def swap_effects store_local_step temp_path_def
        create_private_step with_temp_step chmod_private_def write_file_def check_temp_def lstat_def
        rename_temp_def rename_file_def fsync_directory_def check_replaced_def update_conv' 
        private_regular_iff)
qed

lemma replace_with_marker:
  assumes "healthy_host H" "length t + 3 < 2 ^ 32"
    and old: "map_of t path = Some e" "good_old expected x e"
    and dirs: "map_of t (parent_path path) = Some (DirEntry d)" "map_of t (parent_path next_stat) = Some (DirEntry d')"
    and "map_of t next_stat = None"
    and marker: "\<And>p. marker = Some p \<Longrightarrow> map_of t p = None \<and> p \<noteq> next_stat
      \<and> (\<exists>dp. map_of t (parent_path p) = Some (DirEntry dp))"
  shows "\<exists>s' n. run_actions (replace_actions H path source expected x next_stat marker) (swap_start t) = (Inr (), s')
    \<and> sw_temp s' = None \<and> map_of (sw_tree s') path = Some (FileEntry n source) \<and> st_mode n = 384 \<and> st_uid n = 0"
proof (cases marker)
  case None
  show ?thesis
    unfolding None using assms(2)
    by (intro replace_undisturbed [OF assms(1) _ old dirs assms(7)]) (simp_all add: swap_start_def)
next
  case (Some p)
  then have p: "map_of t p = None" "p \<noteq> next_stat" and d: "\<exists>dp. map_of t (parent_path p) = Some (DirEntry dp)"
    using marker by auto
  let ?t = "(p, FileEntry (new_stat H t) (lit ''recovery-required'')) # t"
  have ne: "p \<noteq> path" "p \<noteq> parent_path path" "p \<noteq> parent_path next_stat" "parent_path p \<noteq> p"
    using p d old dirs by auto
  have "\<exists>s' n. run_actions (replace_actions H path source expected x next_stat None) (swap_start ?t) = (Inr (), s')
    \<and> sw_temp s' = None \<and> map_of (sw_tree s') path = Some (FileEntry n source) \<and> st_mode n = 384 \<and> st_uid n = 0"
    using assms(2,7) ne p(2) old dirs
    by (intro replace_undisturbed [OF assms(1), where e = e]) (simp_all add: swap_start_def)
  moreover have "swap_start t\<lparr>sw_tree := ?t\<rparr> = swap_start ?t" by (simp add: swap_start_def)
  moreover have "sw_tree (swap_start u) = u" for u by (simp add: swap_start_def)
  ultimately show ?thesis
    using p d ne by (auto simp: Some replace_actions_marker on_tree_step swap_effects create_private_step write_file_def
        fsync_directory_def)
qed

section \<open>Counting files\<close>

text \<open>A step makes at most one more file.\<close>

lemma length_update: "length (AList.update k v t) \<le> Suc (length t)"
  by (induction t) auto

lemma length_delete: "length (AList.delete k t) \<le> length t"
  by (simp add: AList.delete_eq)

lemma length_rename: "length (AList.update k v (AList.delete p t)) \<le> Suc (length t)"
  using length_update [of k v "AList.delete p t"] length_delete [of p t] by linarith

definition grows :: "nat \<Rightarrow> ('s \<Rightarrow> nat) \<Rightarrow> ('s, swap_error, 'a) eff \<Rightarrow> bool" where
  "grows n z m \<longleftrightarrow> (\<forall>s. z (snd (m s)) \<le> z s + n)"

named_theorems growth \<open>how many files a step adds\<close>

lemma grows_bind [growth]: "grows n z m \<Longrightarrow> (\<And>x. grows k z (f x)) \<Longrightarrow> grows (n + k) z (bindM m f)"
proof -
  assume m: "grows n z m" and f: "\<And>x. grows k z (f x)"
  have "z (snd (bindM m f s)) \<le> z s + (n + k)" for s
  proof (cases "m s")
    case (Pair r s')
    moreover have "z s' \<le> z s + n" using m Pair by (auto simp: grows_def dest: spec [of _ s])
    moreover from this have "z (snd (f x s')) \<le> z s + (n + k)" for x
      using f [of x] by (auto simp: grows_def dest!: spec [of _ s'])
    ultimately show ?thesis by (cases r) (auto simp: bindM_def)
  qed
  then show ?thesis by (simp add: grows_def)
qed

lemma grows_then [growth]: "grows n z m \<Longrightarrow> grows k z m' \<Longrightarrow> grows (n + k) z (thenM m m')"
  by (simp add: thenM_def grows_bind)

lemma grows_simple [growth]:
  "grows 0 z (retM x)" "grows 0 z (readM g)" "grows 0 z (raise_whenM c er)" "grows 0 z (raiseM er)"
  "grows 0 length (lstat p)" "grows 0 length (open_nofollow p)" "grows 0 length (fsync_directory p)"
  "grows 1 length (create_private H p)" "grows 1 length (write_file p b)" "grows 1 length (chmod_private p)"
  "grows 1 length (rename_file p q)"
  by (auto simp: grows_def retM_def readM_def raise_whenM_def raiseM_def lstat_def open_nofollow_def
      fsync_directory_def create_private_step write_file_def chmod_private_def rename_file_def
      length_update length_rename
      split: option.splits entry.splits)

lemma grows_mono: "grows n z m \<Longrightarrow> n \<le> k \<Longrightarrow> grows k z m"
  unfolding grows_def by (meson add_left_mono order_trans)

abbreviation swap_size :: "swap \<Rightarrow> nat" where
  "swap_size s \<equiv> length (sw_tree s)"

lemma grows_on_tree [growth]: "grows n length m \<Longrightarrow> grows n swap_size (on_tree m)"
  by (simp add: grows_def on_tree_step split: prod.splits) (metis snd_conv)

lemma grows_with_temp [growth]: "(\<And>p. grows n length (f p)) \<Longrightarrow> grows (0 + n) swap_size (with_temp f)"
  unfolding with_temp_def
  by (rule grows_bind) (auto intro: growth grows_mono [OF grows_simple(4)] split: option.split)

lemma grows_store [growth]:
  "grows 0 swap_size (store_local (\<lambda>s. s\<lparr>sw_temp := p\<rparr>))" "grows 0 swap_size (store_local (\<lambda>s. s\<lparr>sw_temp_stat := m\<rparr>))"
  "grows 0 swap_size (store_local (\<lambda>s. s\<lparr>sw_replaced := m\<rparr>))"
  by (simp_all add: grows_def store_local_def)

lemma grows_action:
  assumes "a \<in> set (replace_actions H path source expected x next_stat marker)"
  shows "grows 2 swap_size a"
proof -
  have v: "grows 0 length (validate_current_environment path expected x)"
    and r: "\<And>m. grows 0 length (validate_replaced_environment path source x m)"
    by (auto simp: grows_def validate_current_environment_def validate_replaced_environment_def swap_effects
        lstat_def open_nofollow_def split: option.split entry.split)
  have a: "grows 2 swap_size (thenM (on_tree (create_private H p)) (retM ()))"
    "grows 2 swap_size (on_tree (write_file p b))" "grows 2 swap_size (on_tree (fsync_directory p))"
    "grows 2 swap_size (make_temp H path)" "grows 2 swap_size (with_temp chmod_private)"
    "grows 2 swap_size (with_temp (\<lambda>tmp. write_file tmp b))" "grows 2 swap_size (check_temp x)"
    "grows 2 swap_size (rename_temp path)" "grows 2 swap_size (check_replaced path source x)"
    "grows 2 swap_size (bindM (readM sw_replaced) (\<lambda>r. on_tree (write_file p (stat_payload r))))"
    "grows 2 swap_size (on_tree (validate_current_environment path expected x))" for p b
    unfolding make_temp_def check_temp_def rename_temp_def check_replaced_def
    by (rule grows_mono, (rule growth v r)+, simp)+
  show ?thesis
    using assms a by (auto simp: replace_actions_def marker_actions_def split: option.splits)
qed

lemma grows_run: "(\<And>a. a \<in> set as \<Longrightarrow> grows 2 swap_size a) \<Longrightarrow> grows (2 * length as) swap_size (run_actions as)"
proof (induction as)
  case (Cons a as)
  have "grows (2 + 2 * length as) swap_size (thenM a (run_actions as))"
    using Cons by (intro growth) auto
  then show ?case by (simp add: run_actions_def)
qed (simp add: grows_def)

lemma length_replace_actions: "length (replace_actions H path source expected x next_stat marker) \<le> 14"
  by (simp add: replace_actions_def marker_actions_def split: option.split)

lemma replace_killed_size: "length (replace_killed H args k t) \<le> length t + 28"
proof -
  obtain r t' where plan: "replace_plan H args t = (r, t')" by fastforce
  then show ?thesis
  proof (cases rule: replace_plan_cases)
    case (plan source expected x m1 m2)
    let ?acts = "replace_actions H (args ! 0) source expected x (args ! 4) (marker_argument args)"
    have "grows (2 * length (take k ?acts)) swap_size (run_actions (take k ?acts))"
      by (rule grows_run) (auto dest!: in_set_takeD intro: grows_action)
    then have "swap_size (snd (run_actions (take k ?acts) (swap_start t))) \<le> length t + 28"
      using length_replace_actions [of H "args ! 0" source expected x "args ! 4" "marker_argument args"]
      by (auto simp: grows_def swap_start_def dest!: spec [of _ "swap_start t"])
    then show ?thesis
      using plan \<open>replace_plan H args t = (r, t')\<close> by (simp add: replace_killed_def)
  qed (simp add: replace_killed_def plan)
qed

section \<open>The recovery\<close>

lemma expected_stat_iff:
  "expected_environment_stat p t = (Inr x, t') \<longleftrightarrow>
     (\<exists>m b. map_of t p = Some (FileEntry m b) \<and> parse_expected b = Inr x) \<and> t' = t"
  by (auto simp: expected_environment_stat_def swap_runs read_bytes_iff)

text \<open>What the steps of a swap leave in place, and which names they may take.\<close>

lemma killed_names:
  assumes "healthy_host H" "map_of t (args ! 0) = Some e" "map_of t q = None"
    "marker_argument args \<noteq> Some q" "q \<noteq> args ! 4" "parent_path q \<noteq> parent_path (args ! 0)"
  shows "map_of (replace_killed H args k t) q = None"
proof -
  have "parent_path (ho_temp H u (parent_path (args ! 0))) = parent_path (args ! 0)" for u
    using assms(1) by (simp add: healthy_host_def)
  then have temp: "q \<noteq> ho_temp H u (parent_path (args ! 0))" for u using assms(6) by metis
  define t' where "t' = replace_killed H args k t"
  then have "t' = snd (replace_environment H args t) \<or> t' = replace_killed H args k t" by simp
  with assms(2) have "map_of t' q = None"
  proof (rule replace_stops)
    fix source expected x m1 m2 s
    assume t': "t' = sw_tree s"
      and "sound_stop H t (args ! 0) (args ! 4) (marker_argument args) e source expected x s"
    then have "others_kept H t (args ! 0) (args ! 4) (marker_argument args) s"
      by (auto simp: sound_stop_def kept_def replaced_def)
    then show ?thesis
      using assms(3-5) temp unfolding t' others_kept_def by metis
  qed (simp add: assms(3))
  then show ?thesis by (simp add: t'_def)
qed

lemma classify_original:
  assumes "map_of t env = Some (FileEntry m payload)" "st_mode m = 384" "st_uid m = 0"
    "length payload \<le> max_env_bytes"
    and "map_of t original = Some (FileEntry m1 payload)" "map_of t target = Some (FileEntry m2 content)"
    "map_of t stat_file = Some (FileEntry m3 (stat_payload m))" "content \<noteq> payload"
    and "map_of t (parent_path state_out) = Some (DirEntry d)" "map_of t state_out = None"
  shows "classify_environment H [env, original, target, stat_file, stat_out, state_out] t
    = (Inr (), (state_out, FileEntry (new_stat H t) (lit ''original'')) # t)"
  using assms parse_stat_payload [OF assms(2,3)]
  by (auto simp: classify_environment_def classify_files_def swap_runs read_bytes_iff expected_stat_iff swap_read_iff
      private_write_iff is_expected_def)

lemma classify_target:
  assumes "map_of t env = Some (FileEntry n content)" "st_mode n = 384" "st_uid n = 0"
    "length content \<le> max_env_bytes" "st_mode m = 384" "st_uid m = 0"
    and "map_of t original = Some (FileEntry m1 payload)" "map_of t target = Some (FileEntry m2 content)"
    "map_of t stat_file = Some (FileEntry m3 (stat_payload m))"
    and "map_of t (parent_path state_out) = Some (DirEntry d)" "map_of t state_out = None"
    "map_of t (parent_path stat_out) = Some (DirEntry d')" "map_of t stat_out = None" "stat_out \<noteq> state_out"
  shows "\<exists>n'. classify_environment H [env, original, target, stat_file, stat_out, state_out] t
    = (Inr (), (state_out, FileEntry n' (lit ''target'')) #
        (stat_out, FileEntry (new_stat H t) (stat_payload n)) # t)"
  using assms parse_stat_payload [OF assms(5,6)]
  by (auto simp: classify_environment_def classify_files_def swap_runs read_bytes_iff expected_stat_iff swap_read_iff
      private_write_iff)

text \<open>
  C32. An update of the updater that is killed can always be recovered. After a capture, and a
  swap to the prepared file killed after any of its steps, the classification returns: it says
  that the original is in place, and it is, unchanged; or it says that the target is in place,
  and then the swap back with the status it wrote succeeds and the file has its captured
  content again, private. The prepared file must not exceed the limit of the file.
\<close>

theorem killed_swap_recovers:
  assumes capture: "capture_environment H [app, env, compose, tag, original, target, old_tag_file, stat_file] t
      = (Inr (), t1)"
    and host: "healthy_host H" "length t + 40 < 2 ^ 32"
    and killed: "t2 = replace_killed H [env, target, original, stat_file, next_stat, marker] k t1"
    and size: "\<forall>m b. map_of t1 target = Some (FileEntry m b) \<longrightarrow> length b \<le> max_env_bytes"
    and env_dir: "map_of t (parent_path env) = Some (DirEntry d)"
    and scratch: "\<forall>q \<in> set [original, next_stat, marker, stat_out, state_out, restored].
        parent_path q = scratch" "scratch \<noteq> parent_path env"
    and free: "\<forall>q \<in> set [next_stat, marker, stat_out, state_out, restored]. map_of t1 q = None"
    and names: "distinct [next_stat, marker, stat_out, state_out, restored]"
  shows "\<exists>m payload t3. map_of t env = Some (FileEntry m payload)
     \<and> classify_environment H [env, original, target, stat_file, stat_out, state_out] t2 = (Inr (), t3)
     \<and> ((\<exists>n. map_of t3 state_out = Some (FileEntry n (lit ''original''))) \<and> map_of t3 env = map_of t env
       \<or> (\<exists>n. map_of t3 state_out = Some (FileEntry n (lit ''target'')))
         \<and> (\<exists>t4 n. replace_environment H [env, original, target, stat_out, restored, []] t3 = (Inr (), t4)
              \<and> map_of t4 env = Some (FileEntry n payload) \<and> st_mode n = 384 \<and> st_uid n = 0))"
proof -
  have "capture_files H app env compose tag original target old_tag_file stat_file t = (Inr (), t1)"
    using capture by (simp add: capture_environment_def)
  then show ?thesis
  proof (rule capture_facts, goal_cases)
    case (1 m payload content old prepared m1 m2 m3 m4)
    have env1: "map_of t1 env = Some (FileEntry m payload)"
      and orig1: "map_of t1 original = Some (FileEntry m1 payload)"
      and targ1: "map_of t1 target = Some (FileEntry m2 (utf8_encode prepared))"
      and stat1: "map_of t1 stat_file = Some (FileEntry m4 (stat_payload m))"
      and ne: "original \<noteq> env" "target \<noteq> env" "stat_file \<noteq> env"
      using 1(1,8,9) by auto
    obtain d0 where dir1: "map_of t1 scratch = Some (DirEntry d0)"
      using 1(8,10-14) scratch(1) by force
    have size2: "length t2 \<le> length t + 32"
      using replace_killed_size [of H _ k t1] 1(8) by (simp add: killed add.commute)
    let ?args = "[env, target, original, stat_file, next_stat, marker]"
    have marker: "marker_argument ?args = (if marker = [] then None else Some marker)" and "?args ! 4 = next_stat"
      by (simp_all add: marker_argument_def eval_nat_numeral)
    then have free2: "map_of t2 stat_out = None" "map_of t2 state_out = None" "map_of t2 restored = None"
      unfolding killed using free names scratch env1
      by (auto intro!: killed_names [OF host(1), of _ ?args] simp: marker split: if_splits)
    have out: "map_of t2 env = Some (FileEntry m payload)
        \<or> (\<exists>n. map_of t2 env = Some (FileEntry n (utf8_encode prepared)) \<and> st_mode n = 384 \<and> st_uid n = 0)"
      and same2: "\<And>q. q \<noteq> env \<Longrightarrow> map_of t1 q \<noteq> None \<Longrightarrow> map_of t2 q = map_of t1 q"
      using swap_outcome [OF env1 disjI2 [OF killed]] targ1 by auto
    have d3: "map_of t1 (parent_path env) = Some (DirEntry d)" using env_dir 1(8-14) by auto
    have ed: "parent_path env \<noteq> env" "scratch \<noteq> env" using d3 dir1 env1 by auto
    have files2: "map_of t2 original = Some (FileEntry m1 payload)"
      "map_of t2 target = Some (FileEntry m2 (utf8_encode prepared))"
      "map_of t2 stat_file = Some (FileEntry m4 (stat_payload m))" "map_of t2 scratch = Some (DirEntry d0)"
      "map_of t2 (parent_path env) = map_of t1 (parent_path env)"
      using same2 [of original] same2 [of target] same2 [of stat_file] same2 [of scratch] same2 [of "parent_path env"]
      by (simp_all add: orig1 targ1 stat1 dir1 ne ed d3)
    from out show ?thesis
    proof
      assume "map_of t2 env = Some (FileEntry m payload)"
      note c = classify_original [OF this 1(2,3,4) files2(1,2,3) 1(7), of state_out d0 H stat_out]
      have "state_out \<noteq> env" using free env1 by auto
      then show ?thesis
        using c scratch(1) files2(4) free2(2) 1(1) \<open>map_of t2 env = Some (FileEntry m payload)\<close> by auto
    next
      assume "\<exists>n. map_of t2 env = Some (FileEntry n (utf8_encode prepared)) \<and> st_mode n = 384 \<and> st_uid n = 0"
      then obtain n where n: "map_of t2 env = Some (FileEntry n (utf8_encode prepared))" "st_mode n = 384" "st_uid n = 0"
        by blast
      have "length (utf8_encode prepared) \<le> max_env_bytes" using size targ1 by blast
      note c = classify_target [OF n this 1(2,3) files2(1,2,3), of state_out d0 stat_out d0 H]
      obtain n' where t3: "classify_environment H [env, original, target, stat_file, stat_out, state_out] t2
        = (Inr (), (state_out, FileEntry n' (lit ''target'')) #
            (stat_out, FileEntry (new_stat H t2) (stat_payload n)) # t2)" (is "_ = (_, ?t3)")
        using c scratch(1) files2(4) free2(1,2) names by auto
      have ne3: "state_out \<noteq> parent_path env" "stat_out \<noteq> parent_path env" "state_out \<noteq> env" "stat_out \<noteq> env"
        "restored \<noteq> env" "state_out \<noteq> scratch" "stat_out \<noteq> scratch" "state_out \<noteq> original" "stat_out \<noteq> original" 
        "state_out \<noteq> target" "stat_out \<noteq> target" "state_out \<noteq> restored" "stat_out \<noteq> restored"
        "state_out \<noteq> stat_out"
        using free env1 d3 dir1 orig1 targ1 names by auto
      let ?args = "[env, original, target, stat_out, restored, []]" and ?x = "(uint (st_dev n), uint (st_ino n))"
      have inputs: "replace_inputs ?args ?t3 = (Inr (payload, utf8_encode prepared, ?x), ?t3)"
        using ne3 files2 parse_stat_payload [OF n(2,3)] by (auto simp: replace_inputs_iff)
      have "\<exists>s' n. run_actions (replace_actions H env payload (utf8_encode prepared) ?x restored None) (swap_start ?t3) = (Inr (), s')
        \<and> sw_temp s' = None \<and> map_of (sw_tree s') env = Some (FileEntry n payload) \<and> st_mode n = 384 \<and> st_uid n = 0"
        using host size2 ne3 n d3 files2(4,5) free2(3) scratch(1)
        by (intro replace_with_marker [OF host(1), where e = "FileEntry n (utf8_encode prepared)" and d = d and d' = d0])
          (auto simp: good_old_def private_regular_iff is_expected_def)
      then obtain s' n2 where run: "run_actions (replace_actions H env payload (utf8_encode prepared) ?x restored None) (swap_start ?t3) = (Inr (), s')"
        "sw_temp s' = None" "map_of (sw_tree s') env = Some (FileEntry n2 payload)" "st_mode n2 = 384" "st_uid n2 = 0" by blast
      have "replace_environment H ?args ?t3 = (Inr (), sw_tree s')"
        using inputs run(1,2) by (simp add: replace_environment_def replace_plan_def swap_effects marker_argument_def remove_temp_def)
      then show ?thesis
        using t3 1(1) run(3-5) ne3 by fastforce
    qed
  qed
qed

section \<open>One update at a time\<close>

text \<open>
  The machine while updates are started and end, with the number of those that run: an
  attempt to start one, work that leaves the lock file alone, and the end of one, which gives
  back its lock.
\<close>

definition lock_of :: "machine \<Rightarrow> 64 word \<times> 64 word" where
  "lock_of M = (case map_of (mc_tree M) lock_path of None \<Rightarrow> (0, 0) | Some e \<Rightarrow> lock_id (entry_stat e))"

fun started :: "outcome \<Rightarrow> nat" where
  "started (Executed p args) = 1"
| "started (Exited c) = 0"

inductive update_step :: "host \<Rightarrow> machine \<times> nat \<Rightarrow> machine \<times> nat \<Rightarrow> bool" for H where
  attempt: "lock_exec H fd args M = (r, M') \<Longrightarrow> update_step H (M, n) (M', n + started r)"
| work: "map_of t lock_path = map_of (mc_tree M) lock_path \<Longrightarrow> update_step H (M, n) (M\<lparr>mc_tree := t\<rparr>, n)"
| finish: "update_step H (M, Suc n) (M\<lparr>mc_locks := remove1 (lock_of M) (mc_locks M)\<rparr>, n)"

definition one_holder :: "machine \<times> nat \<Rightarrow> bool" where
  "one_holder = (\<lambda>(M, n). n = 0 \<and> mc_locks M = []
     \<or> n = 1 \<and> map_of (mc_tree M) lock_path \<noteq> None \<and> mc_locks M = [lock_of M])"

lemma checked_lock_file:
  assumes "checked_lock H t = (r, t')"
  shows "r = Inr m \<Longrightarrow> \<exists>e. map_of t' lock_path = Some e \<and> m = entry_stat e"
    and "map_of t lock_path \<noteq> None \<Longrightarrow> map_of t' lock_path = map_of t lock_path"
  using assms
  by (auto simp: checked_lock_def open_lock_def safe_root_directory_def swap_effects lstat_def create_private_step
      split: option.splits entry.splits if_splits prod.splits sum.splits)

lemma lock_exec_cases:
  assumes "lock_exec H fd args M = (r, M')"
  obtains (refused) "started r = 0" "mc_locks M' = mc_locks M"
      "map_of (mc_tree M) lock_path \<noteq> None \<Longrightarrow> map_of (mc_tree M') lock_path = map_of (mc_tree M) lock_path"
    | (runs) "started r = 1" "map_of (mc_tree M') lock_path \<noteq> None" "lock_of M' \<notin> set (mc_locks M)"
      "mc_locks M' = lock_of M' # mc_locks M"
      "map_of (mc_tree M) lock_path \<noteq> None \<Longrightarrow> lock_of M' = lock_of M"
proof (cases "checked_lock H (mc_tree M)")
  case (Pair q t)
  then show thesis
    using assms refused runs checked_lock_file [OF Pair]
    by (auto simp: lock_exec_def lock_failed_def lock_of_def Let_def split: list.splits if_splits sum.splits)
qed

lemma one_holder_step: "update_step H s s' \<Longrightarrow> one_holder s \<Longrightarrow> one_holder s'"
proof (induction rule: update_step.induct)
  case (attempt fd args M r M' n)
  then show ?case
    by (cases rule: lock_exec_cases) (auto simp: one_holder_def lock_of_def)
qed (auto simp: one_holder_def lock_of_def)


end
