(* ===== verification/Env_Swap_Samples.thy ===== *)
theory Env_Swap_Samples
  imports Env_Swap_Recovery
begin

text \<open>
  A host with an environment file, and the properties of the updater's own update applied to it.
\<close>

section \<open>The host\<close>

definition first_free :: "tree \<Rightarrow> 64 word" where
  "first_free t = (case List.find (\<lambda>i. (1, i) \<notin> file_ids t) (map word_of_nat [0..<Suc (length t)]) of
     None \<Rightarrow> 0 | Some i \<Rightarrow> i)"

definition longest :: "tree \<Rightarrow> nat" where
  "longest t = foldr max (map (length \<circ> fst) t) 0"

definition sample_host :: host where
  "sample_host = \<lparr>ho_draw = (\<lambda>t. (1, first_free t)), ho_uid = 0, ho_real = Some,
     ho_temp = (\<lambda>t d. d @ 47 # replicate (Suc (longest t)) 120), ho_executable = (\<lambda>_. True)\<rparr>"

lemma longest_bound: "(p, e) \<in> set t \<Longrightarrow> length p \<le> longest t"
  by (induction t) (auto simp: longest_def le_max_iff_disj)

lemma first_free_fresh:
  assumes "length t < 2 ^ 32"
  shows "(1, first_free t) \<notin> file_ids t"
proof -
  define ids where "ids = (map word_of_nat [0..<Suc (length t)] :: 64 word list)"
  have "inj_on (word_of_nat :: nat \<Rightarrow> 64 word) {0..<Suc (length t)}"
  proof (rule inj_onI)
    fix x y :: nat
    assume xy: "x \<in> {0..<Suc (length t)}" "y \<in> {0..<Suc (length t)}" "(word_of_nat x :: 64 word) = word_of_nat y"
    then have "x < 2 ^ LENGTH(64)" "y < 2 ^ LENGTH(64)" using assms by simp_all
    moreover have "unat (word_of_nat x :: 64 word) = unat (word_of_nat y :: 64 word)" using xy(3) by simp
    ultimately show "x = y" by (simp add: unat_of_nat take_bit_nat_eq_self)
  qed
  then have "card (word_of_nat ` {0..<Suc (length t)} :: 64 word set) = Suc (length t)"
    by (subst card_image) simp_all
  then have "card (set ids) = Suc (length t)" by (simp only: ids_def set_map set_upt)
  moreover have "card (Pair (1 :: 64 word) ` set ids) = card (set ids)" by (rule card_image) (simp add: inj_on_def)
  moreover have "finite (file_ids t)" "card (file_ids t) \<le> length t"
    unfolding file_ids_def by (simp, meson card_image_le card_length finite_set order_trans)
  ultimately have "\<not> Pair (1 :: 64 word) ` set ids \<subseteq> file_ids t"
    using card_mono [of "file_ids t" "Pair (1 :: 64 word) ` set ids"] by auto
  then obtain j where "List.find (\<lambda>i. (1, i) \<notin> file_ids t) ids = Some j"
    using find_None_iff [of "\<lambda>i. (1, i) \<notin> file_ids t" ids]
    by (cases "List.find (\<lambda>i. (1, i) \<notin> file_ids t) ids") auto
  moreover from this have "(1, j) \<notin> file_ids t" by (auto simp: find_Some_iff)
  ultimately show ?thesis by (simp add: first_free_def ids_def)
qed

lemma parent_append: "parent_path (d @ 47 # s) = d" if "d \<noteq> []" "47 \<notin> set s"
proof -
  have "dropWhile (\<lambda>c. c \<noteq> 47) (rev s @ 47 # rev d) = 47 # rev d"
    using that(2) by (subst dropWhile_append2) auto
  with that(1) show ?thesis by (simp add: parent_path_def Let_def)
qed

lemma sample_host_healthy: "healthy_host sample_host"
proof -
  have "map_of t (d @ 47 # replicate (Suc (longest t)) 120) = None" for t :: tree and d
  proof (rule ccontr)
    assume "map_of t (d @ 47 # replicate (Suc (longest t)) 120) \<noteq> None"
    then obtain e where "(d @ 47 # replicate (Suc (longest t)) 120, e) \<in> set t" by (blast dest: map_of_SomeD)
    from longest_bound [OF this] show False by simp
  qed
  moreover have "parent_path (d @ 47 # replicate (Suc n) 120) = d" if "d \<noteq> []" for d n
    by (rule parent_append [OF that]) simp
  ultimately show ?thesis
    using first_free_fresh by (simp add: healthy_host_def sample_host_def)
qed

definition root_stat :: "nat \<Rightarrow> nat \<Rightarrow> file_stat" where
  "root_stat i mode = \<lparr>st_dev = 1, st_ino = word_of_nat i, st_mode = mode, st_uid = 0\<rparr>"

definition sample_content :: bytes where
  "sample_content = lit ''# settings'' @ 10 # lit ''FINREC_UPDATER_IMAGE_TAG=v1.2.0'' @ 10 # lit ''DB_NAME=finrec'' @ [10]"

definition sample_tree :: tree where
  "sample_tree = [(lit ''/'', DirEntry (root_stat 1 493)), (lit ''/app'', DirEntry (root_stat 2 493)),
     (lit ''/app/.env'', FileEntry (root_stat 3 384) sample_content),
     (lit ''/app/c.yml'', FileEntry (root_stat 4 420) []), (lit ''/t'', DirEntry (root_stat 5 448)),
     (lit ''/run'', DirEntry (root_stat 6 493))]"

definition sample_args :: "pystr list" where
  "sample_args = [lit ''/app'', lit ''/app/.env'', lit ''/app/c.yml'', lit ''v1.3.0'', lit ''/t/o'', lit ''/t/n'',
     lit ''/t/v'', lit ''/t/s'']"

definition sample_new_content :: bytes where
  "sample_new_content =
     lit ''# settings'' @ 10 # lit ''FINREC_UPDATER_IMAGE_TAG=v1.3.0'' @ 10 # lit ''DB_NAME=finrec'' @ [10]"

lemma sample_lines:
  "splitlines_keepends sample_content =
     [lit ''# settings'' @ [10], lit ''FINREC_UPDATER_IMAGE_TAG=v1.2.0'' @ [10], lit ''DB_NAME=finrec'' @ [10]]"
  by (simp add: sample_content_def splitlines_keepends_def lit_def line_break_def)

lemma sample_target: "target_text (lit ''v1.3.0'') sample_content = Inr (lit ''v1.2.0'', sample_new_content)"
proof -
  have strips: "rstrip_crlf (lit ''# settings'' @ [10]) = lit ''# settings''"
    "rstrip_crlf (lit ''FINREC_UPDATER_IMAGE_TAG=v1.2.0'' @ [10]) = lit ''FINREC_UPDATER_IMAGE_TAG=v1.2.0''"
    "rstrip_crlf (lit ''DB_NAME=finrec'' @ [10]) = lit ''DB_NAME=finrec''"
    by (simp_all add: rstrip_crlf_def lit_def crlf_def)
  have entries: "environment_line (lit ''FINREC_UPDATER_IMAGE_TAG=v1.2.0'') = Some (updater_tag_key, lit ''v1.2.0'')"
    "environment_line (lit ''DB_NAME=finrec'') = Some (lit ''DB_NAME'', lit ''finrec'')"
    by (simp_all add: environment_line_def lit_def Let_def name_char_def name_start_def is_digit_def updater_tag_key_def)
  have comment: "environment_line (lit ''# settings'') = None" "hd (lit ''# settings'') = 35"
    "lit ''DB_NAME'' \<noteq> updater_tag_key"
    by (simp_all add: environment_line_def lit_def Let_def name_char_def name_start_def is_digit_def updater_tag_key_def)
  have "scan_lines 0 (splitlines_keepends sample_content) [] None = Inr (Some (1, lit ''v1.2.0''))"
    unfolding sample_lines scan_lines_step strips by (simp add: entries comment)
  moreover have "version_ok (lit ''v1.2.0'')" by code_simp
  moreover have "lit ''v1.2.0'' \<noteq> lit ''v1.3.0''" by (simp add: lit_def)
  ultimately show ?thesis
    by (simp add: target_text_def bindE_def sample_lines line_ending_def strips sample_new_content_def)
      (simp add: lit_def updater_tag_key_def)
qed

lemma sample_ascii: "utf8_decode sample_content = Some sample_content" "utf8_encode sample_new_content = sample_new_content"
proof -
  have "c < 128" if "c \<in> set sample_content \<or> c \<in> set sample_new_content" for c
    using that by (auto simp: sample_content_def sample_new_content_def lit_def)
  note small = this
  then show "utf8_encode sample_new_content = sample_new_content" by (simp add: utf8_encode_ascii)
  have "utf8_decode (utf8_encode sample_content) = Some sample_content"
    by (rule utf8_decode_encode) (use small in \<open>force simp: scalar_def\<close>)
  then show "utf8_decode sample_content = Some sample_content" using small by (simp add: utf8_encode_ascii)
qed

lemma sample_paths:
  "parent_path (lit ''/t/o'') = lit ''/t''" "parent_path (lit ''/t/n'') = lit ''/t''" "parent_path (lit ''/t/v'') = lit ''/t''"
  "parent_path (lit ''/t/s'') = lit ''/t''" "parent_path (lit ''/app/.env'') = lit ''/app''"
  by (simp_all add: parent_path_def lit_def Let_def)

lemma sample_entries:
  "map_of sample_tree (lit ''/app'') = Some (DirEntry (root_stat 2 493))"
  "map_of sample_tree (lit ''/app/.env'') = Some (FileEntry (root_stat 3 384) sample_content)"
  "map_of sample_tree (lit ''/app/c.yml'') = Some (FileEntry (root_stat 4 420) [])"
  "map_of sample_tree (lit ''/t'') = Some (DirEntry (root_stat 5 448))"
  "p \<in> {lit ''/t/o'', lit ''/t/n'', lit ''/t/v'', lit ''/t/s'', lit ''/t/x'', lit ''/t/m'', lit ''/t/a'', lit ''/t/b'',
     lit ''/t/r''} \<Longrightarrow> map_of sample_tree p = None"
  by (auto simp: sample_tree_def lit_def)

lemma sample_capture: "\<exists>t1. capture_environment sample_host sample_args sample_tree = (Inr (), t1)"
proof -
  have size: "length sample_content \<le> max_env_bytes"
    by (simp add: sample_content_def max_env_bytes_def lit_def)
  have differ: "sample_new_content \<noteq> sample_content" 
    by (simp add: sample_content_def sample_new_content_def lit_def)
  have decode: "decode_strict sample_content = Inr sample_content" by (simp add: decode_strict_def sample_ascii)
  show ?thesis
    unfolding sample_args_def capture_environment_def list.case capture_files_def
    by (simp add: sample_host_def swap_runs lstat_iff swap_read_iff private_write_iff sample_paths decode sample_target
        sample_ascii differ size sample_entries safe_entry_def root_stat_def writable_by_others_def)
qed

section \<open>The properties at this host\<close>

theorem capture_changes_updater_tag_witness:
  "\<exists>t1 m payload content prepared old m1 m2. capture_environment sample_host sample_args sample_tree = (Inr (), t1)
     \<and> map_of sample_tree (lit ''/app/.env'') = Some (FileEntry m payload)
     \<and> utf8_decode payload = Some content
     \<and> map_of t1 (lit ''/app/.env'') = map_of sample_tree (lit ''/app/.env'')
     \<and> map_of t1 (lit ''/t/o'') = Some (FileEntry m1 payload)
     \<and> map_of t1 (lit ''/t/n'') = Some (FileEntry m2 (utf8_encode prepared))
     \<and> map_of (assignments content) (lit ''FINREC_UPDATER_IMAGE_TAG'') = Some old \<and> version_ok old
     \<and> old \<noteq> lit ''v1.3.0''
     \<and> assignments prepared
        = map (\<lambda>(k, v). (k, if k = lit ''FINREC_UPDATER_IMAGE_TAG'' then lit ''v1.3.0'' else v)) (assignments content)"
proof -
  obtain t1 where t1: "capture_environment sample_host sample_args sample_tree = (Inr (), t1)"
    using sample_capture by blast
  have v: "version_ok (lit ''v1.3.0'')" by code_simp
  from capture_changes_updater_tag [OF t1 [unfolded sample_args_def] v] t1 show ?thesis by blast
qed

theorem swap_all_or_nothing_witness:
  "\<exists>t1 e. capture_environment sample_host sample_args sample_tree = (Inr (), t1)
    \<and> map_of t1 (lit ''/app/.env'') = Some e
    \<and> (let t' = replace_killed sample_host
          [lit ''/app/.env'', lit ''/t/n'', lit ''/t/o'', lit ''/t/s'', lit ''/t/x'', lit ''/t/m''] 9 t1
       in (map_of t' (lit ''/app/.env'') = Some e
          \<or> (\<exists>m old n content m1 m2. e = FileEntry m old \<and> st_mode m = 384 \<and> st_uid m = 0
              \<and> map_of t1 (lit ''/t/o'') = Some (FileEntry m1 old)
              \<and> map_of t1 (lit ''/t/n'') = Some (FileEntry m2 content)
              \<and> map_of t' (lit ''/app/.env'') = Some (FileEntry n content) \<and> st_mode n = 384 \<and> st_uid n = 0))
        \<and> (\<forall>q. q \<noteq> lit ''/app/.env'' \<and> map_of t1 q \<noteq> None \<longrightarrow> map_of t' q = map_of t1 q))"
proof -
  obtain t1 where t1: "capture_environment sample_host sample_args sample_tree = (Inr (), t1)"
    using sample_capture by blast
  then have "capture_files sample_host (lit ''/app'') (lit ''/app/.env'') (lit ''/app/c.yml'') (lit ''v1.3.0'')
      (lit ''/t/o'') (lit ''/t/n'') (lit ''/t/v'') (lit ''/t/s'') sample_tree = (Inr (), t1)"
    by (simp add: sample_args_def capture_environment_def)
  then obtain e where e: "map_of t1 (lit ''/app/.env'') = Some e"
    by (rule capture_facts) (auto simp: lit_def)
  show ?thesis
    unfolding Let_def using t1 e
    by (intro exI [of _ t1] exI [of _ e] conjI swap_all_or_nothing [OF e disjI2 [OF refl], THEN conjunct1]
        swap_all_or_nothing [OF e disjI2 [OF refl], THEN conjunct2])
qed

theorem killed_swap_recovers_witness:
  "\<exists>t1 m payload t3. capture_environment sample_host sample_args sample_tree = (Inr (), t1)
    \<and> (let t2 = replace_killed sample_host
          [lit ''/app/.env'', lit ''/t/n'', lit ''/t/o'', lit ''/t/s'', lit ''/t/x'', lit ''/t/m''] 11 t1
       in map_of sample_tree (lit ''/app/.env'') = Some (FileEntry m payload)
        \<and> classify_environment sample_host
            [lit ''/app/.env'', lit ''/t/o'', lit ''/t/n'', lit ''/t/s'', lit ''/t/a'', lit ''/t/b''] t2 = (Inr (), t3)
        \<and> ((\<exists>n. map_of t3 (lit ''/t/b'') = Some (FileEntry n (lit ''original'')))
             \<and> map_of t3 (lit ''/app/.env'') = map_of sample_tree (lit ''/app/.env'')
          \<or> (\<exists>n. map_of t3 (lit ''/t/b'') = Some (FileEntry n (lit ''target'')))
             \<and> (\<exists>t4 n. replace_environment sample_host
                   [lit ''/app/.env'', lit ''/t/o'', lit ''/t/n'', lit ''/t/a'', lit ''/t/r'', []] t3 = (Inr (), t4)
                 \<and> map_of t4 (lit ''/app/.env'') = Some (FileEntry n payload) \<and> st_mode n = 384 \<and> st_uid n = 0)))"
proof -
  obtain t1 where t1: "capture_environment sample_host sample_args sample_tree = (Inr (), t1)"
    using sample_capture by blast
  then have files: "capture_files sample_host (lit ''/app'') (lit ''/app/.env'') (lit ''/app/c.yml'') (lit ''v1.3.0'')
      (lit ''/t/o'') (lit ''/t/n'') (lit ''/t/v'') (lit ''/t/s'') sample_tree = (Inr (), t1)"
    by (simp add: sample_args_def capture_environment_def)
  have size: "\<forall>m b. map_of t1 (lit ''/t/n'') = Some (FileEntry m b) \<longrightarrow> length b \<le> max_env_bytes"
    using files
  proof (rule capture_facts)
    fix m payload content old prepared m1 m2 m3 m4
    assume "map_of sample_tree (lit ''/app/.env'') = Some (FileEntry m payload)" "utf8_decode payload = Some content"
      "target_text (lit ''v1.3.0'') content = Inr (old, prepared)"
      and t: "t1 = (lit ''/t/s'', FileEntry m4 (stat_payload m)) # (lit ''/t/v'', FileEntry m3 old)
       # (lit ''/t/n'', FileEntry m2 (utf8_encode prepared)) # (lit ''/t/o'', FileEntry m1 payload) # sample_tree"
      and d: "distinct [lit ''/t/s'', lit ''/t/v'', lit ''/t/n'', lit ''/t/o'', lit ''/app/.env'']"
    then have "prepared = sample_new_content" by (auto simp: sample_entries sample_ascii sample_target)
    then have "map_of t1 (lit ''/t/n'') = Some (FileEntry m2 sample_new_content)"
      using d by (simp add: t sample_ascii)
    moreover have "length sample_new_content \<le> max_env_bytes"
      by (simp add: sample_new_content_def max_env_bytes_def lit_def)
    ultimately show ?thesis by simp
  qed
  have free: "\<forall>q \<in> set [lit ''/t/x'', lit ''/t/m'', lit ''/t/a'', lit ''/t/b'', lit ''/t/r'']. map_of t1 q = None"
    using files by (rule capture_facts) (auto simp: sample_entries)
  have paths: "\<forall>q \<in> set [lit ''/t/o'', lit ''/t/x'', lit ''/t/m'', lit ''/t/a'', lit ''/t/b'', lit ''/t/r''].
      parent_path q = lit ''/t''" "lit ''/t'' \<noteq> parent_path (lit ''/app/.env'')"
    by (simp_all add: parent_path_def lit_def Let_def)
  have "map_of sample_tree (parent_path (lit ''/app/.env'')) = Some (DirEntry (root_stat 2 493))"
    by (simp add: sample_paths sample_entries)
  moreover have "length sample_tree + 40 < 2 ^ 32" by (simp add: sample_tree_def)
  moreover have "distinct [lit ''/t/x'', lit ''/t/m'', lit ''/t/a'', lit ''/t/b'', lit ''/t/r'']" by (simp add: lit_def)
  ultimately show ?thesis
    using killed_swap_recovers [OF t1 [unfolded sample_args_def] sample_host_healthy _ refl size _ paths free, where k = 11] t1
    unfolding Let_def by blast
qed

definition sample_machine :: machine where
  "sample_machine = \<lparr>mc_tree = sample_tree, mc_locks = [], mc_open = [], mc_errors = []\<rparr>"


end
