(* ===== verification/Report_Queries.thy ===== *)
theory Report_Queries
  imports Open_Amounts Calendar "HOL-Library.List_Lexorder"
begin

text \<open>
  The reports on open amounts and suppliers (\<open>apps/reporting/queries.py\<close>). A report is asked
  for a day; it counts the reconciliations that stood when that day ended. A zone gives the
  local clock of an instant, in microseconds, and the instant of a local midnight: both come
  from the time zone database. The rows of a query without an order are in the order of their table.
\<close>

lemma sort_key_Nil: "sort_key f xs = [] \<longleftrightarrow> xs = []"
  by (simp only: length_0_conv [symmetric] length_sort)

section \<open>Historical amounts\<close>

record local_zone =
  lz_wall :: "instant \<Rightarrow> int"
  lz_midnight :: "date \<Rightarrow> instant"

text \<open>\<open>timezone.localtime(value).date()\<close>.\<close>

definition lz_day :: "local_zone \<Rightarrow> instant \<Rightarrow> date" where
  "lz_day z t = lz_wall z t div us_per_day + 719163"

definition cutoff :: "local_zone \<Rightarrow> date \<Rightarrow> instant" where
  "cutoff z as_of = lz_midnight z (as_of + 1)"

definition historically_valid :: "instant \<Rightarrow> db \<Rightarrow> allocation \<Rightarrow> bool" where
  "historically_valid c d a \<longleftrightarrow>
     (\<exists>r\<in>set (recons d). rc_id r = ra_reconciliation a \<and> rc_created_at r < c)
     \<and> (\<forall>v\<in>set (reversals d). rv_original v = ra_reconciliation a \<longrightarrow> c \<le> rv_created_at v)"

definition historical_allocated :: "(allocation \<Rightarrow> uuid) \<Rightarrow> instant \<Rightarrow> db \<Rightarrow> uuid \<Rightarrow> money" where
  "historical_allocated key c d i =
     sum_list (map ra_amount (filter (\<lambda>a. key a = i \<and> historically_valid c d a) (allocs d)))"

definition invoice_open_at :: "instant \<Rightarrow> db \<Rightarrow> invoice \<Rightarrow> money" where
  "invoice_open_at c d b = inv_total_amount b - historical_allocated ra_invoice c d (inv_id b)"

definition money_open_at :: "instant \<Rightarrow> db \<Rightarrow> money_transaction \<Rightarrow> money" where
  "money_open_at c d m = mt_amount m - historical_allocated ra_transaction c d (mt_id m)"

text \<open>\<open>_with_current_open_amount\<close>.\<close>

definition current_open_amount :: "db \<Rightarrow> invoice \<Rightarrow> money" where
  "current_open_amount d b = inv_total_amount b - allocated_by ra_invoice d (inv_id b)"

section \<open>Open invoices and unmatched funds\<close>

definition AGING_LABELS :: "pystr list" where
  "AGING_LABELS = [lit ''0-30'', lit ''31-60'', lit ''61-90'', lit ''90+'']"

definition aging_bucket :: "date \<Rightarrow> date \<Rightarrow> pystr" where
  "aging_bucket base_date as_of =
     (let days = max (as_of - base_date) 0
      in if days \<le> 30 then AGING_LABELS ! 0
         else if days \<le> 60 then AGING_LABELS ! 1
         else if days \<le> 90 then AGING_LABELS ! 2 else AGING_LABELS ! 3)"

record open_invoice_row =
  oi_invoice_id :: uuid
  oi_counterparty_name :: pystr
  oi_issue_date :: date
  oi_due_date :: "date option"
  oi_open_amount :: money
  oi_aging_bucket :: pystr
  oi_import_batch_id :: uuid
  oi_source_file_id :: "uuid option"

record open_money_row =
  om_transaction_id :: uuid
  om_occurred_at :: instant
  om_counterparty_name :: pystr
  om_open_amount :: money
  om_channel :: pystr
  om_masked_account :: pystr
  om_import_batch_id :: uuid
  om_source_file_id :: "uuid option"

definition batch_files :: "db \<Rightarrow> uuid \<Rightarrow> source_file list" where
  "batch_files d batch = filter (\<lambda>f. sf_batch f = batch) (source_files d)"

definition source_file_id :: "db \<Rightarrow> uuid \<Rightarrow> uuid option" where
  "source_file_id d batch = (case batch_files d batch of [] \<Rightarrow> None | f # _ \<Rightarrow> Some (sf_id f))"

text \<open>The name behind a foreign key, and behind the nullable one of a transaction.\<close>

definition party_name :: "db \<Rightarrow> uuid \<Rightarrow> pystr" where
  "party_name d i = (case find_row cp_id (parties d) i of None \<Rightarrow> [] | Some p \<Rightarrow> cp_name p)"

definition msg_unknown_party :: pystr where "msg_unknown_party = [26410, 35782, 21035, 21333, 20301]"

definition money_party_name :: "db \<Rightarrow> money_transaction \<Rightarrow> pystr" where
  "money_party_name d m =
     (case mt_counterparty m of None \<Rightarrow> msg_unknown_party | Some i \<Rightarrow> party_name d i)"

definition masked_account :: "db \<Rightarrow> money_transaction \<Rightarrow> pystr" where
  "masked_account d m =
     (case find_row fa_id (accounts d) (mt_account m) of None \<Rightarrow> [] | Some a \<Rightarrow> fa_masked_identifier a)"

definition base_date :: "invoice \<Rightarrow> date" where
  "base_date b = (case inv_due_date b of Some x \<Rightarrow> x | None \<Rightarrow> inv_issue_date b)"

definition open_invoices :: "local_zone \<Rightarrow> db \<Rightarrow> pystr \<Rightarrow> date \<Rightarrow> invoice list" where
  "open_invoices z d direction as_of =
     sort_key (\<lambda>b. (inv_issue_date b, inv_id b))
       (filter (\<lambda>b. inv_direction b = direction \<and> inv_issue_date b \<le> as_of
          \<and> inv_status b = InvoiceStatus_NORMAL \<and> 0 < invoice_open_at (cutoff z as_of) d b) (invoices d))"

definition open_invoice_rows :: "local_zone \<Rightarrow> db \<Rightarrow> pystr \<Rightarrow> date \<Rightarrow> open_invoice_row list" where
  "open_invoice_rows z d direction as_of =
     map (\<lambda>b. \<lparr>oi_invoice_id = inv_id b, oi_counterparty_name = party_name d (inv_counterparty b),
            oi_issue_date = inv_issue_date b, oi_due_date = inv_due_date b,
            oi_open_amount = invoice_open_at (cutoff z as_of) d b,
            oi_aging_bucket = aging_bucket (base_date b) as_of,
            oi_import_batch_id = inv_import_batch b,
            oi_source_file_id = source_file_id d (inv_import_batch b)\<rparr>)
       (open_invoices z d direction as_of)"

definition receivables_as_of :: "local_zone \<Rightarrow> db \<Rightarrow> date \<Rightarrow> open_invoice_row list" where
  "receivables_as_of z d as_of = open_invoice_rows z d InvoiceDirection_OUTPUT as_of"

definition payables_as_of :: "local_zone \<Rightarrow> db \<Rightarrow> date \<Rightarrow> open_invoice_row list" where
  "payables_as_of z d as_of = open_invoice_rows z d InvoiceDirection_INPUT as_of"

definition open_money :: "local_zone \<Rightarrow> db \<Rightarrow> date \<Rightarrow> money_transaction list" where
  "open_money z d as_of =
     sort_key (\<lambda>m. (mt_occurred_at m, mt_id m))
       (filter (\<lambda>m. mt_occurred_at m < cutoff z as_of \<and> 0 < money_open_at (cutoff z as_of) d m) (moneys d))"

definition unmatched_funds_as_of :: "local_zone \<Rightarrow> db \<Rightarrow> date \<Rightarrow> open_money_row list" where
  "unmatched_funds_as_of z d as_of =
     map (\<lambda>m. \<lparr>om_transaction_id = mt_id m, om_occurred_at = mt_occurred_at m,
            om_counterparty_name = money_party_name d m,
            om_open_amount = money_open_at (cutoff z as_of) d m, om_channel = mt_channel m,
            om_masked_account = masked_account d m, om_import_batch_id = mt_import_batch m,
            om_source_file_id = source_file_id d (mt_import_batch m)\<rparr>)
       (open_money z d as_of)"

section \<open>Suppliers\<close>

record supplier_summary_row =
  ss_counterparty_id :: uuid
  ss_counterparty_name :: pystr
  ss_invoiced_amount :: money
  ss_paid_amount :: money
  ss_balance :: money
  ss_invoice_open_amount :: money
  ss_payment_open_amount :: money
  ss_latest_activity_on :: "date option"

record supplier_summary_totals =
  st_supplier_count :: nat
  st_invoiced_amount :: money
  st_paid_amount :: money
  st_balance :: money

datatype supplier_ledger_kind = InvoiceEntry | PaymentEntry

record supplier_ledger_row =
  sl_kind :: supplier_ledger_kind
  sl_reference_id :: uuid
  sl_occurred_on :: date
  sl_reference :: pystr
  sl_channel :: pystr
  sl_increase :: money
  sl_decrease :: money
  sl_running_balance :: money
  sl_allocated_amount :: money
  sl_open_amount :: money
  sl_import_batch_id :: uuid
  sl_source_file_id :: "uuid option"
  sl_can_reconcile :: bool

definition is_supplier :: "db \<Rightarrow> uuid \<Rightarrow> bool" where
  "is_supplier d i = (case find_row cp_id (parties d) i of None \<Rightarrow> False | Some p \<Rightarrow> cp_is_supplier p)"

text \<open>
  The invoice was a normal one at the cutoff if it is one now, or if its status changed later:
  the audit log keeps a change under the identifier of the invoice, with or without hyphens.
\<close>

definition no_hyphens :: "pystr \<Rightarrow> pystr" where
  "no_hyphens s = filter (\<lambda>c. c \<noteq> 45) s"

definition status_changed_after :: "instant \<Rightarrow> db \<Rightarrow> invoice \<Rightarrow> bool" where
  "status_changed_after c d b \<longleftrightarrow>
     (\<exists>x\<in>set (audits d). au_action x = lit ''invoice.status_changed'' \<and> au_target_type x = lit ''Invoice''
        \<and> no_hyphens (au_target_id x) = no_hyphens (uuid_str (inv_id b)) \<and> c \<le> au_created_at x)"

text \<open>
  The optional filters of the two queries: \<open>icontains\<close> compares the upper case of PostgreSQL,
  the parameter \<open>up\<close>; a party is asked for by its identifier.
\<close>

definition party_asked :: "(pystr \<Rightarrow> pystr) \<Rightarrow> db \<Rightarrow> pystr \<Rightarrow> uuid option \<Rightarrow> uuid \<Rightarrow> bool" where
  "party_asked up d search asked i \<longleftrightarrow>
     (search = [] \<or> substring (up search) (up (party_name d i)))
     \<and> (case asked of None \<Rightarrow> True | Some j \<Rightarrow> i = j)"

definition supplier_invoice_records ::
    "(pystr \<Rightarrow> pystr) \<Rightarrow> local_zone \<Rightarrow> db \<Rightarrow> date \<Rightarrow> pystr \<Rightarrow> uuid option \<Rightarrow> invoice list" where
  "supplier_invoice_records up z d as_of search asked =
     sort_key (\<lambda>b. (inv_issue_date b, inv_id b))
       (filter (\<lambda>b. inv_direction b = InvoiceDirection_INPUT \<and> inv_issue_date b \<le> as_of
          \<and> is_supplier d (inv_counterparty b)
          \<and> (inv_status b = InvoiceStatus_NORMAL \<or> status_changed_after (cutoff z as_of) d b)
          \<and> party_asked up d search asked (inv_counterparty b)) (invoices d))"

definition supplier_payment_records ::
    "(pystr \<Rightarrow> pystr) \<Rightarrow> local_zone \<Rightarrow> db \<Rightarrow> date \<Rightarrow> pystr \<Rightarrow> uuid option \<Rightarrow> money_transaction list" where
  "supplier_payment_records up z d as_of search asked =
     sort_key (\<lambda>m. (mt_occurred_at m, mt_id m))
       (filter (\<lambda>m. mt_direction m = MoneyDirection_OUTFLOW \<and> mt_occurred_at m < cutoff z as_of
          \<and> (case mt_counterparty m of None \<Rightarrow> False
              | Some i \<Rightarrow> is_supplier d i \<and> party_asked up d search asked i)) (moneys d))"

definition empty_supplier_summary :: "uuid \<Rightarrow> pystr \<Rightarrow> supplier_summary_row" where
  "empty_supplier_summary i name =
     \<lparr>ss_counterparty_id = i, ss_counterparty_name = name, ss_invoiced_amount = 0, ss_paid_amount = 0,
      ss_balance = 0, ss_invoice_open_amount = 0, ss_payment_open_amount = 0,
      ss_latest_activity_on = None\<rparr>"

definition latest_activity :: "date option \<Rightarrow> date \<Rightarrow> date option" where
  "latest_activity current candidate =
     (case current of None \<Rightarrow> Some candidate
      | Some c \<Rightarrow> if c < candidate then Some candidate else Some c)"

text \<open>\<open>setdefault\<close> followed by the changes of the summary in place.\<close>

definition with_summary ::
    "db \<Rightarrow> uuid \<Rightarrow> (supplier_summary_row \<Rightarrow> supplier_summary_row)
     \<Rightarrow> (uuid \<times> supplier_summary_row) list \<Rightarrow> (uuid \<times> supplier_summary_row) list" where
  "with_summary d i f acc =
     AList.update i
       (f (case map_of acc i of None \<Rightarrow> empty_supplier_summary i (party_name d i) | Some s \<Rightarrow> s)) acc"

definition add_invoice ::
    "local_zone \<Rightarrow> db \<Rightarrow> date \<Rightarrow> invoice \<Rightarrow> (uuid \<times> supplier_summary_row) list
     \<Rightarrow> (uuid \<times> supplier_summary_row) list" where
  "add_invoice z d as_of b =
     with_summary d (inv_counterparty b) (\<lambda>s. s\<lparr>
       ss_invoiced_amount := ss_invoiced_amount s + inv_total_amount b,
       ss_balance := ss_balance s + inv_total_amount b,
       ss_invoice_open_amount := ss_invoice_open_amount s + invoice_open_at (cutoff z as_of) d b,
       ss_latest_activity_on := latest_activity (ss_latest_activity_on s) (inv_issue_date b)\<rparr>)"

definition add_payment ::
    "local_zone \<Rightarrow> db \<Rightarrow> date \<Rightarrow> money_transaction \<Rightarrow> (uuid \<times> supplier_summary_row) list
     \<Rightarrow> (uuid \<times> supplier_summary_row) list" where
  "add_payment z d as_of m =
     with_summary d (the (mt_counterparty m)) (\<lambda>s. s\<lparr>
       ss_paid_amount := ss_paid_amount s + mt_amount m,
       ss_balance := ss_balance s - mt_amount m,
       ss_payment_open_amount := ss_payment_open_amount s + money_open_at (cutoff z as_of) d m,
       ss_latest_activity_on :=
         latest_activity (ss_latest_activity_on s) (lz_day z (mt_occurred_at m))\<rparr>)"

definition supplier_summary_rows ::
    "local_zone \<Rightarrow> db \<Rightarrow> date \<Rightarrow> invoice list \<Rightarrow> money_transaction list \<Rightarrow> supplier_summary_row list" where
  "supplier_summary_rows z d as_of bills payments =
     sort_key (\<lambda>s. (ss_counterparty_name s, uuid_str (ss_counterparty_id s)))
       (map snd (fold (add_payment z d as_of) payments (fold (add_invoice z d as_of) bills [])))"

definition supplier_summaries_as_of ::
    "(pystr \<Rightarrow> pystr) \<Rightarrow> local_zone \<Rightarrow> db \<Rightarrow> date \<Rightarrow> pystr \<Rightarrow> supplier_summary_row list" where
  "supplier_summaries_as_of up z d as_of search =
     supplier_summary_rows z d as_of
       (supplier_invoice_records up z d as_of (strip search) None)
       (supplier_payment_records up z d as_of (strip search) None)"

definition supplier_summary_as_of ::
    "(pystr \<Rightarrow> pystr) \<Rightarrow> local_zone \<Rightarrow> db \<Rightarrow> uuid \<Rightarrow> date \<Rightarrow> exn + supplier_summary_row" where
  "supplier_summary_as_of up z d i as_of =
     (case find_row cp_id (filter cp_is_supplier (parties d)) i of
        None \<Rightarrow> Inl ObjectDoesNotExist
      | Some supplier \<Rightarrow>
          (case supplier_summary_rows z d as_of
                  (supplier_invoice_records up z d as_of [] (Some i))
                  (supplier_payment_records up z d as_of [] (Some i)) of
             row # _ \<Rightarrow> Inr row
           | [] \<Rightarrow> Inr (empty_supplier_summary (cp_id supplier) (cp_name supplier))))"

definition summary_totals :: "supplier_summary_row list \<Rightarrow> supplier_summary_totals" where
  "summary_totals rows =
     \<lparr>st_supplier_count = length rows,
      st_invoiced_amount = sum_list (map ss_invoiced_amount rows),
      st_paid_amount = sum_list (map ss_paid_amount rows),
      st_balance = sum_list (map ss_balance rows)\<rparr>"

section \<open>The ledger of a supplier\<close>

definition invoice_entry :: "local_zone \<Rightarrow> db \<Rightarrow> date \<Rightarrow> invoice \<Rightarrow> supplier_ledger_row" where
  "invoice_entry z d as_of b =
     \<lparr>sl_kind = InvoiceEntry, sl_reference_id = inv_id b, sl_occurred_on = inv_issue_date b,
      sl_reference = inv_number b, sl_channel = [], sl_increase = inv_total_amount b,
      sl_decrease = 0, sl_running_balance = 0,
      sl_allocated_amount = historical_allocated ra_invoice (cutoff z as_of) d (inv_id b),
      sl_open_amount = invoice_open_at (cutoff z as_of) d b, sl_import_batch_id = inv_import_batch b,
      sl_source_file_id = source_file_id d (inv_import_batch b),
      sl_can_reconcile = (inv_status b = InvoiceStatus_NORMAL \<and> 0 < current_open_amount d b)\<rparr>"

definition payment_entry :: "local_zone \<Rightarrow> db \<Rightarrow> date \<Rightarrow> money_transaction \<Rightarrow> supplier_ledger_row" where
  "payment_entry z d as_of m =
     \<lparr>sl_kind = PaymentEntry, sl_reference_id = mt_id m, sl_occurred_on = lz_day z (mt_occurred_at m),
      sl_reference = (if mt_transaction_id m \<noteq> [] then mt_transaction_id m else mt_fingerprint m),
      sl_channel = mt_channel m, sl_increase = 0, sl_decrease = mt_amount m, sl_running_balance = 0,
      sl_allocated_amount = historical_allocated ra_transaction (cutoff z as_of) d (mt_id m),
      sl_open_amount = money_open_at (cutoff z as_of) d m, sl_import_batch_id = mt_import_batch m,
      sl_source_file_id = source_file_id d (mt_import_batch m), sl_can_reconcile = False\<rparr>"

fun with_running_balance :: "money \<Rightarrow> supplier_ledger_row list \<Rightarrow> supplier_ledger_row list" where
  "with_running_balance v [] = []"
| "with_running_balance v (r # rs) =
     (let w = v + (sl_increase r - sl_decrease r)
      in r\<lparr>sl_running_balance := w\<rparr> # with_running_balance w rs)"

definition ledger_order :: "supplier_ledger_row \<Rightarrow> date \<times> nat \<times> pystr" where
  "ledger_order r =
     (sl_occurred_on r, if sl_kind r = InvoiceEntry then 0 else 1, uuid_str (sl_reference_id r))"

definition supplier_ledger_as_of ::
    "(pystr \<Rightarrow> pystr) \<Rightarrow> local_zone \<Rightarrow> db \<Rightarrow> uuid \<Rightarrow> date \<Rightarrow> supplier_ledger_row list" where
  "supplier_ledger_as_of up z d i as_of =
     with_running_balance 0 (sort_key ledger_order
       (map (invoice_entry z d as_of) (supplier_invoice_records up z d as_of [] (Some i))
        @ map (payment_entry z d as_of) (supplier_payment_records up z d as_of [] (Some i))))"

end
