(* ===== verification/Report_Coverage.thy ===== *)
theory Report_Coverage
  imports Report_Queries
begin

text \<open>
  The register of the periods that the imported data cover (\<open>DataCoveragePeriod\<close> of
  \<open>apps/imports/models.py\<close>) with its validation, and the statement of a supplier report on it.
  The register is a table of its own: no service of the ledger reads or writes it.
\<close>

section \<open>Coverage periods\<close>

abbreviation CoverageStatus_FULL :: pystr where "CoverageStatus_FULL \<equiv> lit ''full''"
abbreviation CoverageStatus_PARTIAL :: pystr where "CoverageStatus_PARTIAL \<equiv> lit ''partial''"
abbreviation CoverageStatus_MISSING :: pystr where "CoverageStatus_MISSING \<equiv> lit ''missing''"

definition CoverageStatus_choices :: "(pystr \<times> pystr) list" where
  "CoverageStatus_choices = [(CoverageStatus_FULL, [23436, 25972]),
     (CoverageStatus_PARTIAL, [37096, 20998, 32570, 22833]), (CoverageStatus_MISSING, [32570, 22833])]"

definition SourceKind_choices :: "(pystr \<times> pystr) list" where
  "SourceKind_choices = [(SourceKind_INPUT_INVOICE, [36827, 39033, 21457, 31080]),
     (SourceKind_OUTPUT_INVOICE, [38144, 39033, 21457, 31080]), (SourceKind_BANK, [38134, 34892]),
     (SourceKind_WECHAT, [24494, 20449])]"

record coverage_period =
  dc_id :: uuid
  dc_year :: int
  dc_source_kind :: pystr
  dc_status :: pystr
  dc_expected_start :: date
  dc_expected_end :: date
  dc_actual_start :: "date option"
  dc_actual_end :: "date option"
  dc_missing_notes :: pystr

text \<open>\<open>clean\<close>: the errors by field, in the order the dictionary receives its keys.\<close>

definition actual_errors :: "coverage_period \<Rightarrow> (pystr \<times> pystr) list" where
  "actual_errors p =
     (if dc_status p = CoverageStatus_MISSING then
        (if dc_actual_start p \<noteq> None \<or> dc_actual_end p \<noteq> None
         then [(lit ''actual_start'', [32570, 22833, 36164, 26009, 19981, 33021, 35760, 24405,
     23454, 38469, 36164, 26009, 21306, 38388])] else [])
      else if dc_status p \<in> {CoverageStatus_FULL, CoverageStatus_PARTIAL} then
        (case (dc_actual_start p, dc_actual_end p) of
           (Some s, Some e) \<Rightarrow>
             if e < s then [(lit ''actual_end'', [23454, 38469, 36164, 26009, 21306, 38388, 32467, 26463,
     26085, 26399, 19981, 33021, 26089, 20110, 24320, 22987,
     26085, 26399])]
             else if s < dc_expected_start p \<or> dc_expected_end p < e
             then [(lit ''actual_start'', [23454, 38469, 36164, 26009, 21306, 38388, 24517, 39035,
     20301, 20110, 39044, 26399, 36164, 26009, 21306, 38388,
     20869])]
             else []
         | _ \<Rightarrow> [(lit ''actual_start'', [23454, 38469, 36164, 26009, 21306, 38388, 24517, 39035,
     21516, 26102, 25552, 20379, 24320, 22987, 21644, 32467,
     26463, 26085, 26399])])
      else [])"

definition period_errors :: "coverage_period \<Rightarrow> (pystr \<times> pystr) list" where
  "period_errors p =
     (if dc_expected_end p < dc_expected_start p
      then [(lit ''expected_end'', [39044, 26399, 36164, 26009, 21306, 38388, 32467, 26463,
     26085, 26399, 19981, 33021, 26089, 20110, 24320, 22987,
     26085, 26399])] else [])
     @ actual_errors p"

text \<open>The check constraints of the table.\<close>

definition period_constraints :: "coverage_period \<Rightarrow> bool" where
  "period_constraints p \<longleftrightarrow>
     dc_expected_start p \<le> dc_expected_end p
     \<and> dc_status p \<in> {CoverageStatus_FULL, CoverageStatus_PARTIAL, CoverageStatus_MISSING}
     \<and> (dc_status p = CoverageStatus_MISSING \<and> dc_actual_start p = None \<and> dc_actual_end p = None
        \<or> dc_status p \<in> {CoverageStatus_FULL, CoverageStatus_PARTIAL}
          \<and> (case (dc_actual_start p, dc_actual_end p) of
               (Some s, Some e) \<Rightarrow> s \<le> e \<and> dc_expected_start p \<le> s \<and> e \<le> dc_expected_end p
             | _ \<Rightarrow> False))"

text \<open>The validation of the form and the constraints of the table agree.\<close>

lemma period_errors_iff:
  assumes "dc_status p \<in> {CoverageStatus_FULL, CoverageStatus_PARTIAL, CoverageStatus_MISSING}"
  shows "period_errors p = [] \<longleftrightarrow> period_constraints p"
  using assms
  by (auto simp: period_errors_def actual_errors_def period_constraints_def split: option.splits)

section \<open>The coverage matrix\<close>

text \<open>
  \<open>coverage_matrix\<close> of \<open>apps/imports/history.py\<close>: one period for every registered year and source
  kind; a gap is filled with a missing period of the whole year, whose identifier is drawn
  from \<open>ids\<close>.
\<close>

definition missing_period :: "(int \<Rightarrow> pystr \<Rightarrow> uuid) \<Rightarrow> int \<Rightarrow> pystr \<Rightarrow> coverage_period" where
  "missing_period ids year kind =
     \<lparr>dc_id = ids year kind, dc_year = year, dc_source_kind = kind, dc_status = CoverageStatus_MISSING,
      dc_expected_start = ymd_ord year 1 1, dc_expected_end = ymd_ord year 12 31,
      dc_actual_start = None, dc_actual_end = None,
      dc_missing_notes = [26410, 30331, 35760, 35813, 24180, 24230, 26469, 28304,
     36164, 26009, 23436, 25972, 24615, 35760, 24405]\<rparr>"

definition find_period :: "coverage_period list \<Rightarrow> int \<times> pystr \<Rightarrow> coverage_period option" where
  "find_period register key = List.find (\<lambda>p. (dc_year p, dc_source_kind p) = key) register"

definition coverage_matrix ::
    "(int \<Rightarrow> pystr \<Rightarrow> uuid) \<Rightarrow> coverage_period list \<Rightarrow> ((int \<times> pystr) \<times> coverage_period) list" where
  "coverage_matrix ids register =
     (if register = [] then []
      else map (\<lambda>(y, k). ((y, k), case find_period register (y, k) of
                                     Some p \<Rightarrow> p | None \<Rightarrow> missing_period ids y k))
             (List.product [Min (dc_year ` set register)..Max (dc_year ` set register)] SourceKind_values))"

text \<open>Every entry satisfies the constraints of the table when the registered ones do.\<close>

lemma missing_period_constraints: "period_constraints (missing_period ids year kind)"
proof -
  have "ymd_ord year 1 1 \<le> ymd_ord year 12 31"
    by (simp add: ymd_ord_def days_before_month_def month_lengths_def eval_nat_numeral)
  then show ?thesis by (simp add: period_constraints_def missing_period_def)
qed

lemma coverage_matrix_sound:
  assumes "\<forall>p\<in>set register. period_constraints p" "(k, p) \<in> set (coverage_matrix ids register)"
  shows "period_constraints p \<and> (dc_year p, dc_source_kind p) = k"
proof -
  obtain y s where k: "k = (y, s)" and p: "p = (case find_period register (y, s) of
      Some p \<Rightarrow> p | None \<Rightarrow> missing_period ids y s)"
    using assms(2) by (auto simp: coverage_matrix_def split: if_splits)
  show ?thesis
  proof (cases "find_period register (y, s)")
    case None
    then show ?thesis using p k missing_period_constraints by (simp add: missing_period_def)
  next
    case (Some q)
    then obtain i where "i < length register" "(dc_year (register ! i), dc_source_kind (register ! i)) = (y, s)"
        "q = register ! i"
      by (auto simp: find_period_def find_Some_iff)
    then show ?thesis using assms(1) p k Some by simp
  qed
qed

section \<open>The coverage of a supplier report\<close>

record supplier_coverage =
  sc_code :: pystr
  sc_label :: pystr
  sc_detail :: pystr

definition SUPPLIER_SOURCE_KINDS :: "pystr list" where
  "SUPPLIER_SOURCE_KINDS = [SourceKind_INPUT_INVOICE, SourceKind_BANK, SourceKind_WECHAT]"

definition label_of :: "(pystr \<times> pystr) list \<Rightarrow> pystr \<Rightarrow> pystr" where
  "label_of choices k = (case map_of choices k of None \<Rightarrow> k | Some s \<Rightarrow> s)"

text \<open>One entry of a detail text: year, source kind and status.\<close>

definition coverage_entry :: "int \<Rightarrow> pystr \<Rightarrow> pystr \<Rightarrow> pystr" where
  "coverage_entry year kind status =
     str_int year @ [24180] @ label_of SourceKind_choices kind @ [65306] @ status"

definition supplier_coverage_detail :: "coverage_period list \<Rightarrow> pystr" where
  "supplier_coverage_detail periods =
     join [65307] (map (\<lambda>p. coverage_entry (dc_year p) (dc_source_kind p)
       (label_of CoverageStatus_choices (dc_status p))) periods)"

definition year_of :: "date \<Rightarrow> int" where
  "year_of day = fst (ord_ymd day)"

text \<open>The years and source kinds that should be registered and are not, in order.\<close>

definition missing_periods :: "coverage_period list \<Rightarrow> date \<Rightarrow> (int \<times> pystr) list" where
  "missing_periods periods as_of =
     sort_key id (filter (\<lambda>k. k \<notin> (\<lambda>p. (dc_year p, dc_source_kind p)) ` set periods)
       (List.product [Min (dc_year ` set periods)..year_of as_of] SUPPLIER_SOURCE_KINDS))"

definition supplier_coverage_as_of :: "coverage_period list \<Rightarrow> date \<Rightarrow> supplier_coverage" where
  "supplier_coverage_as_of register as_of =
     (let periods = sort_key (\<lambda>p. (dc_year p, dc_source_kind p))
            (filter (\<lambda>p. dc_source_kind p \<in> set SUPPLIER_SOURCE_KINDS \<and> dc_expected_start p \<le> as_of) register);
          unregistered = (\<lambda>detail. \<lparr>sc_code = lit ''unregistered'', sc_label = [23436, 25972, 24615, 26410, 30331, 35760],
            sc_detail = detail\<rparr>);
          missing = missing_periods periods as_of
      in if periods = [] then unregistered []
         else if \<exists>p\<in>set periods. dc_status p \<in> {CoverageStatus_PARTIAL, CoverageStatus_MISSING}
         then \<lparr>sc_code = lit ''incomplete'', sc_label = [36164, 26009, 19981, 23436, 25972],
               sc_detail = supplier_coverage_detail periods\<rparr>
         else if missing \<noteq> []
         then unregistered (join [65307] (map (\<lambda>(y, k). coverage_entry y k [26410, 30331, 35760]) missing))
         else \<lparr>sc_code = lit ''full'', sc_label = [36164, 26009, 23436, 25972],
               sc_detail = supplier_coverage_detail periods\<rparr>)"

text \<open>
  The report calls its data complete exactly when a period is registered for every supplier
  source of every year from the first registered one to the year of the report, and none of
  the periods begun by that day is partial or missing.
\<close>

lemma coverage_full_iff:
  fixes as_of :: date
  assumes "\<forall>p\<in>set register. dc_status p \<in> {CoverageStatus_FULL, CoverageStatus_PARTIAL, CoverageStatus_MISSING}"
  defines "periods \<equiv> filter (\<lambda>p. dc_source_kind p \<in> set SUPPLIER_SOURCE_KINDS \<and> dc_expected_start p \<le> as_of) register"
  shows "sc_code (supplier_coverage_as_of register as_of) = lit ''full'' \<longleftrightarrow>
     periods \<noteq> [] \<and> (\<forall>p\<in>set periods. dc_status p = CoverageStatus_FULL)
     \<and> (\<forall>y k. Min (dc_year ` set periods) \<le> y \<and> y \<le> year_of as_of \<and> k \<in> set SUPPLIER_SOURCE_KINDS \<longrightarrow>
          (\<exists>p\<in>set periods. dc_year p = y \<and> dc_source_kind p = k))"
proof -
  let ?ps = "sort_key (\<lambda>p. (dc_year p, dc_source_kind p)) periods"
  have empty: "?ps = [] \<longleftrightarrow> periods = []"
    by (rule sort_key_Nil)
  have full: "(\<exists>p\<in>set ?ps. dc_status p \<in> {CoverageStatus_PARTIAL, CoverageStatus_MISSING})
      \<longleftrightarrow> \<not> (\<forall>p\<in>set periods. dc_status p = CoverageStatus_FULL)"
    using assms(1) by (force simp: periods_def)
  have "missing_periods ?ps as_of = [] \<longleftrightarrow>
      filter (\<lambda>k. k \<notin> (\<lambda>p. (dc_year p, dc_source_kind p)) ` set periods)
        (List.product [Min (dc_year ` set periods)..year_of as_of] SUPPLIER_SOURCE_KINDS) = []"
    unfolding missing_periods_def set_sort by (rule sort_key_Nil)
  also have "\<dots> \<longleftrightarrow> (\<forall>y k. Min (dc_year ` set periods) \<le> y \<and> y \<le> year_of as_of \<and> k \<in> set SUPPLIER_SOURCE_KINDS \<longrightarrow>
          (\<exists>p\<in>set periods. dc_year p = y \<and> dc_source_kind p = k))"
    by (force simp: filter_empty_conv image_iff)
  finally show ?thesis
    using empty full unfolding supplier_coverage_as_of_def Let_def periods_def [symmetric]
    by (simp only: if_distrib [of sc_code] supplier_coverage.simps lit_inject) (simp split: if_splits)
qed

end
