(* ===== verification/Report_Exceptions.thy ===== *)
theory Report_Exceptions
  imports Report_Coverage
begin

text \<open>
  The list of exceptions (\<open>exception_items\<close> of \<open>apps/reporting/queries.py\<close>): everything that
  somebody has to look at on a day, by type, day and identifier.
\<close>

section \<open>Items\<close>

datatype exception_type = RECEIVABLE_OPEN | PAYABLE_OPEN | INFLOW_UNMATCHED | OUTFLOW_UNMATCHED
  | COUNTERPARTY_UNKNOWN | RECONCILIATION_DIFFERENCE | DUPLICATE_IMPORT
  | RED_WITH_ACTIVE_ALLOCATION | STALE_OPEN_ITEM | HISTORY_INCOMPLETE

fun exception_value :: "exception_type \<Rightarrow> pystr" where
  "exception_value RECEIVABLE_OPEN = [24212, 25910, 26410, 25910]"
| "exception_value PAYABLE_OPEN = [24212, 20184, 26410, 20184]"
| "exception_value INFLOW_UNMATCHED = [26410, 21305, 37197, 25910, 27454]"
| "exception_value OUTFLOW_UNMATCHED = [26410, 21305, 37197, 20184, 27454]"
| "exception_value COUNTERPARTY_UNKNOWN = [21333, 20301, 26410, 35782, 21035]"
| "exception_value RECONCILIATION_DIFFERENCE = [26680, 38144, 24046, 39069]"
| "exception_value DUPLICATE_IMPORT = [30097, 20284, 37325, 22797]"
| "exception_value RED_WITH_ACTIVE_ALLOCATION = [32418, 20914, 24453, 22788, 29702]"
| "exception_value STALE_OPEN_ITEM = [38271, 26399, 26410, 26680, 38144]"
| "exception_value HISTORY_INCOMPLETE = [21382, 21490, 36164, 26009, 32570, 22833]"

text \<open>The order of \<open>enumerate(ExceptionType)\<close>.\<close>

definition all_exception_types :: "exception_type list" where
  "all_exception_types = [RECEIVABLE_OPEN, PAYABLE_OPEN, INFLOW_UNMATCHED, OUTFLOW_UNMATCHED,
     COUNTERPARTY_UNKNOWN, RECONCILIATION_DIFFERENCE, DUPLICATE_IMPORT,
     RED_WITH_ACTIVE_ALLOCATION, STALE_OPEN_ITEM, HISTORY_INCOMPLETE]"

definition type_order :: "exception_type \<Rightarrow> nat" where
  "type_order t = length (takeWhile (\<lambda>x. x \<noteq> t) all_exception_types)"

record exception_item =
  ex_type :: exception_type
  ex_reference_id :: uuid
  ex_occurred_on :: "date option"
  ex_counterparty_name :: pystr
  ex_amount :: "money option"
  ex_detail :: pystr

section \<open>Open invoices and funds\<close>

definition open_invoice_item :: "exception_type \<Rightarrow> open_invoice_row \<Rightarrow> exception_item" where
  "open_invoice_item t r =
     \<lparr>ex_type = t, ex_reference_id = oi_invoice_id r, ex_occurred_on = Some (oi_issue_date r),
      ex_counterparty_name = oi_counterparty_name r, ex_amount = Some (oi_open_amount r),
      ex_detail = [36134, 40836, 32] @ oi_aging_bucket r\<rparr>"

definition open_invoice_exceptions :: "local_zone \<Rightarrow> db \<Rightarrow> date \<Rightarrow> exception_item list" where
  "open_invoice_exceptions z d as_of =
     map (open_invoice_item RECEIVABLE_OPEN) (receivables_as_of z d as_of)
     @ map (open_invoice_item PAYABLE_OPEN) (payables_as_of z d as_of)"

definition money_items :: "local_zone \<Rightarrow> db \<Rightarrow> date \<Rightarrow> money_transaction \<Rightarrow> exception_item list" where
  "money_items z d as_of m =
     [\<lparr>ex_type = (if mt_direction m = MoneyDirection_INFLOW then INFLOW_UNMATCHED else OUTFLOW_UNMATCHED),
       ex_reference_id = mt_id m, ex_occurred_on = Some (lz_day z (mt_occurred_at m)),
       ex_counterparty_name = money_party_name d m,
       ex_amount = Some (money_open_at (cutoff z as_of) d m),
       ex_detail = [23384, 22312, 26410, 26680, 38144, 36164, 37329]\<rparr>]
     @ (if mt_counterparty m = None then
          [\<lparr>ex_type = COUNTERPARTY_UNKNOWN, ex_reference_id = mt_id m,
            ex_occurred_on = Some (lz_day z (mt_occurred_at m)),
            ex_counterparty_name = msg_unknown_party,
            ex_amount = Some (money_open_at (cutoff z as_of) d m),
            ex_detail = [36164, 37329, 24448, 26469, 21333, 20301, 26410, 23436,
     25104, 26144, 23556]\<rparr>]
        else [])"

definition money_exceptions :: "local_zone \<Rightarrow> db \<Rightarrow> date \<Rightarrow> exception_item list" where
  "money_exceptions z d as_of = List.bind (open_money z d as_of) (money_items z d as_of)"

section \<open>Imports\<close>

definition batch_created_before :: "instant \<Rightarrow> db \<Rightarrow> uuid \<Rightarrow> bool" where
  "batch_created_before c d i =
     (case find_row ib_id (import_batches d) i of None \<Rightarrow> False | Some b \<Rightarrow> ib_created_at b < c)"

text \<open>
  \<open>issues\<close> is a column that only lists are written to, and the code of an issue is a text.
\<close>

definition issue_has_code :: "pystr list \<Rightarrow> json \<Rightarrow> bool" where
  "issue_has_code codes issues =
     (case issues of
        JList xs \<Rightarrow>
          (\<exists>x\<in>set xs. case x of
             JObj kvs \<Rightarrow> (case map_of kvs (lit ''code'') of Some (JStr s) \<Rightarrow> s \<in> set codes | _ \<Rightarrow> False)
           | _ \<Rightarrow> False)
      | _ \<Rightarrow> False)"

definition batch_row_detail :: "uuid \<Rightarrow> int \<Rightarrow> pystr \<Rightarrow> pystr" where
  "batch_row_detail batch n what =
     [23548, 20837, 25209, 27425, 32] @ take 8 (uuid_str batch) @ [32, 31532, 32] @ str_int n @ what"

definition staged_in_order :: "(staged_row \<Rightarrow> bool) \<Rightarrow> db \<Rightarrow> staged_row list" where
  "staged_in_order P d = sort_key (\<lambda>r. (sr_batch r, sr_row_number r)) (filter P (staged_rows d))"

definition mapping_issue_exceptions :: "local_zone \<Rightarrow> db \<Rightarrow> date \<Rightarrow> exception_item list" where
  "mapping_issue_exceptions z d as_of =
     map (\<lambda>r. \<lparr>ex_type = COUNTERPARTY_UNKNOWN, ex_reference_id = sr_id r, ex_occurred_on = None,
            ex_counterparty_name = msg_unknown_party, ex_amount = None,
            ex_detail = batch_row_detail (sr_batch r) (sr_row_number r) [32, 34892, 21333, 20301, 24453, 22788, 29702]\<rparr>)
       (filter (\<lambda>r. issue_has_code [lit ''counterparty'', lit ''counterparty_ambiguous''] (sr_issues r))
          (staged_in_order (\<lambda>r. batch_created_before (cutoff z as_of) d (sr_batch r)) d))"

definition msg_import_data :: pystr where "msg_import_data = [23548, 20837, 36164, 26009]"

definition duplicate_exceptions :: "local_zone \<Rightarrow> db \<Rightarrow> date \<Rightarrow> exception_item list" where
  "duplicate_exceptions z d as_of =
     (let c = cutoff z as_of;
          rows = staged_in_order (\<lambda>r. sr_is_duplicate r \<and> batch_created_before c d (sr_batch r)) d
      in map (\<lambda>r. \<lparr>ex_type = DUPLICATE_IMPORT, ex_reference_id = sr_id r, ex_occurred_on = None,
                ex_counterparty_name = msg_import_data, ex_amount = None,
                ex_detail = batch_row_detail (sr_batch r) (sr_row_number r) [32, 34892, 30097, 20284, 37325, 22797]\<rparr>) rows
         @ map (\<lambda>b. \<lparr>ex_type = DUPLICATE_IMPORT, ex_reference_id = ib_id b,
                  ex_occurred_on = Some (lz_day z (ib_created_at b)),
                  ex_counterparty_name = msg_import_data, ex_amount = None,
                  ex_detail = [23548, 20837, 25209, 27425, 32] @ take 8 (uuid_str (ib_id b)) @ [32, 26377, 32]
                    @ str_int (ib_duplicate_rows b) @ [32, 34892, 30097, 20284, 37325, 22797]\<rparr>)
             (sort_key (\<lambda>b. (ib_created_at b, ib_id b))
                (filter (\<lambda>b. 0 < ib_duplicate_rows b \<and> ib_created_at b < c \<and> ib_id b \<notin> sr_batch ` set rows)
                   (import_batches d))))"

section \<open>Reconciliations\<close>

definition valid_allocations :: "instant \<Rightarrow> db \<Rightarrow> allocation list" where
  "valid_allocations c d =
     sort_key (\<lambda>a. (ra_reconciliation a, ra_id a)) (filter (historically_valid c d) (allocs d))"

text \<open>The keys of a dictionary that is filled from a list: the first occurrences.\<close>

definition first_keys :: "'a list \<Rightarrow> 'a list" where
  "first_keys xs = rev (remdups (rev xs))"

definition open_of_invoice :: "instant \<Rightarrow> db \<Rightarrow> uuid \<Rightarrow> money" where
  "open_of_invoice c d i =
     (case find_row inv_id (invoices d) i of None \<Rightarrow> 0 | Some b \<Rightarrow> invoice_open_at c d b)"

definition open_of_money :: "instant \<Rightarrow> db \<Rightarrow> uuid \<Rightarrow> money" where
  "open_of_money c d i =
     (case find_row mt_id (moneys d) i of None \<Rightarrow> 0 | Some m \<Rightarrow> money_open_at c d m)"

definition reconciliation_difference :: "instant \<Rightarrow> db \<Rightarrow> allocation list \<Rightarrow> money" where
  "reconciliation_difference c d rows =
     \<bar>sum_list (map (open_of_invoice c d) (remdups (map ra_invoice rows)))
      - sum_list (map (open_of_money c d) (remdups (map ra_transaction rows)))\<bar>"

definition partial_reconciliation_exceptions :: "local_zone \<Rightarrow> db \<Rightarrow> date \<Rightarrow> exception_item list" where
  "partial_reconciliation_exceptions z d as_of =
     (let c = cutoff z as_of; rows = valid_allocations c d;
          grouped = (\<lambda>i. filter (\<lambda>a. ra_reconciliation a = i) rows)
      in map (\<lambda>i. \<lparr>ex_type = RECONCILIATION_DIFFERENCE, ex_reference_id = i,
                ex_occurred_on =
                  (case find_row rc_id (recons d) i of
                     None \<Rightarrow> None | Some r \<Rightarrow> Some (lz_day z (rc_created_at r))),
                ex_counterparty_name = [22810, 31508, 24448, 26469],
                ex_amount = Some (reconciliation_difference c d (grouped i)),
                ex_detail = [26377, 25928, 26680, 38144, 21518, 31080, 27454, 20173,
     26377, 24046, 39069]\<rparr>)
           (filter (\<lambda>i. 0 < reconciliation_difference c d (grouped i))
              (first_keys (map ra_reconciliation rows))))"

definition red_allocation_exceptions :: "local_zone \<Rightarrow> db \<Rightarrow> date \<Rightarrow> exception_item list" where
  "red_allocation_exceptions z d as_of =
     (let c = cutoff z as_of in
      map (\<lambda>b. \<lparr>ex_type = RED_WITH_ACTIVE_ALLOCATION, ex_reference_id = inv_id b,
             ex_occurred_on = Some (inv_issue_date b),
             ex_counterparty_name = party_name d (inv_counterparty b),
             ex_amount = Some (historical_allocated ra_invoice c d (inv_id b)),
             ex_detail = (if inv_status b = InvoiceStatus_RED then [32418, 20914, 21457, 31080, 20173, 23384, 22312, 26377,
     25928, 26680, 38144]
                          else [20316, 24223, 21457, 31080, 20173, 23384, 22312, 26377,
     25928, 26680, 38144])\<rparr>)
        (sort_key (\<lambda>b. (inv_issue_date b, inv_id b))
           (filter (\<lambda>b. inv_status b \<in> {InvoiceStatus_RED, InvoiceStatus_VOID} \<and> inv_issue_date b \<le> as_of
              \<and> 0 < historical_allocated ra_invoice c d (inv_id b)) (invoices d))))"

section \<open>Stale items\<close>

definition msg_stale_invoice :: pystr where "msg_stale_invoice = [31080, 25454, 36229, 36807, 32, 57, 48, 32, 22825, 26410,
     26680, 38144]"

definition stale_invoice_items ::
    "db \<Rightarrow> date \<Rightarrow> exception_item list \<Rightarrow> exception_item list" where
  "stale_invoice_items d as_of items =
     (let open_by = map_of (rev (map (\<lambda>x. (ex_reference_id x, x))
            (filter (\<lambda>x. ex_type x \<in> {RECEIVABLE_OPEN, PAYABLE_OPEN}) items)))
      in List.map_filter (\<lambda>b.
           case open_by (inv_id b) of
             None \<Rightarrow> None
           | Some x \<Rightarrow>
               if 91 \<le> as_of - base_date b
               then Some \<lparr>ex_type = STALE_OPEN_ITEM, ex_reference_id = inv_id b,
                          ex_occurred_on = Some (base_date b),
                          ex_counterparty_name = party_name d (inv_counterparty b),
                          ex_amount = ex_amount x, ex_detail = msg_stale_invoice\<rparr>
               else None) (invoices d))"

definition stale_money_items :: "local_zone \<Rightarrow> db \<Rightarrow> date \<Rightarrow> exception_item list" where
  "stale_money_items z d as_of =
     map (\<lambda>m. \<lparr>ex_type = STALE_OPEN_ITEM, ex_reference_id = mt_id m,
            ex_occurred_on = Some (lz_day z (mt_occurred_at m)),
            ex_counterparty_name = money_party_name d m,
            ex_amount = Some (money_open_at (cutoff z as_of) d m),
            ex_detail = [36164, 37329, 36229, 36807, 32, 57, 48, 32, 22825, 26410,
     26680, 38144]\<rparr>)
       (filter (\<lambda>m. 91 \<le> as_of - lz_day z (mt_occurred_at m)) (open_money z d as_of))"

definition stale_exceptions :: "local_zone \<Rightarrow> db \<Rightarrow> date \<Rightarrow> exception_item list" where
  "stale_exceptions z d as_of =
     stale_invoice_items d as_of (open_invoice_exceptions z d as_of) @ stale_money_items z d as_of"

section \<open>Missing history\<close>

definition partial_batches :: "instant \<Rightarrow> db \<Rightarrow> import_batch list" where
  "partial_batches c d =
     sort_key (\<lambda>b. (ib_created_at b, ib_id b))
       (filter (\<lambda>b. ib_status b = BatchStatus_PARTIAL \<and> ib_created_at b < c) (import_batches d))"

definition incomplete_periods :: "coverage_period list \<Rightarrow> date \<Rightarrow> coverage_period list" where
  "incomplete_periods register as_of =
     sort_key (\<lambda>p. (dc_year p, dc_source_kind p, dc_id p))
       (filter (\<lambda>p. dc_year p \<le> year_of as_of
          \<and> dc_status p \<in> {CoverageStatus_PARTIAL, CoverageStatus_MISSING}) register)"

definition history_exceptions ::
    "local_zone \<Rightarrow> coverage_period list \<Rightarrow> db \<Rightarrow> date \<Rightarrow> exception_item list" where
  "history_exceptions z register d as_of =
     map (\<lambda>p. \<lparr>ex_type = HISTORY_INCOMPLETE, ex_reference_id = dc_id p,
            ex_occurred_on = Some (dc_expected_start p), ex_counterparty_name = [21382, 21490, 36164, 26009],
            ex_amount = None,
            ex_detail = str_int (dc_year p) @ [32, 24180, 32] @ label_of SourceKind_choices (dc_source_kind p)
              @ [36164, 26009] @ label_of CoverageStatus_choices (dc_status p)\<rparr>)
       (incomplete_periods register as_of)
     @ map (\<lambda>b. \<lparr>ex_type = HISTORY_INCOMPLETE, ex_reference_id = ib_id b,
              ex_occurred_on = Some (lz_day z (ib_created_at b)),
              ex_counterparty_name = msg_import_data, ex_amount = None,
              ex_detail = [23548, 20837, 25209, 27425, 32] @ take 8 (uuid_str (ib_id b)) @ [32, 37096, 20998, 23436, 25104]\<rparr>)
         (partial_batches (cutoff z as_of) d)"

section \<open>The list\<close>

text \<open>\<open>item.occurred_on or date.min\<close>: \<open>date.min\<close> is day 1.\<close>

definition exception_key :: "exception_item \<Rightarrow> nat \<times> date \<times> pystr" where
  "exception_key x =
     (type_order (ex_type x), case ex_occurred_on x of None \<Rightarrow> 1 | Some n \<Rightarrow> n, uuid_str (ex_reference_id x))"

definition exception_items ::
    "local_zone \<Rightarrow> coverage_period list \<Rightarrow> db \<Rightarrow> date \<Rightarrow> exception_item list" where
  "exception_items z register d as_of =
     sort_key exception_key
       (open_invoice_exceptions z d as_of @ money_exceptions z d as_of
        @ mapping_issue_exceptions z d as_of @ partial_reconciliation_exceptions z d as_of
        @ duplicate_exceptions z d as_of @ red_allocation_exceptions z d as_of
        @ stale_exceptions z d as_of @ history_exceptions z register d as_of)"

end
