(* ===== verification/Report_Dashboard.thy ===== *)
theory Report_Dashboard
  imports Report_Exceptions
begin

text \<open>
  The figures of the dashboard for a month (\<open>apps/reporting/dashboard.py\<close>).
\<close>

record daily_cashflow =
  df_date :: date
  df_inflow :: money
  df_outflow :: money

record amount_bucket =
  bu_label :: pystr
  bu_amount :: money

record dashboard =
  da_current_funds :: "money option"
  da_month_inflow :: money
  da_month_outflow :: money
  da_receivables :: money
  da_overdue_receivables :: money
  da_payables :: money
  da_due_within_7_days :: money
  da_daily_cashflow :: "daily_cashflow list"
  da_receivable_aging :: "amount_bucket list"
  da_payable_due_buckets :: "amount_bucket list"
  da_exception_counts :: "(pystr \<times> nat) list"
  da_data_incomplete :: bool
  da_incomplete_batch_ids :: "uuid list"

definition DUE_LABELS :: "pystr list" where
  "DUE_LABELS = [[24050, 36926, 26399], [55, 26085, 20869], [56, 45, 51, 48, 26085], [51, 48, 26085, 20197, 19978]]"

definition month_bounds :: "date \<Rightarrow> date \<times> date" where
  "month_bounds month =
     (case ord_ymd month of
        (y, m, dd) \<Rightarrow> (ymd_ord y m 1, ymd_ord y m (days_in_month y m)))"

definition day_total :: "local_zone \<Rightarrow> money_transaction list \<Rightarrow> date \<Rightarrow> pystr \<Rightarrow> money" where
  "day_total z rows day direction =
     sum_list (map mt_amount
       (filter (\<lambda>m. lz_day z (mt_occurred_at m) = day \<and> mt_direction m = direction) rows))"

definition cashflow_rows :: "local_zone \<Rightarrow> db \<Rightarrow> date \<Rightarrow> date \<Rightarrow> money_transaction list" where
  "cashflow_rows z d start stop =
     filter (\<lambda>m. cutoff z (start - 1) \<le> mt_occurred_at m \<and> mt_occurred_at m < cutoff z stop) (moneys d)"

definition cashflow :: "local_zone \<Rightarrow> db \<Rightarrow> date \<Rightarrow> date \<Rightarrow> daily_cashflow list" where
  "cashflow z d start stop =
     map (\<lambda>day. \<lparr>df_date = day,
            df_inflow = day_total z (cashflow_rows z d start stop) day MoneyDirection_INFLOW,
            df_outflow = day_total z (cashflow_rows z d start stop) day MoneyDirection_OUTFLOW\<rparr>)
       [start..stop]"

text \<open>The balance of the last snapshot of an account before the cutoff.\<close>

definition latest_balance :: "instant \<Rightarrow> db \<Rightarrow> uuid \<Rightarrow> money option" where
  "latest_balance c d i =
     (case sort_key (\<lambda>s. (bs_as_of s, bs_id s))
             (filter (\<lambda>s. bs_account s = i \<and> bs_as_of s < c) (snapshots d)) of
        [] \<Rightarrow> None | xs \<Rightarrow> Some (bs_balance (last xs)))"

definition current_funds :: "local_zone \<Rightarrow> db \<Rightarrow> date \<Rightarrow> money option \<times> bool" where
  "current_funds z d as_of =
     (let balances = map (\<lambda>x. latest_balance (cutoff z as_of) d (fa_id x)) (filter fa_active (accounts d));
          known = List.map_filter id balances
      in (if known = [] then None else Some (sum_list known), None \<in> set balances))"

definition due_label :: "date option \<Rightarrow> date \<Rightarrow> date \<Rightarrow> pystr" where
  "due_label due_date issue_date as_of =
     (let days = (case due_date of Some x \<Rightarrow> x | None \<Rightarrow> issue_date) - as_of
      in if days < 0 then DUE_LABELS ! 0
         else if days \<le> 7 then DUE_LABELS ! 1
         else if days \<le> 30 then DUE_LABELS ! 2 else DUE_LABELS ! 3)"

text \<open>The totals by label: a dictionary that starts with zero for every label.\<close>

definition bucket_totals ::
    "pystr list \<Rightarrow> (open_invoice_row \<Rightarrow> pystr) \<Rightarrow> open_invoice_row list \<Rightarrow> amount_bucket list" where
  "bucket_totals labels label rows =
     map (\<lambda>l. \<lparr>bu_label = l,
            bu_amount = sum_list (map oi_open_amount (filter (\<lambda>r. label r = l) rows))\<rparr>) labels"

definition exception_counts :: "exception_item list \<Rightarrow> (pystr \<times> nat) list" where
  "exception_counts items =
     map (\<lambda>t. (exception_value t, length (filter (\<lambda>x. ex_type x = t) items))) all_exception_types"

definition row_due_label :: "date \<Rightarrow> open_invoice_row \<Rightarrow> pystr" where
  "row_due_label as_of r = due_label (oi_due_date r) (oi_issue_date r) as_of"

definition row_overdue :: "date \<Rightarrow> open_invoice_row \<Rightarrow> bool" where
  "row_overdue as_of r \<longleftrightarrow> (case oi_due_date r of Some x \<Rightarrow> x | None \<Rightarrow> oi_issue_date r) < as_of"

definition dashboard_payload :: "local_zone \<Rightarrow> coverage_period list \<Rightarrow> db \<Rightarrow> date \<Rightarrow> dashboard" where
  "dashboard_payload z register d month =
     (let (start, as_of) = month_bounds month;
          daily = cashflow z d start as_of;
          receivable_rows = receivables_as_of z d as_of;
          payable_rows = payables_as_of z d as_of;
          aging = bucket_totals AGING_LABELS oi_aging_bucket receivable_rows;
          due = bucket_totals DUE_LABELS (row_due_label as_of) payable_rows;
          incomplete_ids = map ib_id (partial_batches (cutoff z as_of) d);
          coverage_incomplete = (\<exists>p\<in>set register. dc_year p \<le> year_of as_of
            \<and> dc_status p \<in> {CoverageStatus_PARTIAL, CoverageStatus_MISSING});
          (funds, account_incomplete) = current_funds z d as_of
      in \<lparr>da_current_funds = funds,
          da_month_inflow = sum_list (map df_inflow daily),
          da_month_outflow = sum_list (map df_outflow daily),
          da_receivables = sum_list (map oi_open_amount receivable_rows),
          da_overdue_receivables = sum_list (map oi_open_amount (filter (row_overdue as_of) receivable_rows)),
          da_payables = sum_list (map oi_open_amount payable_rows),
          da_due_within_7_days = bu_amount (due ! 1),
          da_daily_cashflow = daily,
          da_receivable_aging = aging,
          da_payable_due_buckets = due,
          da_exception_counts = exception_counts (exception_items z register d as_of),
          da_data_incomplete = (incomplete_ids \<noteq> [] \<or> coverage_incomplete \<or> account_incomplete),
          da_incomplete_batch_ids = incomplete_ids\<rparr>)"

section \<open>Totals\<close>

lemma sum_by_label:
  fixes f :: "'r \<Rightarrow> int"
  assumes "distinct labels" "\<forall>r\<in>set rows. label r \<in> set labels"
  shows "sum_list (map (\<lambda>l. sum_list (map f (filter (\<lambda>r. label r = l) rows))) labels)
     = sum_list (map f rows)"
  using assms
proof (induction labels arbitrary: rows)
  case (Cons l ls)
  let ?rest = "filter (\<lambda>r. label r \<noteq> l) rows"
  have "filter (\<lambda>r. label r = k) ?rest = filter (\<lambda>r. label r = k) rows" if "k \<in> set ls" for k
    using that Cons.prems(1) by (auto intro!: filter_cong)
  moreover have "\<forall>r\<in>set ?rest. label r \<in> set ls" using Cons.prems(2) by auto
  ultimately have "sum_list (map (\<lambda>k. sum_list (map f (filter (\<lambda>r. label r = k) rows))) ls)
      = sum_list (map f ?rest)"
    using Cons.IH [of ?rest] Cons.prems(1) by (simp cong: map_cong)
  then show ?case
    using sum_list_filter_split [of f "\<lambda>_. True" rows "\<lambda>r. label r = l"] by simp
qed simp

lemma aging_label_in: "aging_bucket b as_of \<in> set AGING_LABELS"
  by (simp add: aging_bucket_def AGING_LABELS_def Let_def)

lemma due_label_in: "due_label x y as_of \<in> set DUE_LABELS"
  by (simp add: due_label_def DUE_LABELS_def Let_def)

lemma aging_total:
  "sum_list (map bu_amount (bucket_totals AGING_LABELS oi_aging_bucket (open_invoice_rows z d direction as_of)))
     = sum_list (map oi_open_amount (open_invoice_rows z d direction as_of))"
  using sum_by_label [of AGING_LABELS "open_invoice_rows z d direction as_of" oi_aging_bucket oi_open_amount]
  by (simp add: bucket_totals_def comp_def open_invoice_rows_def aging_label_in)
    (simp add: AGING_LABELS_def)

lemma due_total:
  "sum_list (map bu_amount (bucket_totals DUE_LABELS (row_due_label as_of) rows))
     = sum_list (map oi_open_amount rows)"
  using sum_by_label [of DUE_LABELS rows "row_due_label as_of" oi_open_amount]
  by (simp add: bucket_totals_def comp_def row_due_label_def due_label_in) (simp add: DUE_LABELS_def)

end
