(* ===== verification/Report_Exports.thy ===== *)
theory Report_Exports
  imports Report_Dashboard
begin

text \<open>
  The finance workbook (\<open>apps/reporting/exports.py\<close>): the rows of its five sheets, made safe
  for a spreadsheet program, and the masked accounts of \<open>apps/core/masking.py\<close>. Fonts, number
  formats and column widths are not modelled.
\<close>

section \<open>Cells\<close>

text \<open>\<open>XAware\<close> is an aware datetime, \<open>XClock\<close> a naive one.\<close>

datatype export_cell =
    XNone
  | XText pystr
  | XDay date
  | XAware instant
  | XClock int
  | XMoney money

definition FORMULA_PREFIXES :: "pystr list" where
  "FORMULA_PREFIXES = [[61], [43], [45], [64]]"

fun sanitize_excel_value :: "local_zone \<Rightarrow> export_cell \<Rightarrow> export_cell" where
  "sanitize_excel_value z (XAware t) = XClock (lz_wall z t)"
| "sanitize_excel_value z (XText s) =
     (if \<exists>p\<in>set FORMULA_PREFIXES. startswith s p then XText (39 # s) else XText s)"
| "sanitize_excel_value z v = v"

definition append_sheet :: "local_zone \<Rightarrow> pystr list \<Rightarrow> export_cell list list \<Rightarrow> export_cell list list" where
  "append_sheet z headers rows =
     map (\<lambda>h. sanitize_excel_value z (XText h)) headers # map (map (sanitize_excel_value z)) rows"

definition mask_account :: "pystr \<Rightarrow> pystr" where
  "mask_account s = replicate (length s - 4) 42 @ drop (length s - 4) s"

definition day_cell :: "date option \<Rightarrow> export_cell" where
  "day_cell x = (case x of None \<Rightarrow> XNone | Some n \<Rightarrow> XDay n)"

definition id_text :: "uuid option \<Rightarrow> pystr" where
  "id_text x = (case x of None \<Rightarrow> [] | Some i \<Rightarrow> uuid_str i)"

section \<open>The sheets\<close>

definition reconciliation_export_row :: "db \<Rightarrow> allocation \<Rightarrow> export_cell list" where
  "reconciliation_export_row d a =
     (let r = the (find_row rc_id (recons d) (ra_reconciliation a));
          b = the (find_row inv_id (invoices d) (ra_invoice a));
          m = the (find_row mt_id (moneys d) (ra_transaction a))
      in [XText (uuid_str (ra_reconciliation a)), XAware (rc_created_at r),
          XText (party_name d (inv_counterparty b)), XAware (mt_occurred_at m), XMoney (mt_amount m),
          XText (mt_channel m), XText (uuid_str (mt_import_batch m)), XText (inv_number b),
          XMoney (inv_total_amount b), XMoney (ra_amount a),
          XText (id_text (source_file_id d (mt_import_batch m))), XText (uuid_str (inv_import_batch b)),
          XText (id_text (source_file_id d (inv_import_batch b)))])"

definition reconciliation_export_rows :: "db \<Rightarrow> uuid list \<Rightarrow> export_cell list list" where
  "reconciliation_export_rows d ids =
     map (reconciliation_export_row d)
       (sort_key (\<lambda>a. (ra_reconciliation a, ra_id a))
          (filter (\<lambda>a. ra_reconciliation a \<in> set ids) (allocs d)))"

definition reconciliation_headers :: "pystr list" where
  "reconciliation_headers = [[26680, 38144, 73, 68], [26680, 38144, 26085, 26399], [21333, 20301], [36164, 37329, 26085, 26399], [36164, 37329, 37329, 39069], [28192, 36947],
     [36164, 37329, 26469, 28304, 25209, 27425, 73, 68], [21457, 31080, 21495, 30721], [21457, 31080, 37329, 39069], [20998, 37197, 37329, 39069], [36164, 37329, 26469, 28304, 25991, 20214, 73, 68],
     [21457, 31080, 26469, 28304, 25209, 27425, 73, 68], [21457, 31080, 26469, 28304, 25991, 20214, 73, 68]]"

definition open_invoice_cells :: "open_invoice_row \<Rightarrow> export_cell list" where
  "open_invoice_cells r =
     [XText (uuid_str (oi_invoice_id r)), XDay (oi_issue_date r), XText (oi_counterparty_name r),
      XMoney (oi_open_amount r), XText (oi_aging_bucket r), day_cell (oi_due_date r),
      XText (uuid_str (oi_import_batch_id r)), XText (id_text (oi_source_file_id r))]"

definition append_open_invoice_sheet ::
    "local_zone \<Rightarrow> pystr \<Rightarrow> open_invoice_row list \<Rightarrow> pystr \<times> export_cell list list" where
  "append_open_invoice_sheet z title rows =
     (title, append_sheet z
        [[21457, 31080, 73, 68], [24320, 31080, 26085, 26399], [21333, 20301], [26410, 26680, 38144, 37329, 39069], [36134, 40836], [21040, 26399, 26085],
         [21457, 31080, 26469, 28304, 25209, 27425, 73, 68], [21457, 31080, 26469, 28304, 25991, 20214, 73, 68]]
        (map open_invoice_cells rows))"

definition append_unmatched_funds_sheet ::
    "local_zone \<Rightarrow> db \<Rightarrow> date \<Rightarrow> pystr \<times> export_cell list list" where
  "append_unmatched_funds_sheet z d as_of =
     ([26410, 21305, 37197, 36164, 37329], append_sheet z
        [[36164, 37329, 73, 68], [36164, 37329, 26085, 26399], [21333, 20301], [26410, 26680, 38144, 37329, 39069], [28192, 36947], [36134, 25143],
         [36164, 37329, 26469, 28304, 25209, 27425, 73, 68], [36164, 37329, 26469, 28304, 25991, 20214, 73, 68]]
        (map (\<lambda>r. [XText (uuid_str (om_transaction_id r)), XAware (om_occurred_at r),
                XText (om_counterparty_name r), XMoney (om_open_amount r), XText (om_channel r),
                XText (mask_account (om_masked_account r)), XText (uuid_str (om_import_batch_id r)),
                XText (id_text (om_source_file_id r))])
           (unmatched_funds_as_of z d as_of)))"

section \<open>The sources of an exception\<close>

definition batches_source_link :: "db \<Rightarrow> uuid list \<Rightarrow> pystr \<times> pystr" where
  "batches_source_link d batches =
     (join [59] (map uuid_str (first_keys batches)),
      join [59] (map uuid_str (first_keys (List.bind batches (\<lambda>b. map sf_id (batch_files d b))))))"

text \<open>
  The dictionary by identifier; the five queries fill it one after the other, so that a later
  one wins.
\<close>

definition reconciliation_batches :: "db \<Rightarrow> uuid \<Rightarrow> uuid list" where
  "reconciliation_batches d i =
     List.bind (filter (\<lambda>a. ra_reconciliation a = i) (allocs d)) (\<lambda>a.
       [inv_import_batch (the (find_row inv_id (invoices d) (ra_invoice a))),
        mt_import_batch (the (find_row mt_id (moneys d) (ra_transaction a)))])"

definition exception_batches :: "db \<Rightarrow> uuid \<Rightarrow> uuid list option" where
  "exception_batches d i =
     (if find_row rc_id (recons d) i \<noteq> None then Some (reconciliation_batches d i)
      else case find_row mt_id (moneys d) i of
        Some m \<Rightarrow> Some [mt_import_batch m]
      | None \<Rightarrow>
          (case find_row inv_id (invoices d) i of
             Some b \<Rightarrow> Some [inv_import_batch b]
           | None \<Rightarrow>
               (case find_row sr_id (staged_rows d) i of
                  Some r \<Rightarrow> Some [sr_batch r]
                | None \<Rightarrow> if find_row ib_id (import_batches d) i \<noteq> None then Some [i] else None)))"

definition exception_source_link :: "db \<Rightarrow> uuid \<Rightarrow> pystr \<times> pystr" where
  "exception_source_link d i =
     (case exception_batches d i of None \<Rightarrow> ([], []) | Some bs \<Rightarrow> batches_source_link d bs)"

definition exception_cells :: "db \<Rightarrow> exception_item \<Rightarrow> export_cell list" where
  "exception_cells d x =
     [XText (exception_value (ex_type x)), XText (uuid_str (ex_reference_id x)),
      day_cell (ex_occurred_on x), XText (ex_counterparty_name x),
      (case ex_amount x of None \<Rightarrow> XNone | Some v \<Rightarrow> XMoney v), XText (ex_detail x),
      XText (fst (exception_source_link d (ex_reference_id x))),
      XText (snd (exception_source_link d (ex_reference_id x)))]"

definition append_exception_sheet ::
    "local_zone \<Rightarrow> coverage_period list \<Rightarrow> db \<Rightarrow> date \<Rightarrow> pystr \<times> export_cell list list" where
  "append_exception_sheet z register d as_of =
     ([23548, 20837, 24322, 24120], append_sheet z
        [[24322, 24120, 31867, 22411], [20851, 32852, 73, 68], [26085, 26399], [21333, 20301], [37329, 39069], [35828, 26126], [26469, 28304, 25209, 27425, 73, 68], [26469, 28304, 25991, 20214, 73, 68]]
        (map (exception_cells d) (exception_items z register d as_of)))"

section \<open>The workbook\<close>

text \<open>The sheets with their titles; \<open>today\<close> is the local date of the call.\<close>

definition build_reconciliation_export ::
    "local_zone \<Rightarrow> coverage_period list \<Rightarrow> date \<Rightarrow> uuid list \<Rightarrow> actor \<Rightarrow> date option \<Rightarrow> db
     \<Rightarrow> exn + (pystr \<times> export_cell list list) list" where
  "build_reconciliation_export z register today ids a as_of d =
     (if \<not> user_has_role d a FINANCE
      then Inl (PermissionDenied [20165, 36130, 21153, 21487, 20197, 23548, 20986, 23436,
     25972, 26680, 38144, 26126, 32454])
      else let day = (case as_of of None \<Rightarrow> today | Some x \<Rightarrow> x)
           in Inr [([26680, 38144, 26126, 32454], append_sheet z reconciliation_headers (reconciliation_export_rows d ids)),
                   append_open_invoice_sheet z [24212, 25910] (receivables_as_of z d day),
                   append_open_invoice_sheet z [24212, 20184] (payables_as_of z d day),
                   append_unmatched_funds_sheet z d day, append_exception_sheet z register d day])"

section \<open>What a sheet may hold\<close>

fun safe_cell :: "export_cell \<Rightarrow> bool" where
  "safe_cell (XText s) \<longleftrightarrow> (s = [] \<or> hd s \<notin> {61, 43, 45, 64})"
| "safe_cell (XAware t) \<longleftrightarrow> False"
| "safe_cell _ \<longleftrightarrow> True"

lemma startswith_single: "startswith s [c] \<longleftrightarrow> s \<noteq> [] \<and> hd s = c"
  by (cases s) (simp_all add: startswith_def)

lemma sanitize_safe: "safe_cell (sanitize_excel_value z v)"
  by (cases "(z, v)" rule: sanitize_excel_value.cases)
    (auto simp: FORMULA_PREFIXES_def startswith_single)

lemma append_sheet_safe: "row \<in> set (append_sheet z headers rows) \<Longrightarrow> v \<in> set row \<Longrightarrow> safe_cell v"
  by (auto simp: append_sheet_def sanitize_safe simp del: sanitize_excel_value.simps)

text \<open>No cell of the workbook is a formula or an aware datetime.\<close>

lemma export_safe:
  assumes "build_reconciliation_export z register today ids a as_of d = Inr sheets"
    and "(title, rows) \<in> set sheets" "row \<in> set rows" "v \<in> set row"
  shows "safe_cell v"
proof -
  obtain headers body where "rows = append_sheet z headers body"
    using assms(1,2)
    by (auto simp: build_reconciliation_export_def append_open_invoice_sheet_def
        append_unmatched_funds_sheet_def append_exception_sheet_def Let_def split: if_splits)
  with assms(3,4) append_sheet_safe show ?thesis by blast
qed

text \<open>A masked account shows at most its last four characters.\<close>

lemma mask_account_hides: "i < length s - 4 \<Longrightarrow> mask_account s ! i = 42"
  by (simp add: mask_account_def nth_append)

lemma length_mask_account: "length (mask_account s) = length s"
  by (simp add: mask_account_def)

end
