(* ===== verification/Report_Properties.thy ===== *)
theory Report_Properties
  imports Report_Exports Settlement_Properties Import_Confirm "HOL-Library.Multiset"
begin

text \<open>
  What the reports guarantee: a report on a past day does not change when the services work
  on, a report on the present agrees with the open amounts of the services, the ledger of a
  supplier ends in the balance of its summary, and what a late change of an invoice does.
\<close>

section \<open>The past stands\<close>

text \<open>Everything of the database that a report reads.\<close>

definition same_past :: "instant \<Rightarrow> db \<Rightarrow> db \<Rightarrow> bool" where
  "same_past c d d' \<longleftrightarrow>
     invoices d' = invoices d \<and> moneys d' = moneys d \<and> parties d' = parties d \<and> accounts d' = accounts d
     \<and> source_files d' = source_files d
     \<and> (\<forall>key \<in> {ra_invoice, ra_transaction}. historical_allocated key c d' = historical_allocated key c d)
     \<and> (\<forall>b. status_changed_after c d' b = status_changed_after c d b)"

lemma same_past_refl: "same_past c d d"
  by (simp add: same_past_def)

lemma same_past_trans: "same_past c d d1 \<Longrightarrow> same_past c d1 d2 \<Longrightarrow> same_past c d d2"
  by (simp add: same_past_def)

lemma same_past_fields:
  assumes "same_past (cutoff z as_of) d d'"
  shows "invoices d' = invoices d" "moneys d' = moneys d" "parties d' = parties d" "accounts d' = accounts d"
    "source_files d' = source_files d" "party_name d' = party_name d" "source_file_id d' = source_file_id d"
    "invoice_open_at (cutoff z as_of) d' = invoice_open_at (cutoff z as_of) d"
    "money_open_at (cutoff z as_of) d' = money_open_at (cutoff z as_of) d"
    "money_party_name d' = money_party_name d" "masked_account d' = masked_account d"
    "is_supplier d' = is_supplier d" "party_asked up d' = party_asked up d"
    "status_changed_after (cutoff z as_of) d' = status_changed_after (cutoff z as_of) d"
proof -
  show fields: "invoices d' = invoices d" "moneys d' = moneys d" "parties d' = parties d" "accounts d' = accounts d"
    "source_files d' = source_files d"
    "status_changed_after (cutoff z as_of) d' = status_changed_after (cutoff z as_of) d"
    using assms by (simp_all add: same_past_def fun_eq_iff)
  show names: "party_name d' = party_name d" "is_supplier d' = is_supplier d" "masked_account d' = masked_account d"
    by (simp_all add: fun_eq_iff party_name_def is_supplier_def masked_account_def fields)
  show "source_file_id d' = source_file_id d"
    by (simp add: fun_eq_iff source_file_id_def batch_files_def fields)
  show "money_party_name d' = money_party_name d"
    unfolding money_party_name_def names by (rule refl)
  show "party_asked up d' = party_asked up d"
    unfolding party_asked_def names by (rule refl)
  show "invoice_open_at (cutoff z as_of) d' = invoice_open_at (cutoff z as_of) d"
    "money_open_at (cutoff z as_of) d' = money_open_at (cutoff z as_of) d"
    using assms by (simp_all add: fun_eq_iff same_past_def invoice_open_at_def money_open_at_def)
qed

lemma same_past_reports:
  assumes "same_past (cutoff z as_of) d d'"
  shows "receivables_as_of z d' as_of = receivables_as_of z d as_of"
    "payables_as_of z d' as_of = payables_as_of z d as_of"
    "unmatched_funds_as_of z d' as_of = unmatched_funds_as_of z d as_of"
    "supplier_summaries_as_of up z d' as_of search = supplier_summaries_as_of up z d as_of search"
proof -
  note same = same_past_fields [OF assms]
  show "receivables_as_of z d' as_of = receivables_as_of z d as_of"
    "payables_as_of z d' as_of = payables_as_of z d as_of"
    "unmatched_funds_as_of z d' as_of = unmatched_funds_as_of z d as_of"
    by (simp_all add: receivables_as_of_def payables_as_of_def open_invoice_rows_def open_invoices_def
        unmatched_funds_as_of_def open_money_def same)
  have "add_invoice z d' as_of = add_invoice z d as_of" "add_payment z d' as_of = add_payment z d as_of"
    unfolding add_invoice_def add_payment_def with_summary_def same by (rule refl)+
  then show "supplier_summaries_as_of up z d' as_of search = supplier_summaries_as_of up z d as_of search"
    unfolding supplier_summaries_as_of_def supplier_summary_rows_def supplier_invoice_records_def
        supplier_payment_records_def same by simp
qed

lemma created_same_past:
  assumes "ledger_ok d" "fresh_recon ids d" "c \<le> now"
  shows "same_past c d (created_db now ids args d)"
proof -
  let ?news = "new_allocations ids (ids 0) (cr_allocations args)"
  have old: "historically_valid c (created_db now ids args d) a = historically_valid c d a"
    if "a \<in> set (allocs d)" for a
  proof -
    have "ra_reconciliation a \<noteq> ids 0"
      using that assms(1,2) unfolding ledger_ok_def ledger_refs_def fresh_recon_def by metis
    then show ?thesis by (auto simp: historically_valid_def created_db_def new_recon_def)
  qed
  have new: "\<not> historically_valid c (created_db now ids args d) a" if "a \<in> set ?news" for a
  proof -
    have "ra_reconciliation a = ids 0" using new_allocations_mem [OF that] by blast
    then show ?thesis
      using assms(2,3) by (auto simp: historically_valid_def created_db_def new_recon_def fresh_recon_def image_iff)
  qed
  have "historical_allocated key c (created_db now ids args d) i = historical_allocated key c d i" for key i
  proof -
    have "allocs (created_db now ids args d) = allocs d @ ?news" by (simp add: created_db_def)
    moreover have "filter (\<lambda>a. key a = i \<and> historically_valid c (created_db now ids args d) a) ?news = []"
      using new by (simp add: filter_empty_conv)
    moreover have "filter (\<lambda>a. key a = i \<and> historically_valid c (created_db now ids args d) a) (allocs d)
        = filter (\<lambda>a. key a = i \<and> historically_valid c d a) (allocs d)"
      using old by (intro filter_cong) auto
    ultimately show ?thesis by (simp add: historical_allocated_def)
  qed
  moreover have "status_changed_after c (created_db now ids args d) b = status_changed_after c d b" for b
    by (auto simp: status_changed_after_def created_db_def audit_row_def)
  moreover have "parties (created_db now ids args d) = parties d" "accounts (created_db now ids args d) = accounts d"
    "source_files (created_db now ids args d) = source_files d"
    by (simp_all add: created_db_def)
  ultimately show ?thesis by (simp add: same_past_def created_frame fun_eq_iff)
qed

lemma reversed_same_past:
  assumes "c \<le> now"
  shows "same_past c d (reversed_db now ids a rid text d)"
proof -
  have valid: "historically_valid c (reversed_db now ids a rid text d) = historically_valid c d"
    using assms by (auto simp: fun_eq_iff historically_valid_def reversed_db_def)
  have "historical_allocated key c (reversed_db now ids a rid text d) = historical_allocated key c d" for key
    unfolding historical_allocated_def valid by (simp add: fun_eq_iff reversed_db_def)
  moreover have "status_changed_after c (reversed_db now ids a rid text d) b = status_changed_after c d b" for b
    by (auto simp: status_changed_after_def reversed_db_def audit_row_def)
  moreover have "parties (reversed_db now ids a rid text d) = parties d"
    "accounts (reversed_db now ids a rid text d) = accounts d"
    "source_files (reversed_db now ids a rid text d) = source_files d"
    by (simp_all add: reversed_db_def)
  ultimately show ?thesis by (simp add: same_past_def reversed_frame)
qed

text \<open>A run of one of the services that reconcile, at an instant.\<close>

inductive service_run :: "instant \<Rightarrow> db \<Rightarrow> db \<Rightarrow> bool" for now where
  create: "create_reconciliation now ids args d = Inr (rc, d') \<Longrightarrow> fresh_recon ids d \<Longrightarrow> service_run now d d'"
| reverse: "reverse_reconciliation now ids a rid reason d = Inr (rv, d') \<Longrightarrow> service_run now d d'"
| settle: "confirm_settlement_batch now ids b a items version d = Inr (rc, d') \<Longrightarrow> fresh_recon ids d \<Longrightarrow>
    service_run now d d'"

text \<open>Runs that begin at the instant \<open>c\<close> or later.\<close>

definition later_run :: "instant \<Rightarrow> db \<Rightarrow> db \<Rightarrow> bool" where
  "later_run c d d' \<longleftrightarrow> (\<exists>now\<ge>c. service_run now d d')"

lemma service_run_past:
  assumes "service_run now d d'" "ledger_ok d" "c \<le> now"
  shows "same_past c d d' \<and> ledger_ok d'"
  using assms(1)
proof cases
  case (create ids args rc)
  then show ?thesis
    using created_same_past [OF assms(2) create(2) assms(3)] created_ledger [OF _ assms(2) create(2)]
    by (auto simp: create_reconciliation_iff)
next
  case (reverse ids a rid reason rv)
  then show ?thesis
    using reversed_same_past [OF assms(3)] reversed_ledger [OF _ assms(2)]
    by (auto simp: reverse_reconciliation_iff)
next
  case (settle ids b a items version rc)
  obtain batch where "find_row sb_id (settlements d) b = Some batch"
    using confirm_Inr [OF settle(1)] .
  note frame = confirm_frame [OF settle(1) this]
  let ?d = "created_db now ids (confirm_args a batch items) d"
  have "same_past c ?d d'"
    by (simp add: frame(2) same_past_def historical_allocated_def historically_valid_def
        status_changed_after_def fun_eq_iff)
  moreover have "ledger_ok d'"
    by (rule ledger_ok_cong [OF created_ledger [OF frame(1) assms(2) settle(2)]]) (simp_all add: frame(2))
  ultimately show ?thesis
    using created_same_past [OF assms(2) settle(2) assms(3)] same_past_trans by blast
qed

lemma later_runs_past:
  assumes "(later_run c)\<^sup>*\<^sup>* d d'" "ledger_ok d"
  shows "same_past c d d' \<and> ledger_ok d'"
  using assms(1)
proof induction
  case base
  then show ?case using assms(2) same_past_refl by blast
next
  case (step d1 d2)
  then show ?case using service_run_past same_past_trans unfolding later_run_def by blast
qed

text \<open>
  C26. A report on a past day stands: whatever is reconciled, settled or reversed after the
  end of the day, the receivables, payables, unmatched funds and supplier summaries as of that
  day stay the same.
\<close>

theorem past_reports_stand:
  assumes "(later_run (cutoff z as_of))\<^sup>*\<^sup>* d d'" "ledger_ok d"
  shows "receivables_as_of z d' as_of = receivables_as_of z d as_of
     \<and> payables_as_of z d' as_of = payables_as_of z d as_of
     \<and> unmatched_funds_as_of z d' as_of = unmatched_funds_as_of z d as_of
     \<and> supplier_summaries_as_of up z d' as_of search = supplier_summaries_as_of up z d as_of search"
  using later_runs_past [OF assms] same_past_reports by blast

section \<open>The present\<close>

text \<open>A report whose cutoff lies after everything that happened counts the active allocations.\<close>

lemma present_amounts:
  assumes "ledger_ok d" "\<forall>r\<in>set (recons d). rc_created_at r < c" "\<forall>v\<in>set (reversals d). rv_created_at v < c"
  shows "historical_allocated key c d i = allocated_by key d i"
proof -
  have "historically_valid c d a = active d a" if "a \<in> set (allocs d)" for a
  proof -
    have "ra_reconciliation a \<in> rc_id ` set (recons d)"
      using that assms(1) by (auto simp: ledger_ok_def ledger_refs_def)
    then have "\<exists>r\<in>set (recons d). rc_id r = ra_reconciliation a \<and> rc_created_at r < c"
      using assms(2) by auto
    moreover have "(\<forall>v\<in>set (reversals d). rv_original v = ra_reconciliation a \<longrightarrow> c \<le> rv_created_at v) \<longleftrightarrow> active d a"
      using assms(3) by (force simp: active_def)
    ultimately show ?thesis unfolding historically_valid_def by blast
  qed
  then have "filter (\<lambda>a. key a = i \<and> historically_valid c d a) (allocs d)
      = filter (\<lambda>a. key a = i \<and> active d a) (allocs d)"
    by (intro filter_cong) auto
  then show ?thesis by (simp add: historical_allocated_def allocated_by_def)
qed

lemma payables_now:
  assumes "ledger_ok d" "\<forall>r\<in>set (recons d). rc_created_at r < cutoff z as_of"
    "\<forall>v\<in>set (reversals d). rv_created_at v < cutoff z as_of" "row \<in> set (payables_as_of z d as_of)"
  shows "invoice_open_amount d (oi_invoice_id row) = Inr (oi_open_amount row) \<and> 0 < oi_open_amount row"
proof -
  obtain b where b: "b \<in> set (invoices d)" "oi_invoice_id row = inv_id b"
    "oi_open_amount row = invoice_open_at (cutoff z as_of) d b" "0 < invoice_open_at (cutoff z as_of) d b"
    using assms(4) by (auto simp: payables_as_of_def open_invoice_rows_def open_invoices_def)
  have "find_row inv_id (invoices d) (inv_id b) = Some b"
    using b(1) assms(1) by (intro find_row_unique) (auto simp: ledger_ok_def ledger_keys_def)
  then show ?thesis
    using b present_amounts [OF assms(1-3)] by (simp add: invoice_open_amount_def invoice_open_at_def)
qed

section \<open>The balance of a supplier\<close>

lemma sum_list_sort_key: "sum_list (map f (sort_key k xs)) = sum_list (map f xs)" for f :: "'a \<Rightarrow> int"
  by (metis mset_map mset_sort sum_mset_sum_list)

lemma running_balance_nth:
  "k < length rows \<Longrightarrow> sl_running_balance (with_running_balance v rows ! k) =
     v + sum_list (map (\<lambda>r. sl_increase r - sl_decrease r) (take (Suc k) rows))"
proof (induction rows arbitrary: v k)
  case (Cons r rows)
  then show ?case by (cases k) (simp_all add: Let_def)
qed simp

lemma length_running_balance [simp]: "length (with_running_balance v rows) = length rows"
  by (induction rows arbitrary: v) (simp_all add: Let_def)

lemma running_balance_last:
  assumes "rows \<noteq> []"
  shows "sl_running_balance (last (with_running_balance v rows)) =
     v + sum_list (map (\<lambda>r. sl_increase r - sl_decrease r) rows)"
proof -
  have "with_running_balance v rows \<noteq> []"
    using assms by (metis length_0_conv length_running_balance)
  then have "last (with_running_balance v rows) = with_running_balance v rows ! (length rows - 1)"
    by (simp add: last_conv_nth)
  then show ?thesis
    using assms running_balance_nth [of "length rows - 1" rows v] by simp
qed

text \<open>The summary of one party, while the dictionary holds at most that party.\<close>

definition summary_in :: "db \<Rightarrow> uuid \<Rightarrow> (uuid \<times> supplier_summary_row) list \<Rightarrow> supplier_summary_row" where
  "summary_in d i acc = (case map_of acc i of None \<Rightarrow> empty_supplier_summary i (party_name d i) | Some s \<Rightarrow> s)"

definition only :: "uuid \<Rightarrow> (uuid \<times> 'a) list \<Rightarrow> bool" where
  "only i acc \<longleftrightarrow> acc = [] \<or> (\<exists>s. acc = [(i, s)])"

lemma with_summary_only: "only i acc \<Longrightarrow> with_summary d i f acc = [(i, f (summary_in d i acc))]"
  by (auto simp: only_def with_summary_def summary_in_def)

lemma summary_in_one [simp]: "summary_in d i [(i, s)] = s" "only i [(i, s)]"
  by (simp_all add: summary_in_def only_def)

lemma fold_bills:
  fixes z :: local_zone and d :: db and as_of :: date
  assumes "\<forall>b\<in>set bills. inv_counterparty b = i" "only i acc"
  defines "acc' \<equiv> fold (add_invoice z d as_of) bills acc"
  shows "only i acc' \<and> (acc' = [] \<longleftrightarrow> acc = [] \<and> bills = [])
     \<and> ss_invoiced_amount (summary_in d i acc') = ss_invoiced_amount (summary_in d i acc) + sum_list (map inv_total_amount bills)
     \<and> ss_paid_amount (summary_in d i acc') = ss_paid_amount (summary_in d i acc)
     \<and> ss_balance (summary_in d i acc') = ss_balance (summary_in d i acc) + sum_list (map inv_total_amount bills)
     \<and> ss_invoice_open_amount (summary_in d i acc') = ss_invoice_open_amount (summary_in d i acc)
         + sum_list (map (invoice_open_at (cutoff z as_of) d) bills)
     \<and> ss_payment_open_amount (summary_in d i acc') = ss_payment_open_amount (summary_in d i acc)"
  using assms(1,2) unfolding acc'_def
proof (induction bills arbitrary: acc)
  case (Cons b bills)
  have "add_invoice z d as_of b acc = [(i, (summary_in d i acc)\<lparr>
       ss_invoiced_amount := ss_invoiced_amount (summary_in d i acc) + inv_total_amount b,
       ss_balance := ss_balance (summary_in d i acc) + inv_total_amount b,
       ss_invoice_open_amount := ss_invoice_open_amount (summary_in d i acc) + invoice_open_at (cutoff z as_of) d b,
       ss_latest_activity_on := latest_activity (ss_latest_activity_on (summary_in d i acc)) (inv_issue_date b)\<rparr>)]"
    using Cons.prems by (simp add: add_invoice_def with_summary_only)
  then show ?case
    using Cons.IH [of "add_invoice z d as_of b acc"] Cons.prems(1) by simp
qed simp

lemma fold_payments:
  fixes z :: local_zone and d :: db and as_of :: date
  assumes "\<forall>m\<in>set payments. mt_counterparty m = Some i" "only i acc"
  defines "acc' \<equiv> fold (add_payment z d as_of) payments acc"
  shows "only i acc' \<and> (acc' = [] \<longleftrightarrow> acc = [] \<and> payments = [])
     \<and> ss_invoiced_amount (summary_in d i acc') = ss_invoiced_amount (summary_in d i acc)
     \<and> ss_paid_amount (summary_in d i acc') = ss_paid_amount (summary_in d i acc) + sum_list (map mt_amount payments)
     \<and> ss_balance (summary_in d i acc') = ss_balance (summary_in d i acc) - sum_list (map mt_amount payments)
     \<and> ss_invoice_open_amount (summary_in d i acc') = ss_invoice_open_amount (summary_in d i acc)
     \<and> ss_payment_open_amount (summary_in d i acc') = ss_payment_open_amount (summary_in d i acc)
         + sum_list (map (money_open_at (cutoff z as_of) d) payments)"
  using assms(1,2) unfolding acc'_def
proof (induction payments arbitrary: acc)
  case (Cons m payments)
  have "add_payment z d as_of m acc = [(i, (summary_in d i acc)\<lparr>
       ss_paid_amount := ss_paid_amount (summary_in d i acc) + mt_amount m,
       ss_balance := ss_balance (summary_in d i acc) - mt_amount m,
       ss_payment_open_amount := ss_payment_open_amount (summary_in d i acc) + money_open_at (cutoff z as_of) d m,
       ss_latest_activity_on := latest_activity (ss_latest_activity_on (summary_in d i acc))
         (lz_day z (mt_occurred_at m))\<rparr>)]"
    using Cons.prems by (simp add: add_payment_def with_summary_only)
  then show ?case
    using Cons.IH [of "add_payment z d as_of m acc"] Cons.prems(1) by simp
qed simp

lemma supplier_rows_of_one:
  assumes "\<forall>b\<in>set bills. inv_counterparty b = i" "\<forall>m\<in>set payments. mt_counterparty m = Some i"
  shows "(supplier_summary_rows z d as_of bills payments = [] \<longleftrightarrow> bills = [] \<and> payments = [])
     \<and> (\<forall>s. supplier_summary_rows z d as_of bills payments = [s] \<longrightarrow>
          ss_invoiced_amount s = sum_list (map inv_total_amount bills)
          \<and> ss_paid_amount s = sum_list (map mt_amount payments)
          \<and> ss_balance s = sum_list (map inv_total_amount bills) - sum_list (map mt_amount payments)
          \<and> ss_invoice_open_amount s = sum_list (map (invoice_open_at (cutoff z as_of) d) bills)
          \<and> ss_payment_open_amount s = sum_list (map (money_open_at (cutoff z as_of) d) payments))
     \<and> length (supplier_summary_rows z d as_of bills payments) \<le> 1"
proof -
  define acc where "acc = fold (add_invoice z d as_of) bills []"
  define acc' where "acc' = fold (add_payment z d as_of) payments acc"
  have e: "only i []" "summary_in d i [] = empty_supplier_summary i (party_name d i)"
    by (simp_all add: only_def summary_in_def)
  note bills = fold_bills [OF assms(1) e(1), of z d as_of, folded acc_def]
  then have "only i acc" by blast
  note payments = fold_payments [OF assms(2) this, of z d as_of, folded acc'_def]
  have rows: "supplier_summary_rows z d as_of bills payments = map snd acc'"
    using payments by (auto simp: supplier_summary_rows_def acc_def acc'_def only_def)
  show ?thesis
  proof (cases "acc' = []")
    case True
    then show ?thesis unfolding rows using bills payments by simp
  next
    case False
    then obtain s where s: "acc' = [(i, s)]" using payments unfolding only_def by blast
    then have "summary_in d i acc' = s" by (simp add: summary_in_def)
    then show ?thesis
      using bills payments s by (simp add: rows e(2) empty_supplier_summary_def)
  qed
qed

text \<open>
  C27. The ledger of a supplier and its summary agree: the running balance of an entry is the
  sum of all entries up to it, the last one is the balance of the summary, which is what was
  invoiced less what was paid, and the open amounts of the summary are those of the entries.
\<close>

theorem supplier_ledger_balances:
  assumes "supplier_summary_as_of up z d i as_of = Inr s"
  defines "entries \<equiv> supplier_ledger_as_of up z d i as_of"
  shows "(\<forall>k<length entries. sl_running_balance (entries ! k) =
        sum_list (map (\<lambda>r. sl_increase r - sl_decrease r) (take (Suc k) entries)))
     \<and> ss_balance s = (if entries = [] then 0 else sl_running_balance (last entries))
     \<and> ss_balance s = ss_invoiced_amount s - ss_paid_amount s
     \<and> ss_invoice_open_amount s + ss_payment_open_amount s = sum_list (map sl_open_amount entries)"
proof -
  define bills where "bills = supplier_invoice_records up z d as_of [] (Some i)"
  define payments where "payments = supplier_payment_records up z d as_of [] (Some i)"
  define rows where "rows = sort_key ledger_order (map (invoice_entry z d as_of) bills @ map (payment_entry z d as_of) payments)"
  have entries: "entries = with_running_balance 0 rows"
    by (simp add: entries_def supplier_ledger_as_of_def rows_def bills_def payments_def)
  have of_i: "\<forall>b\<in>set bills. inv_counterparty b = i" "\<forall>m\<in>set payments. mt_counterparty m = Some i"
    by (auto simp: bills_def payments_def supplier_invoice_records_def supplier_payment_records_def
        party_asked_def split: option.splits)
  note one = supplier_rows_of_one [OF of_i, of z d as_of]
  have total: "sum_list (map (\<lambda>r. sl_increase r - sl_decrease r) rows)
      = sum_list (map inv_total_amount bills) - sum_list (map mt_amount payments)"
    by (simp add: rows_def sum_list_sort_key comp_def invoice_entry_def payment_entry_def uminus_sum_list_map)
  have opens: "sum_list (map sl_open_amount rows) =
      sum_list (map (invoice_open_at (cutoff z as_of) d) bills) + sum_list (map (money_open_at (cutoff z as_of) d) payments)"
    by (simp add: rows_def sum_list_sort_key comp_def invoice_entry_def payment_entry_def)
  have keep: "map f (with_running_balance v rs) = map f rs"
    if "\<And>r w. f (r\<lparr>sl_running_balance := w\<rparr>) = f r" for f :: "supplier_ledger_row \<Rightarrow> money" and v rs
    by (induction rs arbitrary: v) (simp_all add: Let_def that)
  have s: "ss_balance s = sum_list (map inv_total_amount bills) - sum_list (map mt_amount payments)
     \<and> ss_invoiced_amount s = sum_list (map inv_total_amount bills) \<and> ss_paid_amount s = sum_list (map mt_amount payments)
     \<and> ss_invoice_open_amount s = sum_list (map (invoice_open_at (cutoff z as_of) d) bills)
     \<and> ss_payment_open_amount s = sum_list (map (money_open_at (cutoff z as_of) d) payments)"
  proof (cases "supplier_summary_rows z d as_of bills payments")
    case Nil
    then show ?thesis
      using assms(1) one
      by (auto simp: supplier_summary_as_of_def bills_def payments_def empty_supplier_summary_def
          split: option.splits)
  next
    case (Cons t ts)
    then have "ts = []" using one by simp
    moreover have "s = t"
      using assms(1) Cons by (auto simp: supplier_summary_as_of_def bills_def payments_def split: option.splits)
    ultimately show ?thesis using one Cons by blast
  qed
  have running: "sl_running_balance (entries ! k) =
      sum_list (map (\<lambda>r. sl_increase r - sl_decrease r) (take (Suc k) entries))" if "k < length entries" for k
  proof -
    have "map (\<lambda>r. sl_increase r - sl_decrease r) (take (Suc k) entries)
        = map (\<lambda>r. sl_increase r - sl_decrease r) (take (Suc k) rows)"
      unfolding entries take_map [symmetric] by (subst keep) simp_all
    then show ?thesis using that running_balance_nth [of k rows 0] by (simp add: entries)
  qed
  have "entries = [] \<longleftrightarrow> rows = []"
    unfolding entries by (metis length_0_conv length_running_balance)
  moreover have "rows \<noteq> [] \<Longrightarrow> sl_running_balance (last entries) = ss_balance s"
    using running_balance_last [of rows 0] total s by (simp add: entries)
  moreover have "rows = [] \<Longrightarrow> ss_balance s = 0" using total s by simp
  moreover have "sum_list (map sl_open_amount entries) = sum_list (map sl_open_amount rows)"
    unfolding entries by (subst keep) simp_all
  ultimately show ?thesis using running s opens by auto
qed

section \<open>A late change of an invoice\<close>

text \<open>
  C29. When a normal purchase invoice becomes red or void after a day, the reports as of that
  day disagree: the supplier records keep the invoice, which was normal then, but the payables
  as of that day lose it, because they look at the present status.
\<close>

theorem late_status_change:
  assumes "ledger_ok d" "b \<in> set (invoices d)" "inv_direction b = InvoiceDirection_INPUT"
    and "inv_status b = InvoiceStatus_NORMAL" "inv_issue_date b \<le> as_of"
    and "0 < invoice_open_at (cutoff z as_of) d b" "is_supplier d (inv_counterparty b)"
    and "update_invoice_status now a b status batch row d = Inr d'" "cutoff z as_of \<le> now"
    and "status \<in> {InvoiceStatus_RED, InvoiceStatus_VOID}"
  shows "inv_id b \<in> oi_invoice_id ` set (payables_as_of z d as_of)
     \<and> inv_id b \<notin> oi_invoice_id ` set (payables_as_of z d' as_of)
     \<and> inv_id b \<in> inv_id ` set (supplier_invoice_records up z d' as_of [] None)"
proof -
  let ?b = "b\<lparr>inv_status := status\<rparr>"
  obtain x where d': "d' = d\<lparr>invoices := map (\<lambda>x. if inv_id x = inv_id b then x\<lparr>inv_status := status\<rparr> else x) (invoices d),
      audits := audits d @ [x]\<rparr>"
    and x: "au_action x = lit ''invoice.status_changed''" "au_target_type x = lit ''Invoice''"
      "au_target_id x = uuid_str (inv_id b)" "au_created_at x = now"
    using assms(8) by (auto simp: update_invoice_status_def record_audit_def saved_target_def split: if_splits)
  have status: "inv_status y = status" if "y \<in> set (invoices d')" "inv_id y = inv_id b" for y
    using that by (auto simp: d')
  have "inv_id b \<in> oi_invoice_id ` set (payables_as_of z d as_of)"
    using assms(2-6) by (force simp: payables_as_of_def open_invoice_rows_def open_invoices_def)
  moreover have "inv_id b \<notin> oi_invoice_id ` set (payables_as_of z d' as_of)"
    using status assms(10) by (auto simp: payables_as_of_def open_invoice_rows_def open_invoices_def)
  moreover have "?b \<in> set (supplier_invoice_records up z d' as_of [] None)"
  proof -
    have "?b \<in> set (invoices d')" using assms(2) by (force simp: d')
    moreover have "status_changed_after (cutoff z as_of) d' ?b"
      using x assms(9) by (auto simp: status_changed_after_def d')
    moreover have "is_supplier d' (inv_counterparty b)"
      using assms(7) by (simp add: is_supplier_def d')
    ultimately show ?thesis
      using assms(3,5) by (simp add: supplier_invoice_records_def party_asked_def)
  qed
  then have "inv_id ?b \<in> inv_id ` set (supplier_invoice_records up z d' as_of [] None)" by (rule imageI)
  then have "inv_id b \<in> inv_id ` set (supplier_invoice_records up z d' as_of [] None)" by simp
  ultimately show ?thesis by blast
qed

section \<open>The exceptions\<close>

lemma aging_last: "aging_bucket base as_of = lit ''90+'' \<longleftrightarrow> 91 \<le> as_of - base"
  by (auto simp: aging_bucket_def AGING_LABELS_def Let_def)

lemma open_row_of:
  assumes "row \<in> set (open_invoice_rows z d direction as_of)"
  shows "\<exists>b\<in>set (invoices d). oi_invoice_id row = inv_id b \<and> oi_aging_bucket row = aging_bucket (base_date b) as_of"
  using assms by (auto simp: open_invoice_rows_def open_invoices_def)

lemma map_of_rev_None: "map_of (rev xs) k = None \<longleftrightarrow> k \<notin> fst ` set xs"
  by (simp add: map_of_eq_None_iff)

lemma stale_invoice_iff:
  assumes "distinct (map inv_id (invoices d))" "b \<in> set (invoices d)"
    and "\<exists>x\<in>set items. ex_type x \<in> {RECEIVABLE_OPEN, PAYABLE_OPEN} \<and> ex_reference_id x = inv_id b"
  shows "(\<exists>y\<in>set (stale_invoice_items d as_of items). ex_reference_id y = inv_id b) \<longleftrightarrow> 91 \<le> as_of - base_date b"
proof -
  define open_by where "open_by = map_of (rev (map (\<lambda>x. (ex_reference_id x, x))
            (filter (\<lambda>x. ex_type x \<in> {RECEIVABLE_OPEN, PAYABLE_OPEN}) items)))"
  define g where "g = (\<lambda>b. case open_by (inv_id b) of None \<Rightarrow> None
      | Some x \<Rightarrow> if 91 \<le> as_of - base_date b
          then Some \<lparr>ex_type = STALE_OPEN_ITEM, ex_reference_id = inv_id b, ex_occurred_on = Some (base_date b),
                     ex_counterparty_name = party_name d (inv_counterparty b), ex_amount = ex_amount x,
                     ex_detail = msg_stale_invoice\<rparr> else None)"
  have items: "stale_invoice_items d as_of items = List.map_filter g (invoices d)"
    by (simp add: stale_invoice_items_def g_def open_by_def Let_def)
  have "open_by (inv_id b) \<noteq> None"
    using assms(3) unfolding open_by_def map_of_rev_None by force
  then obtain x where x: "open_by (inv_id b) = Some x" by blast
  have refs: "ex_reference_id y = inv_id c" if "g c = Some y" for c y
    using that by (auto simp: g_def split: option.splits if_splits)
  have set_items: "set (stale_invoice_items d as_of items) = {y. \<exists>c\<in>set (invoices d). g c = Some y}"
    unfolding items by (auto simp: map_filter_def image_iff) (metis option.sel option.distinct(1))
  have same: "inv_id c = inv_id b \<Longrightarrow> c \<in> set (invoices d) \<Longrightarrow> c = b" for c
    using assms(1,2) by (auto simp: distinct_map inj_on_def)
  have "(\<exists>y\<in>set (stale_invoice_items d as_of items). ex_reference_id y = inv_id b) \<longleftrightarrow> (\<exists>y. g b = Some y)"
  proof
    assume "\<exists>y\<in>set (stale_invoice_items d as_of items). ex_reference_id y = inv_id b"
    then obtain y c where "c \<in> set (invoices d)" "g c = Some y" "ex_reference_id y = inv_id b"
      unfolding set_items by blast
    then show "\<exists>y. g b = Some y" using refs same by metis
  next
    assume "\<exists>y. g b = Some y"
    then show "\<exists>y\<in>set (stale_invoice_items d as_of items). ex_reference_id y = inv_id b"
      unfolding set_items using refs assms(2) by blast
  qed
  also have "\<dots> \<longleftrightarrow> 91 \<le> as_of - base_date b" by (simp add: g_def x)
  finally show ?thesis .
qed

lemma stale_types: "y \<in> set (stale_invoice_items d as_of items) \<Longrightarrow>
    ex_type y = STALE_OPEN_ITEM \<and> ex_detail y = msg_stale_invoice"
  by (auto simp: stale_invoice_items_def map_filter_def Let_def split: option.splits if_splits)

lemma stale_in_items:
  "(\<exists>y\<in>set (exception_items z register d as_of).
      ex_type y = STALE_OPEN_ITEM \<and> ex_detail y = msg_stale_invoice \<and> ex_reference_id y = i) \<longleftrightarrow>
   (\<exists>y\<in>set (stale_invoice_items d as_of (open_invoice_exceptions z d as_of)). ex_reference_id y = i)"
proof -
  let ?other = "set (open_invoice_exceptions z d as_of) \<union> set (money_exceptions z d as_of)
        \<union> set (mapping_issue_exceptions z d as_of) \<union> set (partial_reconciliation_exceptions z d as_of)
        \<union> set (duplicate_exceptions z d as_of) \<union> set (red_allocation_exceptions z d as_of)
        \<union> set (stale_money_items z d as_of) \<union> set (history_exceptions z register d as_of)"
  have parts: "set (exception_items z register d as_of) =
      ?other \<union> set (stale_invoice_items d as_of (open_invoice_exceptions z d as_of))"
    by (auto simp: exception_items_def stale_exceptions_def)
  have "\<not> (ex_type y = STALE_OPEN_ITEM \<and> ex_detail y = msg_stale_invoice)" if "y \<in> ?other" for y
  proof -
    from that consider "y \<in> set (open_invoice_exceptions z d as_of)" | "y \<in> set (money_exceptions z d as_of)"
      | "y \<in> set (mapping_issue_exceptions z d as_of)" | "y \<in> set (partial_reconciliation_exceptions z d as_of)"
      | "y \<in> set (duplicate_exceptions z d as_of)" | "y \<in> set (red_allocation_exceptions z d as_of)"
      | "y \<in> set (stale_money_items z d as_of)" | "y \<in> set (history_exceptions z register d as_of)" by auto
    then show ?thesis
      by cases (auto simp: open_invoice_exceptions_def open_invoice_item_def money_exceptions_def money_items_def
          mapping_issue_exceptions_def partial_reconciliation_exceptions_def duplicate_exceptions_def
          red_allocation_exceptions_def stale_money_items_def history_exceptions_def msg_stale_invoice_def
          set_list_bind Let_def split: if_splits)
  qed
  then show ?thesis using stale_types unfolding parts by blast
qed

text \<open>
  C28. Every open invoice of the reports is in the list of exceptions, with its open amount; it
  is there a second time, as a stale one, exactly when the report puts it in the last aging
  bucket; and the list is in the order of type, day and identifier.
\<close>

theorem exceptions_cover_open_invoices:
  assumes "ledger_ok d" "row \<in> set (receivables_as_of z d as_of) \<union> set (payables_as_of z d as_of)"
  shows "(\<exists>x\<in>set (exception_items z register d as_of). ex_type x \<in> {RECEIVABLE_OPEN, PAYABLE_OPEN}
        \<and> ex_reference_id x = oi_invoice_id row \<and> ex_amount x = Some (oi_open_amount row))
     \<and> ((\<exists>x\<in>set (exception_items z register d as_of). ex_type x = STALE_OPEN_ITEM
           \<and> ex_detail x = msg_stale_invoice \<and> ex_reference_id x = oi_invoice_id row)
         \<longleftrightarrow> oi_aging_bucket row = lit ''90+'')
     \<and> sorted (map exception_key (exception_items z register d as_of))"
proof -
  obtain b where b: "b \<in> set (invoices d)" "oi_invoice_id row = inv_id b"
      "oi_aging_bucket row = aging_bucket (base_date b) as_of"
    using assms(2) open_row_of unfolding receivables_as_of_def payables_as_of_def by blast
  have item: "\<exists>x\<in>set (open_invoice_exceptions z d as_of). ex_type x \<in> {RECEIVABLE_OPEN, PAYABLE_OPEN}
      \<and> ex_reference_id x = oi_invoice_id row \<and> ex_amount x = Some (oi_open_amount row)"
    using assms(2) by (force simp: open_invoice_exceptions_def open_invoice_item_def)
  have "distinct (map inv_id (invoices d))" using assms(1) by (simp add: ledger_ok_def ledger_keys_def)
  moreover have "\<exists>x\<in>set (open_invoice_exceptions z d as_of).
      ex_type x \<in> {RECEIVABLE_OPEN, PAYABLE_OPEN} \<and> ex_reference_id x = inv_id b"
    using item b(2) by metis
  ultimately have "(\<exists>y\<in>set (stale_invoice_items d as_of (open_invoice_exceptions z d as_of)).
      ex_reference_id y = inv_id b) \<longleftrightarrow> 91 \<le> as_of - base_date b"
    using stale_invoice_iff b(1) by blast
  then have "(\<exists>x\<in>set (exception_items z register d as_of). ex_type x = STALE_OPEN_ITEM
           \<and> ex_detail x = msg_stale_invoice \<and> ex_reference_id x = oi_invoice_id row)
         \<longleftrightarrow> oi_aging_bucket row = lit ''90+''"
    using stale_in_items [of z register d as_of "inv_id b"] b(2,3) aging_last by simp
  moreover have "set (open_invoice_exceptions z d as_of) \<subseteq> set (exception_items z register d as_of)"
    by (auto simp: exception_items_def)
  moreover have "sorted (map exception_key (exception_items z register d as_of))"
    by (simp add: exception_items_def)
  ultimately show ?thesis using item by blast
qed

section \<open>The dashboard\<close>

text \<open>The buckets of the dashboard add up to its totals, and its counts to the list of exceptions.\<close>

lemma dashboard_totals:
  "sum_list (map bu_amount (da_receivable_aging (dashboard_payload z register d month)))
      = da_receivables (dashboard_payload z register d month)
   \<and> sum_list (map bu_amount (da_payable_due_buckets (dashboard_payload z register d month)))
      = da_payables (dashboard_payload z register d month)"
  using aging_total due_total
  by (simp add: dashboard_payload_def receivables_as_of_def Let_def split: prod.split)

text \<open>
  A zone is sound when a local midnight separates the days. Then the flows of the month are the
  transactions of its days.
\<close>

definition zone_ok :: "local_zone \<Rightarrow> bool" where
  "zone_ok z \<longleftrightarrow> (\<forall>t n. t < lz_midnight z (n + 1) \<longleftrightarrow> lz_day z t \<le> n)"

lemma month_inflow:
  assumes "zone_ok z"
  shows "sum_list (map df_inflow (cashflow z d start stop)) =
     sum_list (map mt_amount (filter (\<lambda>m. mt_direction m = MoneyDirection_INFLOW
       \<and> start \<le> lz_day z (mt_occurred_at m) \<and> lz_day z (mt_occurred_at m) \<le> stop) (moneys d)))"
proof -
  have days: "mt_occurred_at m < cutoff z n \<longleftrightarrow> lz_day z (mt_occurred_at m) \<le> n" for m n
    using assms by (simp add: zone_ok_def cutoff_def)
  let ?rows = "filter (\<lambda>m. mt_direction m = MoneyDirection_INFLOW) (cashflow_rows z d start stop)"
  have "lz_day z (mt_occurred_at m) \<in> set [start..stop]" if "m \<in> set ?rows" for m
    using that days [of m "start - 1"] days [of m stop] by (auto simp: cashflow_rows_def)
  then have "sum_list (map (\<lambda>day. sum_list (map mt_amount (filter (\<lambda>m. lz_day z (mt_occurred_at m) = day) ?rows)))
      [start..stop]) = sum_list (map mt_amount ?rows)"
    by (intro sum_by_label) (auto simp: distinct_upto)
  moreover have "filter (\<lambda>m. lz_day z (mt_occurred_at m) = day) ?rows
      = filter (\<lambda>m. lz_day z (mt_occurred_at m) = day \<and> mt_direction m = MoneyDirection_INFLOW)
          (cashflow_rows z d start stop)" for day
    by (simp add: conj_commute)
  moreover have "?rows = filter (\<lambda>m. mt_direction m = MoneyDirection_INFLOW
       \<and> start \<le> lz_day z (mt_occurred_at m) \<and> lz_day z (mt_occurred_at m) \<le> stop) (moneys d)"
    unfolding cashflow_rows_def filter_filter
    by (intro filter_cong) (use days in \<open>auto simp: not_less [symmetric]\<close>)
  ultimately show ?thesis by (simp add: cashflow_def comp_def day_total_def)
qed

section \<open>The properties on the sample ledger\<close>

definition sample_zone :: local_zone where
  "sample_zone = \<lparr>lz_wall = id, lz_midnight = (\<lambda>n. (n - 719163) * us_per_day)\<rparr>"

lemma sample_zone_ok: "zone_ok sample_zone"
  by (auto simp: zone_ok_def sample_zone_def lz_day_def us_per_day_def; presburger)

theorem past_reports_stand_witness:
  "payables_as_of sample_zone (created_db 5 sample_ids sample_args sample_db) 719162
     = payables_as_of sample_zone sample_db 719162"
proof -
  have "service_run 5 sample_db (created_db 5 sample_ids sample_args sample_db)"
    by (rule service_run.create [OF create_reconciliation_eq [OF sample_create_ok] sample_fresh])
  moreover have "cutoff sample_zone 719162 \<le> 5" by (simp add: cutoff_def sample_zone_def)
  ultimately have "later_run (cutoff sample_zone 719162) sample_db (created_db 5 sample_ids sample_args sample_db)"
    unfolding later_run_def by blast
  from past_reports_stand [OF r_into_rtranclp [of "later_run _", OF this] sample_ledger_ok]
  show ?thesis by blast
qed

theorem supplier_ledger_balances_witness:
  "\<exists>s. supplier_summary_as_of id sample_zone sample_db 7 719200 = Inr s
     \<and> ss_balance s = ss_invoiced_amount s - ss_paid_amount s"
proof -
  have "find_row cp_id (filter cp_is_supplier (parties sample_db)) 7 \<noteq> None"
    by (simp add: find_row_def sample_db_def)
  then have "\<exists>s. supplier_summary_as_of id sample_zone sample_db 7 719200 = Inr s"
    by (auto simp: supplier_summary_as_of_def split: list.split)
  then obtain s where s: "supplier_summary_as_of id sample_zone sample_db 7 719200 = Inr s" by blast
  from supplier_ledger_balances [OF s] s show ?thesis by blast
qed

theorem late_status_change_witness:
  "\<exists>d'. 1 \<in> oi_invoice_id ` set (payables_as_of sample_zone sample_db 719162)
     \<and> 1 \<notin> oi_invoice_id ` set (payables_as_of sample_zone d' 719162)"
proof -
  let ?b = "sample_invoice 1 10 10000"
  obtain d' where d': "update_invoice_status 5 finance_actor ?b InvoiceStatus_RED 9
      \<lparr>sr_id = 1, sr_batch = 9, sr_row_number = 1, sr_raw_data = JNull, sr_normalized_data = JNull,
       sr_issues = JList [], sr_is_duplicate = False, sr_posted_at = None\<rparr> sample_db = Inr d'"
    by (simp add: update_invoice_status_def record_audit_finance [OF sample_finance])
  have b: "?b \<in> set (invoices sample_db)" "inv_direction ?b = InvoiceDirection_INPUT"
    "inv_status ?b = InvoiceStatus_NORMAL" "inv_issue_date ?b \<le> 719162" "inv_id ?b = 1"
    "0 < invoice_open_at (cutoff sample_zone 719162) sample_db ?b" "is_supplier sample_db (inv_counterparty ?b)"
    by (simp_all add: sample_defs invoice_open_at_def historical_allocated_def is_supplier_def find_row_def)
  have c: "cutoff sample_zone 719162 \<le> 5" by (simp add: cutoff_def sample_zone_def)
  from late_status_change [OF sample_ledger_ok b(1-4) b(6,7) d' c] b(5) show ?thesis by auto
qed

theorem exceptions_cover_open_invoices_witness:
  "\<exists>row\<in>set (payables_as_of sample_zone sample_db 719162).
     \<exists>x\<in>set (exception_items sample_zone [] sample_db 719162). ex_reference_id x = oi_invoice_id row"
proof -
  have "sample_invoice 1 10 10000 \<in> set (open_invoices sample_zone sample_db InvoiceDirection_INPUT 719162)"
    by (simp add: open_invoices_def sample_defs invoice_open_at_def historical_allocated_def)
  then have "payables_as_of sample_zone sample_db 719162 \<noteq> []"
    by (auto simp: payables_as_of_def open_invoice_rows_def)
  then obtain row where "row \<in> set (payables_as_of sample_zone sample_db 719162)"
    by (meson last_in_set)
  moreover from this have "row \<in> set (receivables_as_of sample_zone sample_db 719162)
      \<union> set (payables_as_of sample_zone sample_db 719162)" by simp
  note exceptions_cover_open_invoices [OF sample_ledger_ok this, of "[]"]
  ultimately show ?thesis by blast
qed

end
