(* ===== verification/Updater_Api.thy ===== *)
theory Updater_Api
  imports Updater_Manager Py_Json
begin

text \<open>
  The HTTP interface of the updater (\<open>updater/http_server.py\<close>). A request is what the standard
  library has parsed of the connection: verb, path, headers and the bytes that follow; a
  reply is the status, the headers and the body that are sent. The thread that runs an update is
  the field \<open>sr_worker\<close> of the state, and a step of its own.
\<close>

section \<open>Requests and replies\<close>

record request =
  rq_method :: pystr
  rq_path :: pystr
  rq_headers :: "(pystr \<times> pystr) list"
  rq_body :: bytes

record reply =
  rp_status :: nat
  rp_headers :: "(pystr \<times> pystr) list"
  rp_body :: bytes

text \<open>\<open>headers.get_all(name)\<close>; a missing header is the empty list. The name is in lower case.\<close>

definition header_values :: "(pystr \<times> pystr) list \<Rightarrow> string \<Rightarrow> pystr list" where
  "header_values headers name = map snd (filter (\<lambda>(k, v). map lower_ascii k = lit name) headers)"

definition MAX_BODY_BYTES :: nat where "MAX_BODY_BYTES = 4 * 1024"

definition MAX_RESPONSE_BYTES :: nat where "MAX_RESPONSE_BYTES = 16 * 1024"

definition error_document :: "string \<Rightarrow> string \<Rightarrow> json" where
  "error_document code message =
     JObj [(lit ''error'', JObj [(lit ''code'', JStr (lit code)), (lit ''message'', JStr (lit message))])]"

definition ERROR_DOCUMENTS :: "(nat \<times> json) list" where
  "ERROR_DOCUMENTS =
     [(400, error_document ''invalid_request'' ''Invalid request.''),
      (401, error_document ''unauthorized'' ''Unauthorized.''),
      (404, error_document ''not_found'' ''Not found.''),
      (405, error_document ''method_not_allowed'' ''Method not allowed.''),
      (409, error_document ''update_conflict'' ''Update unavailable.''),
      (503, error_document ''service_unavailable'' ''Service unavailable.'')]"

definition json_body :: "json \<Rightarrow> bytes" where
  "json_body j = utf8_encode (json_dumps j)"

definition reply_with :: "nat \<Rightarrow> bytes \<Rightarrow> reply" where
  "reply_with code body = \<lparr>rp_status = code,
     rp_headers = [(lit ''Content-Type'', lit ''application/json''), (lit ''Cache-Control'', lit ''no-store''),
                   (lit ''Content-Length'', str_nat (length body))],
     rp_body = body\<rparr>"

text \<open>
  \<open>_respond\<close> and \<open>_error\<close>. The texts are ASCII, so that the encoding does not fail.
\<close>

definition respond :: "nat \<Rightarrow> json \<Rightarrow> reply" where
  "respond code payload =
     (if MAX_RESPONSE_BYTES < length (json_body payload)
      then reply_with 503 (json_body (the (map_of ERROR_DOCUMENTS 503)))
      else reply_with code (json_body payload))"

definition respond_error :: "nat \<Rightarrow> reply" where
  "respond_error code = respond code (the (map_of ERROR_DOCUMENTS code))"

section \<open>Authorisation\<close>

text \<open>
  \<open>authorize\<close>. A text with a lone surrogate has no encoding, and the comparison of texts
  that both have one is the comparison of their bytes.
\<close>

definition encodable :: "pystr \<Rightarrow> bool" where
  "encodable s \<longleftrightarrow> list_all scalar s"

definition authorize :: "pystr \<Rightarrow> pystr \<Rightarrow> bool" where
  "authorize header token \<longleftrightarrow>
     startswith header (lit ''Bearer '') \<and> encodable (drop 7 header) \<and> encodable token
     \<and> utf8_encode (drop 7 header) = utf8_encode token"

definition is_authorized :: "pystr \<Rightarrow> request \<Rightarrow> bool" where
  "is_authorized token r \<longleftrightarrow>
     (case header_values (rq_headers r) ''authorization'' of [h] \<Rightarrow> authorize h token | _ \<Rightarrow> False)"

section \<open>The body of a request\<close>

text \<open>\<open>_InvalidRequest\<close>, or an exception that a handler lets through.\<close>

datatype hexn = InvalidRequest | Raised uexn

text \<open>\<open>_exact_json_object\<close>.\<close>

definition exact_json_object :: "bytes \<Rightarrow> pystr list \<Rightarrow> hexn + (pystr \<times> json) list" where
  "exact_json_object body keys =
     (case utf8_decode body of
        None \<Rightarrow> Inl InvalidRequest
      | Some text \<Rightarrow>
          (case json_loads_distinct text of
             Some (JObj ms) \<Rightarrow> if fst ` set ms = set keys then Inr ms else Inl InvalidRequest
           | _ \<Rightarrow> Inl InvalidRequest))"

text \<open>
  \<open>_read_json\<close>. The pattern of the length is the one of a version part; \<open>int\<close> raises
  \<open>ValueError\<close> on more than 4300 digits, which is not an \<open>_InvalidRequest\<close>.
\<close>

definition read_json :: "request \<Rightarrow> pystr list \<Rightarrow> hexn + (pystr \<times> json) list" where
  "read_json r keys =
     (if header_values (rq_headers r) ''transfer-encoding'' \<noteq> [] then Inl InvalidRequest
      else if header_values (rq_headers r) ''content-type'' \<noteq> [lit ''application/json''] then Inl InvalidRequest
      else
        (case header_values (rq_headers r) ''content-length'' of
           [v] \<Rightarrow>
             if \<not> version_part v then Inl InvalidRequest
             else if 4300 < length v then Inl (Raised (UValueError []))
             else
               let n = the (parse_digits v)
               in if MAX_BODY_BYTES < n \<or> length (take n (rq_body r)) \<noteq> n then Inl InvalidRequest
                  else exact_json_object (take n (rq_body r)) keys
         | _ \<Rightarrow> Inl InvalidRequest))"

section \<open>The runner of updates\<close>

text \<open>
  The state of the server: the one of the manager, the callable of the thread that is alive
  (\<open>Some i\<close> executes the task \<open>i\<close>, \<open>None\<close> does nothing) and the task that was started last.
\<close>

record 's server =
  sr_manager :: 's
  sr_worker :: "uuid option option"
  sr_task :: "task_view option"

definition on_manager :: "('s, uexn, 'a) eff \<Rightarrow> ('s server, uexn, 'a) eff" where
  "on_manager m = zoom sr_manager (\<lambda>t s. s\<lparr>sr_manager := t\<rparr>) m"

text \<open>\<open>_OperationRunner.start\<close>, after the comparison with the stored task.\<close>

definition runner_new :: "'s env \<Rightarrow> pystr \<Rightarrow> uuid \<Rightarrow> ('s server, uexn, task_view) eff" where
  "runner_new E target_version i =
     bindM (readM id) (\<lambda>s.
     if sr_worker s \<noteq> None then
       (case sr_task s of
          Some t \<Rightarrow> if tv_id t = i \<and> tv_to_version t = target_version then retM t else conflict ''task_active''
        | None \<Rightarrow> conflict ''task_active'')
     else
       bindM (on_manager (start E target_version (Some i) 0)) (\<lambda>(task, callable) s.
         (Inr task, s\<lparr>sr_task := Some task, sr_worker := Some callable\<rparr>)))"

definition runner_start :: "'s env \<Rightarrow> pystr \<Rightarrow> uuid \<Rightarrow> ('s server, uexn, task_view) eff" where
  "runner_start E target_version i =
     bindM (on_manager (status E)) (\<lambda>view.
     case sv_task view of
       Some t \<Rightarrow>
         if tv_id t = i then
           if tv_to_version t \<noteq> target_version then conflict ''task_id_conflict''
           else (\<lambda>s. (Inr t, s\<lparr>sr_task := Some t\<rparr>))
         else runner_new E target_version i
     | None \<Rightarrow> runner_new E target_version i)"

text \<open>\<open>_run\<close>: the thread runs its callable to its end; what it raises is dropped.\<close>

definition run_worker :: "'s env \<Rightarrow> 's server \<Rightarrow> 's server" where
  "run_worker E s =
     (case sr_worker s of
        None \<Rightarrow> s
      | Some None \<Rightarrow> s\<lparr>sr_worker := None\<rparr>
      | Some (Some i) \<Rightarrow> s\<lparr>sr_manager := snd (execute E i (sr_manager s)), sr_worker := None\<rparr>)"

section \<open>The handlers\<close>

definition raised :: "('s, uexn, 'a) eff \<Rightarrow> ('s, hexn, 'a) eff" where
  "raised m = (\<lambda>s. case m s of (Inl e, s') \<Rightarrow> (Inl (Raised e), s') | (Inr x, s') \<Rightarrow> (Inr x, s'))"

definition handle_status :: "'s env \<Rightarrow> ('s server, hexn, reply) eff" where
  "handle_status E =
     bindM (raised (on_manager (status E))) (\<lambda>v. retM (respond 200 (status_view_to_dict v)))"

definition handle_check :: "'s env \<Rightarrow> request \<Rightarrow> ('s server, hexn, reply) eff" where
  "handle_check E r =
     thenM (liftM (read_json r []))
       (bindM (raised (on_manager (check E))) (\<lambda>v. retM (respond 200 (status_view_to_dict v))))"

text \<open>The two fields of a start request: a version and a canonical identifier.\<close>

definition start_fields :: "(pystr \<times> json) list \<Rightarrow> hexn + pystr \<times> uuid" where
  "start_fields payload =
     (case (field payload ''target_version'', field payload ''task_id'') of
        (JStr v, JStr t) \<Rightarrow>
          if \<not> version_ok v then Inl InvalidRequest
          else (case parse_uuid t of
                  Some i \<Rightarrow> if uuid_str i \<noteq> t then Inl InvalidRequest else Inr (v, i)
                | None \<Rightarrow> Inl InvalidRequest)
      | _ \<Rightarrow> Inl InvalidRequest)"

definition handle_start :: "'s env \<Rightarrow> request \<Rightarrow> ('s server, hexn, reply) eff" where
  "handle_start E r =
     bindM (liftM (bindE (read_json r [lit ''target_version'', lit ''task_id'']) start_fields)) (\<lambda>(v, i).
     bindM (raised (runner_start E v i)) (\<lambda>t. retM (respond 202 (task_view_to_dict t))))"

text \<open>The status of the reply for an exception of a handler.\<close>

fun exception_status :: "hexn \<Rightarrow> nat" where
  "exception_status InvalidRequest = 400"
| "exception_status (Raised (UpdateConflict c)) = 409"
| "exception_status (Raised e) = 503"

definition run_route :: "('s server, hexn, reply) eff \<Rightarrow> 's server \<Rightarrow> reply \<times> 's server" where
  "run_route route s =
     (case route s of
        (Inr reply, s') \<Rightarrow> (reply, s')
      | (Inl e, s') \<Rightarrow> (respond_error (exception_status e), s'))"

definition api_paths :: "pystr list" where
  "api_paths = [lit ''/health'', lit ''/v1/status'', lit ''/v1/check'', lit ''/v1/update'']"

text \<open>\<open>_dispatch\<close>.\<close>

definition dispatch :: "'s env \<Rightarrow> pystr \<Rightarrow> request \<Rightarrow> 's server \<Rightarrow> reply \<times> 's server" where
  "dispatch E token r s =
     (if rq_path r = lit ''/health'' then
        (if rq_method r = lit ''GET''
         then (respond 200 (JObj [(lit ''status'', JStr (lit ''ok''))]), s)
         else (respond_error 405, s))
      else if \<not> is_authorized token r then (respond_error 401, s)
      else if (rq_method r, rq_path r) = (lit ''GET'', lit ''/v1/status'') then run_route (handle_status E) s
      else if (rq_method r, rq_path r) = (lit ''POST'', lit ''/v1/check'') then run_route (handle_check E r) s
      else if (rq_method r, rq_path r) = (lit ''POST'', lit ''/v1/update'') then run_route (handle_start E r) s
      else (respond_error (if rq_path r \<in> set api_paths then 405 else 404), s))"

end
