(* ===== verification/Updater_Client.thy ===== *)
theory Updater_Client
  imports Updater_Api
begin

text \<open>
  The client of the updater (\<open>apps/system_update/client.py\<close>): the request it sends, the bounded
  read of the response and the strict check of the document. What the transport does is a
  parameter: a function of the request and the state on the other side.
\<close>

definition UPDATER_URL :: pystr where "UPDATER_URL = lit ''http://updater:8090''"

definition client_max_bytes :: nat where "client_max_bytes = 64 * 1024"

definition read_chunk_bytes :: nat where "read_chunk_bytes = 4 * 1024"

text \<open>\<open>_is_valid_configuration\<close>; a token that has no encoding raises as an invalid one does.\<close>

definition is_valid_configuration :: "pystr \<Rightarrow> pystr \<Rightarrow> bool" where
  "is_valid_configuration base_url token \<longleftrightarrow>
     base_url = UPDATER_URL \<and> strip token \<noteq> [] \<and> encodable token \<and> 32 \<le> length (utf8_encode token)"

section \<open>The connection\<close>

text \<open>
  A response that the transport returns: its status, the two headers that are read, whether
  the deadline has passed by then, and the chunks that the connection delivers, each with
  whether the deadline has passed when it is read.
\<close>

record response =
  rs_status :: nat
  rs_content_type :: pystr
  rs_content_length :: "pystr option"
  rs_late :: bool
  rs_chunks :: "(bytes \<times> bool) list"

text \<open>
  What the transport does: a network error (\<open>HTTPException\<close>, \<open>OSError\<close>), a request that the
  library refuses to send (\<open>ValueError\<close>), an \<open>HTTPError\<close> with its status, or a response.
\<close>

datatype connection =
    ConnectionFailed
  | RequestRefused
  | StatusError nat
  | Connected response

type_synonym 'u transport = "request \<Rightarrow> 'u \<Rightarrow> connection \<times> 'u"

text \<open>The codes of \<open>UpdaterUnavailable\<close>.\<close>

abbreviation network_error :: pystr where "network_error \<equiv> lit ''network_error''"
abbreviation invalid_response :: pystr where "invalid_response \<equiv> lit ''invalid_response''"
abbreviation unexpected_response :: pystr where "unexpected_response \<equiv> lit ''unexpected_response''"
abbreviation invalid_request :: pystr where "invalid_request \<equiv> lit ''invalid_request''"

section \<open>Reading a response\<close>

text \<open>
  The loop of \<open>_read_response\<close>: a read returns at most the bytes that are asked for, and the
  rest of the chunk stays for the next one; no more chunks is the end of the stream.
\<close>

function read_chunks :: "nat option \<Rightarrow> bytes \<Rightarrow> (bytes \<times> bool) list \<Rightarrow> pystr + bytes" where
  "read_chunks len payload [] = Inr payload"
| "read_chunks len payload ((chunk, late) # rest) =
     (if client_max_bytes < length payload then Inr payload
      else if late then Inl network_error
      else if chunk = [] then Inr payload
      else
        let want = min read_chunk_bytes (client_max_bytes + 1 - length payload);
            payload1 = payload @ take want chunk
        in if len = Some (length payload1) then Inr payload1
           else read_chunks len payload1
                  (if drop want chunk = [] then rest else (drop want chunk, False) # rest))"
  by pat_completeness auto

termination
  by (relation "measure (\<lambda>(len, payload, es). sum_list (map (\<lambda>(c, l). Suc (length c)) es))")
    (auto simp: read_chunk_bytes_def)

declare read_chunks.simps(2) [simp del]

text \<open>The length header, when it is there: decimal digits with a value in the bound.\<close>

definition content_length_of :: "pystr option \<Rightarrow> pystr + nat option" where
  "content_length_of header =
     (case header of
        None \<Rightarrow> Inr None
      | Some v \<Rightarrow>
          (case parse_digits v of
             Some n \<Rightarrow> if client_max_bytes < n then Inl invalid_response else Inr (Some n)
           | None \<Rightarrow> Inl invalid_response))"

definition read_response :: "response \<Rightarrow> pystr + json" where
  "read_response r =
     (if rs_content_type r \<noteq> lit ''application/json'' then Inl invalid_response
      else
        bindE (content_length_of (rs_content_length r)) (\<lambda>len.
        bindE (read_chunks len [] (rs_chunks r)) (\<lambda>payload.
        if client_max_bytes < length payload \<or> (\<exists>n. len = Some n \<and> length payload \<noteq> n)
        then Inl invalid_response
        else
          (case Option.bind (utf8_decode payload) json_loads_strict of
             Some j \<Rightarrow> Inr j
           | None \<Rightarrow> Inl invalid_response))))"

section \<open>A request\<close>

text \<open>
  The headers of the request; the standard library adds the length of the data.
\<close>

definition client_headers :: "pystr \<Rightarrow> bytes option \<Rightarrow> (pystr \<times> pystr) list" where
  "client_headers token data =
     [(lit ''Authorization'', lit ''Bearer '' @ token), (lit ''Connection'', lit ''close'')]
     @ (case data of
          None \<Rightarrow> []
        | Some b \<Rightarrow> [(lit ''Content-Type'', lit ''application/json''), (lit ''Content-Length'', str_nat (length b))])"

definition client_request :: "pystr \<Rightarrow> string \<Rightarrow> string \<Rightarrow> json option \<Rightarrow> request" where
  "client_request token verb path body =
     (let data = map_option json_body body
      in \<lparr>rq_method = lit verb, rq_path = lit path, rq_headers = client_headers token data,
          rq_body = (case data of None \<Rightarrow> [] | Some b \<Rightarrow> b)\<rparr>)"

definition status_error_code :: "nat \<Rightarrow> pystr" where
  "status_error_code code =
     (if code = 401 then lit ''unauthorized''
      else if code = 409 then lit ''update_conflict''
      else if code = 503 then lit ''service_unavailable''
      else unexpected_response)"

definition send_request ::
    "'u transport \<Rightarrow> pystr \<Rightarrow> string \<Rightarrow> string \<Rightarrow> json option \<Rightarrow> nat \<Rightarrow> ('u, pystr, json) eff" where
  "send_request send token verb path body expected =
     (\<lambda>u. case send (client_request token verb path body) u of
        (ConnectionFailed, u') \<Rightarrow> (Inl network_error, u')
      | (RequestRefused, u') \<Rightarrow> (Inl invalid_response, u')
      | (StatusError code, u') \<Rightarrow> (Inl (status_error_code code), u')
      | (Connected r, u') \<Rightarrow>
          (if rs_late r then Inl network_error
           else if rs_status r \<noteq> expected then Inl unexpected_response
           else read_response r, u'))"

section \<open>The documents\<close>

record client_task =
  ct_id :: uuid
  ct_from_version :: pystr
  ct_to_version :: pystr
  ct_stage :: pystr
  ct_created_at :: instant
  ct_started_at :: "instant option"
  ct_finished_at :: "instant option"
  ct_backup_complete :: bool
  ct_rolled_back :: bool
  ct_cleanup :: pystr
  ct_error_code :: pystr
  ct_error_message :: pystr

record client_status =
  cs_current_version :: pystr
  cs_current_published_at :: "instant option"
  cs_latest_version :: "pystr option"
  cs_latest_published_at :: "instant option"
  cs_update_available :: bool
  cs_checked_at :: "instant option"
  cs_task :: "client_task option"

definition TASK_FIELDS :: "pystr list" where
  "TASK_FIELDS = [lit ''id'', lit ''from_version'', lit ''to_version'', lit ''stage'', lit ''created_at'',
     lit ''started_at'', lit ''finished_at'', lit ''backup_complete'', lit ''rolled_back'', lit ''cleanup'',
     lit ''error_code'', lit ''error_message'']"

definition STATUS_FIELDS :: "pystr list" where
  "STATUS_FIELDS = [lit ''current_version'', lit ''current_published_at'', lit ''latest_version'',
     lit ''latest_published_at'', lit ''update_available'', lit ''checked_at'', lit ''task'']"

definition STAGES :: "pystr list" where
  "STAGES = [lit ''checking'', lit ''backing_up'', lit ''pulling'', lit ''stopping_web'', lit ''migrating'',
     lit ''starting_web'', lit ''checking_health'', lit ''stabilizing'', lit ''persisting_version'',
     lit ''cleaning'', lit ''rolling_back'', lit ''succeeded'', lit ''failed'', lit ''manual_intervention'']"

definition CLEANUP_STATUSES :: "pystr list" where
  "CLEANUP_STATUSES = [lit ''not_run'', lit ''complete'', lit ''pending'']"

definition client_error_messages :: "(pystr \<times> pystr) list" where
  "client_error_messages =
     [([], []),
      (lit ''backup_failed'', [22791, 20221, 22833, 36133, 65292, 35831, 32852, 31995,
     31649, 29702, 21592, 12290]),
      (lit ''pull_failed'', [19979, 36733, 21319, 32423, 29256, 26412, 22833, 36133,
     65292, 35831, 32852, 31995, 31649, 29702, 21592, 12290]),
      (lit ''migration_failed'', [21319, 32423, 22833, 36133, 65292, 35831, 32852, 31995,
     31649, 29702, 21592, 12290]),
      (lit ''health_check_failed'', [21319, 32423, 21518, 26816, 26597, 22833, 36133, 65292,
     35831, 32852, 31995, 31649, 29702, 21592, 12290]),
      (lit ''rollback_failed'', [21319, 32423, 22833, 36133, 65292, 38656, 35201, 20154,
     24037, 22788, 29702, 12290]),
      (lit ''update_failed'', [21319, 32423, 22833, 36133, 65292, 35831, 32852, 31995,
     31649, 29702, 21592, 12290])]"

text \<open>
  The checks of \<open>_parse_task\<close> and \<open>_parse_status\<close>. Every exception they raise becomes the code
  \<open>invalid_response\<close>: here it is \<open>None\<close>.
\<close>

definition exact_object :: "json \<Rightarrow> pystr list \<Rightarrow> (pystr \<times> json) list option" where
  "exact_object payload names =
     (case payload of JObj ms \<Rightarrow> if fst ` set ms = set names then Some ms else None | _ \<Rightarrow> None)"

fun text_value :: "json \<Rightarrow> pystr option" where
  "text_value (JStr s) = Some s"
| "text_value _ = None"

fun bool_value :: "json \<Rightarrow> bool option" where
  "bool_value (JBool b) = Some b"
| "bool_value _ = None"

definition require_version :: "json \<Rightarrow> pystr option" where
  "require_version v = Option.bind (text_value v) (\<lambda>s. if version_ok s then Some s else None)"

definition utc_timestamp_ok :: "pystr \<Rightarrow> bool" where
  "utc_timestamp_ok s \<longleftrightarrow>
     list_all2 (\<lambda>p c. if p = 48 then is_digit c else c = p) (lit ''0000-00-00T00:00:00'') (take 19 s)
     \<and> (let rest = drop 19 s; fraction = take (length rest - 6) rest
        in drop (length rest - 6) rest = lit ''+00:00''
           \<and> (fraction = [] \<or> hd fraction = 46 \<and> 1 \<le> length (tl fraction) \<and> length (tl fraction) \<le> 6
                \<and> list_all is_digit (tl fraction)))"

definition require_timestamp :: "bool \<Rightarrow> json \<Rightarrow> instant option option" where
  "require_timestamp null_ok v =
     (case v of
        JNull \<Rightarrow> if null_ok then Some None else None
      | JStr s \<Rightarrow>
          if \<not> utc_timestamp_ok s then None
          else (case parse_iso_datetime s of
                  Some (t, Some z) \<Rightarrow> if z = 0 then Some (Some t) else None
                | _ \<Rightarrow> None)
      | _ \<Rightarrow> None)"

definition task_id_value :: "json \<Rightarrow> uuid option" where
  "task_id_value v =
     Option.bind (text_value v) (\<lambda>s.
     Option.bind (parse_uuid s) (\<lambda>i. if uuid_str i = s then Some i else None))"

definition parse_task :: "json \<Rightarrow> client_task option" where
  "parse_task payload =
     Option.bind (exact_object payload TASK_FIELDS) (\<lambda>ms.
     Option.bind (task_id_value (field ms ''id'')) (\<lambda>i.
     Option.bind (text_value (field ms ''stage'')) (\<lambda>stage.
     Option.bind (text_value (field ms ''cleanup'')) (\<lambda>cleanup.
     Option.bind (text_value (field ms ''error_code'')) (\<lambda>code.
     Option.bind (text_value (field ms ''error_message'')) (\<lambda>message.
     if stage \<notin> set STAGES \<or> cleanup \<notin> set CLEANUP_STATUSES
        \<or> map_of client_error_messages code \<noteq> Some message then None
     else
       Option.bind (require_version (field ms ''from_version'')) (\<lambda>from_version.
       Option.bind (require_version (field ms ''to_version'')) (\<lambda>to_version.
       Option.bind (require_timestamp False (field ms ''created_at'')) (\<lambda>created.
       Option.bind (require_timestamp True (field ms ''started_at'')) (\<lambda>started.
       Option.bind (require_timestamp True (field ms ''finished_at'')) (\<lambda>finished.
       Option.bind (bool_value (field ms ''backup_complete'')) (\<lambda>backup.
       Option.bind (bool_value (field ms ''rolled_back'')) (\<lambda>rolled.
       Some \<lparr>ct_id = i, ct_from_version = from_version, ct_to_version = to_version, ct_stage = stage,
             ct_created_at = the created, ct_started_at = started, ct_finished_at = finished,
             ct_backup_complete = backup, ct_rolled_back = rolled, ct_cleanup = cleanup,
             ct_error_code = code, ct_error_message = message\<rparr>)))))))))))))"

definition if_present :: "(json \<Rightarrow> 'a option) \<Rightarrow> json \<Rightarrow> 'a option option" where
  "if_present f v = (if v = JNull then Some None else map_option Some (f v))"

definition parse_status :: "json \<Rightarrow> client_status option" where
  "parse_status payload =
     Option.bind (exact_object payload STATUS_FIELDS) (\<lambda>ms.
     Option.bind (if_present require_version (field ms ''latest_version'')) (\<lambda>latest.
     Option.bind (if_present parse_task (field ms ''task'')) (\<lambda>task.
     Option.bind (bool_value (field ms ''update_available'')) (\<lambda>available.
     Option.bind (require_version (field ms ''current_version'')) (\<lambda>current.
     Option.bind (require_timestamp True (field ms ''current_published_at'')) (\<lambda>published.
     Option.bind (require_timestamp True (field ms ''latest_published_at'')) (\<lambda>latest_published.
     Option.bind (require_timestamp True (field ms ''checked_at'')) (\<lambda>checked.
     Some \<lparr>cs_current_version = current, cs_current_published_at = published, cs_latest_version = latest,
           cs_latest_published_at = latest_published, cs_update_available = available,
           cs_checked_at = checked, cs_task = task\<rparr>))))))))"

section \<open>The operations\<close>

definition parse_response :: "(json \<Rightarrow> 'a option) \<Rightarrow> ('u, pystr, json) eff \<Rightarrow> ('u, pystr, 'a) eff" where
  "parse_response parser m =
     bindM m (\<lambda>j. case parser j of Some x \<Rightarrow> retM x | None \<Rightarrow> raiseM invalid_response)"

definition client_status_call :: "'u transport \<Rightarrow> pystr \<Rightarrow> ('u, pystr, client_status) eff" where
  "client_status_call send token =
     parse_response parse_status (send_request send token ''GET'' ''/v1/status'' None 200)"

definition client_check_call :: "'u transport \<Rightarrow> pystr \<Rightarrow> ('u, pystr, client_status) eff" where
  "client_check_call send token =
     parse_response parse_status (send_request send token ''POST'' ''/v1/check'' (Some (JObj [])) 200)"

definition client_start_call ::
    "'u transport \<Rightarrow> pystr \<Rightarrow> pystr \<Rightarrow> uuid \<Rightarrow> ('u, pystr, client_task) eff" where
  "client_start_call send token target_version i =
     (if \<not> version_ok target_version then raiseM invalid_request
      else
        bindM (parse_response parse_task
          (send_request send token ''POST'' ''/v1/update''
            (Some (JObj [(lit ''target_version'', JStr target_version), (lit ''task_id'', JStr (uuid_str i))])) 202))
          (\<lambda>t. if ct_id t \<noteq> i \<or> ct_to_version t \<noteq> target_version then raiseM invalid_response else retM t))"

end
