(* ===== verification/Update_Pages.thy ===== *)
theory Update_Pages
  imports Updater_Client Web_Pages
begin

text \<open>
  The pages of the system update (\<open>apps/system_update/views.py\<close>, \<open>apps/system_update/models.py\<close>):
  a start is recorded before the updater is asked, a lost answer is looked up again, and
  the end of a task is audited once. The cross-site check and the sessions of the framework
  are not modelled.
\<close>

section \<open>The table\<close>

record update_request =
  uq_id :: nat
  uq_task_id :: uuid
  uq_requested_by :: nat
  uq_target_version :: pystr
  uq_result :: pystr
  uq_terminal_recorded_at :: "instant option"

abbreviation Result_ACTIVE :: pystr where "Result_ACTIVE \<equiv> lit ''active''"

definition SYSTEM_UPDATE_RESULT_VALUES :: "pystr list" where
  "SYSTEM_UPDATE_RESULT_VALUES = [lit ''active'', lit ''succeeded'', lit ''failed'', lit ''manual_intervention'']"

text \<open>
  What the pages work on: the table with its sequence of keys, the other tables and the
  updater on the other side of the client.
\<close>

record 'u site =
  si_requests :: "update_request list"
  si_next_id :: nat
  si_db :: db
  si_updater :: 'u

text \<open>A client, as \<open>get_updater_client\<close> builds it; \<open>None\<close> is its \<open>ValueError\<close>.\<close>

record 'u updater_client =
  uc_status :: "('u, pystr, client_status) eff"
  uc_check :: "('u, pystr, client_status) eff"
  uc_start :: "pystr \<Rightarrow> uuid \<Rightarrow> ('u, pystr, client_task) eff"

definition get_updater_client :: "pystr \<Rightarrow> pystr \<Rightarrow> 'u transport \<Rightarrow> 'u updater_client option" where
  "get_updater_client url token send =
     (if \<not> is_valid_configuration url token then None
      else Some \<lparr>uc_status = client_status_call send token, uc_check = client_check_call send token,
                 uc_start = client_start_call send token\<rparr>)"

section \<open>Requests and pages\<close>

record page_request =
  pq_method :: pystr
  pq_user :: actor
  pq_content_type :: "pystr option"
  pq_content_length :: pystr
  pq_body :: bytes

text \<open>A JSON reply, the page itself, or what the framework makes of the other outcomes.\<close>

datatype page =
    Json nat json
  | IndexPage
  | LoginRedirect
  | Forbidden
  | MethodNotAllowed
  | ServerError exn

definition json_error :: "nat \<Rightarrow> string \<Rightarrow> page" where
  "json_error code error = Json code (JObj [(lit ''error'', JStr (lit error))])"

definition updater_error :: "pystr \<Rightarrow> page" where
  "updater_error code =
     (if code = lit ''invalid_request'' then json_error 400 ''invalid_request''
      else if code = lit ''update_conflict'' then json_error 409 ''update_conflict''
      else json_error 503 ''updater_unavailable'')"

text \<open>\<open>owner_required\<close> around \<open>require_GET\<close> or \<open>require_POST\<close>.\<close>

definition owner_required :: "string \<Rightarrow> (page_request \<Rightarrow> 'u site \<Rightarrow> page \<times> 'u site) \<Rightarrow> page_request \<Rightarrow> 'u site \<Rightarrow> page \<times> 'u site" where
  "owner_required verb view r s =
     (if \<not> actor_authenticated (pq_user r) then (LoginRedirect, s)
      else if \<not> user_has_role (si_db s) (pq_user r) OWNER then (Forbidden, s)
      else if pq_method r \<noteq> lit verb then (MethodNotAllowed, s)
      else view r s)"

definition SYSTEM_UPDATE_MAX_REQUEST_BYTES :: nat where "SYSTEM_UPDATE_MAX_REQUEST_BYTES = 1024"

definition strict_json_object :: "page_request \<Rightarrow> pystr list \<Rightarrow> (pystr \<times> json) list option" where
  "strict_json_object r allowed =
     (if pq_content_type r \<noteq> Some (lit ''application/json'') then None
      else
        (case int_text (pq_content_length r) of
           None \<Rightarrow> None
         | Some n \<Rightarrow>
             if int SYSTEM_UPDATE_MAX_REQUEST_BYTES < n
                \<or> SYSTEM_UPDATE_MAX_REQUEST_BYTES < length (pq_body r) then None
             else
               Option.bind (Option.bind (utf8_decode (pq_body r)) json_loads_strict) (\<lambda>payload.
                 exact_object payload allowed)))"

definition client_task_to_dict :: "client_task \<Rightarrow> json" where
  "client_task_to_dict t = JObj [(lit ''id'', JStr (uuid_str (ct_id t))),
     (lit ''from_version'', JStr (ct_from_version t)), (lit ''to_version'', JStr (ct_to_version t)),
     (lit ''stage'', JStr (ct_stage t)), (lit ''created_at'', datetime_to_dict (Some (ct_created_at t))),
     (lit ''started_at'', datetime_to_dict (ct_started_at t)),
     (lit ''finished_at'', datetime_to_dict (ct_finished_at t)),
     (lit ''backup_complete'', JBool (ct_backup_complete t)), (lit ''rolled_back'', JBool (ct_rolled_back t)),
     (lit ''cleanup'', JStr (ct_cleanup t)), (lit ''error_code'', JStr (ct_error_code t)),
     (lit ''error_message'', JStr (ct_error_message t))]"

definition client_status_to_dict :: "client_status \<Rightarrow> json" where
  "client_status_to_dict v = JObj [(lit ''current_version'', JStr (cs_current_version v)),
     (lit ''current_published_at'', datetime_to_dict (cs_current_published_at v)),
     (lit ''latest_version'', (case cs_latest_version v of None \<Rightarrow> JNull | Some x \<Rightarrow> JStr x)),
     (lit ''latest_published_at'', datetime_to_dict (cs_latest_published_at v)),
     (lit ''update_available'', JBool (cs_update_available v)),
     (lit ''checked_at'', datetime_to_dict (cs_checked_at v)),
     (lit ''task'', (case cs_task v of None \<Rightarrow> JNull | Some t \<Rightarrow> client_task_to_dict t))]"

section \<open>The records of a task\<close>

definition find_request :: "update_request list \<Rightarrow> uuid \<Rightarrow> update_request option" where
  "find_request rows i = find (\<lambda>q. uq_task_id q = i) rows"

definition request_target :: "nat \<Rightarrow> audit_target" where
  "request_target i = \<lparr>tgt_is_model = True, tgt_type = lit ''SystemUpdateRequest'',
     tgt_pk = Some (str_nat i), tgt_adding = False\<rparr>"

definition saved_user :: "nat \<Rightarrow> actor" where
  "saved_user pk = \<lparr>actor_is_user = True, actor_pk = Some pk, actor_adding = False, actor_authenticated = True\<rparr>"

definition page_terminal_stages :: "pystr list" where
  "page_terminal_stages = [lit ''succeeded'', lit ''failed'', lit ''manual_intervention'']"

definition record_terminal_audit :: "instant \<Rightarrow> client_task \<Rightarrow> 'u site \<Rightarrow> exn + 'u site" where
  "record_terminal_audit now t s =
     (if ct_stage t \<notin> set page_terminal_stages then Inr s
      else
        (case find_request (si_requests s) (ct_id t) of
           None \<Rightarrow> Inr s
         | Some q \<Rightarrow>
             if uq_terminal_recorded_at q \<noteq> None then Inr s
             else
               bindE (record_audit now (saved_user (uq_requested_by q)) (lit ''system_update.'' @ ct_stage t)
                        (request_target (uq_id q))
                        (JObj [(lit ''task_id'', JStr (uuid_str (ct_id t))),
                               (lit ''target_version'', JStr (uq_target_version q)),
                               (lit ''stage'', JStr (ct_stage t)), (lit ''rolled_back'', JBool (ct_rolled_back t)),
                               (lit ''cleanup'', JStr (ct_cleanup t)), (lit ''error_code'', JStr (ct_error_code t))])
                        (si_db s)) (\<lambda>d.
               Inr (s\<lparr>si_db := d,
                      si_requests := map (\<lambda>x. if uq_id x = uq_id q
                        then x\<lparr>uq_result := ct_stage t, uq_terminal_recorded_at := Some now\<rparr> else x)
                        (si_requests s)\<rparr>))))"

text \<open>
  \<open>_reserve_update_request\<close>: \<open>None\<close> is the \<open>_TaskIdConflict\<close>. A version that the column of 32
  characters cannot hold is a \<open>DataError\<close> of the database; a key that an insert has taken
  from the sequence is not given back.
\<close>

definition reserve_update_request ::
    "instant \<Rightarrow> uuid \<Rightarrow> actor \<Rightarrow> pystr \<Rightarrow> 'u site \<Rightarrow> (exn + bool) \<times> 'u site" where
  "reserve_update_request now i actor target_version s =
     (let s1 = s\<lparr>si_next_id := Suc (si_next_id s)\<rparr>
      in if 32 < length target_version then (Inl DataError, s1)
         else
           (case find_request (si_requests s) i of
              Some q \<Rightarrow>
                (Inr (Some (uq_requested_by q) = actor_pk actor \<and> uq_target_version q = target_version
                      \<and> uq_result q = Result_ACTIVE), s1)
            | None \<Rightarrow>
                (case record_audit now actor (lit ''system_update.started'') (request_target (si_next_id s))
                        (JObj [(lit ''task_id'', JStr (uuid_str i)), (lit ''target_version'', JStr target_version)])
                        (si_db s) of
                   Inl e \<Rightarrow> (Inl e, s1)
                 | Inr d \<Rightarrow>
                     (Inr True, s1\<lparr>si_db := d,
                        si_requests := si_requests s @
                          [\<lparr>uq_id = si_next_id s, uq_task_id = i, uq_requested_by = the (actor_pk actor),
                            uq_target_version = target_version, uq_result = Result_ACTIVE,
                            uq_terminal_recorded_at = None\<rparr>]\<rparr>))))"

section \<open>The views\<close>

definition on_updater :: "('u, pystr, 'a) eff \<Rightarrow> ('u site, pystr, 'a) eff" where
  "on_updater m = zoom si_updater (\<lambda>u s. s\<lparr>si_updater := u\<rparr>) m"

definition index_view :: "page_request \<Rightarrow> 'u site \<Rightarrow> page \<times> 'u site" where
  "index_view r s = owner_required ''GET'' (\<lambda>r s. (IndexPage, s)) r s"

definition status_body :: "instant \<Rightarrow> 'u updater_client option \<Rightarrow> page_request \<Rightarrow> 'u site \<Rightarrow> page \<times> 'u site" where
  "status_body now client r s =
     (case client of
        None \<Rightarrow> (json_error 503 ''updater_unavailable'', s)
      | Some c \<Rightarrow>
          (case on_updater (uc_status c) s of
             (Inl code, s1) \<Rightarrow> (updater_error code, s1)
           | (Inr v, s1) \<Rightarrow>
               (case (case cs_task v of None \<Rightarrow> Inr s1 | Some t \<Rightarrow> record_terminal_audit now t s1) of
                  Inl e \<Rightarrow> (ServerError e, s1)
                | Inr s2 \<Rightarrow> (Json 200 (client_status_to_dict v), s2))))"

definition status_page :: "instant \<Rightarrow> 'u updater_client option \<Rightarrow> page_request \<Rightarrow> 'u site \<Rightarrow> page \<times> 'u site" where
  "status_page now client = owner_required ''GET'' (status_body now client)"

definition check_body :: "'u updater_client option \<Rightarrow> page_request \<Rightarrow> 'u site \<Rightarrow> page \<times> 'u site" where
  "check_body client r s =
     (if strict_json_object r [] = None then (json_error 400 ''invalid_request'', s)
      else
        (case client of
           None \<Rightarrow> (json_error 503 ''updater_unavailable'', s)
         | Some c \<Rightarrow>
             (case on_updater (uc_check c) s of
                (Inl code, s1) \<Rightarrow> (updater_error code, s1)
              | (Inr v, s1) \<Rightarrow> (Json 200 (client_status_to_dict v), s1))))"

definition check_page :: "'u updater_client option \<Rightarrow> page_request \<Rightarrow> 'u site \<Rightarrow> page \<times> 'u site" where
  "check_page client = owner_required ''POST'' (check_body client)"

definition matching_task :: "client_status \<Rightarrow> uuid \<Rightarrow> pystr \<Rightarrow> client_task option" where
  "matching_task v i target_version =
     (case cs_task v of
        Some t \<Rightarrow> if ct_id t = i \<and> ct_to_version t = target_version then Some t else None
      | None \<Rightarrow> None)"

definition reconcile_start ::
    "'u updater_client \<Rightarrow> uuid \<Rightarrow> pystr \<Rightarrow> 'u site \<Rightarrow> client_task option \<times> 'u site" where
  "reconcile_start c i target_version s =
     (case on_updater (uc_status c) s of
        (Inl code, s1) \<Rightarrow> (None, s1)
      | (Inr v, s1) \<Rightarrow> (matching_task v i target_version, s1))"

definition reconcilable_start_errors :: "pystr list" where
  "reconcilable_start_errors = [network_error, invalid_response, unexpected_response,
     lit ''update_conflict'', lit ''service_unavailable'']"

definition start_request :: "page_request \<Rightarrow> (pystr \<times> uuid) option" where
  "start_request r =
     Option.bind (strict_json_object r [lit ''target_version'', lit ''task_id'']) (\<lambda>payload.
     Option.bind (task_id_value (field payload ''task_id'')) (\<lambda>i.
     Option.bind (require_version (field payload ''target_version'')) (\<lambda>v. Some (v, i))))"

definition ask_start ::
    "'u updater_client \<Rightarrow> pystr \<Rightarrow> uuid \<Rightarrow> 'u site \<Rightarrow> page \<times> 'u site" where
  "ask_start c v i s =
     (case on_updater (uc_start c v i) s of
        (Inl code, s1) \<Rightarrow>
          if code \<in> set reconcilable_start_errors then
            (case reconcile_start c i v s1 of
               (Some t, s2) \<Rightarrow> (Json 202 (client_task_to_dict t), s2)
             | (None, s2) \<Rightarrow> (updater_error code, s2))
          else (updater_error code, s1)
      | (Inr t, s1) \<Rightarrow>
          if ct_id t \<noteq> i \<or> ct_to_version t \<noteq> v then
            (case reconcile_start c i v s1 of
               (None, s2) \<Rightarrow> (json_error 503 ''updater_unavailable'', s2)
             | (Some t1, s2) \<Rightarrow> (Json 202 (client_task_to_dict t1), s2))
          else (Json 202 (client_task_to_dict t), s1))"

definition start_body :: "instant \<Rightarrow> 'u updater_client option \<Rightarrow> page_request \<Rightarrow> 'u site \<Rightarrow> page \<times> 'u site" where
  "start_body now client r s =
     (case start_request r of
        None \<Rightarrow> (json_error 400 ''invalid_request'', s)
      | Some (v, i) \<Rightarrow>
          (case reserve_update_request now i (pq_user r) v s of
             (Inl e, s1) \<Rightarrow> (ServerError e, s1)
           | (Inr False, s1) \<Rightarrow> (json_error 409 ''update_conflict'', s1)
           | (Inr True, s1) \<Rightarrow>
               (case client of
                  None \<Rightarrow> (json_error 503 ''updater_unavailable'', s1)
                | Some c \<Rightarrow> ask_start c v i s1)))"

definition start_page :: "instant \<Rightarrow> 'u updater_client option \<Rightarrow> page_request \<Rightarrow> 'u site \<Rightarrow> page \<times> 'u site" where
  "start_page now client = owner_required ''POST'' (start_body now client)"

end
