(* ===== verification/Update_Channel.thy ===== *)
theory Update_Channel
  imports Update_Pages Updater_Codec Updater_Properties
begin

text \<open>
  The client and the server of the updater put together: what a document that the server sends
  is for the client, and what a request that the client sends is for the server.
\<close>

section \<open>The line between them\<close>

text \<open>
  The standard library in between. It refuses to send a header that is not Latin-1 or has a
  line break; a status outside 200 to 299 is an \<open>HTTPError\<close>; the body arrives in the chunks
  into which \<open>pieces\<close> divides it.
\<close>

definition header_text :: "pystr \<Rightarrow> bool" where
  "header_text v \<longleftrightarrow> (\<forall>c\<in>set v. c < 256 \<and> c \<noteq> 10 \<and> c \<noteq> 13)"

definition sendable :: "request \<Rightarrow> bool" where
  "sendable r \<longleftrightarrow> list_all (\<lambda>(k, v). header_text v) (rq_headers r)"

definition deliver :: "(bytes \<Rightarrow> bytes list) \<Rightarrow> reply \<Rightarrow> connection" where
  "deliver pieces p =
     (if rp_status p < 200 \<or> 300 \<le> rp_status p then StatusError (rp_status p)
      else Connected \<lparr>rs_status = rp_status p,
        rs_content_type = (case header_values (rp_headers p) ''content-type'' of v # _ \<Rightarrow> v | [] \<Rightarrow> []),
        rs_content_length = (case header_values (rp_headers p) ''content-length'' of v # _ \<Rightarrow> Some v | [] \<Rightarrow> None),
        rs_late = False, rs_chunks = map (\<lambda>c. (c, False)) (pieces (rp_body p))\<rparr>)"

definition to_server :: "'s env \<Rightarrow> pystr \<Rightarrow> (bytes \<Rightarrow> bytes list) \<Rightarrow> 's server transport" where
  "to_server E token pieces r s =
     (if \<not> sendable r then (RequestRefused, s)
      else (case dispatch E token r s of (p, s') \<Rightarrow> (deliver pieces p, s')))"

definition sound_pieces :: "(bytes \<Rightarrow> bytes list) \<Rightarrow> bool" where
  "sound_pieces pieces \<longleftrightarrow> (\<forall>b. concat (pieces b) = b \<and> [] \<notin> set (pieces b))"

text \<open>A token that can be sent: the configuration accepts it, and so does the line.\<close>

definition good_token :: "pystr \<Rightarrow> bool" where
  "good_token token \<longleftrightarrow> is_valid_configuration UPDATER_URL token \<and> header_text token"

section \<open>Documents\<close>

lemma plain_no_constants: "json_plain j \<Longrightarrow> no_constants j"
  by (induction j rule: no_constants.induct) (auto simp: list_all_iff)

lemma body_ascii: "fine_json j \<Longrightarrow> c \<in> set (json_dumps j) \<Longrightarrow> c < 128"
  by (auto simp: fine_json_def dest: dumps_ascii(1))

lemma body_decode: "fine_json j \<Longrightarrow> utf8_decode (json_body j) = Some (json_dumps j)"
  unfolding json_body_def by (rule utf8_decode_encode) (auto simp: scalar_def dest: body_ascii)

lemma json_body_text: "fine_json j \<Longrightarrow> json_body j = json_dumps j"
  unfolding json_body_def by (rule utf8_encode_ascii) (auto dest: body_ascii)

lemma body_strict: "fine_json j \<Longrightarrow> Option.bind (utf8_decode (json_body j)) json_loads_strict = Some j"
  by (simp add: body_decode json_loads_strict_def parse_json_dumps plain_no_constants fine_json_def)

lemma body_distinct: "fine_json j \<Longrightarrow> json_loads_distinct (json_dumps j) = Some j"
  by (simp add: json_loads_distinct_def parse_json_dumps fine_json_def)

lemma parse_str_nat: "parse_digits (str_nat n) = Some n"
  using version_part_iff by blast

text \<open>However the body is pieces, the loop collects it.\<close>

lemma read_chunks_all:
  assumes "n \<le> client_max_bytes" "length (payload @ concat (map fst es)) = n"
    and "\<forall>(c, late)\<in>set es. c \<noteq> [] \<and> \<not> late"
  shows "read_chunks (Some n) payload es = Inr (payload @ concat (map fst es))"
  using assms
proof (induction "Some n" payload es rule: read_chunks.induct)
  case (2 payload chunk late rest)
  define want where "want = min read_chunk_bytes (client_max_bytes + 1 - length payload)"
  define es where "es = (if drop want chunk = [] then rest else (drop want chunk, False) # rest)"
  have split: "(payload @ take want chunk) @ concat (map fst es) = payload @ concat (map fst ((chunk, late) # rest))"
    by (simp add: es_def)
  have chunk: "chunk \<noteq> []" "\<not> late" "\<not> client_max_bytes < length payload"
    using 2(2-4) by auto
  have es_ok: "\<forall>(c, late)\<in>set es. c \<noteq> [] \<and> \<not> late" using 2(4) by (auto simp: es_def)
  show ?case
  proof (cases "length (payload @ take want chunk) = n")
    case True
    moreover have "length ((payload @ take want chunk) @ concat (map fst es)) = n"
      using 2(3) split by simp
    ultimately have "length (concat (map fst es)) = 0" by (simp del: length_concat length_0_conv)
    then have "concat (map fst es) = []" by (rule length_0_conv [THEN iffD1])
    then have all: "payload @ take want chunk = payload @ concat (map fst ((chunk, late) # rest))"
      by (simp only: split [symmetric] append_Nil2)
    have "read_chunks (Some n) payload ((chunk, late) # rest) = Inr (payload @ take want chunk)"
      using True chunk unfolding read_chunks.simps(2) Let_def want_def [symmetric] by simp
    then show ?thesis by (simp only: all)
  next
    case False
    have "read_chunks (Some n) (payload @ take want chunk) es
        = Inr ((payload @ take want chunk) @ concat (map fst es))"
      unfolding es_def
      by (rule 2(1) [OF chunk(3,2,1) want_def refl])
        (use False 2(2) 2(3) es_ok split in \<open>simp_all add: es_def\<close>)
    then show ?thesis
      using False chunk unfolding split read_chunks.simps(2) Let_def want_def [symmetric] es_def [symmetric]
      by simp
  qed
qed simp

lemma read_delivered:
  assumes "sound_pieces pieces" "fine_json j" "length (json_body j) \<le> client_max_bytes"
    and "deliver pieces (reply_with code (json_body j)) = Connected r"
  shows "rs_status r = code \<and> \<not> rs_late r \<and> read_response r = Inr j"
proof -
  let ?b = "json_body j" and ?es = "map (\<lambda>c. (c, False)) (pieces (json_body j))"
  have headers: "header_values (rp_headers (reply_with code ?b)) ''content-type'' = [lit ''application/json'']"
    "header_values (rp_headers (reply_with code ?b)) ''content-length'' = [str_nat (length ?b)]"
    by (simp_all add: header_values_def reply_with_def lit_def lower_ascii_def)
  have r: "rs_status r = code" "rs_content_type r = lit ''application/json''" "\<not> rs_late r"
    "rs_content_length r = Some (str_nat (length ?b))" "rs_chunks r = ?es"
    using assms(4) headers by (auto simp: deliver_def reply_with_def split: if_splits)
  have "read_chunks (Some (length ?b)) [] ?es = Inr ([] @ concat (map fst ?es))"
    by (rule read_chunks_all) (use assms(1,3) in \<open>auto simp: sound_pieces_def comp_def\<close>)
  then have "read_chunks (Some (length ?b)) [] ?es = Inr ?b"
    using assms(1) by (simp add: sound_pieces_def comp_def)
  then show ?thesis
    using r assms(2,3)
    by (simp add: read_response_def content_length_of_def parse_str_nat bindE_def body_strict)
qed

section \<open>Requests\<close>

lemma length_str_nat: "length (str_nat n) \<le> Suc n"
proof (induction n rule: nat_digits.induct)
  case (1 n)
  then show ?case
    by (subst str_nat_def, subst nat_digits.simps) (auto simp: str_nat_def)
qed

lemma client_header_values:
  "header_values (client_headers token data) ''authorization'' = [lit ''Bearer '' @ token]"
  "header_values (client_headers token data) ''transfer-encoding'' = []"
  "header_values (client_headers token (Some b)) ''content-type'' = [lit ''application/json'']"
  "header_values (client_headers token (Some b)) ''content-length'' = [str_nat (length b)]"
  by (simp_all add: header_values_def client_headers_def lit_def lower_ascii_def split: option.split)

lemma utf8_encode_inj:
  assumes "encodable s" "encodable t" "utf8_encode s = utf8_encode t"
  shows "s = t"
proof -
  have "utf8_decode (utf8_encode x) = Some x" if "encodable x" for x
    by (rule utf8_decode_encode) (use that in \<open>simp add: encodable_def list_all_iff\<close>)
  from this [OF assms(1)] this [OF assms(2)] show ?thesis using assms(3) by (metis option.inject)
qed

lemma authorize_iff: "authorize h token \<longleftrightarrow> encodable token \<and> h = lit ''Bearer '' @ token"
proof
  assume a: "authorize h token"
  then have "take 7 h = lit ''Bearer ''" by (simp add: authorize_def startswith_def lit_def eval_nat_numeral)
  then have "h = lit ''Bearer '' @ drop 7 h" by (metis append_take_drop_id)
  then show "encodable token \<and> h = lit ''Bearer '' @ token"
    using a utf8_encode_inj [of "drop 7 h" token] by (simp add: authorize_def)
next
  assume "encodable token \<and> h = lit ''Bearer '' @ token"
  then show "authorize h token" by (simp add: authorize_def startswith_def lit_def)
qed

lemma client_authorized:
  assumes "encodable token"
  shows "is_authorized token (client_request token verb path body)"
  using assms by (simp add: is_authorized_def client_request_def client_header_values authorize_iff Let_def)

lemma client_sendable:
  assumes "good_token token"
  shows "sendable (client_request token verb path body)"
proof -
  have "header_text (str_nat n)" for n
    using str_nat_chars [of _ n] by (fastforce simp: header_text_def)
  moreover have "header_text (lit ''close'')" "header_text (lit ''application/json'')"
    "header_text (lit ''Bearer '' @ token)"
    using assms by (simp_all add: header_text_def good_token_def lit_def)
  ultimately show ?thesis
    by (simp add: sendable_def client_request_def client_headers_def Let_def split: option.split)
qed

lemma client_body:
  assumes "fine_json j" "length (json_body j) \<le> MAX_BODY_BYTES"
    and "j = JObj ms" "fst ` set ms = set keys"
  shows "read_json (client_request token verb path (Some j)) keys = Inr ms"
proof -
  have "length (str_nat (length (json_body j))) \<le> 4300"
    using length_str_nat [of "length (json_body j)"] assms(2) by (simp add: MAX_BODY_BYTES_def)
  moreover have "exact_json_object (json_body j) keys = Inr ms"
    using body_decode [OF assms(1)] body_distinct [OF assms(1)] assms(3,4) by (simp add: exact_json_object_def)
  ultimately show ?thesis
    using assms(2)
    by (simp add: read_json_def client_request_def client_header_values version_part_str parse_str_nat)
qed

chapter \<open>The channel\<close>

text \<open>
  The channel between the update pages and the manager: the client reads every document that
  the server writes of a view, and an operation that is asked over the line is seen as it ended.
\<close>

section \<open>The documents of the server are read by the client\<close>

text \<open>What the client shows of a view.\<close>

definition shown_task :: "task_view \<Rightarrow> client_task" where
  "shown_task v = \<lparr>ct_id = tv_id v, ct_from_version = tv_from_version v, ct_to_version = tv_to_version v,
     ct_stage = stage_value (tv_stage v), ct_created_at = tv_created_at v, ct_started_at = tv_started_at v,
     ct_finished_at = tv_finished_at v, ct_backup_complete = tv_backup_complete v,
     ct_rolled_back = tv_rolled_back v, ct_cleanup = cleanup_value (tv_cleanup v),
     ct_error_code = tv_error_code v, ct_error_message = tv_error_message v\<rparr>"

definition shown_status :: "status_view \<Rightarrow> client_status" where
  "shown_status v = \<lparr>cs_current_version = sv_current_version v,
     cs_current_published_at = sv_current_published_at v, cs_latest_version = sv_latest_version v,
     cs_latest_published_at = sv_latest_published_at v, cs_update_available = sv_update_available v,
     cs_checked_at = sv_checked_at v, cs_task = map_option shown_task (sv_task v)\<rparr>"

text \<open>
  A view as the manager builds it, apart from its times; the times that a Python datetime
  can hold.
\<close>

definition task_view_ok :: "task_view \<Rightarrow> bool" where
  "task_view_ok v \<longleftrightarrow> version_ok (tv_from_version v) \<and> version_ok (tv_to_version v)
     \<and> map_of public_error_messages (tv_error_code v) = Some (tv_error_message v)"

definition status_view_ok :: "status_view \<Rightarrow> bool" where
  "status_view_ok v \<longleftrightarrow> version_ok (sv_current_version v)
     \<and> (\<forall>x. sv_latest_version v = Some x \<longrightarrow> version_ok x) \<and> (\<forall>t. sv_task v = Some t \<longrightarrow> task_view_ok t)"

definition task_times :: "task_view \<Rightarrow> bool" where
  "task_times v \<longleftrightarrow> valid_instant (tv_created_at v) \<and> valid_time (tv_started_at v) \<and> valid_time (tv_finished_at v)"

definition status_times :: "status_view \<Rightarrow> bool" where
  "status_times v \<longleftrightarrow> valid_time (sv_current_published_at v) \<and> valid_time (sv_latest_published_at v)
     \<and> valid_time (sv_checked_at v) \<and> (\<forall>t. sv_task v = Some t \<longrightarrow> task_times t)"

lemma version_plain: "version_ok v \<Longrightarrow> plain_text v"
  by (fastforce simp: list_all_iff scalar_def dest: version_text)

lemma message_plain: "map_of public_error_messages k = Some m \<Longrightarrow> plain_text k \<and> plain_text m"
  by (drule map_of_SomeD) (auto simp: public_error_messages_def scalar_def lit_def)

lemma fine_task_view: "task_view_ok v \<Longrightarrow> fine_json (task_view_to_dict v)"
  using message_plain [of "tv_error_code v"]
  by (simp add: task_view_to_dict_def task_view_ok_def version_plain)

lemma fine_status_view: "status_view_ok v \<Longrightarrow> fine_json (status_view_to_dict v)"
  by (simp add: status_view_to_dict_def status_view_ok_def version_plain fine_task_view split: option.split)

text \<open>The timestamps.\<close>

definition template :: "nat \<Rightarrow> nat \<Rightarrow> bool" where
  "template p c \<longleftrightarrow> (if p = 48 then is_digit c else c = p)"

lemma template_digits: "list_all2 template (replicate k 48) (fixed_digits k n)"
proof -
  have "is_digit c" if "c \<in> set (fixed_digits k n)" for c
    using fixed_digits_chars [OF that] by (simp add: is_digit_def)
  then show ?thesis by (simp add: list_all2_conv_all_nth template_def)
qed

lemma iso_utc_parts:
  "\<exists>y m dd h mi s f. iso_utc t =
     (fixed_digits 4 y @ 45 # fixed_digits 2 m @ 45 # fixed_digits 2 dd @ 84 #
      fixed_digits 2 h @ 58 # fixed_digits 2 mi @ 58 # fixed_digits 2 s)
     @ (f @ lit ''+00:00'') \<and> (f = [] \<or> (\<exists>k. f = 46 # fixed_digits 6 k))"
proof -
  obtain y m dd where day: "ord_ymd (t div us_per_day + 719163) = (y, m, dd)"
    by (cases "ord_ymd (t div us_per_day + 719163)")
  define us where "us = t mod us_per_day"
  have "iso_utc t =
     (fixed_digits 4 (nat y) @ 45 # fixed_digits 2 (nat m) @ 45 # fixed_digits 2 (nat dd) @ 84 #
      fixed_digits 2 (nat (us div 1000000 div 3600)) @ 58 # fixed_digits 2 (nat (us div 1000000 div 60 mod 60))
      @ 58 # fixed_digits 2 (nat (us div 1000000 mod 60)))
     @ ((if us mod 1000000 = 0 then [] else 46 # fixed_digits 6 (nat (us mod 1000000))) @ lit ''+00:00'')"
    unfolding iso_utc_def iso_date_def iso_clock_def Let_def day us_def by simp
  then show ?thesis by (intro exI conjI) (assumption, auto)
qed

lemma iso_utc_shape: "utc_timestamp_ok (iso_utc t)"
proof -
  obtain y m dd h mi s f where iso: "iso_utc t =
      (fixed_digits 4 y @ 45 # fixed_digits 2 m @ 45 # fixed_digits 2 dd @ 84 #
       fixed_digits 2 h @ 58 # fixed_digits 2 mi @ 58 # fixed_digits 2 s) @ (f @ lit ''+00:00'')"
    and f: "f = [] \<or> (\<exists>k. f = 46 # fixed_digits 6 k)"
    using iso_utc_parts by blast
  let ?p = "fixed_digits 4 y @ 45 # fixed_digits 2 m @ 45 # fixed_digits 2 dd @ 84 #
       fixed_digits 2 h @ 58 # fixed_digits 2 mi @ 58 # fixed_digits 2 s"
  have len: "length ?p = 19" by (simp del: fixed_digits.simps)
  have parts: "take 19 (iso_utc t) = ?p" "drop 19 (iso_utc t) = f @ lit ''+00:00''"
    unfolding iso using len by (simp_all only: take_append drop_append) (simp_all del: fixed_digits.simps)
  have "lit ''0000-00-00T00:00:00'' = replicate 4 48 @ 45 # replicate 2 48 @ 45 # replicate 2 48 @ 84 #
      replicate 2 48 @ 58 # replicate 2 48 @ 58 # replicate 2 48"
    by (simp add: lit_def eval_nat_numeral)
  moreover have "list_all2 template (replicate 4 48 @ 45 # replicate 2 48 @ 45 # replicate 2 48 @ 84 #
      replicate 2 48 @ 58 # replicate 2 48 @ 58 # replicate 2 48) ?p"
    using template_digits
    by (intro list_all2_appendI list_all2_Cons [THEN iffD2] conjI) (simp_all add: template_def)
  ultimately have shape: "list_all2 template (lit ''0000-00-00T00:00:00'') ?p" by simp
  have six: "length (lit ''+00:00'') = 6" by (simp add: lit_def)
  have "is_digit c" if "c \<in> set (fixed_digits 6 k)" for c k
    using fixed_digits_chars [OF that] by (simp add: is_digit_def)
  then have "f = [] \<or> hd f = 46 \<and> 1 \<le> length (tl f) \<and> length (tl f) \<le> 6 \<and> list_all is_digit (tl f)"
    using f by (auto simp: list_all_iff simp del: fixed_digits.simps)
  then show ?thesis
    using shape six unfolding utc_timestamp_ok_def parts template_def [abs_def] Let_def by simp
qed

lemma timestamp_read:
  "valid_instant x \<Longrightarrow> require_timestamp n (datetime_to_dict (Some x)) = Some (Some x)"
  "valid_time t \<Longrightarrow> require_timestamp True (datetime_to_dict t) = Some t"
  by (auto simp: require_timestamp_def datetime_to_dict_def iso_utc_shape parse_iso_utc valid_time_def
      split: option.split)

lemma client_table: "client_error_messages = public_error_messages"
  by (simp add: client_error_messages_def public_error_messages_def)

lemma shown_values: "stage_value g \<in> set STAGES" "cleanup_value c \<in> set CLEANUP_STATUSES"
  by (cases g; simp add: STAGES_def) (cases c; simp add: CLEANUP_STATUSES_def)

lemma id_read: "task_id_value (JStr (uuid_str i)) = Some i"
  by (simp add: task_id_value_def parse_uuid_str)

lemma version_read: "version_ok v \<Longrightarrow> require_version (JStr v) = Some v"
  by (simp add: require_version_def)

lemma task_view_members:
  "exact_object (task_view_to_dict v) TASK_FIELDS =
     Some (case task_view_to_dict v of JObj ms \<Rightarrow> ms)"
  by (simp add: exact_object_def task_view_to_dict_def TASK_FIELDS_def)

lemma task_view_read:
  assumes "task_view_ok v" "task_times v"
  shows "parse_task (task_view_to_dict v) = Some (shown_task v)"
proof -
  have ok: "version_ok (tv_from_version v)" "version_ok (tv_to_version v)"
    "map_of client_error_messages (tv_error_code v) = Some (tv_error_message v)"
    "valid_instant (tv_created_at v)" "valid_time (tv_started_at v)" "valid_time (tv_finished_at v)"
    using assms by (simp_all add: task_view_ok_def task_times_def client_table)
  show ?thesis
    unfolding parse_task_def task_view_members
    by (simp add: task_view_to_dict_def field_def id_read version_read timestamp_read shown_values ok
        shown_task_def)
qed

lemma status_view_members:
  "exact_object (status_view_to_dict v) STATUS_FIELDS =
     Some (case status_view_to_dict v of JObj ms \<Rightarrow> ms)"
  by (simp add: exact_object_def status_view_to_dict_def STATUS_FIELDS_def)

lemma task_view_present: "task_view_to_dict t \<noteq> JNull"
  by (simp add: task_view_to_dict_def)

lemma status_view_read:
  assumes "status_view_ok v" "status_times v"
  shows "parse_status (status_view_to_dict v) = Some (shown_status v)"
proof -
  have latest: "if_present require_version (case sv_latest_version v of None \<Rightarrow> JNull | Some x \<Rightarrow> JStr x)
      = Some (sv_latest_version v)"
    using assms(1) by (simp add: if_present_def status_view_ok_def version_read split: option.split)
  have task: "if_present parse_task (case sv_task v of None \<Rightarrow> JNull | Some t \<Rightarrow> task_view_to_dict t)
      = Some (map_option shown_task (sv_task v))"
    using assms
    by (simp add: if_present_def status_view_ok_def status_times_def task_view_present task_view_read
        split: option.split)
  have ok: "version_ok (sv_current_version v)" "valid_time (sv_current_published_at v)"
    "valid_time (sv_latest_published_at v)" "valid_time (sv_checked_at v)"
    using assms by (simp_all add: status_view_ok_def status_times_def)
  show ?thesis
    unfolding parse_status_def status_view_members
    by (simp add: status_view_to_dict_def field_def latest task version_read timestamp_read ok shown_status_def)
qed

section \<open>The views of the manager\<close>

lemma public_view_ok: "public_view t = Inr v \<Longrightarrow> task_view_ok v"
proof -
  assume a: "public_view t = Inr v"
  have v: "tv_error_code v = fst (public_error (ut_error_code t))"
    "tv_error_message v = snd (public_error (ut_error_code t))"
    "version_ok (tv_from_version v)" "version_ok (tv_to_version v)"
    using a by (auto simp: public_view_def bindE_Inr_iff validate_version_def split: if_splits)
  have "map_of public_error_messages (fst (public_error c)) = Some (snd (public_error c))" for c
    by (cases "map_of public_error_messages c") (simp_all add: public_error_def, simp add: public_error_messages_def)
  then show ?thesis using v by (simp add: task_view_ok_def)
qed

lemma public_view_version: "public_view t = Inr v \<Longrightarrow> tv_id v = ut_id t \<and> tv_to_version v = im_version (ut_target t)"
  by (auto simp: public_view_def bindE_Inr_iff validate_version_def split: if_splits)

lemma map_sum_some: "map_sum id Some r = Inr y \<longleftrightarrow> (\<exists>x. r = Inr x \<and> y = Some x)"
  by (cases r) auto

lemma make_view_ok:
  assumes "bindE (case x of None \<Rightarrow> Inr None | Some t \<Rightarrow> map_sum id Some (public_view t)) (\<lambda>tv.
     make_status_view (f tv)) = Inr v" "\<And>tv. sv_task (f tv) = tv"
  shows "status_view_ok v"
proof -
  obtain tv where tv: "(case x of None \<Rightarrow> Inr None | Some t \<Rightarrow> map_sum id Some (public_view t)) = Inr tv"
    "make_status_view (f tv) = Inr v"
    using assms(1) by (auto simp: bindE_Inr_iff)
  have "task_view_ok t" if "tv = Some t" for t
    using tv(1) that public_view_ok by (auto simp: map_sum_some split: option.splits)
  then show ?thesis
    using tv(2) assms(2)
    by (auto simp: make_status_view_def bindE_Inr_iff validate_version_def status_view_ok_def
        split: option.splits if_splits)
qed

lemma status_from_ok: "status_from_state p s = (Inr v, s') \<Longrightarrow> status_view_ok v"
proof (cases "ps_last_check p")
  case (Some c)
  assume "status_from_state p s = (Inr v, s')"
  then show ?thesis
    unfolding status_from_state_def Some option.case lift_Inr
    by (elim conjE) (rule make_view_ok, assumption, simp)
qed (simp add: status_from_state_def conflict_Inr)

lemma status_ok: "status E s = (Inr v, s') \<Longrightarrow> status_view_ok v"
  unfolding status_def
  by (auto simp: run_Inr split: if_splits dest!: make_view_ok status_from_ok)

lemma check_ok: "check E s = (Inr v, s') \<Longrightarrow> status_view_ok v"
  unfolding check_def Let_def by (auto simp: run_Inr dest!: status_from_ok)

lemma fresh_version: "require_fresh_check E lc v s = (Inr c, s') \<Longrightarrow> im_version (ck_target c) = v"
  by (auto simp: require_fresh_check_def require_matching_repositories_def run_Inr
      split: option.splits if_splits)

lemma start_new_task:
  assumes "start_new E p v i s = (Inr (t, job), s')"
  shows "task_view_ok t \<and> tv_id t = i \<and> tv_to_version t = v"
  using assms
  by (auto simp: start_new_def Let_def run_Inr new_task_def public_view_ok
      split: if_splits dest!: fresh_version dest: public_view_version)

lemma start_task:
  assumes "start E v (Some i) fresh s = (Inr (t, job), s')"
  shows "task_view_ok t \<and> tv_id t = i \<and> tv_to_version t = v"
  using assms
  by (auto simp: start_def run_Inr public_view_ok split: option.splits if_splits
      dest: start_new_task public_view_version)

lemma on_manager_Inr:
  "on_manager m s = (Inr x, s') \<longleftrightarrow>
     (\<exists>t. m (sr_manager s) = (Inr x, t) \<and> s' = s\<lparr>sr_manager := t\<rparr>)"
  by (auto simp: on_manager_def zoom_def split: prod.splits)

lemma runner_start_task:
  assumes "runner_start E v i s = (Inr t, s')" "\<forall>t. sr_task s = Some t \<longrightarrow> task_view_ok t"
  shows "task_view_ok t \<and> tv_id t = i \<and> tv_to_version t = v"
proof -
  have new: "task_view_ok t \<and> tv_id t = i \<and> tv_to_version t = v"
    if "runner_new E v i s1 = (Inr t, s')" "sr_task s1 = sr_task s" for s1
    using that assms(2)
    by (auto simp: runner_new_def run_Inr on_manager_Inr split: if_splits option.splits dest: start_task)
  show ?thesis
    using assms(1) new
    by (fastforce simp: runner_start_def run_Inr on_manager_Inr status_view_ok_def
        split: option.splits if_splits dest: status_ok)
qed

section \<open>The client sees the manager\<close>

text \<open>
  The answer of an operation of the server as the client has to see it: a conflict and every
  other exception under their codes, and a document that the server does not send because it is
  too long as an unavailable service.
\<close>

definition seen :: "('a \<Rightarrow> 'b) \<Rightarrow> ('a \<Rightarrow> json) \<Rightarrow> ('s server, uexn, 'a) eff \<Rightarrow> ('s server, pystr, 'b) eff" where
  "seen f doc m s =
     (case m s of
        (Inr v, s') \<Rightarrow>
          (if MAX_RESPONSE_BYTES < length (json_body (doc v)) then Inl (lit ''service_unavailable'')
           else Inr (f v), s')
      | (Inl (UpdateConflict c), s') \<Rightarrow> (Inl (lit ''update_conflict''), s')
      | (Inl e, s') \<Rightarrow> (Inl (lit ''service_unavailable''), s'))"

lemma error_document_size:
  assumes "printable (lit code)" "printable (lit message)"
  shows "length (json_body (error_document code message)) \<le> length code + length message + 40"
proof -
  have p: "printable (lit ''error'')" "printable (lit ''code'')" "printable (lit ''message'')"
    by (simp_all add: printable_lit)
  have "fine_json (error_document code message)"
    using assms by (simp add: error_document_def printable_plain)
  then show ?thesis
    using assms p
    by (simp add: json_body_text) (simp add: error_document_def json_string_printable lit_def)
qed

lemma error_reply: "c \<in> {400, 401, 404, 405, 409, 503} \<Longrightarrow> rp_status (respond_error c) = c"
  using error_document_size [of "''invalid_request''" "''Invalid request.''"]
    error_document_size [of "''unauthorized''" "''Unauthorized.''"]
    error_document_size [of "''not_found''" "''Not found.''"]
    error_document_size [of "''method_not_allowed''" "''Method not allowed.''"]
    error_document_size [of "''update_conflict''" "''Update unavailable.''"]
  by (auto simp: respond_error_def respond_def ERROR_DOCUMENTS_def reply_with_def printable_lit
      MAX_RESPONSE_BYTES_def)

lemma respond_too_long: "MAX_RESPONSE_BYTES < length (json_body j) \<Longrightarrow> rp_status (respond code j) = 503"
  by (simp add: respond_def reply_with_def)

lemma send_reply:
  assumes "good_token token"
    and "dispatch E token (client_request token verb path body) s = (p, s')"
  shows "send_request (to_server E token pieces) token verb path body expected s =
     (case deliver pieces p of
        StatusError c \<Rightarrow> (Inl (status_error_code c), s')
      | Connected r \<Rightarrow> (if rs_status r \<noteq> expected then Inl unexpected_response else read_response r, s')
      | _ \<Rightarrow> (Inl network_error, s'))"
  using assms client_sendable [OF assms(1), of verb path body]
  by (simp add: send_request_def to_server_def deliver_def)

lemma send_document:
  assumes "good_token token" "sound_pieces pieces" "fine_json j" "code \<in> {200, 202}"
    and "dispatch E token (client_request token verb path body) s = (respond code j, s')"
  shows "send_request (to_server E token pieces) token verb path body code s =
     (if MAX_RESPONSE_BYTES < length (json_body j) then Inl (lit ''service_unavailable'') else Inr j, s')"
proof (cases "MAX_RESPONSE_BYTES < length (json_body j)")
  case True
  then have "deliver pieces (respond code j) = StatusError 503"
    using respond_too_long [OF True] by (simp add: deliver_def)
  then show ?thesis
    using send_reply [OF assms(1,5)] True by (simp add: status_error_code_def)
next
  case False
  then have rep: "respond code j = reply_with code (json_body j)" by (simp add: respond_def)
  then obtain r where r: "deliver pieces (respond code j) = Connected r"
    using assms(4) by (auto simp: deliver_def reply_with_def)
  have "length (json_body j) \<le> client_max_bytes"
    using False by (simp add: client_max_bytes_def MAX_RESPONSE_BYTES_def)
  from read_delivered [OF assms(2,3) this r [unfolded rep]]
  show ?thesis using send_reply [OF assms(1,5)] r False by simp
qed

lemma send_error:
  assumes "good_token token" "c \<in> {400, 401, 404, 405, 409, 503}"
    and "dispatch E token (client_request token verb path body) s = (respond_error c, s')"
  shows "send_request (to_server E token pieces) token verb path body code s =
     (Inl (status_error_code c), s')"
  using send_reply [OF assms(1,3)] error_reply [OF assms(2)] assms(2) by (auto simp: deliver_def)

text \<open>A route whose operation is \<open>m\<close>, read by a parser that understands its documents.\<close>

lemma route_seen:
  fixes m :: "('s server, uexn, 'a) eff"
  assumes "good_token token" "sound_pieces pieces" "code \<in> {200, 202}"
    and "dispatch E token (client_request token verb path body) s
      = run_route (bindM (raised m) (\<lambda>v. retM (respond code (doc v)))) s"
    and "\<And>v s'. m s = (Inr v, s') \<Longrightarrow> fine_json (doc v) \<and> parser (doc v) = Some (f v)"
  shows "parse_response parser (send_request (to_server E token pieces) token verb path body code) s
     = seen f doc m s"
proof (cases "m s")
  case (Pair r s')
  show ?thesis
  proof (cases r)
    case (Inr v)
    then have v: "m s = (Inr v, s')" using Pair by simp
    then have "dispatch E token (client_request token verb path body) s = (respond code (doc v), s')"
      by (simp add: assms(4) run_route_def bindM_def raised_def retM_def)
    from send_document [OF assms(1,2) _ assms(3) this] assms(5) [OF v]
    show ?thesis by (simp add: parse_response_def bindM_def retM_def seen_def v)
  next
    case (Inl e)
    then have e: "m s = (Inl e, s')" using Pair by simp
    have "exception_status (Raised e) \<in> {400, 401, 404, 405, 409, 503}" by (cases e) simp_all
    moreover have "dispatch E token (client_request token verb path body) s
        = (respond_error (exception_status (Raised e)), s')"
      by (simp add: assms(4) run_route_def bindM_def raised_def e)
    ultimately have "send_request (to_server E token pieces) token verb path body code s
        = (Inl (status_error_code (exception_status (Raised e))), s')"
      using send_error [OF assms(1)] by blast
    then show ?thesis
      by (cases e) (simp_all add: parse_response_def bindM_def seen_def e status_error_code_def)
  qed
qed

end
