(* ===== verification/Update_Properties.thy ===== *)
theory Update_Properties
  imports Update_Channel
begin

text \<open>
  What a user of the update pages may rely on: the client sees what the manager answers, a
  request without the token changes nothing, an accepted start is the task that the updater
  has stored, and every start is audited once, and so is its end.
\<close>

section \<open>The client sees the manager\<close>

lemma uuid_printable: "printable (uuid_str i)"
  by (fastforce simp: printable_def list_all_iff dest: uuid_chars)

lemma version_printable: "version_ok v \<Longrightarrow> printable v"
  by (fastforce simp: printable_def list_all_iff dest: version_text)

definition start_document :: "pystr \<Rightarrow> uuid \<Rightarrow> json" where
  "start_document v i = JObj [(lit ''target_version'', JStr v), (lit ''task_id'', JStr (uuid_str i))]"

lemma start_document_fine: "version_ok v \<Longrightarrow> fine_json (start_document v i)"
  by (simp add: start_document_def version_plain)

lemma start_document_size:
  assumes "version_ok v"
  shows "length (json_body (start_document v i)) \<le> length v + 90"
proof -
  have p: "printable (lit ''target_version'')" "printable (lit ''task_id'')"
    by (simp_all add: printable_lit)
  show ?thesis
    using p version_printable [OF assms] uuid_printable [of i]
    by (simp add: json_body_text [OF start_document_fine [OF assms]])
      (simp add: start_document_def json_string_printable length_uuid lit_def)
qed

lemma start_document_short:
  "version_ok v \<Longrightarrow> length v \<le> 32 \<Longrightarrow> length (json_body (start_document v i)) \<le> MAX_BODY_BYTES"
  using start_document_size [of v i] by (simp add: MAX_BODY_BYTES_def)

lemma dispatch_status:
  assumes "good_token token"
  shows "dispatch E token (client_request token ''GET'' ''/v1/status'' None) s =
     run_route (bindM (raised (on_manager (status E))) (\<lambda>v. retM (respond 200 (status_view_to_dict v)))) s"
proof -
  have "is_authorized token (client_request token ''GET'' ''/v1/status'' None)"
    using assms by (intro client_authorized) (simp add: good_token_def is_valid_configuration_def)
  then show ?thesis
    by (simp add: dispatch_def client_request_def handle_status_def)
qed

lemma dispatch_check:
  assumes "good_token token"
  shows "dispatch E token (client_request token ''POST'' ''/v1/check'' (Some (JObj []))) s =
     run_route (bindM (raised (on_manager (check E))) (\<lambda>v. retM (respond 200 (status_view_to_dict v)))) s"
proof -
  let ?r = "client_request token ''POST'' ''/v1/check'' (Some (JObj []))"
  have auth: "is_authorized token ?r"
    using assms by (intro client_authorized) (simp add: good_token_def is_valid_configuration_def)
  have "length (json_body (JObj [])) \<le> MAX_BODY_BYTES"
    by (simp add: json_body_text MAX_BODY_BYTES_def)
  then have "read_json ?r [] = Inr []" by (intro client_body) simp_all
  then have "run_route (handle_check E ?r) s =
     run_route (bindM (raised (on_manager (check E))) (\<lambda>v. retM (respond 200 (status_view_to_dict v)))) s"
    by (simp add: run_route_def handle_check_def thenM_def bindM_def liftM_def)
  moreover have "rq_method ?r = lit ''POST''" "rq_path ?r = lit ''/v1/check''"
    by (simp_all add: client_request_def Let_def)
  ultimately show ?thesis using auth by (simp add: dispatch_def)
qed

lemma dispatch_start:
  assumes "good_token token" "version_ok v" "length v \<le> 32"
  shows "dispatch E token (client_request token ''POST'' ''/v1/update'' (Some (start_document v i))) s =
     run_route (bindM (raised (runner_start E v i)) (\<lambda>t. retM (respond 202 (task_view_to_dict t)))) s"
proof -
  let ?r = "client_request token ''POST'' ''/v1/update'' (Some (start_document v i))"
  let ?ms = "[(lit ''target_version'', JStr v), (lit ''task_id'', JStr (uuid_str i))]"
  have auth: "is_authorized token ?r"
    using assms by (intro client_authorized) (simp add: good_token_def is_valid_configuration_def)
  have "read_json ?r [lit ''target_version'', lit ''task_id''] = Inr ?ms"
    by (rule client_body [OF start_document_fine [OF assms(2)] start_document_short [OF assms(2) assms(3)] start_document_def])
      simp
  moreover have "start_fields ?ms = Inr (v, i)"
    using assms(2) by (simp add: start_fields_def field_def parse_uuid_str)
  ultimately have "run_route (handle_start E ?r) s =
     run_route (bindM (raised (runner_start E v i)) (\<lambda>t. retM (respond 202 (task_view_to_dict t)))) s"
    by (simp add: run_route_def handle_start_def bindM_def liftM_def bindE_def)
  moreover have "rq_method ?r = lit ''POST''" "rq_path ?r = lit ''/v1/update''"
    by (simp_all add: client_request_def Let_def)
  ultimately show ?thesis using auth by (simp add: dispatch_def)
qed

lemma status_view_seen:
  assumes "status_view_ok x" "status_times x"
  shows "fine_json (status_view_to_dict x) \<and> parse_status (status_view_to_dict x) = Some (shown_status x)"
  using assms fine_status_view status_view_read by blast

lemma status_seen:
  assumes "good_token token" "sound_pieces pieces"
    and "\<forall>x. fst (on_manager (status E) s) = Inr x \<longrightarrow> status_times x"
  shows "client_status_call (to_server E token pieces) token s
       = seen shown_status status_view_to_dict (on_manager (status E)) s"
  unfolding client_status_call_def
proof (rule route_seen [OF assms(1,2) _ dispatch_status [OF assms(1)]])
  fix x s'
  assume run: "on_manager (status E) s = (Inr x, s')"
  show "fine_json (status_view_to_dict x) \<and> parse_status (status_view_to_dict x) = Some (shown_status x)"
  proof (rule status_view_seen)
    show "status_times x" using run assms(3) by simp
    show "status_view_ok x" using run by (auto simp: on_manager_Inr dest: status_ok)
  qed
qed simp

lemma check_seen:
  assumes "good_token token" "sound_pieces pieces"
    and "\<forall>x. fst (on_manager (check E) s) = Inr x \<longrightarrow> status_times x"
  shows "client_check_call (to_server E token pieces) token s
       = seen shown_status status_view_to_dict (on_manager (check E)) s"
  unfolding client_check_call_def
proof (rule route_seen [OF assms(1,2) _ dispatch_check [OF assms(1)]])
  fix x s'
  assume run: "on_manager (check E) s = (Inr x, s')"
  show "fine_json (status_view_to_dict x) \<and> parse_status (status_view_to_dict x) = Some (shown_status x)"
  proof (rule status_view_seen)
    show "status_times x" using run assms(3) by simp
    show "status_view_ok x" using run by (auto simp: on_manager_Inr dest: check_ok)
  qed
qed simp

lemma start_seen:
  assumes "good_token token" "sound_pieces pieces" "version_ok v" "length v \<le> 32"
    and "\<forall>t. fst (runner_start E v i s) = Inr t \<longrightarrow> task_times t"
    and "\<forall>t. sr_task s = Some t \<longrightarrow> task_view_ok t"
  shows "client_start_call (to_server E token pieces) token v i s
       = seen shown_task task_view_to_dict (runner_start E v i) s"
proof -
  have sent: "parse_response parse_task (send_request (to_server E token pieces) token ''POST'' ''/v1/update''
        (Some (start_document v i)) 202) s
       = seen shown_task task_view_to_dict (runner_start E v i) s" (is "?sent = _")
  proof (rule route_seen [OF assms(1,2) _ dispatch_start [OF assms(1,3,4)]])
    fix t s'
    assume run: "runner_start E v i s = (Inr t, s')"
    then show "fine_json (task_view_to_dict t) \<and> parse_task (task_view_to_dict t) = Some (shown_task t)"
      using runner_start_task [OF run assms(6)] assms(5) fine_task_view task_view_read by simp
  qed simp
  moreover have "(case ?sent of (Inr t, s') \<Rightarrow> ct_id t = i \<and> ct_to_version t = v | _ \<Rightarrow> True)"
    using runner_start_task [of E v i s] assms(6)
    by (auto simp: sent seen_def shown_task_def split: prod.splits sum.splits uexn.splits)
  ultimately show ?thesis
    using assms(3)
    by (auto simp: client_start_call_def bindM_def retM_def start_document_def split: prod.splits sum.splits)
qed

text \<open>
  C36. The client returns exactly what the manager behind the server answers, however the
  replies are cut into chunks: the view of a status, of a check or of a started task with every
  field, a conflict and every other failure under their codes, and it leaves the server in the
  state in which the operation left it.
\<close>

theorem client_sees_manager:
  assumes "good_token token" "sound_pieces pieces"
    and "\<forall>x. fst (on_manager (status E) s) = Inr x \<longrightarrow> status_times x"
    and "\<forall>x. fst (on_manager (check E) s) = Inr x \<longrightarrow> status_times x"
    and "\<forall>t. fst (runner_start E v i s) = Inr t \<longrightarrow> task_times t"
    and "\<forall>t. sr_task s = Some t \<longrightarrow> task_view_ok t" "version_ok v" "length v \<le> 32"
  shows "client_status_call (to_server E token pieces) token s
       = seen shown_status status_view_to_dict (on_manager (status E)) s
     \<and> client_check_call (to_server E token pieces) token s
       = seen shown_status status_view_to_dict (on_manager (check E)) s
     \<and> client_start_call (to_server E token pieces) token v i s
       = seen shown_task task_view_to_dict (runner_start E v i) s"
  by (intro conjI status_seen [OF assms(1-3)] check_seen [OF assms(1,2,4)]
      start_seen [OF assms(1,2,7,8,5,6)])

section \<open>The token\<close>

text \<open>
  C37. The server acts only for a request that carries the token, once and exactly: any other
  request leaves its state alone, and the only answer of success that it gets is the one of
  the health check.
\<close>

theorem token_guards:
  "(is_authorized token r \<longleftrightarrow>
      encodable token \<and> header_values (rq_headers r) ''authorization'' = [lit ''Bearer '' @ token])
   \<and> (\<not> is_authorized token r \<longrightarrow>
       snd (dispatch E token r s) = s
       \<and> (rp_status (fst (dispatch E token r s)) < 300 \<longrightarrow>
            rq_path r = lit ''/health'' \<and> rq_method r = lit ''GET''))"
proof -
  have "is_authorized token r \<longleftrightarrow>
      encodable token \<and> header_values (rq_headers r) ''authorization'' = [lit ''Bearer '' @ token]"
    by (auto simp: is_authorized_def authorize_iff split: list.splits)
  moreover have "rp_status (respond_error 401) = 401" "rp_status (respond_error 405) = 405"
    by (simp_all add: error_reply)
  ultimately show ?thesis by (auto simp: dispatch_def)
qed

section \<open>Runs of the server\<close>

text \<open>An effect that keeps a property of the state, however it ends.\<close>

definition keeps :: "('s \<Rightarrow> bool) \<Rightarrow> ('s, 'e, 'a) eff \<Rightarrow> bool" where
  "keeps P m \<longleftrightarrow> (\<forall>s. P s \<longrightarrow> P (snd (m s)))"

lemma keeps_basic:
  "keeps P (retM x)" "keeps P (raiseM e)" "keeps P (liftM r)" "keeps P (readM f)" "keeps P (conflict c)"
  by (simp_all add: keeps_def retM_def raiseM_def liftM_def readM_def conflict_def)

lemma keeps_bind: "keeps P m \<Longrightarrow> (\<And>x. keeps P (f x)) \<Longrightarrow> keeps P (bindM m f)"
  by (auto simp: keeps_def bindM_def split: prod.splits sum.splits)

lemma keeps_then: "keeps P m \<Longrightarrow> keeps P n \<Longrightarrow> keeps P (thenM m n)"
  by (simp add: thenM_def keeps_bind)

text \<open>The stored task, which only a save with another task changes.\<close>

definition stored :: "update_task option \<Rightarrow> 'w machine \<Rightarrow> bool" where
  "stored t m \<longleftrightarrow> ps_task (mc_state m) = t"

lemma keeps_load:
  "(\<And>p. ps_task p = t \<Longrightarrow> keeps (stored t) (f p)) \<Longrightarrow> keeps (stored t) (bindM (env_load (machine_env O1)) f)"
  by (auto simp: keeps_def bindM_def machine_env_def readM_def stored_def)

lemma keeps_save: "ps_task p = t \<Longrightarrow> keeps (stored t) (env_save (machine_env O1) p)"
  by (auto simp: keeps_def machine_env_def machine_save_def stored_def)

lemma keeps_platform:
  "keeps (stored t) (env_inspect_web (machine_env O1))" "keeps (stored t) (env_resolve_stable (machine_env O1))"
  "keeps (stored t) (env_now (machine_env O1))"
  by (auto simp: keeps_def machine_env_def on_platform_def on_world_def stored_def split: prod.splits)

lemma keeps_status: "keeps (stored t) (status (machine_env O1))"
  unfolding status_def status_from_state_def
  by (intro keeps_load) (auto intro!: keeps_basic keeps_bind keeps_platform split: option.split)

lemma keeps_check: "keeps (stored t) (check (machine_env O1))"
  unfolding check_def status_from_state_def reject_active_task_def require_matching_repositories_def Let_def
  by (intro keeps_load keeps_then keeps_bind keeps_platform keeps_save)
    (auto intro!: keeps_basic split: option.split)

text \<open>The task that the manager has stored is the task \<open>i\<close> with the target \<open>v\<close>.\<close>

definition task_stored :: "uuid \<Rightarrow> pystr \<Rightarrow> 'w machine server \<Rightarrow> bool" where
  "task_stored i v s \<longleftrightarrow>
     (\<exists>p. ps_task (mc_state (sr_manager s)) = Some p \<and> ut_id p = i \<and> im_version (ut_target p) = v)"

text \<open>A thread that is alive works on the stored task, and the task of the runner can be shown.\<close>

definition runner_ok :: "'w machine server \<Rightarrow> bool" where
  "runner_ok s \<longleftrightarrow> (\<forall>t. sr_task s = Some t \<longrightarrow> task_view_ok t)
     \<and> (sr_worker s \<noteq> None \<longrightarrow>
          (\<exists>t. sr_task s = Some t \<and> task_stored (tv_id t) (tv_to_version t) s))"

lemma runner_ok_cong:
  "runner_ok s \<Longrightarrow> stored (ps_task (mc_state (sr_manager s))) m \<Longrightarrow> runner_ok (s\<lparr>sr_manager := m\<rparr>)"
  by (simp add: runner_ok_def task_stored_def stored_def)

lemma on_manager_keeps:
  assumes "\<And>t. keeps (stored t) m" "runner_ok s"
  shows "runner_ok (snd (on_manager m s))"
proof -
  obtain r m' where m: "m (sr_manager s) = (r, m')" by fastforce
  have "stored (ps_task (mc_state (sr_manager s))) m'"
    using assms(1) [of "ps_task (mc_state (sr_manager s))"] m unfolding keeps_def stored_def by (metis snd_conv)
  then show ?thesis using runner_ok_cong [OF assms(2)] m by (simp add: on_manager_def zoom_def)
qed

lemma start_stored:
  assumes "start (machine_env O1) v (Some i) fresh m = (Inr (t, job), m')"
  shows "\<exists>p. ps_task (mc_state m') = Some p \<and> ut_id p = i \<and> im_version (ut_target p) = v
     \<and> tv_id t = i \<and> tv_to_version t = v \<and> (ps_task (mc_state m) = Some p \<or> job = Some i)"
  using assms start_task [OF assms]
  by (auto simp: start_def run_Inr new_task_def split: option.splits if_splits
      dest!: start_new_Inr)

lemma status_stored:
  assumes "status (machine_env O1) m = (Inr x, m')" "sv_task x = Some t"
  shows "\<exists>p. ps_task (mc_state m') = Some p \<and> ps_task (mc_state m) = Some p \<and> ut_id p = tv_id t
     \<and> im_version (ut_target p) = tv_to_version t \<and> public_view p = Inr t"
proof -
  have "stored (ps_task (mc_state m)) m'"
    using keeps_status [of "ps_task (mc_state m)" O1] assms(1) unfolding keeps_def stored_def by (metis snd_conv)
  moreover have "\<exists>p. ps_task (mc_state m) = Some p \<and> public_view p = Inr t"
    using assms
    by (auto simp: status_def status_from_state_def run_Inr machine_env_def bindE_Inr_iff make_status_view_def
        map_sum_some split: option.splits if_splits)
  ultimately show ?thesis using public_view_version by (fastforce simp: stored_def)
qed

lemma runner_start_stored:
  assumes "runner_start (machine_env O1) v i s = (Inr t, s')" "runner_ok s"
  shows "task_stored i v s' \<and> runner_ok s' \<and> (task_stored i v s \<or> sr_worker s' = Some (Some i))"
proof -
  obtain x m where x: "status (machine_env O1) (sr_manager s) = (Inr x, m)"
    "(case sv_task x of
       Some t \<Rightarrow> if tv_id t = i then if tv_to_version t \<noteq> v then conflict ''task_id_conflict''
           else (\<lambda>s. (Inr t, s\<lparr>sr_task := Some t\<rparr>)) else runner_new (machine_env O1) v i
     | None \<Rightarrow> runner_new (machine_env O1) v i) (s\<lparr>sr_manager := m\<rparr>) = (Inr t, s')"
    using assms(1) by (auto simp: runner_start_def bindM_Inr on_manager_Inr)
  have kept: "ps_task (mc_state m) = ps_task (mc_state (sr_manager s))"
    using keeps_status [of "ps_task (mc_state (sr_manager s))" O1] x(1)
    unfolding keeps_def stored_def by (metis snd_conv)
  have shown: "task_view_ok t"
    using runner_start_task [OF assms(1)] assms(2) by (simp add: runner_ok_def)
  let ?s = "s\<lparr>sr_manager := m\<rparr>"
  have same: "task_stored j w ?s = task_stored j w s" for j w
    by (simp add: task_stored_def kept)
  have ok: "runner_ok ?s" using assms(2) by (simp add: runner_ok_def same)
  have new: ?thesis if n: "runner_new (machine_env O1) v i ?s = (Inr t, s')"
  proof (cases "sr_worker s")
    case None
    then obtain m' job where "start (machine_env O1) v (Some i) 0 m = (Inr (t, job), m')"
      "s' = s\<lparr>sr_manager := m', sr_task := Some t, sr_worker := Some job\<rparr>"
      using n by (auto simp: runner_new_def bindM_Inr read_Inr on_manager_Inr)
    with start_stored [of O1 v i 0 m t job m'] shown show ?thesis
      by (auto simp: task_stored_def runner_ok_def kept)
  next
    case (Some w)
    then have "s' = ?s" "sr_task s = Some t" "tv_id t = i" "tv_to_version t = v"
      using n by (auto simp: runner_new_def run_Inr split: option.splits if_splits)
    then show ?thesis using ok Some assms(2) by (auto simp: runner_ok_def same)
  qed
  show ?thesis
  proof (cases "sv_task x")
    case (Some t0)
    show ?thesis
    proof (cases "tv_id t0 = i")
      case True
      then have "t = t0" "tv_to_version t = v" "s' = ?s\<lparr>sr_task := Some t\<rparr>"
        using x(2) Some by (auto simp: conflict_Inr split: if_splits)
      moreover obtain p where "ps_task (mc_state m) = Some p" "ut_id p = tv_id t0"
          "im_version (ut_target p) = tv_to_version t0"
        using status_stored [OF x(1) Some] by blast
      ultimately show ?thesis
        using True kept shown by (auto simp: task_stored_def runner_ok_def)
    next
      case False
      then show ?thesis using x(2) Some new by simp
    qed
  next
    case None
    then show ?thesis using x(2) new by simp
  qed
qed

text \<open>
  The servers that are reached: one that starts without a thread, then requests of any kind, the
  end of a thread, and whatever happens to the host outside the stored state.
\<close>

inductive served :: "'w outside \<Rightarrow> pystr \<Rightarrow> 'w machine server \<Rightarrow> bool" for O1 token where
  started: "served O1 token \<lparr>sr_manager = m, sr_worker = None, sr_task = None\<rparr>"
| asked: "served O1 token s \<Longrightarrow> served O1 token (snd (dispatch (machine_env O1) token r s))"
| worked: "served O1 token s \<Longrightarrow> served O1 token (run_worker (machine_env O1) s)"
| host: "served O1 token s \<Longrightarrow> mc_state m = mc_state (sr_manager s) \<Longrightarrow>
    served O1 token (s\<lparr>sr_manager := m\<rparr>)"

lemma run_route_raised:
  "snd (run_route (bindM (raised m) (\<lambda>v. retM (f v))) s) = snd (m s)"
  by (auto simp: run_route_def bindM_def raised_def retM_def split: prod.split sum.split)

lemma runner_start_failed:
  assumes "runner_start (machine_env O1) v i s = (Inl e, s')" "runner_ok s"
  shows "runner_ok s'"
proof -
  obtain r m where x: "status (machine_env O1) (sr_manager s) = (r, m)" by fastforce
  let ?s = "s\<lparr>sr_manager := m\<rparr>"
  have ok: "runner_ok ?s"
    using on_manager_keeps [OF keeps_status assms(2), of O1] x by (simp add: on_manager_def zoom_def)
  have new: "runner_ok s'" if n: "runner_new (machine_env O1) v i ?s = (Inl e, s')"
  proof (cases "sr_worker s")
    case None
    then have "sr_worker s' = None" "sr_task s' = sr_task s"
      using n by (auto simp: runner_new_def bindM_def readM_def on_manager_def zoom_def split: prod.splits sum.splits)
    then show ?thesis using assms(2) by (simp add: runner_ok_def)
  next
    case (Some w)
    then have "s' = ?s"
      using n by (auto simp: runner_new_def bindM_def readM_def conflict_def raiseM_def retM_def
          split: option.splits if_splits)
    then show ?thesis using ok by simp
  qed
  show ?thesis
    using assms(1) ok new x
    by (auto simp: runner_start_def bindM_def on_manager_def zoom_def conflict_def raiseM_def
        split: sum.splits option.splits if_splits)
qed

lemma runner_start_ok: "runner_ok s \<Longrightarrow> runner_ok (snd (runner_start (machine_env O1) v i s))"
  using runner_start_failed runner_start_stored
  by (metis prod.collapse sum.exhaust)

lemma served_ok: "served O1 token s \<Longrightarrow> runner_ok s"
proof (induction rule: served.induct)
  case (asked s r)
  have "runner_ok (snd (run_route (handle_status (machine_env O1)) s))"
    unfolding handle_status_def run_route_raised by (rule on_manager_keeps [OF keeps_status asked.IH])
  moreover have "runner_ok (snd (run_route (handle_check (machine_env O1) r) s))"
  proof (cases "read_json r []")
    case (Inr ms)
    then have "snd (run_route (handle_check (machine_env O1) r) s)
        = snd (on_manager (check (machine_env O1)) s)"
      unfolding handle_check_def thenM_def liftM_def bindM_def [of "\<lambda>s. (read_json r [], s)"]
      using run_route_raised by (simp add: run_route_def)
    then show ?thesis using on_manager_keeps [OF keeps_check asked.IH] by simp
  qed (simp add: handle_check_def thenM_def liftM_def bindM_def run_route_def asked.IH)
  moreover have "runner_ok (snd (run_route (handle_start (machine_env O1) r) s))"
  proof (cases "bindE (read_json r [lit ''target_version'', lit ''task_id'']) start_fields")
    case (Inr vi)
    then have "snd (run_route (handle_start (machine_env O1) r) s)
        = snd (runner_start (machine_env O1) (fst vi) (snd vi) s)"
      using run_route_raised [of "runner_start (machine_env O1) (fst vi) (snd vi)"]
      by (simp add: handle_start_def liftM_def bindM_def run_route_def case_prod_beta)
    then show ?thesis using runner_start_ok [OF asked.IH] by simp
  qed (simp add: handle_start_def liftM_def bindM_def run_route_def asked.IH)
  ultimately show ?case using asked.IH by (simp add: dispatch_def)
next
  case (worked s)
  then show ?case by (auto simp: run_worker_def runner_ok_def split: option.split)
next
  case (host s m)
  then show ?case by (simp add: runner_ok_def task_stored_def)
qed (simp add: runner_ok_def)

section \<open>An accepted start\<close>

text \<open>
  A line on which anything may be lost: the connection fails before the server has the request
  or after it has dealt with it, or the reply arrives.
\<close>

definition carries :: "'s env \<Rightarrow> pystr \<Rightarrow> (bytes \<Rightarrow> bytes list) \<Rightarrow> 's server transport \<Rightarrow> bool" where
  "carries E token pieces send \<longleftrightarrow> (\<forall>r u.
     send r u \<in> {(ConnectionFailed, u), (ConnectionFailed, snd (dispatch E token r u)), to_server E token pieces r u})"

lemma route_returns:
  fixes m :: "('s server, uexn, 'a) eff"
  assumes "good_token token" "sound_pieces pieces" "code \<in> {200, 202}" "carries E token pieces send"
    and "dispatch E token (client_request token verb path body) s
      = run_route (bindM (raised m) (\<lambda>v. retM (respond code (doc v)))) s"
    and "parse_response parser (send_request send token verb path body code) s = (Inr x, s')"
    and "\<And>v s'. m s = (Inr v, s') \<Longrightarrow> fine_json (doc v)"
  shows "\<exists>v. m s = (Inr v, s') \<and> parser (doc v) = Some x"
proof -
  let ?r = "client_request token verb path body"
  obtain j where j: "send_request send token verb path body code s = (Inr j, s')" "parser j = Some x"
    using assms(6) by (auto simp: parse_response_def run_Inr split: option.splits)
  then have "fst (send ?r s) \<noteq> ConnectionFailed"
    by (auto simp: send_request_def split: prod.splits)
  then have "send ?r s = to_server E token pieces ?r s"
    using assms(4) unfolding carries_def by (metis empty_iff fst_conv insert_iff)
  then have sent: "send_request (to_server E token pieces) token verb path body code s = (Inr j, s')"
    using j(1) by (simp add: send_request_def)
  show ?thesis
  proof (cases "m s")
    case (Pair r s1)
    show ?thesis
    proof (cases r)
      case (Inr v)
      then have v: "m s = (Inr v, s1)" using Pair by simp
      then have "dispatch E token ?r s = (respond code (doc v), s1)"
        by (simp add: assms(5) run_route_def bindM_def raised_def retM_def)
      from send_document [OF assms(1,2) assms(7) [OF v] assms(3) this] sent v j(2)
      show ?thesis by (auto split: if_splits)
    next
      case (Inl e)
      then have "dispatch E token ?r s = (respond_error (exception_status (Raised e)), s1)"
        using Pair by (simp add: assms(5) run_route_def bindM_def raised_def)
      moreover have "exception_status (Raised e) \<in> {400, 401, 404, 405, 409, 503}" by (cases e) simp_all
      ultimately have False using send_error [OF assms(1), of "exception_status (Raised e)"] sent by fastforce
      then show ?thesis ..
    qed
  qed
qed

text \<open>Whatever the line does, the server has dealt with the request once or not at all.\<close>

lemma route_effect:
  assumes "carries E token pieces send"
    and "dispatch E token (client_request token verb path body) s
      = run_route (bindM (raised m) (\<lambda>v. retM (f v))) s"
  shows "snd (parse_response parser (send_request send token verb path body code) s) \<in> {s, snd (m s)}"
proof -
  let ?r = "client_request token verb path body"
  have "snd (to_server E token pieces ?r s) \<in> {s, snd (dispatch E token ?r s)}"
    by (simp add: to_server_def split: prod.split)
  then have "snd (send ?r s) \<in> {s, snd (dispatch E token ?r s)}"
    using assms(1) unfolding carries_def by (metis empty_iff insert_iff snd_conv)
  then have "snd (send ?r s) \<in> {s, snd (m s)}" by (simp add: assms(2) run_route_raised)
  moreover have "snd (parse_response parser (send_request send token verb path body code) s) = snd (send ?r s)"
    by (auto simp: parse_response_def bindM_def send_request_def retM_def raiseM_def
        split: prod.split connection.split sum.split option.split)
  ultimately show ?thesis by simp
qed

lemma parse_task_id:
  assumes "parse_task (task_view_to_dict t) = Some x"
  shows "ct_id x = tv_id t \<and> ct_to_version x = tv_to_version t"
  using assms unfolding parse_task_def task_view_members
  by (auto simp: bind_eq_Some_conv task_view_to_dict_def field_def id_read require_version_def
      split: if_splits)

lemma parse_status_task:
  assumes "parse_status (status_view_to_dict v) = Some x" "cs_task x = Some t"
  shows "\<exists>t0. sv_task v = Some t0 \<and> parse_task (task_view_to_dict t0) = Some t"
  using assms unfolding parse_status_def status_view_members
  by (auto simp: bind_eq_Some_conv status_view_to_dict_def field_def if_present_def task_view_present
      split: option.splits)

text \<open>
  A start that fails leaves the stored task, or it has stored one that no status can show.
\<close>

definition hidden_task :: "'w machine \<Rightarrow> bool" where
  "hidden_task m \<longleftrightarrow> (\<exists>p. ps_task (mc_state m) = Some p \<and> (\<forall>w. public_view p \<noteq> Inr w))"

definition fails_safe :: "update_task option \<Rightarrow> ('w machine, uexn, 'a) eff \<Rightarrow> bool" where
  "fails_safe t f \<longleftrightarrow> (\<forall>m e m'. stored t m \<longrightarrow> f m = (Inl e, m') \<longrightarrow> stored t m' \<or> hidden_task m')"

lemma fails_keeps: "keeps (stored t) f \<Longrightarrow> fails_safe t f"
  unfolding fails_safe_def keeps_def by (metis snd_conv)

lemma fails_bind: "keeps (stored t) m \<Longrightarrow> (\<And>x. fails_safe t (f x)) \<Longrightarrow> fails_safe t (bindM m f)"
  unfolding fails_safe_def keeps_def bindM_def
  by (auto split: prod.splits sum.splits) (metis snd_conv)+

lemma fails_if: "fails_safe t f \<Longrightarrow> fails_safe t g \<Longrightarrow> fails_safe t (if b then f else g)"
  by simp

lemma fails_load: "(\<And>p. fails_safe t (f p)) \<Longrightarrow> fails_safe t (bindM (env_load (machine_env O1)) f)"
  by (rule fails_bind) (simp_all add: keeps_def machine_env_def readM_def)

lemma fails_save:
  "fails_safe t (thenM (env_save (machine_env O1) \<lparr>ps_last_check = c, ps_task = Some task\<rparr>)
     (bindM (liftM (public_view task)) (\<lambda>v. retM (v, Some i))))"
  by (auto simp: fails_safe_def thenM_def bindM_def machine_env_def machine_save_def liftM_def retM_def
      hidden_task_def stored_def split: sum.splits if_splits)

lemma fails_start: "fails_safe t (start (machine_env O1) v (Some i) fresh)"
proof -
  have reject: "keeps (stored t) (reject_active_task p)" for p
    unfolding reject_active_task_def by (auto intro!: keeps_basic split: option.split)
  have fresh: "keeps (stored t) (require_fresh_check (machine_env O1) lc v)" for lc
    unfolding require_fresh_check_def require_matching_repositories_def
    by (auto intro!: keeps_basic keeps_bind keeps_then keeps_platform split: option.split)
  have new: "fails_safe t (start_new (machine_env O1) p v i)" for p
    unfolding start_new_def Let_def thenM_def [of "reject_active_task p"]
    by (intro fails_bind fails_if reject fresh keeps_platform fails_save fails_keeps [OF keeps_basic(5)])
  show ?thesis
    unfolding start_def
  proof (rule fails_load)
    fix p
    have again: "fails_safe t (bindM (liftM (public_view x)) (\<lambda>v. retM (v, job)))" for x and job :: "uuid option"
      by (intro fails_keeps keeps_bind keeps_basic)
    show "fails_safe t (case (Some i, ps_task p) of
       (Some i, Some x) \<Rightarrow>
         if ut_id x = i
         then if im_version (ut_target x) \<noteq> v then conflict ''task_id_conflict''
              else bindM (liftM (public_view x)) (\<lambda>v. retM (v, if ut_stage x = CHECKING then Some i else None))
         else start_new (machine_env O1) p v i
     | (Some i, None) \<Rightarrow> start_new (machine_env O1) p v i
     | (None, _) \<Rightarrow> start_new (machine_env O1) p v fresh)"
    proof (cases "ps_task p")
      case (Some x)
      then show ?thesis
        using new [of p] again [of x] fails_keeps [OF keeps_basic(5)]
        by (simp only: option.case prod.case) (intro fails_if)
    qed (simp add: new)
  qed
qed

lemma runner_start_hidden:
  assumes "runner_start (machine_env O1) v i s = (Inl e, s')"
  shows "stored (ps_task (mc_state (sr_manager s))) (sr_manager s') \<or> hidden_task (sr_manager s')"
proof -
  let ?t = "ps_task (mc_state (sr_manager s))"
  obtain r m where x: "status (machine_env O1) (sr_manager s) = (r, m)" by fastforce
  have m: "stored ?t m"
    using keeps_status [of ?t O1] x unfolding keeps_def stored_def by (metis snd_conv)
  have new: "stored ?t (sr_manager s') \<or> hidden_task (sr_manager s')"
    if n: "runner_new (machine_env O1) v i (s\<lparr>sr_manager := m\<rparr>) = (Inl e, s')"
    using n m fails_start [of ?t O1 v i 0] unfolding fails_safe_def
    by (auto simp: runner_new_def bindM_def readM_def conflict_def raiseM_def retM_def on_manager_def zoom_def
        split: option.splits if_splits prod.splits sum.splits)
  show ?thesis
    using assms m new x
    by (auto simp: runner_start_def bindM_def on_manager_def zoom_def conflict_def raiseM_def
        split: sum.splits option.splits if_splits)
qed

lemma client_status_returns:
  assumes "good_token token" "sound_pieces pieces" "carries (machine_env O1) token pieces send"
    and "client_status_call send token u = (Inr x, u')" "cs_task x = Some t"
  shows "task_stored (ct_id t) (ct_to_version t) u \<and> task_stored (ct_id t) (ct_to_version t) u'
     \<and> \<not> hidden_task (sr_manager u) \<and> sr_worker u' = sr_worker u"
proof -
  have "\<exists>v. on_manager (status (machine_env O1)) u = (Inr v, u') \<and> parse_status (status_view_to_dict v) = Some x"
  proof (rule route_returns [OF assms(1,2) _ assms(3) dispatch_status [OF assms(1)] assms(4) [unfolded client_status_call_def]])
    show "fine_json (status_view_to_dict v)" if "on_manager (status (machine_env O1)) u = (Inr v, s')" for v s'
      using that by (auto simp: on_manager_Inr intro!: fine_status_view dest: status_ok)
  qed simp
  then obtain v m where v: "status (machine_env O1) (sr_manager u) = (Inr v, m)" "u' = u\<lparr>sr_manager := m\<rparr>"
      "parse_status (status_view_to_dict v) = Some x"
    by (auto simp: on_manager_Inr)
  obtain t0 where t0: "sv_task v = Some t0" "parse_task (task_view_to_dict t0) = Some t"
    using parse_status_task [OF v(3) assms(5)] by blast
  obtain p where "ps_task (mc_state m) = Some p" "ps_task (mc_state (sr_manager u)) = Some p"
      "ut_id p = tv_id t0" "im_version (ut_target p) = tv_to_version t0" "public_view p = Inr t0"
    using status_stored [OF v(1) t0(1)] by blast
  then show ?thesis
    using parse_task_id [OF t0(2)] v(2) by (auto simp: task_stored_def hidden_task_def)
qed

lemma client_start_effect:
  assumes "good_token token" "carries E token pieces send" "version_ok v" "length v \<le> 32"
  shows "snd (client_start_call send token v i u) \<in> {u, snd (runner_start E v i u)}"
proof -
  have "snd (client_start_call send token v i u) =
      snd (parse_response parse_task (send_request send token ''POST'' ''/v1/update'' (Some (start_document v i)) 202) u)"
    using assms(3)
    by (auto simp: client_start_call_def start_document_def bindM_def retM_def raiseM_def split: prod.split sum.split)
  then show ?thesis
    using route_effect [OF assms(2) dispatch_start [OF assms(1,3,4)]] by simp
qed

lemma client_start_returns:
  assumes "good_token token" "sound_pieces pieces" "carries E token pieces send" "version_ok v" "length v \<le> 32"
    and "client_start_call send token v i u = (Inr x, u')" "\<forall>t. sr_task u = Some t \<longrightarrow> task_view_ok t"
  shows "\<exists>t. runner_start E v i u = (Inr t, u')"
proof -
  have sent: "parse_response parse_task
      (send_request send token ''POST'' ''/v1/update'' (Some (start_document v i)) 202) u = (Inr x, u')"
    using assms(4,6)
    by (auto simp: client_start_call_def start_document_def bindM_Inr ret_Inr raise_Inr split: if_splits)
  have "\<exists>t. runner_start E v i u = (Inr t, u') \<and> parse_task (task_view_to_dict t) = Some x"
  proof (rule route_returns [OF assms(1,2) _ assms(3) dispatch_start [OF assms(1,4,5)] sent])
    show "fine_json (task_view_to_dict t)" if "runner_start E v i u = (Inr t, s')" for t s'
      using runner_start_task [OF that assms(7)] by (simp add: fine_task_view)
  qed simp
  then show ?thesis by blast
qed

text \<open>What a reservation that lets the start go on has done.\<close>

lemma find_requestD: "find_request rows i = Some q \<Longrightarrow> q \<in> set rows \<and> uq_task_id q = i"
  by (auto simp: find_request_def find_Some_iff)

lemma reserved:
  assumes "reserve_update_request now i a v s = (Inr True, s1)"
  shows "length v \<le> 32 \<and> si_updater s1 = si_updater s
     \<and> (\<exists>q\<in>set (si_requests s1). uq_task_id q = i \<and> uq_target_version q = v \<and> Some (uq_requested_by q) = actor_pk a)"
  using assms
  by (auto simp: reserve_update_request_def Let_def record_audit_def split: if_splits option.splits
      dest!: find_requestD)

text \<open>
  C38. A page that answers a start with 202 is right, whatever the line has lost: the
  updater has the task of that identifier and version stored, it had it before or the thread
  of exactly that task is alive, and the table has the request of the user.
\<close>

theorem accepted_start_is_stored:
  assumes "good_token token" "sound_pieces pieces" "served O1 token (si_updater s)"
    and "carries (machine_env O1) token pieces send"
    and "start_page now (get_updater_client UPDATER_URL token send) r s = (Json 202 doc, s')"
  shows "\<exists>v i. start_request r = Some (v, i) \<and> task_stored i v (si_updater s')
     \<and> (task_stored i v (si_updater s) \<or> sr_worker (si_updater s') = Some (Some i))
     \<and> (\<exists>q\<in>set (si_requests s'). uq_task_id q = i \<and> uq_target_version q = v
          \<and> Some (uq_requested_by q) = actor_pk (pq_user r))"
proof -
  define c where "c = \<lparr>uc_status = client_status_call send token, uc_check = client_check_call send token,
                 uc_start = client_start_call send token\<rparr>"
  have client: "get_updater_client UPDATER_URL token send = Some c"
    using assms(1) by (simp add: get_updater_client_def good_token_def c_def)
  obtain v i s1 where start: "start_request r = Some (v, i)"
    and res: "reserve_update_request now i (pq_user r) v s = (Inr True, s1)"
    and ask: "ask_start c v i s1 = (Json 202 doc, s')"
    using assms(5)
    by (auto simp: start_page_def owner_required_def start_body_def client json_error_def
        split: if_splits option.splits prod.splits sum.splits bool.splits)
  let ?u = "si_updater s"
  note row = reserved [OF res]
  have v: "version_ok v"
    using start by (auto simp: start_request_def bind_eq_Some_conv require_version_def split: if_splits)
  have ok: "runner_ok ?u" by (rule served_ok [OF assms(3)])
  obtain x u1 where st: "client_start_call send token v i ?u = (x, u1)" by fastforce
  have requests: "si_requests s' = si_requests s1"
    using ask by (auto simp: ask_start_def reconcile_start_def on_updater_def zoom_def
        split: prod.splits sum.splits option.splits if_splits)
  have main: "task_stored i v (si_updater s') \<and> (task_stored i v ?u \<or> sr_worker (si_updater s') = Some (Some i))"
  proof (cases x)
    case (Inr t)
    have "\<forall>t. sr_task ?u = Some t \<longrightarrow> task_view_ok t" using ok by (simp add: runner_ok_def)
    then obtain t1 where t1: "runner_start (machine_env O1) v i ?u = (Inr t1, u1)"
      using client_start_returns [OF assms(1,2,4) v _ st [unfolded Inr]] row by blast
    have "ct_id t = i \<and> ct_to_version t = v"
      using st Inr by (auto simp: client_start_call_def run_Inr split: if_splits)
    then have "si_updater s' = u1"
      using ask row st Inr by (auto simp: ask_start_def on_updater_def zoom_def c_def)
    then show ?thesis using runner_start_stored [OF t1 ok] by simp
  next
    case (Inl code)
    then obtain y t u2 where y: "client_status_call send token u1 = (Inr y, u2)" "cs_task y = Some t"
      "ct_id t = i" "ct_to_version t = v" "si_updater s' = u2"
      using ask row st
      by (auto simp: ask_start_def reconcile_start_def on_updater_def zoom_def c_def matching_task_def
          updater_error_def json_error_def split: prod.splits sum.splits option.splits if_splits)
    note same = client_status_returns [OF assms(1,2,4) y(1,2), unfolded y(3,4)]
    have "u1 \<in> {?u, snd (runner_start (machine_env O1) v i ?u)}"
      using client_start_effect [OF assms(1,4) v, of i ?u] row st by simp
    then consider "u1 = ?u" | t1 where "runner_start (machine_env O1) v i ?u = (Inr t1, u1)"
      | e where "runner_start (machine_env O1) v i ?u = (Inl e, u1)"
      by (metis insertE prod.collapse singletonD sum.exhaust)
    then show ?thesis
    proof cases
      case 1
      then show ?thesis using same y(5) by simp
    next
      case 2
      then show ?thesis using runner_start_stored [OF 2 ok] same y(5) by auto
    next
      case 3
      then have "task_stored i v ?u"
        using runner_start_hidden [OF 3] same by (auto simp: task_stored_def stored_def)
      then show ?thesis using same y(5) by simp
    qed
  qed
  then show ?thesis using start row requests by auto
qed

end
