(* ===== verification/Update_Audit.thy ===== *)
theory Update_Audit
  imports Update_Pages Updater_Codec
begin

text \<open>
  The records of the update pages: however the pages are used, every task has one request and
  one start in the audit log, and its end is audited at most once.
\<close>

section \<open>The audit rows of a request\<close>

definition is_start :: "audit_log \<Rightarrow> bool" where
  "is_start a \<longleftrightarrow> au_action a = lit ''system_update.started''"

definition audits_of :: "'u site \<Rightarrow> nat \<Rightarrow> audit_log list" where
  "audits_of s k = filter (\<lambda>a. au_target_type a = lit ''SystemUpdateRequest'' \<and> au_target_id a = str_nat k)
     (audits (si_db s))"

text \<open>What the log has to say of a request: who asked, and how it ended.\<close>

definition request_audited :: "'u site \<Rightarrow> update_request \<Rightarrow> bool" where
  "request_audited s q \<longleftrightarrow>
     map au_actor (filter is_start (audits_of s (uq_id q))) = [uq_requested_by q]
     \<and> map au_action (filter (\<lambda>a. \<not> is_start a) (audits_of s (uq_id q)))
         = (if uq_terminal_recorded_at q = None then [] else [lit ''system_update.'' @ uq_result q])
     \<and> (if uq_terminal_recorded_at q = None then uq_result q = Result_ACTIVE
        else uq_result q \<in> set page_terminal_stages)"

definition well_recorded :: "'u site \<Rightarrow> bool" where
  "well_recorded s \<longleftrightarrow> distinct (map uq_task_id (si_requests s)) \<and> distinct (map uq_id (si_requests s))
     \<and> (\<forall>q\<in>set (si_requests s). uq_id q < si_next_id s \<and> request_audited s q)
     \<and> (\<forall>k\<ge>si_next_id s. audits_of s k = [])"

lemma str_nat_inj: "str_nat m = str_nat n \<longleftrightarrow> m = n"
  using version_part_iff by (metis option.inject)

lemma start_not_terminal: "x \<in> set page_terminal_stages \<Longrightarrow> lit ''system_update.'' @ x \<noteq> lit ''system_update.started''"
  by (auto simp: page_terminal_stages_def lit_def)

lemma well_recorded_cong:
  assumes "well_recorded s" "si_requests s' = si_requests s" "si_next_id s' = si_next_id s"
    and "\<And>k. audits_of s' k = audits_of s k"
  shows "well_recorded s'"
  using assms by (simp add: well_recorded_def request_audited_def)

text \<open>A key taken from the sequence and not used.\<close>

lemma well_recorded_skip: "well_recorded s \<Longrightarrow> well_recorded (s\<lparr>si_next_id := Suc (si_next_id s)\<rparr>)"
  by (auto simp: well_recorded_def request_audited_def audits_of_def)

lemma find_request_none: "find_request rows i = None \<Longrightarrow> i \<notin> uq_task_id ` set rows"
  by (auto simp: find_request_def find_None_iff)

lemma audit_row_written:
  assumes "record_audit now a action target changes d = Inr d'"
  shows "\<exists>pk. actor_pk a = Some pk \<and> d' = d\<lparr>audits := audits d @
     [\<lparr>au_actor = pk, au_action = action, au_target_type = tgt_type target,
       au_target_id = the (tgt_pk target), au_changes = changes, au_created_at = now\<rparr>]\<rparr>"
  using assms by (auto simp: record_audit_def split: if_splits)

lemma reserve_recorded:
  assumes "well_recorded s" "reserve_update_request now i a v s = (r, s')"
  shows "well_recorded s'"
proof (cases "s' = s\<lparr>si_next_id := Suc (si_next_id s)\<rparr>")
  case True
  then show ?thesis using well_recorded_skip [OF assms(1)] by simp
next
  case False
  let ?k = "si_next_id s"
  obtain d where none: "find_request (si_requests s) i = None"
    and d: "record_audit now a (lit ''system_update.started'') (request_target ?k)
        (JObj [(lit ''task_id'', JStr (uuid_str i)), (lit ''target_version'', JStr v)]) (si_db s) = Inr d"
    and s': "s' = s\<lparr>si_next_id := Suc ?k, si_db := d,
        si_requests := si_requests s @ [\<lparr>uq_id = ?k, uq_task_id = i, uq_requested_by = the (actor_pk a),
           uq_target_version = v, uq_result = Result_ACTIVE, uq_terminal_recorded_at = None\<rparr>]\<rparr>"
    using assms(2) False by (auto simp: reserve_update_request_def Let_def split: if_splits option.splits sum.splits)
  obtain x where x: "audits d = audits (si_db s) @ [x]" "au_target_type x = lit ''SystemUpdateRequest''"
    "au_target_id x = str_nat ?k" "is_start x" "au_actor x = the (actor_pk a)"
    using audit_row_written [OF d] by (auto simp: request_target_def is_start_def)
  have audits: "audits_of s' k = (if k = ?k then audits_of s k @ [x] else audits_of s k)" for k
    using x by (simp add: s' audits_of_def str_nat_inj)
  have "audits_of s ?k = []" using assms(1) by (simp add: well_recorded_def)
  then have "request_audited s' \<lparr>uq_id = ?k, uq_task_id = i, uq_requested_by = the (actor_pk a),
      uq_target_version = v, uq_result = Result_ACTIVE, uq_terminal_recorded_at = None\<rparr>"
    using x(4,5) by (simp add: request_audited_def audits)
  moreover have "request_audited s' q" if "q \<in> set (si_requests s)" for q
    using that assms(1) audits by (auto simp: well_recorded_def request_audited_def)
  ultimately show ?thesis
    using assms(1) find_request_none [OF none] audits
    by (auto simp: well_recorded_def s' less_Suc_eq)
qed

lemma terminal_recorded:
  assumes "well_recorded s" "record_terminal_audit now t s = Inr s'"
  shows "well_recorded s'"
proof (cases "s' = s")
  case False
  then obtain q d where stage: "ct_stage t \<in> set page_terminal_stages"
    and q: "find_request (si_requests s) (ct_id t) = Some q" "uq_terminal_recorded_at q = None"
    and d: "record_audit now (saved_user (uq_requested_by q)) (lit ''system_update.'' @ ct_stage t)
        (request_target (uq_id q)) (JObj [(lit ''task_id'', JStr (uuid_str (ct_id t))),
           (lit ''target_version'', JStr (uq_target_version q)), (lit ''stage'', JStr (ct_stage t)),
           (lit ''rolled_back'', JBool (ct_rolled_back t)), (lit ''cleanup'', JStr (ct_cleanup t)),
           (lit ''error_code'', JStr (ct_error_code t))]) (si_db s) = Inr d"
    and s': "s' = s\<lparr>si_db := d, si_requests := map (\<lambda>x. if uq_id x = uq_id q
        then x\<lparr>uq_result := ct_stage t, uq_terminal_recorded_at := Some now\<rparr> else x) (si_requests s)\<rparr>"
    using assms(2) by (auto simp: record_terminal_audit_def bindE_Inr_iff split: if_splits option.splits)
  obtain x where x: "audits d = audits (si_db s) @ [x]" "au_target_type x = lit ''SystemUpdateRequest''"
    "au_target_id x = str_nat (uq_id q)" "au_action x = lit ''system_update.'' @ ct_stage t"
    using audit_row_written [OF d] by (auto simp: request_target_def)
  have end_row: "\<not> is_start x" using x(4) start_not_terminal [OF stage] by (simp add: is_start_def)
  have audits: "audits_of s' k = (if k = uq_id q then audits_of s k @ [x] else audits_of s k)" for k
    using x by (simp add: s' audits_of_def str_nat_inj)
  have mem: "q \<in> set (si_requests s)" using q(1) by (auto simp: find_request_def find_Some_iff)
  have only: "y = q" if "y \<in> set (si_requests s)" "uq_id y = uq_id q" for y
    using that mem assms(1) by (auto simp: well_recorded_def distinct_map inj_on_def)
  have "request_audited s' (q\<lparr>uq_result := ct_stage t, uq_terminal_recorded_at := Some now\<rparr>)"
    using assms(1) mem q(2) stage end_row x(4) by (auto simp: well_recorded_def request_audited_def audits)
  moreover have "request_audited s' y" if "y \<in> set (si_requests s)" "uq_id y \<noteq> uq_id q" for y
    using that assms(1) by (auto simp: well_recorded_def request_audited_def audits)
  ultimately have rows: "\<forall>y\<in>set (si_requests s'). request_audited s' y"
    using only by (auto simp: s')
  have ids: "map uq_task_id (si_requests s') = map uq_task_id (si_requests s)"
    "map uq_id (si_requests s') = map uq_id (si_requests s)" by (auto simp: s')
  have "uq_id q < si_next_id s" using assms(1) mem by (simp add: well_recorded_def)
  then have "audits_of s' k = []" if "si_next_id s \<le> k" for k
    using that assms(1) audits by (auto simp: well_recorded_def)
  moreover have "\<forall>y\<in>set (si_requests s'). uq_id y < si_next_id s"
    using assms(1) ids(2) by (metis (no_types) image_eqI image_iff list.set_map well_recorded_def)
  moreover have "si_next_id s' = si_next_id s" by (simp add: s')
  ultimately show ?thesis using assms(1) rows ids by (simp add: well_recorded_def)
qed (use assms(1) in simp)

section \<open>Runs of the pages\<close>

text \<open>
  A step of the site: a request to a page, with any client, or a change elsewhere, of the
  updater or of the other tables, that writes no audit row of an update.
\<close>

inductive page_step :: "'u site \<Rightarrow> 'u site \<Rightarrow> bool" where
  index: "page_step s (snd (index_view r s))"
| status: "page_step s (snd (status_page now client r s))"
| check: "page_step s (snd (check_page client r s))"
| start: "page_step s (snd (start_page now client r s))"
| elsewhere: "audits d = audits (si_db s) @ rows \<Longrightarrow>
    \<forall>a\<in>set rows. au_target_type a \<noteq> lit ''SystemUpdateRequest'' \<Longrightarrow>
    page_step s (s\<lparr>si_db := d, si_updater := u\<rparr>)"

lemma on_updater_recorded:
  assumes "on_updater m s = (x, s')" "well_recorded s"
  shows "well_recorded s'"
  by (rule well_recorded_cong [OF assms(2)])
    (use assms(1) in \<open>auto simp: on_updater_def zoom_def audits_of_def split: prod.splits\<close>)

lemma reconcile_recorded:
  "reconcile_start c i v s = (x, s') \<Longrightarrow> well_recorded s \<Longrightarrow> well_recorded s'"
  by (auto simp: reconcile_start_def split: prod.splits sum.splits dest: on_updater_recorded)

lemma ask_recorded: "ask_start c v i s = (x, s') \<Longrightarrow> well_recorded s \<Longrightarrow> well_recorded s'"
  by (auto simp: ask_start_def split: prod.splits sum.splits option.splits if_splits
      dest!: on_updater_recorded reconcile_recorded)

lemma owner_recorded:
  assumes "\<And>x s'. view r s = (x, s') \<Longrightarrow> well_recorded s'" "well_recorded s"
  shows "well_recorded (snd (owner_required verb view r s))"
  using assms by (cases "view r s") (simp add: owner_required_def)

lemma page_step_recorded: "page_step s s' \<Longrightarrow> well_recorded s \<Longrightarrow> well_recorded s'"
proof (induction rule: page_step.induct)
  case (index s r)
  then show ?case unfolding index_view_def by (intro owner_recorded) simp_all
next
  case (status s now client r)
  show ?case unfolding status_page_def
    by (rule owner_recorded [OF _ status])
      (auto simp: status_body_def status split: option.splits prod.splits sum.splits
        dest: on_updater_recorded [OF _ status] dest!: terminal_recorded [rotated])
next
  case (check s client r)
  show ?case unfolding check_page_def
    by (rule owner_recorded [OF _ check])
      (auto simp: check_body_def check split: option.splits prod.splits sum.splits if_splits
        dest: on_updater_recorded [OF _ check])
next
  case (start s now client r)
  show ?case unfolding start_page_def
    by (rule owner_recorded [OF _ start])
      (auto simp: start_body_def start split: option.splits prod.splits sum.splits bool.splits
        dest: reserve_recorded [OF start] dest!: ask_recorded)
next
  case (elsewhere d s rows u)
  have "audits_of (s\<lparr>si_db := d, si_updater := u\<rparr>) k = audits_of s k" for k
    using elsewhere(1,2) by (auto simp: audits_of_def filter_empty_conv)
  then show ?case by (intro well_recorded_cong [OF elsewhere(3)]) simp_all
qed

text \<open>
  C39. However the update pages are used, and whatever the updater answers, every task
  identifier has at most one request; the log has exactly one start of it, by the user who asked,
  and one end of it, under the stage in which the task was found, exactly when the request is
  marked as ended.
\<close>

theorem updates_audited_once:
  assumes "page_step\<^sup>*\<^sup>* s s'" "si_requests s = []"
    and "\<forall>a\<in>set (audits (si_db s)). au_target_type a \<noteq> lit ''SystemUpdateRequest''"
  shows "distinct (map uq_task_id (si_requests s'))
     \<and> (\<forall>q\<in>set (si_requests s').
          map au_actor (filter is_start (audits_of s' (uq_id q))) = [uq_requested_by q]
          \<and> map au_action (filter (\<lambda>a. \<not> is_start a) (audits_of s' (uq_id q)))
              = (if uq_terminal_recorded_at q = None then [] else [lit ''system_update.'' @ uq_result q])
          \<and> (uq_terminal_recorded_at q = None \<longleftrightarrow> uq_result q = Result_ACTIVE))"
proof -
  have "well_recorded s"
    using assms(2,3) by (auto simp: well_recorded_def audits_of_def filter_empty_conv)
  with assms(1) have "well_recorded s'"
    by (induction rule: rtranclp_induct) (auto dest: page_step_recorded)
  then show ?thesis
    by (auto simp: well_recorded_def request_audited_def page_terminal_stages_def lit_def split: if_splits)
qed

end
