(* ===== verification/Update_Samples.thy ===== *)
theory Update_Samples
  imports Update_Properties Update_Audit Updater_Samples
begin

text \<open>
  The properties of the update pages on a small site: an owner, a server whose manager has
  just stored a task, and the request that started it, sent again.
\<close>

definition sample_token :: pystr where
  "sample_token = lit ''0123456789abcdef0123456789abcdef''"

definition whole :: "bytes \<Rightarrow> bytes list" where
  "whole b = (if b = [] then [] else [b])"

definition sample_server :: "bool machine server" where
  "sample_server = \<lparr>sr_manager = sample_at sample_started, sr_worker = None, sr_task = None\<rparr>"

abbreviation sample_line :: "bool machine server transport" where
  "sample_line \<equiv> to_server (machine_env sample_outside) sample_token whole"

definition owner_actor :: actor where
  "owner_actor = saved_user 2"

definition sample_request :: page_request where
  "sample_request = \<lparr>pq_method = lit ''POST'', pq_user = owner_actor,
     pq_content_type = Some (lit ''application/json''), pq_content_length = lit ''90'',
     pq_body = json_body (start_document sample_new_version sample_task_id)\<rparr>"

definition sample_site :: "bool machine server site" where
  "sample_site = \<lparr>si_requests = [], si_next_id = 1,
     si_db = empty_db\<lparr>users := [\<lparr>user_pk = 2, user_groups = [role_value OWNER]\<rparr>]\<rparr>,
     si_updater = sample_server\<rparr>"

lemma sample_token_good: "good_token sample_token"
proof -
  have chars: "48 \<le> c \<and> c < 128" if "c \<in> set sample_token" for c
    using that by (auto simp: sample_token_def lit_def)
  have "encodable sample_token" "header_text sample_token"
    using chars by (fastforce simp: encodable_def list_all_iff scalar_def header_text_def)+
  moreover have "utf8_encode sample_token = sample_token"
    by (rule utf8_encode_ascii) (use chars in blast)
  moreover have "length sample_token = 32" by (simp add: sample_token_def lit_def)
  moreover have "strip sample_token \<noteq> []"
  proof -
    have "48 \<in> set sample_token" by (simp add: sample_token_def lit_def)
    moreover have "\<not> py_space 48" by (simp add: py_space_def)
    ultimately show ?thesis unfolding strip_Nil_iff by blast
  qed
  ultimately show ?thesis by (simp add: good_token_def is_valid_configuration_def)
qed

lemma whole_sound: "sound_pieces whole"
  by (simp add: sound_pieces_def whole_def)

lemma sample_task_view:
  "\<exists>t. public_view sample_task = Inr t \<and> task_times t \<and> tv_id t = sample_task_id
     \<and> tv_to_version t = sample_new_version \<and> length (json_body (task_view_to_dict t)) \<le> 600"
proof -
  have version: "im_version (ut_original sample_task) = sample_old_version" "im_version (ut_target sample_task) = sample_new_version"
    by (simp_all add: sample_task_def new_task_def sample_images_printable)
  have error: "public_error (ut_error_code sample_task) = ([], [])"
    by (simp add: sample_task_def new_task_def public_error_def public_error_messages_def)
  obtain t where t: "public_view sample_task = Inr t"
    using sample_versions by (auto simp: public_view_def version validate_version_def)
  then have v: "t = \<lparr>tv_id = sample_task_id, tv_from_version = sample_old_version,
      tv_to_version = sample_new_version, tv_stage = CHECKING, tv_created_at = 1000000, tv_started_at = None,
      tv_finished_at = None, tv_backup_complete = False, tv_rolled_back = False, tv_cleanup = NOT_RUN,
      tv_error_code = [], tv_error_message = []\<rparr>"
    using sample_versions
    by (simp add: public_view_def version validate_version_def error)
      (simp add: sample_task_def new_task_def)
  have "length (json_body (task_view_to_dict t)) \<le> 600"
    using public_view_ok [OF t] fine_task_view
    by (simp add: json_body_text)
      (simp add: v task_view_to_dict_def sample_times sample_uuid printables printable_lit json_string_empty)
  then show ?thesis
    using t sample_instants by (simp add: v task_times_def valid_time_def)
qed

lemma sample_status:
  "\<exists>x. status (machine_env sample_outside) (sample_at sample_started) = (Inr x, sample_at sample_started)
     \<and> status_times x \<and> sv_latest_version x = Some sample_new_version
     \<and> map_option tv_id (sv_task x) = Some sample_task_id
     \<and> length (json_body (status_view_to_dict x)) \<le> MAX_RESPONSE_BYTES"
proof -
  obtain t where t: "public_view sample_task = Inr t" "task_times t" "tv_id t = sample_task_id"
    "length (json_body (task_view_to_dict t)) \<le> 600"
    using sample_task_view by blast
  define x where "x = \<lparr>sv_current_version = sample_old_version, sv_current_published_at = Some 1767323045000000,
     sv_latest_version = Some sample_new_version, sv_latest_published_at = Some 1767323045000000,
     sv_update_available = True, sv_checked_at = Some 1000000, sv_task = Some t\<rparr>"
  have run: "status (machine_env sample_outside) (sample_at sample_started) = (Inr x, sample_at sample_started)"
    using sample_versions t(1)
    by (simp add: status_def status_from_state_def bindM_def readM_def sample_env sample_at_def sample_machine_def
        sample_started_def sample_check_def liftM_def make_status_view_def validate_version_def
        sample_images_printable x_def)
  have "length (json_body (status_view_to_dict x)) \<le> MAX_RESPONSE_BYTES"
    using fine_status_view [OF status_ok [OF run]] t(4) fine_task_view [OF public_view_ok [OF t(1)]]
    by (simp add: json_body_text)
      (simp add: x_def status_view_to_dict_def sample_times printables printable_lit json_string_empty
        MAX_RESPONSE_BYTES_def)
  moreover have "status_times x"
    using t(2) sample_instants by (simp add: x_def status_times_def valid_time_def)
  ultimately show ?thesis using run t(3) by (auto simp: x_def)
qed

lemma sample_runner:
  "\<exists>t. runner_start (machine_env sample_outside) sample_new_version sample_task_id sample_server
       = (Inr t, sample_server\<lparr>sr_task := Some t\<rparr>)
     \<and> task_times t \<and> length (json_body (task_view_to_dict t)) \<le> MAX_RESPONSE_BYTES"
proof -
  obtain x where x: "status (machine_env sample_outside) (sample_at sample_started) = (Inr x, sample_at sample_started)"
    "status_times x" "map_option tv_id (sv_task x) = Some sample_task_id"
    using sample_status by blast
  then obtain t where t: "sv_task x = Some t" "tv_id t = sample_task_id" by auto
  obtain p where p: "ps_task (mc_state (sample_at sample_started)) = Some p" "public_view p = Inr t"
      "im_version (ut_target p) = tv_to_version t"
    using status_stored [OF x(1) t(1)] by blast
  then have "p = sample_task" by (simp add: sample_at_def sample_started_def)
  then have "tv_to_version t = sample_new_version" "length (json_body (task_view_to_dict t)) \<le> 600" "task_times t"
    using p sample_task_view by auto
  then show ?thesis
    using x t
    by (simp add: runner_start_def bindM_def on_manager_def zoom_def sample_server_def MAX_RESPONSE_BYTES_def)
qed

lemma sample_new_short: "length sample_new_version \<le> 32"
  by (simp add: length_samples)

lemma sample_start_call:
  "\<exists>t u. client_start_call sample_line sample_token sample_new_version sample_task_id sample_server = (Inr t, u)
     \<and> ct_id t = sample_task_id \<and> ct_to_version t = sample_new_version"
proof -
  obtain t where t: "runner_start (machine_env sample_outside) sample_new_version sample_task_id sample_server
       = (Inr t, sample_server\<lparr>sr_task := Some t\<rparr>)" "task_times t"
    "length (json_body (task_view_to_dict t)) \<le> MAX_RESPONSE_BYTES"
    using sample_runner by blast
  have none: "\<forall>t. sr_task sample_server = Some t \<longrightarrow> task_view_ok t" by (simp add: sample_server_def)
  have "client_start_call sample_line sample_token sample_new_version sample_task_id sample_server
      = seen shown_task task_view_to_dict (runner_start (machine_env sample_outside) sample_new_version sample_task_id)
          sample_server"
    by (rule start_seen [OF sample_token_good whole_sound sample_versions(2) sample_new_short _ none])
      (simp add: t)
  then show ?thesis
    using runner_start_task [OF t(1) none] t by (simp add: seen_def shown_task_def)
qed

lemma sample_checks_conflict:
  "\<exists>e. fst (on_manager (check (machine_env sample_outside)) sample_server) = Inl e"
  by (simp add: on_manager_def zoom_def check_def bindM_def thenM_def readM_def sample_env sample_server_def
      sample_at_def sample_started_def reject_active_task_def sample_task_def new_task_def conflict_def raiseM_def)

theorem client_sees_manager_witness:
  "\<exists>x u. client_status_call sample_line sample_token sample_server = (Inr x, u)
     \<and> cs_latest_version x = Some sample_new_version"
proof -
  obtain x where x: "status (machine_env sample_outside) (sample_at sample_started) = (Inr x, sample_at sample_started)"
    "status_times x" "sv_latest_version x = Some sample_new_version"
    "length (json_body (status_view_to_dict x)) \<le> MAX_RESPONSE_BYTES"
    using sample_status by blast
  have run: "on_manager (status (machine_env sample_outside)) sample_server = (Inr x, sample_server)"
    using x(1) by (simp add: on_manager_def zoom_def sample_server_def)
  obtain t where t: "fst (runner_start (machine_env sample_outside) sample_new_version sample_task_id sample_server)
      = Inr t" "task_times t"
    using sample_runner by fastforce
  have "client_status_call sample_line sample_token sample_server
      = seen shown_status status_view_to_dict (on_manager (status (machine_env sample_outside))) sample_server"
    using client_sees_manager [OF sample_token_good whole_sound, of "machine_env sample_outside" sample_server
        sample_new_version sample_task_id] sample_checks_conflict t run x(2) sample_versions(2) sample_new_short
    by (auto simp: sample_server_def)
  then show ?thesis using run x by (simp add: seen_def shown_status_def)
qed

theorem token_guards_witness:
  "snd (dispatch (machine_env sample_outside) sample_token
      \<lparr>rq_method = lit ''POST'', rq_path = lit ''/v1/check'',
       rq_headers = [(lit ''Authorization'', lit ''Bearer guess'')], rq_body = []\<rparr> sample_server) = sample_server"
proof -
  let ?r = "\<lparr>rq_method = lit ''POST'', rq_path = lit ''/v1/check'',
       rq_headers = [(lit ''Authorization'', lit ''Bearer guess'')], rq_body = []\<rparr>"
  have "header_values (rq_headers ?r) ''authorization'' = [lit ''Bearer guess'']"
    by (simp add: header_values_def lit_def lower_ascii_def)
  moreover have "lit ''Bearer guess'' \<noteq> lit ''Bearer '' @ sample_token" by (simp add: lit_def sample_token_def)
  ultimately have "\<not> is_authorized sample_token ?r"
    using token_guards [of sample_token ?r "machine_env sample_outside" sample_server] by simp
  then show ?thesis using token_guards [of sample_token ?r "machine_env sample_outside" sample_server] by blast
qed

section \<open>The page\<close>

lemma sample_start_request: "start_request sample_request = Some (sample_new_version, sample_task_id)"
proof -
  let ?j = "start_document sample_new_version sample_task_id"
  have fine: "fine_json ?j" by (rule start_document_fine [OF sample_versions(2)])
  have "length (json_body ?j) \<le> SYSTEM_UPDATE_MAX_REQUEST_BYTES"
    using start_document_size [OF sample_versions(2), of sample_task_id] sample_new_short
    by (simp add: SYSTEM_UPDATE_MAX_REQUEST_BYTES_def)
  moreover have "int_text (lit ''90'') = Some 90"
    by (simp add: int_text_def lit_def strip_def lstrip_def rstrip_def py_space_def parse_digits_def)
  ultimately have "strict_json_object sample_request [lit ''target_version'', lit ''task_id''] =
      exact_object ?j [lit ''target_version'', lit ''task_id'']"
    using body_strict [OF fine]
    by (simp add: strict_json_object_def sample_request_def SYSTEM_UPDATE_MAX_REQUEST_BYTES_def)
  then show ?thesis
    using sample_versions(2)
    by (simp add: start_request_def start_document_def exact_object_def field_def id_read version_read)
qed

lemma sample_owner: "user_has_role (si_db sample_site) owner_actor OWNER"
  by (simp add: user_has_role_def assigned_roles_def groups_of_def find_row_def sample_site_def owner_actor_def
      saved_user_def all_roles_def)

lemma sample_reserved:
  "\<exists>s1. reserve_update_request now sample_task_id owner_actor sample_new_version sample_site = (Inr True, s1)
     \<and> si_updater s1 = sample_server \<and> length (si_requests s1) = 1"
  using sample_new_short
  by (simp add: reserve_update_request_def Let_def sample_site_def find_request_def record_audit_def user_exists_def
      find_row_def owner_actor_def saved_user_def request_target_def)

lemma sample_start_page:
  "start_page now client sample_request s = start_body now client sample_request s" if "si_db s = si_db sample_site"
  using sample_owner that
  by (simp add: start_page_def owner_required_def sample_request_def)
    (simp add: owner_actor_def saved_user_def)

theorem accepted_start_is_stored_witness:
  "\<exists>doc s' q. start_page 0 (get_updater_client UPDATER_URL sample_token sample_line) sample_request sample_site
       = (Json 202 doc, s')
     \<and> q \<in> set (si_requests s') \<and> uq_task_id q = sample_task_id
     \<and> task_stored sample_task_id sample_new_version (si_updater s')"
proof -
  obtain s1 where s1: "reserve_update_request 0 sample_task_id owner_actor sample_new_version sample_site = (Inr True, s1)"
    "si_updater s1 = sample_server"
    using sample_reserved by blast
  obtain t u where t: "client_start_call sample_line sample_token sample_new_version sample_task_id sample_server = (Inr t, u)"
    "ct_id t = sample_task_id" "ct_to_version t = sample_new_version"
    using sample_start_call by blast
  have client: "get_updater_client UPDATER_URL sample_token sample_line =
      Some \<lparr>uc_status = client_status_call sample_line sample_token, uc_check = client_check_call sample_line sample_token,
        uc_start = client_start_call sample_line sample_token\<rparr>"
    using sample_token_good by (simp add: get_updater_client_def good_token_def)
  have "pq_user sample_request = owner_actor" by (simp add: sample_request_def)
  then obtain doc s' where run: "start_page 0 (get_updater_client UPDATER_URL sample_token sample_line) sample_request
      sample_site = (Json 202 doc, s')"
    using s1 t
    by (simp add: sample_start_page start_body_def sample_start_request client ask_start_def on_updater_def zoom_def)
  have "served sample_outside sample_token (si_updater sample_site)"
    using served.started [of sample_outside sample_token "sample_at sample_started"]
    by (simp add: sample_site_def sample_server_def)
  moreover have "carries (machine_env sample_outside) sample_token whole sample_line" by (simp add: carries_def)
  ultimately show ?thesis
    using accepted_start_is_stored [OF sample_token_good whole_sound _ _ run] run sample_start_request by fastforce
qed

theorem updates_audited_once_witness:
  "\<exists>s' q. page_step\<^sup>*\<^sup>* sample_site s' \<and> q \<in> set (si_requests s')
     \<and> map au_actor (filter is_start (audits_of s' (uq_id q))) = [uq_requested_by q]"
proof -
  obtain s1 where s1: "reserve_update_request 0 sample_task_id owner_actor sample_new_version sample_site = (Inr True, s1)"
    "length (si_requests s1) = 1"
    using sample_reserved by blast
  have "pq_user sample_request = owner_actor" by (simp add: sample_request_def)
  then have "snd (start_page 0 None sample_request sample_site) = s1"
    using s1(1) by (simp add: sample_start_page start_body_def sample_start_request)
  then have step: "page_step\<^sup>*\<^sup>* sample_site s1" using page_step.start [of sample_site 0 None sample_request] by auto
  obtain q where q: "q \<in> set (si_requests s1)" using s1(2) by (cases "si_requests s1") auto
  have "si_requests sample_site = []" "audits (si_db sample_site) = []" by (simp_all add: sample_site_def empty_db_def)
  with updates_audited_once [OF step] q step show ?thesis by auto
qed

end
