(* ===== verification/Spec2Isabelle.thy ===== *)
theory Spec2Isabelle
  imports Recon_Page_Runs Candidate_Properties Import_Samples Import_Page_Properties Ledger_Page_Properties Updater_Properties Platform_Properties Env_Swap_Samples Report_Properties Update_Samples
begin

text \<open>
  Verification library of the finance reconciliation application.
\<close>

end
